(* ===== verification/Prelude.thy ===== *)
theory Prelude
  imports Complex_Main "HOL-Library.Log_Nat"
begin

text \<open>
  Shared vocabulary of the development: the exceptions the modelled Python code can raise, the
  result type every fallible operation returns (\<open>Inl\<close> an exception, \<open>Inr\<close> a value), sequencing and
  iteration over results, and the generic list and arithmetic facts the component theories use.
\<close>

section \<open>Exceptions and results\<close>

text \<open>
  The message of an exception is kept where the code builds one that a caller can read back
  (\<open>str(exc)\<close>); for exceptions raised by the interpreter itself only the class matters.
\<close>

text \<open>The errors of the adversarial review (\<open>adversarial_review/errors.py\<close>) are told apart by their class only.\<close>

datatype review_error =
    AdversarialReviewError
  | InputContractError
  | StaleInputError
  | EvidenceGroundingError
  | InventedEvidenceError
  | ConflictOfInterestError
  | OverrideContractError
  | DispositionError
  | SubprocessBudgetError

datatype py_error =
    AttributeError
  | TypeError
  | KeyError
  | IndexError
  | ZeroDivisionError
  | OverflowError
  | ValueError string
  | FrameValidationError string
  | BridgeError string
  | JSONDecodeError
  | ReviewError review_error
  | FileExistsError
  | FileNotFoundError
  | RecordValidationError

type_synonym 'a result = "py_error + 'a"

abbreviation Ok :: "'a \<Rightarrow> 'a result" where
  "Ok \<equiv> Inr"

abbreviation Raise :: "py_error \<Rightarrow> 'a result" where
  "Raise \<equiv> Inl"

definition bindR :: "'a result \<Rightarrow> ('a \<Rightarrow> 'b result) \<Rightarrow> 'b result" where
  "bindR r f = (case r of Inl e \<Rightarrow> Inl e | Inr x \<Rightarrow> f x)"

named_theorems result_simps "evaluation and inversion of sequenced results"
named_theorems model_defs "definitions unfolded when a model is executed symbolically"

lemma bindR_Inl [simp]: "bindR (Inl e) f = Inl e"
  by (simp add: bindR_def)

lemma bindR_Inr [simp]: "bindR (Inr x) f = f x"
  by (simp add: bindR_def)

lemma bindR_eq_Inr [result_simps]:
  "bindR r f = Inr y \<longleftrightarrow> (\<exists>x. r = Inr x \<and> f x = Inr y)"
  by (cases r) auto

lemma bindR_eq_Inl [result_simps]:
  "bindR r f = Inl e \<longleftrightarrow> r = Inl e \<or> (\<exists>x. r = Inr x \<and> f x = Inl e)"
  by (cases r) auto

lemma bindR_assoc: "bindR (bindR r f) g = bindR r (\<lambda>x. bindR (f x) g)"
  by (cases r) auto

lemma bindR_return [simp]: "bindR r Inr = r"
  by (cases r) auto

lemma bindR_cong [fundef_cong]:
  assumes "r = r'" and "\<And>x. r' = Inr x \<Longrightarrow> f x = f' x"
  shows "bindR r f = bindR r' f'"
  using assms by (cases r') auto

lemma bindR_Inr_elim:
  assumes "bindR r f = Inr y"
  obtains x where "r = Inr x" and "f x = Inr y"
  using assms by (cases r) auto

text \<open>A comprehension or loop whose body may raise stops at the first exception.\<close>

fun mapR :: "('a \<Rightarrow> 'b result) \<Rightarrow> 'a list \<Rightarrow> 'b list result" where
  "mapR f [] = Inr []"
| "mapR f (x # xs) = bindR (f x) (\<lambda>y. bindR (mapR f xs) (\<lambda>ys. Inr (y # ys)))"

fun foldR :: "('s \<Rightarrow> 'a \<Rightarrow> 's result) \<Rightarrow> 's \<Rightarrow> 'a list \<Rightarrow> 's result" where
  "foldR f s [] = Inr s"
| "foldR f s (x # xs) = bindR (f s x) (\<lambda>s'. foldR f s' xs)"

fun filterR :: "('a \<Rightarrow> bool result) \<Rightarrow> 'a list \<Rightarrow> 'a list result" where
  "filterR p [] = Inr []"
| "filterR p (x # xs) =
     bindR (p x) (\<lambda>b. bindR (filterR p xs) (\<lambda>ys. Inr (if b then x # ys else ys)))"

text \<open>\<open>any(...)\<close> and \<open>all(...)\<close> over a generator: short-circuiting, so a later element is not evaluated.\<close>

fun anyR :: "('a \<Rightarrow> bool result) \<Rightarrow> 'a list \<Rightarrow> bool result" where
  "anyR p [] = Inr False"
| "anyR p (x # xs) = bindR (p x) (\<lambda>b. if b then Inr True else anyR p xs)"

fun allR :: "('a \<Rightarrow> bool result) \<Rightarrow> 'a list \<Rightarrow> bool result" where
  "allR p [] = Inr True"
| "allR p (x # xs) = bindR (p x) (\<lambda>b. if b then allR p xs else Inr False)"

lemma mapR_length: "mapR f xs = Inr ys \<Longrightarrow> length ys = length xs"
  by (induction xs arbitrary: ys) (auto simp: result_simps)

lemma mapR_map: "mapR f (map g xs) = mapR (\<lambda>x. f (g x)) xs"
  by (induction xs) simp_all

lemma mapR_total: "(\<And>x. x \<in> set xs \<Longrightarrow> f x = Inr (g x)) \<Longrightarrow> mapR f xs = Inr (map g xs)"
  by (induction xs) auto

lemma mapR_ex: "(\<And>x. x \<in> set xs \<Longrightarrow> \<exists>y. f x = Ok y) \<Longrightarrow> \<exists>ys. mapR f xs = Ok ys"
  by (induction xs) (fastforce simp: bindR_def)+

lemma mapR_nth: "mapR f xs = Inr ys \<Longrightarrow> i < length xs \<Longrightarrow> f (xs ! i) = Inr (ys ! i)"
  by (induction xs arbitrary: ys i) (auto simp: result_simps nth_Cons split: nat.splits)

lemma mapR_set: "mapR f xs = Inr ys \<Longrightarrow> y \<in> set ys \<Longrightarrow> \<exists>x\<in>set xs. f x = Inr y"
  by (induction xs arbitrary: ys) (auto simp: result_simps)

lemma filterR_subset: "filterR p xs = Inr ys \<Longrightarrow> set ys \<subseteq> set xs"
  by (induction xs arbitrary: ys) (auto simp: result_simps split: if_splits)

lemma filterR_total: "(\<And>x. x \<in> set xs \<Longrightarrow> p x = Inr (q x)) \<Longrightarrow> filterR p xs = Inr (filter q xs)"
  by (induction xs) auto

lemma anyR_total: "(\<And>x. x \<in> set xs \<Longrightarrow> p x = Inr (q x)) \<Longrightarrow> anyR p xs = Inr (\<exists>x\<in>set xs. q x)"
  by (induction xs) auto

lemma allR_total: "(\<And>x. x \<in> set xs \<Longrightarrow> p x = Inr (q x)) \<Longrightarrow> allR p xs = Inr (\<forall>x\<in>set xs. q x)"
  by (induction xs) auto

lemma foldR_total: "(\<And>s x. x \<in> set xs \<Longrightarrow> f s x = Inr (g s x)) \<Longrightarrow> foldR f s xs = Inr (foldl g s xs)"
  by (induction xs arbitrary: s) auto

lemma foldR_append: "foldR f s (xs @ ys) = bindR (foldR f s xs) (\<lambda>s'. foldR f s' ys)"
  by (induction xs arbitrary: s) (auto simp: bindR_assoc)

text \<open>An invariant of a fallible loop body holds of the loop's result.\<close>

lemma foldR_invariant:
  assumes "foldR f s xs = Inr s'" and "I s"
    and "\<And>a x b. x \<in> set xs \<Longrightarrow> I a \<Longrightarrow> f a x = Inr b \<Longrightarrow> I b"
  shows "I s'"
  using assms
proof (induction xs arbitrary: s)
  case Nil
  then show ?case by simp
next
  case (Cons x xs)
  from Cons.prems(1) obtain a where a: "f s x = Inr a" and rest: "foldR f a xs = Inr s'"
    by (auto simp: result_simps)
  have "I a"
    using Cons.prems(2) Cons.prems(3) [of x s a] a by simp
  moreover have "\<And>b y c. y \<in> set xs \<Longrightarrow> I b \<Longrightarrow> f b y = Inr c \<Longrightarrow> I c"
    using Cons.prems(3) by (meson list.set_intros(2))
  ultimately show ?case
    using Cons.IH [OF rest] by blast
qed

section \<open>Decimal strings\<close>

definition digit_char :: "int \<Rightarrow> char" where
  "digit_char d = char_of (48 + nat d)"

text \<open>The decimal digits of a non-negative integer.\<close>

function show_digits :: "int \<Rightarrow> string" where
  "show_digits n =
     (if n < 10 then [digit_char n] else show_digits (n div 10) @ [digit_char (n mod 10)])"
  by pat_completeness auto
termination
  by (relation "measure nat") auto

declare show_digits.simps [simp del]

definition show_int :: "int \<Rightarrow> string" where
  "show_int i = (if i < 0 then ''-'' @ show_digits (- i) else show_digits i)"

definition show_nat :: "nat \<Rightarrow> string" where
  "show_nat n = show_digits (int n)"

lemma show_digits_not_Nil [simp]: "show_digits n \<noteq> []"
  by (subst show_digits.simps) simp

definition join :: "string \<Rightarrow> string list \<Rightarrow> string" where
  "join sep xs = (case xs of [] \<Rightarrow> [] | y # ys \<Rightarrow> y @ concat (map (\<lambda>z. sep @ z) ys))"

end
