(* ===== verification/PyFloat.thy ===== *)
theory PyFloat
  imports Prelude
begin

text \<open>
  Python's \<open>float\<close>: IEEE 754 binary64 with round-to-nearest-even, signed zero, infinities and NaN.
  A finite non-zero value is the rational number it denotes; each arithmetic operation is the exact
  rational operation followed by \<open>rnd64\<close>. The theory also models the parts of the language that
  read or print floats: comparison, \<open>max\<close>/\<open>min\<close>, \<open>abs\<close>, \<open>round(x, n)\<close>, the compensated \<open>sum\<close> of Python
  3.12 (the version \<open>pyproject.toml\<close> requires), fixed-point formatting and the shortest \<open>repr\<close>. The
  lemmas bound the result of rounded arithmetic: \<open>fbound k x\<close> says that \<open>x\<close> is finite and at most
  \<open>2 ^ k\<close> in absolute value.
\<close>

section \<open>Rounding a rational to binary64\<close>

definition round_half_even :: "rat \<Rightarrow> int" where
  "round_half_even x =
     (let f = \<lfloor>x\<rfloor>; d = x - of_int f in
      if d < 1 / 2 then f else if 1 / 2 < d then f + 1 else if even f then f else f + 1)"

definition pow2 :: "int \<Rightarrow> rat" where
  "pow2 k = (if 0 \<le> k then 2 ^ nat k else 1 / 2 ^ nat (- k))"

text \<open>\<open>2 ^ ilog2 x \<le> x < 2 ^ (ilog2 x + 1)\<close> for positive \<open>x\<close>.\<close>

definition ilog2 :: "rat \<Rightarrow> int" where
  "ilog2 x =
     (let (n, d) = quotient_of x; e = bitlen n - bitlen d in if pow2 e \<le> x then e else e - 1)"

text \<open>The exponent of the unit in the last place: 53 significant bits, never below the subnormals.\<close>

definition ulp_exp :: "rat \<Rightarrow> int" where
  "ulp_exp x = max (ilog2 \<bar>x\<bar> - 52) (- 1074)"

definition rnd64 :: "rat \<Rightarrow> rat" where
  "rnd64 x =
     (if x = 0 then 0
      else let q = ulp_exp x in of_int (round_half_even (x / pow2 q)) * pow2 q)"

section \<open>Float values and their operations\<close>

datatype flt = Num rat | NegZero | PosInf | NegInf | NaN

definition fval :: "flt \<Rightarrow> rat" where
  "fval x = (case x of Num r \<Rightarrow> r | _ \<Rightarrow> 0)"

definition is_finite :: "flt \<Rightarrow> bool" where
  "is_finite x = (case x of Num _ \<Rightarrow> True | NegZero \<Rightarrow> True | _ \<Rightarrow> False)"

definition is_nan :: "flt \<Rightarrow> bool" where
  "is_nan x \<longleftrightarrow> x = NaN"

text \<open>The sign bit.\<close>

definition fsign :: "flt \<Rightarrow> bool" where
  "fsign x = (case x of Num r \<Rightarrow> r < 0 | NegZero \<Rightarrow> True | PosInf \<Rightarrow> False | NegInf \<Rightarrow> True | NaN \<Rightarrow> False)"

text \<open>Round an exact result; \<open>neg\<close> is the sign a zero result takes.\<close>

definition mkf :: "bool \<Rightarrow> rat \<Rightarrow> flt" where
  "mkf neg x =
     (let r = rnd64 x in
      if r = 0 then (if neg then NegZero else Num 0)
      else if 2 ^ 1024 \<le> r then PosInf
      else if r \<le> - (2 ^ 1024) then NegInf
      else Num r)"

text \<open>A decimal literal of the source denotes the nearest binary64 value.\<close>

definition lit :: "rat \<Rightarrow> flt" where
  "lit x = mkf (x < 0) x"

definition fint :: "int \<Rightarrow> flt" where
  "fint n = mkf False (of_int n)"

definition fbool :: "bool \<Rightarrow> flt" where
  "fbool b = (if b then Num 1 else Num 0)"

definition fneg :: "flt \<Rightarrow> flt" where
  "fneg x = (case x of Num r \<Rightarrow> if r = 0 then NegZero else Num (- r) | NegZero \<Rightarrow> Num 0
                     | PosInf \<Rightarrow> NegInf | NegInf \<Rightarrow> PosInf | NaN \<Rightarrow> NaN)"

definition fabs :: "flt \<Rightarrow> flt" where
  "fabs x = (case x of Num r \<Rightarrow> Num \<bar>r\<bar> | NegZero \<Rightarrow> Num 0 | PosInf \<Rightarrow> PosInf | NegInf \<Rightarrow> PosInf | NaN \<Rightarrow> NaN)"

definition fadd :: "flt \<Rightarrow> flt \<Rightarrow> flt" where
  "fadd x y =
     (if is_nan x \<or> is_nan y then NaN
      else if x = PosInf then (if y = NegInf then NaN else PosInf)
      else if x = NegInf then (if y = PosInf then NaN else NegInf)
      else if y = PosInf \<or> y = NegInf then y
      else if x = NegZero \<and> y = NegZero then NegZero
      else mkf False (fval x + fval y))"

definition fsub :: "flt \<Rightarrow> flt \<Rightarrow> flt" where
  "fsub x y = fadd x (fneg y)"

definition fmul :: "flt \<Rightarrow> flt \<Rightarrow> flt" where
  "fmul x y =
     (let neg = (fsign x \<noteq> fsign y) in
      if is_nan x \<or> is_nan y then NaN
      else if is_finite x \<and> is_finite y then mkf neg (fval x * fval y)
      else if (is_finite x \<and> fval x = 0) \<or> (is_finite y \<and> fval y = 0) then NaN
      else if neg then NegInf else PosInf)"

text \<open>Division by a divisor that is not zero; \<open>py_fdiv\<close> adds Python's exception.\<close>

definition fdiv :: "flt \<Rightarrow> flt \<Rightarrow> flt" where
  "fdiv x y =
     (let neg = (fsign x \<noteq> fsign y) in
      if is_nan x \<or> is_nan y then NaN
      else if is_finite x \<and> is_finite y then mkf neg (fval x / fval y)
      else if is_finite x then (if neg then NegZero else Num 0)
      else if is_finite y then (if neg then NegInf else PosInf)
      else NaN)"

definition py_fdiv :: "flt \<Rightarrow> flt \<Rightarrow> flt result" where
  "py_fdiv x y = (if is_finite y \<and> fval y = 0 then Raise ZeroDivisionError else Ok (fdiv x y))"

text \<open>True division of two integers rounds the exact quotient once.\<close>

definition int_div :: "int \<Rightarrow> int \<Rightarrow> flt" where
  "int_div a b = mkf ((a < 0) \<noteq> (b < 0)) (of_int a / of_int b)"

definition flt_less :: "flt \<Rightarrow> flt \<Rightarrow> bool" where
  "flt_less x y =
     (if is_nan x \<or> is_nan y then False
      else if x = NegInf then y \<noteq> NegInf
      else if y = PosInf then x \<noteq> PosInf
      else if x = PosInf \<or> y = NegInf then False
      else fval x < fval y)"

definition flt_eq :: "flt \<Rightarrow> flt \<Rightarrow> bool" where
  "flt_eq x y =
     (if is_nan x \<or> is_nan y then False
      else if is_finite x \<and> is_finite y then fval x = fval y
      else x = y)"

definition flt_le :: "flt \<Rightarrow> flt \<Rightarrow> bool" where
  "flt_le x y \<longleftrightarrow> flt_less x y \<or> flt_eq x y"

text \<open>\<open>max(a, b)\<close> and \<open>min(a, b)\<close> keep the first argument unless the second is strictly better.\<close>

definition py_max :: "flt \<Rightarrow> flt \<Rightarrow> flt" where
  "py_max a b = (if flt_less a b then b else a)"

definition py_min :: "flt \<Rightarrow> flt \<Rightarrow> flt" where
  "py_min a b = (if flt_less b a then b else a)"

section \<open>The built-in \<open>sum\<close> over floats\<close>

text \<open>
  Python 3.12 sums floats with Neumaier's compensation. The first addition is to the integer
  start value 0; the compensation is added at the end when it is finite and not zero.
\<close>

fun sum_loop :: "flt \<Rightarrow> flt \<Rightarrow> flt list \<Rightarrow> flt" where
  "sum_loop s c [] = (if is_finite c \<and> fval c \<noteq> 0 then fadd s c else s)"
| "sum_loop s c (x # xs) =
     (let t = fadd s x in
      sum_loop t
        (fadd c (if flt_le (fabs x) (fabs s) then fadd (fsub s t) x else fadd (fsub x t) s)) xs)"

definition py_sum :: "flt list \<Rightarrow> flt" where
  "py_sum xs = (case xs of [] \<Rightarrow> Num 0 | x # ys \<Rightarrow> sum_loop (fadd (Num 0) x) (Num 0) ys)"

section \<open>Decimal rounding and printing\<close>

definition py_round :: "nat \<Rightarrow> flt \<Rightarrow> flt" where
  "py_round n x =
     (case x of Num r \<Rightarrow> mkf (r < 0) (of_int (round_half_even (r * 10 ^ n)) / 10 ^ n) | _ \<Rightarrow> x)"

definition pad_left :: "nat \<Rightarrow> string \<Rightarrow> string" where
  "pad_left n s = replicate (n - length s) (digit_char 0) @ s"

text \<open>\<open>format(x, ".nf")\<close> of the absolute value, for \<open>n\<close> at least 1.\<close>

definition fixed_digits :: "nat \<Rightarrow> rat \<Rightarrow> string" where
  "fixed_digits n r =
     (let k = round_half_even (\<bar>r\<bar> * 10 ^ n) in
      show_digits (k div 10 ^ n) @ ''.'' @ pad_left n (show_digits (k mod 10 ^ n)))"

definition fmt_fixed :: "nat \<Rightarrow> flt \<Rightarrow> string" where
  "fmt_fixed n x =
     (case x of Num r \<Rightarrow> (if r < 0 then ''-'' else []) @ fixed_digits n r
              | NegZero \<Rightarrow> ''-'' @ fixed_digits n 0
              | PosInf \<Rightarrow> ''inf'' | NegInf \<Rightarrow> ''-inf'' | NaN \<Rightarrow> ''nan'')"

text \<open>\<open>format(x, "+.nf")\<close>.\<close>

definition fmt_signed :: "nat \<Rightarrow> flt \<Rightarrow> string" where
  "fmt_signed n x = (if fsign x then fmt_fixed n x else ''+'' @ fmt_fixed n x)"

definition pow10 :: "int \<Rightarrow> rat" where
  "pow10 k = (if 0 \<le> k then 10 ^ nat k else 1 / 10 ^ nat (- k))"

definition ilog10 :: "rat \<Rightarrow> int" where
  "ilog10 x =
     (let (n, d) = quotient_of x;
          e = int (length (show_digits n)) - int (length (show_digits d))
      in if pow10 e \<le> x then e else e - 1)"

text \<open>
  The shortest decimal that reads back as \<open>r\<close>, the closest one where several are shortest:
  a pair \<open>(m, s)\<close> denoting \<open>m * 10 ^ s\<close>. Seventeen digits always suffice.
\<close>

definition repr_candidate :: "rat \<Rightarrow> int \<Rightarrow> (int \<times> int) option" where
  "repr_candidate r s =
     (let y = r / pow10 s; lo = \<lfloor>y\<rfloor>; hi = \<lceil>y\<rceil>;
          ok = (\<lambda>m. rnd64 (of_int m * pow10 s) = r)
      in if ok lo \<and> (\<not> ok hi \<or> y - of_int lo \<le> of_int hi - y) then Some (lo, s)
         else if ok hi then Some (hi, s) else None)"

fun repr_search :: "rat \<Rightarrow> int \<Rightarrow> nat list \<Rightarrow> int \<times> int" where
  "repr_search r e [] = (round_half_even (r / pow10 (e - 16)), e - 16)"
| "repr_search r e (n # ns) =
     (case repr_candidate r (e - int n) of Some p \<Rightarrow> p | None \<Rightarrow> repr_search r e ns)"

definition strip_zeros :: "string \<Rightarrow> string" where
  "strip_zeros s = rev (dropWhile (\<lambda>c. c = digit_char 0) (rev s))"

definition repr_pos :: "rat \<Rightarrow> string" where
  "repr_pos r =
     (let (m, s) = repr_search r (ilog10 r) [0..<17];
          raw = show_digits m;
          point = int (length raw) + s;
          ds = strip_zeros raw
      in if - 4 < point \<and> point \<le> 16
         then (if point \<le> 0 then ''0.'' @ replicate (nat (- point)) (digit_char 0) @ ds
               else if int (length ds) \<le> point
               then ds @ replicate (nat point - length ds) (digit_char 0) @ ''.0''
               else take (nat point) ds @ ''.'' @ drop (nat point) ds)
         else take 1 ds @ (if length ds = 1 then [] else ''.'' @ drop 1 ds) @ ''e'' @
              (if point - 1 < 0 then ''-'' else ''+'') @ pad_left 2 (show_digits \<bar>point - 1\<bar>))"

definition py_repr :: "flt \<Rightarrow> string" where
  "py_repr x =
     (case x of Num r \<Rightarrow> if r = 0 then ''0.0'' else if r < 0 then ''-'' @ repr_pos (- r) else repr_pos r
              | NegZero \<Rightarrow> ''-0.0'' | PosInf \<Rightarrow> ''inf'' | NegInf \<Rightarrow> ''-inf'' | NaN \<Rightarrow> ''nan'')"

text \<open>A finite value of absolute value at most \<open>2 ^ k\<close>.\<close>

definition fbound :: "int \<Rightarrow> flt \<Rightarrow> bool" where
  "fbound k x \<longleftrightarrow> is_finite x \<and> \<bar>fval x\<bar> \<le> pow2 k"

section \<open>Facts about rounding\<close>

lemma pow2_pos [simp]: "0 < pow2 k"
  by (simp add: pow2_def)

lemma pow2_nonneg [simp]: "0 \<le> pow2 k"
  using pow2_pos [of k] by linarith

lemma pow2_nz [simp]: "pow2 k \<noteq> 0"
  using pow2_pos [of k] by linarith

lemma pow2_not_neg [simp]: "\<not> pow2 k < 0"
  using pow2_pos [of k] by linarith

lemma pow2_conv: "pow2 k = 2 powi k"
  by (simp add: pow2_def power_int_def power_one_over divide_simps)

lemma pow2_add: "pow2 (j + k) = pow2 j * pow2 k"
  by (simp add: pow2_conv power_int_add)

lemma pow2_diff: "pow2 (j - k) = pow2 j / pow2 k"
  by (simp add: pow2_conv power_int_diff)

lemma pow2_mono: "j \<le> k \<Longrightarrow> pow2 j \<le> pow2 k"
  unfolding pow2_conv by (rule power_int_increasing) auto

lemma pow2_less_cancel: "pow2 j < pow2 k \<Longrightarrow> j < k"
  using pow2_mono [of k j] by (meson not_le)

lemma pow2_0 [simp]: "pow2 0 = 1"
  by (simp add: pow2_def)

lemma pow2_Suc: "pow2 (k + 1) = 2 * pow2 k"
  by (simp add: pow2_add) (simp add: pow2_def)

lemma pow2_int: "0 \<le> k \<Longrightarrow> pow2 k = of_int (2 ^ nat k)"
  by (simp add: pow2_def)

lemma bitlen_pow2:
  assumes "0 < n"
  shows "pow2 (bitlen n - 1) \<le> of_int n" and "of_int n < pow2 (bitlen n)"
proof -
  have pos: "0 < bitlen n"
    using assms by (metis bitlen_eq_zero_iff bitlen_nonneg order_le_less not_le)
  from bitlen_bounds [OF assms] have "2 ^ nat (bitlen n - 1) \<le> n" and "n < 2 ^ nat (bitlen n)"
    by auto
  with pos show "pow2 (bitlen n - 1) \<le> of_int n" and "of_int n < pow2 (bitlen n)"
    by (simp_all only: pow2_int of_int_le_iff of_int_less_iff)
qed

lemma ilog2_bounds:
  assumes "0 < x"
  shows "pow2 (ilog2 x) \<le> x" and "x < pow2 (ilog2 x + 1)"
proof -
  obtain n d where nd: "quotient_of x = (n, d)"
    by fastforce
  from nd have d: "0 < d"
    by (rule quotient_of_denom_pos)
  from nd have x: "x = of_int n / of_int d"
    by (rule quotient_of_div)
  with assms d have n: "0 < n"
    by (simp add: zero_less_divide_iff)
  define e where "e = bitlen n - bitlen d"
  have "x < pow2 (bitlen n) / pow2 (bitlen d - 1)"
    unfolding x using bitlen_pow2 [OF n] bitlen_pow2 [OF d] d
    by (intro frac_less) (auto simp: n order_less_imp_le)
  also have "\<dots> = pow2 (e + 1)"
    by (simp add: e_def pow2_diff [symmetric] algebra_simps)
  finally have up: "x < pow2 (e + 1)" .
  have "pow2 (bitlen n - 1) / pow2 (bitlen d) \<le> x"
    unfolding x using bitlen_pow2 [OF n] bitlen_pow2 [OF d] d
    by (intro frac_le) (auto simp: n order_less_imp_le)
  moreover have "pow2 (bitlen n - 1) / pow2 (bitlen d) = pow2 (e - 1)"
    by (simp add: e_def pow2_diff [symmetric] algebra_simps)
  ultimately have lo: "pow2 (e - 1) \<le> x"
    by simp
  show "pow2 (ilog2 x) \<le> x" and "x < pow2 (ilog2 x + 1)"
    using up lo by (auto simp: ilog2_def nd e_def Let_def)
qed

lemma ilog2_le:
  assumes "0 < x" and "x \<le> pow2 k"
  shows "ilog2 x \<le> k"
proof -
  have "pow2 (ilog2 x) \<le> pow2 k"
    using ilog2_bounds(1) [OF assms(1)] assms(2) by linarith
  then have "pow2 (ilog2 x) < pow2 (k + 1)"
    by (simp add: pow2_Suc) (use pow2_pos [of k] in linarith)
  then have "ilog2 x < k + 1"
    by (rule pow2_less_cancel)
  then show ?thesis by simp
qed

lemma ilog2_mono:
  assumes "0 < x" and "x \<le> y"
  shows "ilog2 x \<le> ilog2 y"
proof -
  have "pow2 (ilog2 x) < pow2 (ilog2 y + 1)"
    using ilog2_bounds(1) [OF assms(1)] ilog2_bounds(2) [of y] assms by linarith
  then show ?thesis
    using pow2_less_cancel by fastforce
qed

lemma ilog2_ge: "0 < x \<Longrightarrow> pow2 k \<le> x \<Longrightarrow> k \<le> ilog2 x"
  using ilog2_bounds(2) [of x] pow2_less_cancel [of k "ilog2 x + 1"] by linarith

lemma round_half_even_le_int: "x \<le> of_int m \<Longrightarrow> round_half_even x \<le> m"
proof -
  assume le: "x \<le> of_int m"
  then have f: "\<lfloor>x\<rfloor> \<le> m"
    by (metis floor_mono floor_of_int)
  show ?thesis
  proof (cases "\<lfloor>x\<rfloor> = m")
    case True
    with le have "x = of_int m"
      by (metis floor_eq_iff order_antisym)
    then show ?thesis by (simp add: round_half_even_def)
  next
    case False
    with f have "\<lfloor>x\<rfloor> + 1 \<le> m" by simp
    then show ?thesis by (auto simp: round_half_even_def Let_def)
  qed
qed

lemma round_half_even_ge_int: "of_int m \<le> x \<Longrightarrow> m \<le> round_half_even x"
proof -
  assume "of_int m \<le> x"
  then have "m \<le> \<lfloor>x\<rfloor>" by (simp add: le_floor_iff)
  then show ?thesis by (auto simp: round_half_even_def Let_def)
qed

lemma round_half_even_of_int [simp]: "round_half_even (of_int m) = m"
  by (simp add: round_half_even_def)

lemma round_half_even_0 [simp]: "round_half_even 0 = 0"
  using round_half_even_of_int [of 0] by (simp del: round_half_even_of_int)

lemma round_half_even_near: "\<bar>of_int (round_half_even x) - x\<bar> \<le> 1 / 2"
proof -
  have "0 \<le> x - of_int \<lfloor>x\<rfloor>" and "x - of_int \<lfloor>x\<rfloor> < 1"
    by linarith+
  then show ?thesis
    unfolding round_half_even_def Let_def abs_le_iff by (simp del: of_int_floor_le)
qed

lemma round_half_even_mono:
  assumes "x \<le> y"
  shows "round_half_even x \<le> round_half_even y"
proof (cases "\<lfloor>x\<rfloor> = \<lfloor>y\<rfloor>")
  case True
  then show ?thesis using assms by (auto simp: round_half_even_def Let_def)
next
  case False
  then have "\<lfloor>x\<rfloor> + 1 \<le> \<lfloor>y\<rfloor>"
    using floor_mono [OF assms] by simp
  then show ?thesis by (auto simp: round_half_even_def Let_def)
qed

lemma round_half_even_neg: "round_half_even (- x) = - round_half_even x"
proof (cases "x = of_int \<lfloor>x\<rfloor>")
  case True
  then show ?thesis
    by (metis of_int_minus round_half_even_of_int)
next
  case False
  then have f: "\<lfloor>- x\<rfloor> = - \<lfloor>x\<rfloor> - 1"
    by linarith
  have d: "- x - of_int \<lfloor>- x\<rfloor> = 1 - (x - of_int \<lfloor>x\<rfloor>)"
    unfolding f by simp
  show ?thesis
    unfolding round_half_even_def Let_def d by (auto simp: f)
qed

text \<open>A multiple of the unit in the last place bounds the rounded value as it bounds the argument.\<close>

lemma rnd64_le_multiple:
  assumes "x \<noteq> 0" and "x \<le> of_int m * pow2 (ulp_exp x)"
  shows "rnd64 x \<le> of_int m * pow2 (ulp_exp x)"
proof -
  from assms(2) have "x / pow2 (ulp_exp x) \<le> of_int m"
    by (simp add: divide_le_eq)
  then have "round_half_even (x / pow2 (ulp_exp x)) \<le> m"
    by (rule round_half_even_le_int)
  with assms(1) show ?thesis by (simp add: rnd64_def Let_def)
qed

lemma rnd64_ge_multiple:
  assumes "x \<noteq> 0" and "of_int m * pow2 (ulp_exp x) \<le> x"
  shows "of_int m * pow2 (ulp_exp x) \<le> rnd64 x"
proof -
  from assms(2) have "of_int m \<le> x / pow2 (ulp_exp x)"
    by (simp add: le_divide_eq)
  then have "m \<le> round_half_even (x / pow2 (ulp_exp x))"
    by (rule round_half_even_ge_int)
  with assms(1) show ?thesis by (simp add: rnd64_def Let_def)
qed

lemma pow2_multiple:
  assumes "q \<le> k"
  shows "\<exists>m. pow2 k = of_int m * pow2 q"
proof -
  have "pow2 k = pow2 (k - q) * pow2 q"
    by (simp add: pow2_add [symmetric])
  also have "pow2 (k - q) = of_int (2 ^ nat (k - q))"
    using assms by (simp add: pow2_int)
  finally show ?thesis by blast
qed

lemma ulp_exp_le: "x \<noteq> 0 \<Longrightarrow> \<bar>x\<bar> \<le> pow2 k \<Longrightarrow> - 1074 \<le> k \<Longrightarrow> ulp_exp x \<le> k"
  using ilog2_le [of "\<bar>x\<bar>" k] by (simp add: ulp_exp_def)

lemma rnd64_0 [simp]: "rnd64 0 = 0"
  by (simp add: rnd64_def)

lemma ulp_exp_neg [simp]: "ulp_exp (- x) = ulp_exp x"
  by (simp add: ulp_exp_def)

lemma rnd64_neg: "rnd64 (- x) = - rnd64 x"
  by (simp add: rnd64_def Let_def minus_divide_left [symmetric] round_half_even_neg)

lemma rnd64_le_pow2:
  assumes "\<bar>x\<bar> \<le> pow2 k" and "- 1074 \<le> k"
  shows "rnd64 x \<le> pow2 k"
proof (cases "x = 0")
  case False
  obtain m where m: "pow2 k = of_int m * pow2 (ulp_exp x)"
    using pow2_multiple ulp_exp_le False assms by blast
  from assms have "x \<le> of_int m * pow2 (ulp_exp x)"
    unfolding m [symmetric] by linarith
  from rnd64_le_multiple [OF False this] show ?thesis by (simp add: m)
qed simp

text \<open>A power of two that bounds the exact value bounds the rounded one.\<close>

lemma rnd64_abs_le:
  assumes "\<bar>x\<bar> \<le> pow2 k" and "- 1074 \<le> k"
  shows "\<bar>rnd64 x\<bar> \<le> pow2 k"
  using rnd64_le_pow2 [of x k] rnd64_le_pow2 [of "- x" k] assms by (auto simp: rnd64_neg abs_le_iff)

lemma rnd64_nonneg: "0 \<le> x \<Longrightarrow> 0 \<le> rnd64 x"
  using rnd64_ge_multiple [of x 0] by (cases "x = 0") auto

text \<open>A number with at most 53 significant bits is its own rounding.\<close>

lemma rnd64_exact:
  assumes "\<bar>m\<bar> \<le> 2 ^ 53" and "- 1074 \<le> k"
  shows "rnd64 (of_int m * pow2 k) = of_int m * pow2 k"
proof (cases "m = 0")
  case False
  let ?x = "of_int m * pow2 k :: rat"
  have nz: "?x \<noteq> 0" using False by simp
  have abs: "\<bar>?x\<bar> = of_int \<bar>m\<bar> * pow2 k" by (simp add: abs_mult)
  have "of_int \<bar>m\<bar> \<le> (of_int (2 ^ 53) :: rat)"
    using assms(1) by (simp only: of_int_le_iff)
  then have le: "\<bar>?x\<bar> \<le> pow2 (53 + k)"
    unfolding abs pow2_add by (intro mult_right_mono) (simp_all add: pow2_def)
  have "ulp_exp ?x \<le> k \<or> \<bar>m\<bar> = 2 ^ 53"
  proof (cases "\<bar>m\<bar> = 2 ^ 53")
    case False
    with assms(1) have "of_int \<bar>m\<bar> < (of_int (2 ^ 53) :: rat)"
      by (simp only: of_int_less_iff)
    then have "\<bar>?x\<bar> < pow2 (53 + k)"
      unfolding abs pow2_add by (intro mult_strict_right_mono) (simp_all add: pow2_def)
    then have "ilog2 \<bar>?x\<bar> < 53 + k"
      using ilog2_bounds(1) [of "\<bar>?x\<bar>"] nz pow2_less_cancel
      by (metis order_le_less_trans zero_less_abs_iff)
    with assms(2) show ?thesis by (simp add: ulp_exp_def)
  qed simp
  then obtain n where n: "?x = of_int n * pow2 (ulp_exp ?x)"
  proof
    assume "ulp_exp ?x \<le> k"
    then obtain j where "pow2 k = of_int j * pow2 (ulp_exp ?x)"
      using pow2_multiple by blast
    then have "?x = of_int (m * j) * pow2 (ulp_exp ?x)"
      by simp
    then show thesis by (rule that)
  next
    assume "\<bar>m\<bar> = 2 ^ 53"
    then have ax: "\<bar>?x\<bar> = pow2 (53 + k)"
      unfolding abs pow2_add by (simp add: pow2_def)
    have "ulp_exp ?x \<le> 53 + k"
      by (rule ulp_exp_le) (use nz ax assms(2) in auto)
    then obtain j where j: "pow2 (53 + k) = of_int j * pow2 (ulp_exp ?x)"
      using pow2_multiple by blast
    have "?x = of_int (sgn m * j) * pow2 (ulp_exp ?x)"
      using ax j by (cases "0 < m") (auto simp: abs_if mult_less_0_iff False split: if_splits)
    then show thesis by (rule that)
  qed
  have "?x / pow2 (ulp_exp ?x) = of_int n"
    by (subst n) simp
  with nz n show ?thesis
    by (simp add: rnd64_def Let_def)
qed simp

lemma rnd64_small_int: "\<bar>m\<bar> \<le> 2 ^ 53 \<Longrightarrow> rnd64 (of_int m) = of_int m"
  using rnd64_exact [of m 0] by simp


text \<open>Rounding is monotone.\<close>

lemma rnd64_mono_pos:
  assumes "0 < x" and "x \<le> y"
  shows "rnd64 x \<le> rnd64 y"
proof (cases "ulp_exp x = ulp_exp y")
  case True
  have "x / pow2 (ulp_exp y) \<le> y / pow2 (ulp_exp y)"
    using assms(2) by (simp add: divide_right_mono)
  then show ?thesis
    using True assms by (simp add: rnd64_def Let_def round_half_even_mono mult_right_mono)
next
  case False
  have il: "ilog2 x \<le> ilog2 y"
    by (rule ilog2_mono [OF assms])
  with False assms have lt: "ilog2 x < ilog2 y" and ge: "- 1074 \<le> ilog2 y" and uy: "ulp_exp y \<le> ilog2 y"
    by (auto simp: ulp_exp_def)
  have "x \<le> pow2 (ilog2 y)"
    using ilog2_bounds(2) [OF assms(1)] pow2_mono [of "ilog2 x + 1" "ilog2 y"] lt by linarith
  then have a: "rnd64 x \<le> pow2 (ilog2 y)"
    using assms(1) ge by (intro rnd64_le_pow2) auto
  obtain m where m: "pow2 (ilog2 y) = of_int m * pow2 (ulp_exp y)"
    using pow2_multiple [OF uy] by blast
  have "of_int m * pow2 (ulp_exp y) \<le> y"
    using ilog2_bounds(1) [of y] assms unfolding m [symmetric] by simp
  then have "pow2 (ilog2 y) \<le> rnd64 y"
    unfolding m using assms by (intro rnd64_ge_multiple) auto
  with a show ?thesis by linarith
qed

lemma rnd64_mono:
  assumes "x \<le> y"
  shows "rnd64 x \<le> rnd64 y"
proof -
  consider "0 < x" | "x \<le> 0" "0 \<le> y" | "y < 0" by linarith
  then show ?thesis
  proof cases
    case 1
    then show ?thesis by (rule rnd64_mono_pos) (rule assms)
  next
    case 2
    have "rnd64 x \<le> 0"
      using rnd64_nonneg [of "- x"] 2 by (simp add: rnd64_neg)
    moreover have "0 \<le> rnd64 y"
      using 2 by (simp add: rnd64_nonneg)
    ultimately show ?thesis by linarith
  next
    case 3
    then have "rnd64 (- y) \<le> rnd64 (- x)"
      using assms by (intro rnd64_mono_pos) auto
    then show ?thesis by (simp add: rnd64_neg)
  qed
qed

section \<open>Bounds of float arithmetic\<close>

lemma fval_simps [simp]: "fval (Num r) = r" "fval NegZero = 0" "fval NaN = 0"
  by (simp_all add: fval_def)

lemma is_finite_simps [simp]:
  "is_finite (Num r)" "is_finite NegZero" "\<not> is_finite PosInf" "\<not> is_finite NegInf" "\<not> is_finite NaN"
  by (simp_all add: is_finite_def)

lemma is_nan_simps [simp]: "\<not> is_nan (Num r)" "\<not> is_nan NegZero" "is_nan NaN" "\<not> is_nan PosInf" "\<not> is_nan NegInf"
  by (simp_all add: is_nan_def)

lemma is_finite_cases:
  assumes "is_finite x"
  obtains (num) r where "x = Num r" | (neg_zero) "x = NegZero"
  using assms by (cases x) auto

lemma finite_not_special [simp]: "is_finite x \<Longrightarrow> \<not> is_nan x" "is_finite x \<Longrightarrow> x \<noteq> PosInf" "is_finite x \<Longrightarrow> x \<noteq> NegInf"
  by (auto simp: is_nan_def)

text \<open>Float operations stay finite below the overflow threshold, and then are rounded exact operations.\<close>

lemma mkf_finite:
  assumes "\<bar>x\<bar> \<le> pow2 k" and "- 1074 \<le> k" and "k \<le> 1023"
  shows "is_finite (mkf neg x)" and "fval (mkf neg x) = rnd64 x"
proof -
  have "\<bar>rnd64 x\<bar> \<le> pow2 k"
    by (rule rnd64_abs_le) (use assms in auto)
  also have "\<dots> \<le> pow2 1023"
    by (rule pow2_mono) (rule assms(3))
  also have "\<dots> < 2 ^ 1024"
    by (simp add: pow2_def)
  finally have "\<bar>rnd64 x\<bar> < 2 ^ 1024" .
  then have "\<not> 2 ^ 1024 \<le> rnd64 x" and "\<not> rnd64 x \<le> - (2 ^ 1024)"
    by (simp_all only: abs_less_iff not_le) linarith
  then show "is_finite (mkf neg x)" and "fval (mkf neg x) = rnd64 x"
    by (simp_all add: mkf_def Let_def del: power_numeral)
qed

lemma fbound_mkf:
  assumes "\<bar>x\<bar> \<le> pow2 k" and "- 1074 \<le> k" and "k \<le> 1023"
  shows "fbound k (mkf neg x)"
  using mkf_finite [OF assms] rnd64_abs_le [OF assms(1,2)] by (simp add: fbound_def)

lemma fbound_mono: "fbound j x \<Longrightarrow> j \<le> k \<Longrightarrow> fbound k x"
  using pow2_mono [of j k] by (simp add: fbound_def)

lemma fbound_lit:
  assumes "\<bar>x\<bar> \<le> 1"
  shows "fbound 0 (lit x)"
  using assms by (auto simp: lit_def intro: fbound_mkf)

lemma fbound_fbool [simp]: "fbound 0 (fbool b)"
  by (simp add: fbound_def fbool_def)

lemma fbound_fneg [simp]: "fbound k (fneg x) \<longleftrightarrow> fbound k x"
  by (cases x) (auto simp: fbound_def fneg_def)

lemma fval_fneg [simp]: "is_finite x \<Longrightarrow> fval (fneg x) = - fval x"
  by (cases x) (auto simp: fneg_def)

lemma is_finite_fneg [simp]: "is_finite (fneg x) \<longleftrightarrow> is_finite x"
  by (cases x) (auto simp: fneg_def)

lemma fbound_fabs [simp]: "fbound k (fabs x) \<longleftrightarrow> fbound k x"
  by (cases x) (auto simp: fbound_def fabs_def)

lemma fadd_finite_eq:
  assumes "is_finite x" and "is_finite y"
  shows "fadd x y = (if x = NegZero \<and> y = NegZero then NegZero else mkf False (fval x + fval y))"
  using assms by (auto simp: fadd_def)

lemma fbound_fadd:
  assumes "fbound k x" and "fbound k y" and "- 1074 \<le> k" and "k < 1023"
  shows "fbound (k + 1) (fadd x y)"
proof -
  have fin: "is_finite x" "is_finite y" and b: "\<bar>fval x\<bar> \<le> pow2 k" "\<bar>fval y\<bar> \<le> pow2 k"
    using assms by (auto simp: fbound_def)
  have "\<bar>fval x + fval y\<bar> \<le> pow2 (k + 1)"
    using b by (simp add: pow2_Suc)
  then have "fbound (k + 1) (mkf False (fval x + fval y))"
    using assms by (intro fbound_mkf) auto
  then show ?thesis
    by (simp add: fadd_finite_eq [OF fin] fbound_def)
qed

lemma fbound_fsub:
  assumes "fbound k x" and "fbound k y" and "- 1074 \<le> k" and "k < 1023"
  shows "fbound (k + 1) (fsub x y)"
  unfolding fsub_def using assms by (intro fbound_fadd) auto

lemma fbound_fmul:
  assumes "fbound j x" and "fbound k y" and "- 1074 \<le> j + k" and "j + k \<le> 1023"
  shows "fbound (j + k) (fmul x y)"
proof -
  have fin: "is_finite x" "is_finite y" and b: "\<bar>fval x\<bar> \<le> pow2 j" "\<bar>fval y\<bar> \<le> pow2 k"
    using assms by (auto simp: fbound_def)
  have "\<bar>fval x * fval y\<bar> \<le> pow2 (j + k)"
    unfolding abs_mult pow2_add using b by (intro mult_mono) auto
  then have "fbound (j + k) (mkf (fsign x \<noteq> fsign y) (fval x * fval y))"
    using assms by (intro fbound_mkf) auto
  then show ?thesis
    using fin by (simp add: fmul_def Let_def)
qed

lemma fbound_fdiv_Num:
  assumes "fbound k x" and "\<bar>fval x / r\<bar> \<le> pow2 j" and "- 1074 \<le> j" and "j \<le> 1023"
  shows "fbound j (fdiv x (Num r))"
proof -
  have "is_finite x"
    using assms(1) by (simp add: fbound_def)
  then have "fdiv x (Num r) = mkf (fsign x \<noteq> fsign (Num r)) (fval x / r)"
    by (simp add: fdiv_def Let_def)
  then show ?thesis
    using fbound_mkf [OF assms(2-4)] by simp
qed

lemma fbound_not_nan: "fbound k x \<Longrightarrow> \<not> is_nan x"
  by (auto simp: fbound_def)

text \<open>Overflow is decided by the exponent alone.\<close>

lemma ge_pow2_iff_ilog2: "0 < r \<Longrightarrow> pow2 k \<le> r \<longleftrightarrow> k \<le> ilog2 r"
  using ilog2_ge [of r k] ilog2_bounds(1) [of r] pow2_mono [of k "ilog2 r"] by (auto intro: order_trans)

lemma mkf_code [code]:
  "mkf neg x =
     (let r = rnd64 x in
      if r = 0 then (if neg then NegZero else Num 0)
      else if 1024 \<le> ilog2 \<bar>r\<bar> then (if 0 < r then PosInf else NegInf)
      else Num r)"
proof -
  define c :: rat where "c = 2 ^ 1024"
  have p: "c = pow2 1024"
    by (simp add: c_def pow2_def)
  have big: "c \<le> \<bar>r\<bar> \<longleftrightarrow> 1024 \<le> ilog2 \<bar>r\<bar>" if "r \<noteq> 0" for r :: rat
    unfolding p using that by (intro ge_pow2_iff_ilog2) simp
  have pos: "0 < c"
    by (simp add: p)
  show ?thesis
    unfolding mkf_def Let_def c_def [symmetric]
    using big [of "rnd64 x"] pos by (auto simp: abs_if)
qed

text \<open>Comparison of finite values is comparison of the numbers they denote.\<close>

lemma flt_less_finite: "is_finite x \<Longrightarrow> is_finite y \<Longrightarrow> flt_less x y \<longleftrightarrow> fval x < fval y"
  by (auto simp: flt_less_def)

lemma flt_eq_finite: "is_finite x \<Longrightarrow> is_finite y \<Longrightarrow> flt_eq x y \<longleftrightarrow> fval x = fval y"
  by (auto simp: flt_eq_def)

lemma flt_le_finite: "is_finite x \<Longrightarrow> is_finite y \<Longrightarrow> flt_le x y \<longleftrightarrow> fval x \<le> fval y"
  by (auto simp: flt_le_def flt_less_finite flt_eq_finite)

lemma flt_eq_refl [simp]: "flt_eq x x \<longleftrightarrow> \<not> is_nan x"
  by (cases x) (auto simp: flt_eq_def)

lemma flt_less_irrefl [simp]: "\<not> flt_less x x"
  by (cases x) (auto simp: flt_less_def)

lemma fsub_self: "is_finite x \<Longrightarrow> fval (fsub x x) = 0 \<and> is_finite (fsub x x)"
  by (cases x) (auto simp: fsub_def fadd_def fneg_def mkf_def)

lemma py_round_finite_0 [simp]: "py_round n (Num 0) = Num 0" "py_round n NegZero = NegZero"
  by (simp_all add: py_round_def mkf_def)

end
