(* ===== verification/PyJson.thy ===== *)
theory PyJson
  imports PyFloat "HOL-Library.Char_ord" "HOL-Library.List_Lexorder"
begin

text \<open>
  The Python values frames are made of (what \<open>json.load\<close> produces): a datatype, and the language
  operations the code applies to them. A dict is an association list in insertion order with
  distinct keys. Strings are UTF-8 byte sequences. Operations that raise return a \<open>result\<close>.
\<close>

section \<open>Values\<close>

datatype json =
    JNull
  | JBool bool
  | JInt int
  | JFloat flt
  | JStr string
  | JList "json list"
  | JObj "(string \<times> json) list"

section \<open>Truth, lookup and iteration\<close>

definition truthy :: "json \<Rightarrow> bool" where
  "truthy v =
     (case v of JNull \<Rightarrow> False | JBool b \<Rightarrow> b | JInt i \<Rightarrow> i \<noteq> 0 | JFloat f \<Rightarrow> \<not> flt_eq f (Num 0)
              | JStr s \<Rightarrow> s \<noteq> [] | JList xs \<Rightarrow> xs \<noteq> [] | JObj kvs \<Rightarrow> kvs \<noteq> [])"

text \<open>\<open>a or b\<close>\<close>

definition py_or :: "json \<Rightarrow> json \<Rightarrow> json" where
  "py_or a b = (if truthy a then a else b)"

text \<open>\<open>d.get(k, default)\<close>: an \<open>AttributeError\<close> on anything but a dict.\<close>

definition jget_or :: "json \<Rightarrow> string \<Rightarrow> json \<Rightarrow> json result" where
  "jget_or v k d =
     (case v of JObj kvs \<Rightarrow> Ok (case map_of kvs k of None \<Rightarrow> d | Some w \<Rightarrow> w) | _ \<Rightarrow> Raise AttributeError)"

abbreviation jget :: "json \<Rightarrow> string \<Rightarrow> json result" where
  "jget v k \<equiv> jget_or v k JNull"

text \<open>The same lookups on a value known to be a dict.\<close>

type_synonym dict = "(string \<times> json) list"

definition dget_or :: "dict \<Rightarrow> string \<Rightarrow> json \<Rightarrow> json" where
  "dget_or d k v = (case map_of d k of None \<Rightarrow> v | Some w \<Rightarrow> w)"

abbreviation dget :: "dict \<Rightarrow> string \<Rightarrow> json" where
  "dget d k \<equiv> dget_or d k JNull"

text \<open>\<open>d[k] = v\<close>: an existing key keeps its position.\<close>

fun dset :: "('k \<times> 'v) list \<Rightarrow> 'k \<Rightarrow> 'v \<Rightarrow> ('k \<times> 'v) list" where
  "dset [] k v = [(k, v)]"
| "dset ((k', v') # d) k v = (if k' = k then (k, v) # d else (k', v') # dset d k v)"

text \<open>The code points of a string, each with the bytes that continue it.\<close>

definition continues :: "char \<Rightarrow> bool" where
  "continues c \<longleftrightarrow> (of_char c :: nat) div 64 = 2"

definition add_char :: "char \<Rightarrow> string list \<Rightarrow> string list" where
  "add_char c cs = (case cs of [] \<Rightarrow> [[c]] | t # ts \<Rightarrow> if continues (hd t) then (c # t) # ts else [c] # cs)"

definition chars_of :: "string \<Rightarrow> string list" where
  "chars_of s = foldr add_char s []"

text \<open>\<open>for x in v\<close>: a list's elements, a dict's keys, a string's characters.\<close>

definition py_iter :: "json \<Rightarrow> json list result" where
  "py_iter v =
     (case v of JList xs \<Rightarrow> Ok xs | JObj kvs \<Rightarrow> Ok (map (\<lambda>(k, _). JStr k) kvs)
              | JStr s \<Rightarrow> Ok (map JStr (chars_of s)) | _ \<Rightarrow> Raise TypeError)"

text \<open>\<open>len\<close> of a string counts code points: the bytes that do not continue one.\<close>

definition py_len :: "json \<Rightarrow> int result" where
  "py_len v =
     (case v of JList xs \<Rightarrow> Ok (int (length xs)) | JObj kvs \<Rightarrow> Ok (int (length kvs))
              | JStr s \<Rightarrow> Ok (int (length (filter (\<lambda>c. (of_char c :: nat) div 64 \<noteq> 2) s)))
              | _ \<Rightarrow> Raise TypeError)"

definition is_dict :: "json \<Rightarrow> bool" where
  "is_dict v = (case v of JObj _ \<Rightarrow> True | _ \<Rightarrow> False)"

definition is_str :: "json \<Rightarrow> bool" where
  "is_str v = (case v of JStr _ \<Rightarrow> True | _ \<Rightarrow> False)"

text \<open>\<open>isinstance(v, (int, float))\<close>; a \<open>bool\<close> is an \<open>int\<close>.\<close>

definition is_number :: "json \<Rightarrow> bool" where
  "is_number v = (case v of JBool _ \<Rightarrow> True | JInt _ \<Rightarrow> True | JFloat _ \<Rightarrow> True | _ \<Rightarrow> False)"

definition is_bool :: "json \<Rightarrow> bool" where
  "is_bool v = (case v of JBool _ \<Rightarrow> True | _ \<Rightarrow> False)"

section \<open>Equality\<close>

definition num_eq :: "json \<Rightarrow> json \<Rightarrow> bool option" where
  "num_eq a b =
     (let view = (\<lambda>v. case v of JBool x \<Rightarrow> Some (Inl (if x then 1 else 0)) | JInt i \<Rightarrow> Some (Inl i)
                              | JFloat f \<Rightarrow> Some (Inr f) | _ \<Rightarrow> None) in
      case (view a, view b) of
        (Some (Inl i), Some (Inl j)) \<Rightarrow> Some (i = j)
      | (Some (Inl i), Some (Inr f)) \<Rightarrow> Some (is_finite f \<and> of_int i = fval f)
      | (Some (Inr f), Some (Inl i)) \<Rightarrow> Some (is_finite f \<and> of_int i = fval f)
      | (Some (Inr f), Some (Inr g)) \<Rightarrow> Some (flt_eq f g)
      | _ \<Rightarrow> None)"

text \<open>
  \<open>a == b\<close>. Numbers compare across \<open>bool\<close>, \<open>int\<close> and \<open>float\<close>; dicts compare without regard to order.
  Two NaN objects are never equal.
\<close>

fun py_eq :: "json \<Rightarrow> json \<Rightarrow> bool"
  and py_eq_list :: "json list \<Rightarrow> json list \<Rightarrow> bool"
  and py_eq_dict :: "dict \<Rightarrow> dict \<Rightarrow> bool" where
  "py_eq (JList xs) w = (case w of JList ys \<Rightarrow> py_eq_list xs ys | _ \<Rightarrow> False)"
| "py_eq (JObj d) w = (case w of JObj e \<Rightarrow> length d = length e \<and> py_eq_dict d e | _ \<Rightarrow> False)"
| "py_eq (JStr s) w = (w = JStr s)"
| "py_eq JNull w = (w = JNull)"
| "py_eq (JBool b) w = (num_eq (JBool b) w = Some True)"
| "py_eq (JInt i) w = (num_eq (JInt i) w = Some True)"
| "py_eq (JFloat f) w = (num_eq (JFloat f) w = Some True)"
| "py_eq_list [] ys = (ys = [])"
| "py_eq_list (x # xs) ys = (case ys of [] \<Rightarrow> False | y # zs \<Rightarrow> py_eq x y \<and> py_eq_list xs zs)"
| "py_eq_dict [] e = True"
| "py_eq_dict (kv # d) e =
     ((case map_of e (fst kv) of None \<Rightarrow> False | Some w \<Rightarrow> py_eq (snd kv) w) \<and> py_eq_dict d e)"

section \<open>Text of strings\<close>

definition hex_char :: "nat \<Rightarrow> char" where
  "hex_char d = (if d < 10 then char_of (48 + d) else char_of (87 + d))"

definition hex2 :: "nat \<Rightarrow> string" where
  "hex2 n = [hex_char (n div 16 mod 16), hex_char (n mod 16)]"

text \<open>\<open>repr\<close> of a string; bytes from 128 on belong to printable code points and are kept.\<close>

definition quote_char :: "string \<Rightarrow> char" where
  "quote_char s = (if char_of (39::nat) \<in> set s \<and> char_of (34::nat) \<notin> set s then char_of (34::nat) else char_of (39::nat))"

definition repr_char :: "char \<Rightarrow> char \<Rightarrow> string" where
  "repr_char q c =
     (let n = (of_char c :: nat) in
      if c = q \<or> n = 92 then [char_of (92::nat), c]
      else if n = 10 then [char_of (92::nat)] @ ''n''
      else if n = 13 then [char_of (92::nat)] @ ''r''
      else if n = 9 then [char_of (92::nat)] @ ''t''
      else if n < 32 \<or> n = 127 then [char_of (92::nat)] @ ''x'' @ hex2 n
      else [c])"

definition repr_str :: "string \<Rightarrow> string" where
  "repr_str s = (let q = quote_char s in [q] @ concat (map (repr_char q) s) @ [q])"

section \<open>Numbers from values\<close>

definition is_digit :: "char \<Rightarrow> bool" where
  "is_digit c \<longleftrightarrow> 48 \<le> (of_char c :: nat) \<and> (of_char c :: nat) \<le> 57"

definition is_space :: "char \<Rightarrow> bool" where
  "is_space c \<longleftrightarrow> (let n = (of_char c :: nat) in (9 \<le> n \<and> n \<le> 13) \<or> (28 \<le> n \<and> n \<le> 32))"

definition strip :: "string \<Rightarrow> string" where
  "strip s = rev (dropWhile is_space (rev (dropWhile is_space s)))"

definition lower_char :: "char \<Rightarrow> char" where
  "lower_char c = (let n = (of_char c :: nat) in if 65 \<le> n \<and> n \<le> 90 then char_of (n + 32) else c)"

text \<open>A run of digits, single underscores allowed between them: its value, its length, the rest.\<close>

fun scan_digits :: "string \<Rightarrow> int \<Rightarrow> nat \<Rightarrow> int \<times> nat \<times> string" where
  "scan_digits [] v n = (v, n, [])"
| "scan_digits (c # cs) v n =
     (if is_digit c then scan_digits cs (10 * v + (int (of_char c) - 48)) (n + 1)
      else if c = CHR ''_'' \<and> 0 < n \<and> cs \<noteq> [] \<and> is_digit (hd cs) then scan_digits cs v n
      else (v, n, c # cs))"

definition scan_sign :: "string \<Rightarrow> bool \<times> string" where
  "scan_sign s =
     (case s of c # cs \<Rightarrow> if c = CHR ''-'' then (True, cs) else if c = CHR ''+'' then (False, cs) else (False, s)
              | [] \<Rightarrow> (False, s))"

definition parse_int :: "string \<Rightarrow> int option" where
  "parse_int s =
     (let (neg, t) = scan_sign (strip s); (v, n, rest) = scan_digits t 0 0 in
      if 0 < n \<and> rest = [] then Some (if neg then - v else v) else None)"

definition parse_exponent :: "string \<Rightarrow> int option" where
  "parse_exponent s =
     (case s of [] \<Rightarrow> Some 0
      | c # cs \<Rightarrow>
          if lower_char c = CHR ''e''
          then (let (neg, t) = scan_sign cs; (v, n, rest) = scan_digits t 0 0 in
                if 0 < n \<and> rest = [] then Some (if neg then - v else v) else None)
          else None)"

definition parse_float :: "string \<Rightarrow> flt option" where
  "parse_float s =
     (let (neg, t) = scan_sign (strip s); l = map lower_char t in
      if l = ''inf'' \<or> l = ''infinity'' then Some (if neg then NegInf else PosInf)
      else if l = ''nan'' then Some NaN
      else
        let (v, n, rest) = scan_digits t 0 0;
            (w, m, rest') = (case rest of c # cs \<Rightarrow> if c = CHR ''.'' then scan_digits cs 0 0 else (0, 0, rest)
                                        | [] \<Rightarrow> (0, 0, rest))
        in if n + m = 0 then None
           else map_option
             (\<lambda>e. mkf neg ((if neg then - 1 else 1) * (of_int v + of_int w / 10 ^ m) * pow10 e))
             (parse_exponent rest'))"

definition float_of_int :: "int \<Rightarrow> flt result" where
  "float_of_int i = (let f = fint i in if is_finite f then Ok f else Raise OverflowError)"

text \<open>\<open>float(v)\<close>\<close>

definition py_float :: "json \<Rightarrow> flt result" where
  "py_float v =
     (case v of JFloat f \<Rightarrow> Ok f | JInt i \<Rightarrow> float_of_int i | JBool b \<Rightarrow> Ok (fbool b)
              | JStr s \<Rightarrow> (case parse_float s of Some f \<Rightarrow> Ok f
                          | None \<Rightarrow> Raise (ValueError (''could not convert string to float: '' @ repr_str s)))
              | _ \<Rightarrow> Raise TypeError)"

text \<open>\<open>int(v)\<close>: a float is truncated towards zero.\<close>

definition py_int :: "json \<Rightarrow> int result" where
  "py_int v =
     (case v of JInt i \<Rightarrow> Ok i | JBool b \<Rightarrow> Ok (if b then 1 else 0)
              | JFloat f \<Rightarrow> (if is_finite f then Ok (if fval f < 0 then \<lceil>fval f\<rceil> else \<lfloor>fval f\<rfloor>)
                            else if is_nan f then Raise (ValueError ''cannot convert float NaN to integer'')
                            else Raise OverflowError)
              | JStr s \<Rightarrow> (case parse_int s of Some i \<Rightarrow> Ok i
                          | None \<Rightarrow> Raise (ValueError (''invalid literal for int() with base 10: '' @ repr_str s)))
              | _ \<Rightarrow> Raise TypeError)"

section \<open>Text of values\<close>

fun py_repr_json :: "json \<Rightarrow> string"
  and repr_items :: "json list \<Rightarrow> string list"
  and repr_pairs :: "dict \<Rightarrow> string list" where
  "py_repr_json JNull = ''None''"
| "py_repr_json (JBool b) = (if b then ''True'' else ''False'')"
| "py_repr_json (JInt i) = show_int i"
| "py_repr_json (JFloat f) = py_repr f"
| "py_repr_json (JStr s) = repr_str s"
| "py_repr_json (JList xs) = ''['' @ join '', '' (repr_items xs) @ '']''"
| "py_repr_json (JObj d) = ''{'' @ join '', '' (repr_pairs d) @ ''}''"
| "repr_items [] = []"
| "repr_items (x # xs) = py_repr_json x # repr_items xs"
| "repr_pairs [] = []"
| "repr_pairs (kv # d) = (repr_str (fst kv) @ '': '' @ py_repr_json (snd kv)) # repr_pairs d"

text \<open>\<open>str(v)\<close>, also what an f-string inserts for \<open>{v}\<close>.\<close>

definition py_str :: "json \<Rightarrow> string" where
  "py_str v = (case v of JStr s \<Rightarrow> s | _ \<Rightarrow> py_repr_json v)"

text \<open>\<open>json.dumps(v, sort_keys=True, separators=(",", ":"), ensure_ascii=False)\<close>\<close>

definition dumps_char :: "char \<Rightarrow> string" where
  "dumps_char c =
     (let n = (of_char c :: nat); bs = char_of (92::nat) in
      if n = 34 \<or> n = 92 then [bs, c]
      else if n = 10 then [bs, CHR ''n'']
      else if n = 13 then [bs, CHR ''r'']
      else if n = 9 then [bs, CHR ''t'']
      else if n = 8 then [bs, CHR ''b'']
      else if n = 12 then [bs, CHR ''f'']
      else if n < 32 then [bs] @ ''u00'' @ hex2 n
      else [c])"

definition dumps_str :: "string \<Rightarrow> string" where
  "dumps_str s = [char_of (34::nat)] @ concat (map dumps_char s) @ [char_of (34::nat)]"

definition dumps_float :: "flt \<Rightarrow> string" where
  "dumps_float f = (case f of PosInf \<Rightarrow> ''Infinity'' | NegInf \<Rightarrow> ''-Infinity'' | NaN \<Rightarrow> ''NaN'' | _ \<Rightarrow> py_repr f)"

fun dumps :: "json \<Rightarrow> string"
  and dumps_items :: "json list \<Rightarrow> string list"
  and dumps_pairs :: "dict \<Rightarrow> (string \<times> string) list" where
  "dumps JNull = ''null''"
| "dumps (JBool b) = (if b then ''true'' else ''false'')"
| "dumps (JInt i) = show_int i"
| "dumps (JFloat f) = dumps_float f"
| "dumps (JStr s) = dumps_str s"
| "dumps (JList xs) = ''['' @ join '','' (dumps_items xs) @ '']''"
| "dumps (JObj d) =
     ''{'' @ join '','' (map (\<lambda>(k, t). dumps_str k @ '':'' @ t) (sort_key fst (dumps_pairs d))) @ ''}''"
| "dumps_items [] = []"
| "dumps_items (x # xs) = dumps x # dumps_items xs"
| "dumps_pairs [] = []"
| "dumps_pairs (kv # d) = (fst kv, dumps (snd kv)) # dumps_pairs d"

text \<open>Every float of a value is finite: what \<open>json.dumps(..., allow_nan=False)\<close> accepts.\<close>

fun all_finite :: "json \<Rightarrow> bool" where
  "all_finite (JFloat f) = is_finite f"
| "all_finite (JList xs) = (\<forall>x\<in>set xs. all_finite x)"
| "all_finite (JObj d) = (\<forall>kv\<in>set d. all_finite (snd kv))"
| "all_finite _ = True"

text \<open>Every dict of a value has distinct keys, as Python's dicts have.\<close>

fun wf_json :: "json \<Rightarrow> bool" where
  "wf_json (JList xs) = (\<forall>x\<in>set xs. wf_json x)"
| "wf_json (JObj d) = (distinct (map fst d) \<and> (\<forall>kv\<in>set d. wf_json (snd kv)))"
| "wf_json _ = True"

section \<open>Laws\<close>

lemma jget_or_JObj [simp]: "jget_or (JObj d) k v = Ok (dget_or d k v)"
  by (simp add: jget_or_def dget_or_def)

lemma dget_or_Nil [simp]: "dget_or [] k v = v"
  by (simp add: dget_or_def)

lemma dget_or_Cons [simp]: "dget_or ((k', w) # d) k v = (if k' = k then w else dget_or d k v)"
  by (simp add: dget_or_def)

lemma map_of_dset [simp]: "map_of (dset d k v) = (map_of d)(k \<mapsto> v)"
  by (induction d k v rule: dset.induct) auto

lemma dget_or_dset [simp]: "dget_or (dset d k v) k' w = (if k' = k then v else dget_or d k' w)"
  by (simp add: dget_or_def)

lemma map_fst_dset: "map fst (dset d k v) = (if k \<in> set (map fst d) then map fst d else map fst d @ [k])"
  by (induction d k v rule: dset.induct) auto

lemma distinct_dset: "distinct (map fst d) \<Longrightarrow> distinct (map fst (dset d k v))"
  by (auto simp: map_fst_dset)

lemma py_iter_JList [simp]: "py_iter (JList xs) = Ok xs"
  by (simp add: py_iter_def)

lemma truthy_simps [simp]:
  "\<not> truthy JNull" "truthy (JBool b) = b" "truthy (JInt i) \<longleftrightarrow> i \<noteq> 0" "truthy (JStr s) \<longleftrightarrow> s \<noteq> []"
  "truthy (JList xs) \<longleftrightarrow> xs \<noteq> []" "truthy (JObj d) \<longleftrightarrow> d \<noteq> []"
  by (simp_all add: truthy_def)

lemma num_eq_refl:
  "num_eq (JBool b) (JBool b) = Some True" "num_eq (JInt i) (JInt i) = Some True"
  "num_eq (JFloat f) (JFloat f) = Some (\<not> is_nan f)"
  by (simp_all add: num_eq_def)

text \<open>Equality is reflexive on values without NaN; frames that pass validation have none.\<close>

lemma py_eq_dict_weaken:
  "(\<And>kv. kv \<in> set d \<Longrightarrow> \<exists>w. map_of e (fst kv) = Some w \<and> py_eq (snd kv) w) \<Longrightarrow> py_eq_dict d e"
  by (induction d) (fastforce split: option.splits)+

lemma py_eq_list_refl: "(\<And>x. x \<in> set xs \<Longrightarrow> py_eq x x) \<Longrightarrow> py_eq_list xs xs"
  by (induction xs) auto

lemma py_eq_refl: "all_finite v \<Longrightarrow> wf_json v \<Longrightarrow> py_eq v v"
proof (induction v)
  case (JFloat f)
  then show ?case by (simp add: num_eq_refl)
next
  case (JList xs)
  then show ?case by (simp add: py_eq_list_refl)
next
  case (JObj d)
  have "\<exists>w. map_of d (fst kv) = Some w \<and> py_eq (snd kv) w" if "kv \<in> set d" for kv
    using that JObj by (intro exI [of _ "snd kv"]) (auto simp: snds.simps)
  then show ?case by (simp add: py_eq_dict_weaken)
qed (simp_all add: num_eq_refl)

lemma py_eq_list_append:
  "py_eq_list xs xs' \<Longrightarrow> py_eq_list ys ys' \<Longrightarrow> py_eq_list (xs @ ys) (xs' @ ys')"
  by (induction xs arbitrary: xs') (auto split: list.splits)

end
