(* ===== verification/Hashing.thy ===== *)
theory Hashing
  imports PyJson "HOL-Library.Word"
begin

text \<open>
  Deterministic hashing and identifiers (\<open>psyche/hashing.py\<close>): canonical JSON with floats rounded
  to six decimals, its SHA-256 digest, and frame ids. SHA-256 itself (\<open>hashlib\<close>) is transcribed from
  its standard over 32-bit words.
\<close>

unbundle bit_operations_syntax

section \<open>SHA-256\<close>

type_synonym u32 = "32 word"

definition rotr :: "nat \<Rightarrow> u32 \<Rightarrow> u32" where
  "rotr n x = drop_bit n x OR push_bit (32 - n) x"

definition sha_ch :: "u32 \<Rightarrow> u32 \<Rightarrow> u32 \<Rightarrow> u32" where
  "sha_ch x y z = (x AND y) XOR (NOT x AND z)"

definition sha_maj :: "u32 \<Rightarrow> u32 \<Rightarrow> u32 \<Rightarrow> u32" where
  "sha_maj x y z = (x AND y) XOR (x AND z) XOR (y AND z)"

definition big_sigma0 :: "u32 \<Rightarrow> u32" where
  "big_sigma0 x = rotr 2 x XOR rotr 13 x XOR rotr 22 x"

definition big_sigma1 :: "u32 \<Rightarrow> u32" where
  "big_sigma1 x = rotr 6 x XOR rotr 11 x XOR rotr 25 x"

definition small_sigma0 :: "u32 \<Rightarrow> u32" where
  "small_sigma0 x = rotr 7 x XOR rotr 18 x XOR drop_bit 3 x"

definition small_sigma1 :: "u32 \<Rightarrow> u32" where
  "small_sigma1 x = rotr 17 x XOR rotr 19 x XOR drop_bit 10 x"

text \<open>The round constants: the first 32 bits of the fractional parts of the cube roots of the first 64 primes.\<close>

definition sha_k :: "u32 list" where
  "sha_k =
    [1116352408, 1899447441, 3049323471, 3921009573, 961987163, 1508970993, 2453635748, 2870763221,
     3624381080, 310598401, 607225278, 1426881987, 1925078388, 2162078206, 2614888103, 3248222580,
     3835390401, 4022224774, 264347078, 604807628, 770255983, 1249150122, 1555081692, 1996064986,
     2554220882, 2821834349, 2952996808, 3210313671, 3336571891, 3584528711, 113926993, 338241895,
     666307205, 773529912, 1294757372, 1396182291, 1695183700, 1986661051, 2177026350, 2456956037,
     2730485921, 2820302411, 3259730800, 3345764771, 3516065817, 3600352804, 4094571909, 275423344,
     430227734, 506948616, 659060556, 883997877, 958139571, 1322822218, 1537002063, 1747873779,
     1955562222, 2024104815, 2227730452, 2361852424, 2428436474, 2756734187, 3204031479, 3329325298]"

text \<open>The initial state: likewise of the square roots of the first 8 primes.\<close>

definition sha_h0 :: "u32 list" where
  "sha_h0 = [1779033703, 3144134277, 1013904242, 2773480762, 1359893119, 2600822924, 528734635, 1541459225]"

text \<open>The message padded to a multiple of 64 bytes.\<close>

definition sha_pad :: "nat list \<Rightarrow> nat list" where
  "sha_pad bs =
     (let n = length bs in
      bs @ [128] @ replicate ((119 - n mod 64) mod 64) 0 @
      map (\<lambda>i. (8 * n) div 256 ^ i mod 256) [7, 6, 5, 4, 3, 2, 1, 0])"

fun be_words :: "nat list \<Rightarrow> u32 list" where
  "be_words (a # b # c # d # bs) =
     word_of_nat (((a * 256 + b) * 256 + c) * 256 + d) # be_words bs"
| "be_words _ = []"

text \<open>The message schedule, the most recent word first.\<close>

definition sha_next_word :: "u32 list \<Rightarrow> u32" where
  "sha_next_word rs = small_sigma1 (rs ! 1) + rs ! 6 + small_sigma0 (rs ! 14) + rs ! 15"

fun sha_schedule :: "nat \<Rightarrow> u32 list \<Rightarrow> u32 list" where
  "sha_schedule 0 rs = rev rs"
| "sha_schedule (Suc n) rs = sha_schedule n (sha_next_word rs # rs)"

fun sha_round :: "u32 list \<Rightarrow> u32 \<times> u32 \<Rightarrow> u32 list" where
  "sha_round [a, b, c, d, e, f, g, h] (k, w) =
     (let t1 = h + big_sigma1 e + sha_ch e f g + k + w; t2 = big_sigma0 a + sha_maj a b c
      in [t1 + t2, a, b, c, d + t1, e, f, g])"
| "sha_round hs _ = hs"

definition sha_block :: "u32 list \<Rightarrow> u32 list \<Rightarrow> u32 list" where
  "sha_block hs ws = map2 (+) hs (foldl sha_round hs (zip sha_k (sha_schedule 48 (rev ws))))"

function sha_blocks :: "u32 list \<Rightarrow> u32 list \<Rightarrow> u32 list" where
  "sha_blocks hs ws = (if ws = [] then hs else sha_blocks (sha_block hs (take 16 ws)) (drop 16 ws))"
  by pat_completeness auto
termination
  by (relation "measure (\<lambda>(hs, ws). length ws)") auto

declare sha_blocks.simps [simp del]

definition word_bytes :: "u32 \<Rightarrow> nat list" where
  "word_bytes w = map (\<lambda>i. unat w div 256 ^ i mod 256) [3, 2, 1, 0]"

text \<open>The digest of a byte string, as 32 bytes.\<close>

definition sha256 :: "string \<Rightarrow> nat list" where
  "sha256 s = concat (map word_bytes (sha_blocks sha_h0 (be_words (sha_pad (map of_char s)))))"

definition sha256_hex :: "string \<Rightarrow> string" where
  "sha256_hex s = concat (map hex2 (sha256 s))"

section \<open>Canonical JSON, state hashes and frame ids\<close>

text \<open>\<open>_canonicalize\<close>\<close>

fun canonicalize :: "json \<Rightarrow> json"
  and canonicalize_list :: "json list \<Rightarrow> json list"
  and canonicalize_dict :: "dict \<Rightarrow> dict" where
  "canonicalize (JFloat f) =
     (let rounded = py_round 6 f in JFloat (if flt_eq rounded (Num 0) then Num 0 else rounded))"
| "canonicalize (JObj d) = JObj (canonicalize_dict d)"
| "canonicalize (JList xs) = JList (canonicalize_list xs)"
| "canonicalize v = v"
| "canonicalize_list [] = []"
| "canonicalize_list (x # xs) = canonicalize x # canonicalize_list xs"
| "canonicalize_dict [] = []"
| "canonicalize_dict (kv # d) = (fst kv, canonicalize (snd kv)) # canonicalize_dict d"

definition canonical_json :: "json \<Rightarrow> string" where
  "canonical_json v = dumps (canonicalize v)"

definition state_hash :: "json \<Rightarrow> string" where
  "state_hash v = ''sha256:'' @ sha256_hex (canonical_json v)"

definition frame_id_at :: "string \<Rightarrow> int \<Rightarrow> string \<Rightarrow> nat \<Rightarrow> string" where
  "frame_id_at run_id tick_index kind ordinal =
     run_id @ '':'' @ show_int tick_index @ '':'' @ kind @ '':'' @ show_nat ordinal"

abbreviation frame_id :: "string \<Rightarrow> int \<Rightarrow> string \<Rightarrow> string" where
  "frame_id run_id tick_index kind \<equiv> frame_id_at run_id tick_index kind 0"

section \<open>Shape of digests\<close>

lemma length_sha_round [simp]: "length (sha_round hs kw) = length hs"
  by (induction hs kw rule: sha_round.induct) (auto simp: Let_def)

lemma length_foldl_sha_round [simp]: "length (foldl sha_round hs kws) = length hs"
  by (induction kws arbitrary: hs) auto

lemma length_sha_block [simp]: "length (sha_block hs ws) = length hs"
  by (simp add: sha_block_def)

lemma length_sha_blocks [simp]: "length (sha_blocks hs ws) = length hs"
proof (induction hs ws rule: sha_blocks.induct)
  case (1 hs ws)
  then show ?case by (subst sha_blocks.simps) auto
qed

lemma length_sha256 [simp]: "length (sha256 s) = 32"
proof -
  have "length (concat (map word_bytes ws)) = 4 * length ws" for ws
    by (induction ws) (auto simp: word_bytes_def)
  then show ?thesis by (simp add: sha256_def sha_h0_def)
qed

lemma sha256_byte: "b \<in> set (sha256 s) \<Longrightarrow> b < 256"
  by (auto simp: sha256_def word_bytes_def)

lemma state_hash_not_Nil [simp]: "state_hash v \<noteq> []"
  by (simp add: state_hash_def)

end
