(* ===== verification/Perturbation.thy ===== *)
theory Perturbation
  imports Hashing
begin

text \<open>
  Level-4 interventions: the operation semantics (\<open>interventions/operations.py\<close>) and the set of
  interventions active on one tick (\<open>interventions/perturbation.py\<close>). An intervention is the dict
  of its frame; reading a malformed one raises as the code does. The lemmas describe the null
  operation \<open>restore\<close>: it changes no scalar, blocks nothing and leaves no audit row.
\<close>

section \<open>Operations\<close>

definition SCALAR_OPS :: "string list" where
  "SCALAR_OPS = [''clamp'', ''boost'', ''noise'']"

definition STRUCTURAL_OPS :: "string list" where
  "STRUCTURAL_OPS = [''disable'', ''ablate'']"

text \<open>\<open>_clip(x, lo, hi)\<close> with its default range\<close>

definition op_clip :: "flt \<Rightarrow> flt" where
  "op_clip x = (if flt_less x (Num (- 1)) then Num (- 1) else if flt_less (Num 1) x then Num 1 else x)"

definition deterministic_noise :: "string \<Rightarrow> flt" where
  "deterministic_noise seed =
     (let digest = sha256 seed;
          n = fdiv (fint (foldl (\<lambda>acc b. acc * 256 + int b) 0 (take 8 digest))) (lit (2 ^ 64))
      in op_clip (fsub (fmul (lit 2) n) (Num 1)))"

definition apply_scalar :: "string \<Rightarrow> flt \<Rightarrow> json \<Rightarrow> string option \<Rightarrow> bool \<Rightarrow> flt result" where
  "apply_scalar operation cur value seed clip =
     bindR
       (if operation = ''clamp'' then py_float value
        else if operation = ''boost'' then bindR (py_float value) (\<lambda>v. Ok (fadd cur v))
        else if operation = ''noise'' then
          bindR (if value = JNull then Ok (Num 1) else py_float value)
            (\<lambda>mag. Ok (fadd cur (fmul mag (deterministic_noise (case seed of Some s \<Rightarrow> s | None \<Rightarrow> ''noise'')))))
        else if operation \<in> set STRUCTURAL_OPS then Ok (Num 0)
        else if operation = ''restore'' then Ok cur
        else Raise (ValueError (''unknown operation: '' @ repr_str operation)))
       (\<lambda>out. Ok (if clip then op_clip out else out))"

section \<open>The active interventions of one tick\<close>

type_synonym perturbation_set = "dict list"

text \<open>\<open>iv.get("target", {}) or {}\<close>\<close>

definition target_of :: "dict \<Rightarrow> json" where
  "target_of iv = py_or (dget_or iv ''target'' (JObj [])) (JObj [])"

text \<open>Membership of a value in a frozenset of strings; lists and dicts are unhashable.\<close>

definition in_strings :: "json \<Rightarrow> string list \<Rightarrow> bool result" where
  "in_strings v xs =
     (case v of JStr s \<Rightarrow> Ok (s \<in> set xs) | JList _ \<Rightarrow> Raise TypeError | JObj _ \<Rightarrow> Raise TypeError | _ \<Rightarrow> Ok False)"

definition matches_one :: "string \<Rightarrow> string \<Rightarrow> dict \<Rightarrow> bool result" where
  "matches_one subsystem dimension iv =
     bindR (jget (target_of iv) ''subsystem'') (\<lambda>sub.
       if \<not> py_eq sub (JStr subsystem) then Ok False
       else bindR (jget (target_of iv) ''dimension'') (\<lambda>iv_dim.
              Ok (iv_dim = JNull \<or> py_eq iv_dim (JStr dimension))))"

text \<open>\<open>_matches\<close>\<close>

definition matching :: "perturbation_set \<Rightarrow> string \<Rightarrow> string \<Rightarrow> dict list result" where
  "matching ivs subsystem dimension = filterR (matches_one subsystem dimension) ivs"

definition scalar_step :: "string \<Rightarrow> string \<Rightarrow> flt \<Rightarrow> dict \<Rightarrow> flt result" where
  "scalar_step subsystem dimension value iv =
     (let op = dget iv ''operation'' in
      bindR (in_strings op SCALAR_OPS) (\<lambda>scalar.
        if \<not> scalar then Ok value
        else apply_scalar (py_str op) value (dget iv ''value'')
               (Some (py_str (dget iv ''experiment_id'') @ '':'' @ subsystem @ '':'' @ dimension)) True))"

definition scalar :: "perturbation_set \<Rightarrow> string \<Rightarrow> string \<Rightarrow> flt \<Rightarrow> flt result" where
  "scalar ivs subsystem dimension current =
     bindR (matching ivs subsystem dimension) (\<lambda>ms. foldR (scalar_step subsystem dimension) current ms)"

text \<open>\<open>_has_structural\<close>\<close>

definition has_structural :: "perturbation_set \<Rightarrow> string \<Rightarrow> string \<Rightarrow> bool result" where
  "has_structural ivs subsystem op =
     anyR (\<lambda>iv. bindR (jget (target_of iv) ''subsystem'') (\<lambda>sub.
                  Ok (py_eq sub (JStr subsystem) \<and> py_eq (dget iv ''operation'') (JStr op)))) ivs"

definition is_disabled :: "perturbation_set \<Rightarrow> string \<Rightarrow> bool result" where
  "is_disabled ivs subsystem = has_structural ivs subsystem ''disable''"

definition is_ablated :: "perturbation_set \<Rightarrow> string \<Rightarrow> bool result" where
  "is_ablated ivs subsystem = has_structural ivs subsystem ''ablate''"

definition blocks :: "perturbation_set \<Rightarrow> string \<Rightarrow> bool result" where
  "blocks ivs subsystem =
     bindR (is_disabled ivs subsystem) (\<lambda>d. if d then Ok True else is_ablated ivs subsystem)"

definition record_row :: "dict \<Rightarrow> json result" where
  "record_row iv =
     bindR (jget (target_of iv) ''subsystem'') (\<lambda>sub.
     bindR (jget (target_of iv) ''dimension'') (\<lambda>dim.
       Ok (JObj [(''experiment_id'', dget iv ''experiment_id''), (''operation'', dget iv ''operation''),
                 (''subsystem'', sub), (''dimension'', dim), (''value'', dget iv ''value'')])))"

definition records :: "perturbation_set \<Rightarrow> json list result" where
  "records ivs = mapR record_row (filter (\<lambda>iv. \<not> py_eq (dget iv ''operation'') (JStr ''restore'')) ivs)"

text \<open>An intervention with an object target; one whose operation is the null operation.\<close>

definition target_ok :: "dict \<Rightarrow> bool" where
  "target_ok iv \<longleftrightarrow> is_dict (target_of iv)"

definition neutral :: "dict \<Rightarrow> bool" where
  "neutral iv \<longleftrightarrow> target_ok iv \<and> dget iv ''operation'' = JStr ''restore''"

section \<open>Facts\<close>

lemma op_clip_range: "\<not> is_nan x \<Longrightarrow> is_finite (op_clip x) \<and> \<bar>fval (op_clip x)\<bar> \<le> 1"
  by (cases x) (auto simp: op_clip_def flt_less_def abs_le_iff)

lemma noise_digest_bound:
  assumes "\<And>b. b \<in> set bs \<Longrightarrow> b < 256"
  shows "0 \<le> foldl (\<lambda>acc b. acc * 256 + int b) 0 bs \<and>
         foldl (\<lambda>acc b. acc * 256 + int b) 0 bs < 256 ^ length bs"
  using assms
proof (induction bs rule: rev_induct)
  case Nil
  then show ?case by simp
next
  case (snoc b bs)
  from snoc.prems have b: "int b < 256" by (simp add: zless_nat_eq_int_zless flip: of_nat_less_iff)
  from snoc have "0 \<le> foldl (\<lambda>acc b. acc * 256 + int b) 0 bs"
    and "foldl (\<lambda>acc b. acc * 256 + int b) 0 bs + 1 \<le> 256 ^ length bs" by auto
  with b show ?case by simp
qed

lemma fint_bound:
  assumes "0 \<le> n" and "n < 2 ^ 64"
  shows "fbound 64 (fint n)"
proof -
  have "of_int \<bar>n\<bar> \<le> (of_int (2 ^ 64) :: rat)"
    using assms by (simp only: of_int_le_iff)
  then have "\<bar>of_int n\<bar> \<le> pow2 64"
    by (simp add: pow2_def)
  then show ?thesis unfolding fint_def by (rule fbound_mkf) auto
qed

text \<open>The jitter of a \<open>noise\<close> intervention is a finite number of absolute value at most one.\<close>

lemma deterministic_noise_bound: "is_finite (deterministic_noise seed) \<and> \<bar>fval (deterministic_noise seed)\<bar> \<le> 1"
proof -
  define n where "n = foldl (\<lambda>acc b. acc * 256 + int b) 0 (take 8 (sha256 seed))"
  have "0 \<le> n \<and> n < 256 ^ length (take 8 (sha256 seed))"
    unfolding n_def by (rule noise_digest_bound) (meson in_set_takeD sha256_byte)
  then have n: "0 \<le> n" "n < 2 ^ 64"
    by simp_all
  then have fn: "fbound 64 (fint n)"
    by (rule fint_bound)
  have "rnd64 (2 ^ 64) = 2 ^ 64"
    using rnd64_exact [of 1 64] by (simp add: pow2_def)
  then have d: "lit (2 ^ 64) = Num (2 ^ 64)"
    using mkf_finite [of "2 ^ 64" 64 False] by (simp add: lit_def mkf_def pow2_def)
  have "\<bar>fval (fint n)\<bar> \<le> pow2 64"
    using fn by (simp add: fbound_def)
  then have "\<bar>fval (fint n) / 2 ^ 64\<bar> \<le> pow2 0"
    by (simp add: pow2_def)
  then have "fbound 0 (fdiv (fint n) (lit (2 ^ 64)))"
    unfolding d using fn by (intro fbound_fdiv_Num [of 64]) auto
  then have "fbound 2 (fmul (lit 2) (fdiv (fint n) (lit (2 ^ 64))))"
    using fbound_fmul [of 2 "lit 2" 0] fbound_mkf [of 2 2 False] by (simp add: lit_def pow2_def)
  then have "fbound 3 (fsub (fmul (lit 2) (fdiv (fint n) (lit (2 ^ 64)))) (Num 1))"
    using fbound_fsub [of 2 _ "Num 1"] by (simp add: fbound_def pow2_def)
  then show ?thesis
    unfolding deterministic_noise_def Let_def n_def [symmetric]
    by (intro op_clip_range fbound_not_nan)
qed

lemma neutral_facts:
  assumes "neutral iv"
  shows "\<exists>d. target_of iv = JObj d" and "dget iv ''operation'' = JStr ''restore''"
  using assms by (auto simp: neutral_def target_ok_def is_dict_def split: json.splits)

lemma neutral_matches_one: "neutral iv \<Longrightarrow> \<exists>b. matches_one s d iv = Ok b"
  using neutral_facts(1) [of iv] by (auto simp: matches_one_def)

lemma neutral_scalar_step [simp]: "neutral iv \<Longrightarrow> scalar_step s d v iv = Ok v"
  by (simp add: scalar_step_def neutral_facts(2) in_strings_def SCALAR_OPS_def)

lemma foldR_neutral: "\<forall>iv\<in>set ms. neutral iv \<Longrightarrow> foldR (scalar_step s d) v ms = Ok v"
  by (induction ms) auto

lemma neutral_matching:
  assumes "\<forall>iv\<in>set ivs. neutral iv"
  shows "\<exists>ms. matching ivs s d = Ok ms \<and> set ms \<subseteq> set ivs"
proof -
  have "\<exists>ms. filterR (matches_one s d) ivs = Ok ms"
    using assms
  proof (induction ivs)
    case (Cons iv ivs)
    then show ?case using neutral_matches_one [of iv s d] by auto
  qed simp
  then obtain ms where "filterR (matches_one s d) ivs = Ok ms" by blast
  with filterR_subset [OF this] show ?thesis by (auto simp: matching_def)
qed

lemma scalar_neutral: "\<forall>iv\<in>set ivs. neutral iv \<Longrightarrow> scalar ivs s d v = Ok v"
  using neutral_matching [of ivs s d] foldR_neutral by (fastforce simp: scalar_def)

lemma has_structural_neutral:
  assumes "\<forall>iv\<in>set ivs. neutral iv" and "op \<noteq> ''restore''"
  shows "has_structural ivs s op = Ok False"
  using assms(1) unfolding has_structural_def
proof (induction ivs)
  case (Cons iv ivs)
  then show ?case
    using neutral_facts [of iv] assms(2) by auto
qed simp

lemma blocks_neutral: "\<forall>iv\<in>set ivs. neutral iv \<Longrightarrow> blocks ivs s = Ok False"
  by (simp add: blocks_def is_disabled_def is_ablated_def has_structural_neutral)

lemma records_neutral: "\<forall>iv\<in>set ivs. neutral iv \<Longrightarrow> records ivs = Ok []"
proof -
  assume "\<forall>iv\<in>set ivs. neutral iv"
  then have "filter (\<lambda>iv. \<not> py_eq (dget iv ''operation'') (JStr ''restore'')) ivs = []"
    by (simp add: filter_empty_conv neutral_facts(2))
  then show ?thesis by (simp add: records_def)
qed

lemmas neutral_simps = scalar_neutral blocks_neutral records_neutral has_structural_neutral

lemma scalar_Nil [simp]: "scalar [] s d v = Ok v"
  by (simp add: scalar_neutral)

lemma blocks_Nil [simp]: "blocks [] s = Ok False"
  by (simp add: blocks_neutral)

lemma records_Nil [simp]: "records [] = Ok []"
  by (simp add: records_neutral)

lemma has_structural_Nil [simp]: "has_structural [] s op = Ok False"
  by (simp add: has_structural_def)

end
