(* ===== verification/Frames.thy ===== *)
theory Frames
  imports Perturbation
begin

text \<open>
  Timelines: grouping a flat stream of input frames into ticks (\<open>replay/frames.py\<close>), the inputs
  and outputs of one psyche tick (\<open>psyche/interface.py\<close>), and the resolution of intervention
  durations into per-tick active sets (\<open>interventions/schedule.py\<close>). The lemmas characterise the
  ticks of a stream and the windows of a schedule.
\<close>

section \<open>Ticks\<close>

record tick =
  tk_index :: nat
  tk_world :: dict
  tk_agent_trace :: "dict option"
  tk_memory :: "dict option"
  tk_governance :: "dict option"
  tk_interventions :: "dict list"

definition frame_kind :: "dict \<Rightarrow> json" where
  "frame_kind frame = dget frame ''frame_kind''"

text \<open>The most recent tick is the one the code mutates through \<open>current\<close>.\<close>

definition update_last :: "('a \<Rightarrow> 'a) \<Rightarrow> 'a list \<Rightarrow> 'a list" where
  "update_last f xs = (if xs = [] then [] else butlast xs @ [f (last xs)])"

definition tick_step :: "tick list \<times> dict option \<Rightarrow> dict \<Rightarrow> tick list \<times> dict option" where
  "tick_step st frame =
     (let (ticks, sticky) = st; kind = frame_kind frame in
      if kind = JStr ''world'' then
        (ticks @ [\<lparr>tk_index = length ticks, tk_world = frame, tk_agent_trace = None, tk_memory = None,
                   tk_governance = sticky, tk_interventions = []\<rparr>], sticky)
      else if kind = JStr ''governance'' then
        (update_last (\<lambda>t. t\<lparr>tk_governance := Some frame\<rparr>) ticks, Some frame)
      else if ticks = [] then st
      else if kind = JStr ''agent_trace'' then
        (update_last (\<lambda>t. t\<lparr>tk_agent_trace := Some frame\<rparr>) ticks, sticky)
      else if kind = JStr ''memory'' then
        (update_last (\<lambda>t. t\<lparr>tk_memory := Some frame\<rparr>) ticks, sticky)
      else if kind = JStr ''intervention'' then
        (update_last (\<lambda>t. t\<lparr>tk_interventions := tk_interventions t @ [frame]\<rparr>) ticks, sticky)
      else st)"

definition group_into_ticks :: "dict list \<Rightarrow> tick list" where
  "group_into_ticks frames = fst (foldl tick_step ([], None) frames)"

section \<open>One tick's inputs and outputs\<close>

record psyche_inputs =
  in_world :: dict
  in_tick_index :: int
  in_agent_trace :: "dict option"
  in_memory :: "dict option"
  in_governance :: "dict option"

record psyche_outputs =
  psyche_state :: dict
  workspace_broadcast :: dict
  control_pressure :: dict
  causal_trace :: dict
  grounded_self_report :: dict
  instinct_signals :: "dict list"
  authority_requests :: "dict list"

definition all_frames :: "psyche_outputs \<Rightarrow> dict list" where
  "all_frames out =
     [psyche_state out, workspace_broadcast out] @ instinct_signals out @ [control_pressure out] @
     authority_requests out @ [causal_trace out, grounded_self_report out]"

section \<open>Intervention schedules\<close>

type_synonym schedule = "dict list list"

text \<open>\<open>world.get("phase") or world.get("subtask_id")\<close>\<close>

definition world_phase :: "dict \<Rightarrow> json" where
  "world_phase w = py_or (dget w ''phase'') (dget w ''subtask_id'')"

text \<open>The \<open>while\<close> loop of the \<open>subtask\<close> case: extend the window while the phase stays the same.\<close>

function subtask_end :: "tick list \<Rightarrow> json \<Rightarrow> nat \<Rightarrow> nat" where
  "subtask_end ticks phase e =
     (if e + 1 < length ticks \<and> py_eq (world_phase (tk_world (ticks ! (e + 1)))) phase
      then subtask_end ticks phase (e + 1) else e)"
  by pat_completeness auto
termination
  by (relation "measure (\<lambda>(ticks, _, e). length ticks - e)") auto

declare subtask_end.simps [simp del]

text \<open>\<open>_covered\<close>: the end of the half-open range of ticks an intervention covers from its onset.\<close>

definition covered_end :: "nat \<Rightarrow> dict \<Rightarrow> tick list \<Rightarrow> json \<Rightarrow> nat result" where
  "covered_end onset iv ticks onset_phase =
     (let n = length ticks; dur = py_or (dget iv ''duration'') (JObj []) in
      bindR (jget_or dur ''kind'' (JStr ''ticks'')) (\<lambda>kind.
      bindR (jget dur ''amount'') (\<lambda>amount.
        if kind \<in> {JStr ''run'', JStr ''permanent'', JStr ''seconds''} then Ok n
        else if kind = JStr ''subtask'' then Ok (subtask_end ticks onset_phase onset + 1)
        else bindR (if truthy amount then py_int amount else Ok 1) (\<lambda>span.
               Ok (nat (min (int n) (int onset + max 1 span)))))))"

text \<open>\<open>for j in range(onset, stop): windows[j].append(iv)\<close>\<close>

definition add_window :: "schedule \<Rightarrow> nat \<Rightarrow> nat \<Rightarrow> dict \<Rightarrow> schedule" where
  "add_window windows onset stop iv =
     map (\<lambda>(j, ivs). if onset \<le> j \<and> j < stop then ivs @ [iv] else ivs) (enumerate 0 windows)"

text \<open>The interventions of a stream with the tick they arrive in, in arrival order.\<close>

definition onsets :: "tick list \<Rightarrow> (nat \<times> dict) list" where
  "onsets ticks = concat (map (\<lambda>(i, t). map (Pair i) (tk_interventions t)) (enumerate 0 ticks))"

definition schedule_from_frames :: "dict list \<Rightarrow> schedule result" where
  "schedule_from_frames frames =
     (let ticks = group_into_ticks frames in
      foldR (\<lambda>windows (onset, iv).
               bindR (covered_end onset iv ticks (world_phase (tk_world (ticks ! onset))))
                 (\<lambda>stop. Ok (add_window windows onset stop iv)))
            (replicate (length ticks) []) (onsets ticks))"

definition active :: "schedule \<Rightarrow> nat \<Rightarrow> dict list" where
  "active windows i = (if i < length windows then windows ! i else [])"

definition experiment_ids :: "schedule \<Rightarrow> json list" where
  "experiment_ids windows = map (\<lambda>iv. dget iv ''experiment_id'') (concat windows)"

definition schedule_is_empty :: "schedule \<Rightarrow> bool" where
  "schedule_is_empty windows \<longleftrightarrow> (\<forall>ivs\<in>set windows. ivs = [])"

definition neutralize :: "dict \<Rightarrow> dict" where
  "neutralize iv = dset iv ''operation'' (JStr ''restore'')"

definition neutralized :: "schedule \<Rightarrow> schedule" where
  "neutralized windows = map (map neutralize) windows"

section \<open>What grouping does\<close>

abbreviation is_world :: "dict \<Rightarrow> bool" where
  "is_world f \<equiv> frame_kind f = JStr ''world''"

abbreviation is_intervention :: "dict \<Rightarrow> bool" where
  "is_intervention f \<equiv> frame_kind f = JStr ''intervention''"

abbreviation is_governance :: "dict \<Rightarrow> bool" where
  "is_governance f \<equiv> frame_kind f = JStr ''governance''"

text \<open>The last governance frame of a stream, if there is one.\<close>

definition last_governance :: "dict list \<Rightarrow> dict option" where
  "last_governance fs = (case filter is_governance fs of [] \<Rightarrow> None | gs \<Rightarrow> Some (last gs))"

lemma update_last_Nil [simp]: "update_last f [] = []"
  by (simp add: update_last_def)

lemma update_last_snoc [simp]: "update_last f (xs @ [x]) = xs @ [f x]"
  by (simp add: update_last_def)

lemma update_last_eq_Nil [simp]: "update_last f xs = [] \<longleftrightarrow> xs = []"
  by (simp add: update_last_def)

lemma length_update_last [simp]: "length (update_last f xs) = length xs"
  by (cases xs rule: rev_cases) simp_all

lemma map_update_last: "(\<And>x. g (f x) = g x) \<Longrightarrow> map g (update_last f xs) = map g xs"
  by (cases xs rule: rev_cases) simp_all

lemma last_governance_snoc [simp]:
  "last_governance (fs @ [f]) = (if is_governance f then Some f else last_governance fs)"
  by (cases "filter is_governance fs") (auto simp: last_governance_def)

lemma dropWhile_no_world:
  "(\<forall>x\<in>set fs. \<not> is_world x) \<Longrightarrow> dropWhile (\<lambda>x. \<not> is_world x) (fs @ [f]) = (if is_world f then [f] else [])"
  by (induction fs) auto

lemma dropWhile_world:
  "\<exists>x\<in>set fs. is_world x \<Longrightarrow>
   dropWhile (\<lambda>x. \<not> is_world x) (fs @ [f]) = dropWhile (\<lambda>x. \<not> is_world x) fs @ [f]"
  by (induction fs) auto

text \<open>The state of the loop after a prefix of the stream.\<close>

definition ticks_inv :: "dict list \<Rightarrow> tick list \<times> dict option \<Rightarrow> bool" where
  "ticks_inv fs st \<longleftrightarrow>
     map tk_world (fst st) = filter is_world fs \<and>
     map tk_index (fst st) = [0..<length (fst st)] \<and>
     concat (map tk_interventions (fst st)) = filter is_intervention (dropWhile (\<lambda>f. \<not> is_world f) fs) \<and>
     snd st = last_governance fs \<and>
     (fst st \<noteq> [] \<longrightarrow> tk_governance (last (fst st)) = last_governance fs)"

lemma ticks_inv_step_empty:
  assumes "ticks_inv fs ([], sticky)"
  shows "ticks_inv (fs @ [f]) (tick_step ([], sticky) f)"
proof -
  from assms have "filter is_world fs = []"
    by (simp add: ticks_inv_def)
  then have no: "\<forall>x\<in>set fs. \<not> is_world x"
    by (simp add: filter_empty_conv)
  consider "is_world f" | "is_governance f" | "\<not> is_world f" "\<not> is_governance f" by blast
  then show ?thesis
    using assms by cases (simp_all add: ticks_inv_def tick_step_def dropWhile_no_world [OF no])
qed

lemma ticks_inv_step_snoc:
  assumes "ticks_inv fs (ts @ [t], sticky)"
  shows "ticks_inv (fs @ [f]) (tick_step (ts @ [t], sticky) f)"
proof -
  from assms have "filter is_world fs = map tk_world (ts @ [t])"
    by (simp add: ticks_inv_def)
  then have "filter is_world fs \<noteq> []"
    by simp
  then have yes: "\<exists>x\<in>set fs. is_world x"
    by (simp add: filter_empty_conv)
  consider "is_world f" | "is_governance f" | "frame_kind f = JStr ''agent_trace''" | "frame_kind f = JStr ''memory''"
    | "is_intervention f"
    | "\<not> is_world f" "\<not> is_governance f" "\<not> is_intervention f" "frame_kind f \<noteq> JStr ''agent_trace''"
      "frame_kind f \<noteq> JStr ''memory''"
    by blast
  then show ?thesis
    using assms by cases (simp_all add: ticks_inv_def tick_step_def dropWhile_world [OF yes])
qed

lemma ticks_inv_step: "ticks_inv fs st \<Longrightarrow> ticks_inv (fs @ [f]) (tick_step st f)"
  using ticks_inv_step_empty ticks_inv_step_snoc
  by (cases st; cases "fst st" rule: rev_cases) auto

lemma ticks_inv_run: "ticks_inv fs (foldl tick_step ([], None) fs)"
proof (induction fs rule: rev_induct)
  case Nil
  then show ?case by (simp add: ticks_inv_def last_governance_def)
next
  case (snoc f fs)
  then show ?case by (simp add: ticks_inv_step)
qed

lemma group_worlds: "map tk_world (group_into_ticks fs) = filter is_world fs"
  using ticks_inv_run [of fs] by (simp add: ticks_inv_def group_into_ticks_def)

lemma group_indices: "map tk_index (group_into_ticks fs) = [0..<length (group_into_ticks fs)]"
  using ticks_inv_run [of fs] by (simp add: ticks_inv_def group_into_ticks_def)

lemma group_interventions:
  "concat (map tk_interventions (group_into_ticks fs)) = filter is_intervention (dropWhile (\<lambda>f. \<not> is_world f) fs)"
  using ticks_inv_run [of fs] by (simp add: ticks_inv_def group_into_ticks_def)

section \<open>What schedules do\<close>

lemma target_of_neutralize [simp]: "target_of (neutralize iv) = target_of iv"
  by (simp add: target_of_def neutralize_def)

lemma neutral_neutralize: "target_ok iv \<Longrightarrow> neutral (neutralize iv)"
  by (simp add: neutral_def target_ok_def) (simp add: neutralize_def)

lemma active_neutralized: "active (neutralized w) i = map neutralize (active w i)"
  by (simp add: active_def neutralized_def)

lemma subtask_end_ge: "e \<le> subtask_end ticks phase e"
proof (induction ticks phase e rule: subtask_end.induct)
  case (1 ticks phase e)
  then show ?case by (subst subtask_end.simps) auto
qed

lemma subtask_end_less: "e < length ticks \<Longrightarrow> subtask_end ticks phase e < length ticks"
proof (induction ticks phase e rule: subtask_end.induct)
  case (1 ticks phase e)
  then show ?case by (subst subtask_end.simps) auto
qed

text \<open>Every intervention covers its own tick and never a tick beyond the timeline.\<close>

lemma covered_end_bounds:
  assumes "covered_end onset iv ticks phase = Ok stop" and "onset < length ticks"
  shows "onset < stop" and "stop \<le> length ticks"
  using assms subtask_end_ge [of onset ticks phase] subtask_end_less [of onset ticks phase]
  by (auto simp: covered_end_def Let_def result_simps less_Suc_eq_le Suc_le_eq split: if_splits)

lemma length_add_window [simp]: "length (add_window w a b iv) = length w"
  by (simp add: add_window_def)

lemma add_window_nth:
  "j < length w \<Longrightarrow> add_window w a b iv ! j = (if a \<le> j \<and> j < b then w ! j @ [iv] else w ! j)"
  by (simp add: add_window_def nth_enumerate_eq)

end
