(* ===== verification/PyText.thy ===== *)
theory PyText
  imports PyJson
begin

text \<open>
  Operations of Python's \<open>str\<close> on UTF-8 byte strings: code points, white space, lines, substrings,
  slices, replacement and the character classes of the regular expressions the code uses.
\<close>

section \<open>Code points of UTF-8 text\<close>

abbreviation byte :: "char \<Rightarrow> nat" where
  "byte c \<equiv> of_char c"

fun points :: "string \<Rightarrow> nat list" where
  "points [] = []"
| "points (c # cs) =
     (if byte c < 192 then byte c # points cs
      else if byte c < 224
      then (case cs of d # ds \<Rightarrow> (byte c mod 32 * 64 + byte d mod 64) # points ds | _ \<Rightarrow> [byte c])
      else if byte c < 240
      then (case cs of d # e # ds \<Rightarrow> ((byte c mod 16 * 64 + byte d mod 64) * 64 + byte e mod 64) # points ds
            | _ \<Rightarrow> [byte c])
      else (case cs of d # e # f # ds \<Rightarrow>
              (((byte c mod 8 * 64 + byte d mod 64) * 64 + byte e mod 64) * 64 + byte f mod 64) # points ds
            | _ \<Rightarrow> [byte c]))"

text \<open>The encoder: the bytes of a code point.\<close>

definition trail :: "nat \<Rightarrow> char" where
  "trail n = char_of (128 + n mod 64)"

definition utf8_point :: "nat \<Rightarrow> string" where
  "utf8_point n =
     (if n < 128 then [char_of n]
      else if n < 2048 then [char_of (192 + n div 64), trail n]
      else if n < 65536 then [char_of (224 + n div 4096), trail (n div 64), trail n]
      else [char_of (240 + n div 262144), trail (n div 4096), trail (n div 64), trail n])"

definition utf8_text :: "nat list \<Rightarrow> string" where
  "utf8_text ns = concat (map utf8_point ns)"

text \<open>What the strict UTF-8 decoder accepts: no overlong forms, surrogates or values above U+10FFFF.\<close>

fun valid_utf8 :: "string \<Rightarrow> bool" where
  "valid_utf8 [] = True"
| "valid_utf8 (c # cs) =
     (let n = byte c in
      if n < 128 then valid_utf8 cs
      else if 194 \<le> n \<and> n < 224
      then (case cs of d # ds \<Rightarrow> continues d \<and> valid_utf8 ds | _ \<Rightarrow> False)
      else if 224 \<le> n \<and> n < 240
      then (case cs of d # e # ds \<Rightarrow>
              continues d \<and> continues e \<and> (n = 224 \<longrightarrow> 160 \<le> byte d) \<and> (n = 237 \<longrightarrow> byte d < 160) \<and> valid_utf8 ds
            | _ \<Rightarrow> False)
      else if 240 \<le> n \<and> n < 245
      then (case cs of d # e # f # ds \<Rightarrow>
              continues d \<and> continues e \<and> continues f \<and> (n = 240 \<longrightarrow> 144 \<le> byte d) \<and> (n = 244 \<longrightarrow> byte d < 144) \<and>
              valid_utf8 ds
            | _ \<Rightarrow> False)
      else False)"

section \<open>White space and lines\<close>

text \<open>\<open>str.isspace\<close> of one code point, also the class \<open>\s\<close> of a regular expression.\<close>

definition space_point :: "nat \<Rightarrow> bool" where
  "space_point n \<longleftrightarrow>
     9 \<le> n \<and> n \<le> 13 \<or> 28 \<le> n \<and> n \<le> 32 \<or> n = 133 \<or> n = 160 \<or> n = 5760 \<or> 8192 \<le> n \<and> n \<le> 8202 \<or>
     n = 8232 \<or> n = 8233 \<or> n = 8239 \<or> n = 8287 \<or> n = 12288"

definition strip_points :: "nat list \<Rightarrow> nat list" where
  "strip_points ns = rev (dropWhile space_point (rev (dropWhile space_point ns)))"

text \<open>\<open>s.strip()\<close>, and whether it is empty.\<close>

definition text_strip :: "string \<Rightarrow> string" where
  "text_strip s = utf8_text (strip_points (points s))"

definition blank :: "string \<Rightarrow> bool" where
  "blank s \<longleftrightarrow> list_all space_point (points s)"

text \<open>Reading in text mode turns every line ending into a newline.\<close>

fun translate_newlines :: "string \<Rightarrow> string" where
  "translate_newlines [] = []"
| "translate_newlines (c # cs) =
     (if c = CHR 0x0D
      then CHR 0x0A # (case cs of d # ds \<Rightarrow> if d = CHR 0x0A then translate_newlines ds else translate_newlines cs | [] \<Rightarrow> [])
      else c # translate_newlines cs)"

text \<open>\<open>s.splitlines()\<close> of a text without carriage returns.\<close>

definition line_break :: "nat \<Rightarrow> bool" where
  "line_break n \<longleftrightarrow> 10 \<le> n \<and> n \<le> 13 \<or> 28 \<le> n \<and> n \<le> 30 \<or> n = 133 \<or> n = 8232 \<or> n = 8233"

fun split_points :: "nat list \<Rightarrow> nat list \<Rightarrow> nat list list" where
  "split_points acc [] = (if acc = [] then [] else [rev acc])"
| "split_points acc (n # ns) = (if line_break n then rev acc # split_points [] ns else split_points (n # acc) ns)"

definition split_lines :: "string \<Rightarrow> string list" where
  "split_lines s = map utf8_text (split_points [] (points s))"

section \<open>Substrings\<close>

text \<open>\<open>t in s\<close> on strings.\<close>

definition substring :: "string \<Rightarrow> string \<Rightarrow> bool" where
  "substring t s \<longleftrightarrow> list_ex (\<lambda>i. take (length t) (drop i s) = t) [0..<Suc (length s)]"

text \<open>The first \<open>n\<close> code points of a string.\<close>

fun take_points :: "nat \<Rightarrow> string \<Rightarrow> string" where
  "take_points n [] = []"
| "take_points n (c # cs) =
     (if continues c then c # take_points n cs
      else case n of 0 \<Rightarrow> [] | Suc m \<Rightarrow> c # take_points m cs)"

text \<open>\<open>s.replace(old, new)\<close>: left to right, without overlap; an empty \<open>old\<close> matches at every boundary.\<close>

function replace_str :: "string \<Rightarrow> string \<Rightarrow> string \<Rightarrow> string" where
  "replace_str old new s =
     (if old = [] then concat (map (\<lambda>c. if continues c then [c] else new @ [c]) s) @ new
      else if s = [] then []
      else if take (length old) s = old then new @ replace_str old new (drop (length old) s)
      else hd s # replace_str old new (tl s))"
  by pat_completeness auto
termination
  by (relation "measure (\<lambda>(old, new, s). length s)") auto

declare replace_str.simps [simp del]

text \<open>\<open>s.find(c)\<close> and \<open>s.rfind(c)\<close> of a character, as byte offsets.\<close>

fun find_char :: "char \<Rightarrow> string \<Rightarrow> nat option" where
  "find_char c [] = None"
| "find_char c (d # ds) = (if c = d then Some 0 else map_option Suc (find_char c ds))"

fun rfind_char :: "char \<Rightarrow> string \<Rightarrow> nat option" where
  "rfind_char c [] = None"
| "rfind_char c (d # ds) = (case rfind_char c ds of Some i \<Rightarrow> Some (Suc i) | None \<Rightarrow> if c = d then Some 0 else None)"

text \<open>\<open>s.lower()\<close> where only ASCII letters matter.\<close>

definition ascii_lower :: "string \<Rightarrow> string" where
  "ascii_lower s = map lower_char s"

section \<open>Character classes\<close>

text \<open>The zeros of the decimal digits of Unicode; each is followed by its nine successors.\<close>

definition digit_zeros :: "nat list" where
  "digit_zeros =
     [
      48, 1632, 1776, 1984, 2406, 2534, 2662, 2790, 2918, 3046, 3174, 3302, 3430, 3558, 3664, 3792,
      3872, 4160, 4240, 6112, 6160, 6470, 6608, 6784, 6800, 6992, 7088, 7232, 7248, 42528, 43216,
      43264, 43472, 43504, 43600, 44016, 65296, 66720, 68912, 69734, 69872, 69942, 70096, 70384,
      70736, 70864, 71248, 71360, 71472, 71904, 72016, 72784, 73040, 73120, 73552, 92768, 92864,
      93008, 120782, 120792, 120802, 120812, 120822, 123200, 123632, 124144, 125264, 130032]"

definition digit_point :: "nat \<Rightarrow> bool" where
  "digit_point n \<longleftrightarrow> list_ex (\<lambda>z. z \<le> n \<and> n \<le> z + 9) digit_zeros"

text \<open>A pattern that ends in \<open>$\<close> also matches before a final newline.\<close>

definition dollar :: "(nat list \<Rightarrow> bool) \<Rightarrow> nat list \<Rightarrow> bool" where
  "dollar p ns \<longleftrightarrow> p ns \<or> ns \<noteq> [] \<and> last ns = 10 \<and> p (butlast ns)"

end
