(* ===== verification/Grounding.thy ===== *)
theory Grounding
  imports Frames PyText "HOL-Library.Sublist"
begin

text \<open>
  Receipt-level binding checks (\<open>evals/grounding.py\<close>): whether a grounded self-report names the state,
  broadcast and trace of its own tick, whether reports track a tested signal, whether a treated
  trace spans event to behaviour with the exact intervention receipts, and whether unperturbed
  traces claim none.
\<close>

section \<open>Language operations\<close>

text \<open>\<open>v in c\<close>: elements of a list, keys of a dict, substrings of a string.\<close>

definition py_in :: "json \<Rightarrow> json \<Rightarrow> bool result" where
  "py_in v c =
     (case c of
        JList xs \<Rightarrow> Ok (list_ex (\<lambda>x. py_eq v x) xs)
      | JObj d \<Rightarrow> in_strings v (map fst d)
      | JStr s \<Rightarrow> (case v of JStr t \<Rightarrow> Ok (substring t s) | _ \<Rightarrow> Raise TypeError)
      | _ \<Rightarrow> Raise TypeError)"

section \<open>Model\<close>

definition MEASUREMENT_EPS :: flt where "MEASUREMENT_EPS = lit (1 / 10 ^ 9)"

definition update_dict :: "('k \<times> 'v) list \<Rightarrow> ('k \<times> 'v) list \<Rightarrow> ('k \<times> 'v) list" where
  "update_dict d e = foldl (\<lambda>acc (k, v). dset acc k v) d e"

text \<open>\<open>v.items()\<close>\<close>

definition py_items :: "json \<Rightarrow> dict result" where
  "py_items v = (case v of JObj d \<Rightarrow> Ok d | _ \<Rightarrow> Raise AttributeError)"

definition signal_severity :: "dict \<Rightarrow> flt result" where
  "signal_severity signal = py_float (dget_or signal ''severity'' (JFloat (Num 0)))"

definition expected_measurements :: "psyche_outputs \<Rightarrow> (string \<times> flt) list result" where
  "expected_measurements out =
     bindR (py_items (py_or (dget_or (control_pressure out) ''pressures'' (JObj [])) (JObj []))) (\<lambda>pressures.
     bindR (mapR (\<lambda>(name, value). bindR (py_float value) (\<lambda>x. Ok (''control_pressure.'' @ name, x))) pressures) (\<lambda>ms.
     bindR (mapR signal_severity (instinct_signals out)) (\<lambda>sev.
     bindR (jget_or (py_or (dget_or (psyche_state out) ''identity_continuity_state'' (JObj [])) (JObj []))
              ''continuity_score'' (JFloat (Num 0))) (\<lambda>cs.
     bindR (py_float cs) (\<lambda>continuity.
       Ok (update_dict (update_dict [] ms)
             [(''instinct.count'', fint (int (length (instinct_signals out)))),
              (''instinct.severity'', py_sum sev),
              (''psyche_state.continuity_score'', continuity),
              (''workspace_broadcast.integrity'',
                 if py_eq (dget (workspace_broadcast out) ''winning_faculty'') (JStr ''suppressed'') then Num 0 else Num 1)]))))))"

definition normalize_step :: "string \<Rightarrow> json \<Rightarrow> string" where
  "normalize_step text receipt =
     (case receipt of
        JStr r \<Rightarrow>
          if r = [] then text
          else let text1 = replace_str r ''<receipt>'' text in
               if take 7 r = ''sha256:'' then replace_str (take_points 8 (drop 7 r)) ''<receipt>'' text1 else text1
      | _ \<Rightarrow> text)"

definition normalize_report_text :: "dict \<Rightarrow> string" where
  "normalize_report_text report =
     foldl normalize_step (py_str (dget_or report ''report_text'' (JStr [])))
       [dget report ''affect_state_hash'', dget report ''workspace_broadcast_id'', dget report ''causal_trace_id'',
        dget report ''report_id'']"

text \<open>The three receipt comparisons.\<close>

definition receipt_error :: "string \<times> json \<times> json \<Rightarrow> string list" where
  "receipt_error fae =
     (let (field, actual, expected) = fae in
      if \<not> py_eq actual expected \<or> expected = JNull
      then [field @ '': report='' @ py_repr_json actual @ '', same_tick='' @ py_repr_json expected] else [])"

definition measurement_error :: "dict \<Rightarrow> string \<times> flt \<Rightarrow> string list result" where
  "measurement_error reported se =
     (let (signal, expected) = se; actual = dget reported signal; label = ''reported_measurements.'' @ signal in
      if \<not> is_number actual \<or> is_bool actual then Ok [label @ '': missing or non-numeric'']
      else bindR (py_float actual) (\<lambda>a.
        Ok (if \<not> is_finite a \<or> \<not> is_finite expected then [label @ '': non-finite'']
            else if flt_less MEASUREMENT_EPS (fabs (fsub a expected))
            then [label @ '': report='' @ py_repr_json actual @ '', same_tick='' @ py_repr expected] else [])))"

definition measurement_errors :: "psyche_outputs \<Rightarrow> string list result" where
  "measurement_errors out =
     (case dget (grounded_self_report out) ''reported_measurements'' of
        JObj reported \<Rightarrow> bindR (expected_measurements out) (\<lambda>ms. bindR (mapR (measurement_error reported) ms) (\<lambda>es. Ok (concat es)))
      | _ \<Rightarrow> Ok [''reported_measurements: missing or not an object''])"

text \<open>The frames a report is bound to, with their labels.\<close>

definition source_frames :: "psyche_outputs \<Rightarrow> (string \<times> dict) list" where
  "source_frames out =
     [(''psyche_state'', psyche_state out), (''workspace_broadcast'', workspace_broadcast out),
      (''causal_trace'', causal_trace out)]"

definition report_grounding_errors :: "psyche_outputs \<Rightarrow> string list result" where
  "report_grounding_errors out =
     (let report = grounded_self_report out; state = psyche_state out; trace = causal_trace out;
          checks = concat (map receipt_error
            [(''affect_state_hash'', dget report ''affect_state_hash'', dget state ''state_hash''),
             (''workspace_broadcast_id'', dget report ''workspace_broadcast_id'', dget (workspace_broadcast out) ''broadcast_id''),
             (''causal_trace_id'', dget report ''causal_trace_id'', dget trace ''trace_id'')]);
          hash_errors = (if \<not> py_eq (dget state ''state_hash'') (dget trace ''new_state_hash'')
                         then [''causal_trace.new_state_hash: state='' @ py_repr_json (dget state ''state_hash'') @
                               '', trace='' @ py_repr_json (dget trace ''new_state_hash'')] else []) in
      bindR (py_in (dget report ''report_id'') (dget_or trace ''emitted_outputs'' (JList []))) (\<lambda>emitted.
      let emitted_errors = (if \<not> emitted then [''report_id '' @ py_repr_json (dget report ''report_id'') @
                              '' is absent from same-tick causal_trace.emitted_outputs''] else []) in
      bindR (measurement_errors out) (\<lambda>measured.
      let run_id_errors = concat (map (\<lambda>(label, frame).
            if \<not> py_eq (dget frame ''run_id'') (dget report ''run_id'')
            then [''run_id.'' @ label @ '': report='' @ py_repr_json (dget report ''run_id'') @ '', same_tick='' @
                  py_repr_json (dget frame ''run_id'')] else []) (source_frames out));
          ts_errors =
            (if dget report ''timestamp'' = JNull then [''timestamp.report: missing'']
             else concat (map (\<lambda>(label, frame).
               if \<not> py_eq (dget frame ''timestamp'') (dget report ''timestamp'')
               then [''timestamp.'' @ label @ '': report='' @ py_repr_json (dget report ''timestamp'') @ '', same_tick='' @
                     py_repr_json (dget frame ''timestamp'')] else []) (source_frames out)))
      in Ok (checks @ hash_errors @ emitted_errors @ measured @ run_id_errors @ ts_errors))))"

definition report_is_grounded_to_tick :: "psyche_outputs \<Rightarrow> bool result" where
  "report_is_grounded_to_tick out = bindR (report_grounding_errors out) (\<lambda>es. Ok (es = []))"

definition run_reports_are_grounded :: "psyche_outputs list \<Rightarrow> bool result" where
  "run_reports_are_grounded outs = (if outs = [] then Ok False else allR report_is_grounded_to_tick outs)"

definition report_signature :: "psyche_outputs \<Rightarrow> string" where
  "report_signature out = normalize_report_text (grounded_self_report out)"

text \<open>The guards shared by the two perturbation comparisons.\<close>

definition comparable_runs :: "psyche_outputs list \<Rightarrow> psyche_outputs list \<Rightarrow> bool result" where
  "comparable_runs control treated =
     (if control = [] \<or> length control \<noteq> length treated then Ok False
      else bindR (run_reports_are_grounded control) (\<lambda>c. if c then run_reports_are_grounded treated else Ok False))"

definition reports_changed_under_perturbation :: "psyche_outputs list \<Rightarrow> psyche_outputs list \<Rightarrow> bool result" where
  "reports_changed_under_perturbation control treated =
     bindR (comparable_runs control treated) (\<lambda>ok.
       Ok (ok \<and> list_ex (\<lambda>(c, t). report_signature c \<noteq> report_signature t) (zip control treated)))"

definition reported_value :: "string \<Rightarrow> psyche_outputs \<Rightarrow> json result" where
  "reported_value target_signal out =
     (case map_of (grounded_self_report out) ''reported_measurements'' of
        None \<Rightarrow> Raise KeyError
      | Some m \<Rightarrow> jget m target_signal)"

definition CONTINUITY_ALIAS :: string where
  "CONTINUITY_ALIAS = ''psyche_state.identity_continuity_state.continuity_score''"

definition reports_track_target_signal :: "psyche_outputs list \<Rightarrow> psyche_outputs list \<Rightarrow> json \<Rightarrow> bool result" where
  "reports_track_target_signal control treated target_signal0 =
     (let target_signal = (if py_eq target_signal0 (JStr CONTINUITY_ALIAS)
                           then JStr ''psyche_state.continuity_score'' else target_signal0) in
      case target_signal of
        JStr t \<Rightarrow>
          bindR (comparable_runs control treated) (\<lambda>ok.
            if \<not> ok then Ok False
            else bindR (mapR (reported_value t) control) (\<lambda>cv. bindR (mapR (reported_value t) treated) (\<lambda>tv.
                   Ok (JNull \<notin> set (cv @ tv) \<and> \<not> py_eq_list cv tv))))
      | _ \<Rightarrow> Ok False)"

text \<open>\<open>stages.index(stage, start)\<close>; \<open>None\<close> stands for the \<open>ValueError\<close>.\<close>

definition index_from :: "json list \<Rightarrow> string \<Rightarrow> nat \<Rightarrow> nat option" where
  "index_from stages stage start = find (\<lambda>i. py_eq (stages ! i) (JStr stage)) [start..<length stages]"

fun ordered_from :: "json list \<Rightarrow> nat \<Rightarrow> string list \<Rightarrow> bool" where
  "ordered_from stages start [] = True"
| "ordered_from stages start (stage # required) =
     (case index_from stages stage start of None \<Rightarrow> False | Some position \<Rightarrow> ordered_from stages (position + 1) required)"

definition ordered_subsequence :: "json list \<Rightarrow> string list \<Rightarrow> bool" where
  "ordered_subsequence stages required = ordered_from stages 0 required"

definition trace_stages :: "psyche_outputs \<Rightarrow> json list result" where
  "trace_stages out =
     bindR (py_iter (dget_or (causal_trace out) ''causal_path'' (JList []))) (\<lambda>steps. mapR (\<lambda>step. jget step ''stage'') steps)"

definition trace_complete_at :: "psyche_outputs \<times> json list \<Rightarrow> bool result" where
  "trace_complete_at oe =
     (let (out, expected_receipts) = oe in
      if \<not> py_eq (dget (causal_trace out) ''interventions_applied'') (JList expected_receipts) then Ok False
      else bindR (trace_stages out) (\<lambda>stages.
        Ok (stages \<noteq> [] \<and> py_eq (hd stages) (JStr ''event'') \<and>
            (if py_eq (dget (workspace_broadcast out) ''winning_faculty'') (JStr ''suppressed'')
             then \<not> list_ex (\<lambda>s. py_eq s (JStr ''broadcast'')) stages \<and> \<not> list_ex (\<lambda>s. py_eq s (JStr ''behavior'')) stages \<and>
                  ordered_subsequence stages [''event'', ''internal_state'', ''pressure'']
             else py_eq (last stages) (JStr ''behavior'') \<and>
                  ordered_subsequence stages [''event'', ''internal_state'', ''broadcast'', ''pressure'', ''behavior'']))))"

definition treated_trace_is_complete :: "psyche_outputs list \<Rightarrow> json list list \<Rightarrow> bool result" where
  "treated_trace_is_complete treated expected =
     (if treated = [] \<or> length treated \<noteq> length expected then Ok False
      else allR trace_complete_at (zip treated expected))"

definition unperturbed_traces_are_clean :: "psyche_outputs list list \<Rightarrow> bool" where
  "unperturbed_traces_are_clean output_runs \<longleftrightarrow>
     (\<forall>outs\<in>set output_runs. \<forall>out\<in>set outs. py_eq (dget (causal_trace out) ''interventions_applied'') (JList []))"

section \<open>Facts\<close>

lemma py_eq_JStr [simp]: "py_eq v (JStr s) \<longleftrightarrow> v = JStr s"
  by (cases v) (auto simp: num_eq_def)

lemma index_from_eq_Some:
  assumes "index_from stages stage start = Some p"
  shows "start \<le> p" "p < length stages" "stages ! p = JStr stage" "start \<le> i \<Longrightarrow> i < p \<Longrightarrow> stages ! i \<noteq> JStr stage"
proof -
  from assms obtain j where j: "start + j < length stages" "p = start + j" "stages ! p = JStr stage"
    and before: "\<And>k. k < j \<Longrightarrow> stages ! (start + k) \<noteq> JStr stage"
    by (auto simp: index_from_def find_Some_iff less_diff_conv add.commute)
  then show "start \<le> p" "p < length stages" "stages ! p = JStr stage"
    by auto
  show "stages ! i \<noteq> JStr stage" if "start \<le> i" "i < p"
    using before [of "i - start"] that j(2) by simp
qed

lemma index_from_None: "index_from stages stage start = None \<longleftrightarrow> JStr stage \<notin> set (drop start stages)"
proof -
  have "set (drop start stages) = (!) stages ` set [start..<length stages]"
    by (metis drop_map drop_upt list.set_map map_nth add_0)
  then show ?thesis
    by (force simp: index_from_def find_None_iff image_iff)
qed

text \<open>The greedy search is the subsequence relation.\<close>

lemma ordered_from_subseq:
  "start \<le> length stages \<Longrightarrow> ordered_from stages start required \<longleftrightarrow> subseq (map JStr required) (drop start stages)"
proof (induction required arbitrary: start)
  case Nil
  then show ?case by simp
next
  case (Cons r rs)
  show ?case
  proof (cases "index_from stages r start")
    case None
    then have "JStr r \<notin> set (drop start stages)"
      by (simp add: index_from_None)
    then have "\<not> subseq (map JStr (r # rs)) (drop start stages)"
      using list_emb_set by fastforce
    with None show ?thesis by simp
  next
    case (Some p)
    note p = index_from_eq_Some(1-3) [OF Some] and no = index_from_eq_Some(4) [OF Some]
    define pre where "pre = take (p - start) (drop start stages)"
    have split: "drop start stages = pre @ JStr r # drop (p + 1) stages"
      unfolding pre_def using p by (metis Cons_nth_drop_Suc Suc_eq_plus1 append_take_drop_id drop_drop le_add_diff_inverse2)
    have "JStr r \<notin> set pre"
      using no p by (auto simp: pre_def in_set_conv_nth)
    then have "subseq (JStr r # map JStr rs) (pre @ JStr r # drop (p + 1) stages) \<longleftrightarrow> subseq (map JStr rs) (drop (p + 1) stages)"
      by (induction pre) auto
    with Some Cons.IH [of "p + 1"] p split show ?thesis by simp
  qed
qed

lemma ordered_subsequence_subseq: "ordered_subsequence stages required \<longleftrightarrow> subseq (map JStr required) stages"
  by (simp add: ordered_subsequence_def ordered_from_subseq)

end
