(* ===== verification/Report.thy ===== *)
theory Report
  imports Grounding
begin

text \<open>
  Expected against observed change (\<open>interventions/report.py\<close>): aggregation of a named signal over the
  ticks of a replay, the direction test of one intervention, and the report assembled from all
  tests. The built-in \<open>sum\<close> is modelled on mixed integers and floats as CPython 3.12 runs it.
\<close>

section \<open>The built-in \<open>sum\<close> over numbers\<close>

definition small_int :: "int \<Rightarrow> bool" where
  "small_int i \<longleftrightarrow> - (2 ^ 63) \<le> i \<and> i < 2 ^ 63"

text \<open>The integer a value is, when it is an \<open>int\<close> or a \<open>bool\<close>.\<close>

definition as_int :: "json \<Rightarrow> int option" where
  "as_int v = (case v of JInt i \<Rightarrow> Some i | JBool b \<Rightarrow> Some (if b then 1 else 0) | _ \<Rightarrow> None)"

text \<open>Plain addition of two numbers.\<close>

definition py_add :: "json \<Rightarrow> json \<Rightarrow> json result" where
  "py_add a b =
     (case (as_int a, as_int b) of
        (Some i, Some j) \<Rightarrow> Ok (JInt (i + j))
      | (Some i, None) \<Rightarrow> (case b of JFloat y \<Rightarrow> bindR (float_of_int i) (\<lambda>x. Ok (JFloat (fadd x y))) | _ \<Rightarrow> Raise TypeError)
      | (None, Some j) \<Rightarrow> (case a of JFloat x \<Rightarrow> bindR (float_of_int j) (\<lambda>y. Ok (JFloat (fadd x y))) | _ \<Rightarrow> Raise TypeError)
      | (None, None) \<Rightarrow> (case (a, b) of (JFloat x, JFloat y) \<Rightarrow> Ok (JFloat (fadd x y)) | _ \<Rightarrow> Raise TypeError))"

text \<open>The compensated loop once the running sum is a float.\<close>

fun sum_floats :: "flt \<Rightarrow> flt \<Rightarrow> json list \<Rightarrow> json result" where
  "sum_floats s c [] = Ok (JFloat (sum_loop s c []))"
| "sum_floats s c (v # vs) =
     (case v of
        JFloat x \<Rightarrow>
          let t = fadd s x in
          sum_floats t (fadd c (if flt_le (fabs x) (fabs s) then fadd (fsub s t) x else fadd (fsub x t) s)) vs
      | _ \<Rightarrow> (case as_int v of
                Some i \<Rightarrow> if small_int i then sum_floats (fadd s (fint i)) c vs
                          else foldR py_add (JFloat (sum_loop s c [])) (v # vs)
              | None \<Rightarrow> Raise TypeError))"

text \<open>The loop over machine integers; an overflow leaves it for plain addition.\<close>

fun sum_ints :: "int \<Rightarrow> json list \<Rightarrow> json result" where
  "sum_ints a [] = Ok (JInt a)"
| "sum_ints a (v # vs) =
     (case as_int v of
        Some i \<Rightarrow> if small_int i \<and> small_int (a + i) then sum_ints (a + i) vs else foldR py_add (JInt a) (v # vs)
      | None \<Rightarrow> (case v of JFloat x \<Rightarrow> sum_floats (fadd (fint a) x) (Num 0) vs | _ \<Rightarrow> Raise TypeError))"

definition sum_json :: "json list \<Rightarrow> json result" where
  "sum_json vs = sum_ints 0 vs"

section \<open>Model\<close>

definition EPS :: flt where "EPS = lit (1 / 10 ^ 6)"

text \<open>\<open>_sum(outs, fn)\<close>: \<open>float(sum(fn(o) for o in outs))\<close>\<close>

definition sum_over :: "psyche_outputs list \<Rightarrow> (psyche_outputs \<Rightarrow> json result) \<Rightarrow> flt result" where
  "sum_over outs f = bindR (mapR f outs) (\<lambda>vs. bindR (sum_json vs) py_float)"

definition severity_total :: "psyche_outputs \<Rightarrow> json result" where
  "severity_total out =
     bindR (mapR signal_severity (instinct_signals out)) (\<lambda>sev.
       Ok (if sev = [] then JInt 0 else JFloat (py_sum sev)))"

definition continuity_signal :: "psyche_outputs \<Rightarrow> json result" where
  "continuity_signal out =
     jget_or (py_or (dget_or (psyche_state out) ''identity_continuity_state'' (JObj [])) (JObj []))
       ''continuity_score'' (JFloat (Num 0))"

definition integrity_signal :: "psyche_outputs \<Rightarrow> json result" where
  "integrity_signal out =
     Ok (JFloat (if \<not> py_eq (dget (workspace_broadcast out) ''winning_faculty'') (JStr ''suppressed'') then Num 1 else Num 0))"

definition extract_signal :: "json \<Rightarrow> psyche_outputs list \<Rightarrow> flt result" where
  "extract_signal target_signal outs =
     (case target_signal of
        JStr t \<Rightarrow>
          if take 17 t = ''control_pressure.'' then
            sum_over outs (\<lambda>out. bindR (jget_or (JObj (control_pressure out)) ''pressures'' (JObj []))
                                   (\<lambda>p. jget_or p (drop 17 t) (JFloat (Num 0))))
          else if t = ''instinct.count'' then sum_over outs (\<lambda>out. Ok (JInt (int (length (instinct_signals out)))))
          else if t = ''instinct.severity'' then sum_over outs severity_total
          else if t = ''psyche_state.continuity_score'' \<or> t = CONTINUITY_ALIAS then sum_over outs continuity_signal
          else if t = ''workspace_broadcast.integrity'' then sum_over outs integrity_signal
          else Raise (ValueError (''unknown target_signal: '' @ repr_str t))
      | _ \<Rightarrow> Raise AttributeError)"

definition direction_ok :: "json \<Rightarrow> flt \<Rightarrow> json \<Rightarrow> bool result" where
  "direction_ok direction delta bound =
     (if py_eq direction (JStr ''increase'') then Ok (flt_less EPS delta)
      else if py_eq direction (JStr ''decrease'') then Ok (flt_less delta (fneg EPS))
      else if py_eq direction (JStr ''no_change'') then
        bindR (if bound \<noteq> JNull then py_float bound else Ok EPS) (\<lambda>b. Ok (flt_le (fabs delta) (py_max b EPS)))
      else if py_eq direction (JStr ''bounded_change'') then
        bindR (if bound \<noteq> JNull then py_float bound else Ok (Num 0)) (\<lambda>b. Ok (flt_le (fabs delta) (fadd b EPS)))
      else Ok False)"

text \<open>The record of one test.\<close>

record test_record =
  tr_experiment_id :: json
  tr_hypothesis :: json
  tr_operation :: json
  tr_target_signal :: json
  tr_expected_direction :: json
  tr_bound :: json
  tr_control_value :: flt
  tr_treated_value :: flt
  tr_observed_delta :: flt
  tr_null_delta :: flt
  tr_supported :: bool
  tr_passed :: bool
  tr_note :: string

text \<open>The three aggregated values, or the text of the \<open>ValueError\<close> that the code catches.\<close>

definition extract_three ::
  "json \<Rightarrow> psyche_outputs list \<Rightarrow> psyche_outputs list \<Rightarrow> psyche_outputs list \<Rightarrow> (flt \<times> flt \<times> flt \<times> string option) result" where
  "extract_three target control treated nul =
     (case bindR (extract_signal target control) (\<lambda>c. bindR (extract_signal target treated) (\<lambda>t.
             bindR (extract_signal target nul) (\<lambda>n. Ok (c, t, n)))) of
        Inr (c, t, n) \<Rightarrow> Ok (c, t, n, None)
      | Inl (ValueError msg) \<Rightarrow> Ok (Num 0, Num 0, Num 0, Some msg)
      | Inl e \<Rightarrow> Raise e)"

definition evaluate_intervention ::
  "dict \<Rightarrow> psyche_outputs list \<Rightarrow> psyche_outputs list \<Rightarrow> psyche_outputs list \<Rightarrow> test_record result" where
  "evaluate_intervention iv control treated nul =
     (let change = py_or (dget_or iv ''expected_behavioral_change'' (JObj [])) (JObj []) in
      bindR (jget change ''target_signal'') (\<lambda>target.
      bindR (jget_or change ''direction'' (JStr ''bounded_change'')) (\<lambda>direction.
      bindR (jget change ''bound'') (\<lambda>bound.
      bindR (extract_three target control treated nul) (\<lambda>(control_v, treated_v, null_v, error).
      let observed_delta = py_round 6 (fsub treated_v control_v);
          null_delta = py_round 6 (fsub null_v control_v);
          supported = (error = None) in
      bindR (if supported then direction_ok direction observed_delta bound else Ok False) (\<lambda>moved.
        Ok \<lparr>tr_experiment_id = dget iv ''experiment_id'', tr_hypothesis = dget iv ''hypothesis'',
            tr_operation = dget iv ''operation'', tr_target_signal = target, tr_expected_direction = direction,
            tr_bound = bound, tr_control_value = py_round 6 control_v, tr_treated_value = py_round 6 treated_v,
            tr_observed_delta = observed_delta, tr_null_delta = null_delta, tr_supported = supported,
            tr_passed = (supported \<and> moved \<and> flt_le (fabs null_delta) EPS),
            tr_note = (case error of Some e \<Rightarrow> e
                       | None \<Rightarrow> py_str target @ '' '' @ py_str direction @ '': '' @ fmt_fixed 4 control_v @ '' -> '' @
                                 fmt_fixed 4 treated_v)\<rparr>))))))"

definition test_json :: "test_record \<Rightarrow> json" where
  "test_json r = JObj
     [(''experiment_id'', tr_experiment_id r), (''hypothesis'', tr_hypothesis r), (''operation'', tr_operation r),
      (''target_signal'', tr_target_signal r), (''expected_direction'', tr_expected_direction r), (''bound'', tr_bound r),
      (''control_value'', JFloat (tr_control_value r)), (''treated_value'', JFloat (tr_treated_value r)),
      (''observed_delta'', JFloat (tr_observed_delta r)), (''null_delta'', JFloat (tr_null_delta r)),
      (''supported'', JBool (tr_supported r)), (''passed'', JBool (tr_passed r)), (''note'', JStr (tr_note r))]"

definition summary_passed :: "test_record list \<Rightarrow> json list" where
  "summary_passed tests = map tr_experiment_id (filter tr_passed tests)"

definition summary_failed :: "test_record list \<Rightarrow> json list" where
  "summary_failed tests = map tr_experiment_id (filter (\<lambda>r. \<not> tr_passed r) tests)"

definition report_summary :: "test_record list \<Rightarrow> json" where
  "report_summary tests =
     JObj [(''passed'', JList (summary_passed tests)), (''failed'', JList (summary_failed tests)),
           (''total'', JInt (int (length tests)))]"

definition target_signals_match :: "test_record list \<Rightarrow> bool" where
  "target_signals_match tests \<longleftrightarrow> (\<forall>r\<in>set tests. flt_le (fabs (tr_null_delta r)) EPS)"

definition null_ok :: "test_record list \<Rightarrow> bool \<Rightarrow> bool" where
  "null_ok tests null_output_equivalent \<longleftrightarrow> target_signals_match tests \<and> null_output_equivalent"

definition build_intervention_report :: "string \<Rightarrow> test_record list \<Rightarrow> bool \<Rightarrow> bool \<Rightarrow> bool \<Rightarrow> dict" where
  "build_intervention_report run_id tests causal_trace_complete report_grounded_changed null_output_equivalent =
     [(''report_id'', JStr (''intervention_report:'' @ run_id)), (''run_id'', JStr run_id),
      (''tests'', JList (map test_json tests)), (''summary'', report_summary tests),
      (''null_condition'', JObj
         [(''passed'', JBool (null_ok tests null_output_equivalent)),
          (''target_signals_match'', JBool (target_signals_match tests)),
          (''full_output_equivalent'', JBool null_output_equivalent),
          (''note'', JStr (if null_ok tests null_output_equivalent
             then ''neutralized (restore) replay is fully identical to control -> treated deltas are perturbation-caused''
             else ''neutralized replay diverged from control in target signals or full output frames (non-causal or nondeterministic)''))]),
      (''causal_trace_complete'', JBool causal_trace_complete),
      (''grounded_self_report_changed_under_perturbation'', JBool report_grounded_changed)]"

section \<open>Facts\<close>

lemma sum_floats_JFloat: "sum_floats s c (map JFloat xs) = Ok (JFloat (sum_loop s c xs))"
  by (induction xs arbitrary: s c) (simp_all add: Let_def)

text \<open>On floats alone the general loop is the compensated sum.\<close>

lemma sum_json_floats: "xs \<noteq> [] \<Longrightarrow> sum_json (map JFloat xs) = Ok (JFloat (py_sum xs))"
  by (cases xs) (simp_all add: sum_json_def as_int_def sum_floats_JFloat py_sum_def fint_def mkf_def)

lemma evaluate_keeps_id:
  "evaluate_intervention iv c t n = Ok r \<Longrightarrow> tr_experiment_id r = dget iv ''experiment_id'' \<and> tr_operation r = dget iv ''operation''"
  by (auto simp: evaluate_intervention_def Let_def result_simps)

end
