(* ===== verification/Provenance.thy ===== *)
theory Provenance
  imports Hashing Frames
begin

text \<open>
  Runner-issued provenance of counterbalanced paired replays (\<open>interventions/provenance.py\<close>). The
  identity of the module-private issuer object is a flag that only \<open>issue\<close> sets; factories are
  identified by the two attributes the code reads.
\<close>

section \<open>Model\<close>

definition COUNTERBALANCED_ORDERS :: "string list list" where
  "COUNTERBALANCED_ORDERS =
     [[''control'', ''treated'', ''null''], [''treated'', ''null'', ''control''], [''null'', ''control'', ''treated'']]"

text \<open>\<open>json.dumps\<close> with \<open>allow_nan=False\<close> raises on a non-finite float.\<close>

definition sha256_json :: "json \<Rightarrow> string result" where
  "sha256_json value =
     (if all_finite value then Ok (''sha256:'' @ sha256_hex (dumps value))
      else Raise (ValueError ''Out of range float values are not JSON compliant''))"

definition input_frames_sha256 :: "dict list \<Rightarrow> string result" where
  "input_frames_sha256 input_frames = sha256_json (JList (map JObj input_frames))"

definition output_frames_sha256 :: "psyche_outputs list \<Rightarrow> string result" where
  "output_frames_sha256 tick_outputs = sha256_json (JList (map JObj (concat (map all_frames tick_outputs))))"

text \<open>A factory: its own \<open>__module__\<close> and \<open>__qualname__\<close> where it has them, and those of its type.\<close>

record factory_names =
  fn_module :: "string option"
  fn_qualname :: "string option"
  fn_type_module :: string
  fn_type_qualname :: string

definition subject_factory_identity :: "factory_names \<Rightarrow> string" where
  "subject_factory_identity f =
     (case (fn_module f, fn_qualname f) of
        (Some m, Some q) \<Rightarrow> if m \<noteq> [] \<and> q \<noteq> [] then m @ ''.'' @ q else fn_type_module f @ ''.'' @ fn_type_qualname f
      | _ \<Rightarrow> fn_type_module f @ ''.'' @ fn_type_qualname f)"

definition unverified_provenance_record :: json where
  "unverified_provenance_record = JObj
     [(''status'', JStr ''unverified_raw_outputs''), (''runner'', JNull), (''subject_factory'', JNull),
      (''subject_factory_eligible'', JBool False), (''input_frames_sha256'', JNull),
      (''arm_output_sha256'', JObj [(''control'', JNull), (''treated'', JNull), (''null'', JNull)]),
      (''arm_orders'', JList []), (''counterbalanced_passes'', JList []), (''ordinal_invariant'', JBool False)]"

record provenance =
  input_digest :: string
  arm_digests :: "(string \<times> string) list"
  pass_digests :: "(string \<times> string) list list"
  arm_orders :: "string list list"
  ordinal_invariant :: bool
  subject_factory :: string
  subject_factory_eligible :: bool
  issued :: bool

text \<open>Every pass has the same digest for an arm.\<close>

definition same_digest :: "(string \<times> string) list list \<Rightarrow> string \<Rightarrow> bool" where
  "same_digest passes arm \<longleftrightarrow> card (set (map (\<lambda>digests. map_of digests arm) passes)) = 1"

definition digest_pass :: "(string \<times> psyche_outputs list) list \<Rightarrow> (string \<times> string) list result" where
  "digest_pass replay_pass =
     mapR (\<lambda>(arm, outs). bindR (output_frames_sha256 outs) (\<lambda>h. Ok (arm, h))) replay_pass"

definition digest_of :: "(string \<times> string) list \<Rightarrow> string \<Rightarrow> string \<times> string" where
  "digest_of digests arm = (arm, case map_of digests arm of None \<Rightarrow> [] | Some h \<Rightarrow> h)"

definition issue ::
  "dict list \<Rightarrow> (string \<times> psyche_outputs list) list list \<Rightarrow> factory_names \<Rightarrow> bool \<Rightarrow> provenance result" where
  "issue input_frames replay_passes factory eligible =
     (if length replay_passes \<noteq> length COUNTERBALANCED_ORDERS
      then Raise (ValueError ''all counterbalanced replay orders are required'')
      else
        bindR (mapR digest_pass replay_passes) (\<lambda>passes.
        let expected_arms = hd COUNTERBALANCED_ORDERS in
        if list_ex (\<lambda>digests. set (map fst digests) \<noteq> set expected_arms) passes
        then Raise (ValueError ''every replay pass must contain control, treated, and null'')
        else
          bindR (input_frames_sha256 input_frames) (\<lambda>input.
            Ok \<lparr>input_digest = input,
                arm_digests = map (digest_of (hd passes)) expected_arms,
                pass_digests = map2 (\<lambda>order digests. map (digest_of digests) order) COUNTERBALANCED_ORDERS passes,
                arm_orders = COUNTERBALANCED_ORDERS,
                ordinal_invariant = list_all (same_digest passes) expected_arms,
                subject_factory = subject_factory_identity factory,
                subject_factory_eligible = eligible, issued = True\<rparr>)))"

text \<open>Equality of two dicts of digests.\<close>

definition same_digests :: "(string \<times> string) list \<Rightarrow> (string \<times> string) list \<Rightarrow> bool" where
  "same_digests d e \<longleftrightarrow> list_all (\<lambda>k. map_of d k = map_of e k) (map fst d @ map fst e)"

definition integrity_errors ::
  "provenance \<Rightarrow> dict list \<Rightarrow> psyche_outputs list \<Rightarrow> psyche_outputs list \<Rightarrow> psyche_outputs list \<Rightarrow> string list result" where
  "integrity_errors p input_frames control treated nul =
     bindR (input_frames_sha256 input_frames) (\<lambda>input.
     bindR (output_frames_sha256 control) (\<lambda>hc. bindR (output_frames_sha256 treated) (\<lambda>ht.
     bindR (output_frames_sha256 nul) (\<lambda>hn.
     let expected = [(''control'', hc), (''treated'', ht), (''null'', hn)];
         pass_shape_ok = (length (pass_digests p) = length COUNTERBALANCED_ORDERS \<and>
           list_all (\<lambda>digests. set (map fst digests) = set (map fst expected)) (pass_digests p));
         derived_invariant = (pass_shape_ok \<and> list_all (same_digest (pass_digests p)) (map fst expected))
     in Ok ((if \<not> issued p then [''paired replay provenance was not issued by this runner''] else []) @
            (if arm_orders p \<noteq> COUNTERBALANCED_ORDERS then [''paired replay did not cover the required arm orders''] else []) @
            (if \<not> subject_factory_eligible p
             then [''subject factory is not certified for the v0.2 internal Level-4 path''] else []) @
            (if input_digest p \<noteq> input then [''paired replay input digest does not match the timeline''] else []) @
            (if \<not> same_digests (arm_digests p) expected
             then [''paired replay arm digests do not match supplied outputs''] else []) @
            (if ordinal_invariant p \<noteq> derived_invariant
             then [''paired replay ordinal-invariance flag disagrees with pass digests''] else []) @
            (if \<not> derived_invariant then [''paired arm outputs changed with factory execution order''] else []))))))"

definition provenance_status :: "provenance \<Rightarrow> string" where
  "provenance_status p =
     (if \<not> ordinal_invariant p then ''order_confounded''
      else if \<not> subject_factory_eligible p then ''uncertified_subject'' else ''runner_verified'')"

definition digests_json :: "(string \<times> string) list \<Rightarrow> json" where
  "digests_json d = JObj (map (\<lambda>(k, h). (k, JStr h)) d)"

definition provenance_record :: "provenance \<Rightarrow> json" where
  "provenance_record p = JObj
     [(''status'', JStr (provenance_status p)), (''runner'', JStr ''pneuma_lab.interventions.PairedReplayRunner/v1''),
      (''subject_factory'', JStr (subject_factory p)), (''subject_factory_eligible'', JBool (subject_factory_eligible p)),
      (''input_frames_sha256'', JStr (input_digest p)), (''arm_output_sha256'', digests_json (arm_digests p)),
      (''arm_orders'', JList (map (\<lambda>order. JList (map JStr order)) (arm_orders p))),
      (''counterbalanced_passes'', JList (map2 (\<lambda>order digests.
          JObj [(''order'', JList (map JStr order)), (''arm_output_sha256'', digests_json digests)])
        (arm_orders p) (pass_digests p))),
      (''ordinal_invariant'', JBool (ordinal_invariant p))]"

section \<open>Facts\<close>

lemma digest_pass_keys: "digest_pass rp = Ok ds \<Longrightarrow> map fst ds = map fst rp"
  by (induction rp arbitrary: ds) (auto simp: digest_pass_def result_simps)

lemma digest_pass_map_of:
  assumes "digest_pass rp = Ok ds" and "map_of rp arm = Some outs"
  shows "\<exists>h. output_frames_sha256 outs = Ok h \<and> map_of ds arm = Some h"
  using assms by (induction rp arbitrary: ds) (auto simp: digest_pass_def result_simps split: if_splits)

lemma map_of_digest_of: "arm \<in> set order \<Longrightarrow> map_of (map (digest_of d) order) arm = Some (snd (digest_of d arm))"
  by (induction order) (auto simp: digest_of_def)

text \<open>Reading the digests back in the recorded orders changes neither the arms nor their agreement.\<close>

lemma recorded_passes:
  assumes "length passes = 3" and "\<forall>d\<in>set passes. set (map fst d) = set (hd COUNTERBALANCED_ORDERS)"
  shows "length (map2 (\<lambda>order digests. map (digest_of digests) order) COUNTERBALANCED_ORDERS passes) = 3"
    and "\<forall>d\<in>set (map2 (\<lambda>order digests. map (digest_of digests) order) COUNTERBALANCED_ORDERS passes).
           set (map fst d) = set (hd COUNTERBALANCED_ORDERS)"
    and "arm \<in> set (hd COUNTERBALANCED_ORDERS) \<Longrightarrow>
         same_digest (map2 (\<lambda>order digests. map (digest_of digests) order) COUNTERBALANCED_ORDERS passes) arm
         \<longleftrightarrow> same_digest passes arm"
proof -
  obtain a b c where passes: "passes = [a, b, c]"
    using assms(1) by (auto simp: numeral_3_eq_3 length_Suc_conv)
  show "length (map2 (\<lambda>order digests. map (digest_of digests) order) COUNTERBALANCED_ORDERS passes) = 3"
    by (simp add: passes COUNTERBALANCED_ORDERS_def)
  show "\<forall>d\<in>set (map2 (\<lambda>order digests. map (digest_of digests) order) COUNTERBALANCED_ORDERS passes).
           set (map fst d) = set (hd COUNTERBALANCED_ORDERS)"
    by (auto simp: passes COUNTERBALANCED_ORDERS_def digest_of_def)
  assume arm: "arm \<in> set (hd COUNTERBALANCED_ORDERS)"
  have read: "map_of (map (digest_of d) order) arm = map_of d arm"
    if "d \<in> set passes" and "order \<in> set COUNTERBALANCED_ORDERS" for d order
  proof -
    have "arm \<in> set order"
      using that(2) arm by (auto simp: COUNTERBALANCED_ORDERS_def)
    moreover have "arm \<in> fst ` set d"
      using assms(2) that(1) arm by (metis list.set_map)
    then obtain h where "map_of d arm = Some h"
      by (metis domI domIff map_of_eq_None_iff not_None_eq)
    ultimately show ?thesis
      by (simp add: map_of_digest_of) (simp add: digest_of_def)
  qed
  have r: "map_of (map (digest_of a) [''control'', ''treated'', ''null'']) arm = map_of a arm"
    "map_of (map (digest_of b) [''treated'', ''null'', ''control'']) arm = map_of b arm"
    "map_of (map (digest_of c) [''null'', ''control'', ''treated'']) arm = map_of c arm"
    using read by (simp_all only: passes COUNTERBALANCED_ORDERS_def list.set insert_iff simp_thms)
  show "same_digest (map2 (\<lambda>order digests. map (digest_of digests) order) COUNTERBALANCED_ORDERS passes) arm
         \<longleftrightarrow> same_digest passes arm"
    unfolding same_digest_def passes COUNTERBALANCED_ORDERS_def zip_Cons_Cons zip.simps(1) list.map prod.case r [unfolded list.map] ..
qed

lemma digest_of_hd:
  assumes "mapR digest_pass rps = Ok passes" and "rps \<noteq> []" and "map_of (hd rps) arm = Some outs"
  shows "\<exists>h. output_frames_sha256 outs = Ok h \<and> digest_of (hd passes) arm = (arm, h)"
proof -
  obtain rp rest where rps: "rps = rp # rest"
    using assms(2) by (cases rps) auto
  then obtain d ds where "passes = d # ds" and "digest_pass rp = Ok d"
    using assms(1) by (auto simp: result_simps)
  with digest_pass_map_of [of rp d arm outs] assms(3) rps show ?thesis
    by (auto simp: digest_of_def)
qed

lemma issueE:
  assumes "issue fs rps f eligible = Ok p"
  obtains passes input where "mapR digest_pass rps = Ok passes" "length passes = 3"
    "\<forall>d\<in>set passes. set (map fst d) = set (hd COUNTERBALANCED_ORDERS)" "input_frames_sha256 fs = Ok input"
    "p = \<lparr>input_digest = input, arm_digests = map (digest_of (hd passes)) (hd COUNTERBALANCED_ORDERS),
          pass_digests = map2 (\<lambda>order digests. map (digest_of digests) order) COUNTERBALANCED_ORDERS passes,
          arm_orders = COUNTERBALANCED_ORDERS, ordinal_invariant = list_all (same_digest passes) (hd COUNTERBALANCED_ORDERS),
          subject_factory = subject_factory_identity f, subject_factory_eligible = eligible, issued = True\<rparr>"
proof -
  have three: "length COUNTERBALANCED_ORDERS = 3"
    by (simp add: COUNTERBALANCED_ORDERS_def)
  from assms obtain passes input where *: "length rps = 3" "mapR digest_pass rps = Ok passes"
    "\<not> list_ex (\<lambda>digests. set (map fst digests) \<noteq> set (hd COUNTERBALANCED_ORDERS)) passes" "input_frames_sha256 fs = Ok input"
    "p = \<lparr>input_digest = input, arm_digests = map (digest_of (hd passes)) (hd COUNTERBALANCED_ORDERS),
          pass_digests = map2 (\<lambda>order digests. map (digest_of digests) order) COUNTERBALANCED_ORDERS passes,
          arm_orders = COUNTERBALANCED_ORDERS, ordinal_invariant = list_all (same_digest passes) (hd COUNTERBALANCED_ORDERS),
          subject_factory = subject_factory_identity f, subject_factory_eligible = eligible, issued = True\<rparr>"
    unfolding issue_def three Let_def by (auto simp: result_simps split: if_splits)
  show thesis
    using *(1) mapR_length [OF *(2)] by (intro that [OF *(2) _ _ *(4) *(5)]) (use *(3) in \<open>auto simp: list_ex_iff\<close>)
qed

lemma digest_pass_lookup:
  "digest_pass rp = Ok ds \<Longrightarrow>
   map_of ds arm = map_option (\<lambda>outs. projr (output_frames_sha256 outs)) (map_of rp arm)"
  by (induction rp arbitrary: ds) (auto simp: digest_pass_def result_simps)

text \<open>Passes that agree on every arm are ordinally invariant.\<close>

lemma issue_ordinal_invariant:
  assumes "issue fs rps f eligible = Ok p" and "\<And>x y arm. x \<in> set rps \<Longrightarrow> y \<in> set rps \<Longrightarrow> map_of x arm = map_of y arm"
  shows "ordinal_invariant p"
  using assms(1)
proof (rule issueE)
  fix passes input
  assume run: "mapR digest_pass rps = Ok passes" and len: "length passes = 3"
    and p: "p = \<lparr>input_digest = input, arm_digests = map (digest_of (hd passes)) (hd COUNTERBALANCED_ORDERS),
          pass_digests = map2 (\<lambda>order digests. map (digest_of digests) order) COUNTERBALANCED_ORDERS passes,
          arm_orders = COUNTERBALANCED_ORDERS, ordinal_invariant = list_all (same_digest passes) (hd COUNTERBALANCED_ORDERS),
          subject_factory = subject_factory_identity f, subject_factory_eligible = eligible, issued = True\<rparr>"
  have "same_digest passes arm" for arm
  proof -
    obtain a b c where passes: "passes = [a, b, c]"
      using len by (auto simp: numeral_3_eq_3 length_Suc_conv)
    obtain x y z where rps: "rps = [x, y, z]"
      using len mapR_length [OF run] by (auto simp: numeral_3_eq_3 length_Suc_conv)
    have "digest_pass x = Ok a" "digest_pass y = Ok b" "digest_pass z = Ok c"
      using run by (auto simp: passes rps result_simps)
    then have "map_of b arm = map_of a arm" "map_of c arm = map_of a arm"
      using assms(2) [of x y arm] assms(2) [of x z arm] by (simp_all add: digest_pass_lookup rps)
    then show ?thesis
      by (simp add: same_digest_def passes)
  qed
  then show ?thesis
    by (simp add: p list_all_iff)
qed

text \<open>Checking freshly issued provenance against the arms it was issued for.\<close>

lemma issue_integrity:
  assumes "issue fs rps f eligible = Ok p"
    and "map_of (hd rps) ''control'' = Some c" and "map_of (hd rps) ''treated'' = Some t" and "map_of (hd rps) ''null'' = Some n"
  shows "\<exists>es. integrity_errors p fs c t n = Ok es \<and> (es = [] \<longleftrightarrow> eligible \<and> ordinal_invariant p)"
  using assms(1)
proof (rule issueE)
  fix passes input
  assume run: "mapR digest_pass rps = Ok passes" and len: "length passes = 3"
    and arms: "\<forall>d\<in>set passes. set (map fst d) = set (hd COUNTERBALANCED_ORDERS)" and input: "input_frames_sha256 fs = Ok input"
    and p: "p = \<lparr>input_digest = input, arm_digests = map (digest_of (hd passes)) (hd COUNTERBALANCED_ORDERS),
          pass_digests = map2 (\<lambda>order digests. map (digest_of digests) order) COUNTERBALANCED_ORDERS passes,
          arm_orders = COUNTERBALANCED_ORDERS, ordinal_invariant = list_all (same_digest passes) (hd COUNTERBALANCED_ORDERS),
          subject_factory = subject_factory_identity f, subject_factory_eligible = eligible, issued = True\<rparr>"
  have ne: "rps \<noteq> []"
    using run len by (auto simp: result_simps)
  obtain hc ht hn where h: "output_frames_sha256 c = Ok hc" "output_frames_sha256 t = Ok ht" "output_frames_sha256 n = Ok hn"
    "digest_of (hd passes) ''control'' = (''control'', hc)" "digest_of (hd passes) ''treated'' = (''treated'', ht)"
    "digest_of (hd passes) ''null'' = (''null'', hn)"
    using digest_of_hd [OF run ne] assms(2-4) by meson
  have arm_names: "hd COUNTERBALANCED_ORDERS = [''control'', ''treated'', ''null'']" "length COUNTERBALANCED_ORDERS = 3"
    by (simp_all add: COUNTERBALANCED_ORDERS_def)
  note rec = recorded_passes [OF len arms]
  have inv: "list_all (same_digest (pass_digests p)) (hd COUNTERBALANCED_ORDERS) = ordinal_invariant p"
    using rec(3) by (auto simp: p list_all_iff)
  have shape: "length (pass_digests p) = 3" "list_all (\<lambda>d. set (map fst d) = set (hd COUNTERBALANCED_ORDERS)) (pass_digests p)"
    using rec(1,2) by (simp_all add: p list_all_iff)
  have digs: "arm_digests p = [(''control'', hc), (''treated'', ht), (''null'', hn)]"
    by (simp add: p arm_names h)
  have same: "same_digests d d" for d
    by (simp add: same_digests_def list_all_iff)
  have rest: "issued p" "arm_orders p = COUNTERBALANCED_ORDERS" "input_digest p = input" "subject_factory_eligible p = eligible"
    by (simp_all add: p)
  show ?thesis
    unfolding integrity_errors_def input h(1-3) bindR_Inr Let_def digs rest
    using same shape inv unfolding arm_names by (auto simp: rest)
qed

text \<open>
  C6. Provenance round trip: provenance issued for three replay passes, checked against the arms of the
  first pass and the same timeline, reports no integrity error exactly when the subject factory is
  eligible and the arms did not change with the execution order.
\<close>

theorem issued_provenance_verifies:
  assumes "issue fs rps f eligible = Ok p"
    and "map_of (hd rps) ''control'' = Some c" and "map_of (hd rps) ''treated'' = Some t" and "map_of (hd rps) ''null'' = Some n"
  shows "\<exists>es. integrity_errors p fs c t n = Ok es \<and> (es = [] \<longleftrightarrow> eligible \<and> ordinal_invariant p)"
  using assms by (rule issue_integrity)

definition empty_arms :: "(string \<times> psyche_outputs list) list" where
  "empty_arms = [(''control'', []), (''treated'', []), (''null'', [])]"

theorem issued_provenance_verifies_witness:
  "\<exists>p es. issue [] [empty_arms, empty_arms, empty_arms]
       \<lparr>fn_module = None, fn_qualname = None, fn_type_module = ''builtins'', fn_type_qualname = ''function''\<rparr> True = Ok p \<and>
     integrity_errors p [] [] [] [] = Ok es \<and> (es = [] \<longleftrightarrow> ordinal_invariant p)"
proof -
  obtain p where p: "issue [] [empty_arms, empty_arms, empty_arms]
       \<lparr>fn_module = None, fn_qualname = None, fn_type_module = ''builtins'', fn_type_qualname = ''function''\<rparr> True = Ok p"
    by (simp add: issue_def empty_arms_def digest_pass_def output_frames_sha256_def input_frames_sha256_def sha256_json_def
          COUNTERBALANCED_ORDERS_def)
  show ?thesis
    using issued_provenance_verifies [OF p, of "[]" "[]" "[]"] p by (auto simp: empty_arms_def)
qed

end
