(* ===== verification/Validation.thy ===== *)
theory Validation
  imports PyJson
begin

text \<open>
  Frame validation (\<open>schemas/validate.py\<close>). The third-party \<open>jsonschema\<close> validator is the
  parameter \<open>schema_errors\<close>: for a frame kind and a frame, the formatted messages of
  \<open>Draft202012Validator(schema).iter_errors\<close>, in the order the code sorts them.
\<close>

type_synonym schema_checker = "string \<Rightarrow> dict \<Rightarrow> string list"

section \<open>Model\<close>

definition FRAME_KINDS :: "string list" where
  "FRAME_KINDS =
     [''world'', ''agent_trace'', ''memory'', ''governance'', ''intervention'',
      ''psyche_state'', ''workspace_broadcast'', ''instinct_signal'', ''control_pressure'',
      ''authority_request'', ''causal_trace'', ''consciousness_evidence'', ''grounded_self_report'',
      ''risk_estimate'']"

definition child_path :: "string \<Rightarrow> string \<Rightarrow> string" where
  "child_path path key = (if path = ''<root>'' then key else path @ ''/'' @ key)"

text \<open>\<open>_non_finite_errors\<close>\<close>

fun non_finite_errors :: "json \<Rightarrow> string \<Rightarrow> string list"
  and non_finite_dict :: "dict \<Rightarrow> string \<Rightarrow> string list"
  and non_finite_list :: "json list \<Rightarrow> nat \<Rightarrow> string \<Rightarrow> string list" where
  "non_finite_errors (JFloat f) path =
     (if is_finite f then []
      else [path @ '': non-finite number '' @ py_repr f @ '' is not valid JSON''])"
| "non_finite_errors (JObj d) path = non_finite_dict d path"
| "non_finite_errors (JList xs) path = non_finite_list xs 0 path"
| "non_finite_errors JNull path = []"
| "non_finite_errors (JBool b) path = []"
| "non_finite_errors (JInt i) path = []"
| "non_finite_errors (JStr s) path = []"
| "non_finite_dict [] path = []"
| "non_finite_dict (kv # d) path =
     non_finite_errors (snd kv) (child_path path (fst kv)) @ non_finite_dict d path"
| "non_finite_list [] i path = []"
| "non_finite_list (x # xs) i path =
     non_finite_errors x (child_path path (show_nat i)) @ non_finite_list xs (Suc i) path"

definition iter_errors :: "schema_checker \<Rightarrow> dict \<Rightarrow> string list" where
  "iter_errors schema_errors frame =
     (case dget frame ''frame_kind'' of
        JStr kind \<Rightarrow>
          if kind \<notin> set FRAME_KINDS then [''unknown frame_kind: '' @ repr_str kind]
          else non_finite_errors (JObj frame) ''<root>'' @ schema_errors kind frame
      | kind \<Rightarrow> [''frame has no string frame_kind: '' @ py_repr_json kind])"

definition is_valid :: "schema_checker \<Rightarrow> dict \<Rightarrow> bool" where
  "is_valid schema_errors frame \<longleftrightarrow> iter_errors schema_errors frame = []"

definition validate_or_raise :: "schema_checker \<Rightarrow> dict \<Rightarrow> dict result" where
  "validate_or_raise schema_errors frame =
     (let errors = iter_errors schema_errors frame in
      if errors \<noteq> []
      then Raise (FrameValidationError
             (''invalid '' @ py_str (dget_or frame ''frame_kind'' (JStr ''<unknown>'')) @ '' frame: '' @
              join ''; '' errors))
      else Ok frame)"

text \<open>Validate a list of frames in order.\<close>

definition validate_all :: "schema_checker \<Rightarrow> dict list \<Rightarrow> unit result" where
  "validate_all schema_errors frames =
     foldR (\<lambda>u frame. bindR (validate_or_raise schema_errors frame) (\<lambda>_. Ok ())) () frames"

section \<open>Facts\<close>

lemma validate_or_raise_Ok [simp]:
  "validate_or_raise se f = Ok f' \<longleftrightarrow> is_valid se f \<and> f' = f"
  by (auto simp: validate_or_raise_def is_valid_def Let_def)

lemma validate_all_Ok: "validate_all se fs = Ok u \<longleftrightarrow> (\<forall>f\<in>set fs. is_valid se f)"
proof (induction fs)
  case Nil
  then show ?case by (simp add: validate_all_def)
next
  case (Cons f fs)
  then show ?case
    by (cases "validate_or_raise se f")
       (auto simp: validate_all_def validate_or_raise_def is_valid_def Let_def split: if_splits)
qed

lemma validate_all_append: "validate_all se (fs @ gs) = bindR (validate_all se fs) (\<lambda>_. validate_all se gs)"
  by (simp add: validate_all_def foldR_append)

text \<open>The extra pass over the numbers accepts exactly the values of strict JSON.\<close>

lemma non_finite_errors_iff:
  "non_finite_errors v p = [] \<longleftrightarrow> all_finite v"
  "non_finite_dict d p = [] \<longleftrightarrow> (\<forall>kv\<in>set d. all_finite (snd kv))"
  "non_finite_list xs i p = [] \<longleftrightarrow> (\<forall>x\<in>set xs. all_finite x)"
  by (induction v p and d p and xs i p rule: non_finite_errors_non_finite_dict_non_finite_list.induct) auto

lemma is_valid_finite: "is_valid se f \<Longrightarrow> all_finite (JObj f)"
  by (auto simp: is_valid_def iter_errors_def non_finite_errors_iff split: json.splits if_splits)

end
