(* ===== verification/Evidence.thy ===== *)
theory Evidence
  imports Report Provenance Validation
begin

text \<open>
  The Level 0 to 4 evidence scorer (\<open>evals/evidence.py\<close>): the intervention gate that cross-checks
  registered, executed and reported tests, the nine indicator families, the level ladder, the
  missing requirements, and the three entry points \<open>score\<close>, \<open>score_paired\<close> and the runner-verified
  one. The JSON-schema validator is the parameter \<open>se\<close>. The ladder is stated and proved in the
  theory \<open>Ladder\<close>.
\<close>

section \<open>Constants\<close>

definition L5_MISSING :: "string list" where
  "L5_MISSING =
     [''convergent_evidence: Level 4 shown on one battery; Level 5 needs every family intervention-backed'',
      ''adversarial_robustness: evidence not yet stress-tested against adversarial perturbation over time'',
      ''external_audit: internally auditable in-harness; Level 5 needs independent external audit'']"

definition CONFAB_MAX_FOR_L4 :: flt where "CONFAB_MAX_FOR_L4 = lit (2 / 10)"

definition ALL_FAMILIES :: "string list" where
  "ALL_FAMILIES =
     [''global_workspace'', ''recurrent_processing'', ''higher_order_self_model'', ''predictive_processing'',
      ''attention_schema'', ''valenced_learning'', ''identity_persistence'', ''counterfactual_introspection'',
      ''causal_intervention_robustness'']"

definition U_ARROW :: string where "U_ARROW = [CHR 0xE2, CHR 0x86, CHR 0x92]"
definition U_DASH :: string where "U_DASH = [CHR 0xE2, CHR 0x80, CHR 0x94]"

text \<open>\<open>repr\<close> of a list of strings.\<close>

definition repr_strs :: "string list \<Rightarrow> string" where
  "repr_strs xs = py_repr_json (JList (map JStr xs))"

definition py_sorted :: "string list \<Rightarrow> string list" where
  "py_sorted xs = sort (remdups xs)"

section \<open>The intervention gate\<close>

record gate =
  registered :: "string list"
  passed :: "string list"
  failed :: "string list"
  executed :: int
  reported_total :: json
  has_test_results :: bool
  non_restore_evaluated :: bool
  genuine_perturbation :: bool
  inventory_errors :: "string list"
  provenance_errors :: "string list"

definition gate_integrity_errors :: "gate \<Rightarrow> string list" where
  "gate_integrity_errors g = inventory_errors g @ provenance_errors g"

definition inventory_ok :: "gate \<Rightarrow> bool" where
  "inventory_ok g \<longleftrightarrow> registered g \<noteq> [] \<and> inventory_errors g = []"

definition integrity_ok :: "gate \<Rightarrow> bool" where
  "integrity_ok g \<longleftrightarrow> registered g \<noteq> [] \<and> gate_integrity_errors g = []"

definition promotion_ready :: "gate \<Rightarrow> bool" where
  "promotion_ready g \<longleftrightarrow> integrity_ok g \<and> genuine_perturbation g \<and> passed g \<noteq> [] \<and> failed g = []"

definition gate_record :: "gate \<Rightarrow> json" where
  "gate_record g = JObj
     [(''results'', JList (map (\<lambda>eid. JObj [(''experiment_id'', JStr eid),
          (''outcome'', JStr (if eid \<in> set (failed g) then ''failed''
                              else if eid \<in> set (passed g) then ''passed'' else ''not_evaluated''))]) (registered g))),
      (''executed_count'', JInt (executed g)), (''reported_total'', reported_total g),
      (''integrity_ok'', JBool (integrity_ok g)),
      (''integrity_errors'', JList (map JStr (gate_integrity_errors g))),
      (''genuine_perturbation'', JBool (genuine_perturbation g))]"

text \<open>\<open>_string_ids\<close>: the ids, and the error it appends.\<close>

definition str_of :: "json \<Rightarrow> string" where
  "str_of v = (case v of JStr s \<Rightarrow> s | _ \<Rightarrow> [])"

definition string_ids :: "json \<Rightarrow> string \<Rightarrow> string list \<times> string list" where
  "string_ids value label =
     (case value of
        JList xs \<Rightarrow> if list_all is_str xs then (map str_of xs, []) else ([], [label @ '' must be a list of strings''])
      | _ \<Rightarrow> ([], [label @ '' must be a list of strings'']))"

definition unique_step :: "dict list \<times> string list \<times> string list \<Rightarrow> dict \<Rightarrow> dict list \<times> string list \<times> string list" where
  "unique_step st frame =
     (let (unique, seen, duplicates) = st in
      case dget frame ''experiment_id'' of
        JStr e \<Rightarrow> if e = [] then (unique @ [frame], seen, duplicates)
                  else if e \<in> set seen then (unique, seen, duplicates @ [e])
                  else (unique @ [frame], e # seen, duplicates)
      | _ \<Rightarrow> (unique @ [frame], seen, duplicates))"

definition unique_intervention_frames :: "dict list \<Rightarrow> dict list \<times> string list \<times> int" where
  "unique_intervention_frames input_frames =
     (let attached = concat (map tk_interventions (group_into_ticks input_frames));
          raw_count = length (filter is_intervention input_frames);
          (unique, seen, duplicates) = foldl unique_step ([], [], []) attached
      in (unique, duplicates, int raw_count - int (length attached)))"

definition named_experiment :: "dict \<Rightarrow> bool" where
  "named_experiment frame = (case dget frame ''experiment_id'' of JStr e \<Rightarrow> e \<noteq> [] | _ \<Rightarrow> False)"

definition registered_ids :: "dict list \<Rightarrow> string list" where
  "registered_ids frames = map (\<lambda>f. str_of (dget f ''experiment_id'')) (filter named_experiment frames)"

definition is_int :: "json \<Rightarrow> bool" where
  "is_int v = (case v of JInt _ \<Rightarrow> True | _ \<Rightarrow> False)"

definition in_ids :: "json \<Rightarrow> string list \<Rightarrow> bool" where
  "in_ids v ids = list_ex (\<lambda>e. py_eq v (JStr e)) ids"

text \<open>\<open>intervention_tests\<close> and \<open>interventions_executed\<close> are the values the caller passes, \<open>None\<close> as \<open>JNull\<close>.\<close>

definition intervention_gate :: "dict list \<Rightarrow> json \<Rightarrow> json \<Rightarrow> test_record list \<Rightarrow> string list \<Rightarrow> gate" where
  "intervention_gate input_frames interventions_executed intervention_tests tests prov_errors =
     (let (frames, duplicate_ids, unattached) = unique_intervention_frames input_frames;
          reg = registered_ids frames; n = length reg;
          has_results = (intervention_tests \<noteq> JNull);
          summary = (case intervention_tests of JObj d \<Rightarrow> d | _ \<Rightarrow> []);
          (ps, ps_errors) = string_ids (dget_or summary ''passed'' (JList [])) ''passed'';
          (fs, fs_errors) = string_ids (dget_or summary ''failed'' (JList [])) ''failed'';
          total0 = (if has_results then dget summary ''total'' else JNull);
          exec = (case interventions_executed of JInt i \<Rightarrow> i | _ \<Rightarrow> 0);
          bad_total = (has_results \<and> \<not> is_int total0);
          total = (if bad_total then JNull else total0);
          errors =
            map (\<lambda>d. ''duplicate registered experiment_id: '' @ d) duplicate_ids @
            (if unattached \<noteq> 0
             then [show_int unattached @ '' InterventionFrame(s) are not attached to any world tick''] else []) @
            map (\<lambda>_. ''registered intervention has no non-empty experiment_id'') (filter (\<lambda>f. \<not> named_experiment f) frames) @
            (if has_results \<and> \<not> is_dict intervention_tests then [''intervention_tests must be an object''] else []) @
            ps_errors @ fs_errors @
            (if \<not> is_int interventions_executed then [''interventions_executed must be an integer''] else []) @
            (if reg = [] then [''no InterventionFrame is registered'']
             else if 1 < n then [''multiple interventions require isolated treated/null arms or an explicit joint-intervention hypothesis'']
             else []) @
            (if \<not> has_results then [''no intervention test summary was supplied''] else []) @
            (if bad_total then [''intervention test summary total must be an integer''] else []) @
            (if \<not> distinct ps then [''passed contains duplicate experiment IDs''] else []) @
            (if \<not> distinct fs then [''failed contains duplicate experiment IDs''] else []) @
            (if set ps \<inter> set fs \<noteq> {} then [''passed and failed experiment IDs overlap''] else []) @
            (if set reg \<noteq> set ps \<union> set fs
             then [''reported experiment IDs do not exactly partition registered IDs: registered='' @
                   repr_strs (py_sorted reg) @ '', reported='' @ repr_strs (py_sorted (ps @ fs))] else []) @
            (if exec \<noteq> int n
             then [''executed count '' @ show_int exec @ '' does not match registered count '' @ show_nat n] else []) @
            (if \<not> py_eq total (JInt (int n))
             then [''reported total '' @ py_repr_json total @ '' does not match registered count '' @ show_nat n] else [])
      in \<lparr>registered = reg, passed = ps, failed = fs, executed = exec, reported_total = total,
          has_test_results = has_results,
          non_restore_evaluated = list_ex (\<lambda>r. in_ids (tr_experiment_id r) reg \<and> \<not> py_eq (tr_operation r) (JStr ''restore'')) tests,
          genuine_perturbation = list_ex (\<lambda>r. in_ids (tr_experiment_id r) reg \<and> \<not> py_eq (tr_operation r) (JStr ''restore'') \<and>
             flt_less (lit (1 / 10 ^ 6)) (fabs (tr_observed_delta r))) tests,
          inventory_errors = errors, provenance_errors = prov_errors\<rparr>)"

section \<open>Indicator families\<close>

record family =
  fm_score :: flt
  fm_status :: string
  fm_ticks :: nat
  fm_note :: string
  fm_supporting :: "string list"
  fm_refuting :: "string list"

definition SUPPORTED :: "string list" where
  "SUPPORTED = [''evidenced'', ''intervention_backed'']"

definition STATUS_SCORE :: "string \<Rightarrow> flt" where
  "STATUS_SCORE status =
     (if status = ''intervention_backed'' then lit (85 / 100) else if status = ''evidenced'' then lit (6 / 10)
      else if status = ''attempted'' then lit (3 / 10) else if status = ''architecture_only'' then lit (2 / 10) else Num 0)"

definition family_rec :: "string \<Rightarrow> nat \<Rightarrow> string \<Rightarrow> family" where
  "family_rec status ticks note =
     \<lparr>fm_score = STATUS_SCORE status, fm_status = status, fm_ticks = ticks, fm_note = note,
      fm_supporting = (if status \<in> set SUPPORTED then [note] else []),
      fm_refuting = (if status \<notin> set SUPPORTED then [''no passed intervention/null-condition evidence''] else [])\<rparr>"

definition family_json :: "family \<Rightarrow> json" where
  "family_json f = JObj
     [(''score'', JFloat (fm_score f)), (''status'', JStr (fm_status f)), (''ticks_exercised'', JInt (int (fm_ticks f))),
      (''note'', JStr (fm_note f)), (''supporting_refs'', JList (map JStr (fm_supporting f))),
      (''refuting_refs'', JList (map JStr (fm_refuting f)))]"

text \<open>\<open>v > 0\<close>\<close>

definition json_gt0 :: "json \<Rightarrow> bool result" where
  "json_gt0 v =
     (case as_int v of Some i \<Rightarrow> Ok (0 < i)
      | None \<Rightarrow> (case v of JFloat f \<Rightarrow> Ok (flt_less (Num 0) f) | _ \<Rightarrow> Raise TypeError))"

text \<open>\<open>(d.get(section, {}) or {}).get(key, default)\<close>\<close>

definition nested_get :: "dict \<Rightarrow> string \<Rightarrow> string \<Rightarrow> json \<Rightarrow> json result" where
  "nested_get d sect key dflt = jget_or (py_or (dget_or d sect (JObj [])) (JObj [])) key dflt"

definition chain_link :: "dict \<times> dict \<Rightarrow> bool" where
  "chain_link pc =
     (let (prev, cur) = pc in
      truthy (dget prev ''new_state_hash'') \<and> py_eq (dget prev ''new_state_hash'') (dget cur ''previous_state_hash'') \<and>
      \<not> py_eq (dget cur ''previous_state_hash'') (dget cur ''new_state_hash''))"

definition hash_chain_links :: "dict list \<Rightarrow> nat" where
  "hash_chain_links traces =
     (let links = length (filter chain_link (zip traces (tl traces))) in
      case traces of
        [] \<Rightarrow> 0
      | t # ts \<Rightarrow> if links = 0 \<and> ts = []
                  then (if \<not> py_eq (dget t ''previous_state_hash'') (dget t ''new_state_hash'') then 1 else 0)
                  else links)"

definition competed :: "dict \<Rightarrow> bool" where
  "competed b \<longleftrightarrow> truthy (dget b ''winning_faculty'') \<and> truthy (dget b ''salience_scores'')"

definition models_itself :: "dict \<Rightarrow> bool result" where
  "models_itself s =
     bindR (jget (dget_or s ''self_model'' (JObj [])) ''predicted_error'') (\<lambda>p.
       if p = JNull then Ok False
       else bindR (jget (dget_or s ''self_model'' (JObj [])) ''self_model_reliability'') (\<lambda>r. Ok (r \<noteq> JNull)))"

definition calibrated :: "dict \<Rightarrow> bool result" where
  "calibrated s = bindR (nested_get s ''calibration_state'' ''samples'' (JInt 0)) json_gt0"

definition resolved_prediction :: "dict \<Rightarrow> bool result" where
  "resolved_prediction t = py_in (JStr ''resolved prior prediction'') (dget_or t ''state_update_mechanism'' (JStr []))"

definition carries_anchors :: "dict \<Rightarrow> bool result" where
  "carries_anchors s = bindR (nested_get s ''identity_continuity_state'' ''anchors_carried'' (JInt 0)) json_gt0"

definition intervention_family :: "gate \<Rightarrow> family" where
  "intervention_family g =
     (if promotion_ready g then
        family_rec ''intervention_backed'' (length (passed g))
          (''perturbations produced the predicted bounded change, absent under the null ('' @ show_nat (length (passed g)) @
           '' test(s) passed): '' @ repr_strs (passed g))
      else if inventory_ok g \<and> non_restore_evaluated g \<and> (passed g \<noteq> [] \<or> failed g \<noteq> []) then
        family_rec ''attempted'' (length (passed g))
          (''interventions executed but not all passed (passed='' @ repr_strs (passed g) @ '', failed='' @
           repr_strs (failed g) @ ''); blocks Level 4'')
      else if has_test_results g \<and> gate_integrity_errors g \<noteq> [] then
        family_rec ''architecture_only'' 0
          (''intervention evidence inventory failed integrity checks; blocks Level 4: '' @ join ''; '' (gate_integrity_errors g))
      else if has_test_results g then
        family_rec ''architecture_only'' 0
          ''registered tests were restore/no-change only; no genuine perturbation backs this family''
      else
        family_rec ''architecture_only'' 0 ''seam exposed but no perturbation executed; blocks Level 4'')"

definition score_families :: "psyche_outputs list \<Rightarrow> gate \<Rightarrow> (string \<times> family) list result" where
  "score_families outs g =
     (let broadcasts = map workspace_broadcast outs; states = map psyche_state outs; traces = map causal_trace outs;
          instincts = concat (map instinct_signals outs);
          gw = length (filter competed broadcasts); chain = hash_chain_links traces in
      bindR (filterR models_itself states) (\<lambda>hs. bindR (anyR calibrated states) (\<lambda>cal.
      bindR (filterR resolved_prediction traces) (\<lambda>res. bindR (filterR carries_anchors states) (\<lambda>ids.
      let hosm = length hs; resolved = length res; ident = length ids;
          att = length (filter (\<lambda>b. truthy (dget b ''recommended_attention_target'')) broadcasts);
          cf = length (filter (\<lambda>t. truthy (dget t ''counterfactual_predictions'')) traces) in
      Ok [(''global_workspace'', family_rec (if gw \<noteq> 0 then ''evidenced'' else ''absent'') gw
             (if gw \<noteq> 0 then ''faculties competed on salience; winner broadcast'' else ''no broadcast'')),
          (''recurrent_processing'', family_rec (if chain \<noteq> 0 then ''evidenced'' else ''absent'') chain
             (if chain \<noteq> 0 then ''state carried tick'' @ U_ARROW @ ''tick (prev/new state-hash chain links)''
              else ''state-hash chain does not link'')),
          (''higher_order_self_model'', family_rec
             (if hosm \<noteq> 0 \<and> cal then ''evidenced'' else if hosm \<noteq> 0 then ''architecture_only'' else ''absent'') hosm
             (if hosm \<noteq> 0 \<and> cal then ''self-model predicts error and updates calibration/reliability''
              else ''self-model present but never calibrated against an outcome'')),
          (''predictive_processing'', family_rec (if resolved \<noteq> 0 then ''evidenced'' else ''architecture_only'') resolved
             (if resolved \<noteq> 0 then ''prediction error resolved against a later tick'' @ [CHR 0x27] @ ''s outcome''
              else ''predictions emitted but the run was too short to resolve one'')),
          (''attention_schema'', family_rec (if att \<noteq> 0 then ''evidenced'' else ''absent'') att
             (if att \<noteq> 0 then ''attention target + ranked salience terms recorded'' else ''no attention target'')),
          (''valenced_learning'', family_rec (if instincts \<noteq> [] then ''evidenced'' else ''absent'') (length instincts)
             (if instincts \<noteq> [] then ''scar/anomaly instinct produced valenced avoidance'' else ''no instinct signal fired'')),
          (''identity_persistence'', family_rec (if ident \<noteq> 0 then ''evidenced'' else ''absent'') ident
             (if ident \<noteq> 0 then ''continuity anchors carried across ticks from memory'' else ''no continuity anchors carried'')),
          (''counterfactual_introspection'', family_rec (if cf \<noteq> 0 then ''evidenced'' else ''absent'') cf
             (if cf \<noteq> 0 then ''testable counterfactual predictions emitted in causal traces'' else ''no counterfactual predictions'')),
          (''causal_intervention_robustness'', intervention_family g)])))))"

definition strong_families :: "(string \<times> family) list \<Rightarrow> string list" where
  "strong_families families = map fst (filter (\<lambda>(_, f). fm_status f \<in> set SUPPORTED) families)"

section \<open>Level predicates\<close>

definition hashable :: "json \<Rightarrow> json result" where
  "hashable v = (case v of JList _ \<Rightarrow> Raise TypeError | JObj _ \<Rightarrow> Raise TypeError | _ \<Rightarrow> Ok v)"

definition tick_changes_behavior :: "psyche_outputs \<Rightarrow> bool result" where
  "tick_changes_behavior out =
     bindR (py_items (dget_or (control_pressure out) ''pressures'' (JObj []))) (\<lambda>pressures.
     bindR (anyR (\<lambda>(_, v). bindR (py_float v) (\<lambda>x. Ok (flt_less (Num 0) x))) pressures) (\<lambda>has_pressure.
     bindR (py_iter (dget_or (causal_trace out) ''causal_path'' (JList []))) (\<lambda>steps.
     bindR (mapR (\<lambda>step. bindR (jget step ''stage'') hashable) steps) (\<lambda>stages.
       Ok (has_pressure \<and> JStr ''pressure'' \<in> set stages \<and> JStr ''behavior'' \<in> set stages)))))"

definition level1_signal_changes_behavior :: "psyche_outputs list \<Rightarrow> bool result" where
  "level1_signal_changes_behavior outs = anyR tick_changes_behavior outs"

definition level2_readback_changed_output :: "psyche_outputs list \<Rightarrow> bool result" where
  "level2_readback_changed_output outs =
     bindR (anyR (\<lambda>out. carries_anchors (psyche_state out)) outs) (\<lambda>anchors.
     bindR (anyR (\<lambda>s. in_strings (dget s ''match_type'') [''exact'', ''near_duplicate'', ''prefix''])
              (concat (map instinct_signals outs))) (\<lambda>scar_instinct.
       Ok (anchors \<or> scar_instinct)))"

definition confabulation_risk :: "psyche_outputs list \<Rightarrow> (flt \<times> nat) result" where
  "confabulation_risk outs =
     (if outs = [] then Ok (Num 0, 0)
      else bindR (filterR (\<lambda>out. bindR (report_is_grounded_to_tick out) (\<lambda>g. Ok (\<not> g))) outs) (\<lambda>bad.
             Ok (int_div (int (length bad)) (int (length outs)), length bad)))"

section \<open>Narrative helpers\<close>

definition strongest_positive :: "(string \<times> family) list \<Rightarrow> int \<Rightarrow> string list \<Rightarrow> string" where
  "strongest_positive families level ps =
     (let strong = strong_families families in
      if 4 \<le> level \<and> ps \<noteq> [] then
        ''Level '' @ show_int level @ '': causal-intervention robustness demonstrated '' @ U_DASH @
        '' perturbation produced the predicted bounded change and was absent under the null ('' @ show_nat (length ps) @
        '' test(s) passed: '' @ repr_strs ps @ ''); '' @ show_nat (length strong) @ ''/9 families backed by receipts.''
      else
        ''Level '' @ show_int level @ '': '' @ show_nat (length strong) @
        ''/9 indicator families exercised with frame receipts this run ('' @ join '', '' (sort strong) @ '').'')"

definition strongest_negative :: "nat \<Rightarrow> gate \<Rightarrow> string list \<Rightarrow> string" where
  "strongest_negative ungrounded g fs =
     (let negative =
        (if provenance_errors g \<noteq> [] then
           ''paired replay provenance failed: '' @ join ''; '' (provenance_errors g) @ '' (blocks Level 4).''
         else if inventory_errors g \<noteq> [] then
           ''intervention inventory integrity failed: '' @ join ''; '' (inventory_errors g) @ '' (blocks Level 4).''
         else if fs \<noteq> [] then
           ''intervention test(s) '' @ repr_strs fs @
           '' did not produce the predicted change, so causal-intervention robustness is not established (blocks Level 4).''
         else if \<not> promotion_ready g then
           ''causal_intervention_robustness is architecture-only: no passed perturbation, so no intervention/null-condition evidence exists (blocks Level 4).''
         else
           ''evidence is internally auditable but not yet externally audited over time or stress-tested adversarially (blocks Level 5).'')
      in if ungrounded \<noteq> 0
         then show_nat ungrounded @ '' self-report(s) lacked a matching state/trace hash. '' @ negative else negative)"

definition evidence_timestamp :: "psyche_outputs list \<Rightarrow> string" where
  "evidence_timestamp outs =
     (let ts = (if outs = [] then JNull else dget (psyche_state (last outs)) ''timestamp'') in
      if truthy ts then py_str ts else ''1970-01-01T00:00:00Z'')"

definition family_of :: "(string \<times> family) list \<Rightarrow> string \<Rightarrow> family" where
  "family_of families fam = (case map_of families fam of Some f \<Rightarrow> f | None \<Rightarrow> family_rec ''absent'' 0 [])"

definition missing_requirements ::
  "int \<Rightarrow> (string \<times> family) list \<Rightarrow> bool \<Rightarrow> bool \<Rightarrow> json \<Rightarrow> string list \<Rightarrow> string list \<Rightarrow> bool \<Rightarrow> bool \<Rightarrow> bool \<Rightarrow> bool \<Rightarrow>
   gate \<Rightarrow> string list" where
  "missing_requirements level families memory_readback_present l2 intervention_tests ps fs null_condition_passed
       causal_trace_complete grounded_report_changed confab_ok g =
     (if 4 \<le> level then L5_MISSING
      else
        (if registered g = [] then [''intervention_evidence: no InterventionFrame was executed''] else []) @
        (if \<not> has_test_results g
         then [''null_condition_evidence: no ablation/null-condition runs compared in-harness'',
               ''grounded_self_report_perturbation: reports not yet shown to change under state perturbation''] else []) @
        (if gate_integrity_errors g \<noteq> []
         then [''intervention_test_integrity: '' @ join ''; '' (gate_integrity_errors g)] else []) @
        (if has_test_results g \<and> \<not> genuine_perturbation g
         then [''genuine_perturbation: no passed non-restore directional intervention''] else []) @
        [''external_audit: audit_status is self_reported, not externally audited''] @
        concat (map (\<lambda>fam. let f = family_of families fam in
                 if fm_status f \<notin> set SUPPORTED then [''family_unevidenced: '' @ fam @ '' ('' @ fm_note f @ '')''] else [])
                 ALL_FAMILIES) @
        (if \<not> l2 \<and> memory_readback_present
         then [''level2: memory readback present but no measurable output effect detected''] else []) @
        (if truthy intervention_tests then
           (if fs \<noteq> [] then [''intervention_tests_failed: '' @ repr_strs fs] else []) @
           (if ps = [] then [''intervention_tests: no intervention test passed''] else []) @
           (if \<not> null_condition_passed then [''null_condition: neutralized replay did not reproduce control''] else []) @
           (if \<not> causal_trace_complete
            then [''causal_trace_incomplete: chain does not span event'' @ U_ARROW @ ''behavior''] else []) @
           (if \<not> grounded_report_changed
            then [''grounded_report_unchanged: self-reports did not track the perturbation''] else []) @
           (if \<not> confab_ok then [''confabulation_risk_too_high: exceeds the Level-4 rail''] else [])
         else []))"

end
