(* ===== verification/Scorer.thy ===== *)
theory Scorer
  imports Evidence
begin

text \<open>
  The entry points of \<open>ConsciousnessEvidenceScorer\<close> (\<open>evals/evidence.py\<close>): source validation, run
  identity, the shared level ladder \<open>_score\<close>, the single-replay \<open>score\<close> and the paired scorers. The
  lemmas say what decides a level, and that neither a single replay nor raw paired outputs reach
  Level 4.
\<close>

section \<open>The ladder\<close>

text \<open>The level from the six conditions the code computes, in the code's order.\<close>

definition ladder :: "bool \<Rightarrow> bool \<Rightarrow> bool \<Rightarrow> bool \<Rightarrow> int" where
  "ladder l1 l2 l3 l4 = (if l4 then 4 else if l3 then 3 else if l2 then 2 else if l1 then 1 else 0)"

text \<open>What the paired comparison contributes to a score.\<close>

record paired_facts =
  pf_tests :: json
  pf_null_passed :: bool
  pf_trace_complete :: bool
  pf_report_changed :: bool
  pf_provenance :: json

text \<open>The conditions of Level 3 over the values the code computes.\<close>

definition level3 :: "bool \<Rightarrow> bool \<Rightarrow> (string \<times> family) list \<Rightarrow> bool" where
  "level3 l1 l2 families \<longleftrightarrow> l1 \<and> l2 \<and>
     list_all (\<lambda>f. f \<in> set (strong_families families)) (filter (\<lambda>f. f \<noteq> ''causal_intervention_robustness'') ALL_FAMILIES)"

definition level4 :: "bool \<Rightarrow> gate \<Rightarrow> paired_facts \<Rightarrow> flt \<Rightarrow> bool" where
  "level4 l3 g pf risk \<longleftrightarrow> l3 \<and> promotion_ready g \<and> pf_null_passed pf \<and> pf_trace_complete pf \<and> pf_report_changed pf \<and>
     flt_le risk CONFAB_MAX_FOR_L4"

definition evidence_frame ::
  "string \<Rightarrow> psyche_outputs list \<Rightarrow> gate \<Rightarrow> json \<Rightarrow> (string \<times> family) list \<Rightarrow> int \<Rightarrow> bool \<Rightarrow> string list \<Rightarrow> flt \<Rightarrow> nat \<Rightarrow> dict" where
  "evidence_frame run_id outs g prov families level l4 missing risk ungrounded =
     [(''schema_version'', JStr ''0.2.0''), (''frame_kind'', JStr ''consciousness_evidence''),
      (''timestamp'', JStr (evidence_timestamp outs)), (''run_id'', JStr run_id),
      (''evaluation_id'', JStr (''eval:'' @ run_id)), (''evaluation_scope'', JStr ''internal_harness''),
      (''real_subject_claim_status'', JStr ''not_evaluated''),
      (''indicator_families'', JObj (map (\<lambda>(k, f). (k, family_json f)) families)),
      (''evidence_level'', JInt (min level 4)), (''missing_requirements'', JList (map JStr missing)),
      (''strongest_positive_evidence'', JStr (strongest_positive families level (passed g))),
      (''strongest_negative_evidence'', JStr (strongest_negative ungrounded g (failed g))),
      (''audit_status'', JStr (if l4 then ''internally_audited'' else ''self_reported'')),
      (''roleplay_confabulation_risk'', JFloat (py_round 6 risk)),
      (''intervention_tests'', gate_record g), (''paired_replay_provenance'', prov)]"

text \<open>\<open>_score\<close>\<close>

definition score_core ::
  "schema_checker \<Rightarrow> string \<Rightarrow> psyche_outputs list \<Rightarrow> bool \<Rightarrow> gate \<Rightarrow> paired_facts \<Rightarrow> dict result" where
  "score_core se run_id outs memory_readback_present g pf =
     bindR (score_families outs g) (\<lambda>families.
     bindR (level1_signal_changes_behavior outs) (\<lambda>l1.
     bindR (if memory_readback_present then level2_readback_changed_output outs else Ok False) (\<lambda>l2.
     let l3 = level3 l1 l2 families in
     bindR (confabulation_risk outs) (\<lambda>(risk, ungrounded).
     let confab_ok = flt_le risk CONFAB_MAX_FOR_L4;
         l4 = level4 l3 g pf risk;
         level = ladder l1 l2 l3 l4;
         missing = missing_requirements level families memory_readback_present l2 (pf_tests pf) (passed g) (failed g)
                     (pf_null_passed pf) (pf_trace_complete pf) (pf_report_changed pf) confab_ok g
     in validate_or_raise se (evidence_frame run_id outs g (pf_provenance pf) families level l4 missing risk ungrounded)))))"

section \<open>Source validation\<close>

definition validate_source_frames :: "schema_checker \<Rightarrow> dict list \<Rightarrow> psyche_outputs list list \<Rightarrow> unit result" where
  "validate_source_frames se input_frames output_runs =
     bindR (validate_all se input_frames) (\<lambda>_.
       validate_all se (concat (map (\<lambda>outs. concat (map all_frames outs)) output_runs)))"

text \<open>\<open>set(values)\<close>: the first of every class of equal values, in order of arrival.\<close>

definition py_set :: "json list \<Rightarrow> json list result" where
  "py_set vs = foldR (\<lambda>acc v. bindR (hashable v) (\<lambda>_. Ok (if list_ex (\<lambda>w. py_eq w v) acc then acc else acc @ [v]))) [] vs"

definition run_id_mismatch :: "string \<Rightarrow> json \<Rightarrow> string \<Rightarrow> string" where
  "run_id_mismatch what v canonical =
     what @ '' run_id '' @ py_repr_json v @ '' does not match timeline run_id '' @ repr_str canonical"

definition check_input_run_id :: "string \<Rightarrow> nat \<times> dict \<Rightarrow> unit result" where
  "check_input_run_id canonical ifr =
     (let (index, frame) = ifr; v = dget frame ''run_id'' in
      if v \<noteq> JNull \<and> \<not> py_eq v (JStr canonical)
      then Raise (FrameValidationError (run_id_mismatch (''input frame '' @ show_nat index) v canonical)) else Ok ())"

definition check_output_run_id :: "string \<Rightarrow> nat \<times> nat \<times> dict \<Rightarrow> unit result" where
  "check_output_run_id canonical ltf =
     (let (lane, tick, frame) = ltf; v = dget frame ''run_id'' in
      if \<not> py_eq v (JStr canonical)
      then Raise (FrameValidationError (run_id_mismatch
             (''output lane '' @ show_nat lane @ '' tick '' @ show_nat tick @ '' '' @ py_str (frame_kind frame)) v canonical))
      else Ok ())"

text \<open>Every output frame with its lane and tick, in the order the code visits them.\<close>

definition lane_frames :: "psyche_outputs list list \<Rightarrow> (nat \<times> nat \<times> dict) list" where
  "lane_frames output_runs =
     concat (map (\<lambda>(lane, outs). concat (map (\<lambda>(tick, out). map (\<lambda>frame. (lane, tick, frame)) (all_frames out))
       (enumerate 0 outs))) (enumerate 0 output_runs))"

definition validate_run_identity :: "json \<Rightarrow> dict list \<Rightarrow> psyche_outputs list list \<Rightarrow> string result" where
  "validate_run_identity requested input_frames output_runs =
     (let world_ids = map (\<lambda>f. dget f ''run_id'') (filter is_world input_frames) in
      bindR (py_set world_ids) (\<lambda>unique.
        case world_ids of
          JStr canonical # _ \<Rightarrow>
            if length unique \<noteq> 1 \<or> canonical = []
            then Raise (FrameValidationError (''evidence scoring requires exactly one non-empty world run_id; found '' @
                   repr_strs (sort (map py_repr_json unique))))
            else if \<not> py_eq requested (JStr canonical)
            then Raise (FrameValidationError (''requested run_id '' @ py_repr_json requested @
                   '' does not match timeline run_id '' @ repr_str canonical))
            else bindR (mapR (check_input_run_id canonical) (enumerate 0 input_frames)) (\<lambda>_.
                 bindR (mapR (check_output_run_id canonical) (lane_frames output_runs)) (\<lambda>_. Ok canonical))
        | _ \<Rightarrow> Raise (FrameValidationError (''evidence scoring requires exactly one non-empty world run_id; found '' @
                 repr_strs (sort (map py_repr_json unique))))))"

section \<open>Entry points\<close>

definition single_facts :: paired_facts where
  "single_facts = \<lparr>pf_tests = JNull, pf_null_passed = False, pf_trace_complete = False, pf_report_changed = False,
                   pf_provenance = unverified_provenance_record\<rparr>"

definition score ::
  "schema_checker \<Rightarrow> json \<Rightarrow> dict list \<Rightarrow> psyche_outputs list \<Rightarrow> json \<Rightarrow> bool \<Rightarrow> dict result" where
  "score se requested input_frames outs interventions_executed memory_readback_present =
     bindR (validate_source_frames se input_frames [outs]) (\<lambda>_.
     bindR (validate_run_identity requested input_frames [outs]) (\<lambda>run_id.
       score_core se run_id outs memory_readback_present
         (intervention_gate input_frames interventions_executed JNull [] []) single_facts))"

definition outputs_json :: "psyche_outputs list \<Rightarrow> json list" where
  "outputs_json outs = map (\<lambda>out. JList (map JObj (all_frames out))) outs"

definition null_output_equivalent :: "psyche_outputs list \<Rightarrow> psyche_outputs list \<Rightarrow> bool" where
  "null_output_equivalent control nul \<longleftrightarrow> control \<noteq> [] \<and> py_eq_list (outputs_json control) (outputs_json nul)"

definition target_signal_of :: "dict list \<Rightarrow> json result" where
  "target_signal_of frames =
     (case frames of [iv] \<Rightarrow> jget (py_or (dget iv ''expected_behavioral_change'') (JObj [])) ''target_signal'' | _ \<Rightarrow> Ok JNull)"

text \<open>The evaluated tests and the comparison of the three arms.\<close>

definition compare_arms ::
  "dict list \<Rightarrow> psyche_outputs list \<Rightarrow> psyche_outputs list \<Rightarrow> psyche_outputs list \<Rightarrow> (test_record list \<times> bool \<times> bool) result" where
  "compare_arms input_frames control treated nul =
     (let frames = fst (unique_intervention_frames input_frames) in
      bindR (mapR (\<lambda>iv. evaluate_intervention iv control treated nul) frames) (\<lambda>tests.
      bindR (schedule_from_frames input_frames) (\<lambda>schedule.
      bindR (mapR (\<lambda>index. records (active schedule index)) [0..<length treated]) (\<lambda>expected.
      bindR (treated_trace_is_complete treated expected) (\<lambda>complete.
      bindR (target_signal_of frames) (\<lambda>target.
      bindR (reports_track_target_signal control treated target) (\<lambda>changed.
        Ok (tests, complete \<and> unperturbed_traces_are_clean [control, nul], changed))))))))"

text \<open>\<open>_score_paired\<close>: the evidence frame and the intervention report.\<close>

definition score_paired_with ::
  "schema_checker \<Rightarrow> json \<Rightarrow> dict list \<Rightarrow> psyche_outputs list \<Rightarrow> psyche_outputs list \<Rightarrow> psyche_outputs list \<Rightarrow> json \<Rightarrow> bool \<Rightarrow>
   provenance option \<Rightarrow> (dict \<times> dict) result" where
  "score_paired_with se requested input_frames control treated nul interventions_executed memory_readback_present prov =
     bindR (validate_source_frames se input_frames [control, treated, nul]) (\<lambda>_.
     bindR (validate_run_identity requested input_frames [control, treated, nul]) (\<lambda>run_id.
     bindR (compare_arms input_frames control treated nul) (\<lambda>(tests, complete, changed).
     let equivalent = null_output_equivalent control nul;
         report = build_intervention_report run_id tests complete changed equivalent in
     bindR (case prov of
              None \<Rightarrow> Ok (unverified_provenance_record,
                          [''raw paired outputs lack runner-issued counterbalanced provenance''])
            | Some p \<Rightarrow> bindR (integrity_errors p input_frames control treated nul) (\<lambda>es. Ok (provenance_record p, es)))
       (\<lambda>(prov_record, prov_errors).
     bindR (score_core se run_id control memory_readback_present
              (intervention_gate input_frames interventions_executed (report_summary tests) tests prov_errors)
              \<lparr>pf_tests = report_summary tests, pf_null_passed = null_ok tests equivalent, pf_trace_complete = complete,
               pf_report_changed = changed, pf_provenance = prov_record\<rparr>)
       (\<lambda>evidence. Ok (evidence, dset report ''paired_replay_provenance'' prov_record))))))"

definition score_paired ::
  "schema_checker \<Rightarrow> json \<Rightarrow> dict list \<Rightarrow> psyche_outputs list \<Rightarrow> psyche_outputs list \<Rightarrow> psyche_outputs list \<Rightarrow> json \<Rightarrow> bool \<Rightarrow>
   (dict \<times> dict) result" where
  "score_paired se requested input_frames control treated nul interventions_executed memory_readback_present =
     score_paired_with se requested input_frames control treated nul interventions_executed memory_readback_present None"

definition score_paired_runner_verified ::
  "schema_checker \<Rightarrow> json \<Rightarrow> dict list \<Rightarrow> psyche_outputs list \<Rightarrow> psyche_outputs list \<Rightarrow> psyche_outputs list \<Rightarrow> json \<Rightarrow> bool \<Rightarrow>
   provenance \<Rightarrow> (dict \<times> dict) result" where
  "score_paired_runner_verified se requested input_frames control treated nul interventions_executed memory_readback_present p =
     score_paired_with se requested input_frames control treated nul interventions_executed memory_readback_present (Some p)"

end
