(* ===== verification/Ladder.thy ===== *)
theory Ladder
  imports Scorer
begin

text \<open>
  What the level ladder guarantees: the level of a frame is one of 0 to 4, it rests on the gates the
  code names, a single replay and raw paired outputs stay below 4, and a Level 4 frame has exactly
  one registered, executed and passed intervention with intact provenance.
\<close>

section \<open>Inversion of a score\<close>

lemma dget_evidence_frame:
  "dget (evidence_frame r outs g pv fams level l4 missing risk u) ''evidence_level'' = JInt (min level 4)"
  "dget (evidence_frame r outs g pv fams level l4 missing risk u) ''audit_status'' =
     JStr (if l4 then ''internally_audited'' else ''self_reported'')"
  "dget (evidence_frame r outs g pv fams level l4 missing risk u) ''missing_requirements'' = JList (map JStr missing)"
  "dget (evidence_frame r outs g pv fams level l4 missing risk u) ''run_id'' = JStr r"
  "dget (evidence_frame r outs g pv fams level l4 missing risk u) ''paired_replay_provenance'' = pv"
  by (simp_all add: evidence_frame_def)

lemma prod_elim:
  assumes "(case x of (a, b) \<Rightarrow> f a b) = y"
  obtains a b where "x = (a, b)" and "f a b = y"
  using assms by (cases x) simp

lemma score_coreE:
  assumes "score_core se r outs m g pf = Ok fr"
  obtains families l1 l2 risk u where
    "score_families outs g = Ok families" "level1_signal_changes_behavior outs = Ok l1"
    "(if m then level2_readback_changed_output outs else Ok False) = Ok l2" "confabulation_risk outs = Ok (risk, u)"
    "fr = evidence_frame r outs g (pf_provenance pf) families
            (ladder l1 l2 (level3 l1 l2 families) (level4 (level3 l1 l2 families) g pf risk))
            (level4 (level3 l1 l2 families) g pf risk)
            (missing_requirements (ladder l1 l2 (level3 l1 l2 families) (level4 (level3 l1 l2 families) g pf risk))
               families m l2 (pf_tests pf) (passed g) (failed g) (pf_null_passed pf) (pf_trace_complete pf)
               (pf_report_changed pf) (flt_le risk CONFAB_MAX_FOR_L4) g) risk u"
    "is_valid se fr"
proof -
  from assms obtain families l1 l2 ru where *:
    "score_families outs g = Ok families" "level1_signal_changes_behavior outs = Ok l1"
    "(if m then level2_readback_changed_output outs else Ok False) = Ok l2" "confabulation_risk outs = Ok ru"
    and fr: "(case ru of (risk, ungrounded) \<Rightarrow>
      validate_or_raise se (evidence_frame r outs g (pf_provenance pf) families
            (ladder l1 l2 (level3 l1 l2 families) (level4 (level3 l1 l2 families) g pf risk))
            (level4 (level3 l1 l2 families) g pf risk)
            (missing_requirements (ladder l1 l2 (level3 l1 l2 families) (level4 (level3 l1 l2 families) g pf risk))
               families m l2 (pf_tests pf) (passed g) (failed g) (pf_null_passed pf) (pf_trace_complete pf)
               (pf_report_changed pf) (flt_le risk CONFAB_MAX_FOR_L4) g) risk ungrounded)) = Ok fr"
    unfolding score_core_def Let_def
    by (elim bindR_Inr_elim) (rule that)
  show thesis
    using fr * by (cases ru) (auto intro: that)
qed

lemma ladder_le: "0 \<le> ladder l1 l2 l3 l4 \<and> ladder l1 l2 l3 l4 \<le> 4"
  by (simp add: ladder_def)

lemma ladder_4: "min (ladder l1 l2 l3 l4) 4 = 4 \<longleftrightarrow> l4"
  by (simp add: ladder_def)

text \<open>A frame of Level 4 comes from a gate that is ready and from passed paired comparisons.\<close>

lemma level4_requires:
  assumes "score_core se r outs m g pf = Ok fr" and "dget fr ''evidence_level'' = JInt 4"
  shows "promotion_ready g \<and> pf_null_passed pf \<and> pf_trace_complete pf \<and> pf_report_changed pf"
  using assms(1)
proof (rule score_coreE)
  fix families l1 l2 risk u
  assume fr: "fr = evidence_frame r outs g (pf_provenance pf) families
            (ladder l1 l2 (level3 l1 l2 families) (level4 (level3 l1 l2 families) g pf risk))
            (level4 (level3 l1 l2 families) g pf risk)
            (missing_requirements (ladder l1 l2 (level3 l1 l2 families) (level4 (level3 l1 l2 families) g pf risk))
               families m l2 (pf_tests pf) (passed g) (failed g) (pf_null_passed pf) (pf_trace_complete pf)
               (pf_report_changed pf) (flt_le risk CONFAB_MAX_FOR_L4) g) risk u"
  have "level4 (level3 l1 l2 families) g pf risk"
    using assms(2) unfolding fr dget_evidence_frame by (simp only: json.inject ladder_4)
  then show ?thesis
    by (simp add: level4_def)
qed

lemma audit_iff_level4:
  assumes "score_core se r outs m g pf = Ok fr"
  shows "dget fr ''audit_status'' = JStr ''internally_audited'' \<longleftrightarrow> dget fr ''evidence_level'' = JInt 4"
    and "\<exists>n. dget fr ''evidence_level'' = JInt n \<and> 0 \<le> n \<and> n \<le> 4"
proof -
  from assms obtain families l1 l2 risk u where
    fr: "fr = evidence_frame r outs g (pf_provenance pf) families
            (ladder l1 l2 (level3 l1 l2 families) (level4 (level3 l1 l2 families) g pf risk))
            (level4 (level3 l1 l2 families) g pf risk)
            (missing_requirements (ladder l1 l2 (level3 l1 l2 families) (level4 (level3 l1 l2 families) g pf risk))
               families m l2 (pf_tests pf) (passed g) (failed g) (pf_null_passed pf) (pf_trace_complete pf)
               (pf_report_changed pf) (flt_le risk CONFAB_MAX_FOR_L4) g) risk u"
    by (rule score_coreE) (rule that)
  show "dget fr ''audit_status'' = JStr ''internally_audited'' \<longleftrightarrow> dget fr ''evidence_level'' = JInt 4"
    unfolding fr dget_evidence_frame json.inject ladder_4 by simp
  show "\<exists>n. dget fr ''evidence_level'' = JInt n \<and> 0 \<le> n \<and> n \<le> 4"
    unfolding fr dget_evidence_frame json.inject using ladder_le by auto
qed

section \<open>The gate\<close>

lemma gate_fields:
  "passed (intervention_gate fs ex ts tests pe) = fst (string_ids (dget_or (case ts of JObj d \<Rightarrow> d | _ \<Rightarrow> []) ''passed'' (JList [])) ''passed'')"
  "failed (intervention_gate fs ex ts tests pe) = fst (string_ids (dget_or (case ts of JObj d \<Rightarrow> d | _ \<Rightarrow> []) ''failed'' (JList [])) ''failed'')"
  "registered (intervention_gate fs ex ts tests pe) = registered_ids (fst (unique_intervention_frames fs))"
  "provenance_errors (intervention_gate fs ex ts tests pe) = pe"
  "has_test_results (intervention_gate fs ex ts tests pe) \<longleftrightarrow> ts \<noteq> JNull"
  by (simp_all add: intervention_gate_def Let_def case_prod_beta)

lemma gate_genuine:
  "genuine_perturbation (intervention_gate fs ex ts tests pe) \<longleftrightarrow>
   list_ex (\<lambda>r. in_ids (tr_experiment_id r) (registered_ids (fst (unique_intervention_frames fs))) \<and>
              \<not> py_eq (tr_operation r) (JStr ''restore'') \<and>
              flt_less (lit (1 / 10 ^ 6)) (fabs (tr_observed_delta r))) tests"
  unfolding intervention_gate_def Let_def case_prod_beta gate.select_convs ..

lemma gate_no_results: "\<not> promotion_ready (intervention_gate fs ex JNull tests pe)"
  by (simp add: promotion_ready_def gate_fields) (simp add: string_ids_def)

lemma gate_provenance: "promotion_ready (intervention_gate fs ex ts tests pe) \<Longrightarrow> pe = []"
  by (simp add: promotion_ready_def integrity_ok_def gate_integrity_errors_def gate_fields)

text \<open>A gate without inventory errors: one registered intervention, executed once, reported once.\<close>

lemma gate_clean:
  assumes "inventory_errors (intervention_gate fs ex ts tests pe) = []"
  shows "length (registered_ids (fst (unique_intervention_frames fs))) = 1"
    and "ex = JInt 1"
    and "set (registered_ids (fst (unique_intervention_frames fs))) =
         set (passed (intervention_gate fs ex ts tests pe)) \<union> set (failed (intervention_gate fs ex ts tests pe))"
    and "distinct (passed (intervention_gate fs ex ts tests pe))"
    and "snd (snd (unique_intervention_frames fs)) = 0" and "fst (snd (unique_intervention_frames fs)) = []"
    and "\<forall>f\<in>set (fst (unique_intervention_frames fs)). named_experiment f"
proof -
  let ?reg = "registered_ids (fst (unique_intervention_frames fs))"
  have *: "(if ?reg = [] then [''no InterventionFrame is registered'']
             else if 1 < length ?reg then [''multiple interventions require isolated treated/null arms or an explicit joint-intervention hypothesis'']
             else []) = []" and
    ints: "is_int ex" and cnt: "(case ex of JInt i \<Rightarrow> i | _ \<Rightarrow> 0) = int (length ?reg)" and
    part: "set ?reg = set (passed (intervention_gate fs ex ts tests pe)) \<union> set (failed (intervention_gate fs ex ts tests pe))" and
    dist: "distinct (passed (intervention_gate fs ex ts tests pe))" and
    att: "snd (snd (unique_intervention_frames fs)) = 0" and dup: "fst (snd (unique_intervention_frames fs)) = []" and
    named: "filter (\<lambda>f. \<not> named_experiment f) (fst (unique_intervention_frames fs)) = []"
    using assms unfolding intervention_gate_def Let_def case_prod_beta gate.select_convs append_is_Nil_conv
    by (simp_all split: if_splits)
  from * show one: "length ?reg = 1"
    by (cases ?reg) (auto split: if_splits)
  from ints cnt one show "ex = JInt 1"
    by (cases ex) (auto simp: is_int_def)
  show "set ?reg = set (passed (intervention_gate fs ex ts tests pe)) \<union> set (failed (intervention_gate fs ex ts tests pe))"
    by (rule part)
  show "distinct (passed (intervention_gate fs ex ts tests pe))"
    by (rule dist)
  show "snd (snd (unique_intervention_frames fs)) = 0" and "fst (snd (unique_intervention_frames fs)) = []"
    by (rule att, rule dup)
  show "\<forall>f\<in>set (fst (unique_intervention_frames fs)). named_experiment f"
    using named by (auto simp: filter_empty_conv)
qed

end
