(* ===== verification/Homeostats.thy ===== *)
theory Homeostats
  imports PyJson
begin

text \<open>
  The homeostatic substrate of the reference psyche: the nine-axis affect manifold
  (\<open>psyche/manifold.py\<close>), mood (\<open>psyche/mood.py\<close>), the eight drives (\<open>psyche/drives.py\<close>) and the
  projection of affect onto emotion prototypes (\<open>psyche/prototypes.py\<close>). A dict of floats is an
  association list. \<open>math.exp\<close> is the platform's C library, a parameter \<open>mexp\<close>. The lemmas show
  that affect, mood and drive levels stay finite and inside their ranges whatever the inputs.
\<close>

type_synonym fdict = "(string \<times> flt) list"

definition fget :: "fdict \<Rightarrow> string \<Rightarrow> flt" where
  "fget d k = (case map_of d k of None \<Rightarrow> Num 0 | Some v \<Rightarrow> v)"

section \<open>Affect manifold\<close>

definition AXES :: "string list" where
  "AXES = [''valence'', ''arousal'', ''dominance'', ''certainty'', ''novelty'', ''agency'', ''tension'',
           ''social_exposure'', ''cognitive_load'']"

definition DEFAULT_INERTIA :: flt where "DEFAULT_INERTIA = lit (1 / 2)"
definition W_APPRAISAL :: flt where "W_APPRAISAL = lit 1"
definition W_MOOD :: flt where "W_MOOD = lit (3 / 10)"
definition W_DRIVE :: flt where "W_DRIVE = lit (3 / 10)"
definition W_SCARS :: flt where "W_SCARS = lit (3 / 10)"
definition ATTRACTOR_GAIN :: flt where "ATTRACTOR_GAIN = lit (5 / 100)"

definition new_manifold :: fdict where
  "new_manifold = map (\<lambda>axis. (axis, Num 0)) AXES"

text \<open>\<open>_get\<close>: missing dict, missing axis and NaN all read as 0.0.\<close>

definition manifold_get :: "fdict option \<Rightarrow> string \<Rightarrow> flt" where
  "manifold_get d axis =
     (case d of None \<Rightarrow> Num 0
      | Some m \<Rightarrow> if m = [] then Num 0 else let val = fget m axis in if is_nan val then Num 0 else val)"

definition clip :: "flt \<Rightarrow> flt" where
  "clip x = (if flt_less x (Num (- 1)) then Num (- 1) else if flt_less (Num 1) x then Num 1 else x)"

definition manifold_axis ::
  "fdict \<Rightarrow> fdict \<Rightarrow> fdict \<Rightarrow> fdict \<Rightarrow> fdict \<Rightarrow> fdict \<Rightarrow> fdict option \<Rightarrow> string \<Rightarrow> flt" where
  "manifold_axis a appraisal mood drive_pressure scars personality_baseline inertia axis =
     (let k = (case inertia of None \<Rightarrow> DEFAULT_INERTIA
               | Some m \<Rightarrow> if axis \<notin> fst ` set m then DEFAULT_INERTIA else manifold_get inertia axis);
          cur = manifold_get (Some a) axis;
          baseline = manifold_get (Some personality_baseline) axis;
          delta = fadd (fadd (fadd (fmul W_APPRAISAL (manifold_get (Some appraisal) axis))
                                   (fmul W_MOOD (manifold_get (Some mood) axis)))
                             (fmul W_DRIVE (manifold_get (Some drive_pressure) axis)))
                       (fmul W_SCARS (manifold_get (Some scars) axis));
          attractor = fmul (fneg ATTRACTOR_GAIN) cur;
          nxt = fadd (fadd (fmul k cur) (fmul (fsub (Num 1) k) (fadd baseline delta))) attractor
      in clip nxt)"

definition manifold_update ::
  "fdict \<Rightarrow> fdict \<Rightarrow> fdict \<Rightarrow> fdict \<Rightarrow> fdict \<Rightarrow> fdict \<Rightarrow> fdict option \<Rightarrow> fdict" where
  "manifold_update a appraisal mood drive_pressure scars personality_baseline inertia =
     map (\<lambda>axis. (axis, manifold_axis a appraisal mood drive_pressure scars personality_baseline inertia axis)) AXES"

definition manifold_decay :: "fdict \<Rightarrow> flt \<Rightarrow> fdict option \<Rightarrow> fdict" where
  "manifold_decay a rate baseline =
     (let r0 = (if is_nan rate then Num 0 else rate);
          r = (if flt_less r0 (Num 0) then Num 0 else if flt_less (Num 1) r0 then Num 1 else r0)
      in map (\<lambda>axis. (axis, let cur = manifold_get (Some a) axis; base = manifold_get baseline axis
                            in clip (fadd cur (fmul (fsub base cur) r)))) AXES)"

section \<open>Mood\<close>

definition DEFAULT_DECAY_RATE :: flt where "DEFAULT_DECAY_RATE = lit (15 / 100)"

definition mood_clamp :: "flt \<Rightarrow> flt" where
  "mood_clamp v = py_max (Num (- 1)) (py_min (Num 1) v)"

definition new_mood :: fdict where
  "new_mood = [(''valence'', Num 0), (''arousal'', Num 0)]"

definition blend_outcome :: "fdict \<Rightarrow> flt \<Rightarrow> flt \<Rightarrow> flt \<Rightarrow> fdict" where
  "blend_outcome mood run_valence run_arousal weight0 =
     (let weight = py_max (Num 0) (py_min (Num 1) weight0);
          retention = fsub (Num 1) weight;
          new_valence = fadd (fmul retention (fget mood ''valence'')) (fmul weight run_valence);
          new_arousal = fadd (fmul retention (fget mood ''arousal'')) (fmul weight run_arousal)
      in [(''valence'', mood_clamp new_valence), (''arousal'', mood_clamp new_arousal)])"

definition mood_decay :: "fdict \<Rightarrow> fdict \<Rightarrow> flt \<Rightarrow> fdict" where
  "mood_decay mood setpoint rate0 =
     (let rate = py_max (Num 0) (py_min (Num 1) rate0);
          move = (\<lambda>k. fadd (fget mood k) (fmul rate (fsub (fget setpoint k) (fget mood k))))
      in [(''valence'', mood_clamp (move ''valence'')), (''arousal'', mood_clamp (move ''arousal''))])"

definition congruent_bias :: "flt \<Rightarrow> fdict \<Rightarrow> flt \<Rightarrow> flt" where
  "congruent_bias valence mood strength =
     (let mood_valence = fget mood ''valence'' in
      if flt_le (Num 0) mood_valence then mood_clamp valence
      else let ambiguity = fsub (Num 1) (fabs valence);
               shift = fmul (fmul mood_valence ambiguity) strength
           in mood_clamp (fadd valence shift))"

section \<open>Drives\<close>

record drive =
  level :: flt
  setpoint :: flt

type_synonym drives = "(string \<times> drive) list"

definition CORE :: "string list" where
  "CORE = [''mastery'', ''curiosity'', ''coherence'', ''economy'', ''agency'', ''commitment'', ''integrity'', ''recovery'']"

definition new_drives :: drives where
  "new_drives =
     map (\<lambda>name. (name, \<lparr>level = lit (1 / 2),
                          setpoint = if name = ''recovery'' then lit (1 / 2) else lit (7 / 10)\<rparr>)) CORE"

definition drive_clamp :: "flt \<Rightarrow> flt" where
  "drive_clamp v = py_max (Num 0) (py_min (Num 1) v)"

definition nudge :: "flt \<Rightarrow> flt \<Rightarrow> flt" where
  "nudge lvl amount = drive_clamp (fadd lvl amount)"

text \<open>\<open>new_d[name]["level"] = _nudge(new_d[name]["level"], amount)\<close>\<close>

definition nudge_drive :: "drives \<Rightarrow> string \<Rightarrow> flt \<Rightarrow> drives result" where
  "nudge_drive d name amount =
     (case map_of d name of None \<Rightarrow> Raise KeyError
      | Some v \<Rightarrow> Ok (dset d name (v\<lparr>level := nudge (level v) amount\<rparr>)))"

text \<open>The outcome features one tick produces.\<close>

record outcome =
  verified_success :: bool
  out_novelty :: flt
  progress :: flt
  diff_size :: flt
  integrity_violation :: bool
  observed_error :: flt

text \<open>The nudges of one update, in program order.\<close>

definition drive_nudges :: "outcome \<Rightarrow> (string \<times> flt) list" where
  "drive_nudges f =
     (if verified_success f
      then [(''mastery'', lit (1 / 10)), (''recovery'', lit (5 / 100)), (''agency'', lit (5 / 100))]
      else [(''recovery'', fneg (lit (5 / 100)))]) @
     [(''curiosity'', fmul (out_novelty f) (lit (2 / 10))),
      (''commitment'',
        if flt_less (progress f) (lit (1 / 2))
        then fmul (fneg (lit (1 / 10))) (fsub (lit (1 / 2)) (progress f))
        else fmul (lit (1 / 10)) (fsub (progress f) (lit (1 / 2)))),
      (''economy'', fmul (fneg (lit (5 / 100))) (diff_size f)),
      (''integrity'', if integrity_violation f then fneg (lit (2 / 10)) else lit (2 / 100)),
      (''coherence'', if verified_success f \<and> \<not> integrity_violation f then lit (5 / 100) else fneg (lit (2 / 100)))]"

definition drives_update :: "drives \<Rightarrow> outcome \<Rightarrow> drives result" where
  "drives_update d f = foldR (\<lambda>new_d (name, amount). nudge_drive new_d name amount) d (drive_nudges f)"

definition pressure :: "drives \<Rightarrow> fdict" where
  "pressure d = map (\<lambda>(name, v). (name, py_max (Num 0) (fsub (setpoint v) (level v)))) d"

section \<open>Emotion prototypes\<close>

definition PROTOTYPES :: "(string \<times> fdict) list" where
  "PROTOTYPES =
     [(''frustration'', [(''valence'', lit (- 6 / 10)), (''arousal'', lit (6 / 10)), (''tension'', lit (6 / 10))]),
      (''anxiety'', [(''valence'', lit (- 5 / 10)), (''arousal'', lit (4 / 10)), (''certainty'', lit (- 5 / 10)),
                     (''tension'', lit (5 / 10))]),
      (''curiosity'', [(''valence'', lit (4 / 10)), (''arousal'', lit (3 / 10)), (''novelty'', lit (7 / 10))]),
      (''boredom'', [(''arousal'', lit (- 5 / 10)), (''novelty'', lit (- 5 / 10))]),
      (''satisfaction'', [(''valence'', lit (7 / 10)), (''arousal'', lit (2 / 10)), (''dominance'', lit (4 / 10))]),
      (''neutral'', [])]"

definition PROTO_SIGMA :: flt where "PROTO_SIGMA = lit (6 / 10)"
definition TWO_SIGMA_SQ :: flt where "TWO_SIGMA_SQ = fmul (fmul (lit 2) PROTO_SIGMA) PROTO_SIGMA"

definition dist2 :: "fdict \<Rightarrow> fdict \<Rightarrow> flt" where
  "dist2 a anchor =
     foldl (\<lambda>total ax. let d = fsub (fget a ax) (fget anchor ax) in fadd total (fmul d d)) (Num 0) AXES"

definition activations :: "(flt \<Rightarrow> flt) \<Rightarrow> fdict \<Rightarrow> fdict" where
  "activations mexp a =
     map (\<lambda>(label, anchor). (label, mexp (fdiv (fneg (dist2 a anchor)) TWO_SIGMA_SQ))) PROTOTYPES"

definition mixture :: "(flt \<Rightarrow> flt) \<Rightarrow> fdict \<Rightarrow> fdict" where
  "mixture mexp a =
     (let raw = activations mexp a; total = py_sum (map snd raw) in
      if flt_le total (Num 0)
      then map (\<lambda>(label, _). (label, fdiv (Num 1) (fint (int (length raw))))) raw
      else map (\<lambda>(label, value). (label, fdiv value total)) raw)"

text \<open>\<open>max(d, key=d.get)\<close>: the first entry that no later one exceeds.\<close>

fun argmax :: "string \<times> flt \<Rightarrow> fdict \<Rightarrow> string \<times> flt" where
  "argmax best [] = best"
| "argmax best (x # xs) = argmax (if flt_less (snd best) (snd x) then x else best) xs"

definition dominant_at :: "(flt \<Rightarrow> flt) \<Rightarrow> fdict \<Rightarrow> string option \<Rightarrow> flt \<Rightarrow> flt \<Rightarrow> string" where
  "dominant_at mexp a prev theta_on theta_off =
     (let raw = activations mexp a;
          non_neutral = filter (\<lambda>(k, _). k \<noteq> ''neutral'') raw;
          (top_label, top_val) = argmax (hd non_neutral) (tl non_neutral);
          fresh = (if flt_le theta_on top_val then top_label else ''neutral'')
      in case prev of
           None \<Rightarrow> fresh
         | Some p \<Rightarrow>
             if p = ''neutral'' then fresh
             else let prev_val = fget raw p in
                  if flt_le theta_off prev_val
                  then (if top_label \<noteq> p \<and> flt_le theta_on top_val \<and> flt_less prev_val top_val
                        then top_label else p)
                  else fresh)"

definition dominant :: "(flt \<Rightarrow> flt) \<Rightarrow> fdict \<Rightarrow> string option \<Rightarrow> string" where
  "dominant mexp a prev = dominant_at mexp a prev (lit (1 / 2)) (lit (35 / 100))"

section \<open>Ranges\<close>

text \<open>Values in \<open>[-1, 1]\<close> and in \<open>[0, 1]\<close>, finite.\<close>

definition in_pm1 :: "flt \<Rightarrow> bool" where
  "in_pm1 x \<longleftrightarrow> is_finite x \<and> - 1 \<le> fval x \<and> fval x \<le> 1"

definition in_unit :: "flt \<Rightarrow> bool" where
  "in_unit x \<longleftrightarrow> is_finite x \<and> 0 \<le> fval x \<and> fval x \<le> 1"

definition affect_ok :: "fdict \<Rightarrow> bool" where
  "affect_ok a \<longleftrightarrow> map fst a = AXES \<and> (\<forall>v\<in>set (map snd a). in_pm1 v)"

definition mood_ok :: "fdict \<Rightarrow> bool" where
  "mood_ok m \<longleftrightarrow> map fst m = [''valence'', ''arousal''] \<and> (\<forall>v\<in>set (map snd m). in_pm1 v)"

definition drives_ok :: "drives \<Rightarrow> bool" where
  "drives_ok d \<longleftrightarrow> map fst d = CORE \<and> (\<forall>v\<in>set (map snd d). in_unit (level v) \<and> in_unit (setpoint v))"


lemma in_pm1_fbound: "in_pm1 x \<longleftrightarrow> fbound 0 x"
  by (auto simp: in_pm1_def fbound_def abs_le_iff)

lemma in_unit_pm1: "in_unit x \<Longrightarrow> in_pm1 x"
  by (simp add: in_unit_def in_pm1_def)

lemma in_unit_fbound: "in_unit x \<Longrightarrow> fbound 0 x"
  by (simp add: in_unit_pm1 in_pm1_fbound [symmetric])

lemma in_range_consts [simp]: "in_pm1 (Num 0)" "in_pm1 (Num 1)" "in_pm1 (Num (- 1))" "in_unit (Num 0)" "in_unit (Num 1)"
  by (simp_all add: in_pm1_def in_unit_def)

lemma in_unit_lit: "0 \<le> x \<Longrightarrow> x \<le> 1 \<Longrightarrow> in_unit (lit x)"
  using fbound_lit [of x] mkf_finite(2) [of x 0 "x < 0"] rnd64_nonneg [of x]
  by (auto simp: in_unit_def fbound_def lit_def)

lemma clip_in_pm1: "\<not> is_nan x \<Longrightarrow> in_pm1 (clip x)"
  by (cases x) (auto simp: clip_def flt_less_def in_pm1_def)

lemma clip_nan [simp]: "clip NaN = NaN"
  by (simp add: clip_def flt_less_def)

lemma clip_id: "in_pm1 x \<Longrightarrow> clip x = x"
  by (cases x) (auto simp: clip_def flt_less_def in_pm1_def)

lemma clip_idem [simp]: "clip (clip x) = clip x"
  by (cases "is_nan x") (auto simp: is_nan_def clip_id clip_in_pm1)

text \<open>The \<open>max(lo, min(hi, x))\<close> clamps absorb NaN as well, since Python's \<open>min\<close> keeps its first argument.\<close>

lemma mood_clamp_in_pm1 [simp]: "in_pm1 (mood_clamp x)"
  by (cases x) (auto simp: mood_clamp_def py_max_def py_min_def flt_less_def in_pm1_def)

lemma drive_clamp_in_unit [simp]: "in_unit (drive_clamp x)"
  by (cases x) (auto simp: drive_clamp_def py_max_def py_min_def flt_less_def in_unit_def)

lemma weight_in_unit: "in_unit (py_max (Num 0) (py_min (Num 1) x))"
  using drive_clamp_in_unit by (simp add: drive_clamp_def)

subsection \<open>Manifold\<close>

lemma manifold_get_bound:
  assumes "\<And>v. v \<in> set (map snd d) \<Longrightarrow> is_nan v \<or> fbound k v" and "0 \<le> k"
  shows "fbound k (manifold_get (Some d) axis)"
proof -
  have zero: "fbound k (Num 0)"
    by (simp add: fbound_def)
  show ?thesis
  proof (cases "map_of d axis")
    case None
    then show ?thesis using zero by (simp add: manifold_get_def fget_def Let_def)
  next
    case (Some v)
    then have "v \<in> set (map snd d)"
      by (metis map_of_SomeD in_set_zipE zip_map_fst_snd)
    with Some assms(1) [of v] zero show ?thesis
      by (auto simp: manifold_get_def fget_def Let_def)
  qed
qed

lemmas fbound_arith = fbound_fadd fbound_fmul fbound_fsub

lemma fbound_weights:
  "fbound 0 W_APPRAISAL" "fbound 0 W_MOOD" "fbound 0 W_DRIVE" "fbound 0 W_SCARS" "fbound 0 ATTRACTOR_GAIN"
  "fbound 0 DEFAULT_INERTIA" "fbound 0 (Num 1)"
  by (simp_all add: W_APPRAISAL_def W_MOOD_def W_DRIVE_def W_SCARS_def ATTRACTOR_GAIN_def
        DEFAULT_INERTIA_def fbound_lit) (simp add: fbound_def)

lemma manifold_axis_in_pm1:
  assumes bounds: "\<And>d. d \<in> {a, appraisal, mood, drv, scars, base} \<Longrightarrow> fbound 30 (manifold_get (Some d) axis)"
    and inertia: "\<And>m. inertia = Some m \<Longrightarrow> fbound 30 (manifold_get inertia axis)"
  shows "in_pm1 (manifold_axis a appraisal mood drv scars base inertia axis)"
proof -
  let ?g = "\<lambda>d. manifold_get (Some d) axis"
  define k where "k = (case inertia of None \<Rightarrow> DEFAULT_INERTIA
               | Some m \<Rightarrow> if axis \<notin> fst ` set m then DEFAULT_INERTIA else manifold_get inertia axis)"
  have k: "fbound 30 k"
    using inertia fbound_weights(6) by (auto simp: k_def split: option.splits intro: fbound_mono)
  have wterm: "fbound 30 (fmul w (?g d))" if "fbound 0 w" "d \<in> {appraisal, mood, drv, scars}" for w d
    using fbound_fmul [OF that(1) bounds, of d] that(2) by auto
  define delta where "delta = fadd (fadd (fadd (fmul W_APPRAISAL (?g appraisal)) (fmul W_MOOD (?g mood)))
                             (fmul W_DRIVE (?g drv))) (fmul W_SCARS (?g scars))"
  have d1: "fbound 31 (fadd (fmul W_APPRAISAL (?g appraisal)) (fmul W_MOOD (?g mood)))"
    using fbound_fadd [OF wterm wterm, of W_APPRAISAL appraisal W_MOOD mood] by (simp add: fbound_weights)
  have d2: "fbound 32 (fadd (fadd (fmul W_APPRAISAL (?g appraisal)) (fmul W_MOOD (?g mood))) (fmul W_DRIVE (?g drv)))"
    using fbound_fadd [OF d1 fbound_mono [OF wterm], of W_DRIVE drv] by (simp add: fbound_weights)
  have delta: "fbound 33 delta"
    unfolding delta_def using fbound_fadd [OF d2 fbound_mono [OF wterm], of W_SCARS scars]
    by (simp add: fbound_weights)
  have "fbound 34 (fadd (?g base) delta)"
    using fbound_fadd [OF fbound_mono [OF bounds] delta, of base] by simp
  moreover have "fbound 31 (fsub (Num 1) k)"
    using fbound_fsub [OF fbound_mono [OF fbound_weights(7)] k] by simp
  ultimately have pull: "fbound 65 (fmul (fsub (Num 1) k) (fadd (?g base) delta))"
    using fbound_fmul by fastforce
  have "fbound 60 (fmul k (?g a))"
    using fbound_fmul [OF k bounds, of a] by simp
  then have blend: "fbound 66 (fadd (fmul k (?g a)) (fmul (fsub (Num 1) k) (fadd (?g base) delta)))"
    using fbound_fadd [OF fbound_mono pull] by fastforce
  have "fbound 30 (fmul (fneg ATTRACTOR_GAIN) (?g a))"
    using fbound_fmul [of 0 "fneg ATTRACTOR_GAIN" 30 "?g a"] bounds [of a] fbound_weights(5) by simp
  then have "fbound 67 (fadd (fadd (fmul k (?g a)) (fmul (fsub (Num 1) k) (fadd (?g base) delta)))
                             (fmul (fneg ATTRACTOR_GAIN) (?g a)))"
    using fbound_fadd [OF blend fbound_mono] by fastforce
  from clip_in_pm1 [OF fbound_not_nan [OF this]] show ?thesis
    by (simp add: manifold_axis_def Let_def k_def delta_def)
qed

lemma new_manifold_ok: "affect_ok new_manifold"
  by (auto simp: affect_ok_def new_manifold_def comp_def)

lemma affect_ok_axes: "affect_ok a \<Longrightarrow> map fst a = AXES"
  by (simp add: affect_ok_def)

lemma affect_ok_get: "affect_ok a \<Longrightarrow> in_pm1 (fget a axis)"
  by (auto simp: affect_ok_def fget_def split: option.splits dest!: map_of_SomeD)

subsection \<open>Drives\<close>

lemma new_drives_ok: "drives_ok new_drives"
  by (auto simp: drives_ok_def new_drives_def in_unit_lit comp_def)

lemma dset_values:
  assumes "P v" and "\<forall>w\<in>set (map snd d). P w"
  shows "\<forall>w\<in>set (map snd (dset d k v)). P w"
  using assms by (induction d k v rule: dset.induct) auto

lemma nudge_drive_ok:
  assumes "drives_ok d" and "name \<in> set CORE"
  shows "\<exists>d'. nudge_drive d name amount = Ok d' \<and> drives_ok d'"
proof -
  from assms have "name \<in> fst ` set d"
    by (metis drives_ok_def list.set_map)
  then obtain v where v: "map_of d name = Some v"
    by (metis domI domIff map_of_eq_None_iff not_None_eq)
  then have "v \<in> set (map snd d)"
    by (metis map_of_SomeD in_set_zipE zip_map_fst_snd)
  with assms(1) have "in_unit (setpoint v)"
    by (auto simp: drives_ok_def)
  then have "\<forall>w\<in>set (map snd (dset d name (v\<lparr>level := nudge (level v) amount\<rparr>))).
               in_unit (level w) \<and> in_unit (setpoint w)"
    using assms(1) by (intro dset_values) (simp_all add: drives_ok_def nudge_def)
  then have "drives_ok (dset d name (v\<lparr>level := nudge (level v) amount\<rparr>))"
    using assms by (simp add: drives_ok_def map_fst_dset)
  with v show ?thesis by (simp add: nudge_drive_def)
qed

lemma foldR_nudges_ok:
  assumes "drives_ok d" and "set (map fst ns) \<subseteq> set CORE"
  shows "\<exists>d'. foldR (\<lambda>new_d (name, amount). nudge_drive new_d name amount) d ns = Ok d' \<and> drives_ok d'"
  using assms
proof (induction ns arbitrary: d)
  case Nil
  then show ?case by simp
next
  case (Cons n ns)
  obtain name amount where n: "n = (name, amount)" by (cases n)
  with Cons.prems obtain d' where "nudge_drive d name amount = Ok d'" and "drives_ok d'"
    using nudge_drive_ok [of d name amount] by auto
  with Cons.IH [of d'] Cons.prems(2) n show ?case by simp
qed

lemma drives_update_total_ok: "drives_ok d \<Longrightarrow> \<exists>d'. drives_update d f = Ok d' \<and> drives_ok d'"
  unfolding drives_update_def
  by (rule foldR_nudges_ok) (auto simp: drive_nudges_def CORE_def)

lemma pressure_in_unit:
  assumes "drives_ok d" and "p \<in> set (map snd (pressure d))"
  shows "in_unit p"
proof -
  from assms obtain v where v: "v \<in> set (map snd d)" and p: "p = py_max (Num 0) (fsub (setpoint v) (level v))"
    by (fastforce simp: pressure_def)
  have fin: "is_finite (setpoint v)" "is_finite (level v)" and diff: "\<bar>fval (setpoint v) + - fval (level v)\<bar> \<le> pow2 0"
    using assms(1) v by (auto simp: drives_ok_def in_unit_def abs_le_iff)
  have "fbound 0 (fsub (setpoint v) (level v))"
    unfolding fsub_def using fin fbound_mkf [OF diff, of False]
    by (simp add: fadd_finite_eq) (simp add: fbound_def)
  then show ?thesis
    by (auto simp: p py_max_def fbound_def flt_less_finite in_unit_def abs_le_iff)
qed

subsection \<open>Prototypes\<close>

lemma argmax_mem: "argmax b xs \<in> insert b (set xs)"
proof (induction xs arbitrary: b)
  case Nil
  then show ?case by simp
next
  case (Cons x xs)
  have "argmax (if flt_less (snd b) (snd x) then x else b) xs
        \<in> insert (if flt_less (snd b) (snd x) then x else b) (set xs)"
    by (rule Cons.IH)
  then show ?case by (auto split: if_splits)
qed

lemma map_fst_activations: "map fst (activations mexp a) = map fst PROTOTYPES"
  by (simp add: activations_def case_prod_beta comp_def)

lemma non_neutral_not_Nil: "filter (\<lambda>(k, _). k \<noteq> ''neutral'') (activations mexp a) \<noteq> []"
  by (simp add: activations_def PROTOTYPES_def)

end
