(* ===== verification/Authority.thy ===== *)
theory Authority
  imports PyJson
begin

text \<open>
  The earned control-authority ladder (\<open>psyche/authority.py\<close>): the conviction band, the ceiling a
  track record earns, and the resolution that takes the minimum over six caps. The lemmas show
  that the granted tier is exactly that minimum and which cap the resolution names as binding.
\<close>

section \<open>Model\<close>

definition TIERS :: "string list" where
  "TIERS = [''cosmetic'', ''soft'', ''vote'', ''hold'', ''veto'']"

definition THETA_SOFT :: flt where "THETA_SOFT = lit (60 / 100)"
definition THETA_VOTE :: flt where "THETA_VOTE = lit (72 / 100)"
definition THETA_HOLD :: flt where "THETA_HOLD = lit (85 / 100)"
definition THETA_VETO :: flt where "THETA_VETO = lit (95 / 100)"
definition AUTHORITY_MAX :: string where "AUTHORITY_MAX = ''hold''"

definition MIN_SAMPLES :: int where "MIN_SAMPLES = 5"
definition VOTE_MIN_TOTAL :: int where "VOTE_MIN_TOTAL = 20"
definition VETO_MIN_TOTAL :: int where "VETO_MIN_TOTAL = 40"
definition RATE_SOFT :: flt where "RATE_SOFT = lit (65 / 100)"
definition RATE_VOTE :: flt where "RATE_VOTE = lit (75 / 100)"
definition RATE_HOLD :: flt where "RATE_HOLD = lit (85 / 100)"
definition RATE_VETO :: flt where "RATE_VETO = lit (95 / 100)"

definition band :: "flt \<Rightarrow> string" where
  "band c =
     (if flt_less c THETA_SOFT then ''cosmetic''
      else if flt_less c THETA_VOTE then ''soft''
      else if flt_less c THETA_HOLD then ''vote''
      else if flt_less c THETA_VETO then ''hold''
      else ''veto'')"

text \<open>A track record: the rate of beneficial exercises and their number.\<close>

record track =
  track_rate :: flt
  track_total :: int

definition earned_ceiling :: "track \<Rightarrow> string" where
  "earned_ceiling t =
     (let total = track_total t; rate = track_rate t in
      if total < MIN_SAMPLES then ''cosmetic''
      else if flt_le RATE_VETO rate \<and> VETO_MIN_TOTAL \<le> total then ''veto''
      else if flt_le RATE_HOLD rate \<and> VOTE_MIN_TOTAL \<le> total then ''hold''
      else if flt_le RATE_VOTE rate \<and> VOTE_MIN_TOTAL \<le> total then ''vote''
      else if flt_le RATE_SOFT rate then ''soft''
      else ''cosmetic'')"

fun index_of :: "'a \<Rightarrow> 'a list \<Rightarrow> nat option" where
  "index_of x [] = None"
| "index_of x (y # ys) = (if x = y then Some 0 else map_option Suc (index_of x ys))"

text \<open>\<open>TIERS.index(t) if t in TIERS else 0\<close>\<close>

definition tier_index :: "string \<Rightarrow> nat" where
  "tier_index t = (case index_of t TIERS of Some i \<Rightarrow> i | None \<Rightarrow> 0)"

definition cap :: "string \<Rightarrow> string \<Rightarrow> string" where
  "cap tier ceil = TIERS ! min (tier_index tier) (tier_index ceil)"

record resolution =
  granted_tier :: string
  binding_cap :: string
  conviction_band :: string
  caps :: "(string \<times> string) list"

definition cap_step :: "string \<times> string \<Rightarrow> string \<times> string \<Rightarrow> string \<times> string" where
  "cap_step st nc =
     (let (tier, binding) = st; (name, ceil) = nc; capped = cap tier ceil in
      if tier_index capped < tier_index tier then (capped, name) else (tier, binding))"

definition resolve :: "flt \<Rightarrow> track \<Rightarrow> string \<Rightarrow> string \<Rightarrow> string \<Rightarrow> string \<Rightarrow> resolution" where
  "resolve conviction trk domain_ceiling operator_ceiling safety_ceiling verifier_ceiling =
     (let cs = [(''earned'', earned_ceiling trk), (''domain'', domain_ceiling),
                (''operator'', operator_ceiling), (''safety'', safety_ceiling),
                (''verifier_invariance'', verifier_ceiling), (''global_max'', AUTHORITY_MAX)];
          (tier, binding) = foldl cap_step (band conviction, ''conviction_band'') cs
      in \<lparr>granted_tier = tier, binding_cap = binding, conviction_band = band conviction, caps = cs\<rparr>)"

definition resolution_json :: "resolution \<Rightarrow> json" where
  "resolution_json r =
     JObj [(''granted_tier'', JStr (granted_tier r)), (''binding_cap'', JStr (binding_cap r)),
           (''conviction_band'', JStr (conviction_band r)),
           (''caps'', JObj (map (\<lambda>(k, v). (k, JStr v)) (caps r)))]"

section \<open>Minimum over the caps\<close>

lemma tier_index_less [simp]: "tier_index t < 5"
  by (auto simp: tier_index_def TIERS_def split: option.splits if_splits)

lemma tier_index_nth: "i < 5 \<Longrightarrow> tier_index (TIERS ! i) = i"
  by (auto simp: tier_index_def TIERS_def less_Suc_eq numeral_eq_Suc)

lemma nth_tier_index: "t \<in> set TIERS \<Longrightarrow> TIERS ! tier_index t = t"
  by (auto simp: tier_index_def TIERS_def)

lemma tier_index_cap [simp]: "tier_index (cap t c) = min (tier_index t) (tier_index c)"
  unfolding cap_def by (rule tier_index_nth) (simp add: min_less_iff_disj)

lemma band_in_TIERS [simp]: "band c \<in> set TIERS"
  by (simp add: band_def TIERS_def)

lemma cap_in_TIERS [simp]: "cap t c \<in> set TIERS"
  unfolding cap_def using tier_index_less [of t]
  by (intro nth_mem) (simp add: TIERS_def min_less_iff_disj numeral_eq_Suc)

lemma tier_eqI: "s \<in> set TIERS \<Longrightarrow> t \<in> set TIERS \<Longrightarrow> tier_index s = tier_index t \<Longrightarrow> s = t"
  by (metis nth_tier_index)

text \<open>The loop computes the least index, and its binding name is the first cap to reach it.\<close>

lemma cap_fold_index:
  "tier_index (fst (foldl cap_step st cs)) = Min (insert (tier_index (fst st)) (tier_index ` snd ` set cs))"
proof (induction cs arbitrary: st)
  case Nil
  then show ?case by simp
next
  case (Cons c cs)
  obtain tier binding name ceil where [simp]: "st = (tier, binding)" "c = (name, ceil)"
    by (cases st, cases c)
  have step: "tier_index (fst (cap_step st c)) = min (tier_index tier) (tier_index ceil)"
    by (simp add: cap_step_def Let_def min_def)
  have "tier_index (fst (foldl cap_step st (c # cs)))
        = Min (insert (min (tier_index tier) (tier_index ceil)) (tier_index ` snd ` set cs))"
    using Cons.IH [of "cap_step st c"] step by simp
  also have "\<dots> = Min (insert (tier_index tier) (insert (tier_index ceil) (tier_index ` snd ` set cs)))"
    by (cases "tier_index ` snd ` set cs = {}") (simp_all add: min.assoc)
  finally show ?case by simp
qed

lemma cap_fold_in_TIERS: "fst st \<in> set TIERS \<Longrightarrow> fst (foldl cap_step st cs) \<in> set TIERS"
  by (induction cs arbitrary: st) (auto simp: cap_step_def Let_def split: prod.splits)

lemma cap_fold_le: "tier_index (fst (foldl cap_step st cs)) \<le> tier_index (fst st)"
  unfolding cap_fold_index by (rule Min_le) simp_all

lemma cap_fold_binding:
  assumes "foldl cap_step (t, b) cs = (t', b')"
  shows "b' = (if tier_index t' = tier_index t then b
               else fst (the (find (\<lambda>c. tier_index (snd c) = tier_index t') cs)))"
  using assms
proof (induction cs arbitrary: t b)
  case Nil
  then show ?case by simp
next
  case (Cons c cs)
  obtain name ceil where c: "c = (name, ceil)" by (cases c)
  obtain t1 b1 where step: "cap_step (t, b) c = (t1, b1)" by fastforce
  with Cons.prems have rest: "foldl cap_step (t1, b1) cs = (t', b')" by simp
  from cap_fold_le [of "(t1, b1)" cs] rest have le: "tier_index t' \<le> tier_index t1" by simp
  show ?case
  proof (cases "tier_index ceil < tier_index t")
    case True
    with step c have "tier_index t1 = tier_index ceil" "b1 = name"
      by (auto simp: cap_step_def Let_def min_def split: if_splits)
    with Cons.IH [OF rest] le True c show ?thesis by auto
  next
    case False
    with step c have "t1 = t" "b1 = b"
      by (auto simp: cap_step_def Let_def)
    with Cons.IH [OF rest] le False c show ?thesis by auto
  qed
qed

text \<open>Thresholds are ordered, so the band is monotone in the conviction.\<close>

lemma thresholds_ordered:
  "fval THETA_SOFT \<le> fval THETA_VOTE" "fval THETA_VOTE \<le> fval THETA_HOLD" "fval THETA_HOLD \<le> fval THETA_VETO"
  "is_finite THETA_SOFT" "is_finite THETA_VOTE" "is_finite THETA_HOLD" "is_finite THETA_VETO"
  by (simp_all add: THETA_SOFT_def THETA_VOTE_def THETA_HOLD_def THETA_VETO_def lit_def
        mkf_finite [where k = 0] rnd64_mono)

lemma band_mono:
  assumes "is_finite c" and "is_finite d" and "fval c \<le> fval d"
  shows "tier_index (band c) \<le> tier_index (band d)"
proof -
  have idx: "tier_index ''cosmetic'' = 0" "tier_index ''soft'' = 1" "tier_index ''vote'' = 2"
    "tier_index ''hold'' = 3" "tier_index ''veto'' = 4"
    by (simp_all add: tier_index_def TIERS_def)
  show ?thesis
    using assms thresholds_ordered by (auto simp: band_def idx flt_less_finite)
qed

end
