(* ===== verification/ReferencePsyche.thy ===== *)
theory ReferencePsyche
  imports Homeostats Authority Frames
begin

text \<open>
  The reference psyche (\<open>psyche/reference.py\<close>): its carried state, every stage of \<open>tick\<close> and the
  frames it emits. Each stage is a definition named after the method it translates; frames are
  the dicts the code builds, key by key. \<open>math.exp\<close> is the parameter \<open>mexp\<close>. Properties of the
  psyche are proved in the theories that import this one.
\<close>

section \<open>Helpers\<close>

definition clip01 :: "flt \<Rightarrow> flt" where
  "clip01 x = (if flt_less x (Num 0) then Num 0 else if flt_less (Num 1) x then Num 1 else x)"

definition clip11 :: "flt \<Rightarrow> flt" where
  "clip11 x = (if flt_less x (Num (- 1)) then Num (- 1) else if flt_less (Num 1) x then Num 1 else x)"

definition pos :: "flt \<Rightarrow> flt" where
  "pos x = (if flt_less (Num 0) x then x else Num 0)"

text \<open>A float of a frame, rounded to six decimals.\<close>

definition r6 :: "flt \<Rightarrow> json" where
  "r6 x = JFloat (py_round 6 x)"

definition fdict_r6 :: "fdict \<Rightarrow> json" where
  "fdict_r6 d = JObj (map (\<lambda>(k, v). (k, r6 v)) d)"

definition SQ :: string where "SQ = [CHR 0x27]"
definition ARROW :: string where "ARROW = [CHR 0xE2, CHR 0x86, CHR 0x92]"
definition SCHEMA_VERSION :: json where "SCHEMA_VERSION = JStr ''0.1.0''"
definition FALLBACK_TS :: string where "FALLBACK_TS = ''1970-01-01T00:00:00Z''"

definition BAND_TO_INSTINCT_AUTH :: "string \<Rightarrow> string" where
  "BAND_TO_INSTINCT_AUTH b =
     (if b = ''vote'' then ''vote'' else if b = ''hold'' \<or> b = ''veto'' then ''hold'' else ''soft'')"

definition FAILED_STATUSES :: "string list" where
  "FAILED_STATUSES = [''error'', ''timeout'', ''denied'']"

section \<open>State\<close>

record psyche =
  affect :: fdict
  mood :: fdict
  morale :: flt
  drives_of :: drives
  personality_baseline :: fdict
  competence :: "(string \<times> fdict) list"
  scars :: fdict
  self_model_reliability :: flt
  calibration_error :: "flt option"
  calibration_samples :: int
  brier_sum :: flt
  pending_error_prediction :: "flt option"
  prev_dominant :: "string option"
  identity_anchors :: "string list"
  prev_state_hash :: string
  pert :: perturbation_set

definition json_opt :: "('a \<Rightarrow> json) \<Rightarrow> 'a option \<Rightarrow> json" where
  "json_opt f x = (case x of None \<Rightarrow> JNull | Some y \<Rightarrow> f y)"

definition fdict_json :: "fdict \<Rightarrow> json" where
  "fdict_json d = JObj (map (\<lambda>(k, v). (k, JFloat v)) d)"

text \<open>\<open>_interior\<close>: what the state hash covers.\<close>

definition interior :: "psyche \<Rightarrow> json" where
  "interior s = JObj
     [(''affect'', fdict_json (affect s)),
      (''mood'', fdict_json (mood s)),
      (''morale'', JFloat (morale s)),
      (''drive_levels'', JObj (map (\<lambda>(k, v). (k, JFloat (level v))) (drives_of s))),
      (''self_model_reliability'', JFloat (self_model_reliability s)),
      (''calibration_error'', json_opt JFloat (calibration_error s)),
      (''calibration_samples'', JInt (calibration_samples s)),
      (''prev_dominant'', json_opt JStr (prev_dominant s)),
      (''identity_anchors'', JList (map JStr (sort (identity_anchors s))))]"

definition reset_psyche :: psyche where
  "reset_psyche =
     (let s = \<lparr>affect = new_manifold, mood = new_mood, morale = Num 0, drives_of = new_drives,
               personality_baseline = new_manifold, competence = [], scars = [],
               self_model_reliability = lit (1 / 2), calibration_error = None, calibration_samples = 0,
               brier_sum = Num 0, pending_error_prediction = None, prev_dominant = None,
               identity_anchors = [], prev_state_hash = [], pert = []\<rparr>
      in s\<lparr>prev_state_hash := state_hash (interior s)\<rparr>)"

definition set_active_interventions :: "dict list \<Rightarrow> psyche \<Rightarrow> psyche" where
  "set_active_interventions interventions s = s\<lparr>pert := interventions\<rparr>"

section \<open>Appraisal\<close>

text \<open>The shared context of one tick.\<close>

record ctx =
  cx_errors :: int
  cx_tests_failed :: int
  cx_verdict :: json
  cx_regression :: bool
  cx_risk :: flt
  cx_reversibility :: flt
  cx_stakes :: flt
  cx_diff_norm :: flt
  cx_uncertainty :: flt
  cx_retries :: int
  cx_novelty :: flt
  cx_scar_strength :: flt
  cx_is_fail :: bool
  cx_is_pass :: bool
  cx_competence_gap :: flt
  cx_unresolved_tension :: flt
  cx_operator_priority :: flt
  cx_expected_loss :: flt
  cx_recency :: flt
  cx_scar_matches :: "json list"

text \<open>\<open>d.get(k, default) or default\<close> on a frame, and on a nested value.\<close>

definition get_or_empty :: "dict \<Rightarrow> string \<Rightarrow> json \<Rightarrow> json" where
  "get_or_empty d k e = py_or (dget_or d k e) e"

definition jget_int :: "json \<Rightarrow> string \<Rightarrow> int result" where
  "jget_int v k = bindR (jget_or v k (JInt 0)) (\<lambda>x. py_int (py_or x (JInt 0)))"

definition jget_float :: "json \<Rightarrow> string \<Rightarrow> flt result" where
  "jget_float v k = bindR (jget_or v k (JFloat (Num 0))) (\<lambda>x. py_float (py_or x (JFloat (Num 0))))"

definition failed_event :: "json \<Rightarrow> bool result" where
  "failed_event e = bindR (jget e ''status'') (\<lambda>s. in_strings s FAILED_STATUSES)"

text \<open>\<open>len(v) / 3.0\<close>, clipped.\<close>

definition third_of_len :: "json \<Rightarrow> flt result" where
  "third_of_len v = bindR (py_len v) (\<lambda>n. Ok (clip01 (fdiv (fint n) (lit 3))))"

definition appraise_uncertainty :: "dict \<Rightarrow> flt result" where
  "appraise_uncertainty trace =
     (let unc_raw = dget trace ''uncertainty''; conf = dget trace ''self_reported_confidence'' in
      if unc_raw \<noteq> JNull then bindR (py_float unc_raw) (\<lambda>u. Ok (clip01 u))
      else if conf \<noteq> JNull then bindR (py_float conf) (\<lambda>c. Ok (clip01 (fsub (Num 1) c)))
      else Ok (lit (1 / 2)))"

definition match_strength :: "json \<Rightarrow> flt result" where
  "match_strength m =
     bindR (jget_or m ''similarity'' (JFloat (Num 0))) (\<lambda>s. bindR (py_float s) (\<lambda>sim.
     bindR (jget_or m ''historical_base_rate'' (JFloat (Num 0))) (\<lambda>b. bindR (py_float b) (\<lambda>rate.
       Ok (fmul sim rate)))))"

text \<open>Scar strength and the matches that survive a scar-graph ablation.\<close>

definition appraise_scars :: "psyche \<Rightarrow> dict \<Rightarrow> (flt \<times> json list) result" where
  "appraise_scars s memory =
     bindR (py_iter (get_or_empty memory ''scar_motif_matches'' (JList []))) (\<lambda>scar_matches.
     bindR (foldR (\<lambda>best m. bindR (match_strength m) (\<lambda>x. Ok (py_max best x))) (Num 0) scar_matches) (\<lambda>best.
       let scar_strength = clip01 (foldl py_max best (map snd (scars s))) in
       bindR (is_ablated (pert s) ''scar_graph'') (\<lambda>ablated.
       bindR (if ablated then Ok True else is_disabled (pert s) ''scar_graph'') (\<lambda>cut.
         if cut then Ok (Num 0, [])
         else bindR (scalar (pert s) ''scar_graph'' ''scar_strength'' scar_strength) (\<lambda>v.
                Ok (clip01 v, scar_matches))))))"

definition appraise_competence :: "psyche \<Rightarrow> dict \<Rightarrow> string \<Rightarrow> flt result" where
  "appraise_competence s memory domain =
     bindR (jget (dget_or memory ''competence_by_domain'' (JObj [])) domain) (\<lambda>comp.
     bindR (if is_dict comp then bindR (jget_or comp ''p'' (JFloat (lit (1 / 2)))) py_float
            else if is_number comp then py_float comp
            else Ok (case map_of (competence s) domain of
                       None \<Rightarrow> lit (1 / 2)
                     | Some c \<Rightarrow> (case map_of c ''p'' of None \<Rightarrow> lit (1 / 2) | Some p \<Rightarrow> p)))
       (\<lambda>comp_p. Ok (clip01 (fsub (Num 1) comp_p))))"

definition evidence_refs_of :: "dict \<Rightarrow> dict \<Rightarrow> dict \<Rightarrow> dict \<Rightarrow> string list" where
  "evidence_refs_of world trace memory governance =
     [''world:'' @ py_str (dget world ''timestamp'')] @
     (if trace \<noteq> [] then [''agent_trace:'' @ py_str (dget world ''timestamp'')] else []) @
     (if memory \<noteq> [] then [''memory:'' @ py_str (dget_or memory ''timestamp'' (dget world ''timestamp''))] else []) @
     (if governance \<noteq> []
      then [''governance:'' @ py_str (dget_or governance ''timestamp'' (dget world ''timestamp''))] else [])"

text \<open>The affect appraisal, from the values read off the frames.\<close>

definition appraisal_of ::
  "int \<Rightarrow> int \<Rightarrow> json \<Rightarrow> bool \<Rightarrow> flt \<Rightarrow> flt \<Rightarrow> flt \<Rightarrow> flt \<Rightarrow> int \<Rightarrow> bool \<Rightarrow> flt \<Rightarrow> flt \<Rightarrow> bool \<Rightarrow> bool \<Rightarrow> fdict" where
  "appraisal_of errors tests_failed verdict regression risk stakes_v diff_norm uncertainty retries
       known_unknowns novelty scar_strength is_pass ran_pass =
     (let e = fbool (errors \<noteq> 0); t = fbool (tests_failed \<noteq> 0); p = fbool is_pass; r = fbool (retries \<noteq> 0);
          neg = fadd (fadd (fadd (if errors \<noteq> 0 then lit (5 / 10) else Num 0)
                                 (if tests_failed \<noteq> 0 then lit (5 / 10) else Num 0))
                           (if verdict = JStr ''fail'' then lit (6 / 10) else Num 0))
                     (if regression then lit (3 / 10) else Num 0);
          posv = fadd (if is_pass then lit (6 / 10) else Num 0) (if ran_pass then lit (3 / 10) else Num 0)
      in [(''valence'', clip11 (fsub (fsub posv neg) (fmul (lit (4 / 10)) scar_strength))),
          (''arousal'', clip11 (fadd (fadd (fmul (lit (4 / 10)) e) (fmul (lit (4 / 10)) risk))
                                     (fmul (lit (3 / 10)) t))),
          (''dominance'', clip11 (fsub (fsub (fmul (lit (5 / 10)) p) (fmul (lit (4 / 10)) e))
                                       (fmul (lit (3 / 10)) (fbool (verdict = JStr ''fail''))))),
          (''certainty'', clip11 (fsub (fsub (fsub (fmul (lit (5 / 10)) p) uncertainty)
                                             (fmul (lit (3 / 10)) (fbool (verdict = JStr ''pending''))))
                                       (fmul (lit (4 / 10)) scar_strength))),
          (''novelty'', clip11 novelty),
          (''agency'', clip11 (fsub (fsub (fmul (lit (3 / 10)) p) (fmul (lit (3 / 10)) e))
                                    (fmul (lit (2 / 10)) scar_strength))),
          (''tension'', clip11 (fsub (fadd (fadd (fadd (fadd (fmul (lit (5 / 10)) e) (fmul (lit (5 / 10)) t))
                                                             (fmul (lit (4 / 10)) risk))
                                                       (fmul (lit (2 / 10)) r)) scar_strength)
                                     (fmul (lit (5 / 10)) p))),
          (''social_exposure'', clip11 stakes_v),
          (''cognitive_load'', clip11 (fadd (fadd diff_norm (fmul (lit (3 / 10)) r))
                                            (fmul (lit (2 / 10)) (fbool known_unknowns))))])"

definition appraise ::
  "psyche \<Rightarrow> dict \<Rightarrow> dict \<Rightarrow> dict \<Rightarrow> dict \<Rightarrow> string \<Rightarrow> (fdict \<times> outcome \<times> ctx \<times> string list) result" where
  "appraise s world trace memory governance domain =
     (let tool_events = get_or_empty world ''tool_events'' (JList []) in
     bindR (py_iter tool_events) (\<lambda>evs. bindR (filterR failed_event evs) (\<lambda>bad.
     let errors = int (length bad);
         test_state = get_or_empty world ''test_state'' (JObj []) in
     bindR (jget_int test_state ''failed'') (\<lambda>tests_failed.
     bindR (jget_int test_state ''passed'') (\<lambda>tests_passed.
     let vsig = get_or_empty world ''verification_signals'' (JObj []) in
     bindR (jget vsig ''verdict'') (\<lambda>verdict.
     bindR (jget_or vsig ''regression_found'' (JBool False)) (\<lambda>reg.
     let regression = truthy reg; stakes = get_or_empty world ''stakes'' (JObj []) in
     bindR (jget_float stakes ''risk'') (\<lambda>risk.
     bindR (jget_float stakes ''stakes'') (\<lambda>stakes_v.
     bindR (jget stakes ''reversibility'') (\<lambda>rv.
     bindR (if rv = JNull then Ok (Num 1) else py_float rv) (\<lambda>revers.
     let diff = get_or_empty world ''diff_size'' (JObj []) in
     bindR (jget_int diff ''net_lines'') (\<lambda>net.
     bindR (jget_int diff ''added_lines'') (\<lambda>added.
     bindR (float_of_int (\<bar>net\<bar> + added)) (\<lambda>diff_lines.
     let diff_norm = clip01 (fdiv diff_lines (lit 400)) in
     bindR (appraise_uncertainty trace) (\<lambda>uncertainty.
     bindR (py_int (py_or (dget_or trace ''retry_count'' (JInt 0)) (JInt 0))) (\<lambda>retries.
     let known_unknowns = get_or_empty trace ''known_unknowns'' (JList []) in
     bindR (third_of_len known_unknowns) (\<lambda>novelty.
     bindR (appraise_scars s memory) (\<lambda>(scar_strength, scar_matches).
     let is_fail = (verdict = JStr ''fail'' \<or> 0 < tests_failed \<or> regression);
         is_pass = (verdict = JStr ''pass'' \<and> tests_failed = 0);
         observed = (if is_fail \<or> 0 < errors then Num 1 else Num 0) in
     bindR (jget test_state ''ran'') (\<lambda>ran.
     let appraisal = appraisal_of errors tests_failed verdict regression risk stakes_v diff_norm uncertainty
                       retries (truthy known_unknowns) novelty scar_strength is_pass
                       (truthy ran \<and> is_pass \<and> 0 < tests_passed);
         prog = (if is_pass then lit (7 / 10) else if is_fail \<or> errors \<noteq> 0 then lit (3 / 10) else lit (5 / 10));
         out = \<lparr>verified_success = is_pass, out_novelty = novelty, progress = prog, diff_size = diff_norm,
                integrity_violation = False, observed_error = observed\<rparr> in
     bindR (appraise_competence s memory domain) (\<lambda>competence_gap.
     bindR (third_of_len (get_or_empty memory ''unresolved_tensions'' (JList []))) (\<lambda>unresolved.
     Ok (appraisal, out,
         \<lparr>cx_errors = errors, cx_tests_failed = tests_failed, cx_verdict = verdict, cx_regression = regression,
          cx_risk = risk, cx_reversibility = revers, cx_stakes = stakes_v, cx_diff_norm = diff_norm,
          cx_uncertainty = uncertainty, cx_retries = retries, cx_novelty = novelty,
          cx_scar_strength = scar_strength, cx_is_fail = is_fail, cx_is_pass = is_pass,
          cx_competence_gap = competence_gap, cx_unresolved_tension = unresolved,
          cx_operator_priority = (if truthy (dget governance ''operator_active_goal'') then Num 1 else Num 0),
          cx_expected_loss = clip01 (fadd (fadd (fmul (lit (6 / 10)) scar_strength)
                                                (if verdict = JStr ''fail'' then lit (5 / 10) else Num 0))
                                          (fmul (lit (4 / 10)) risk)),
          cx_recency = (if truthy tool_events then Num 1 else lit (5 / 10)),
          cx_scar_matches = scar_matches\<rparr>,
         evidence_refs_of world trace memory governance))))))))))))))))))))))"

section \<open>Workspace competition\<close>

definition faculty_terms :: "psyche \<Rightarrow> ctx \<Rightarrow> flt \<Rightarrow> (string \<times> fdict) list" where
  "faculty_terms s c predicted_error =
     (let base = [(''conviction'', Num 0), (''expected_loss'', cx_expected_loss c), (''uncertainty'', cx_uncertainty c),
                  (''novelty'', cx_novelty c), (''scar_tissue'', cx_scar_strength c),
                  (''unresolved_tension'', cx_unresolved_tension c), (''recency'', cx_recency c),
                  (''operator_priority'', cx_operator_priority c), (''risk'', cx_risk c),
                  (''competence_gap'', cx_competence_gap c)];
          abs_val = fabs (fget (affect s) ''valence'');
          tension_pos = pos (fget (affect s) ''tension'');
          ps = map snd (pressure (drives_of s));
          max_drive_p = (case ps of [] \<Rightarrow> Num 0 | p # qs \<Rightarrow> foldl py_max p qs)
      in [(''affect'', dset base ''conviction''
             (clip01 (fadd (fadd (lit (25 / 100)) abs_val) (fmul (lit (5 / 10)) tension_pos)))),
          (''instinct'', dset (dset base ''conviction''
             (clip01 (fadd (fadd (lit (35 / 100)) (cx_scar_strength c)) (fmul (lit (3 / 10)) (fbool (cx_errors c \<noteq> 0))))))
             ''scar_tissue'' (cx_scar_strength c)),
          (''self_model'', dset base ''conviction''
             (clip01 (fadd (fadd (lit (25 / 100)) predicted_error) (fmul (lit (3 / 10)) (cx_competence_gap c))))),
          (''memory'', dset base ''conviction''
             (clip01 (fadd (fadd (lit (2 / 10)) (cx_unresolved_tension c))
                           (if identity_anchors s \<noteq> [] then lit (2 / 10) else Num 0)))),
          (''drives'', dset base ''conviction'' (clip01 max_drive_p))])"

definition SALIENCE_WEIGHTS :: fdict where
  "SALIENCE_WEIGHTS =
     [(''conviction'', lit 1), (''expected_loss'', lit 1), (''uncertainty'', lit (7 / 10)), (''novelty'', lit (5 / 10)),
      (''scar_tissue'', lit (9 / 10)), (''unresolved_tension'', lit (6 / 10)), (''recency'', lit (4 / 10)),
      (''operator_priority'', lit (8 / 10)), (''risk'', lit (7 / 10)), (''competence_gap'', lit (6 / 10))]"

definition salience :: "fdict \<Rightarrow> flt" where
  "salience item = py_sum (map (\<lambda>(t, w). fmul (fget item t) w) SALIENCE_WEIGHTS)"

text \<open>The broadcast packet before it is written out as a frame.\<close>

record broadcast =
  bc_winner :: string
  bc_competitors :: fdict
  bc_scores :: fdict
  bc_salience :: flt
  bc_conviction :: flt
  bc_urgency :: flt
  bc_content :: string
  bc_expected_loss :: flt
  bc_attention :: "string option"

text \<open>The winner is the first faculty of the order that no later one strictly exceeds.\<close>

fun winner :: "string \<times> fdict \<times> flt \<Rightarrow> (string \<times> fdict \<times> flt) list \<Rightarrow> string \<times> fdict \<times> flt" where
  "winner w [] = w"
| "winner w (x # xs) = winner (if flt_less (snd (snd w)) (snd (snd x)) then x else w) xs"

definition attention_of :: "string \<Rightarrow> string" where
  "attention_of w =
     (if w = ''affect'' then ''affect:regulation''
      else if w = ''instinct'' then ''verification:scar-motif''
      else if w = ''self_model'' then ''calibration:self-model''
      else if w = ''memory'' then ''identity:continuity''
      else ''planning:drive-satisfaction'')"

definition content_of :: "psyche \<Rightarrow> ctx \<Rightarrow> flt \<Rightarrow> string \<Rightarrow> string \<Rightarrow> string" where
  "content_of s c predicted_error dmn w =
     (if w = ''affect'' then ''affect read: dominant emotion '' @ SQ @ dmn @ SQ @ '', valence '' @
        fmt_signed 2 (fget (affect s) ''valence'')
      else if w = ''instinct'' then ''scar/anomaly pressure (scar_strength '' @ fmt_fixed 2 (cx_scar_strength c) @ '')''
      else if w = ''self_model'' then ''self-model predicts error '' @ fmt_fixed 2 predicted_error @
        '', reliability '' @ fmt_fixed 2 (self_model_reliability s)
      else if w = ''memory'' then ''continuity readback: '' @ show_nat (length (identity_anchors s)) @
        '' anchors, unresolved '' @ fmt_fixed 2 (cx_unresolved_tension c)
      else ''homeostatic drive pressure'')"

definition compete :: "psyche \<Rightarrow> ctx \<Rightarrow> flt \<Rightarrow> string \<Rightarrow> broadcast result" where
  "compete s c predicted_error dmn =
     bindR (is_disabled (pert s) ''workspace'') (\<lambda>off.
       if off then
         Ok \<lparr>bc_winner = ''suppressed'', bc_competitors = [], bc_scores = [], bc_salience = Num 0,
             bc_conviction = Num 0, bc_urgency = Num 0,
             bc_content = ''workspace broadcast suppressed by intervention'',
             bc_expected_loss = Num 0, bc_attention = None\<rparr>
       else
         let scored = map (\<lambda>(name, terms). (name, terms, salience terms)) (faculty_terms s c predicted_error);
             (winner_name, winner_terms, winner_sal) = winner (hd scored) (tl scored)
         in Ok \<lparr>bc_winner = winner_name,
                bc_competitors = map (\<lambda>(n, _, sal). (n, py_round 6 sal))
                                     (filter (\<lambda>(n, _, _). n \<noteq> winner_name) scored),
                bc_scores = map (\<lambda>(k, v). (k, py_round 6 v)) winner_terms,
                bc_salience = py_round 6 winner_sal,
                bc_conviction = py_round 6 (clip01 (fget winner_terms ''conviction'')),
                bc_urgency = py_round 6 (clip01 (fadd (cx_expected_loss c) (fmul (lit (5 / 10)) (cx_risk c)))),
                bc_content = content_of s c predicted_error dmn winner_name,
                bc_expected_loss = py_round 6 (cx_expected_loss c),
                bc_attention = Some (attention_of winner_name)\<rparr>)"

definition broadcast_frame :: "broadcast \<Rightarrow> string \<Rightarrow> string \<Rightarrow> int \<Rightarrow> dict" where
  "broadcast_frame b run_id ts ti =
     [(''schema_version'', SCHEMA_VERSION), (''frame_kind'', JStr ''workspace_broadcast''), (''timestamp'', JStr ts),
      (''run_id'', JStr run_id), (''broadcast_id'', JStr (frame_id run_id ti ''workspace_broadcast'')),
      (''winning_faculty'', JStr (bc_winner b)),
      (''competitors'', JList (map (\<lambda>(n, sal). JObj [(''faculty'', JStr n), (''salience'', JFloat sal)]) (bc_competitors b))),
      (''salience_scores'', fdict_json (bc_scores b)), (''winning_salience'', JFloat (bc_salience b)),
      (''conviction'', JFloat (bc_conviction b)), (''urgency'', JFloat (bc_urgency b)),
      (''broadcast_packet'', JObj [(''content'', JStr (bc_content b)), (''kind'', JStr (bc_winner b))]),
      (''expected_loss_if_ignored'', JFloat (bc_expected_loss b)),
      (''recommended_attention_target'', json_opt JStr (bc_attention b))]"

end
