(* ===== verification/ReferenceTick.thy ===== *)
theory ReferenceTick
  imports ReferencePsyche
begin

text \<open>
  The second half of \<open>psyche/reference.py\<close>: instinct, control pressure, the authority request, the
  frames built from them, and the composition of all stages in \<open>tick\<close>.
\<close>

section \<open>Instinct\<close>

record signal =
  sg_motif_id :: string
  sg_match_type :: string
  sg_confidence :: flt
  sg_severity :: flt
  sg_matched_events :: "string list"
  sg_base_rate :: "flt option"
  sg_action :: string
  sg_expected_loss :: flt
  sg_time_sensitivity :: flt
  sg_authority_request :: string
  sg_matched_history :: "string list"

definition similarity_of :: "json \<Rightarrow> flt result" where
  "similarity_of m = bindR (jget_or m ''similarity'' (JFloat (Num 0))) py_float"

text \<open>\<open>max(matches, key=similarity)\<close>: the first match no later one exceeds.\<close>

fun top_match :: "json \<times> flt \<Rightarrow> (json \<times> flt) list \<Rightarrow> json" where
  "top_match best [] = fst best"
| "top_match best (x # xs) = top_match (if flt_less (snd best) (snd x) then x else best) xs"

definition matched_event :: "json \<Rightarrow> string result" where
  "matched_event e =
     bindR (jget e ''tool'') (\<lambda>tool. bindR (jget e ''status'') (\<lambda>status.
       Ok (''tool:'' @ py_str tool @ '':'' @ py_str status)))"

definition history_ref :: "json \<Rightarrow> string result" where
  "history_ref h =
     bindR (jget h ''motif_id'') (\<lambda>m. bindR (jget h ''run_id'') (\<lambda>r.
       Ok (''hist:'' @ py_str m @ '':'' @ py_str r)))"

text \<open>The scar match or the anomaly behind a signal: motif, base rate, match type, confidence, scars.\<close>

definition instinct_match ::
  "psyche \<Rightarrow> ctx \<Rightarrow> string \<Rightarrow> (string \<times> flt option \<times> string \<times> flt \<times> fdict) result" where
  "instinct_match s c domain =
     (if flt_le (lit (15 / 100)) (cx_scar_strength c) \<and> cx_scar_matches c \<noteq> [] then
        bindR (mapR similarity_of (cx_scar_matches c)) (\<lambda>sims.
        let scored = zip (cx_scar_matches c) sims; top = top_match (hd scored) (tl scored) in
        bindR (similarity_of top) (\<lambda>sim.
        bindR (jget_or top ''motif_id'' (JStr (''motif:'' @ domain))) (\<lambda>motif.
        bindR (jget_or top ''historical_base_rate'' (JFloat (Num 0))) (\<lambda>b. bindR (py_float b) (\<lambda>base_rate.
          Ok (py_str motif, Some base_rate,
              if flt_le (lit (95 / 100)) sim then ''exact''
              else if flt_le (lit (75 / 100)) sim then ''near_duplicate'' else ''prefix'',
              clip01 sim, scars s))))))
      else
        let motif_id = ''anomaly:'' @ domain in
        Ok (motif_id, None, ''anomaly'', clip01 (fadd (lit (4 / 10)) (fmul (lit (2 / 10)) (fint (cx_errors c)))),
            dset (scars s) motif_id
              (clip01 (fadd (case map_of (scars s) motif_id of None \<Rightarrow> lit (2 / 10) | Some v \<Rightarrow> v) (lit (15 / 100))))))"

text \<open>\<open>_instinct\<close>: the signals of the tick and the updated scars.\<close>

definition instinct :: "psyche \<Rightarrow> ctx \<Rightarrow> dict \<Rightarrow> dict \<Rightarrow> string \<Rightarrow> (signal list \<times> fdict) result" where
  "instinct s c world memory domain =
     (let fire_scar = flt_le (lit (15 / 100)) (cx_scar_strength c);
          fire_anomaly = (0 < cx_errors c \<or> cx_is_fail c) in
      if \<not> (fire_scar \<or> fire_anomaly) then Ok ([], scars s)
      else
        bindR (instinct_match s c domain) (\<lambda>(motif_id, base_rate, match_type, confidence, new_scars).
        let severity = clip01 (fadd (fadd (cx_scar_strength c) (fmul (lit (3 / 10)) (cx_risk c)))
                                    (if cx_is_fail c then lit (3 / 10) else Num 0));
            action = (if cx_verdict c = JStr ''fail'' then ''force_replan''
                      else if flt_le (lit (6 / 10)) (cx_diff_norm c) then ''reduce_diff''
                      else if 1 < cx_retries c then ''switch_strategy''
                      else ''deepen_verification'');
            conviction = clip01 (fadd (fadd (lit (4 / 10)) (fmul (lit (4 / 10)) (cx_scar_strength c)))
                                      (fmul (lit (3 / 10)) severity)) in
        bindR (py_iter (get_or_empty world ''tool_events'' (JList []))) (\<lambda>evs.
        bindR (filterR failed_event evs) (\<lambda>bad. bindR (mapR matched_event bad) (\<lambda>matched_events.
        bindR (py_iter (get_or_empty memory ''historical_failures'' (JList []))) (\<lambda>hs.
        bindR (mapR history_ref hs) (\<lambda>matched_history.
          Ok ([\<lparr>sg_motif_id = motif_id, sg_match_type = match_type, sg_confidence = py_round 6 confidence,
                 sg_severity = py_round 6 severity, sg_matched_events = matched_events,
                 sg_base_rate = map_option (py_round 6) base_rate, sg_action = action,
                 sg_expected_loss = py_round 6 (cx_expected_loss c),
                 sg_time_sensitivity = py_round 6 (clip01 (fadd (lit (3 / 10)) (fmul (lit (5 / 10)) (cx_risk c)))),
                 sg_authority_request = BAND_TO_INSTINCT_AUTH (band conviction),
                 sg_matched_history = matched_history\<rparr>], new_scars))))))))"

definition signal_frame :: "signal \<Rightarrow> string \<Rightarrow> string \<Rightarrow> int \<Rightarrow> dict" where
  "signal_frame g run_id ts ti =
     [(''schema_version'', SCHEMA_VERSION), (''frame_kind'', JStr ''instinct_signal''), (''timestamp'', JStr ts),
      (''run_id'', JStr run_id), (''motif_id'', JStr (sg_motif_id g)), (''match_type'', JStr (sg_match_type g)),
      (''confidence'', JFloat (sg_confidence g)), (''severity'', JFloat (sg_severity g)),
      (''matched_events'', JList (map JStr (sg_matched_events g))),
      (''historical_base_rate'', json_opt JFloat (sg_base_rate g)), (''false_positive_rate'', JNull),
      (''recommended_action'', JStr (sg_action g)), (''expected_loss_if_ignored'', JFloat (sg_expected_loss g)),
      (''time_sensitivity'', JFloat (sg_time_sensitivity g)), (''authority_request'', JStr (sg_authority_request g)),
      (''matched_history_refs'', JList (map JStr (sg_matched_history g))),
      (''explanation_trace_id'', JStr (frame_id run_id ti ''causal_trace''))]"

section \<open>Control pressure\<close>

definition pressures_of :: "ctx \<Rightarrow> fdict \<Rightarrow> flt \<Rightarrow> signal list \<Rightarrow> fdict" where
  "pressures_of c aff curiosity_p sigs =
     (let tension_pos = pos (fget aff ''tension''); load_pos = pos (fget aff ''cognitive_load'');
          scar = cx_scar_strength c; sev = (case sigs of [] \<Rightarrow> Num 0 | g # _ \<Rightarrow> sg_severity g);
          e = fbool (cx_errors c \<noteq> 0)
      in [(''effort'', py_round 6 (clip01 (fadd (fmul (lit (4 / 10)) tension_pos) (fmul (lit (3 / 10)) load_pos)))),
          (''verification'', py_round 6 (clip01
             (fadd (fadd (fadd (fadd (fadd (fmul (lit (3 / 10)) tension_pos) (fmul (lit (6 / 10)) scar))
                                     (fmul (lit (5 / 10)) (fbool (cx_verdict c = JStr ''fail''))))
                               (fmul (lit (4 / 10)) (cx_risk c)))
                         (fmul (lit (3 / 10)) e))
                   (fmul (lit (3 / 10)) sev)))),
          (''planning'', py_round 6 (clip01 (fadd (fmul (lit (5 / 10)) (fbool (cx_is_fail c)))
                                                  (fmul (lit (4 / 10)) (cx_uncertainty c))))),
          (''execution'', py_round 6 (clip01 (fadd (fmul (lit (4 / 10)) (fbool (cx_is_pass c)))
                                                   (fmul (lit (2 / 10)) (fsub (Num 1) tension_pos))))),
          (''society_debate'', py_round 6 (clip01 (cx_unresolved_tension c))),
          (''memory_consolidation'', py_round 6 (clip01 (fadd (fmul (lit (5 / 10)) (fbool (cx_is_pass c)))
                                                              (fmul (lit (3 / 10)) scar)))),
          (''exploration'', py_round 6 (clip01 (fsub curiosity_p (cx_risk c)))),
          (''scope_narrowing'', py_round 6 (clip01 (fadd (fmul (lit (5 / 10)) load_pos)
                                                         (fmul (lit (4 / 10)) (cx_diff_norm c))))),
          (''strategy_switching'', py_round 6 (clip01 (fadd (fmul (lit (6 / 10)) (fbool (1 < cx_retries c)))
                                                            (fmul (fmul (lit (5 / 10)) scar) e))))])"

definition pressure_sources :: "fdict \<Rightarrow> signal list \<Rightarrow> string list" where
  "pressure_sources aff sigs =
     [''affect.tension='' @ py_repr (py_round 3 (pos (fget aff ''tension'')))] @
     (case sigs of [] \<Rightarrow> []
      | g # _ \<Rightarrow> [''instinct['' @ sg_motif_id g @ ''].severity='' @ py_repr (py_round 3 (sg_severity g))])"

definition pressure_frame :: "fdict \<Rightarrow> string list \<Rightarrow> string \<Rightarrow> string \<Rightarrow> string \<Rightarrow> int \<Rightarrow> dict" where
  "pressure_frame pressures sources tier run_id ts ti =
     [(''schema_version'', SCHEMA_VERSION), (''frame_kind'', JStr ''control_pressure''), (''timestamp'', JStr ts),
      (''run_id'', JStr run_id), (''authority_tier'', JStr tier), (''pressures'', fdict_json pressures),
      (''sources'', JList (map JStr sources)), (''causal_trace_id'', JStr (frame_id run_id ti ''causal_trace''))]"

section \<open>Authority request\<close>

record auth_request =
  ar_domain :: string
  ar_conviction :: flt
  ar_rate :: flt
  ar_total :: int
  ar_expected_loss :: flt
  ar_reversibility :: flt
  ar_safety_risk :: flt
  ar_fallback :: flt
  ar_resolution :: resolution

definition by_instinct :: "json \<Rightarrow> bool result" where
  "by_instinct e = bindR (jget e ''faculty'') (\<lambda>f. Ok (f = JStr ''instinct''))"

definition beneficial :: "json \<Rightarrow> bool result" where
  "beneficial e = bindR (jget e ''beneficial'') (\<lambda>b. Ok (truthy b))"

definition authority :: "ctx \<Rightarrow> signal list \<Rightarrow> dict \<Rightarrow> dict \<Rightarrow> string \<Rightarrow> auth_request list result" where
  "authority c sigs memory governance domain =
     (case sigs of [] \<Rightarrow> Ok []
      | sig # _ \<Rightarrow>
        let conviction = clip01 (fadd (fadd (lit (4 / 10)) (fmul (lit (4 / 10)) (cx_scar_strength c)))
                                      (fmul (lit (3 / 10)) (sg_severity sig))) in
        bindR (py_iter (get_or_empty memory ''prior_authority_exercises'' (JList []))) (\<lambda>all_ex.
        bindR (filterR by_instinct all_ex) (\<lambda>exercises.
        bindR (filterR beneficial exercises) (\<lambda>good.
        let total = int (length exercises);
            rate = (if total \<noteq> 0 then int_div (int (length good)) total else Num 0);
            ceilings = get_or_empty governance ''authority_ceilings'' (JObj []) in
        bindR (jget_or ceilings ''global_max'' (JStr ''hold'')) (\<lambda>gm.
        bindR (jget_or ceilings ''per_domain'' (JObj [])) (\<lambda>pd.
        bindR (jget_or (py_or pd (JObj [])) domain (JStr ''veto'')) (\<lambda>dc.
        let revers = cx_reversibility c;
            safety = (if flt_less revers (lit (3 / 10)) then ''soft''
                      else if flt_less revers (lit (6 / 10)) then ''vote'' else ''hold'') in
        Ok [\<lparr>ar_domain = domain, ar_conviction = conviction, ar_rate = rate, ar_total = total,
             ar_expected_loss = cx_expected_loss c, ar_reversibility = revers,
             ar_safety_risk = clip01 (fmul (cx_risk c) (fsub (Num 1) revers)),
             ar_fallback = clip01 (fadd (lit (3 / 10)) (fmul (lit (5 / 10)) (cx_scar_strength c))),
             ar_resolution = resolve conviction \<lparr>track_rate = rate, track_total = total\<rparr>
                               (py_str dc) (py_str gm) safety ''hold''\<rparr>])))))))"

definition auth_frame :: "auth_request \<Rightarrow> string \<Rightarrow> string \<Rightarrow> int \<Rightarrow> dict" where
  "auth_frame a run_id ts ti =
     [(''schema_version'', SCHEMA_VERSION), (''frame_kind'', JStr ''authority_request''), (''timestamp'', JStr ts),
      (''run_id'', JStr run_id), (''request_id'', JStr (frame_id run_id ti ''authority_request'')),
      (''requesting_faculty'', JStr ''instinct''), (''domain'', JStr (ar_domain a)),
      (''requested_tier'', JStr (band (ar_conviction a))), (''conviction'', r6 (ar_conviction a)),
      (''track_record_support'', JObj [(''rate'', r6 (ar_rate a)), (''total'', JInt (ar_total a))]),
      (''expected_loss_if_denied'', r6 (ar_expected_loss a)), (''reversibility'', r6 (ar_reversibility a)),
      (''safety_risk'', r6 (ar_safety_risk a)),
      (''fallback_pressure_if_denied'', JObj [(''verification'', r6 (ar_fallback a))]),
      (''resolution'', resolution_json (ar_resolution a))]"

section \<open>State, trace and report frames\<close>

definition psyche_state_frame ::
  "psyche \<Rightarrow> string \<Rightarrow> string \<Rightarrow> string \<Rightarrow> fdict \<Rightarrow> flt \<Rightarrow> flt \<Rightarrow> string list \<Rightarrow> ctx \<Rightarrow> dict" where
  "psyche_state_frame s run_id ts new_hash mix predicted_error continuity_score anchors c =
     [(''schema_version'', SCHEMA_VERSION), (''frame_kind'', JStr ''psyche_state''), (''timestamp'', JStr ts),
      (''run_id'', JStr run_id), (''state_hash'', JStr new_hash),
      (''affect_manifold'', fdict_r6 (affect s)), (''prototype_mixture'', fdict_r6 mix),
      (''dominant_prototype'', json_opt JStr (prev_dominant s)),
      (''mood'', JObj [(''valence'', r6 (fget (mood s) ''valence'')), (''arousal'', r6 (fget (mood s) ''arousal'')),
                       (''morale'', r6 (morale s))]),
      (''drives'', JObj (map (\<lambda>(k, v). (k, JObj [(''level'', r6 (level v)), (''setpoint'', r6 (setpoint v))])) (drives_of s))),
      (''derived_signals'', JObj [(''scar_strength'', r6 (cx_scar_strength c)), (''predicted_error'', r6 predicted_error),
                                  (''expected_loss'', r6 (cx_expected_loss c)), (''competence_gap'', r6 (cx_competence_gap c))]),
      (''personality_ref'', JObj [(''version'', JInt 0), (''traits'', JObj [])]),
      (''self_model'', JObj [(''predicted_error'', r6 predicted_error),
                             (''self_model_reliability'', r6 (self_model_reliability s)),
                             (''identity_refs'', JList (map JStr anchors))]),
      (''dissonance'', r6 (clip01 (fmul (fabs (fget (affect s) ''valence'')) (pos (fget (affect s) ''tension''))))),
      (''calibration_state'', JObj [(''calibration_error'', json_opt r6 (calibration_error s)),
                                    (''samples'', JInt (calibration_samples s))]),
      (''identity_continuity_state'', JObj [(''continuity_score'', r6 continuity_score),
                                            (''anchors_carried'', JInt (int (length anchors)))])]"

definition changed_dimensions :: "fdict \<Rightarrow> fdict \<Rightarrow> json list" where
  "changed_dimensions prev_affect new_affect =
     concat (map (\<lambda>axis.
       let frm = py_round 6 (fget prev_affect axis); to = py_round 6 (fget new_affect axis) in
       if flt_le (lit (1 / 1000000)) (fabs (fsub to frm))
       then [JObj [(''dimension'', JStr (''affect.'' @ axis)), (''from'', JFloat frm), (''to'', JFloat to)]]
       else []) AXES)"

definition path_node :: "string \<Rightarrow> json \<Rightarrow> string \<Rightarrow> json" where
  "path_node stage ref note = JObj [(''stage'', JStr stage), (''ref'', ref), (''note'', JStr note)]"

definition causal_path ::
  "broadcast \<Rightarrow> fdict \<Rightarrow> signal list \<Rightarrow> auth_request list \<Rightarrow> string list \<Rightarrow> ctx \<Rightarrow> nat \<Rightarrow> string \<Rightarrow> int \<Rightarrow> json list" where
  "causal_path b pressures sigs reqs evidence_refs c n_changed run_id ti =
     (let suppressed = (bc_winner b = ''suppressed'');
          top = argmax (hd pressures) (tl pressures);
          target = (case bc_attention b of None \<Rightarrow> ''None'' | Some t \<Rightarrow> t) in
      [path_node ''event'' (JStr (hd evidence_refs))
         (''errors='' @ show_int (cx_errors c) @ '', verdict='' @ py_str (cx_verdict c) @ '', scar='' @
          fmt_fixed 2 (cx_scar_strength c)),
       path_node ''internal_state'' (JStr (frame_id run_id ti ''psyche_state''))
         (''affect updated (recurrent inertia blend); '' @ show_nat n_changed @ '' axes moved'')] @
      (if suppressed then []
       else [path_node ''broadcast'' (JStr (frame_id run_id ti ''workspace_broadcast''))
               (''winner='' @ bc_winner b @ '' attends '' @ target)]) @
      [path_node ''pressure'' (JStr (frame_id run_id ti ''control_pressure''))
         (''dominant pressure '' @ fst top @ ''='' @ py_repr (snd top))] @
      (case reqs of [] \<Rightarrow> []
       | a # _ \<Rightarrow> [path_node ''authority_request'' (JStr (frame_id run_id ti ''authority_request''))
                   (''requested '' @ band (ar_conviction a) @ '', granted '' @ granted_tier (ar_resolution a) @
                    '' (bound by '' @ binding_cap (ar_resolution a) @ '')'')]) @
      (if suppressed then []
       else [path_node ''behavior'' (json_opt JStr (bc_attention b))
               (''predicted behavior: '' @ (case sigs of [] \<Rightarrow> ''continue_fast_path'' | g # _ \<Rightarrow> sg_action g))]))"

definition counterfactuals :: "fdict \<Rightarrow> nat \<Rightarrow> json list" where
  "counterfactuals pressures n_anchors =
     [JObj [(''condition'', JStr ''clamp affect.tension to 0''),
            (''predicted_outcome'', JStr (''verification pressure drops from '' @
               py_repr (fget pressures ''verification'') @ '' toward its scar-only floor''))],
      JObj [(''condition'', JStr (''disable scar graph (scar_strength'' @ ARROW @ ''0)'')),
            (''predicted_outcome'',
               JStr ''instinct faculty salience falls; memory or self_model may win the broadcast'')],
      JObj [(''condition'', JStr ''remove memory readback''),
            (''predicted_outcome'', JStr (''identity continuity anchors drop from '' @ show_nat n_anchors @
               '' to 0; continuity_score degrades''))]]"

definition emitted_outputs :: "nat \<Rightarrow> nat \<Rightarrow> string \<Rightarrow> int \<Rightarrow> string list" where
  "emitted_outputs n_sigs n_reqs run_id ti =
     [frame_id run_id ti ''psyche_state'', frame_id run_id ti ''workspace_broadcast'',
      frame_id run_id ti ''control_pressure'', frame_id run_id ti ''grounded_self_report''] @
     map (frame_id_at run_id ti ''instinct_signal'') [0..<n_sigs] @
     map (frame_id_at run_id ti ''authority_request'') [0..<n_reqs]"

definition MECHANISM :: string where
  "MECHANISM = ''affect = clip(k*prev + (1-k)*(baseline + w_a*appraisal + w_m*mood + w_d*drive_pressure + w_s*scars) + attractor); mood EMA+decay; drives homeostatic update; self-model Brier calibration''"

definition causal_trace_frame ::
  "psyche \<Rightarrow> string \<Rightarrow> string \<Rightarrow> int \<Rightarrow> string \<Rightarrow> fdict \<Rightarrow> broadcast \<Rightarrow> fdict \<Rightarrow> signal list \<Rightarrow> auth_request list \<Rightarrow>
   string list \<Rightarrow> ctx \<Rightarrow> flt option \<Rightarrow> json list \<Rightarrow> dict" where
  "causal_trace_frame s run_id ts ti new_hash prev_affect b pressures sigs reqs evidence_refs c prediction_error audit =
     (let changed = changed_dimensions prev_affect (affect s) in
      [(''schema_version'', SCHEMA_VERSION), (''frame_kind'', JStr ''causal_trace''), (''timestamp'', JStr ts),
       (''run_id'', JStr run_id), (''trace_id'', JStr (frame_id run_id ti ''causal_trace'')),
       (''input_evidence_refs'', JList (map JStr evidence_refs)),
       (''previous_state_hash'', JStr (prev_state_hash s)), (''new_state_hash'', JStr new_hash),
       (''changed_dimensions'', JList changed),
       (''state_update_mechanism'', JStr (MECHANISM @
          (case prediction_error of None \<Rightarrow> []
           | Some e \<Rightarrow> ''; resolved prior prediction (error='' @ fmt_fixed 3 e @ '')''))),
       (''causal_path'', JList (causal_path b pressures sigs reqs evidence_refs c (length changed) run_id ti)),
       (''emitted_outputs'', JList (map JStr (emitted_outputs (length sigs) (length reqs) run_id ti))),
       (''interventions_applied'', JList audit),
       (''counterfactual_predictions'', JList (counterfactuals pressures (length (identity_anchors s))))])"

definition report_text ::
  "psyche \<Rightarrow> broadcast \<Rightarrow> fdict \<Rightarrow> string \<Rightarrow> flt \<Rightarrow> flt \<Rightarrow> nat \<Rightarrow> string" where
  "report_text s b pressures trace_id predicted_error continuity_score n_anchors =
     ''State report: affect valence '' @ fmt_signed 2 (fget (affect s) ''valence'') @ '', tension '' @
     fmt_signed 2 (fget (affect s) ''tension'') @ ''; dominant read '' @ SQ @
     (case prev_dominant s of None \<Rightarrow> ''None'' | Some d \<Rightarrow> d) @ SQ @ ''. Workspace broadcast: '' @ SQ @ bc_winner b @ SQ @
     '' won (salience '' @ fmt_fixed 2 (bc_salience b) @ ''), attending '' @
     (case bc_attention b of None \<Rightarrow> ''None'' | Some t \<Rightarrow> t) @ ''. Applying verification pressure '' @
     fmt_fixed 2 (fget pressures ''verification'') @ ''. Self-model predicted-error '' @ fmt_fixed 2 predicted_error @
     ''. Identity continuity: '' @ show_nat n_anchors @ '' anchors (score '' @ fmt_fixed 2 continuity_score @
     ''). Grounded in trace '' @ trace_id @ ''.''"

definition self_report_frame ::
  "psyche \<Rightarrow> string \<Rightarrow> string \<Rightarrow> int \<Rightarrow> string \<Rightarrow> broadcast \<Rightarrow> fdict \<Rightarrow> string list \<Rightarrow> flt \<Rightarrow> flt \<Rightarrow> nat \<Rightarrow> signal list \<Rightarrow> dict" where
  "self_report_frame s run_id ts ti new_hash b pressures evidence_refs predicted_error continuity_score n_anchors sigs =
     [(''schema_version'', SCHEMA_VERSION), (''frame_kind'', JStr ''grounded_self_report''), (''timestamp'', JStr ts),
      (''run_id'', JStr run_id), (''report_id'', JStr (frame_id run_id ti ''grounded_self_report'')),
      (''report_text'', JStr (report_text s b pressures (frame_id run_id ti ''causal_trace'') predicted_error
                                continuity_score n_anchors)),
      (''affect_state_hash'', JStr new_hash),
      (''workspace_broadcast_id'', JStr (frame_id run_id ti ''workspace_broadcast'')),
      (''causal_trace_id'', JStr (frame_id run_id ti ''causal_trace'')),
      (''evidence_refs'', JList (map JStr evidence_refs)),
      (''reported_measurements'', JObj (map (\<lambda>(k, v). (''control_pressure.'' @ k, JFloat v)) pressures @
         [(''instinct.count'', JFloat (fint (int (length sigs)))),
          (''instinct.severity'', JFloat (py_sum (map sg_severity sigs))),
          (''psyche_state.continuity_score'', r6 continuity_score),
          (''workspace_broadcast.integrity'', JFloat (if bc_winner b = ''suppressed'' then Num 0 else Num 1))])),
      (''uncertainty'', r6 (clip01 (fsub (Num 1) (self_model_reliability s)))),
      (''filtered_forbidden_claims'', JList [JObj
         [(''claim'', JStr ''I am phenomenally conscious / I truly feel this emotion''),
          (''reason'', JStr ''phenomenal claims are barred; evidence is scored externally and remains theory-relative'')]])]"

section \<open>The tick\<close>

text \<open>Steps 2 and 3 for affect: the recurrent update and its perturbation hook.\<close>

definition next_affect :: "psyche \<Rightarrow> fdict \<Rightarrow> flt \<Rightarrow> fdict result" where
  "next_affect s appraisal scar_strength =
     (let drive_pressure = pressure (drives_of s);
          mean_drive_p = fdiv (py_sum (map snd drive_pressure)) (fint (max 1 (int (length drive_pressure))));
          drive_axis_push = [(''tension'', fmul (lit (5 / 10)) mean_drive_p), (''arousal'', fmul (lit (3 / 10)) mean_drive_p),
                             (''valence'', fmul (fneg (lit (2 / 10))) mean_drive_p)];
          scars_driver = [(''valence'', fneg scar_strength), (''tension'', scar_strength),
                          (''certainty'', fmul (fneg (lit (5 / 10))) scar_strength)];
          new_affect = manifold_update (affect s) appraisal (mood s) drive_axis_push scars_driver
                         (personality_baseline s) None
      in if pert s \<noteq> []
         then mapR (\<lambda>(ax, v). bindR (scalar (pert s) ''affect_manifold'' ax v) (\<lambda>w. Ok (ax, clip11 w))) new_affect
         else Ok new_affect)"

definition perturb_drive :: "perturbation_set \<Rightarrow> string \<times> drive \<Rightarrow> (string \<times> drive) result" where
  "perturb_drive ivs nd =
     (let (name, dv) = nd in
      bindR (scalar ivs ''drives'' name (level dv)) (\<lambda>perturbed.
        Ok (name, if \<not> flt_eq perturbed (level dv) then dv\<lparr>level := clip01 perturbed\<rparr> else dv)))"

definition next_drives :: "psyche \<Rightarrow> outcome \<Rightarrow> drives result" where
  "next_drives s out =
     bindR (drives_update (drives_of s) out) (\<lambda>new_drives.
       if pert s \<noteq> [] then mapR (perturb_drive (pert s)) new_drives else Ok new_drives)"

text \<open>Step 5: resolve the pending prediction against the observed error.\<close>

definition resolve_prediction :: "psyche \<Rightarrow> flt \<Rightarrow> psyche \<times> flt option" where
  "resolve_prediction s observed =
     (case pending_error_prediction s of
        None \<Rightarrow> (s, None)
      | Some p \<Rightarrow>
          let prediction_error = fabs (fsub p observed);
              brier = fadd (brier_sum s) (fmul prediction_error prediction_error);
              samples = calibration_samples s + 1;
              cal = fdiv brier (fint samples)
          in (s\<lparr>brier_sum := brier, calibration_samples := samples, calibration_error := Some cal,
               self_model_reliability := clip01 (fsub (Num 1) cal)\<rparr>, Some prediction_error))"

text \<open>Step 8: continuity anchors from the memory readback.\<close>

definition read_anchors :: "perturbation_set \<Rightarrow> dict \<Rightarrow> string list result" where
  "read_anchors ivs memory =
     bindR (py_iter (dget_or memory ''retrieved_continuity'' (JList []))) (\<lambda>cs.
     bindR (mapR (\<lambda>c. jget c ''ref'') cs) (\<lambda>refs.
     bindR (blocks ivs ''self_model'') (\<lambda>cut.
       Ok (if cut then [] else map py_str (filter truthy refs)))))"

text \<open>The values the body of \<open>tick\<close> has computed when it starts to commit and build frames.\<close>

record stages =
  st_ctx :: ctx
  st_refs :: "string list"
  st_affect :: fdict
  st_mood :: fdict
  st_drives :: drives
  st_dominant :: string
  st_predicted :: flt
  st_resolved :: psyche
  st_prediction_error :: "flt option"
  st_broadcast :: broadcast
  st_signals :: "signal list"
  st_scars :: fdict
  st_anchors :: "string list"
  st_curiosity :: flt
  st_requests :: "auth_request list"
  st_audit :: "json list"

definition run_id_of :: "dict \<Rightarrow> string" where
  "run_id_of world = py_str (dget_or world ''run_id'' (JStr ''run''))"

definition timestamp_of :: "dict \<Rightarrow> string" where
  "timestamp_of world = py_str (py_or (dget world ''timestamp'') (JStr FALLBACK_TS))"

definition domain_of :: "dict \<Rightarrow> string" where
  "domain_of world = py_str (py_or (py_or (dget world ''subtask_id'') (dget world ''phase'')) (JStr ''other''))"

definition opt_dict :: "dict option \<Rightarrow> dict" where
  "opt_dict d = (case d of None \<Rightarrow> [] | Some x \<Rightarrow> x)"

definition next_mood :: "psyche \<Rightarrow> fdict \<Rightarrow> fdict" where
  "next_mood s new_affect =
     mood_decay (blend_outcome (mood s) (fget new_affect ''valence'') (fget new_affect ''arousal'') (lit (3 / 10)))
       [(''valence'', Num 0), (''arousal'', Num 0)] DEFAULT_DECAY_RATE"

definition next_morale :: "psyche \<Rightarrow> fdict \<Rightarrow> flt" where
  "next_morale s new_affect =
     clip11 (fadd (morale s) (fmul (lit (15 / 100)) (fsub (fget new_affect ''valence'') (morale s))))"

definition predicted_error_of :: "ctx \<Rightarrow> flt" where
  "predicted_error_of c = clip01 (fadd (fadd (lit (25 / 100)) (fmul (lit (4 / 10)) (cx_uncertainty c)))
                                       (fmul (lit (4 / 10)) (cx_scar_strength c)))"

text \<open>Steps 1 to 8: every value the frames are built from, no state committed yet.\<close>

definition tick_stages :: "(flt \<Rightarrow> flt) \<Rightarrow> psyche_inputs \<Rightarrow> psyche \<Rightarrow> stages result" where
  "tick_stages mexp inputs s =
     (let world = in_world inputs; memory = opt_dict (in_memory inputs);
          governance = opt_dict (in_governance inputs); domain = domain_of world in
      bindR (appraise s world (opt_dict (in_agent_trace inputs)) memory governance domain)
        (\<lambda>(appraisal, out, c, evidence_refs).
      bindR (next_affect s appraisal (cx_scar_strength c)) (\<lambda>new_affect.
      let s1 = s\<lparr>morale := next_morale s new_affect\<rparr> in
      bindR (next_drives s1 out) (\<lambda>new_drives.
      let dmn = dominant mexp new_affect (prev_dominant s);
          predicted_error_now = predicted_error_of c;
          (s2, prediction_error) = resolve_prediction s1 (observed_error out) in
      bindR (compete s2 c predicted_error_now dmn) (\<lambda>b.
      bindR (instinct s2 c world memory domain) (\<lambda>(sigs, new_scars).
      bindR (read_anchors (pert s) memory) (\<lambda>anchors.
      bindR (scalar (pert s) ''drives'' ''curiosity'' (fget (pressure (drives_of s)) ''curiosity'')) (\<lambda>curiosity_p.
      bindR (authority c sigs memory governance domain) (\<lambda>reqs.
      bindR (records (pert s)) (\<lambda>audit.
        Ok \<lparr>st_ctx = c, st_refs = evidence_refs, st_affect = new_affect, st_mood = next_mood s new_affect,
            st_drives = new_drives, st_dominant = dmn, st_predicted = predicted_error_now, st_resolved = s2,
            st_prediction_error = prediction_error, st_broadcast = b, st_signals = sigs, st_scars = new_scars,
            st_anchors = anchors, st_curiosity = curiosity_p, st_requests = reqs, st_audit = audit\<rparr>))))))))))"

text \<open>The state committed by the tick, before the pending prediction and the hash are stored.\<close>

definition commit :: "stages \<Rightarrow> psyche" where
  "commit st = (st_resolved st)\<lparr>scars := st_scars st, identity_anchors := st_anchors st, affect := st_affect st,
                 mood := st_mood st, drives_of := st_drives st, prev_dominant := Some (st_dominant st)\<rparr>"

definition continuity_of :: "string list \<Rightarrow> flt" where
  "continuity_of anchors = clip01 (fdiv (fint (int (length anchors))) (lit 3))"

definition granted_of :: "auth_request list \<Rightarrow> string" where
  "granted_of reqs = (case reqs of [] \<Rightarrow> ''cosmetic'' | a # _ \<Rightarrow> granted_tier (ar_resolution a))"

definition emit :: "(flt \<Rightarrow> flt) \<Rightarrow> psyche_inputs \<Rightarrow> psyche \<Rightarrow> stages \<Rightarrow> psyche_outputs \<times> psyche" where
  "emit mexp inputs s st =
     (let world = in_world inputs; ti = in_tick_index inputs; run_id = run_id_of world; ts = timestamp_of world;
          c = st_ctx st; b = st_broadcast st; sigs = st_signals st; reqs = st_requests st;
          anchors = st_anchors st; refs = st_refs st; predicted = st_predicted st;
          continuity_score = continuity_of anchors; s4 = commit st; new_hash = state_hash (interior s4);
          pressures = pressures_of c (st_affect st) (st_curiosity st) sigs
      in (\<lparr>psyche_state = psyche_state_frame s4 run_id ts new_hash (mixture mexp (st_affect st)) predicted
                             continuity_score anchors c,
           workspace_broadcast = broadcast_frame b run_id ts ti,
           control_pressure = pressure_frame pressures (pressure_sources (st_affect st) sigs) (granted_of reqs)
                                run_id ts ti,
           causal_trace = causal_trace_frame s4 run_id ts ti new_hash (affect s) b pressures sigs reqs refs c
                            (st_prediction_error st) (st_audit st),
           grounded_self_report = self_report_frame s4 run_id ts ti new_hash b pressures refs predicted
                            continuity_score (length anchors) sigs,
           instinct_signals = map (\<lambda>g. signal_frame g run_id ts ti) sigs,
           authority_requests = map (\<lambda>a. auth_frame a run_id ts ti) reqs\<rparr>,
          s4\<lparr>pending_error_prediction := Some predicted, prev_state_hash := new_hash\<rparr>))"

definition tick :: "(flt \<Rightarrow> flt) \<Rightarrow> psyche_inputs \<Rightarrow> psyche \<Rightarrow> (psyche_outputs \<times> psyche) result" where
  "tick mexp inputs s = bindR (tick_stages mexp inputs s) (\<lambda>st. Ok (emit mexp inputs s st))"

end
