(* ===== verification/ReferenceProps.thy ===== *)
theory ReferenceProps
  imports ReferenceTick
begin

text \<open>
  Properties of one tick of the reference psyche. A tick under neutral interventions is the tick
  without interventions; the carried state stays inside its ranges whatever the input frames say;
  the frames of one tick carry the same run id, timestamp and state hash, and link to the state
  hash of the tick before.
\<close>

section \<open>Definitions of the laws\<close>

text \<open>The carried state, apart from the interventions installed for the tick, is well formed.\<close>

definition psyche_ok :: "psyche \<Rightarrow> bool" where
  "psyche_ok s \<longleftrightarrow>
     affect_ok (affect s) \<and> mood_ok (mood s) \<and> drives_ok (drives_of s) \<and> in_pm1 (morale s) \<and>
     personality_baseline s = new_manifold \<and> prev_state_hash s = state_hash (interior s)"

text \<open>An intervention whose value is absent or a finite number, as its schema demands.\<close>

definition value_ok :: "dict \<Rightarrow> bool" where
  "value_ok iv = (case dget iv ''value'' of JNull \<Rightarrow> True | JBool _ \<Rightarrow> True | JInt _ \<Rightarrow> True | JFloat f \<Rightarrow> is_finite f | _ \<Rightarrow> False)"

text \<open>Two states that differ at most in the installed interventions.\<close>

definition same_interior :: "psyche \<Rightarrow> psyche \<Rightarrow> bool" where
  "same_interior s t \<longleftrightarrow> s\<lparr>pert := []\<rparr> = t\<lparr>pert := []\<rparr>"

text \<open>Results that agree up to the installed interventions of the state.\<close>

definition same_result ::
  "(psyche_outputs \<times> psyche) result \<Rightarrow> (psyche_outputs \<times> psyche) result \<Rightarrow> bool" where
  "same_result x y =
     (case (x, y) of (Inl e, Inl f) \<Rightarrow> e = f
      | (Inr (o1, s), Inr (o2, t)) \<Rightarrow> o1 = o2 \<and> same_interior s t | _ \<Rightarrow> False)"

section \<open>Neutral interventions\<close>

lemma pert_upd:
  "affect (s\<lparr>pert := p\<rparr>) = affect s" "mood (s\<lparr>pert := p\<rparr>) = mood s" "morale (s\<lparr>pert := p\<rparr>) = morale s"
  "drives_of (s\<lparr>pert := p\<rparr>) = drives_of s" "competence (s\<lparr>pert := p\<rparr>) = competence s"
  "scars (s\<lparr>pert := p\<rparr>) = scars s" "self_model_reliability (s\<lparr>pert := p\<rparr>) = self_model_reliability s"
  "identity_anchors (s\<lparr>pert := p\<rparr>) = identity_anchors s" "prev_dominant (s\<lparr>pert := p\<rparr>) = prev_dominant s"
  "calibration_error (s\<lparr>pert := p\<rparr>) = calibration_error s" "prev_state_hash (s\<lparr>pert := p\<rparr>) = prev_state_hash s"
  "calibration_samples (s\<lparr>pert := p\<rparr>) = calibration_samples s"
  "personality_baseline (s\<lparr>pert := p\<rparr>) = personality_baseline s" "pert (s\<lparr>pert := p\<rparr>) = p"
  by simp_all

lemma clip11_clip [simp]: "clip11 x = clip x"
  by (simp add: clip11_def clip_def)

lemma clip01_NaN [simp]: "clip01 NaN = NaN"
  by (simp add: clip01_def flt_less_def)

lemma manifold_update_clipped: "(ax, v) \<in> set (manifold_update a b c d e f g) \<Longrightarrow> clip v = v"
  by (auto simp: manifold_update_def manifold_axis_def Let_def)

lemma perturb_drive_neutral:
  "\<forall>iv\<in>set ivs. neutral iv \<Longrightarrow> perturb_drive ivs nd = Ok nd"
  by (cases nd) (auto simp: perturb_drive_def scalar_neutral is_nan_def)

lemma next_affect_neutral:
  assumes "\<forall>iv\<in>set (pert s). neutral iv"
  shows "next_affect s a x = next_affect (s\<lparr>pert := []\<rparr>) a x"
proof -
  have "mapR (\<lambda>(ax, v). bindR (scalar (pert s) ''affect_manifold'' ax v) (\<lambda>w. Ok (ax, clip11 w))) m = Ok m"
    if "\<And>ax v. (ax, v) \<in> set m \<Longrightarrow> clip v = v" for m
    using mapR_total [of m _ "\<lambda>x. x"] that assms by (force simp: scalar_neutral)
  then show ?thesis
    using manifold_update_clipped by (simp add: next_affect_def Let_def)
qed

lemma next_drives_neutral:
  assumes "\<forall>iv\<in>set (pert s). neutral iv"
  shows "next_drives s out = next_drives (s\<lparr>pert := []\<rparr>) out"
proof -
  have "mapR (perturb_drive (pert s)) ds = Ok ds" for ds
    using mapR_total [of ds "perturb_drive (pert s)" "\<lambda>x. x"] perturb_drive_neutral [OF assms] by simp
  then show ?thesis
    by (simp add: next_drives_def cong: if_cong)
qed

lemma appraise_scars_neutral:
  "\<forall>iv\<in>set (pert s). neutral iv \<Longrightarrow> appraise_scars s m = appraise_scars (s\<lparr>pert := []\<rparr>) m"
  by (simp add: appraise_scars_def is_ablated_def is_disabled_def neutral_simps)

lemma appraise_competence_pert [simp]: "appraise_competence (s\<lparr>pert := p\<rparr>) m d = appraise_competence s m d"
  unfolding appraise_competence_def pert_upd ..

lemma appraise_neutral:
  assumes "\<forall>iv\<in>set (pert s). neutral iv"
  shows "appraise s w t m g d = appraise (s\<lparr>pert := []\<rparr>) w t m g d"
  unfolding appraise_def appraise_scars_neutral [OF assms] appraise_competence_pert ..

lemma faculty_terms_pert [simp]: "faculty_terms (s\<lparr>pert := p\<rparr>) c e = faculty_terms s c e"
  unfolding faculty_terms_def pert_upd ..

lemma content_of_pert [simp]: "content_of (s\<lparr>pert := p\<rparr>) c e d w = content_of s c e d w"
  unfolding content_of_def pert_upd ..

lemma compete_neutral:
  "\<forall>iv\<in>set (pert s). neutral iv \<Longrightarrow> compete s c p d = compete (s\<lparr>pert := []\<rparr>) c p d"
  by (simp add: compete_def is_disabled_def neutral_simps)

lemma instinct_pert [simp]: "instinct (s\<lparr>pert := p\<rparr>) c w m d = instinct s c w m d"
  unfolding instinct_def instinct_match_def pert_upd ..

lemma read_anchors_neutral: "\<forall>iv\<in>set ivs. neutral iv \<Longrightarrow> read_anchors ivs m = read_anchors [] m"
  by (simp add: read_anchors_def blocks_neutral)

lemma interior_pert [simp]: "interior (s\<lparr>pert := p\<rparr>) = interior s"
  by (simp add: interior_def)

lemma resolve_prediction_pert:
  "resolve_prediction (s\<lparr>pert := p\<rparr>) x = map_prod (\<lambda>t. t\<lparr>pert := p\<rparr>) id (resolve_prediction s x)"
  by (simp add: resolve_prediction_def Let_def split: option.splits)

lemma resolve_prediction_keeps_pert [simp]: "pert (fst (resolve_prediction s x)) = pert s"
  by (simp add: resolve_prediction_def Let_def split: option.splits)


lemma frames_pert [simp]:
  "psyche_state_frame (s\<lparr>pert := p\<rparr>) = psyche_state_frame s"
  "causal_trace_frame (s\<lparr>pert := p\<rparr>) = causal_trace_frame s"
  "self_report_frame (s\<lparr>pert := p\<rparr>) = self_report_frame s"
  unfolding psyche_state_frame_def causal_trace_frame_def self_report_frame_def report_text_def fun_eq_iff pert_upd
  by simp_all

text \<open>Stage values that agree up to the installed interventions of the resolved state.\<close>

definition drop_pert :: "stages \<Rightarrow> stages" where
  "drop_pert st = st\<lparr>st_resolved := (st_resolved st)\<lparr>pert := []\<rparr>\<rparr>"

lemma map_bindR: "map_sum id f (bindR r g) = bindR r (\<lambda>x. map_sum id f (g x))"
  by (cases r) simp_all

lemma bindR_cong_fun: "(\<And>x. r = Inr x \<Longrightarrow> f x = g x) \<Longrightarrow> bindR r f = bindR r g"
  by (cases r) auto

lemma case_prod_congI: "(\<And>a b. x = (a, b) \<Longrightarrow> f a b = g a b) \<Longrightarrow> case_prod f x = case_prod g x"
  by (cases x) simp

lemma pert_morale: "s\<lparr>pert := p, morale := m\<rparr> = s\<lparr>morale := m, pert := p\<rparr>"
  by simp

lemma case_map_prod_id: "(case map_prod f id x of (a, b) \<Rightarrow> g a b) = (case x of (a, b) \<Rightarrow> g (f a) b)"
  by (cases x) simp

lemma next_mood_pert [simp]: "next_mood (s\<lparr>pert := p\<rparr>) a = next_mood s a"
  and next_morale_pert [simp]: "next_morale (s\<lparr>pert := p\<rparr>) a = next_morale s a"
  unfolding next_mood_def next_morale_def pert_upd by simp_all

lemma map_sum_prod: "map_sum id f (case x of (a, b) \<Rightarrow> g a b) = (case x of (a, b) \<Rightarrow> map_sum id f (g a b))"
  by (cases x) simp

lemma tick_stages_neutral:
  assumes n: "\<forall>iv\<in>set (pert s). neutral iv"
  shows "map_sum id drop_pert (tick_stages mexp i s) = map_sum id drop_pert (tick_stages mexp i (s\<lparr>pert := []\<rparr>))"
proof -
  have nd: "next_drives (s\<lparr>morale := m\<rparr>) out = next_drives (s\<lparr>morale := m, pert := []\<rparr>) out" for m out
    using next_drives_neutral [of "s\<lparr>morale := m\<rparr>"] n by simp
  have cn: "compete t c p d = compete (t\<lparr>pert := []\<rparr>) c p d"
    if "resolve_prediction (s\<lparr>morale := m\<rparr>) x = (t, e)" for t c p d m x e
    using compete_neutral [of t] n resolve_prediction_keeps_pert [of "s\<lparr>morale := m\<rparr>" x] that by simp
  show ?thesis
    unfolding tick_stages_def Let_def appraise_neutral [OF n] next_affect_neutral [OF n] pert_morale nd
      resolve_prediction_pert case_map_prod_id pert_upd instinct_pert next_mood_pert next_morale_pert
      scalar_neutral [OF n] records_neutral [OF n] read_anchors_neutral [OF n] scalar_Nil records_Nil map_bindR map_sum_prod
    by (intro bindR_cong_fun case_prod_congI, subst cn, assumption, intro bindR_cong_fun case_prod_congI)
       (simp add: drop_pert_def)
qed

lemma commit_drop_pert: "commit (drop_pert st) = (commit st)\<lparr>pert := []\<rparr>"
  by (simp add: commit_def drop_pert_def)

lemma drop_pert_simps:
  "st_ctx (drop_pert st) = st_ctx st" "st_broadcast (drop_pert st) = st_broadcast st"
  "st_signals (drop_pert st) = st_signals st" "st_requests (drop_pert st) = st_requests st"
  "st_anchors (drop_pert st) = st_anchors st" "st_refs (drop_pert st) = st_refs st"
  "st_predicted (drop_pert st) = st_predicted st" "st_affect (drop_pert st) = st_affect st"
  "st_curiosity (drop_pert st) = st_curiosity st" "st_prediction_error (drop_pert st) = st_prediction_error st"
  "st_audit (drop_pert st) = st_audit st"
  by (simp_all add: drop_pert_def)

lemma emit_drop_pert:
  "emit mexp i (s\<lparr>pert := []\<rparr>) (drop_pert st) = map_prod id (\<lambda>t. t\<lparr>pert := []\<rparr>) (emit mexp i s st)"
  unfolding emit_def Let_def commit_drop_pert drop_pert_simps frames_pert interior_pert pert_upd
  by simp

lemma tick_drop_pert:
  "map_sum id (map_prod id (\<lambda>t. t\<lparr>pert := []\<rparr>)) (tick mexp i s) =
   map_sum id (emit mexp i (s\<lparr>pert := []\<rparr>)) (map_sum id drop_pert (tick_stages mexp i s))"
  by (cases "tick_stages mexp i s") (simp_all add: tick_def emit_drop_pert)

lemma same_result_iff:
  "same_result x y \<longleftrightarrow>
   map_sum id (map_prod id (\<lambda>t. t\<lparr>pert := []\<rparr>)) x = map_sum id (map_prod id (\<lambda>t. t\<lparr>pert := []\<rparr>)) y"
  by (cases x; cases y) (auto simp: same_result_def same_interior_def)

lemma tick_neutral:
  assumes n: "\<forall>iv\<in>set (pert s). neutral iv"
  shows "same_result (tick mexp i s) (tick mexp i (s\<lparr>pert := []\<rparr>))"
  using tick_stages_neutral [OF n, of mexp i] unfolding same_result_iff tick_drop_pert by simp

section \<open>The stages behind a successful tick\<close>

lemma prod_case_elim:
  assumes "(case x of (a, b) \<Rightarrow> f a b) = Inr y"
  obtains a b where "x = (a, b)" and "f a b = Inr y"
  using assms by (cases x) simp

lemma tick_stagesE:
  assumes "tick_stages mexp i s = Ok st"
  obtains appraisal oc where
    "appraise s (in_world i) (opt_dict (in_agent_trace i)) (opt_dict (in_memory i)) (opt_dict (in_governance i))
       (domain_of (in_world i)) = Ok (appraisal, oc, st_ctx st, st_refs st)"
    "next_affect s appraisal (cx_scar_strength (st_ctx st)) = Ok (st_affect st)"
    "st_mood st = next_mood s (st_affect st)"
    "next_drives (s\<lparr>morale := next_morale s (st_affect st)\<rparr>) oc = Ok (st_drives st)"
    "st_dominant st = dominant mexp (st_affect st) (prev_dominant s)"
    "st_predicted st = predicted_error_of (st_ctx st)"
    "resolve_prediction (s\<lparr>morale := next_morale s (st_affect st)\<rparr>) (observed_error oc)
       = (st_resolved st, st_prediction_error st)"
    "compete (st_resolved st) (st_ctx st) (st_predicted st) (st_dominant st) = Ok (st_broadcast st)"
    "instinct (st_resolved st) (st_ctx st) (in_world i) (opt_dict (in_memory i)) (domain_of (in_world i))
       = Ok (st_signals st, st_scars st)"
    "read_anchors (pert s) (opt_dict (in_memory i)) = Ok (st_anchors st)"
    "scalar (pert s) ''drives'' ''curiosity'' (fget (pressure (drives_of s)) ''curiosity'') = Ok (st_curiosity st)"
    "authority (st_ctx st) (st_signals st) (opt_dict (in_memory i)) (opt_dict (in_governance i))
       (domain_of (in_world i)) = Ok (st_requests st)"
    "records (pert s) = Ok (st_audit st)"
  using assms unfolding tick_stages_def Let_def
  by (elim bindR_Inr_elim prod_case_elim, intro that)
     (auto simp only: Inr_inject sum.inject prod.inject stages.select_convs)

end
