(* ===== verification/ReferenceInvariant.thy ===== *)
theory ReferenceInvariant
  imports ReferenceProps
begin

text \<open>
  Range invariant of the reference psyche: whatever the input frames contain, a tick that returns
  leaves affect, mood and morale in \<open>[-1, 1]\<close>, drive levels in \<open>[0, 1]\<close>, and the stored hash equal to
  the hash of the carried interior. The bounds go through the float model: the weighted sums of
  the update cannot overflow, and the clamps and the NaN guard of the manifold absorb the rest.
\<close>

section \<open>Float facts\<close>

lemma mkf_not_nan [simp]: "\<not> is_nan (mkf neg x)"
  by (simp add: mkf_def Let_def)

lemma fadd_finite_not_nan: "is_finite x \<Longrightarrow> is_finite y \<Longrightarrow> \<not> is_nan (fadd x y)"
  by (simp add: fadd_finite_eq)

lemma clip01_cases: "is_nan (clip01 x) \<or> in_unit (clip01 x)"
  by (cases x) (auto simp: clip01_def flt_less_def in_unit_def)

lemma clip01_in_unit: "\<not> is_nan x \<Longrightarrow> in_unit (clip01 x)"
  by (cases x) (auto simp: clip01_def flt_less_def in_unit_def)

lemma clip_cases: "is_nan (clip x) \<or> fbound 0 (clip x)"
  using clip_in_pm1 [of x] by (cases x) (auto simp: in_pm1_fbound)

lemma sum_loop_fbound:
  assumes "fbound m s" and "fbound m c" and "\<forall>x\<in>set xs. fbound m x"
    and "0 \<le> m" and "m + 4 * int (length xs) < 1022"
  shows "fbound (m + 4 * int (length xs) + 1) (sum_loop s c xs)"
  using assms
proof (induction xs arbitrary: s c m)
  case Nil
  then show ?case
    using fbound_fadd [of m s c] by (auto intro: fbound_mono)
next
  case (Cons x xs)
  let ?t = "fadd s x"
  have t: "fbound (m + 1) ?t"
    using Cons.prems by (intro fbound_fadd) auto
  have comp: "fbound (m + 3) (fadd (fsub u ?t) v)" if "fbound m u" "fbound m v" for u v
  proof -
    have "fbound (m + 2) (fsub u ?t)"
      using fbound_fsub [OF fbound_mono [OF that(1), of "m + 1"] t] Cons.prems by (simp add: add.assoc)
    then show ?thesis
      using fbound_fadd [OF _ fbound_mono [OF that(2), of "m + 2"]] Cons.prems by (simp add: add.assoc)
  qed
  define c' where "c' = fadd c (if flt_le (fabs x) (fabs s) then fadd (fsub s ?t) x else fadd (fsub x ?t) s)"
  have "fbound (m + 3) (if flt_le (fabs x) (fabs s) then fadd (fsub s ?t) x else fadd (fsub x ?t) s)"
    using comp Cons.prems by simp
  from fbound_fadd [OF fbound_mono [OF Cons.prems(2), of "m + 3"] this]
  have c': "fbound (m + 4) c'"
    using Cons.prems by (simp add: c'_def add.assoc)
  have "fbound (m + 4 + 4 * int (length xs) + 1) (sum_loop ?t c' xs)"
    using Cons.prems t c' by (intro Cons.IH) (auto intro: fbound_mono)
  then show ?case
    by (simp add: Let_def c'_def algebra_simps)
qed

lemma py_sum_fbound:
  assumes "\<forall>x\<in>set xs. fbound 0 x" and "length xs < 200"
  shows "fbound (4 * int (length xs)) (py_sum xs)"
proof (cases xs)
  case Nil
  then show ?thesis by (simp add: py_sum_def fbound_def)
next
  case (Cons x ys)
  have "fbound 1 (fadd (Num 0) x)"
    using assms Cons fbound_fadd [of 0 "Num 0" x] by (simp add: fbound_def)
  then have "fbound (1 + 4 * int (length ys) + 1) (sum_loop (fadd (Num 0) x) (Num 0) ys)"
    using assms Cons by (intro sum_loop_fbound) (auto simp: fbound_def pow2_def)
  then show ?thesis
    using Cons by (auto simp: py_sum_def intro: fbound_mono)
qed

section \<open>Perturbed scalars\<close>

lemma float_of_int_finite: "float_of_int n = Ok f \<Longrightarrow> is_finite f"
  by (auto simp: float_of_int_def Let_def split: if_splits)

lemma value_ok_float:
  assumes "value_ok iv" and "py_float (dget iv ''value'') = Ok f"
  shows "is_finite f"
  using assms float_of_int_finite
  by (auto simp: value_ok_def py_float_def fbool_def split: json.splits)

lemma fmul_unit_finite:
  assumes "is_finite x" and "fbound 0 y"
  shows "\<not> is_nan (fmul x y)"
  using assms by (simp add: fmul_def Let_def fbound_def)

lemma fadd_not_nan: "is_finite x \<Longrightarrow> \<not> is_nan y \<Longrightarrow> \<not> is_nan (fadd x y)"
  by (cases x; cases y) (auto simp: fadd_def)

lemma apply_scalar_in_pm1:
  assumes "apply_scalar op cur (dget iv ''value'') seed True = Ok v" and "value_ok iv" and "is_finite cur"
  shows "in_pm1 v"
proof -
  have nan: "\<not> is_nan (fadd cur (fmul m (deterministic_noise sd)))" if "is_finite m" for m sd
    using that assms(3) deterministic_noise_bound [of sd]
    by (intro fadd_not_nan fmul_unit_finite) (auto simp: fbound_def)
  have clipped: "op_clip x = clip x" for x
    by (simp add: op_clip_def clip_def)
  show ?thesis
    using assms nan value_ok_float [OF assms(2)] fadd_not_nan [OF assms(3)]
    by (auto simp: apply_scalar_def result_simps clipped split: if_splits intro!: clip_in_pm1)
qed

lemma scalar_step_in_pm1:
  assumes "scalar_step s d cur iv = Ok v" and "value_ok iv" and "in_pm1 cur"
  shows "in_pm1 v"
  using assms apply_scalar_in_pm1 [of _ cur iv]
  by (auto simp: scalar_step_def Let_def result_simps in_pm1_def split: if_splits)

lemma scalar_in_pm1:
  assumes "scalar ivs s d cur = Ok v" and "\<forall>iv\<in>set ivs. value_ok iv" and "in_pm1 cur"
  shows "in_pm1 v"
proof -
  from assms(1) obtain ms where ms: "filterR (matches_one s d) ivs = Ok ms"
    and run: "foldR (scalar_step s d) cur ms = Ok v"
    by (auto simp: scalar_def matching_def result_simps)
  have "\<forall>iv\<in>set ms. value_ok iv"
    using assms(2) filterR_subset [OF ms] by blast
  then show ?thesis
    using foldR_invariant [OF run, of in_pm1] assms(3) scalar_step_in_pm1 by blast
qed

section \<open>The stages of a tick\<close>

lemma appraisal_of_bound:
  "(k, v) \<in> set (appraisal_of e t vd rg rk st df un rt ku nv sc ps rp) \<Longrightarrow> is_nan v \<or> fbound 0 v"
  using clip_cases by (auto simp: appraisal_of_def Let_def)

lemma appraise_scars_bound:
  "appraise_scars s m = Ok (x, ms) \<Longrightarrow> is_nan x \<or> in_unit x"
  using clip01_cases by (auto simp: appraise_scars_def Let_def result_simps split: if_splits)

lemma appraise_bounds:
  assumes "appraise s w t m g d = Ok (ap, oc, c, refs)"
  shows "\<forall>v\<in>set (map snd ap). is_nan v \<or> fbound 0 v" and "is_nan (cx_scar_strength c) \<or> in_unit (cx_scar_strength c)"
proof -
  from assms have "(\<forall>v\<in>set (map snd ap). is_nan v \<or> fbound 0 v) \<and>
     (\<exists>ms. appraise_scars s m = Ok (cx_scar_strength c, ms))"
    unfolding appraise_def Let_def
    by (elim bindR_Inr_elim prod_case_elim) (auto dest: appraisal_of_bound)
  then show "\<forall>v\<in>set (map snd ap). is_nan v \<or> fbound 0 v" and "is_nan (cx_scar_strength c) \<or> in_unit (cx_scar_strength c)"
    using appraise_scars_bound by (blast, blast)
qed

lemma length_pressure: "drives_ok d \<Longrightarrow> length (pressure d) = 8"
proof -
  assume "drives_ok d"
  then have "length (map fst d) = length CORE"
    by (simp add: drives_ok_def)
  then show ?thesis
    by (simp add: pressure_def CORE_def)
qed

lemma mean_drive_pressure_bound:
  assumes "drives_ok d"
  shows "fbound 30 (fdiv (py_sum (map snd (pressure d))) (fint (max 1 (int (length (pressure d))))))"
proof -
  have "fbound (4 * int (length (map snd (pressure d)))) (py_sum (map snd (pressure d)))"
    by (rule py_sum_fbound) (use assms pressure_in_unit in_unit_fbound length_pressure in auto)
  then have sum: "fbound 32 (py_sum (map snd (pressure d)))"
    using length_pressure [OF assms] by simp
  have "fint 8 = Num 8"
    using rnd64_small_int [of 8] mkf_finite [of 8 3 False] by (simp add: fint_def mkf_def pow2_def)
  moreover have "\<bar>fval (py_sum (map snd (pressure d))) / 8\<bar> \<le> pow2 30"
    using sum by (simp add: fbound_def pow2_def)
  ultimately show ?thesis
    using sum length_pressure [OF assms] by (auto intro: fbound_fdiv_Num)
qed

lemma affect_ok_update:
  assumes "\<And>axis. in_pm1 (manifold_axis a ap md dp sc pb inertia axis)"
  shows "affect_ok (manifold_update a ap md dp sc pb inertia)"
  using assms by (auto simp: affect_ok_def manifold_update_def comp_def)

lemma fbound_weighted: "fbound 30 x \<Longrightarrow> \<bar>w\<bar> \<le> 1 \<Longrightarrow> fbound 30 (fmul (lit w) x)"
  using fbound_fmul [of 0 "lit w" 30 x] fbound_lit [of w] by simp

lemma fbound_weighted_neg: "fbound 30 x \<Longrightarrow> \<bar>w\<bar> \<le> 1 \<Longrightarrow> fbound 30 (fmul (fneg (lit w)) x)"
  using fbound_fmul [of 0 "fneg (lit w)" 30 x] fbound_lit [of w] by simp

lemma fmul_nan: "is_nan x \<Longrightarrow> is_nan (fmul y x)"
  by (simp add: fmul_def Let_def)

lemma fneg_nan: "is_nan x \<Longrightarrow> is_nan (fneg x)"
  by (cases x) (auto simp: fneg_def)

lemma ok_values_bound:
  "affect_ok a \<Longrightarrow> v \<in> set (map snd a) \<Longrightarrow> fbound 30 v"
  "mood_ok m \<Longrightarrow> v \<in> set (map snd m) \<Longrightarrow> fbound 30 v"
  by (auto simp: affect_ok_def mood_ok_def in_pm1_fbound intro: fbound_mono)

lemma recurrent_update_ok:
  assumes ok: "psyche_ok s" and ap: "\<forall>v\<in>set (map snd ap). is_nan v \<or> fbound 0 v"
    and sc: "is_nan sc \<or> in_unit sc" and mean: "fbound 30 mean"
  shows "affect_ok (manifold_update (affect s) ap (mood s)
           [(''tension'', fmul (lit (5 / 10)) mean), (''arousal'', fmul (lit (3 / 10)) mean),
            (''valence'', fmul (fneg (lit (2 / 10))) mean)]
           [(''valence'', fneg sc), (''tension'', sc), (''certainty'', fmul (fneg (lit (5 / 10))) sc)]
           (personality_baseline s) None)"
proof (rule affect_ok_update, rule manifold_axis_in_pm1)
  fix axis d
  let ?dp = "[(''tension'', fmul (lit (5 / 10)) mean), (''arousal'', fmul (lit (3 / 10)) mean),
              (''valence'', fmul (fneg (lit (2 / 10))) mean)]"
  let ?sc = "[(''valence'', fneg sc), (''tension'', sc), (''certainty'', fmul (fneg (lit (5 / 10))) sc)]"
  have scb: "is_nan sc \<or> fbound 30 sc"
    using sc in_unit_fbound fbound_mono by fastforce
  have "is_nan v \<or> fbound 30 v" if "v \<in> set (map snd ?sc)" for v
    using that scb fbound_weighted_neg [of sc "5 / 10"] by (auto simp: fmul_nan fneg_nan)
  moreover have "fbound 30 v" if "v \<in> set (map snd ?dp)" for v
    using that fbound_weighted [OF mean] fbound_weighted_neg [OF mean] by auto
  moreover have "fbound 30 v" if "v \<in> set (map snd (affect s)) \<or> v \<in> set (map snd (mood s)) \<or>
                                   v \<in> set (map snd (personality_baseline s))" for v
    using that ok ok_values_bound new_manifold_ok unfolding psyche_ok_def by metis
  moreover have "is_nan v \<or> fbound 30 v" if "v \<in> set (map snd ap)" for v
    using that ap fbound_mono [of 0 v 30] by auto
  moreover assume "d \<in> {affect s, ap, mood s, ?dp, ?sc, personality_baseline s}"
  ultimately have "is_nan v \<or> fbound 30 v" if "v \<in> set (map snd d)" for v
    using that by blast
  then show "fbound 30 (manifold_get (Some d) axis)"
    by (rule manifold_get_bound) auto
qed auto

lemma mapR_keyed:
  assumes "mapR f xs = Ok ys" and "\<And>x y. x \<in> set xs \<Longrightarrow> f x = Ok y \<Longrightarrow> fst y = fst x \<and> P (snd y)"
  shows "map fst ys = map fst xs \<and> (\<forall>v\<in>set (map snd ys). P v)"
  using assms by (induction xs arbitrary: ys) (fastforce simp: result_simps)+

lemma next_affect_ok:
  assumes ok: "psyche_ok s" and ivs: "\<forall>iv\<in>set (pert s). value_ok iv"
    and ap: "\<forall>v\<in>set (map snd ap). is_nan v \<or> fbound 0 v" and sc: "is_nan sc \<or> in_unit sc"
    and run: "next_affect s ap sc = Ok a"
  shows "affect_ok a"
proof -
  have "drives_ok (drives_of s)"
    using ok by (simp add: psyche_ok_def)
  note base = recurrent_update_ok [OF ok ap sc mean_drive_pressure_bound [OF this]]
  have perturbed: "affect_ok ys"
    if xs: "affect_ok xs"
      and ys: "mapR (\<lambda>(ax, v). bindR (scalar (pert s) ''affect_manifold'' ax v) (\<lambda>w. Ok (ax, clip11 w))) xs = Ok ys"
    for xs ys
  proof -
    have "map fst ys = map fst xs \<and> (\<forall>v\<in>set (map snd ys). in_pm1 v)"
    proof (rule mapR_keyed [OF ys])
      fix x y
      assume x: "x \<in> set xs"
        and y: "(case x of (ax, v) \<Rightarrow> bindR (scalar (pert s) ''affect_manifold'' ax v) (\<lambda>w. Ok (ax, clip11 w))) = Ok y"
      from y obtain w where w: "scalar (pert s) ''affect_manifold'' (fst x) (snd x) = Ok w" and "y = (fst x, clip w)"
        by (auto simp: result_simps case_prod_beta)
      moreover have "in_pm1 w"
        using scalar_in_pm1 [OF w ivs] xs x by (simp add: affect_ok_def)
      ultimately show "fst y = fst x \<and> in_pm1 (snd y)"
        by (simp add: clip_id)
    qed
    with xs show ?thesis
      by (simp add: affect_ok_def)
  qed
  show ?thesis
    using run base perturbed by (auto simp: next_affect_def Let_def split: if_splits)
qed

lemma perturb_drive_ok:
  assumes "perturb_drive ivs (n, d) = Ok nd" and "\<forall>iv\<in>set ivs. value_ok iv"
    and "in_unit (level d)" and "in_unit (setpoint d)"
  shows "fst nd = n \<and> in_unit (level (snd nd)) \<and> in_unit (setpoint (snd nd))"
proof -
  from assms(1) obtain p where p: "scalar ivs ''drives'' n (level d) = Ok p"
    and nd: "nd = (n, if \<not> flt_eq p (level d) then d\<lparr>level := clip01 p\<rparr> else d)"
    by (auto simp: perturb_drive_def result_simps)
  have "in_pm1 p"
    using scalar_in_pm1 [OF p assms(2)] assms(3) in_unit_pm1 by blast
  then have "in_unit (clip01 p)"
    by (intro clip01_in_unit) (simp add: in_pm1_def)
  with nd assms(3,4) show ?thesis by simp
qed

lemma next_drives_ok:
  assumes ok: "drives_ok (drives_of s)" and ivs: "\<forall>iv\<in>set (pert s). value_ok iv"
    and run: "next_drives s oc = Ok d"
  shows "drives_ok d"
proof -
  from run obtain nd where nd: "drives_update (drives_of s) oc = Ok nd"
    and d: "(if pert s \<noteq> [] then mapR (perturb_drive (pert s)) nd else Ok nd) = Ok d"
    by (auto simp: next_drives_def result_simps)
  have ndok: "drives_ok nd"
    using drives_update_total_ok [OF ok, of oc] nd by auto
  have "drives_ok ys" if ys: "mapR (perturb_drive (pert s)) nd = Ok ys" for ys
  proof -
    have "map fst ys = map fst nd \<and> (\<forall>v\<in>set (map snd ys). in_unit (level v) \<and> in_unit (setpoint v))"
    proof (rule mapR_keyed [OF ys])
      fix x y
      assume "x \<in> set nd" and "perturb_drive (pert s) x = Ok y"
      then show "fst y = fst x \<and> in_unit (level (snd y)) \<and> in_unit (setpoint (snd y))"
        using perturb_drive_ok [of "pert s" "fst x" "snd x" y] ndok ivs by (auto simp: drives_ok_def)
    qed
    with ndok show ?thesis
      by (simp add: drives_ok_def)
  qed
  then show ?thesis
    using d ndok by (auto split: if_splits)
qed

lemma next_mood_ok: "mood_ok (next_mood s a)"
  by (simp add: next_mood_def mood_decay_def mood_ok_def Let_def)

lemma next_morale_ok:
  assumes "psyche_ok s" and "affect_ok a"
  shows "in_pm1 (next_morale s a)"
proof -
  have m: "fbound 0 (morale s)" and v: "fbound 0 (fget a ''valence'')"
    using assms affect_ok_get by (auto simp: psyche_ok_def in_pm1_fbound)
  have "fbound 1 (fsub (fget a ''valence'') (morale s))"
    using fbound_fsub [OF v m] by simp
  then have "fbound 1 (fmul (lit (15 / 100)) (fsub (fget a ''valence'') (morale s)))"
    using fbound_fmul [of 0 "lit (15 / 100)" 1] fbound_lit [of "15 / 100"] by simp
  from fbound_fadd [OF fbound_mono [OF m, of 1] this]
  show ?thesis
    unfolding next_morale_def clip11_clip by (intro clip_in_pm1 fbound_not_nan [of 2]) simp
qed

lemma resolve_prediction_fields:
  assumes "resolve_prediction s x = (s', e)"
  shows "personality_baseline s' = personality_baseline s" "morale s' = morale s" "pert s' = pert s"
    "prev_state_hash s' = prev_state_hash s" "affect s' = affect s" "mood s' = mood s"
    "drives_of s' = drives_of s" "scars s' = scars s" "competence s' = competence s"
  using assms by (auto simp: resolve_prediction_def Let_def split: option.splits)

lemma interior_commit:
  "interior (s\<lparr>pending_error_prediction := p, prev_state_hash := h\<rparr>) = interior s"
  by (simp add: interior_def)

lemma tickE:
  assumes "tick mexp i s = Ok (out, s')"
  obtains st where "tick_stages mexp i s = Ok st" and "emit mexp i s st = (out, s')"
  using assms by (auto simp: tick_def result_simps)

lemma emit_state:
  "emit mexp i s st = (out, s') \<Longrightarrow>
   s' = (commit st)\<lparr>pending_error_prediction := Some (st_predicted st), prev_state_hash := state_hash (interior (commit st))\<rparr>"
  by (simp add: emit_def Let_def)

lemma psyche_ok_tick:
  assumes ok: "psyche_ok s" and ivs: "\<forall>iv\<in>set (pert s). value_ok iv" and run: "tick mexp i s = Ok (out, s')"
  shows "psyche_ok s'"
proof -
  from run obtain st where st: "tick_stages mexp i s = Ok st" and em: "emit mexp i s st = (out, s')"
    by (rule tickE)
  from st show ?thesis
  proof (rule tick_stagesE)
    fix ap oc
    assume a: "appraise s (in_world i) (opt_dict (in_agent_trace i)) (opt_dict (in_memory i))
                 (opt_dict (in_governance i)) (domain_of (in_world i)) = Ok (ap, oc, st_ctx st, st_refs st)"
      and na: "next_affect s ap (cx_scar_strength (st_ctx st)) = Ok (st_affect st)"
      and md: "st_mood st = next_mood s (st_affect st)"
      and nd: "next_drives (s\<lparr>morale := next_morale s (st_affect st)\<rparr>) oc = Ok (st_drives st)"
      and rp: "resolve_prediction (s\<lparr>morale := next_morale s (st_affect st)\<rparr>) (observed_error oc)
                 = (st_resolved st, st_prediction_error st)"
    have "affect_ok (st_affect st)"
      using next_affect_ok [OF ok ivs appraise_bounds [OF a] na] .
    moreover have "drives_ok (st_drives st)"
      using next_drives_ok [OF _ _ nd] ok ivs by (simp add: psyche_ok_def)
    moreover have "mood_ok (st_mood st)"
      by (simp add: md next_mood_ok)
    ultimately show ?thesis
      using next_morale_ok [OF ok] resolve_prediction_fields [OF rp] ok
      unfolding emit_state [OF em] psyche_ok_def interior_commit by (simp add: commit_def)
  qed
qed

lemma reset_psyche_ok: "psyche_ok reset_psyche"
  by (simp add: psyche_ok_def reset_psyche_def Let_def new_manifold_ok new_drives_ok interior_def)
     (simp add: mood_ok_def new_mood_def)

end
