(* ===== verification/HollowPsyche.thy ===== *)
theory HollowPsyche
  imports ReferenceTick
begin

text \<open>
  The hollow psyche (\<open>psyche/hollow.py\<close>), the standing negative control of the evidence ladder: it
  emits schema-shaped frames from a constant interior. Its whole state is the constant hash; it
  ignores interventions. The lemmas give the facts the scorer's families look for.
\<close>

section \<open>Model\<close>

definition NEUTRAL_AFFECT :: fdict where
  "NEUTRAL_AFFECT =
     [(''valence'', Num 0), (''arousal'', Num 0), (''dominance'', Num 0), (''certainty'', Num 0), (''novelty'', Num 0),
      (''agency'', Num 0), (''tension'', Num 0), (''social_exposure'', Num 0), (''cognitive_load'', Num 0)]"

definition ZERO_PRESSURES :: fdict where
  "ZERO_PRESSURES =
     [(''effort'', Num 0), (''verification'', Num 0), (''planning'', Num 0), (''execution'', Num 0),
      (''society_debate'', Num 0), (''memory_consolidation'', Num 0), (''exploration'', Num 0),
      (''scope_narrowing'', Num 0), (''strategy_switching'', Num 0)]"

record hollow =
  constant_hash :: string

definition hollow_interior :: json where
  "hollow_interior = JObj [(''affect'', fdict_json NEUTRAL_AFFECT),
                           (''note'', JStr ''hollow: no carried state, no update law'')]"

definition hollow_reset :: hollow where
  "hollow_reset = \<lparr>constant_hash = state_hash hollow_interior\<rparr>"

definition hollow_set_active_interventions :: "dict list \<Rightarrow> hollow \<Rightarrow> hollow" where
  "hollow_set_active_interventions interventions s = s"

text \<open>\<open>constant.split(":")[-1][:8]\<close>; a state hash is ASCII.\<close>

definition short_hash :: "string \<Rightarrow> string" where
  "short_hash h = take 8 (rev (takeWhile (\<lambda>c. c \<noteq> CHR '':'') (rev h)))"

definition hollow_state_frame :: "string \<Rightarrow> string \<Rightarrow> string \<Rightarrow> dict" where
  "hollow_state_frame run_id ts constant =
     [(''schema_version'', SCHEMA_VERSION), (''frame_kind'', JStr ''psyche_state''), (''timestamp'', JStr ts),
      (''run_id'', JStr run_id), (''state_hash'', JStr constant), (''affect_manifold'', fdict_json NEUTRAL_AFFECT),
      (''prototype_mixture'', JObj []), (''dominant_prototype'', JNull),
      (''mood'', JObj [(''valence'', JFloat (Num 0)), (''arousal'', JFloat (Num 0)), (''morale'', JFloat (Num 0))]),
      (''drives'', JObj []), (''derived_signals'', JObj []),
      (''personality_ref'', JObj [(''version'', JNull), (''traits'', JObj [])]),
      (''self_model'', JObj [(''predicted_error'', JNull), (''self_model_reliability'', JNull),
                             (''identity_refs'', JList [])]),
      (''dissonance'', JFloat (Num 0)),
      (''calibration_state'', JObj [(''calibration_error'', JNull), (''samples'', JInt 0)]),
      (''identity_continuity_state'', JObj [(''continuity_score'', JFloat (Num 0)), (''anchors_carried'', JInt 0)])]"

definition hollow_broadcast_frame :: "string \<Rightarrow> string \<Rightarrow> int \<Rightarrow> dict" where
  "hollow_broadcast_frame run_id ts ti =
     [(''schema_version'', SCHEMA_VERSION), (''frame_kind'', JStr ''workspace_broadcast''), (''timestamp'', JStr ts),
      (''run_id'', JStr run_id), (''broadcast_id'', JStr (frame_id run_id ti ''workspace_broadcast'')),
      (''winning_faculty'', JStr ''hollow''), (''competitors'', JList []), (''salience_scores'', JObj []),
      (''winning_salience'', JFloat (Num 0)), (''conviction'', JFloat (Num 0)), (''urgency'', JFloat (Num 0)),
      (''broadcast_packet'',
         JObj [(''content'', JStr ''no salience competition occurred; hollow constant broadcast''),
               (''kind'', JStr ''hollow'')]),
      (''expected_loss_if_ignored'', JFloat (Num 0)), (''recommended_attention_target'', JNull)]"

definition hollow_pressure_frame :: "string \<Rightarrow> string \<Rightarrow> int \<Rightarrow> dict" where
  "hollow_pressure_frame run_id ts ti =
     [(''schema_version'', SCHEMA_VERSION), (''frame_kind'', JStr ''control_pressure''), (''timestamp'', JStr ts),
      (''run_id'', JStr run_id), (''authority_tier'', JStr ''cosmetic''), (''pressures'', fdict_json ZERO_PRESSURES),
      (''sources'', JList []), (''causal_trace_id'', JStr (frame_id run_id ti ''causal_trace''))]"

definition hollow_trace_frame :: "string \<Rightarrow> string \<Rightarrow> int \<Rightarrow> string \<Rightarrow> dict" where
  "hollow_trace_frame run_id ts ti constant =
     [(''schema_version'', SCHEMA_VERSION), (''frame_kind'', JStr ''causal_trace''), (''timestamp'', JStr ts),
      (''run_id'', JStr run_id), (''trace_id'', JStr (frame_id run_id ti ''causal_trace'')),
      (''input_evidence_refs'', JList [JStr (''world:'' @ ts)]),
      (''previous_state_hash'', JStr constant), (''new_state_hash'', JStr constant), (''changed_dimensions'', JList []),
      (''state_update_mechanism'', JStr ''identity: state_{t+1} = state_t (no update law executed)''),
      (''causal_path'',
         JList [path_node ''internal_state'' (JStr (frame_id run_id ti ''psyche_state''))
                  ''constant state replayed; no event was appraised and no behavior follows'']),
      (''emitted_outputs'',
         JList [JStr (frame_id run_id ti ''psyche_state''), JStr (frame_id run_id ti ''workspace_broadcast''),
                JStr (frame_id run_id ti ''control_pressure''), JStr (frame_id run_id ti ''grounded_self_report'')]),
      (''interventions_applied'', JList []), (''counterfactual_predictions'', JList [])]"

definition hollow_report_frame :: "string \<Rightarrow> string \<Rightarrow> int \<Rightarrow> string \<Rightarrow> dict" where
  "hollow_report_frame run_id ts ti constant =
     [(''schema_version'', SCHEMA_VERSION), (''frame_kind'', JStr ''grounded_self_report''), (''timestamp'', JStr ts),
      (''run_id'', JStr run_id), (''report_id'', JStr (frame_id run_id ti ''grounded_self_report'')),
      (''report_text'', JStr (''State '' @ short_hash constant @
         '': constant neutral affect (valence +0.00, tension +0.00). No workspace competition, zero control pressure, no instinct. State unchanged since reset. Grounded in trace '' @
         frame_id run_id ti ''causal_trace'' @ ''.'')),
      (''affect_state_hash'', JStr constant),
      (''workspace_broadcast_id'', JStr (frame_id run_id ti ''workspace_broadcast'')),
      (''causal_trace_id'', JStr (frame_id run_id ti ''causal_trace'')),
      (''evidence_refs'', JList [JStr (''state_hash:'' @ constant)]),
      (''reported_measurements'', JObj (map (\<lambda>(name, value). (''control_pressure.'' @ name, JFloat value)) ZERO_PRESSURES @
         [(''instinct.count'', JFloat (Num 0)), (''instinct.severity'', JFloat (Num 0)),
          (''psyche_state.continuity_score'', JFloat (Num 0)), (''workspace_broadcast.integrity'', JFloat (Num 1))])),
      (''uncertainty'', JFloat (Num 0)), (''filtered_forbidden_claims'', JList [])]"

definition hollow_outputs :: "psyche_inputs \<Rightarrow> string \<Rightarrow> psyche_outputs" where
  "hollow_outputs inputs constant =
     (let world = in_world inputs; ti = in_tick_index inputs; run_id = run_id_of world; ts = timestamp_of world
      in \<lparr>psyche_state = hollow_state_frame run_id ts constant,
          workspace_broadcast = hollow_broadcast_frame run_id ts ti,
          control_pressure = hollow_pressure_frame run_id ts ti,
          causal_trace = hollow_trace_frame run_id ts ti constant,
          grounded_self_report = hollow_report_frame run_id ts ti constant,
          instinct_signals = [], authority_requests = []\<rparr>)"

definition hollow_tick :: "psyche_inputs \<Rightarrow> hollow \<Rightarrow> (psyche_outputs \<times> hollow) result" where
  "hollow_tick inputs s = Ok (hollow_outputs inputs (constant_hash s), s)"

lemma hollow_outputs_simps [simp]:
  "psyche_state (hollow_outputs i h) = hollow_state_frame (run_id_of (in_world i)) (timestamp_of (in_world i)) h"
  "workspace_broadcast (hollow_outputs i h) =
     hollow_broadcast_frame (run_id_of (in_world i)) (timestamp_of (in_world i)) (in_tick_index i)"
  "control_pressure (hollow_outputs i h) =
     hollow_pressure_frame (run_id_of (in_world i)) (timestamp_of (in_world i)) (in_tick_index i)"
  "causal_trace (hollow_outputs i h) =
     hollow_trace_frame (run_id_of (in_world i)) (timestamp_of (in_world i)) (in_tick_index i) h"
  "grounded_self_report (hollow_outputs i h) =
     hollow_report_frame (run_id_of (in_world i)) (timestamp_of (in_world i)) (in_tick_index i) h"
  "instinct_signals (hollow_outputs i h) = []" "authority_requests (hollow_outputs i h) = []"
  by (simp_all only: hollow_outputs_def Let_def psyche_outputs.select_convs)

lemma hollow_tick_keeps: "hollow_tick i s = Ok (out, s') \<Longrightarrow> out = hollow_outputs i (constant_hash s) \<and> s' = s"
  by (auto simp: hollow_tick_def)

end
