(* ===== verification/Harness.thy ===== *)
theory Harness
  imports Scorer
begin

text \<open>
  The replay harness (\<open>replay/harness.py\<close>) over any psyche (\<open>psyche/interface.py\<close>, the Perturbable
  protocol of \<open>interventions/perturbation.py\<close>). A psyche is a record of its operations over one
  state type: the state holds the live instance together with whatever the class shares between
  instances, so that a psyche whose behaviour depends on how often it was built can be expressed.
\<close>

section \<open>Model\<close>

text \<open>
  \<open>sj_new\<close> is the factory call, \<open>sj_perturbable\<close> the protocol check, the others the methods.
\<close>

record 's subject =
  sj_new :: "'s \<Rightarrow> 's"
  sj_reset :: "'s \<Rightarrow> 's"
  sj_perturbable :: bool
  sj_set_active :: "dict list \<Rightarrow> 's \<Rightarrow> 's"
  sj_tick :: "psyche_inputs \<Rightarrow> 's \<Rightarrow> (psyche_outputs \<times> 's) result"

record replay_result =
  rr_output_frames :: "dict list"
  rr_evidence_frame :: dict
  rr_tick_outputs :: "psyche_outputs list"
  rr_input_count :: nat
  rr_tick_count :: nat
  rr_interventions_seen :: nat
  rr_interventions_executed :: nat

definition tick_to_inputs :: "tick \<Rightarrow> bool \<Rightarrow> psyche_inputs" where
  "tick_to_inputs t strip_memory =
     \<lparr>in_world = tk_world t, in_tick_index = int (tk_index t), in_agent_trace = tk_agent_trace t,
      in_memory = (if strip_memory then None else tk_memory t), in_governance = tk_governance t\<rparr>"

text \<open>\<open>schedule.active(tick.index) if schedule is not None else []\<close>\<close>

definition active_at :: "schedule option \<Rightarrow> tick \<Rightarrow> dict list" where
  "active_at sched t = (case sched of None \<Rightarrow> [] | Some windows \<Rightarrow> active windows (tk_index t))"

text \<open>\<open>executed_ids.update(...)\<close>: a set of experiment ids; unhashable ids raise.\<close>

definition add_ids :: "json list \<Rightarrow> dict list \<Rightarrow> json list result" where
  "add_ids ids ivs =
     foldR (\<lambda>acc iv. bindR (hashable (dget iv ''experiment_id'')) (\<lambda>v.
              Ok (if list_ex (\<lambda>w. py_eq w v) acc then acc else acc @ [v]))) ids ivs"

text \<open>One pass through the loop body: the outputs of the tick, the ids and the psyche.\<close>

definition run_tick ::
  "schema_checker \<Rightarrow> 's subject \<Rightarrow> bool \<Rightarrow> bool \<Rightarrow> schedule option \<Rightarrow>
   psyche_outputs list \<times> json list \<times> 's \<Rightarrow> tick \<Rightarrow> (psyche_outputs list \<times> json list \<times> 's) result" where
  "run_tick se S validate strip_memory sched st t =
     (let (outs, ids, s) = st; ivs = active_at sched t in
      bindR (if sj_perturbable S then add_ids ids ivs else Ok ids) (\<lambda>ids'.
      let s' = (if sj_perturbable S then sj_set_active S ivs s else s) in
      bindR (sj_tick S (tick_to_inputs t strip_memory) s') (\<lambda>(out, s'').
      bindR (if validate then validate_all se (all_frames out) else Ok ()) (\<lambda>_.
        Ok (outs @ [out], ids', s'')))))"

definition run_ticks ::
  "schema_checker \<Rightarrow> 's subject \<Rightarrow> bool \<Rightarrow> bool \<Rightarrow> schedule option \<Rightarrow> tick list \<Rightarrow> 's \<Rightarrow>
   (psyche_outputs list \<times> json list \<times> 's) result" where
  "run_ticks se S validate strip_memory sched ticks s =
     foldR (run_tick se S validate strip_memory sched) ([], [], s) ticks"

text \<open>\<open>any(t.memory for t in ticks)\<close>: an absent or empty memory frame is false.\<close>

definition memory_present :: "tick list \<Rightarrow> bool" where
  "memory_present ticks = list_ex (\<lambda>t. case tk_memory t of None \<Rightarrow> False | Some m \<Rightarrow> m \<noteq> []) ticks"

definition harness_run ::
  "schema_checker \<Rightarrow> 's subject \<Rightarrow> bool \<Rightarrow> dict list \<Rightarrow> bool \<Rightarrow> schedule option \<Rightarrow> 's \<Rightarrow> (replay_result \<times> 's) result" where
  "harness_run se S validate input_frames strip_memory sched s =
     bindR (if validate then validate_all se input_frames else Ok ()) (\<lambda>_.
     let ticks = group_into_ticks input_frames in
     bindR (run_ticks se S validate strip_memory sched ticks (sj_reset S s)) (\<lambda>(outs, ids, s').
     bindR (score se (case ticks of [] \<Rightarrow> JNull | t # _ \<Rightarrow> dget (tk_world t) ''run_id'') input_frames outs
              (JInt (int (length ids))) (memory_present ticks \<and> \<not> strip_memory)) (\<lambda>evidence.
     bindR (if validate then bindR (validate_or_raise se evidence) (\<lambda>_. Ok ()) else Ok ()) (\<lambda>_.
       Ok (\<lparr>rr_output_frames = concat (map all_frames outs), rr_evidence_frame = evidence, rr_tick_outputs = outs,
            rr_input_count = length input_frames, rr_tick_count = length ticks,
            rr_interventions_seen = sum_list (map (\<lambda>t. length (tk_interventions t)) ticks),
            rr_interventions_executed = length ids\<rparr>, s')))))"

section \<open>The psyche contract\<close>

text \<open>
  What a faithful psyche promises: \<open>reset\<close> forgets everything, and interventions whose operation is
  the null operation \<open>restore\<close> have no effect on what it emits. The relation \<open>sim\<close> says which
  states the psyche treats alike.
\<close>

definition rel_step ::
  "('s \<Rightarrow> 's \<Rightarrow> bool) \<Rightarrow> (psyche_outputs \<times> 's) result \<Rightarrow> (psyche_outputs \<times> 's) result \<Rightarrow> bool" where
  "rel_step sim x y =
     (case (x, y) of (Inl e, Inl f) \<Rightarrow> e = f | (Inr (o1, s), Inr (o2, t)) \<Rightarrow> o1 = o2 \<and> sim s t | _ \<Rightarrow> False)"

text \<open>The outputs of a loop, or its exception.\<close>

definition outputs_of :: "(psyche_outputs list \<times> json list \<times> 's) result \<Rightarrow> psyche_outputs list result" where
  "outputs_of r = map_sum id fst r"

definition hashable_ids :: "dict list \<Rightarrow> bool" where
  "hashable_ids ivs \<longleftrightarrow> (\<forall>iv\<in>set ivs. case dget iv ''experiment_id'' of JList _ \<Rightarrow> False | JObj _ \<Rightarrow> False | _ \<Rightarrow> True)"

text \<open>An intervention with an object target and a hashable id, as its schema demands.\<close>

definition wf_intervention :: "dict \<Rightarrow> bool" where
  "wf_intervention iv \<longleftrightarrow> target_ok iv \<and> hashable_ids [iv]"

definition wf_schedule :: "schedule \<Rightarrow> bool" where
  "wf_schedule windows \<longleftrightarrow> (\<forall>ivs\<in>set windows. \<forall>iv\<in>set ivs. wf_intervention iv)"

lemma add_ids_total:
  "hashable_ids ivs \<Longrightarrow> \<exists>ids'. add_ids ids ivs = Ok ids'"
proof (induction ivs arbitrary: ids)
  case Nil
  then show ?case by (simp add: add_ids_def)
next
  case (Cons iv ivs)
  then have "hashable_ids ivs" and "\<exists>v. hashable (dget iv ''experiment_id'') = Ok v"
    by (auto simp: hashable_ids_def hashable_def split: json.splits)
  with Cons.IH show ?case
    by (auto simp: add_ids_def)
qed

lemma hashable_ids_neutralize: "hashable_ids (map neutralize ivs) = hashable_ids ivs"
  by (simp add: hashable_ids_def neutralize_def)

lemma active_wf: "wf_schedule w \<Longrightarrow> iv \<in> set (active w i) \<Longrightarrow> wf_intervention iv"
  by (auto simp: wf_schedule_def active_def split: if_splits)

locale resettable_subject =
  fixes S :: "'s subject"
  assumes reset_forgets: "sj_reset S s = sj_reset S t"
begin

text \<open>A replay depends on its inputs alone: not on the instance, nor on what ran before it.\<close>

lemma replay_deterministic:
  "map_sum id fst (harness_run se S v frames sm sched s) = map_sum id fst (harness_run se S v frames sm sched t)"
  unfolding harness_run_def reset_forgets [of s t] ..

end

locale psyche_under_test = resettable_subject S for S :: "'s subject" +
  fixes sim :: "'s \<Rightarrow> 's \<Rightarrow> bool"
  assumes sim_refl: "sim s s"
    and restore_is_null:
      "sim s t \<Longrightarrow> \<forall>iv\<in>set ivs. neutral iv \<Longrightarrow>
       rel_step sim (sj_tick S i (sj_set_active S ivs s)) (sj_tick S i (sj_set_active S [] t))"
    and tick_sim: "sim s t \<Longrightarrow> \<not> sj_perturbable S \<Longrightarrow> rel_step sim (sj_tick S i s) (sj_tick S i t)"
begin

lemma run_tick_null:
  assumes "sim s t" and "wf_schedule w"
  shows "case (run_tick se S v sm (Some (neutralized w)) (outs, ids, s) tk, run_tick se S v sm None (outs, ids2, t) tk) of
           (Inl e, Inl f) \<Rightarrow> e = f
         | (Inr (o1, _, s1), Inr (o2, _, t1)) \<Rightarrow> o1 = o2 \<and> sim s1 t1
         | _ \<Rightarrow> False"
proof (cases "sj_perturbable S")
  case True
  define ivs where "ivs = active (neutralized w) (tk_index tk)"
  have n: "\<forall>iv\<in>set ivs. neutral iv"
    using active_wf [OF assms(2)] neutral_neutralize unfolding ivs_def active_neutralized wf_intervention_def by fastforce
  have "hashable_ids ivs"
    unfolding ivs_def active_neutralized hashable_ids_neutralize
    using active_wf [OF assms(2), of _ "tk_index tk"] by (simp add: wf_intervention_def hashable_ids_def)
  then obtain ids' where ids': "add_ids ids ivs = Ok ids'"
    using add_ids_total by blast
  have "add_ids ids2 [] = Ok ids2"
    by (simp add: add_ids_def)
  then show ?thesis
    using restore_is_null [OF assms(1) n, of "tick_to_inputs tk sm"] ids' True
    by (auto simp: run_tick_def Let_def active_at_def ivs_def rel_step_def bindR_def split: sum.splits prod.splits)
next
  case False
  then show ?thesis
    using tick_sim [OF assms(1) False, of "tick_to_inputs tk sm"]
    by (auto simp: run_tick_def Let_def rel_step_def bindR_def split: sum.splits prod.splits)
qed

text \<open>The neutralized replay emits exactly what the control replay emits, exceptions included.\<close>

lemma null_replay:
  assumes "sim s t" and "wf_schedule w"
  shows "outputs_of (foldR (run_tick se S v sm (Some (neutralized w))) (outs, ids, s) ticks)
       = outputs_of (foldR (run_tick se S v sm None) (outs, ids2, t) ticks)"
  using assms(1)
proof (induction ticks arbitrary: outs ids ids2 s t)
  case Nil
  then show ?case by (simp add: outputs_of_def)
next
  case (Cons tk ticks)
  note step = run_tick_null [OF Cons.prems assms(2), of se v sm outs ids tk ids2]
  show ?case
  proof (cases "run_tick se S v sm None (outs, ids2, t) tk")
    case (Inl e)
    with step show ?thesis by (simp add: outputs_of_def split: sum.splits)
  next
    case (Inr r)
    with step obtain o1 i1 s1 i2 t1 where
      "run_tick se S v sm (Some (neutralized w)) (outs, ids, s) tk = Inr (o1, i1, s1)" "r = (o1, i2, t1)" "sim s1 t1"
      by (auto split: sum.splits prod.splits)
    with Inr Cons.IH [of s1 t1 o1 i1 i2] show ?thesis by simp
  qed
qed

lemma null_run:
  assumes "wf_schedule w"
  shows "outputs_of (run_ticks se S v sm (Some (neutralized w)) ticks (sj_reset S s))
       = outputs_of (run_ticks se S v sm None ticks (sj_reset S t))"
  unfolding run_ticks_def reset_forgets [of s t] using null_replay [OF sim_refl assms] .

end

end
