(* ===== verification/Runner.thy ===== *)
theory Runner
  imports Harness
begin

text \<open>
  The paired runner (\<open>interventions/runner.py\<close>) and the certification of subject factories
  (\<open>interventions/certified_subjects.py\<close>). The runner drives control, treated and null replays in three
  counterbalanced orders over one subject state, issues provenance and scores the first pass.
\<close>

section \<open>Paired replay\<close>

text \<open>
  A factory: its identity (what \<open>is\<close> and \<open>in\<close> compare), its names, what calling it gives. A factory
  whose call raises is not constructible.
\<close>

record 's factory =
  fc_key :: nat
  fc_names :: factory_names
  fc_constructible :: bool
  fc_is_psyche :: bool
  fc_subject :: "'s subject"

text \<open>The identity of the class \<open>ReferencePsyche\<close>.\<close>

definition REFERENCE_KEY :: nat where "REFERENCE_KEY = 0"

type_synonym registry = "nat list"

definition is_certified :: "registry \<Rightarrow> 's factory \<Rightarrow> bool" where
  "is_certified reg f \<longleftrightarrow> fc_key f \<in> set reg"

record paired_result =
  pr_control :: replay_result
  pr_treated :: replay_result
  pr_null :: replay_result
  pr_report :: dict
  pr_evidence_frame :: dict

text \<open>\<open>_run\<close>: a fresh psyche from the factory, driven by a new harness.\<close>

definition run_arm ::
  "schema_checker \<Rightarrow> 's subject \<Rightarrow> bool \<Rightarrow> dict list \<Rightarrow> schedule option \<Rightarrow> 's \<Rightarrow> (replay_result \<times> 's) result" where
  "run_arm se S validate frames sched s = harness_run se S validate frames False sched (sj_new S s)"

definition arm_schedule :: "schedule \<Rightarrow> string \<Rightarrow> schedule option" where
  "arm_schedule sched arm =
     (if arm = ''control'' then None else if arm = ''treated'' then Some sched else Some (neutralized sched))"

text \<open>One pass: the arms in the given order, each on the state the one before left.\<close>

fun run_pass ::
  "schema_checker \<Rightarrow> 's subject \<Rightarrow> bool \<Rightarrow> dict list \<Rightarrow> schedule \<Rightarrow> string list \<Rightarrow> 's \<Rightarrow>
   ((string \<times> replay_result) list \<times> 's) result" where
  "run_pass se S validate frames sched [] s = Ok ([], s)"
| "run_pass se S validate frames sched (arm # order) s =
     bindR (run_arm se S validate frames (arm_schedule sched arm) s) (\<lambda>(r, s').
     bindR (run_pass se S validate frames sched order s') (\<lambda>(rs, s''). Ok ((arm, r) # rs, s'')))"

fun run_passes ::
  "schema_checker \<Rightarrow> 's subject \<Rightarrow> bool \<Rightarrow> dict list \<Rightarrow> schedule \<Rightarrow> string list list \<Rightarrow> 's \<Rightarrow>
   ((string \<times> replay_result) list list \<times> 's) result" where
  "run_passes se S validate frames sched [] s = Ok ([], s)"
| "run_passes se S validate frames sched (order # orders) s =
     bindR (run_pass se S validate frames sched order s) (\<lambda>(p, s').
     bindR (run_passes se S validate frames sched orders s') (\<lambda>(ps, s''). Ok (p # ps, s'')))"

text \<open>\<open>replay_pass[arm]\<close>\<close>

definition arm_of :: "(string \<times> replay_result) list \<Rightarrow> string \<Rightarrow> replay_result result" where
  "arm_of replay_pass arm = (case map_of replay_pass arm of None \<Rightarrow> Raise KeyError | Some r \<Rightarrow> Ok r)"

definition frames_run_id :: "dict list \<Rightarrow> json" where
  "frames_run_id frames =
     (case filter is_world frames of
        f # _ \<Rightarrow> dget f ''run_id''
      | [] \<Rightarrow> (case frames of [] \<Rightarrow> JNull | f # _ \<Rightarrow> dget f ''run_id''))"

definition paired_run ::
  "schema_checker \<Rightarrow> registry \<Rightarrow> 's factory \<Rightarrow> bool \<Rightarrow> dict list \<Rightarrow> 's \<Rightarrow> (paired_result \<times> 's) result" where
  "paired_run se reg f validate frames s =
     bindR (schedule_from_frames frames) (\<lambda>sched.
     bindR (run_passes se (fc_subject f) validate frames sched COUNTERBALANCED_ORDERS s) (\<lambda>(passes, s').
     bindR (arm_of (hd passes) ''control'') (\<lambda>control.
     bindR (arm_of (hd passes) ''treated'') (\<lambda>treated.
     bindR (arm_of (hd passes) ''null'') (\<lambda>nul.
     bindR (issue frames (map (map (\<lambda>(arm, r). (arm, rr_tick_outputs r))) passes) (fc_names f)
              (fc_key f = REFERENCE_KEY \<or> is_certified reg f)) (\<lambda>prov.
     bindR (score_paired_runner_verified se (frames_run_id frames) frames (rr_tick_outputs control)
              (rr_tick_outputs treated) (rr_tick_outputs nul) (JInt (int (rr_interventions_executed treated)))
              (memory_present (group_into_ticks frames)) prov) (\<lambda>(evidence, report).
     bindR (if validate then bindR (validate_or_raise se evidence) (\<lambda>_. Ok ()) else Ok ()) (\<lambda>_.
       Ok (\<lparr>pr_control = control, pr_treated = treated, pr_null = nul, pr_report = report,
            pr_evidence_frame = evidence\<rparr>, s')))))))))"

section \<open>Certification\<close>

definition replay_digest :: "schema_checker \<Rightarrow> 's subject \<Rightarrow> dict list \<Rightarrow> 's \<Rightarrow> (string \<times> 's) result" where
  "replay_digest se S probe s =
     bindR (harness_run se S True probe False None s) (\<lambda>(r, s').
     bindR (output_frames_sha256 (rr_tick_outputs r)) (\<lambda>h. Ok (h, s')))"

record certificate =
  cf_passed :: bool
  cf_clone_equivalent :: bool
  cf_reset_deterministic :: bool
  cf_ordinal_invariant :: bool
  cf_implements_interface :: bool
  cf_subject_factory :: string

definition certify_fail :: "'s factory \<Rightarrow> certificate" where
  "certify_fail f =
     \<lparr>cf_passed = False, cf_clone_equivalent = False, cf_reset_deterministic = False, cf_ordinal_invariant = False,
      cf_implements_interface = False, cf_subject_factory = subject_factory_identity (fc_names f)\<rparr>"

definition implements_interface :: "'s factory \<Rightarrow> bool" where
  "implements_interface f \<longleftrightarrow> fc_is_psyche f \<and> sj_perturbable (fc_subject f)"

definition ordinal_flag :: "dict \<Rightarrow> bool result" where
  "ordinal_flag evidence =
     (case map_of evidence ''paired_replay_provenance'' of
        None \<Rightarrow> Raise KeyError
      | Some (JObj p) \<Rightarrow> (case map_of p ''ordinal_invariant'' of None \<Rightarrow> Raise KeyError | Some v \<Rightarrow> Ok (v = JBool True))
      | Some _ \<Rightarrow> Raise TypeError)"

definition certify ::
  "schema_checker \<Rightarrow> 's factory \<Rightarrow> dict list \<Rightarrow> registry \<Rightarrow> 's \<Rightarrow> (certificate \<times> registry \<times> 's) result" where
  "certify se f probe reg s =
     (let S = fc_subject f in
      if \<not> fc_constructible f then Ok (certify_fail f, reg, s)
      else if \<not> implements_interface f then Ok (certify_fail f, reg, sj_new S s)
      else
        bindR (replay_digest se S probe (sj_new S (sj_new S s))) (\<lambda>(c1, s1).
        bindR (replay_digest se S probe (sj_new S s1)) (\<lambda>(c2, s2).
        bindR (replay_digest se S probe (sj_new S s2)) (\<lambda>(d1, s3).
        bindR (replay_digest se S probe s3) (\<lambda>(d2, s4).
        bindR (paired_run se reg f True probe s4) (\<lambda>(pr, s5).
        bindR (ordinal_flag (pr_evidence_frame pr)) (\<lambda>ordinal.
        let ok = (c1 = c2 \<and> d1 = d2 \<and> ordinal) in
        Ok (\<lparr>cf_passed = ok, cf_clone_equivalent = (c1 = c2), cf_reset_deterministic = (d1 = d2),
             cf_ordinal_invariant = ordinal, cf_implements_interface = True,
             cf_subject_factory = subject_factory_identity (fc_names f)\<rparr>,
            if ok then (if fc_key f \<in> set reg then reg else fc_key f # reg) else reg, s5))))))))"

section \<open>Facts about lawful subjects\<close>

context resettable_subject
begin

lemma replay_digest_same:
  "map_sum id fst (replay_digest se S probe s) = map_sum id fst (replay_digest se S probe t)"
proof -
  have *: "map_sum id fst (bindR x (\<lambda>(r, s'). bindR (g r) (\<lambda>h. Ok (h, s')))) = bindR (map_sum id fst x) g" for x :: "(replay_result \<times> 's) result" and g :: "replay_result \<Rightarrow> string result"
    by (cases x) (auto simp: bindR_def split: sum.splits prod.splits)
  show ?thesis
    unfolding replay_digest_def * replay_deterministic [of se True probe False None s t] ..
qed

lemma run_arm_same:
  "run_arm se S v frames sched s = Ok (r, s') \<Longrightarrow> run_arm se S v frames sched t = Ok (r2, t') \<Longrightarrow> r = r2"
  using replay_deterministic [of se v frames False sched "sj_new S s" "sj_new S t"]
  by (simp add: run_arm_def)

text \<open>The result of an arm does not depend on the pass it ran in.\<close>

lemma run_pass_arms:
  assumes "run_pass se S v frames sched order s = Ok (rs, s')" and "(arm, r) \<in> set rs"
  shows "\<exists>u u'. run_arm se S v frames (arm_schedule sched arm) u = Ok (r, u')"
  using assms by (induction order arbitrary: s rs) (auto simp: result_simps, blast)

lemma run_passes_arms:
  assumes "run_passes se S v frames sched orders s = Ok (ps, s')" and "p \<in> set ps" and "(arm, r) \<in> set p"
  shows "\<exists>u u'. run_arm se S v frames (arm_schedule sched arm) u = Ok (r, u')"
  using assms
proof (induction orders arbitrary: s ps)
  case (Cons order orders)
  then show ?case
    using run_pass_arms by (auto simp: result_simps)
qed simp

lemma passes_agree:
  assumes "run_passes se S v frames sched orders s = Ok (ps, s')" and "p \<in> set ps" and "q \<in> set ps"
    and "(arm, r) \<in> set p" and "(arm, r2) \<in> set q"
  shows "r = r2"
  using run_passes_arms [OF assms(1,2,4)] run_passes_arms [OF assms(1,3,5)] run_arm_same by blast

end

end
