(* ===== verification/Subjects.thy ===== *)
theory Subjects
  imports ReferenceInvariant HollowPsyche Runner
begin

text \<open>
  The two psyches of the repository as subjects of the harness, and the proof that each keeps the
  contract of a psyche under test.
\<close>

definition reference_subject :: "(flt \<Rightarrow> flt) \<Rightarrow> psyche subject" where
  "reference_subject mexp =
     \<lparr>sj_new = (\<lambda>_. reset_psyche), sj_reset = (\<lambda>_. reset_psyche), sj_perturbable = True,
      sj_set_active = set_active_interventions, sj_tick = ReferenceTick.tick mexp\<rparr>"

definition hollow_subject :: "hollow subject" where
  "hollow_subject =
     \<lparr>sj_new = (\<lambda>_. hollow_reset), sj_reset = (\<lambda>_. hollow_reset), sj_perturbable = True,
      sj_set_active = hollow_set_active_interventions, sj_tick = hollow_tick\<rparr>"

lemma same_result_rel_step: "same_result = rel_step same_interior"
  by (intro ext) (simp add: same_result_def rel_step_def)

lemma same_result_trans: "same_result x y \<Longrightarrow> same_result y z \<Longrightarrow> same_result x z"
  by (simp add: same_result_iff)

lemma same_result_refl: "same_result x x"
  by (simp add: same_result_iff)

lemma reference_restore_is_null:
  assumes "same_interior s t" and "\<forall>iv\<in>set ivs. neutral iv"
  shows "same_result (ReferenceTick.tick mexp i (set_active_interventions ivs s))
           (ReferenceTick.tick mexp i (set_active_interventions [] t))"
proof -
  have "(set_active_interventions ivs s)\<lparr>pert := []\<rparr> = set_active_interventions [] t"
    using assms(1) by (simp add: set_active_interventions_def same_interior_def)
  moreover have "\<forall>iv\<in>set (pert (set_active_interventions ivs s)). neutral iv"
    using assms(2) by (simp add: set_active_interventions_def)
  ultimately show ?thesis
    using tick_neutral by metis
qed

interpretation ref: psyche_under_test "reference_subject mexp" same_interior for mexp
proof
  fix s t :: psyche and i :: psyche_inputs and ivs :: "dict list"
  show "sj_reset (reference_subject mexp) s = sj_reset (reference_subject mexp) t"
    by (simp add: reference_subject_def)
  show "same_interior s s"
    by (simp add: same_interior_def)
  show "rel_step same_interior (sj_tick (reference_subject mexp) i (sj_set_active (reference_subject mexp) ivs s))
          (sj_tick (reference_subject mexp) i (sj_set_active (reference_subject mexp) [] t))"
    if "same_interior s t" and "\<forall>iv\<in>set ivs. neutral iv"
    using reference_restore_is_null [OF that] by (simp add: reference_subject_def same_result_rel_step)
  show "rel_step same_interior (sj_tick (reference_subject mexp) i s) (sj_tick (reference_subject mexp) i t)"
    if "same_interior s t" and "\<not> sj_perturbable (reference_subject mexp)"
    using that(2) by (simp add: reference_subject_def)
qed

interpretation hol: psyche_under_test hollow_subject "(=)"
  by unfold_locales
     (auto simp: hollow_subject_def hollow_set_active_interventions_def rel_step_def split: sum.splits prod.splits)

end
