(* ===== verification/EvidenceProps.thy ===== *)
theory EvidenceProps
  imports Ladder Subjects
begin

text \<open>
  Properties of the evidence ladder over the whole scorer: single replays, raw paired outputs, the
  soundness of Level 4, and the hollow psyche, which never leaves Level 0.
\<close>

section \<open>Lemmas\<close>

lemma score_core_below_4:
  assumes "score_core se r outs m g pf = Ok fr" and "\<not> (promotion_ready g \<and> pf_null_passed pf)"
  shows "\<exists>n. dget fr ''evidence_level'' = JInt n \<and> 0 \<le> n \<and> n \<le> 3"
    and "dget fr ''audit_status'' \<noteq> JStr ''internally_audited''"
proof -
  obtain n where n: "dget fr ''evidence_level'' = JInt n" "0 \<le> n" "n \<le> 4"
    using audit_iff_level4(2) [OF assms(1)] by blast
  have "n \<noteq> 4"
    using level4_requires [OF assms(1)] assms(2) n by auto
  with n show "\<exists>n. dget fr ''evidence_level'' = JInt n \<and> 0 \<le> n \<and> n \<le> 3"
    by auto
  show "dget fr ''audit_status'' \<noteq> JStr ''internally_audited''"
    using audit_iff_level4(1) [OF assms(1)] n \<open>n \<noteq> 4\<close> by auto
qed

lemma scoreE:
  assumes "score se rq fs outs ex m = Ok fr"
  obtains r where "score_core se r outs m (intervention_gate fs ex JNull [] []) single_facts = Ok fr"
    and "\<forall>f\<in>set fs. is_valid se f" and "\<forall>out\<in>set outs. \<forall>f\<in>set (all_frames out). is_valid se f"
  using assms by (auto simp: score_def result_simps validate_source_frames_def validate_all_Ok)

lemma score_paired_withE:
  assumes "score_paired_with se rq fs c t n ex m prov = Ok (ev, rep)"
  obtains r tests whole changed prec perr where
    "compare_arms fs c t n = Ok (tests, whole, changed)"
    "case prov of None \<Rightarrow> perr \<noteq> [] | Some p \<Rightarrow> integrity_errors p fs c t n = Ok perr \<and> prec = provenance_record p"
    "score_core se r c m (intervention_gate fs ex (report_summary tests) tests perr)
       \<lparr>pf_tests = report_summary tests, pf_null_passed = null_ok tests (null_output_equivalent c n),
        pf_trace_complete = whole, pf_report_changed = changed, pf_provenance = prec\<rparr> = Ok ev"
    "rep = dset (build_intervention_report r tests whole changed (null_output_equivalent c n))
             ''paired_replay_provenance'' prec"
  using assms unfolding score_paired_with_def Let_def
  by (elim bindR_Inr_elim prod_case_elim) (cases prov; force simp: result_simps intro: that)

lemma compare_armsE:
  assumes "compare_arms fs c t n = Ok (tests, whole, changed)"
  obtains schedule expected target where
    "mapR (\<lambda>iv. evaluate_intervention iv c t n) (fst (unique_intervention_frames fs)) = Ok tests"
    "schedule_from_frames fs = Ok schedule"
    "mapR (\<lambda>i. records (active schedule i)) [0..<length t] = Ok expected"
    "whole \<longrightarrow> treated_trace_is_complete t expected = Ok True"
    "whole \<longrightarrow> unperturbed_traces_are_clean [c, n]"
    "target_signal_of (fst (unique_intervention_frames fs)) = Ok target"
    "reports_track_target_signal c t target = Ok changed"
  using assms unfolding compare_arms_def Let_def
  by (elim bindR_Inr_elim) (auto intro: that)

lemma string_ids_passed:
  "fst (string_ids (JList xs) l) \<noteq> [] \<Longrightarrow> fst (string_ids (JList xs) l) = map str_of xs \<and> list_all is_str xs"
  by (auto simp: string_ids_def split: if_splits)

text \<open>A ready gate over evaluated tests: one named intervention that passed and moved its signal.\<close>

lemma gate_ready:
  assumes ready: "promotion_ready (intervention_gate fs ex (report_summary tests) tests perr)"
    and run: "mapR (\<lambda>iv. evaluate_intervention iv c t n) (fst (unique_intervention_frames fs)) = Ok tests"
  shows "\<exists>iv eid r. fst (unique_intervention_frames fs) = [iv] \<and> tests = [r] \<and> dget iv ''experiment_id'' = JStr eid \<and>
           eid \<noteq> [] \<and> ex = JInt 1 \<and> dget iv ''operation'' \<noteq> JStr ''restore'' \<and>
           evaluate_intervention iv c t n = Ok r \<and> tr_passed r \<and>
           flt_less (lit (1 / 10 ^ 6)) (fabs (tr_observed_delta r)) \<and> perr = []"
proof -
  let ?g = "intervention_gate fs ex (report_summary tests) tests perr"
  let ?u = "fst (unique_intervention_frames fs)"
  have clean: "inventory_errors ?g = []" and perr: "perr = []"
    using ready unfolding promotion_ready_def integrity_ok_def gate_integrity_errors_def gate_fields append_is_Nil_conv
    by blast+
  note g = gate_clean [OF clean]
  have "length ?u = 1"
    using g(1,7) by (simp add: registered_ids_def filter_True)
  then obtain iv where u: "?u = [iv]"
    by (cases ?u) auto
  obtain r where r: "evaluate_intervention iv c t n = Ok r" and tests: "tests = [r]"
    using run by (auto simp: u result_simps)
  have named: "named_experiment iv"
    using g(7) u by simp
  then obtain eid where eid: "dget iv ''experiment_id'' = JStr eid" "eid \<noteq> []"
    by (auto simp: named_experiment_def split: json.splits)
  have "passed ?g \<noteq> []"
    using ready by (simp add: promotion_ready_def)
  then have "summary_passed tests \<noteq> []"
    by (auto simp: gate_fields report_summary_def string_ids_def split: if_splits)
  then have "tr_passed r"
    by (auto simp: summary_passed_def tests split: if_splits)
  moreover have "genuine_perturbation ?g"
    using ready by (simp add: promotion_ready_def)
  then have "\<not> py_eq (tr_operation r) (JStr ''restore'') \<and> flt_less (lit (1 / 10 ^ 6)) (fabs (tr_observed_delta r))"
    unfolding gate_genuine tests unfolding list_ex_iff by auto
  ultimately show ?thesis
    using u tests eid r evaluate_keeps_id [OF r] g(2) perr unfolding py_eq_JStr by metis
qed

subsection \<open>The hollow psyche\<close>

lemma hollow_no_behavior: "tick_changes_behavior (hollow_outputs i h) = Ok False"
  by (simp add: tick_changes_behavior_def hollow_pressure_frame_def hollow_trace_frame_def py_items_def fdict_json_def
        ZERO_PRESSURES_def path_node_def hashable_def py_float_def)

lemma hollow_no_anchors: "carries_anchors (psyche_state (hollow_outputs i h)) = Ok False"
  by (simp add: carries_anchors_def hollow_state_frame_def nested_get_def py_or_def json_gt0_def as_int_def)

lemma hollow_level1: "\<forall>out\<in>set outs. \<exists>i h. out = hollow_outputs i h \<Longrightarrow> level1_signal_changes_behavior outs = Ok False"
  unfolding level1_signal_changes_behavior_def using hollow_no_behavior
  by (subst anyR_total [where q = "\<lambda>_. False"]) auto

lemma hollow_level2: "\<forall>out\<in>set outs. \<exists>i h. out = hollow_outputs i h \<Longrightarrow> level2_readback_changed_output outs = Ok False"
proof -
  assume a: "\<forall>out\<in>set outs. \<exists>i h. out = hollow_outputs i h"
  have "anyR (\<lambda>out. carries_anchors (psyche_state out)) outs = Ok False"
    using a hollow_no_anchors by (subst anyR_total [where q = "\<lambda>_. False"]) auto
  moreover have "concat (map instinct_signals outs) = []"
    using a by auto
  ultimately show ?thesis
    by (simp add: level2_readback_changed_output_def del: concat_eq_Nil_conv)
qed

lemma hollow_level_0:
  assumes "score_core se r outs m g pf = Ok fr" and "\<forall>out\<in>set outs. \<exists>i h. out = hollow_outputs i h"
  shows "dget fr ''evidence_level'' = JInt 0"
  using assms(1)
proof (rule score_coreE)
  fix families l1 l2 risk u
  assume l1: "level1_signal_changes_behavior outs = Ok l1"
    and l2: "(if m then level2_readback_changed_output outs else Ok False) = Ok l2"
    and fr: "fr = evidence_frame r outs g (pf_provenance pf) families
            (ladder l1 l2 (level3 l1 l2 families) (level4 (level3 l1 l2 families) g pf risk))
            (level4 (level3 l1 l2 families) g pf risk)
            (missing_requirements (ladder l1 l2 (level3 l1 l2 families) (level4 (level3 l1 l2 families) g pf risk))
               families m l2 (pf_tests pf) (passed g) (failed g) (pf_null_passed pf) (pf_trace_complete pf)
               (pf_report_changed pf) (flt_le risk CONFAB_MAX_FOR_L4) g) risk u"
  have "\<not> l1" and "\<not> l2"
    using l1 l2 hollow_level1 [OF assms(2)] hollow_level2 [OF assms(2)] by (auto split: if_splits)
  then show ?thesis
    unfolding fr dget_evidence_frame by (simp add: ladder_def level3_def level4_def)
qed

lemma hollow_run_outputs:
  assumes "run_ticks se hollow_subject v sm sched ticks s = Ok (outs, ids, s')"
  shows "\<forall>out\<in>set outs. \<exists>i h. out = hollow_outputs i h"
proof -
  let ?I = "\<lambda>(outs, ids :: json list, s :: hollow). \<forall>out\<in>set outs. \<exists>i h. out = hollow_outputs i h"
  have "?I (outs, ids, s')"
    using assms unfolding run_ticks_def
  proof (rule foldR_invariant)
    fix a b and x :: tick
    assume "?I a" and "run_tick se hollow_subject v sm sched a x = Inr b"
    then show "?I b"
      by (cases a) (fastforce simp: run_tick_def Let_def result_simps hollow_subject_def hollow_tick_def)
  qed simp
  then show ?thesis by simp
qed

subsection \<open>Concrete timelines\<close>

text \<open>A schema checker that accepts every frame, and the shortest timeline with a run id.\<close>

definition accept_all :: schema_checker where
  "accept_all kind frame = []"

definition one_world :: dict where
  "one_world = [(''frame_kind'', JStr ''world''), (''run_id'', JStr ''r'')]"

lemma one_world_ticks:
  "group_into_ticks [one_world] =
     [\<lparr>tk_index = 0, tk_world = one_world, tk_agent_trace = None, tk_memory = None, tk_governance = None, tk_interventions = []\<rparr>]"
  by (simp add: group_into_ticks_def tick_step_def one_world_def frame_kind_def)

lemma one_world_valid: "validate_all accept_all [one_world] = Ok ()"
  by (simp add: validate_all_Ok is_valid_def iter_errors_def accept_all_def one_world_def FRAME_KINDS_def)

lemma evidence_frame_kind:
  "dget (evidence_frame r outs g pv fams lv l4 missing risk u) ''frame_kind'' = JStr ''consciousness_evidence''"
  by (simp add: evidence_frame_def)

lemma accept_all_valid:
  "dget f ''frame_kind'' = JStr k \<Longrightarrow> k \<in> set FRAME_KINDS \<Longrightarrow> all_finite (JObj f) \<Longrightarrow> is_valid accept_all f"
  by (simp add: is_valid_def iter_errors_def accept_all_def non_finite_errors_iff del: all_finite.simps non_finite_errors.simps)

end
