(* ===== verification/PsycheProps.thy ===== *)
theory PsycheProps
  imports Subjects
begin

text \<open>
  Properties of whole replays of the reference psyche: the range invariant and the hash chain along
  a run, the binding of every report to its own tick, the absence of intervention receipts in
  unperturbed runs, and a concrete tick on which the hypotheses of these properties hold.
\<close>

section \<open>A concrete tick\<close>

definition sample_world :: dict where
  "sample_world = [(''frame_kind'', JStr ''world''), (''run_id'', JStr ''r'')]"

definition sample_inputs :: psyche_inputs where
  "sample_inputs = \<lparr>in_world = sample_world, in_tick_index = 0, in_agent_trace = None, in_memory = None, in_governance = None\<rparr>"

definition sample_tick :: Frames.tick where
  "sample_tick = \<lparr>tk_index = 0, tk_world = sample_world, tk_agent_trace = None, tk_memory = None, tk_governance = None,
                  tk_interventions = []\<rparr>"

text \<open>A null intervention and one with a finite scalar value.\<close>

definition sample_restore :: dict where
  "sample_restore = [(''experiment_id'', JStr ''e''), (''operation'', JStr ''restore''),
                     (''target'', JObj [(''subsystem'', JStr ''drives'')])]"

lemma scar_threshold: "flt_le (lit (15 / 100)) (Num 0) = False"
  by code_simp

lemma sample_appraise:
  "\<exists>ap oc c refs. appraise reset_psyche sample_world [] [] [] d = Ok (ap, oc, c, refs) \<and> cx_scar_strength c = Num 0 \<and>
     cx_errors c = 0 \<and> \<not> cx_is_fail c"
  by (simp add: appraise_def sample_world_def Let_def get_or_empty_def py_or_def jget_int_def jget_float_def py_int_def
        py_float_def float_of_int_def appraise_uncertainty_def third_of_len_def py_len_def appraise_scars_def
        reset_psyche_def is_ablated_def is_disabled_def appraise_competence_def is_dict_def is_number_def
        clip01_def flt_less_def fint_def mkf_def)

lemma reset_pert [simp]: "pert reset_psyche = []" "drives_of reset_psyche = new_drives"
  by (simp_all add: reset_psyche_def Let_def)

lemma instinct_silent:
  "\<not> flt_le (lit (15 / 100)) (cx_scar_strength c) \<Longrightarrow> cx_errors c = 0 \<Longrightarrow> \<not> cx_is_fail c \<Longrightarrow>
   instinct s c w m d = Ok ([], scars s)"
  by (simp add: instinct_def Let_def)

lemma compete_unperturbed: "pert s = [] \<Longrightarrow> \<exists>b. compete s c p d = Ok b"
  by (simp add: compete_def is_disabled_def Let_def case_prod_beta)

lemma read_anchors_empty: "read_anchors [] [] = Ok []"
  by (simp add: read_anchors_def)

lemma sample_stages: "\<exists>st. tick_stages mexp sample_inputs reset_psyche = Ok st"
proof -
  obtain ap oc c refs where
    a: "appraise reset_psyche sample_world [] [] [] (domain_of sample_world) = Ok (ap, oc, c, refs)"
    and c: "cx_scar_strength c = Num 0" "cx_errors c = 0" "\<not> cx_is_fail c"
    using sample_appraise by blast
  obtain na where na: "next_affect reset_psyche ap (cx_scar_strength c) = Ok na"
    by (simp add: next_affect_def Let_def)
  let ?s1 = "reset_psyche\<lparr>morale := next_morale reset_psyche na\<rparr>"
  obtain nd where nd: "next_drives ?s1 oc = Ok nd"
    using drives_update_total_ok [OF new_drives_ok, of oc] by (auto simp: next_drives_def)
  obtain s2 pe where rp: "resolve_prediction ?s1 (observed_error oc) = (s2, pe)"
    by (cases "resolve_prediction ?s1 (observed_error oc)")
  have "pert s2 = []"
    using resolve_prediction_fields(3) [OF rp] by simp
  then obtain b where "compete s2 c (predicted_error_of c) (dominant mexp na (prev_dominant reset_psyche)) = Ok b"
    using compete_unperturbed by blast
  moreover have "instinct s2 c sample_world [] (domain_of sample_world) = Ok ([], scars s2)"
    using c scar_threshold by (intro instinct_silent) auto
  ultimately show ?thesis
    unfolding tick_stages_def Let_def
    using a na nd rp read_anchors_empty
    by (simp add: sample_inputs_def opt_dict_def authority_def)
qed

lemma sample_tick_runs: "\<exists>out s'. ReferenceTick.tick mexp sample_inputs reset_psyche = Ok (out, s')"
proof -
  obtain st where "tick_stages mexp sample_inputs reset_psyche = Ok st"
    using sample_stages by blast
  moreover obtain out s' where "emit mexp sample_inputs reset_psyche st = (out, s')"
    by (cases "emit mexp sample_inputs reset_psyche st")
  ultimately show ?thesis
    by (simp add: tick_def)
qed

section \<open>The frames of a tick\<close>

lemma emit_frames:
  assumes "emit mexp i s st = (out, s')"
  shows "dget (causal_trace out) ''previous_state_hash'' = JStr (prev_state_hash (commit st))"
    "dget (causal_trace out) ''new_state_hash'' = JStr (prev_state_hash s')"
    "dget (psyche_state out) ''state_hash'' = JStr (prev_state_hash s')"
    "dget (grounded_self_report out) ''affect_state_hash'' = JStr (prev_state_hash s')"
    "dget (causal_trace out) ''interventions_applied'' = JList (st_audit st)"
  using assms by (auto simp: emit_def Let_def causal_trace_frame_def psyche_state_frame_def self_report_frame_def)

lemma commit_prev_hash:
  assumes "tick_stages mexp i s = Ok st"
  shows "prev_state_hash (commit st) = prev_state_hash s"
  using assms
proof (rule tick_stagesE)
  fix ap oc
  assume "resolve_prediction (s\<lparr>morale := next_morale s (st_affect st)\<rparr>) (observed_error oc)
            = (st_resolved st, st_prediction_error st)"
  from resolve_prediction_fields(4) [OF this] show ?thesis
    by (simp add: commit_def)
qed

lemma tick_hashes:
  assumes "ReferenceTick.tick mexp i s = Ok (out, s')"
  shows "dget (causal_trace out) ''previous_state_hash'' = JStr (prev_state_hash s)"
    "dget (causal_trace out) ''new_state_hash'' = JStr (prev_state_hash s')"
    "dget (psyche_state out) ''state_hash'' = JStr (prev_state_hash s')"
  using assms
proof -
  from assms obtain st where "tick_stages mexp i s = Ok st" and em: "emit mexp i s st = (out, s')"
    by (rule tickE)
  then show "dget (causal_trace out) ''previous_state_hash'' = JStr (prev_state_hash s)"
    "dget (causal_trace out) ''new_state_hash'' = JStr (prev_state_hash s')"
    "dget (psyche_state out) ''state_hash'' = JStr (prev_state_hash s')"
    using emit_frames [OF em] commit_prev_hash by auto
qed

lemma tick_audit:
  assumes "ReferenceTick.tick mexp i s = Ok (out, s')" and "pert s = []"
  shows "dget (causal_trace out) ''interventions_applied'' = JList []"
proof -
  from assms(1) obtain st where st: "tick_stages mexp i s = Ok st" and em: "emit mexp i s st = (out, s')"
    by (rule tickE)
  from st have "records (pert s) = Ok (st_audit st)"
    by (rule tick_stagesE)
  then show ?thesis
    using emit_frames(5) [OF em] assms(2) by simp
qed

section \<open>Grounded reports\<close>

lemma dset_new: "k \<notin> fst ` set d \<Longrightarrow> dset d k v = d @ [(k, v)]"
  by (induction d k v rule: dset.induct) auto

lemma update_dict_append: "distinct (map fst (d @ e)) \<Longrightarrow> update_dict d e = d @ e"
proof (induction e arbitrary: d)
  case Nil
  then show ?case by (simp add: update_dict_def)
next
  case (Cons kv e)
  then have "dset d (fst kv) (snd kv) = d @ [kv]"
    by (simp add: dset_new)
  moreover have "update_dict (d @ [kv]) e = (d @ [kv]) @ e"
    using Cons by (intro Cons.IH) simp
  ultimately show ?case
    by (simp add: update_dict_def case_prod_beta)
qed

text \<open>The numbers a report states, as the scorer recomputes them.\<close>

definition stated :: "fdict \<Rightarrow> signal list \<Rightarrow> flt \<Rightarrow> broadcast \<Rightarrow> fdict" where
  "stated pressures sigs continuity b =
     map (\<lambda>(k, v). (''control_pressure.'' @ k, v)) pressures @
     [(''instinct.count'', fint (int (length sigs))), (''instinct.severity'', py_sum (map sg_severity sigs)),
      (''psyche_state.continuity_score'', py_round 6 continuity),
      (''workspace_broadcast.integrity'', if bc_winner b = ''suppressed'' then Num 0 else Num 1)]"

lemma pressure_names: "map fst (pressures_of c a cur sigs) =
  [''effort'', ''verification'', ''planning'', ''execution'', ''society_debate'', ''memory_consolidation'', ''exploration'',
   ''scope_narrowing'', ''strategy_switching'']"
  by (simp add: pressures_of_def Let_def)

lemma stated_distinct: "distinct (map fst (stated (pressures_of c a cur sigs) sigs2 x b))"
proof -
  have "map fst (stated p sigs2 x b) = map ((@) ''control_pressure.'') (map fst p) @
     [''instinct.count'', ''instinct.severity'', ''psyche_state.continuity_score'', ''workspace_broadcast.integrity'']" for p
    by (simp add: stated_def case_prod_beta comp_def)
  from this [of "pressures_of c a cur sigs"] show ?thesis
    unfolding pressure_names by simp
qed

lemma measurement_error_stated:
  assumes "distinct (map fst m)" and "(k, v) \<in> set m" and "is_finite v"
  shows "measurement_error (map (\<lambda>(k, v). (k, JFloat v)) m) (k, v) = Ok []"
proof -
  have "map_of (map (\<lambda>(k, v). (k, JFloat v)) m) k = Some (JFloat v)"
    using assms(1,2) by (simp add: map_of_map map_of_eq_Some_iff)
  moreover have "\<not> flt_less MEASUREMENT_EPS (fabs (fsub v v))"
  proof -
    have f: "is_finite (fabs (fsub v v))" "fval (fabs (fsub v v)) = 0"
      using fsub_self [OF assms(3)] by (cases "fsub v v"; simp add: fabs_def)+
    have "is_finite MEASUREMENT_EPS" "0 \<le> fval MEASUREMENT_EPS"
      using in_unit_lit [of "1 / 10 ^ 9"] by (simp_all add: MEASUREMENT_EPS_def in_unit_def)
    then show ?thesis
      using f by (simp add: flt_less_finite)
  qed
  ultimately show ?thesis
    using assms(3) by (simp add: measurement_error_def Let_def dget_or_def is_number_def is_bool_def py_float_def)
qed

lemma measurement_errors_stated:
  assumes m: "expected_measurements out = Ok m" and d: "distinct (map fst m)"
    and r: "dget (grounded_self_report out) ''reported_measurements'' = JObj (map (\<lambda>(k, v). (k, JFloat v)) m)"
    and fin: "\<forall>v\<in>set (map snd m). is_finite v"
  shows "measurement_errors out = Ok []"
proof -
  have "mapR (measurement_error (map (\<lambda>(k, v). (k, JFloat v)) m)) m = Ok (map (\<lambda>_. []) m)"
    using measurement_error_stated [OF d] fin by (intro mapR_total) (force simp: case_prod_beta)
  then show ?thesis
    using m r by (simp add: measurement_errors_def)
qed

lemma signal_severity_frame: "signal_severity (signal_frame g r t i) = Ok (sg_severity g)"
  by (simp add: signal_severity_def signal_frame_def py_float_def)

lemma emit_expected:
  assumes "emit mexp i s st = (out, s')"
  shows "expected_measurements out =
           Ok (stated (pressures_of (st_ctx st) (st_affect st) (st_curiosity st) (st_signals st)) (st_signals st)
                 (continuity_of (st_anchors st)) (st_broadcast st))"
    and "dget (grounded_self_report out) ''reported_measurements'' =
           JObj (map (\<lambda>(k, v). (k, JFloat v))
             (stated (pressures_of (st_ctx st) (st_affect st) (st_curiosity st) (st_signals st)) (st_signals st)
                (continuity_of (st_anchors st)) (st_broadcast st)))"
proof -
  let ?p = "pressures_of (st_ctx st) (st_affect st) (st_curiosity st) (st_signals st)"
  let ?sg = "map (\<lambda>g. signal_frame g (run_id_of (in_world i)) (timestamp_of (in_world i)) (in_tick_index i)) (st_signals st)"
  have p: "dget_or (control_pressure out) ''pressures'' (JObj []) = fdict_json ?p"
    and sg: "instinct_signals out = ?sg"
    and cs: "dget_or (psyche_state out) ''identity_continuity_state'' (JObj []) =
               JObj [(''continuity_score'', r6 (continuity_of (st_anchors st))),
                     (''anchors_carried'', JInt (int (length (st_anchors st))))]"
    and wf: "dget (workspace_broadcast out) ''winning_faculty'' = JStr (bc_winner (st_broadcast st))"
    and rm: "dget (grounded_self_report out) ''reported_measurements'' =
      JObj (map (\<lambda>(k, v). (''control_pressure.'' @ k, JFloat v)) ?p @
         [(''instinct.count'', JFloat (fint (int (length (st_signals st))))),
          (''instinct.severity'', JFloat (py_sum (map sg_severity (st_signals st)))),
          (''psyche_state.continuity_score'', r6 (continuity_of (st_anchors st))),
          (''workspace_broadcast.integrity'', JFloat (if bc_winner (st_broadcast st) = ''suppressed'' then Num 0 else Num 1))])"
    using assms by (auto simp: emit_def Let_def pressure_frame_def psyche_state_frame_def broadcast_frame_def self_report_frame_def)
  have ne: "?p \<noteq> []"
    using pressure_names [of "st_ctx st" "st_affect st" "st_curiosity st" "st_signals st"] by auto
  have pm: "mapR (\<lambda>(name, value). bindR (py_float value) (\<lambda>x. Ok (''control_pressure.'' @ name, x)))
              (map (\<lambda>(k, v). (k, JFloat v)) ?p) = Ok (map (\<lambda>(k, v). (''control_pressure.'' @ k, v)) ?p)"
    unfolding mapR_map by (rule mapR_total) (auto simp: py_float_def)
  have sv: "mapR signal_severity ?sg = Ok (map sg_severity (st_signals st))"
    unfolding mapR_map by (rule mapR_total) (simp add: signal_severity_frame)
  have "distinct (map fst ([] @ map (\<lambda>(k, v). (''control_pressure.'' @ k, v)) ?p))"
    using stated_distinct [of "st_ctx st" "st_affect st" "st_curiosity st" "st_signals st"] by (simp add: stated_def)
  note u1 = update_dict_append [OF this, unfolded append_Nil]
  note u2 = update_dict_append [OF stated_distinct [unfolded stated_def]]
  have it: "py_items (py_or (fdict_json ?p) (JObj [])) = Ok (map (\<lambda>(k, v). (k, JFloat v)) ?p)"
    using ne by (simp add: py_or_def py_items_def fdict_json_def)
  have ct: "jget_or (py_or (JObj [(''continuity_score'', r6 (continuity_of (st_anchors st))),
      (''anchors_carried'', JInt (int (length (st_anchors st))))]) (JObj [])) ''continuity_score'' (JFloat (Num 0)) =
      Ok (JFloat (py_round 6 (continuity_of (st_anchors st))))"
    by (simp add: py_or_def r6_def)
  have fl: "py_float (JFloat x) = Ok x" for x
    by (simp add: py_float_def)
  show "expected_measurements out =
           Ok (stated ?p (st_signals st) (continuity_of (st_anchors st)) (st_broadcast st))"
    unfolding expected_measurements_def p sg cs wf it bindR_Inr pm sv ct fl u1 length_map py_eq_JStr json.inject stated_def
    by (rule arg_cong [where f = Ok], rule u2)
  show "dget (grounded_self_report out) ''reported_measurements'' =
           JObj (map (\<lambda>(k, v). (k, JFloat v)) (stated ?p (st_signals st) (continuity_of (st_anchors st)) (st_broadcast st)))"
    unfolding rm by (simp add: stated_def r6_def case_prod_beta comp_def)
qed

lemma emit_receipts:
  assumes "emit mexp i s st = (out, s')"
  shows "dget (grounded_self_report out) ''workspace_broadcast_id'' = dget (workspace_broadcast out) ''broadcast_id''"
    "dget (workspace_broadcast out) ''broadcast_id'' \<noteq> JNull"
    "dget (grounded_self_report out) ''causal_trace_id'' = dget (causal_trace out) ''trace_id''"
    "dget (causal_trace out) ''trace_id'' \<noteq> JNull"
    "py_in (dget (grounded_self_report out) ''report_id'') (dget_or (causal_trace out) ''emitted_outputs'' (JList [])) = Ok True"
  using assms
  by (auto simp: emit_def Let_def broadcast_frame_def causal_trace_frame_def self_report_frame_def py_in_def emitted_outputs_def)

lemma receipts_equal: "is_str v \<Longrightarrow> receipt_error (f, v, v) = []"
  by (cases v) (auto simp: receipt_error_def is_str_def)

text \<open>Every frame of a tick carries the tick's run id and timestamp.\<close>

lemma emit_identity:
  assumes "emit mexp i s st = (out, s')" and "f \<in> set (all_frames out)"
  shows "dget f ''run_id'' = JStr (run_id_of (in_world i))" "dget f ''timestamp'' = JStr (timestamp_of (in_world i))"
  using assms
  by (auto simp: emit_def Let_def all_frames_def broadcast_frame_def causal_trace_frame_def self_report_frame_def
        psyche_state_frame_def pressure_frame_def signal_frame_def auth_frame_def)

lemma source_identity:
  assumes "emit mexp i s st = (out, s')" and "(l, f) \<in> set (source_frames out)"
  shows "dget f ''run_id'' = dget (grounded_self_report out) ''run_id''"
    "dget f ''timestamp'' = dget (grounded_self_report out) ''timestamp''"
  using assms(2) emit_identity [OF assms(1)] by (auto simp: source_frames_def all_frames_def)

lemma emit_grounded:
  assumes em: "emit mexp i s st = (out, s')" and fin: "all_finite (JObj (grounded_self_report out))"
  shows "report_grounding_errors out = Ok []"
proof -
  have rep: "grounded_self_report out \<in> set (all_frames out)"
    by (simp add: all_frames_def)
  note id = emit_identity [OF em rep]
  obtain m where m: "expected_measurements out = Ok m" "distinct (map fst m)"
    and r: "dget (grounded_self_report out) ''reported_measurements'' = JObj (map (\<lambda>(k, v). (k, JFloat v)) m)"
    using emit_expected [OF em] stated_distinct by blast
  have "all_finite (JObj (map (\<lambda>(k, v). (k, JFloat v)) m))"
    using fin r map_of_SomeD [of "grounded_self_report out" "''reported_measurements''"]
    by (fastforce simp: dget_or_def split: option.splits)
  then have "\<forall>v\<in>set (map snd m). is_finite v"
    by auto
  from measurement_errors_stated [OF m r this] have me: "measurement_errors out = Ok []" .
  have str: "is_str (dget (grounded_self_report out) ''affect_state_hash'')"
      "is_str (dget (workspace_broadcast out) ''broadcast_id'')" "is_str (dget (causal_trace out) ''trace_id'')"
    using em by (auto simp: emit_def Let_def broadcast_frame_def causal_trace_frame_def self_report_frame_def is_str_def)
  have src: "concat (map (\<lambda>(l, f). if \<not> py_eq (dget f k) (dget (grounded_self_report out) k) then g l f else []) (source_frames out)) = []"
    if "k = ''run_id'' \<or> k = ''timestamp''" for k and g :: "string \<Rightarrow> dict \<Rightarrow> string list"
    using that source_identity [OF em] id by auto
  show ?thesis
    unfolding report_grounding_errors_def Let_def emit_receipts(1,3) [OF em] emit_frames(3) [OF em]
      emit_frames(4) [OF em, symmetric] emit_frames(2) [OF em, unfolded emit_frames(4) [OF em, symmetric]]
      emit_receipts(5) [OF em] bindR_Inr me
    using str src [of "''run_id''"] src [of "''timestamp''"] id by (simp add: receipts_equal is_str_def split: json.splits)
qed

lemma tick_grounded:
  assumes "ReferenceTick.tick mexp i s = Ok (out, s')" and "all_finite (JObj (grounded_self_report out))"
  shows "report_is_grounded_to_tick out = Ok True"
  using assms(1) by (rule tickE) (simp add: report_is_grounded_to_tick_def emit_grounded [OF _ assms(2)])

section \<open>Runs of the reference psyche\<close>

lemma reference_run_tickE:
  assumes "run_tick se (reference_subject mexp) v sm sched (outs, ids, s) t = Ok (outs', ids', s')"
  obtains out where
    "ReferenceTick.tick mexp (tick_to_inputs t sm) (set_active_interventions (active_at sched t) s) = Ok (out, s')"
    "outs' = outs @ [out]" "v \<longrightarrow> (\<forall>f\<in>set (all_frames out). is_valid se f)"
  using assms
  by (auto simp: run_tick_def Let_def reference_subject_def result_simps validate_all_Ok split: if_splits intro: that)

text \<open>The traces of a run link: each tick starts from the hash the tick before it ended with.\<close>

definition linked :: "psyche_outputs list \<Rightarrow> bool" where
  "linked outs \<longleftrightarrow> successively (\<lambda>a b. dget (causal_trace b) ''previous_state_hash'' = dget (causal_trace a) ''new_state_hash'') outs"

definition schedule_values_ok :: "schedule option \<Rightarrow> bool" where
  "schedule_values_ok sched \<longleftrightarrow>
     (case sched of None \<Rightarrow> True | Some windows \<Rightarrow> \<forall>ivs\<in>set windows. \<forall>iv\<in>set ivs. value_ok iv)"

lemma active_value_ok: "schedule_values_ok sched \<Longrightarrow> \<forall>iv\<in>set (active_at sched t). value_ok iv"
  by (auto simp: schedule_values_ok_def active_at_def active_def split: option.splits)

lemma psyche_ok_set_active [simp]: "psyche_ok (set_active_interventions ivs s) = psyche_ok s"
  by (simp add: psyche_ok_def set_active_interventions_def)

text \<open>The invariant of the replay loop of the reference psyche.\<close>

definition run_inv :: "psyche_outputs list \<times> json list \<times> psyche \<Rightarrow> bool" where
  "run_inv st \<longleftrightarrow>
     (let (outs, ids, s) = st in
      psyche_ok s \<and> linked outs \<and>
      (outs \<noteq> [] \<longrightarrow> dget (causal_trace (last outs)) ''new_state_hash'' = JStr (prev_state_hash s)) \<and>
      (\<forall>out\<in>set outs. dget (psyche_state out) ''state_hash'' = dget (causal_trace out) ''new_state_hash''))"

lemma run_inv_step:
  assumes inv: "run_inv (outs, ids, s)" and ok: "schedule_values_ok sched"
    and step: "run_tick se (reference_subject mexp) v sm sched (outs, ids, s) t = Ok (outs', ids', s')"
  shows "run_inv (outs', ids', s')"
proof -
  from step obtain out where
    tk: "ReferenceTick.tick mexp (tick_to_inputs t sm) (set_active_interventions (active_at sched t) s) = Ok (out, s')"
    and outs': "outs' = outs @ [out]"
    by (rule reference_run_tickE)
  have "psyche_ok s'"
    using psyche_ok_tick [OF _ _ tk] inv active_value_ok [OF ok]
    by (simp add: run_inv_def) (simp add: set_active_interventions_def)
  moreover have "linked outs'"
    using inv tick_hashes(1) [OF tk]
    by (auto simp: run_inv_def linked_def outs' successively_append_iff set_active_interventions_def)
  ultimately show ?thesis
    using inv tick_hashes(2,3) [OF tk] by (simp add: run_inv_def outs')
qed

lemma reference_run_inv:
  assumes "run_ticks se (reference_subject mexp) v sm sched ticks reset_psyche = Ok (outs, ids, s')"
    and "schedule_values_ok sched"
  shows "run_inv (outs, ids, s')"
  using assms(1) unfolding run_ticks_def
proof (rule foldR_invariant)
  show "run_inv ([], [], reset_psyche)"
    by (simp add: run_inv_def reset_psyche_ok linked_def)
  fix a b and x :: Frames.tick
  assume "run_inv a" and "run_tick se (reference_subject mexp) v sm sched a x = Inr b"
  then show "run_inv b"
    using run_inv_step [OF _ assms(2)] by (cases a; cases b) blast
qed

lemma reference_run_outputs:
  assumes "run_ticks se (reference_subject mexp) v sm sched ticks s = Ok (outs, ids, s')" and "out \<in> set outs"
  shows "\<exists>i t t' tk. ReferenceTick.tick mexp i (set_active_interventions (active_at sched tk) t) = Ok (out, t') \<and>
           (v \<longrightarrow> (\<forall>f\<in>set (all_frames out). is_valid se f))"
proof -
  let ?I = "\<lambda>(outs, ids :: json list, s :: psyche). \<forall>out\<in>set outs. \<exists>i t t' tk.
      ReferenceTick.tick mexp i (set_active_interventions (active_at sched tk) t) = Ok (out, t') \<and>
      (v \<longrightarrow> (\<forall>f\<in>set (all_frames out). is_valid se f))"
  have "?I (outs, ids, s')"
    using assms(1) unfolding run_ticks_def
  proof (rule foldR_invariant)
    fix a b and x :: Frames.tick
    assume "?I a" and "run_tick se (reference_subject mexp) v sm sched a x = Inr b"
    then show "?I b"
      by (cases a; cases b) (auto elim!: reference_run_tickE, blast+)
  qed simp
  with assms(2) show ?thesis by blast
qed

lemma sample_run:
  "\<exists>out s'. run_ticks (\<lambda>_ _. []) (reference_subject mexp) False False None [sample_tick] reset_psyche = Ok ([out], [], s')"
proof -
  obtain out s' where tk: "ReferenceTick.tick mexp sample_inputs reset_psyche = Ok (out, s')"
    using sample_tick_runs by blast
  have i: "tick_to_inputs sample_tick False = sample_inputs" and r: "set_active_interventions [] reset_psyche = reset_psyche"
    by (simp_all add: tick_to_inputs_def sample_tick_def sample_inputs_def set_active_interventions_def reset_psyche_def Let_def)
  show ?thesis
    by (simp add: run_ticks_def run_tick_def active_at_def reference_subject_def add_ids_def i r tk)
qed

end
