(* ===== verification/RunProps.thy ===== *)
theory RunProps
  imports EvidenceProps PsycheProps
begin

text \<open>
  Properties of whole replays through the harness: the hollow psyche stays at Level 0 although its
  reports are grounded, the reference psyche stays in range, chains its state hashes, grounds its
  reports and leaves no intervention receipt in an unperturbed run.
\<close>

section \<open>The hollow psyche under the harness\<close>

lemma hollow_expected:
  "expected_measurements (hollow_outputs i h) =
     Ok (map (\<lambda>(k, v). (''control_pressure.'' @ k, v)) ZERO_PRESSURES @
         [(''instinct.count'', Num 0), (''instinct.severity'', Num 0), (''psyche_state.continuity_score'', Num 0),
          (''workspace_broadcast.integrity'', Num 1)])"
  by (simp add: expected_measurements_def hollow_pressure_frame_def hollow_state_frame_def hollow_broadcast_frame_def
        py_or_def py_items_def fdict_json_def ZERO_PRESSURES_def update_dict_def py_sum_def fint_def mkf_def py_float_def)

lemma hollow_measurements: "measurement_errors (hollow_outputs i h) = Ok []"
  by (rule measurement_errors_stated [OF hollow_expected])
     (simp_all add: hollow_report_frame_def ZERO_PRESSURES_def)

lemma hollow_grounding_errors: "report_grounding_errors (hollow_outputs i h) = Ok []"
  by (simp add: report_grounding_errors_def Let_def hollow_measurements)
     (simp add: hollow_report_frame_def hollow_state_frame_def hollow_broadcast_frame_def hollow_trace_frame_def
        source_frames_def receipt_error_def py_in_def)

lemma hollow_is_grounded: "report_is_grounded_to_tick (hollow_outputs i h) = Ok True"
  by (simp add: report_is_grounded_to_tick_def hollow_grounding_errors)

lemma harness_runE:
  assumes "harness_run se S v fs sm sched s = Ok (rr, s')"
  obtains outs ids where "run_ticks se S v sm sched (group_into_ticks fs) (sj_reset S s) = Ok (outs, ids, s')"
    "score se (case group_into_ticks fs of [] \<Rightarrow> JNull | t # _ \<Rightarrow> dget (tk_world t) ''run_id'') fs outs
       (JInt (int (length ids))) (memory_present (group_into_ticks fs) \<and> \<not> sm) = Ok (rr_evidence_frame rr)"
    "rr_tick_outputs rr = outs"
  using assms unfolding harness_run_def Let_def
  by (elim bindR_Inr_elim prod_case_elim) (auto intro: that)

lemma hollow_families:
  "\<exists>fams. score_families [hollow_outputs i h] g = Ok fams"
  by (simp add: score_families_def Let_def models_itself_def calibrated_def resolved_prediction_def carries_anchors_def
        hollow_state_frame_def hollow_trace_frame_def nested_get_def py_or_def json_gt0_def as_int_def py_in_def)

section \<open>Scores that are issued\<close>

lemma status_score_finite: "is_finite (STATUS_SCORE st)"
  using in_unit_lit [of "85 / 100"] in_unit_lit [of "6 / 10"] in_unit_lit [of "3 / 10"] in_unit_lit [of "2 / 10"]
  by (auto simp: STATUS_SCORE_def in_unit_def)

lemma family_rec_finite: "is_finite (fm_score (family_rec st n note))"
  by (simp add: family_rec_def status_score_finite)

lemma intervention_family_finite: "is_finite (fm_score (intervention_family g))"
  by (simp add: intervention_family_def family_rec_finite)

lemma families_finite:
  assumes "score_families outs g = Ok fams" and "(k, f) \<in> set fams"
  shows "is_finite (fm_score f)"
  using assms family_rec_finite intervention_family_finite
  unfolding score_families_def Let_def by (elim bindR_Inr_elim) auto

lemma gate_record_finite: "all_finite (reported_total g) \<Longrightarrow> all_finite (gate_record g)"
  by (auto simp: gate_record_def)

lemma evidence_frame_finite:
  assumes "\<And>k f. (k, f) \<in> set fams \<Longrightarrow> is_finite (fm_score f)" and "all_finite (reported_total g)" and "all_finite pv"
    and "is_finite (py_round 6 risk)"
  shows "all_finite (JObj (evidence_frame r outs g pv fams lv l4 missing risk u))"
  using assms gate_record_finite
  by (auto simp: evidence_frame_def family_json_def)

lemma score_core_issues:
  assumes "score_families outs g = Ok fams" and "level1_signal_changes_behavior outs = Ok l1"
    and "(if m then level2_readback_changed_output outs else Ok False) = Ok l2" and "confabulation_risk outs = Ok (risk, u)"
    and "all_finite (reported_total g)" and "all_finite (pf_provenance pf)" and "is_finite (py_round 6 risk)"
  shows "\<exists>missing. score_core accept_all r outs m g pf =
           Ok (evidence_frame r outs g (pf_provenance pf) fams
                 (ladder l1 l2 (level3 l1 l2 fams) (level4 (level3 l1 l2 fams) g pf risk))
                 (level4 (level3 l1 l2 fams) g pf risk) missing risk u)"
proof -
  have valid: "is_valid accept_all (evidence_frame r outs g (pf_provenance pf) fams lv l4 missing risk u)" for lv l4 missing
    by (rule accept_all_valid [OF evidence_frame_kind _ evidence_frame_finite [OF families_finite [OF assms(1)] assms(5-7)]])
       (simp_all add: FRAME_KINDS_def)
  show ?thesis
    unfolding score_core_def Let_def assms(1-4) bindR_Inr prod.case validate_or_raise_def
    using valid by (simp add: is_valid_def) blast
qed

lemma unverified_finite: "all_finite unverified_provenance_record"
  by (simp add: unverified_provenance_record_def)

lemma gate_total_none: "reported_total (intervention_gate fs ex JNull tests pe) = JNull"
  by (simp add: intervention_gate_def Let_def case_prod_beta)

lemma hollow_frames_valid:
  "f \<in> set (all_frames (hollow_outputs i h)) \<Longrightarrow> is_valid accept_all f"
  by (auto simp: all_frames_def intro!: accept_all_valid
        simp: hollow_state_frame_def hollow_broadcast_frame_def hollow_pressure_frame_def hollow_trace_frame_def
          hollow_report_frame_def FRAME_KINDS_def fdict_json_def ZERO_PRESSURES_def NEUTRAL_AFFECT_def SCHEMA_VERSION_def path_node_def)

lemma hollow_frames_run_id:
  "f \<in> set (all_frames (hollow_outputs i h)) \<Longrightarrow> dget f ''run_id'' = JStr (run_id_of (in_world i))"
  by (auto simp: all_frames_def hollow_state_frame_def hollow_broadcast_frame_def hollow_pressure_frame_def
        hollow_trace_frame_def hollow_report_frame_def)

lemma hollow_core_issues:
  "\<exists>fr. score_core accept_all r [hollow_outputs i h] m (intervention_gate fs ex JNull [] []) single_facts = Ok fr"
proof -
  obtain fams where f: "score_families [hollow_outputs i h] (intervention_gate fs ex JNull [] []) = Ok fams"
    using hollow_families by blast
  have l1: "level1_signal_changes_behavior [hollow_outputs i h] = Ok False"
    and l2: "level2_readback_changed_output [hollow_outputs i h] = Ok False"
    by (rule hollow_level1, force, rule hollow_level2, force)
  have risk: "confabulation_risk [hollow_outputs i h] = Ok (Num 0, 0)"
    by (simp add: confabulation_risk_def hollow_is_grounded int_div_def mkf_def)
  show ?thesis
    using score_core_issues [OF f l1 _ risk, of m False single_facts r] l2
    by (cases m) (auto simp: gate_total_none single_facts_def unverified_finite)
qed

lemma sample_identity:
  assumes "\<And>f. f \<in> set (all_frames out) \<Longrightarrow> dget f ''run_id'' = JStr ''r''"
  shows "validate_run_identity (JStr ''r'') [one_world] [out # []] = Ok ''r''"
proof -
  have "mapR (check_output_run_id ''r'') (lane_frames [[out]]) = Ok (map (\<lambda>_. ()) (lane_frames [[out]]))"
    by (rule mapR_total) (use assms in \<open>auto simp: lane_frames_def check_output_run_id_def\<close>)
  then show ?thesis
    by (simp add: validate_run_identity_def one_world_def frame_kind_def py_set_def hashable_def check_input_run_id_def Let_def)
qed

definition sample_output :: psyche_outputs where
  "sample_output = hollow_outputs (tick_to_inputs sample_tick False) (constant_hash hollow_reset)"

lemma one_world_sample: "one_world = sample_world" "group_into_ticks [sample_world] = [sample_tick]"
  using one_world_ticks by (simp_all add: one_world_def sample_world_def sample_tick_def)

lemma sample_output_run_id: "f \<in> set (all_frames sample_output) \<Longrightarrow> dget f ''run_id'' = JStr ''r''"
proof -
  have "run_id_of (in_world (tick_to_inputs sample_tick False)) = ''r''"
    by (simp add: tick_to_inputs_def sample_tick_def sample_world_def run_id_of_def py_str_def)
  then show "f \<in> set (all_frames sample_output) \<Longrightarrow> dget f ''run_id'' = JStr ''r''"
    unfolding sample_output_def by (metis hollow_frames_run_id)
qed

lemma sample_source_valid: "validate_source_frames accept_all [one_world] [[sample_output]] = Ok ()"
  unfolding validate_source_frames_def one_world_valid bindR_Inr
  by (simp add: validate_all_Ok sample_output_def hollow_frames_valid)

lemma hollow_sample_run:
  assumes "active_at sched sample_tick = []"
  shows "\<exists>rr. harness_run accept_all hollow_subject v [one_world] False sched s = Ok (rr, hollow_reset) \<and>
           rr_tick_outputs rr = [sample_output] \<and> rr_interventions_executed rr = 0"
proof -
  have "\<forall>f\<in>set (all_frames sample_output). is_valid accept_all f"
    by (simp add: sample_output_def hollow_frames_valid)
  then have val: "validate_all accept_all (all_frames sample_output) = Ok ()"
    by (simp only: validate_all_Ok)
  have run: "run_ticks accept_all hollow_subject v False sched [sample_tick] (sj_reset hollow_subject s)
      = Ok ([sample_output], [], hollow_reset)"
    using val unfolding run_ticks_def foldR.simps run_tick_def Let_def prod.case assms
    by (simp add: hollow_subject_def add_ids_def hollow_tick_def hollow_set_active_interventions_def sample_output_def)
  have id: "validate_run_identity (JStr ''r'') [one_world] [[sample_output]] = Ok ''r''"
    by (rule sample_identity) (rule sample_output_run_id)
  obtain fr where core: "score_core accept_all ''r'' [sample_output] False
      (intervention_gate [one_world] (JInt 0) JNull [] []) single_facts = Ok fr"
    using hollow_core_issues unfolding sample_output_def by blast
  then have sc: "score accept_all (JStr ''r'') [one_world] [sample_output] (JInt 0) False = Ok fr"
    unfolding score_def sample_source_valid id by simp
  have "is_valid accept_all fr"
    using core by (rule score_coreE)
  then have vo: "bindR (validate_or_raise accept_all fr) g = g fr" for g :: "dict \<Rightarrow> unit result"
    by (simp add: validate_or_raise_def is_valid_def)
  show ?thesis
    using sc unfolding harness_run_def Let_def one_world_valid one_world_sample run
    by (simp add: memory_present_def) (simp add: vo sample_tick_def sample_world_def one_world_valid [unfolded one_world_sample sample_world_def])
qed

text \<open>
  C26. The negative control works: any replay of the hollow psyche, perturbed or not, is scored at
  Level 0, although every one of its reports is grounded to its tick.
\<close>

theorem hollow_stays_at_level_0:
  assumes "harness_run se hollow_subject v fs sm sched s = Ok (rr, s')"
  shows "dget (rr_evidence_frame rr) ''evidence_level'' = JInt 0 \<and>
         list_all (\<lambda>out. report_is_grounded_to_tick out = Ok True) (rr_tick_outputs rr)"
  using assms
proof (rule harness_runE)
  fix outs ids
  assume run: "run_ticks se hollow_subject v sm sched (group_into_ticks fs) (sj_reset hollow_subject s) = Ok (outs, ids, s')"
    and sc: "score se (case group_into_ticks fs of [] \<Rightarrow> JNull | t # _ \<Rightarrow> dget (tk_world t) ''run_id'') fs outs
       (JInt (int (length ids))) (memory_present (group_into_ticks fs) \<and> \<not> sm) = Ok (rr_evidence_frame rr)"
    and rr: "rr_tick_outputs rr = outs"
  note outs = hollow_run_outputs [OF run]
  from sc have "dget (rr_evidence_frame rr) ''evidence_level'' = JInt 0"
    by (rule scoreE) (rule hollow_level_0 [OF _ outs])
  with outs rr show ?thesis
    using hollow_is_grounded by (fastforce simp: list_all_iff)
qed

theorem hollow_stays_at_level_0_witness:
  "\<exists>rr s'. harness_run accept_all hollow_subject False [one_world] False None hollow_reset = Ok (rr, s') \<and>
     dget (rr_evidence_frame rr) ''evidence_level'' = JInt 0"
proof -
  obtain rr s' where "harness_run accept_all hollow_subject False [one_world] False None hollow_reset = Ok (rr, s')"
    using hollow_sample_run [of None False hollow_reset] unfolding active_at_def by auto
  with hollow_stays_at_level_0 [OF this] show ?thesis by blast
qed

section \<open>The reference psyche under the harness\<close>





text \<open>
  A replay without a schedule leaves clean traces: no causal trace of the reference psyche claims an
  applied intervention, which is what the scorer demands of the control arm.
\<close>

theorem reference_control_is_clean:
  assumes "run_ticks se (reference_subject mexp) v sm None ticks s = Ok (outs, ids, s')"
  shows "unperturbed_traces_are_clean [outs]"
proof -
  have "dget (causal_trace out) ''interventions_applied'' = JList []" if "out \<in> set outs" for out
    using reference_run_outputs [OF assms that] tick_audit
    by (auto simp: active_at_def set_active_interventions_def)
  then show ?thesis
    by (simp add: unperturbed_traces_are_clean_def)
qed

theorem reference_control_is_clean_witness:
  "\<exists>outs ids s'. run_ticks (\<lambda>_ _. []) (reference_subject (\<lambda>_. Num 1)) False False None [sample_tick] reset_psyche = Ok (outs, ids, s')
     \<and> unperturbed_traces_are_clean [outs]"
proof -
  obtain out s' where run: "run_ticks (\<lambda>_ _. []) (reference_subject (\<lambda>_. Num 1)) False False None [sample_tick] reset_psyche
      = Ok ([out], [], s')"
    using sample_run by blast
  from reference_control_is_clean [OF run] run show ?thesis by blast
qed

end
