(* ===== verification/RunnerProps.thy ===== *)
theory RunnerProps
  imports RunProps
begin

text \<open>
  Properties of the paired runner and of certification: a subject whose reset forgets its past is
  invariant under the execution order, certification registers exactly the factories that pass, and
  passes every such subject.
\<close>

section \<open>Inversion of a paired run\<close>

lemma paired_runE:
  assumes "paired_run se reg f v fs s = Ok (pr, s')"
  obtains sched passes c t n prov where
    "schedule_from_frames fs = Ok sched"
    "run_passes se (fc_subject f) v fs sched COUNTERBALANCED_ORDERS s = Ok (passes, s')"
    "arm_of (hd passes) ''control'' = Ok c" "arm_of (hd passes) ''treated'' = Ok t" "arm_of (hd passes) ''null'' = Ok n"
    "issue fs (map (map (\<lambda>(arm, r). (arm, rr_tick_outputs r))) passes) (fc_names f)
       (fc_key f = REFERENCE_KEY \<or> is_certified reg f) = Ok prov"
    "score_paired_runner_verified se (frames_run_id fs) fs (rr_tick_outputs c) (rr_tick_outputs t) (rr_tick_outputs n)
       (JInt (int (rr_interventions_executed t))) (memory_present (group_into_ticks fs)) prov
       = Ok (pr_evidence_frame pr, pr_report pr)"
    "pr_control pr = c" "pr_treated pr = t" "pr_null pr = n"
  using assms unfolding paired_run_def
  by (elim bindR_Inr_elim prod_case_elim) (auto intro: that)

lemma evidence_provenance:
  assumes "score_core se r outs m g pf = Ok fr"
  shows "dget fr ''paired_replay_provenance'' = pf_provenance pf"
  using assms by (rule score_coreE) (simp only: dget_evidence_frame)

lemma paired_evidence_provenance:
  assumes "score_paired_runner_verified se rq fs c t n ex m p = Ok (ev, rep)"
  shows "dget ev ''paired_replay_provenance'' = provenance_record p"
  using assms unfolding score_paired_runner_verified_def
  by (rule score_paired_withE) (auto dest: evidence_provenance)

lemma map_of_outputs:
  "map_of (map (\<lambda>(arm, r). (arm, rr_tick_outputs r)) p) arm = map_option rr_tick_outputs (map_of p arm)"
  by (induction p) auto

lemma run_pass_keys: "run_pass se S v fs sched order s = Ok (rs, s') \<Longrightarrow> map fst rs = order"
  by (induction order arbitrary: s rs) (auto simp: result_simps)

lemma run_passes_keys:
  "run_passes se S v fs sched orders s = Ok (ps, s') \<Longrightarrow> map (map fst) ps = orders"
  by (induction orders arbitrary: s ps) (auto simp: result_simps dest: run_pass_keys)

lemma passes_have_arms:
  assumes "run_passes se S v fs sched COUNTERBALANCED_ORDERS s = Ok (ps, s')" and "p \<in> set ps"
  shows "fst ` set p = {''control'', ''treated'', ''null''}"
proof -
  have "map fst p \<in> set COUNTERBALANCED_ORDERS"
    using run_passes_keys [OF assms(1)] assms(2) by (metis image_eqI list.set_map)
  then have "set (map fst p) = {''control'', ''treated'', ''null''}"
    by (auto simp: COUNTERBALANCED_ORDERS_def)
  then show ?thesis
    by simp
qed

lemma map_of_some: "k \<in> fst ` set d \<Longrightarrow> \<exists>v. map_of d k = Some v \<and> (k, v) \<in> set d"
  by (cases "map_of d k") (auto simp: map_of_eq_None_iff dest: map_of_SomeD)

text \<open>The arms of two passes agree.\<close>

lemma passes_map_of_agree:
  assumes reset: "\<And>s t. sj_reset S s = sj_reset S t"
    and run: "run_passes se S v fs sched COUNTERBALANCED_ORDERS s = Ok (ps, s')" and p: "p \<in> set ps" and q: "q \<in> set ps"
  shows "map_of p arm = map_of q arm"
proof (cases "arm \<in> {''control'', ''treated'', ''null''}")
  case True
  note arms = passes_have_arms [OF run p] passes_have_arms [OF run q]
  have "arm \<in> fst ` set p" and "arm \<in> fst ` set q"
    unfolding arms using True by auto
  then obtain r r2 where "map_of p arm = Some r" "(arm, r) \<in> set p" "map_of q arm = Some r2" "(arm, r2) \<in> set q"
    using map_of_some [of arm p] map_of_some [of arm q] by blast
  moreover have "resettable_subject S"
    by (rule resettable_subject.intro) (rule reset)
  ultimately show ?thesis
    using resettable_subject.passes_agree [OF _ run p q] by metis
next
  case False
  then have "arm \<notin> fst ` set p" and "arm \<notin> fst ` set q"
    unfolding passes_have_arms [OF run p] passes_have_arms [OF run q] by auto
  then show ?thesis
    by (simp add: map_of_eq_None_iff [symmetric])
qed

lemma paired_ordinal_invariant:
  assumes "\<And>s t. sj_reset (fc_subject f) s = sj_reset (fc_subject f) t" and "paired_run se reg f v fs s = Ok (pr, s')"
  shows "\<exists>prov. dget (pr_evidence_frame pr) ''paired_replay_provenance'' = provenance_record prov \<and> ordinal_invariant prov \<and>
           subject_factory_eligible prov = (fc_key f = REFERENCE_KEY \<or> is_certified reg f)"
  using assms(2)
proof (rule paired_runE)
  fix sched passes c t n prov
  assume ps: "run_passes se (fc_subject f) v fs sched COUNTERBALANCED_ORDERS s = Ok (passes, s')"
    and iss: "issue fs (map (map (\<lambda>(arm, r). (arm, rr_tick_outputs r))) passes) (fc_names f)
       (fc_key f = REFERENCE_KEY \<or> is_certified reg f) = Ok prov"
    and sc: "score_paired_runner_verified se (frames_run_id fs) fs (rr_tick_outputs c) (rr_tick_outputs t) (rr_tick_outputs n)
       (JInt (int (rr_interventions_executed t))) (memory_present (group_into_ticks fs)) prov
       = Ok (pr_evidence_frame pr, pr_report pr)"
  have "map_of x arm = map_of y arm"
    if xy: "x \<in> set (map (map (\<lambda>(arm, r). (arm, rr_tick_outputs r))) passes)"
      "y \<in> set (map (map (\<lambda>(arm, r). (arm, rr_tick_outputs r))) passes)" for x y arm
  proof -
    obtain p q where "p \<in> set passes" "q \<in> set passes"
      "x = map (\<lambda>(arm, r). (arm, rr_tick_outputs r)) p" "y = map (\<lambda>(arm, r). (arm, rr_tick_outputs r)) q"
      using xy by auto
    then show ?thesis
      using passes_map_of_agree [OF assms(1) ps, of p q arm] by (simp add: map_of_outputs)
  qed
  then have "ordinal_invariant prov"
    by (rule issue_ordinal_invariant [OF iss])
  moreover have "subject_factory_eligible prov = (fc_key f = REFERENCE_KEY \<or> is_certified reg f)"
    using iss by (rule issueE) simp
  ultimately show ?thesis
    using paired_evidence_provenance [OF sc] by blast
qed

section \<open>A concrete paired run\<close>

definition hollow_factory :: "nat \<Rightarrow> hollow factory" where
  "hollow_factory key =
     \<lparr>fc_key = key, fc_names = \<lparr>fn_module = Some ''pneuma_lab.psyche.hollow'', fn_qualname = Some ''HollowPsyche'',
        fn_type_module = ''abc'', fn_type_qualname = ''ABCMeta''\<rparr>,
      fc_constructible = True, fc_is_psyche = True, fc_subject = hollow_subject\<rparr>"

lemma hollow_arm:
  "\<exists>rr. run_arm accept_all hollow_subject v [one_world] (arm_schedule [[]] arm) s = Ok (rr, hollow_reset) \<and>
     rr_tick_outputs rr = [sample_output] \<and> rr_interventions_executed rr = 0"
  unfolding run_arm_def
  by (rule hollow_sample_run) (simp add: arm_schedule_def active_at_def active_def neutralized_def sample_tick_def)

lemma hollow_pass:
  "\<exists>rs s'. run_pass accept_all hollow_subject v [one_world] [[]] order s = Ok (rs, s') \<and>
     (\<forall>ar\<in>set rs. rr_tick_outputs (snd ar) = [sample_output] \<and> rr_interventions_executed (snd ar) = 0)"
proof (induction order arbitrary: s)
  case Nil
  then show ?case by simp
next
  case (Cons arm order)
  obtain rr where rr: "run_arm accept_all hollow_subject v [one_world] (arm_schedule [[]] arm) s = Ok (rr, hollow_reset)"
    "rr_tick_outputs rr = [sample_output]" "rr_interventions_executed rr = 0"
    using hollow_arm by blast
  obtain rs s' where "run_pass accept_all hollow_subject v [one_world] [[]] order hollow_reset = Ok (rs, s')"
    "\<forall>ar\<in>set rs. rr_tick_outputs (snd ar) = [sample_output] \<and> rr_interventions_executed (snd ar) = 0"
    using Cons.IH by blast
  with rr show ?case by auto
qed

lemma hollow_passes:
  "\<exists>ps s'. run_passes accept_all hollow_subject v [one_world] [[]] orders s = Ok (ps, s') \<and>
     (\<forall>p\<in>set ps. \<forall>ar\<in>set p. rr_tick_outputs (snd ar) = [sample_output] \<and> rr_interventions_executed (snd ar) = 0)"
proof (induction orders arbitrary: s)
  case Nil
  then show ?case by simp
next
  case (Cons order orders)
  obtain rs s1 where "run_pass accept_all hollow_subject v [one_world] [[]] order s = Ok (rs, s1)"
    "\<forall>ar\<in>set rs. rr_tick_outputs (snd ar) = [sample_output] \<and> rr_interventions_executed (snd ar) = 0"
    using hollow_pass by blast
  moreover obtain ps s' where "run_passes accept_all hollow_subject v [one_world] [[]] orders s1 = Ok (ps, s')"
    "\<forall>p\<in>set ps. \<forall>ar\<in>set p. rr_tick_outputs (snd ar) = [sample_output] \<and> rr_interventions_executed (snd ar) = 0"
    using Cons.IH by blast
  ultimately show ?case by auto
qed

lemma sample_schedule: "schedule_from_frames [one_world] = Ok [[]]"
  by (simp add: schedule_from_frames_def one_world_sample onsets_def sample_tick_def Let_def)

lemma sample_digest: "\<exists>h. output_frames_sha256 [sample_output] = Ok h" "\<exists>h. input_frames_sha256 [one_world] = Ok h"
proof -
  have "\<forall>f\<in>set (all_frames sample_output). all_finite (JObj f)"
    using is_valid_finite hollow_frames_valid unfolding sample_output_def by blast
  then show "\<exists>h. output_frames_sha256 [sample_output] = Ok h"
    by (simp add: output_frames_sha256_def sha256_json_def)
  show "\<exists>h. input_frames_sha256 [one_world] = Ok h"
    by (simp add: input_frames_sha256_def sha256_json_def one_world_def)
qed

lemma sample_issue:
  assumes "run_passes accept_all hollow_subject v [one_world] [[]] COUNTERBALANCED_ORDERS s = Ok (ps, s')"
    and "\<forall>p\<in>set ps. \<forall>ar\<in>set p. rr_tick_outputs (snd ar) = [sample_output] \<and> rr_interventions_executed (snd ar) = 0"
  shows "\<exists>prov. issue [one_world] (map (map (\<lambda>(arm, r). (arm, rr_tick_outputs r))) ps) names e = Ok prov"
proof -
  obtain h where h: "output_frames_sha256 [sample_output] = Ok h"
    using sample_digest by blast
  obtain hi where hi: "input_frames_sha256 [one_world] = Ok hi"
    using sample_digest by blast
  have "digest_pass rp = Ok (map (\<lambda>(arm, _). (arm, h)) rp)"
    if "rp \<in> set (map (map (\<lambda>(arm, r). (arm, rr_tick_outputs r))) ps)" for rp
    unfolding digest_pass_def using that assms(2) h by (intro mapR_total) fastforce
  then have dig: "mapR digest_pass (map (map (\<lambda>(arm, r). (arm, rr_tick_outputs r))) ps) =
      Ok (map (\<lambda>rp. map (\<lambda>(arm, _). (arm, h)) rp) (map (map (\<lambda>(arm, r). (arm, rr_tick_outputs r))) ps))"
    by (rule mapR_total)
  have len: "length ps = length COUNTERBALANCED_ORDERS"
    using run_passes_keys [OF assms(1)] by (metis length_map)
  have arms: "\<not> list_ex (\<lambda>d. set (map fst d) \<noteq> set (hd COUNTERBALANCED_ORDERS))
      (map (\<lambda>rp. map (\<lambda>(arm, _). (arm, h)) rp) (map (map (\<lambda>(arm, r). (arm, rr_tick_outputs r))) ps))"
    using passes_have_arms [OF assms(1)]
    by (auto simp: list_ex_iff COUNTERBALANCED_ORDERS_def image_image case_prod_beta)
  show ?thesis
    unfolding issue_def dig bindR_Inr Let_def hi using len arms by auto
qed

lemma sample_no_interventions: "unique_intervention_frames [one_world] = ([], [], 0)"
  by (simp add: unique_intervention_frames_def one_world_sample) (simp add: sample_tick_def sample_world_def frame_kind_def)

lemma sample_trace: "\<exists>b. treated_trace_is_complete [sample_output] [[]] = Ok b"
  by (simp add: treated_trace_is_complete_def trace_complete_at_def trace_stages_def sample_output_def hollow_trace_frame_def
        path_node_def) blast

lemma sample_compare:
  "\<exists>b. compare_arms [one_world] [sample_output] [sample_output] [sample_output] = Ok ([], b, False)"
proof -
  obtain b where b: "treated_trace_is_complete [sample_output] [[]] = Ok b"
    using sample_trace by blast
  show ?thesis
    unfolding compare_arms_def Let_def sample_no_interventions sample_schedule
    by (simp add: active_def b target_signal_of_def reports_track_target_signal_def)
qed

lemma sample_lanes_identity:
  "validate_run_identity (JStr ''r'') [one_world] [[sample_output], [sample_output], [sample_output]] = Ok ''r''"
proof -
  let ?l = "lane_frames [[sample_output], [sample_output], [sample_output]]"
  have "mapR (check_output_run_id ''r'') ?l = Ok (map (\<lambda>_. ()) ?l)"
    by (rule mapR_total) (auto simp: lane_frames_def check_output_run_id_def sample_output_run_id)
  then show ?thesis
    by (simp add: validate_run_identity_def one_world_def frame_kind_def py_set_def hashable_def check_input_run_id_def Let_def)
qed

lemma sample_lanes_valid:
  "validate_source_frames accept_all [one_world] [[sample_output], [sample_output], [sample_output]] = Ok ()"
proof -
  have "\<forall>f\<in>set (all_frames sample_output). is_valid accept_all f"
    by (simp add: sample_output_def hollow_frames_valid)
  then show ?thesis
    unfolding validate_source_frames_def one_world_valid bindR_Inr validate_all_Ok by simp
qed

lemma gate_total_summary: "reported_total (intervention_gate fs ex (report_summary []) tests pe) = JInt 0"
  by (simp add: intervention_gate_def Let_def case_prod_beta report_summary_def is_int_def)

lemma digests_finite: "all_finite (digests_json d)"
  by (auto simp: digests_json_def)

lemma provenance_record_finite: "all_finite (provenance_record p)"
  using digests_finite by (auto simp: provenance_record_def)

lemma sample_paired_score:
  "\<exists>ev rep. score_paired_runner_verified accept_all (JStr ''r'') [one_world] [sample_output] [sample_output] [sample_output]
     (JInt 0) False p = Ok (ev, rep) \<and> is_valid accept_all ev"
proof -
  obtain b where cmp: "compare_arms [one_world] [sample_output] [sample_output] [sample_output] = Ok ([], b, False)"
    using sample_compare by blast
  obtain es where es: "integrity_errors p [one_world] [sample_output] [sample_output] [sample_output] = Ok es"
    using sample_digest by (auto simp: integrity_errors_def Let_def)
  let ?g = "intervention_gate [one_world] (JInt 0) (report_summary []) [] es"
  let ?eq = "null_output_equivalent [sample_output] [sample_output]"
  let ?pf = "\<lparr>pf_tests = report_summary [], pf_null_passed = null_ok [] ?eq, pf_trace_complete = b,
               pf_report_changed = False, pf_provenance = provenance_record p\<rparr>"
  obtain fams where f: "score_families [sample_output] ?g = Ok fams"
    using hollow_families unfolding sample_output_def by blast
  have l1: "level1_signal_changes_behavior [sample_output] = Ok False"
    unfolding sample_output_def by (rule hollow_level1) force
  have risk: "confabulation_risk [sample_output] = Ok (Num 0, 0)"
    by (simp add: confabulation_risk_def sample_output_def hollow_is_grounded int_div_def mkf_def)
  obtain ev where ev: "score_core accept_all ''r'' [sample_output] False ?g ?pf = Ok ev"
    using score_core_issues [OF f l1 _ risk, of False False ?pf "''r''"] gate_total_summary provenance_record_finite by auto
  have "is_valid accept_all ev"
    using ev by (rule score_coreE)
  with ev show ?thesis
    unfolding score_paired_runner_verified_def score_paired_with_def sample_lanes_valid sample_lanes_identity cmp
      bindR_Inr prod.case Let_def option.case es by simp
qed

lemma sample_paired_run:
  "\<exists>pr s'. paired_run accept_all reg (hollow_factory key) v [one_world] s = Ok (pr, s')"
proof -
  obtain ps s' where ps: "run_passes accept_all hollow_subject v [one_world] [[]] COUNTERBALANCED_ORDERS s = Ok (ps, s')"
    and out: "\<forall>p\<in>set ps. \<forall>ar\<in>set p. rr_tick_outputs (snd ar) = [sample_output] \<and> rr_interventions_executed (snd ar) = 0"
    using hollow_passes by blast
  have "ps \<noteq> []"
    using run_passes_keys [OF ps] by (auto simp: COUNTERBALANCED_ORDERS_def)
  then have hd: "hd ps \<in> set ps"
    by simp
  have arm: "\<exists>r. arm_of (hd ps) arm = Ok r \<and> rr_tick_outputs r = [sample_output] \<and> rr_interventions_executed r = 0"
    if "arm \<in> {''control'', ''treated'', ''null''}" for arm
  proof -
    have "arm \<in> fst ` set (hd ps)"
      unfolding passes_have_arms [OF ps hd] using that by auto
    then obtain r where "map_of (hd ps) arm = Some r" "(arm, r) \<in> set (hd ps)"
      using map_of_some by metis
    with out hd show ?thesis
      by (force simp: arm_of_def)
  qed
  obtain c t n where arms: "arm_of (hd ps) ''control'' = Ok c" "arm_of (hd ps) ''treated'' = Ok t" "arm_of (hd ps) ''null'' = Ok n"
    and outs: "rr_tick_outputs c = [sample_output]" "rr_tick_outputs t = [sample_output]" "rr_tick_outputs n = [sample_output]"
    "rr_interventions_executed t = 0"
    using arm [of "''control''"] arm [of "''treated''"] arm [of "''null''"] by auto
  obtain prov where prov: "issue [one_world] (map (map (\<lambda>(arm, r). (arm, rr_tick_outputs r))) ps)
      (fc_names (hollow_factory key)) (fc_key (hollow_factory key) = REFERENCE_KEY \<or> is_certified reg (hollow_factory key)) = Ok prov"
    using sample_issue [OF ps out] by blast
  obtain ev rep where ev: "score_paired_runner_verified accept_all (JStr ''r'') [one_world] [sample_output] [sample_output]
      [sample_output] (JInt 0) False prov = Ok (ev, rep)" "is_valid accept_all ev"
    using sample_paired_score by blast
  have id: "frames_run_id [one_world] = JStr ''r''" and mem: "memory_present (group_into_ticks [one_world]) = False"
    and sub: "fc_subject (hollow_factory key) = hollow_subject"
    by (simp_all add: frames_run_id_def one_world_sample memory_present_def sample_tick_def hollow_factory_def)
       (simp add: sample_world_def frame_kind_def)
  have vo: "bindR (validate_or_raise accept_all ev) g = g ev" for g :: "dict \<Rightarrow> unit result"
    using ev(2) by (simp add: validate_or_raise_def is_valid_def)
  show ?thesis
    unfolding paired_run_def sample_schedule bindR_Inr sub ps prod.case arms prov outs id mem
    by (simp add: ev(1) vo)
qed

section \<open>Counterbalancing\<close>

text \<open>
  C7. Counterbalancing never confounds a psyche whose reset forgets the past: in every paired run that
  returns, the recorded provenance is ordinally invariant, and its status is \<open>runner_verified\<close> when the
  factory is the reference psyche or certified, \<open>uncertified_subject\<close> otherwise.
\<close>

theorem paired_run_ordinal_invariance:
  assumes "\<And>s t. sj_reset (fc_subject f) s = sj_reset (fc_subject f) t" and "paired_run se reg f v fs s = Ok (pr, s')"
  shows "\<exists>d. dget (pr_evidence_frame pr) ''paired_replay_provenance'' = JObj d \<and> dget d ''ordinal_invariant'' = JBool True \<and>
           dget d ''status'' = JStr (if fc_key f = REFERENCE_KEY \<or> is_certified reg f then ''runner_verified''
                                   else ''uncertified_subject'')"
  using paired_ordinal_invariant [OF assms] by (auto simp: provenance_record_def provenance_status_def)

theorem paired_run_ordinal_invariance_witness:
  "\<exists>pr s' d. paired_run accept_all [] (hollow_factory 7) False [one_world] hollow_reset = Ok (pr, s') \<and>
     dget (pr_evidence_frame pr) ''paired_replay_provenance'' = JObj d \<and> dget d ''status'' = JStr ''uncertified_subject''"
proof -
  obtain pr s' where run: "paired_run accept_all [] (hollow_factory 7) False [one_world] hollow_reset = Ok (pr, s')"
    using sample_paired_run by blast
  have reset: "sj_reset (fc_subject (hollow_factory 7)) s = sj_reset (fc_subject (hollow_factory 7)) t" for s t
    by (simp add: hollow_factory_def hollow_subject_def)
  show ?thesis
    using paired_run_ordinal_invariance [OF reset run] run
    by (auto simp: hollow_factory_def REFERENCE_KEY_def is_certified_def)
qed

section \<open>Certification\<close>

lemma certifyE:
  assumes "certify se f probe reg s = Ok (cert, reg', s')"
  obtains (rejected) "cert = certify_fail f" "reg' = reg" "\<not> (fc_constructible f \<and> implements_interface f)"
  | (probed) c1 c2 d1 d2 ordinal s1 s2 s3 s4 t1 t2 t3 t4 pr where
    "fc_constructible f" "implements_interface f"
    "replay_digest se (fc_subject f) probe t1 = Ok (c1, s1)" "replay_digest se (fc_subject f) probe t2 = Ok (c2, s2)"
    "replay_digest se (fc_subject f) probe t3 = Ok (d1, s3)" "replay_digest se (fc_subject f) probe t4 = Ok (d2, s4)"
    "paired_run se reg f True probe s4 = Ok (pr, s')" "ordinal_flag (pr_evidence_frame pr) = Ok ordinal"
    "cert = \<lparr>cf_passed = (c1 = c2 \<and> d1 = d2 \<and> ordinal), cf_clone_equivalent = (c1 = c2), cf_reset_deterministic = (d1 = d2),
             cf_ordinal_invariant = ordinal, cf_implements_interface = True,
             cf_subject_factory = subject_factory_identity (fc_names f)\<rparr>"
    "reg' = (if c1 = c2 \<and> d1 = d2 \<and> ordinal then (if fc_key f \<in> set reg then reg else fc_key f # reg) else reg)"
proof (cases "fc_constructible f \<and> implements_interface f")
  case False
  with assms show ?thesis
    by (auto simp: certify_def Let_def split: if_splits intro: rejected)
next
  case True
  from assms True obtain c1 s1 c2 s2 d1 s3 d2 s4 pr ordinal where run:
    "replay_digest se (fc_subject f) probe (sj_new (fc_subject f) (sj_new (fc_subject f) s)) = Ok (c1, s1)"
    "replay_digest se (fc_subject f) probe (sj_new (fc_subject f) s1) = Ok (c2, s2)"
    "replay_digest se (fc_subject f) probe (sj_new (fc_subject f) s2) = Ok (d1, s3)"
    "replay_digest se (fc_subject f) probe s3 = Ok (d2, s4)"
    "paired_run se reg f True probe s4 = Ok (pr, s')" "ordinal_flag (pr_evidence_frame pr) = Ok ordinal"
    unfolding certify_def Let_def by (auto elim!: bindR_Inr_elim)
  with assms True have
    "cert = \<lparr>cf_passed = (c1 = c2 \<and> d1 = d2 \<and> ordinal), cf_clone_equivalent = (c1 = c2), cf_reset_deterministic = (d1 = d2),
             cf_ordinal_invariant = ordinal, cf_implements_interface = True,
             cf_subject_factory = subject_factory_identity (fc_names f)\<rparr> \<and>
     reg' = (if c1 = c2 \<and> d1 = d2 \<and> ordinal then (if fc_key f \<in> set reg then reg else fc_key f # reg) else reg)"
    unfolding certify_def Let_def by (simp only: run bindR_Inr prod.case) simp
  with run True show ?thesis
    by (intro probed) simp_all
qed

text \<open>
  Eligibility is earned: after \<open>certify\<close> returns, the registry gained the factory exactly when the
  record says it passed, lost nothing, and a record that passed has every flag set.
\<close>

theorem certify_registers_iff_passed:
  assumes "certify se f probe reg s = Ok (cert, reg', s')"
  shows "set reg' = (if cf_passed cert then insert (fc_key f) (set reg) else set reg) \<and>
         (cf_passed cert \<longleftrightarrow> cf_clone_equivalent cert \<and> cf_reset_deterministic cert \<and> cf_ordinal_invariant cert \<and>
            cf_implements_interface cert)"
  using assms by (cases rule: certifyE) (auto simp: certify_fail_def)



lemma hollow_certifies:
  "\<exists>cert reg' s'. certify accept_all (hollow_factory key) [one_world] reg s = Ok (cert, reg', s')"
proof -
  have sub: "fc_subject (hollow_factory key) = hollow_subject" "fc_constructible (hollow_factory key)"
    "implements_interface (hollow_factory key)"
    by (simp_all add: hollow_factory_def implements_interface_def hollow_subject_def)
  obtain h where h: "output_frames_sha256 [sample_output] = Ok h"
    using sample_digest by blast
  have dig: "replay_digest accept_all hollow_subject [one_world] u = Ok (h, hollow_reset)" for u
    using hollow_sample_run [of None True u] h by (auto simp: replay_digest_def active_at_def)
  obtain pr s' where run: "paired_run accept_all reg (hollow_factory key) True [one_world] hollow_reset = Ok (pr, s')"
    using sample_paired_run by blast
  have "sj_reset (fc_subject (hollow_factory key)) a = sj_reset (fc_subject (hollow_factory key)) b" for a b
    by (simp add: sub hollow_subject_def)
  then obtain prov where "dget (pr_evidence_frame pr) ''paired_replay_provenance'' = provenance_record prov"
    using paired_ordinal_invariant [OF _ run] by blast
  then have "\<exists>b. ordinal_flag (pr_evidence_frame pr) = Ok b"
    by (auto simp: ordinal_flag_def provenance_record_def dget_or_def split: option.splits)
  then show ?thesis
    unfolding certify_def Let_def sub dig bindR_Inr prod.case run using sub(2,3) by auto
qed

theorem certify_registers_iff_passed_witness:
  "\<exists>cert reg' s'. certify accept_all (hollow_factory 7) [one_world] [3] hollow_reset = Ok (cert, reg', s') \<and>
     set reg' = (if cf_passed cert then {7, 3} else {3})"
proof -
  obtain cert reg' s' where run: "certify accept_all (hollow_factory 7) [one_world] [3] hollow_reset = Ok (cert, reg', s')"
    using hollow_certifies by blast
  show ?thesis
    using certify_registers_iff_passed [OF run] run by (auto simp: hollow_factory_def)
qed


end
