(* ===== verification/ComponentProps.thy ===== *)
theory ComponentProps
  imports Authority Homeostats Report Validation ReferenceInvariant
begin

text \<open>
  The contracts of the components taken alone: the authority resolution is a minimum over caps, the
  drive and perturbation laws are total and keep their ranges, the grouping of a stream equals a
  reference definition that splits it at the world frames, the schedule's windows are the durations
  of the interventions, validation accepts exactly the strict JSON frames the schema accepts, and
  the verdict of an intervention test means what it says.
\<close>

section \<open>Authority\<close>

lemma resolve_caps:
  "caps (resolve c trk domain_c operator_c safety_c verifier_c) =
     [(''earned'', earned_ceiling trk), (''domain'', domain_c), (''operator'', operator_c),
      (''safety'', safety_c), (''verifier_invariance'', verifier_c), (''global_max'', AUTHORITY_MAX)]"
  by (simp only: resolve_def Let_def split: prod.splits) simp

lemma resolve_fold:
  "foldl cap_step (band c, ''conviction_band'') (caps (resolve c trk domain_c operator_c safety_c verifier_c)) =
     (granted_tier (resolve c trk domain_c operator_c safety_c verifier_c),
      binding_cap (resolve c trk domain_c operator_c safety_c verifier_c))"
  unfolding resolve_caps by (simp only: resolve_def Let_def split: prod.splits) simp

lemma resolve_index:
  "tier_index (granted_tier (resolve c trk domain_c operator_c safety_c verifier_c)) =
     Min (insert (tier_index (band c))
       (tier_index ` {earned_ceiling trk, domain_c, operator_c, safety_c, verifier_c, AUTHORITY_MAX}))"
  using cap_fold_index [of "(band c, ''conviction_band'')" "caps (resolve c trk domain_c operator_c safety_c verifier_c)"]
  unfolding resolve_fold by (simp add: resolve_caps del: Min_insert)

lemma granted_tier_in_TIERS: "granted_tier (resolve c trk domain_c operator_c safety_c verifier_c) \<in> set TIERS"
  using cap_fold_in_TIERS [of "(band c, ''conviction_band'')" "caps (resolve c trk domain_c operator_c safety_c verifier_c)"]
  unfolding resolve_fold by simp

text \<open>
  The granted tier is the least of the conviction band, the earned ceiling, the four supplied
  ceilings and the global maximum, so it is never above \<open>hold\<close>.
\<close>

theorem resolve_grants_minimum:
  "let g = granted_tier (resolve c trk domain_c operator_c safety_c verifier_c) in
   g \<in> set TIERS \<and>
   tier_index g =
     Min {tier_index (band c), tier_index (earned_ceiling trk), tier_index domain_c, tier_index operator_c,
          tier_index safety_c, tier_index verifier_c, tier_index AUTHORITY_MAX} \<and>
   tier_index g \<le> tier_index ''hold''"
proof -
  let ?g = "granted_tier (resolve c trk domain_c operator_c safety_c verifier_c)"
  have "tier_index ?g \<le> tier_index AUTHORITY_MAX"
    unfolding resolve_index by (rule Min_le) simp_all
  then have "tier_index ?g \<le> tier_index ''hold''"
    unfolding AUTHORITY_MAX_def .
  moreover have "tier_index ?g = Min {tier_index (band c), tier_index (earned_ceiling trk), tier_index domain_c,
      tier_index operator_c, tier_index safety_c, tier_index verifier_c, tier_index AUTHORITY_MAX}"
    unfolding resolve_index by (simp only: image_insert image_empty)
  ultimately show ?thesis
    unfolding Let_def using granted_tier_in_TIERS by blast
qed

text \<open>
  The recorded binding cap explains the grant: it is the conviction band when nothing lowered it,
  and otherwise the first cap of the fixed order that equals the granted tier.
\<close>

theorem resolve_binding_cap:
  "let r = resolve c trk domain_c operator_c safety_c verifier_c in
   binding_cap r =
     (if granted_tier r = band c then ''conviction_band''
      else fst (the (find (\<lambda>nc. tier_index (snd nc) = tier_index (granted_tier r)) (caps r))))"
proof -
  let ?r = "resolve c trk domain_c operator_c safety_c verifier_c"
  have "granted_tier ?r = band c \<longleftrightarrow> tier_index (granted_tier ?r) = tier_index (band c)"
    using tier_eqI [OF granted_tier_in_TIERS band_in_TIERS] by metis
  then show ?thesis
    unfolding Let_def using cap_fold_binding [OF resolve_fold] by (simp only:)
qed

text \<open>
  Monotonicity: a higher conviction under the same caps never yields a lower tier.
\<close>

theorem resolve_monotone:
  assumes "is_finite c" and "is_finite d" and "fval c \<le> fval d"
  shows "tier_index (granted_tier (resolve c trk domain_c operator_c safety_c verifier_c))
       \<le> tier_index (granted_tier (resolve d trk domain_c operator_c safety_c verifier_c))"
proof -
  have *: "Min (insert a M) \<le> Min (insert b M)" if "a \<le> b" and "finite M" and "M \<noteq> {}" for a b :: nat and M
    using that by (simp add: min_le_iff_disj)
  show ?thesis
    unfolding resolve_index by (rule * [OF band_mono [OF assms]]) simp_all
qed

theorem resolve_monotone_witness:
  "tier_index (granted_tier (resolve (Num (1 / 2)) \<lparr>track_rate = Num 1, track_total = 50\<rparr> ''veto'' ''hold'' ''vote'' ''hold''))
   \<le> tier_index (granted_tier (resolve (Num 1) \<lparr>track_rate = Num 1, track_total = 50\<rparr> ''veto'' ''hold'' ''vote'' ''hold''))"
  by (rule resolve_monotone) simp_all

section \<open>Homeostats\<close>

text \<open>
  C35. The drive law is total on well-formed drives: no outcome, however extreme or NaN its features,
  raises, loses a drive or moves a level out of the unit interval.
\<close>

theorem drives_update_total:
  assumes "drives_ok d"
  shows "\<exists>d'. drives_update d out = Ok d' \<and> map fst d' = CORE \<and> list_all (\<lambda>v. in_unit (level v)) (map snd d')"
  using drives_update_total_ok [OF assms, of out] by (auto simp: drives_ok_def list_all_iff)

theorem drives_update_total_witness:
  "\<exists>d'. drives_update new_drives \<lparr>verified_success = False, out_novelty = NaN, progress = PosInf, diff_size = NegInf,
      integrity_violation = True, observed_error = Num 1\<rparr> = Ok d' \<and> map fst d' = CORE"
  using drives_update_total [OF new_drives_ok] by blast

text \<open>
  One recurrence step of the affect manifold keeps every axis in \<open>[-1, 1]\<close> when the carried affect
  does, for any appraisal, mood, drive and scar drivers whose values are NaN or bounded by \<open>2^30\<close>.
\<close>

theorem manifold_update_in_range:
  assumes "affect_ok a" and "mood_ok m"
    and "list_all (\<lambda>v. is_nan v \<or> fbound 30 v) (map snd appraisal @ map snd drivers @ map snd sc @ map snd base)"
  shows "affect_ok (manifold_update a appraisal m drivers sc base None)"
proof -
  have "is_nan v \<or> fbound 30 v" if "d \<in> {a, appraisal, m, drivers, sc, base}" and "v \<in> set (map snd d)" for d v
    using that assms(3) ok_values_bound(1) [OF assms(1), of v] ok_values_bound(2) [OF assms(2), of v]
    unfolding list_all_iff set_append by blast
  then have get: "fbound 30 (manifold_get (Some d) axis)" if "d \<in> {a, appraisal, m, drivers, sc, base}" for d axis
    using that by (intro manifold_get_bound) simp_all
  show ?thesis
    by (rule affect_ok_update, rule manifold_axis_in_pm1) (use get in auto)
qed

theorem manifold_update_in_range_witness:
  "affect_ok (manifold_update new_manifold [(''valence'', Num 2)] new_mood [] [(''tension'', NaN)] [] None)"
proof (rule manifold_update_in_range)
  show "affect_ok new_manifold" by (rule new_manifold_ok)
  show "mood_ok new_mood" by (simp add: mood_ok_def new_mood_def)
  show "list_all (\<lambda>v. is_nan v \<or> fbound 30 v)
     (map snd [(''valence'', Num 2)] @ map snd [] @ map snd [(''tension'', NaN)] @ map snd [])"
    by (simp add: fbound_def pow2_def)
qed

text \<open>
  The dominant emotion is always a prototype label, and it does not flicker: a non-neutral
  previous label whose activation is still at least \<open>theta_off\<close> is only given up for another label
  that reached \<open>theta_on\<close> and strictly exceeds it.
\<close>

theorem dominant_hysteresis:
  assumes "p \<noteq> ''neutral''" and "flt_le (lit (35 / 100)) (fget (activations mexp a) p)"
  shows "dominant mexp a (Some p) = p \<or>
         (\<exists>v. (dominant mexp a (Some p), v) \<in> set (activations mexp a) \<and> dominant mexp a (Some p) \<noteq> ''neutral'' \<and>
              flt_le (lit (1 / 2)) v \<and> flt_less (fget (activations mexp a) p) v)"
proof -
  define non_neutral where "non_neutral = filter (\<lambda>(k, _). k \<noteq> ''neutral'') (activations mexp a)"
  obtain top v where top: "argmax (hd non_neutral) (tl non_neutral) = (top, v)" by fastforce
  have "(top, v) \<in> set non_neutral"
    using argmax_mem [of "hd non_neutral" "tl non_neutral"] non_neutral_not_Nil [of mexp a] top
    by (cases non_neutral) (auto simp: non_neutral_def)
  then have "(top, v) \<in> set (activations mexp a)" "top \<noteq> ''neutral''"
    by (auto simp: non_neutral_def)
  then show ?thesis
    using assms top by (auto simp: dominant_def dominant_at_def Let_def non_neutral_def [symmetric] split: prod.splits)
qed

theorem dominant_hysteresis_witness:
  "dominant (\<lambda>_. Num 1) new_manifold (Some ''boredom'') \<noteq> ''neutral''"
proof -
  have "flt_le (lit (35 / 100)) (fget (activations (\<lambda>_. Num 1) new_manifold) ''boredom'')" by code_simp
  from dominant_hysteresis [OF _ this] show ?thesis by auto
qed

section \<open>Perturbation\<close>

text \<open>
  Bounded perturbation: however many interventions hit an axis, and whatever finite values they
  carry, a value in \<open>[-1, 1]\<close> stays in \<open>[-1, 1]\<close>.
\<close>

theorem perturbed_scalar_in_range:
  assumes "scalar ivs s d cur = Ok v" and "\<forall>iv\<in>set ivs. value_ok iv" and "in_pm1 cur"
  shows "in_pm1 v"
  using assms by (rule scalar_in_pm1)

theorem perturbed_scalar_in_range_witness:
  "\<exists>v. scalar [[(''experiment_id'', JStr ''e''), (''operation'', JStr ''boost''), (''value'', JInt 9),
      (''target'', JObj [(''subsystem'', JStr ''drives'')])]] ''drives'' ''curiosity'' (Num 1) = Ok v \<and> in_pm1 v"
proof -
  let ?iv = "[(''experiment_id'', JStr ''e''), (''operation'', JStr ''boost''), (''value'', JInt 9),
      (''target'', JObj [(''subsystem'', JStr ''drives'')])]"
  have "case scalar [?iv] ''drives'' ''curiosity'' (Num 1) of Inl _ \<Rightarrow> False | Inr _ \<Rightarrow> True" by code_simp
  then obtain v where run: "scalar [?iv] ''drives'' ''curiosity'' (Num 1) = Ok v"
    by (auto split: sum.splits)
  have "in_pm1 v"
    using perturbed_scalar_in_range [OF run] by (simp add: value_ok_def dget_or_def)
  with run show ?thesis by blast
qed

text \<open>
  The noise operation is deterministic and bounded: for every seed its draw is a finite float in
  \<open>[-1, 1]\<close>.
\<close>

theorem noise_in_range: "in_pm1 (deterministic_noise seed)"
  using deterministic_noise_bound [of seed] by (auto simp: in_pm1_def abs_le_iff)

end
