(* ===== verification/OutputProps.thy ===== *)
theory OutputProps
  imports RunProps ComponentProps
begin

text \<open>
  What the frames of the reference psyche promise their readers: the workspace winner is maximal,
  control pressures of validated replays lie in the unit interval, granted authority respects every
  ceiling of the governance frame, reports of validated replays are grounded, and a tick over a
  bounded context writes strict JSON only.
\<close>

section \<open>Rounded values\<close>

lemma mkf_unit:
  assumes "0 \<le> x" and "x \<le> 1"
  shows "in_unit (mkf b x)"
proof -
  have b: "\<bar>x\<bar> \<le> pow2 0" using assms by (simp add: pow2_def)
  show ?thesis
    using fbound_mkf [OF b, of b] mkf_finite(2) [OF b, of b] rnd64_nonneg [OF assms(1)]
    by (simp add: in_unit_def fbound_def pow2_def)
qed

lemma py_round_unit:
  assumes "in_unit x"
  shows "in_unit (py_round n x)"
proof (cases x)
  case (Num r)
  let ?k = "round_half_even (r * 10 ^ n)"
  have "0 \<le> r" "r \<le> 1"
    using assms Num by (simp_all add: in_unit_def)
  then have "0 \<le> ?k" and "?k \<le> 10 ^ n"
    using round_half_even_ge_int [of 0 "r * 10 ^ n"] round_half_even_le_int [of "r * 10 ^ n" "10 ^ n"] by simp_all
  then have "0 \<le> (of_int ?k / 10 ^ n :: rat)" and "(of_int ?k / 10 ^ n :: rat) \<le> 1"
    by (simp_all add: divide_le_eq_1)
  then show ?thesis
    using Num mkf_unit by (simp add: py_round_def)
qed (use assms in \<open>simp_all add: py_round_def in_unit_def\<close>)

lemma py_round_pm1:
  assumes "in_pm1 x"
  shows "in_pm1 (py_round n x)"
proof (cases x)
  case (Num r)
  let ?k = "round_half_even (r * 10 ^ n)"
  have r: "- 1 \<le> r" "r \<le> 1"
    using assms Num by (simp_all add: in_pm1_def)
  have "?k \<le> 10 ^ n"
    using round_half_even_le_int [of "r * 10 ^ n" "10 ^ n"] r by simp
  moreover have "- (10 ^ n) \<le> ?k"
    using round_half_even_ge_int [of "- (10 ^ n)" "r * 10 ^ n"] mult_right_mono [OF r(1), of "10 ^ n"] by simp
  ultimately have "\<bar>?k\<bar> \<le> 10 ^ n"
    by simp
  then have "(of_int \<bar>?k\<bar> :: rat) \<le> of_int (10 ^ n)"
    by (simp only: of_int_le_iff)
  then have "\<bar>of_int ?k / 10 ^ n :: rat\<bar> \<le> 1"
    by (simp add: divide_le_eq_1)
  then have "fbound 0 (mkf (r < 0) (of_int ?k / 10 ^ n))"
    by (intro fbound_mkf) (simp_all add: pow2_def)
  then show ?thesis
    using Num by (simp add: py_round_def in_pm1_fbound)
qed (use assms in \<open>simp_all add: py_round_def in_pm1_def\<close>)

lemma py_round_nan: "is_nan x \<Longrightarrow> is_nan (py_round n x)"
  by (cases x) (simp_all add: py_round_def)

lemma rounded_clip: "is_finite (py_round n (clip01 x)) \<Longrightarrow> in_unit (py_round n (clip01 x))"
  using clip01_cases [of x] py_round_nan [of "clip01 x" n] py_round_unit [of "clip01 x" n] by (auto simp: finite_not_special(1))

section \<open>Control pressure\<close>

lemma pressures_clipped: "v \<in> set (map snd (pressures_of c a cur sigs)) \<Longrightarrow> \<exists>x. v = py_round 6 (clip01 x)"
  unfolding pressures_of_def Let_def by (simp only: list.map set_simps snd_conv) blast

lemma all_finite_dget: "all_finite (JObj d) \<Longrightarrow> all_finite (dget d k)"
  by (cases "map_of d k") (force simp: dget_or_def dest: map_of_SomeD)+

lemma tick_pressures:
  assumes "ReferenceTick.tick mexp i s = Ok (out, s')"
  obtains st :: stages where "dget (control_pressure out) ''pressures'' =
    fdict_json (pressures_of (st_ctx st) (st_affect st) (st_curiosity st) (st_signals st))"
proof -
  from assms obtain st where "emit mexp i s st = (out, s')"
    by (rule tickE)
  then show ?thesis
    by (intro that [of st]) (auto simp: emit_def Let_def pressure_frame_def)
qed

text \<open>
  C27. Pressure, never a command: in every replay that validates its frames, each control pressure frame
  of the reference psyche carries exactly the nine named pressures, each a number of the unit interval,
  whatever the input frames, interventions and carried state.
\<close>

theorem validated_pressures_in_unit:
  assumes "run_ticks se (reference_subject mexp) True sm sched ticks s = Ok (outs, ids, s')"
  shows "list_all (\<lambda>out. \<exists>ps. dget (control_pressure out) ''pressures'' = fdict_json ps \<and>
      map fst ps = [''effort'', ''verification'', ''planning'', ''execution'', ''society_debate'',
        ''memory_consolidation'', ''exploration'', ''scope_narrowing'', ''strategy_switching''] \<and>
      list_all in_unit (map snd ps)) outs"
  unfolding list_all_iff
proof
  fix out assume "out \<in> set outs"
  from reference_run_outputs [OF assms this] obtain i t t' tk where
    run: "ReferenceTick.tick mexp i (set_active_interventions (active_at sched tk) t) = Ok (out, t')"
    and valid: "\<forall>f\<in>set (all_frames out). is_valid se f"
    by blast
  from run obtain st :: stages where ps: "dget (control_pressure out) ''pressures'' =
      fdict_json (pressures_of (st_ctx st) (st_affect st) (st_curiosity st) (st_signals st))"
    by (rule tick_pressures)
  have "all_finite (JObj (control_pressure out))"
    using valid by (intro is_valid_finite [of se]) (simp add: all_frames_def)
  then have "all_finite (dget (control_pressure out) ''pressures'')"
    by (rule all_finite_dget)
  then have "\<forall>v\<in>set (map snd (pressures_of (st_ctx st) (st_affect st) (st_curiosity st) (st_signals st))). in_unit v"
    using pressures_clipped rounded_clip unfolding ps by (fastforce simp: fdict_json_def)
  then show "\<exists>ps. dget (control_pressure out) ''pressures'' = fdict_json ps \<and>
      map fst ps = [''effort'', ''verification'', ''planning'', ''execution'', ''society_debate'',
        ''memory_consolidation'', ''exploration'', ''scope_narrowing'', ''strategy_switching''] \<and>
      (\<forall>v\<in>set (map snd ps). in_unit v)"
    using ps pressure_names by blast
qed

section \<open>Bounded contexts\<close>

text \<open>
  A context whose quantities are in the unit interval, as the schemas of the input frames demand, and
  the stages of a tick over it whose memory-supplied numbers are bounded too.
\<close>

definition ctx_ok :: "ctx \<Rightarrow> bool" where
  "ctx_ok c \<longleftrightarrow> list_all in_unit
     [cx_risk c, cx_reversibility c, cx_diff_norm c, cx_uncertainty c, cx_novelty c, cx_scar_strength c,
      cx_competence_gap c, cx_unresolved_tension c, cx_operator_priority c, cx_expected_loss c, cx_recency c]"

definition signal_ok :: "signal \<Rightarrow> bool" where
  "signal_ok g \<longleftrightarrow> is_finite (sg_confidence g) \<and> pred_option is_finite (sg_base_rate g)"

definition stage_ok :: "(flt \<Rightarrow> flt) \<Rightarrow> stages \<Rightarrow> bool" where
  "stage_ok mexp st \<longleftrightarrow>
     ctx_ok (st_ctx st) \<and> list_all signal_ok (st_signals st) \<and> list_all in_pm1 (map snd (mixture mexp (st_affect st))) \<and>
     in_unit (self_model_reliability (st_resolved st)) \<and> pred_option in_pm1 (calibration_error (st_resolved st))"

text \<open>Bounds of an expression tree: one power of two per addition above bounded leaves.\<close>

lemma tree_add: "fbound (int a) x \<Longrightarrow> fbound (int b) y \<Longrightarrow> a + b < 1000 \<Longrightarrow> fbound (int (Suc (a + b))) (fadd x y)"
  using fbound_fadd [of "int (a + b)" x y] fbound_mono [of "int a" x "int (a + b)"] fbound_mono [of "int b" y "int (a + b)"]
  by (simp add: algebra_simps)

lemma tree_sub: "fbound (int a) x \<Longrightarrow> fbound (int b) y \<Longrightarrow> a + b < 1000 \<Longrightarrow> fbound (int (Suc (a + b))) (fsub x y)"
  unfolding fsub_def by (rule tree_add) simp_all

lemma tree_mul: "fbound (int a) x \<Longrightarrow> fbound (int b) y \<Longrightarrow> a + b < 1000 \<Longrightarrow> fbound (int (a + b)) (fmul x y)"
  using fbound_fmul [of "int a" x "int b" y] by simp

lemma tree_lit: "\<bar>q\<bar> \<le> 1 \<Longrightarrow> fbound (int 0) (lit q)"
  using fbound_lit by simp

lemma tree_leaf: "in_unit x \<Longrightarrow> fbound (int 0) x" "in_pm1 x \<Longrightarrow> fbound (int 0) x"
  by (simp_all add: in_unit_fbound in_pm1_fbound)

lemma tree_const: "fbound (int 0) (Num 0)" "fbound (int 0) (Num 1)" "fbound (int 0) (fbool b)"
  by (simp_all add: fbound_def pow2_def fbool_def)

lemma tree_if: "fbound (int a) x \<Longrightarrow> fbound (int a) y \<Longrightarrow> fbound (int a) (if b then x else y)"
  by simp

lemmas tree = tree_add tree_sub tree_mul tree_lit tree_const tree_if

lemma clip01_tree: "fbound (int a) x \<Longrightarrow> in_unit (clip01 x)"
  by (rule clip01_in_unit) (rule fbound_not_nan)

lemma pos_unit: "in_pm1 x \<Longrightarrow> in_unit (pos x)"
  by (cases x) (auto simp: pos_def in_pm1_def in_unit_def flt_less_def)

lemma py_round_finite:
  assumes "fbound k x" and "0 \<le> k" and "k < 1000"
  shows "is_finite (py_round n x)"
proof (cases x)
  case (Num r)
  let ?k = "round_half_even (r * 10 ^ n)"
  have "\<bar>of_int ?k - r * 10 ^ n\<bar> \<le> (1 :: rat)"
    using round_half_even_near [of "r * 10 ^ n"] by simp
  then have "\<bar>of_int ?k :: rat\<bar> \<le> \<bar>r * 10 ^ n\<bar> + 1"
    by linarith
  also have "\<dots> = \<bar>r\<bar> * 10 ^ n + 1"
    by (simp add: abs_mult)
  also have "\<dots> \<le> (\<bar>r\<bar> + 1) * 10 ^ n"
    by (simp add: algebra_simps)
  finally have "\<bar>of_int ?k / 10 ^ n :: rat\<bar> \<le> \<bar>r\<bar> + 1"
    by (simp add: divide_le_eq)
  moreover have "\<bar>r\<bar> \<le> pow2 k" and "1 \<le> pow2 k"
    using assms Num pow2_mono [of 0 k] by (simp_all add: fbound_def pow2_def)
  moreover have "pow2 k + pow2 k = pow2 (k + 1)"
    using assms by (simp add: pow2_def nat_add_distrib)
  ultimately have "\<bar>of_int ?k / 10 ^ n :: rat\<bar> \<le> pow2 (k + 1)"
    by linarith
  then show ?thesis
    using Num assms mkf_finite(1) [of _ "k + 1"] by (simp add: py_round_def)
qed (use assms in \<open>simp_all add: py_round_def fbound_def\<close>)

lemma r6_finite: "in_pm1 x \<Longrightarrow> is_finite (py_round n x)" "in_unit x \<Longrightarrow> is_finite (py_round n x)"
  using py_round_pm1 [of x n] py_round_unit [of x n] by (simp_all add: in_pm1_def in_unit_def)

lemma ctx_okD:
  assumes "ctx_ok c"
  shows "in_unit (cx_risk c)" "in_unit (cx_reversibility c)" "in_unit (cx_diff_norm c)" "in_unit (cx_uncertainty c)"
    "in_unit (cx_novelty c)" "in_unit (cx_scar_strength c)" "in_unit (cx_competence_gap c)"
    "in_unit (cx_unresolved_tension c)" "in_unit (cx_operator_priority c)" "in_unit (cx_expected_loss c)"
    "in_unit (cx_recency c)"
  using assms by (simp_all add: ctx_ok_def)

text \<open>The pressures of a bounded context.\<close>

lemma pressures_unit:
  assumes c: "ctx_ok c" and a: "affect_ok aff" and cur: "in_pm1 cur" and sev: "list_all (\<lambda>g. in_unit (sg_severity g)) sigs"
  shows "\<forall>v\<in>set (map snd (pressures_of c aff cur sigs)). in_unit v"
proof -
  note leaves = ctx_okD [OF c, THEN tree_leaf(1)] cur [THEN tree_leaf(2)]
    affect_ok_get [OF a, THEN pos_unit, THEN tree_leaf(1)]
  have sv: "fbound (int 0) (case sigs of [] \<Rightarrow> Num 0 | g # _ \<Rightarrow> sg_severity g)"
    using sev tree_const(1) tree_leaf(1) by (cases sigs) auto
  show ?thesis
    unfolding pressures_of_def Let_def
    by (simp only: list.map set_simps snd_conv ball_simps)
       (intro conjI TrueI py_round_unit; rule clip01_tree, (rule tree leaves sv | simp)+)
qed

section \<open>Finite frames\<close>

lemma fdict_finite: "\<forall>v\<in>set (map snd d). is_finite v \<Longrightarrow> all_finite (fdict_json d)"
  by (auto simp: fdict_json_def)

lemma fdict_r6_finite: "\<forall>v\<in>set (map snd d). in_pm1 v \<Longrightarrow> all_finite (fdict_r6 d)"
  by (auto simp: fdict_r6_def r6_def r6_finite)

text \<open>The workspace: salience views are bounded, and so is the weighted sum that picks the winner.\<close>

lemma dset_units: "in_unit v \<Longrightarrow> \<forall>w\<in>set (map snd d). in_unit w \<Longrightarrow> \<forall>w\<in>set (map snd (dset d k v)). in_unit w"
  by (rule dset_values)

lemma max_pressure_unit:
  assumes "drives_ok d"
  shows "in_unit (case map snd (pressure d) of [] \<Rightarrow> Num 0 | p # qs \<Rightarrow> foldl py_max p qs)"
proof -
  have "in_unit p \<Longrightarrow> \<forall>q\<in>set qs. in_unit q \<Longrightarrow> in_unit (foldl py_max p qs)" for p qs
    by (induction qs arbitrary: p) (auto simp: py_max_def)
  with pressure_in_unit [OF assms] show ?thesis
    by (cases "map snd (pressure d)") auto
qed

lemma faculty_terms_unit:
  assumes c: "ctx_ok c" and a: "affect_ok (affect s)" and d: "drives_ok (drives_of s)" and e: "in_unit e"
    and t: "(name, terms) \<in> set (faculty_terms s c e)"
  shows "\<forall>v\<in>set (map snd terms). in_unit v"
proof -
  note leaves = ctx_okD [OF c, THEN tree_leaf(1)] e [THEN tree_leaf(1)]
    affect_ok_get [OF a, THEN pos_unit, THEN tree_leaf(1)] max_pressure_unit [OF d, THEN tree_leaf(1)]
  have v: "fbound (int 0) (fabs (fget (affect s) ''valence''))"
    using affect_ok_get [OF a] by (simp add: in_pm1_fbound)
  have base: "\<forall>w\<in>set (map snd [(''conviction'', Num 0), (''expected_loss'', cx_expected_loss c), (''uncertainty'', cx_uncertainty c),
                  (''novelty'', cx_novelty c), (''scar_tissue'', cx_scar_strength c),
                  (''unresolved_tension'', cx_unresolved_tension c), (''recency'', cx_recency c),
                  (''operator_priority'', cx_operator_priority c), (''risk'', cx_risk c),
                  (''competence_gap'', cx_competence_gap c)]). in_unit w"
    using ctx_okD [OF c] by simp
  show ?thesis
    using t unfolding faculty_terms_def Let_def
    by (simp only: set_simps insert_iff empty_iff prod.inject)
       (elim disjE conjE; simp only:; intro dset_units base; (rule ctx_okD [OF c])?;
        rule clip01_tree, (rule tree leaves v | simp)+)
qed

lemma fget_unit: "\<forall>v\<in>set (map snd d). in_unit v \<Longrightarrow> in_unit (fget d k)"
  by (cases "map_of d k") (fastforce simp: fget_def dest: map_of_SomeD)+

lemma salience_bound:
  assumes "\<forall>v\<in>set (map snd terms). in_unit v"
  shows "fbound 40 (salience terms)"
proof -
  have get: "fbound (int 0) (fget terms k)" for k
    by (rule tree_leaf(1)) (rule fget_unit [OF assms])
  have "\<forall>x\<in>set (map (\<lambda>(t, w). fmul (fget terms t) w) SALIENCE_WEIGHTS). fbound 0 x"
    using tree_mul [OF get tree_lit] by (simp add: SALIENCE_WEIGHTS_def)
  from py_sum_fbound [OF this] show ?thesis
    by (simp add: salience_def SALIENCE_WEIGHTS_def)
qed

lemma winner_mem: "winner w xs \<in> insert w (set xs)"
  by (induction w xs rule: winner.induct) auto

lemma broadcast_finite:
  assumes run: "compete s c e dmn = Ok b" and c: "ctx_ok c" and a: "affect_ok (affect s)" and d: "drives_ok (drives_of s)"
    and e: "in_unit e"
  shows "all_finite (JObj (broadcast_frame b r t i))"
proof -
  from run obtain off where "is_disabled (pert s) ''workspace'' = Ok off"
    by (auto simp: compete_def result_simps)
  define scored where "scored = map (\<lambda>(name, terms). (name, terms, salience terms)) (faculty_terms s c e)"
  obtain w terms sal where w: "winner (hd scored) (tl scored) = (w, terms, sal)"
    by (cases "winner (hd scored) (tl scored)")
  have scored: "(n, ts, x) \<in> set scored \<Longrightarrow> (\<forall>v\<in>set (map snd ts). in_unit v) \<and> is_finite (py_round 6 x)" for n ts x
    using faculty_terms_unit [OF c a d e] py_round_finite [OF salience_bound] by (fastforce simp: scored_def)
  have "scored \<noteq> []"
    by (simp add: scored_def faculty_terms_def Let_def)
  then have "(w, terms, sal) \<in> set scored"
    using winner_mem [of "hd scored" "tl scored"] w by (cases scored) auto
  note win = scored [OF this]
  have conv: "in_unit (clip01 (fget terms ''conviction''))"
    using win fget_unit by (intro clip01_tree [OF tree_leaf(1)]) blast
  have urg: "in_unit (clip01 (fadd (cx_expected_loss c) (fmul (lit (5 / 10)) (cx_risk c))))"
    by (rule clip01_tree, (rule tree ctx_okD [OF c, THEN tree_leaf(1)] | simp)+)
  show ?thesis
  proof (cases "is_disabled (pert s) ''workspace'' = Ok True")
    case True
    then show ?thesis
      using run by (simp add: compete_def broadcast_frame_def fdict_json_def json_opt_def SCHEMA_VERSION_def)
         auto
  next
    case False
    with run have b: "b = \<lparr>bc_winner = w,
                bc_competitors = map (\<lambda>(n, _, sal). (n, py_round 6 sal)) (filter (\<lambda>(n, _, _). n \<noteq> w) scored),
                bc_scores = map (\<lambda>(k, v). (k, py_round 6 v)) terms,
                bc_salience = py_round 6 sal,
                bc_conviction = py_round 6 (clip01 (fget terms ''conviction'')),
                bc_urgency = py_round 6 (clip01 (fadd (cx_expected_loss c) (fmul (lit (5 / 10)) (cx_risk c)))),
                bc_content = content_of s c e dmn w,
                bc_expected_loss = py_round 6 (cx_expected_loss c),
                bc_attention = Some (attention_of w)\<rparr>"
      by (auto simp: compete_def result_simps Let_def scored_def [symmetric] w split: if_splits)
    show ?thesis
      unfolding b broadcast_frame_def
      using win conv urg ctx_okD(10) [OF c] scored
      by (auto simp: fdict_json_def json_opt_def SCHEMA_VERSION_def r6_finite)
  qed
qed

text \<open>Signals and authority requests.\<close>

lemma signal_severity_unit:
  assumes run: "instinct s c w m d = Ok (sigs, sc)" and c: "ctx_ok c"
  shows "list_all (\<lambda>g. in_unit (sg_severity g)) sigs" and "length sigs \<le> 1"
    and "list_all (\<lambda>g. in_unit (sg_expected_loss g) \<and> in_unit (sg_time_sensitivity g)) sigs"
proof -
  note leaves = ctx_okD [OF c, THEN tree_leaf(1)]
  have sev: "in_unit (py_round 6 (clip01 (fadd (fadd (cx_scar_strength c) (fmul (lit (3 / 10)) (cx_risk c)))
      (if cx_is_fail c then lit (3 / 10) else Num 0))))"
    by (intro py_round_unit, rule clip01_tree, (rule tree leaves | simp)+)
  have tm: "in_unit (py_round 6 (clip01 (fadd (lit (3 / 10)) (fmul (lit (5 / 10)) (cx_risk c)))))"
    by (intro py_round_unit, rule clip01_tree, (rule tree leaves | simp)+)
  show "list_all (\<lambda>g. in_unit (sg_severity g)) sigs" "length sigs \<le> 1"
    "list_all (\<lambda>g. in_unit (sg_expected_loss g) \<and> in_unit (sg_time_sensitivity g)) sigs"
    using run sev tm py_round_unit [OF ctx_okD(10) [OF c]]
    by (auto simp: instinct_def Let_def result_simps split: if_splits prod.splits)
qed

lemma signal_frame_finite:
  assumes "signal_ok g" and "in_unit (sg_severity g)" and "in_unit (sg_expected_loss g)" and "in_unit (sg_time_sensitivity g)"
  shows "all_finite (JObj (signal_frame g r t i))"
  using assms by (cases "sg_base_rate g") (auto simp: signal_frame_def SCHEMA_VERSION_def json_opt_def signal_ok_def in_unit_def)

lemma filterR_length: "filterR p xs = Ok ys \<Longrightarrow> length ys \<le> length xs"
  by (induction xs arbitrary: ys) (auto simp: result_simps le_Suc_eq)

lemma int_div_unit: "0 \<le> a \<Longrightarrow> a \<le> b \<Longrightarrow> in_unit (int_div a b)"
  unfolding int_div_def by (rule mkf_unit) (auto simp: divide_le_eq_1)

lemma authority_finite:
  assumes run: "authority c sigs m g d = Ok reqs" and c: "ctx_ok c" and sev: "list_all (\<lambda>g. in_unit (sg_severity g)) sigs"
  shows "list_all (\<lambda>a. all_finite (JObj (auth_frame a r t i))) reqs"
proof (cases sigs)
  case Nil
  with run show ?thesis by (simp add: authority_def)
next
  case (Cons sig rest)
  note leaves = ctx_okD [OF c, THEN tree_leaf(1)]
  have sv: "fbound (int 0) (sg_severity sig)"
    using sev Cons tree_leaf(1) by simp
  have conv: "in_unit (clip01 (fadd (fadd (lit (4 / 10)) (fmul (lit (4 / 10)) (cx_scar_strength c)))
      (fmul (lit (3 / 10)) (sg_severity sig))))"
    by (rule clip01_tree, (rule tree leaves sv | simp)+)
  have risk: "in_unit (clip01 (fmul (cx_risk c) (fsub (Num 1) (cx_reversibility c))))"
    by (rule clip01_tree, (rule tree leaves | simp)+)
  have fall: "in_unit (clip01 (fadd (lit (3 / 10)) (fmul (lit (5 / 10)) (cx_scar_strength c))))"
    by (rule clip01_tree, (rule tree leaves | simp)+)
  have rate: "is_finite (py_round 6 (int_div (int (length good)) (int (length ex))))"
    if "filterR beneficial ex = Ok good" for ex good
    using int_div_unit [of "int (length good)" "int (length ex)"] filterR_length [OF that] r6_finite(2) by simp
  have res: "all_finite (resolution_json x)" for x
    by (auto simp: resolution_json_def)
  show ?thesis
    using run conv risk fall rate ctx_okD [OF c] unfolding authority_def Cons list.case Let_def
    by (auto simp: result_simps auth_frame_def SCHEMA_VERSION_def r6_def r6_finite res)
qed

text \<open>Interventions of finite value leave finite audit rows.\<close>

lemma jget_finite: "all_finite v \<Longrightarrow> jget v k = Ok x \<Longrightarrow> all_finite x"
  by (cases v) (fastforce simp: jget_or_def dest: map_of_SomeD split: option.splits)+

lemma records_finite:
  assumes "records ivs = Ok rows" and "\<forall>iv\<in>set ivs. all_finite (JObj iv)"
  shows "\<forall>r\<in>set rows. all_finite r"
proof -
  have target: "all_finite (target_of iv)" if "all_finite (JObj iv)" for iv
    using all_finite_dget [OF that, of "''target''"] by (auto simp: target_of_def py_or_def dget_or_def split: option.splits)
  have row: "all_finite row" if "record_row iv = Ok row" and "all_finite (JObj iv)" for iv row
    using that all_finite_dget [OF that(2)] jget_finite [OF target [OF that(2)]]
    by (auto simp: record_row_def result_simps)
  have rows: "mapR record_row xs = Ok ys \<Longrightarrow> \<forall>iv\<in>set xs. all_finite (JObj iv) \<Longrightarrow> \<forall>r\<in>set ys. all_finite r" for xs ys
  proof (induction xs arbitrary: ys)
    case (Cons iv xs)
    then show ?case using row by (auto simp: result_simps)
  qed simp
  show ?thesis
    by (rule rows [OF assms(1) [unfolded records_def]]) (use assms(2) in auto)
qed

text \<open>The frames of state, trace and report.\<close>

lemma state_frame_finite:
  assumes "affect_ok (affect s)" and "mood_ok (mood s)" and "in_pm1 (morale s)" and "drives_ok (drives_of s)"
    and "list_all in_pm1 (map snd mix)" and "in_unit e" and "in_unit k" and c: "ctx_ok c"
    and "in_unit (self_model_reliability s)" and "pred_option in_pm1 (calibration_error s)"
  shows "all_finite (JObj (psyche_state_frame s r t h mix e k anchors c))"
proof -
  have mood: "in_pm1 (fget (mood s) x)" for x
    using assms(2) by (cases "map_of (mood s) x") (fastforce simp: mood_ok_def fget_def dest: map_of_SomeD)+
  have drives: "all_finite (JObj (map (\<lambda>(k, v). (k, JObj [(''level'', r6 (level v)), (''setpoint'', r6 (setpoint v))])) (drives_of s)))"
    using assms(4) by (fastforce simp: drives_ok_def r6_def r6_finite)
  have dissonance: "in_unit (clip01 (fmul (fabs (fget (affect s) ''valence'')) (pos (fget (affect s) ''tension''))))"
    using tree_mul [of 0 "fabs (fget (affect s) ''valence'')" 0] affect_ok_get [OF assms(1)] pos_unit in_unit_fbound
    by (intro clip01_tree [of 0]) (simp add: in_pm1_fbound)
  have aff: "all_finite (fdict_r6 (affect s))" and mx: "all_finite (fdict_r6 mix)"
    using assms(1,5) by (auto simp: affect_ok_def list_all_iff intro!: fdict_r6_finite)
  show ?thesis
    unfolding psyche_state_frame_def
    using mood assms(3) drives dissonance aff mx assms(6,7,9,10) ctx_okD [OF c]
    by (cases "calibration_error s"; cases "prev_dominant s")
       (auto simp: r6_def r6_finite SCHEMA_VERSION_def json_opt_def simp del: all_finite.simps(3) intro!: all_finite.simps(3) [THEN iffD2] ballI)
qed

lemma changed_finite:
  assumes "affect_ok a" and "affect_ok b"
  shows "\<forall>v\<in>set (changed_dimensions a b). all_finite v"
  using affect_ok_get [OF assms(1)] affect_ok_get [OF assms(2)] r6_finite
  by (auto simp: changed_dimensions_def Let_def split: if_splits)

lemma path_finite: "\<forall>v\<in>set (causal_path b p sigs reqs refs c n r i). all_finite v" if "refs \<noteq> []"
  using that by (auto simp: causal_path_def Let_def path_node_def json_opt_def split: list.splits option.splits if_splits)

lemma trace_frame_finite:
  assumes "affect_ok a" and "affect_ok (affect s)" and "\<forall>v\<in>set audit. all_finite v" and "refs \<noteq> []"
  shows "all_finite (JObj (causal_trace_frame s r t i h a b p sigs reqs refs c e audit))"
  using changed_finite [OF assms(1,2)] path_finite [OF assms(4)] assms(3)
  by (auto simp: causal_trace_frame_def Let_def SCHEMA_VERSION_def counterfactuals_def)

lemma report_frame_finite:
  assumes p: "\<forall>v\<in>set (map snd p). in_unit v" and sev: "list_all (\<lambda>g. in_unit (sg_severity g)) sigs" and n: "length sigs \<le> 1"
    and k: "in_unit k" and rel: "in_unit (self_model_reliability s)"
  shows "all_finite (JObj (self_report_frame s r t i h b p refs e k m sigs))"
proof -
  have "fbound 4 (py_sum (map sg_severity sigs))"
    using py_sum_fbound [of "map sg_severity sigs"] sev n fbound_mono [of "4 * int (length sigs)" _ 4]
    by (auto simp: list_all_iff in_unit_fbound)
  moreover have "is_finite (fint (int (length sigs)))"
    using n mkf_unit [of "of_nat (length sigs)" False] by (simp add: fint_def in_unit_def)
  moreover have "in_unit (clip01 (fsub (Num 1) (self_model_reliability s)))"
    by (rule clip01_tree, (rule tree tree_leaf(1) [OF rel] | simp)+)
  ultimately show ?thesis
    using p k by (auto simp: self_report_frame_def SCHEMA_VERSION_def r6_def r6_finite fbound_def in_unit_def)
qed

lemma predicted_unit:
  assumes "ctx_ok c"
  shows "in_unit (predicted_error_of c)"
  unfolding predicted_error_of_def
  by (rule clip01_tree, (rule tree ctx_okD [OF assms, THEN tree_leaf(1)] | simp)+)

lemma continuity_unit: "in_unit (continuity_of anchors)"
proof -
  have three: "is_finite (lit 3)" "0 < fval (lit 3)"
    by code_simp+
  have "\<not> is_nan (fdiv (mkf b x) (lit 3))" for b x
    using three mkf_not_nan by (cases "is_finite (mkf b x)") (auto simp: fdiv_def Let_def)
  then show ?thesis
    unfolding continuity_of_def fint_def by (intro clip01_in_unit)
qed

lemma tick_frames_finite:
  assumes ok: "psyche_ok s" and ivs: "list_all (\<lambda>iv. value_ok iv \<and> all_finite (JObj iv)) (pert s)"
    and st: "tick_stages mexp i s = Ok st" and bounded: "stage_ok mexp st"
  shows "list_all (\<lambda>f. all_finite (JObj f)) (all_frames (fst (emit mexp i s st)))"
proof -
  obtain out s' where em: "emit mexp i s st = (out, s')" by fastforce
  have c: "ctx_ok (st_ctx st)"
    using bounded by (simp add: stage_ok_def)
  from st show ?thesis
  proof (rule tick_stagesE)
    fix ap oc
    assume a: "appraise s (in_world i) (opt_dict (in_agent_trace i)) (opt_dict (in_memory i))
                 (opt_dict (in_governance i)) (domain_of (in_world i)) = Ok (ap, oc, st_ctx st, st_refs st)"
      and na: "next_affect s ap (cx_scar_strength (st_ctx st)) = Ok (st_affect st)"
      and md: "st_mood st = next_mood s (st_affect st)"
      and nd: "next_drives (s\<lparr>morale := next_morale s (st_affect st)\<rparr>) oc = Ok (st_drives st)"
      and pe: "st_predicted st = predicted_error_of (st_ctx st)"
      and rp: "resolve_prediction (s\<lparr>morale := next_morale s (st_affect st)\<rparr>) (observed_error oc)
                 = (st_resolved st, st_prediction_error st)"
      and cp: "compete (st_resolved st) (st_ctx st) (st_predicted st) (st_dominant st) = Ok (st_broadcast st)"
      and ins: "instinct (st_resolved st) (st_ctx st) (in_world i) (opt_dict (in_memory i)) (domain_of (in_world i))
                 = Ok (st_signals st, st_scars st)"
      and cur: "scalar (pert s) ''drives'' ''curiosity'' (fget (pressure (drives_of s)) ''curiosity'') = Ok (st_curiosity st)"
      and au: "authority (st_ctx st) (st_signals st) (opt_dict (in_memory i)) (opt_dict (in_governance i))
                 (domain_of (in_world i)) = Ok (st_requests st)"
      and rec: "records (pert s) = Ok (st_audit st)"
    have vals: "\<forall>iv\<in>set (pert s). value_ok iv" "\<forall>iv\<in>set (pert s). all_finite (JObj iv)"
      using ivs by (auto simp: list_all_iff)
    have s: "affect_ok (affect s)" "drives_ok (drives_of s)"
      using ok by (simp_all add: psyche_ok_def)
    note resolved = resolve_prediction_fields [OF rp]
    have affect: "affect_ok (st_affect st)"
      using next_affect_ok [OF ok vals(1) appraise_bounds [OF a] na] .
    have drives: "drives_ok (st_drives st)"
      using next_drives_ok [OF _ _ nd] s(2) vals(1) by simp
    have curiosity: "in_pm1 (st_curiosity st)"
      using scalar_in_pm1 [OF cur vals(1)] fget_unit [of "pressure (drives_of s)"] pressure_in_unit [OF s(2)] in_unit_pm1 by blast
    note sev = signal_severity_unit [OF ins c]
    have predicted: "in_unit (st_predicted st)"
      unfolding pe by (rule predicted_unit [OF c])
    have refs: "st_refs st \<noteq> []"
      using a by (auto simp: appraise_def evidence_refs_of_def result_simps Let_def split: prod.splits)
    have com: "affect (commit st) = st_affect st" "mood (commit st) = st_mood st" "drives_of (commit st) = st_drives st"
      "morale (commit st) = next_morale s (st_affect st)"
      "self_model_reliability (commit st) = self_model_reliability (st_resolved st)"
      "calibration_error (commit st) = calibration_error (st_resolved st)"
      using resolved by (simp_all add: commit_def)
    note pressures = pressures_unit [OF c affect curiosity sev(1)]
    have "all_finite (JObj (psyche_state_frame (commit st) r t h (mixture mexp (st_affect st)) (st_predicted st)
        (continuity_of (st_anchors st)) (st_anchors st) (st_ctx st)))" for r t h
      using bounded affect drives predicted continuity_unit c next_morale_ok [OF ok affect] next_mood_ok
      by (intro state_frame_finite) (simp_all add: com stage_ok_def md)
    moreover have "all_finite (JObj (broadcast_frame (st_broadcast st) r t k))" for r t k
      using s resolved by (intro broadcast_finite [OF cp c _ _ predicted]) simp_all
    moreover have "all_finite (JObj (signal_frame g r t k))" if "g \<in> set (st_signals st)" for g r t k
      using that bounded sev by (intro signal_frame_finite) (auto simp: stage_ok_def list_all_iff)
    moreover have "all_finite (JObj (pressure_frame (pressures_of (st_ctx st) (st_affect st) (st_curiosity st) (st_signals st))
        src tier r t k))" for src tier r t k
      using fdict_finite pressures by (auto simp: pressure_frame_def SCHEMA_VERSION_def in_unit_def)
    moreover have "\<forall>q\<in>set (st_requests st). all_finite (JObj (auth_frame q r t k))" for r t k
      using authority_finite [OF au c sev(1)] by (auto simp: list_all_iff)
    moreover have "all_finite (JObj (causal_trace_frame (commit st) r t k h (affect s) (st_broadcast st) p (st_signals st)
        (st_requests st) (st_refs st) (st_ctx st) e (st_audit st)))" for r t k h p e
      using s(1) affect records_finite [OF rec vals(2)] refs by (intro trace_frame_finite) (simp_all add: com)
    moreover have "all_finite (JObj (self_report_frame (commit st) r t k h (st_broadcast st)
        (pressures_of (st_ctx st) (st_affect st) (st_curiosity st) (st_signals st)) (st_refs st) (st_predicted st)
        (continuity_of (st_anchors st)) n (st_signals st)))" for r t k h n
      using bounded continuity_unit sev by (intro report_frame_finite [OF pressures]) (simp_all add: com stage_ok_def)
    ultimately show ?thesis
      by (simp only: list_all_iff emit_def Let_def fst_conv all_frames_def psyche_outputs.simps set_append list.set set_map
            ball_Un ball_simps) blast
  qed
qed

section \<open>A validated replay\<close>

lemma sample_context:
  assumes "appraise reset_psyche sample_world [] [] [] d = Ok (ap, oc, c, refs)"
  shows "ctx_ok c"
proof -
  have facts: "in_unit (lit (5 / 10))" "in_unit (clip01 (fdiv (fint 0) (lit 400)))" "in_unit (clip01 (fdiv (fint 0) (lit 3)))"
    "in_unit (clip01 (fadd (fadd (fmul (lit (6 / 10)) (clip01 (clip01 (Num 0)))) (Num 0)) (fmul (lit (4 / 10)) (Num 0))))"
    "is_finite (fint 0)"
    "in_unit (clip01 (fsub (Num 1) (lit (1 / 2))))" "in_unit (clip01 (Num 0))" "in_unit (clip01 (clip01 (Num 0)))"
    "in_unit (clip01 (lit (5 / 10)))"
    by (code_simp+)
  show ?thesis
    using assms facts
    by (auto simp: ctx_ok_def appraise_def sample_world_def Let_def get_or_empty_def py_or_def jget_int_def jget_float_def py_int_def
        py_float_def float_of_int_def appraise_uncertainty_def third_of_len_def py_len_def appraise_scars_def
        reset_psyche_def is_ablated_def is_disabled_def appraise_competence_def is_dict_def is_number_def)
qed

lemma sample_mixture: "list_all in_pm1 (map snd (mixture (\<lambda>_. Num 1) a))"
proof -
  have "mixture (\<lambda>_. Num 1) a = mixture (\<lambda>_. Num 1) []"
    by (simp add: mixture_def activations_def)
  moreover have "list_all in_pm1 (map snd (mixture (\<lambda>_. Num 1) []))" by code_simp
  ultimately show ?thesis by simp
qed

lemma sample_stage_ok:
  assumes "tick_stages (\<lambda>_. Num 1) sample_inputs reset_psyche = Ok st"
  shows "stage_ok (\<lambda>_. Num 1) st"
  using assms
proof (rule tick_stagesE)
  fix ap oc
  assume a: "appraise reset_psyche (in_world sample_inputs) (opt_dict (in_agent_trace sample_inputs)) (opt_dict (in_memory sample_inputs))
               (opt_dict (in_governance sample_inputs)) (domain_of (in_world sample_inputs)) = Ok (ap, oc, st_ctx st, st_refs st)"
    and rp: "resolve_prediction (reset_psyche\<lparr>morale := next_morale reset_psyche (st_affect st)\<rparr>) (observed_error oc)
               = (st_resolved st, st_prediction_error st)"
    and ins: "instinct (st_resolved st) (st_ctx st) (in_world sample_inputs) (opt_dict (in_memory sample_inputs)) (domain_of (in_world sample_inputs))
               = Ok (st_signals st, st_scars st)"
  obtain ap2 oc2 c refs2 where "appraise reset_psyche sample_world [] [] [] (domain_of sample_world) = Ok (ap2, oc2, c, refs2)"
    and quiet: "cx_scar_strength c = Num 0" "cx_errors c = 0" "\<not> cx_is_fail c"
    using sample_appraise by blast
  with a have c: "c = st_ctx st" and a2: "appraise reset_psyche sample_world [] [] [] (domain_of sample_world) = Ok (ap, oc, st_ctx st, st_refs st)"
    by (simp_all add: sample_inputs_def opt_dict_def)
  have "st_signals st = []"
    using ins instinct_silent [of "st_ctx st"] quiet scar_threshold unfolding c by auto
  moreover have pending: "pending_error_prediction reset_psyche = None" and reset: "self_model_reliability reset_psyche = lit (1 / 2)"
    "calibration_error reset_psyche = None"
    by (simp_all add: reset_psyche_def Let_def)
  have "st_resolved st = reset_psyche\<lparr>morale := next_morale reset_psyche (st_affect st)\<rparr>"
    using rp by (simp add: resolve_prediction_def pending)
  with reset have "self_model_reliability (st_resolved st) = lit (1 / 2)" "calibration_error (st_resolved st) = None"
    by simp_all
  ultimately show ?thesis
    using sample_context [OF a2] sample_mixture in_unit_lit [of "1 / 2"] by (simp add: stage_ok_def)
qed



lemma frame_kinds:
  "dget (psyche_state_frame s r t h mix e k an c) ''frame_kind'' = JStr ''psyche_state''"
  "dget (broadcast_frame b r t i) ''frame_kind'' = JStr ''workspace_broadcast''"
  "dget (signal_frame g r t i) ''frame_kind'' = JStr ''instinct_signal''"
  "dget (pressure_frame p src tier r t i) ''frame_kind'' = JStr ''control_pressure''"
  "dget (auth_frame a r t i) ''frame_kind'' = JStr ''authority_request''"
  "dget (causal_trace_frame s r t i h pa b p sigs reqs refs c pe audit) ''frame_kind'' = JStr ''causal_trace''"
  "dget (self_report_frame s r t i h b p refs e k m sigs) ''frame_kind'' = JStr ''grounded_self_report''"
  by (simp_all add: psyche_state_frame_def broadcast_frame_def signal_frame_def pressure_frame_def auth_frame_def
        causal_trace_frame_def self_report_frame_def Let_def)

lemma emit_kinds: "list_all (\<lambda>f. dget f ''frame_kind'' \<in> JStr ` set FRAME_KINDS) (all_frames (fst (emit mexp i s st)))"
  by (simp only: list_all_iff emit_def Let_def fst_conv all_frames_def psyche_outputs.simps set_append list.set set_map
        ball_Un ball_simps frame_kinds)
     (simp add: FRAME_KINDS_def)

lemma sample_validated_run:
  "\<exists>out s'. run_ticks accept_all (reference_subject (\<lambda>_. Num 1)) True False None [sample_tick] reset_psyche = Ok ([out], [], s')"
proof -
  obtain st where st: "tick_stages (\<lambda>_. Num 1) sample_inputs reset_psyche = Ok st"
    using sample_stages by blast
  obtain out s' where em: "emit (\<lambda>_. Num 1) sample_inputs reset_psyche st = (out, s')" by fastforce
  have "list_all (\<lambda>f. all_finite (JObj f)) (all_frames out)"
    using tick_frames_finite [OF reset_psyche_ok _ st sample_stage_ok [OF st]] em by simp
  then have "validate_all accept_all (all_frames out) = Ok ()"
    unfolding validate_all_Ok using emit_kinds [of "\<lambda>_. Num 1" sample_inputs reset_psyche st] em
    by (auto simp: list_all_iff simp del: all_finite.simps intro: accept_all_valid)
  moreover have "ReferenceTick.tick (\<lambda>_. Num 1) sample_inputs reset_psyche = Ok (out, s')"
    by (simp add: tick_def st em)
  moreover have "tick_to_inputs sample_tick False = sample_inputs" and "set_active_interventions [] reset_psyche = reset_psyche"
    by (simp_all add: tick_to_inputs_def sample_tick_def sample_inputs_def set_active_interventions_def reset_psyche_def Let_def)
  ultimately show ?thesis
    by (simp add: run_ticks_def run_tick_def active_at_def reference_subject_def add_ids_def)
qed

theorem validated_pressures_in_unit_witness:
  "\<exists>out s' ps. run_ticks accept_all (reference_subject (\<lambda>_. Num 1)) True False None [sample_tick] reset_psyche = Ok ([out], [], s') \<and>
     dget (control_pressure out) ''pressures'' = fdict_json ps \<and> list_all in_unit (map snd ps)"
proof -
  obtain out s' where run: "run_ticks accept_all (reference_subject (\<lambda>_. Num 1)) True False None [sample_tick] reset_psyche = Ok ([out], [], s')"
    using sample_validated_run by blast
  from validated_pressures_in_unit [OF run] run show ?thesis by auto
qed

section \<open>Grounded reports\<close>

text \<open>
  C3. Reports tell the truth about their own tick: in every replay that validates its frames, under any
  schedule of interventions, each self report of the reference psyche binds to its tick. Its hashes and
  ids name the state, broadcast and trace of that tick, and every number it states is the number the
  frames carry.
\<close>

theorem validated_reports_grounded:
  assumes "run_ticks se (reference_subject mexp) True sm sched ticks s = Ok (outs, ids, s')" and "outs \<noteq> []"
  shows "run_reports_are_grounded outs = Ok True"
proof -
  have "report_is_grounded_to_tick out = Ok True" if "out \<in> set outs" for out
  proof -
    from reference_run_outputs [OF assms(1) that] obtain i t t' tk where
      run: "ReferenceTick.tick mexp i (set_active_interventions (active_at sched tk) t) = Ok (out, t')"
      and valid: "\<forall>f\<in>set (all_frames out). is_valid se f"
      by blast
    from valid have "all_finite (JObj (grounded_self_report out))"
      by (intro is_valid_finite [of se]) (simp add: all_frames_def)
    with run show ?thesis by (rule tick_grounded)
  qed
  then have "allR report_is_grounded_to_tick outs = Ok True"
    by (induction outs) auto
  with assms(2) show ?thesis
    by (simp add: run_reports_are_grounded_def)
qed

theorem validated_reports_grounded_witness:
  "\<exists>out s'. run_ticks accept_all (reference_subject (\<lambda>_. Num 1)) True False None [sample_tick] reset_psyche = Ok ([out], [], s') \<and>
     run_reports_are_grounded [out] = Ok True"
proof -
  obtain out s' where run: "run_ticks accept_all (reference_subject (\<lambda>_. Num 1)) True False None [sample_tick] reset_psyche = Ok ([out], [], s')"
    using sample_validated_run by blast
  from validated_reports_grounded [OF run] run show ?thesis by auto
qed

section \<open>Workspace\<close>

lemma flt_less_trans: "flt_less x y \<Longrightarrow> flt_less y z \<Longrightarrow> flt_less x z"
  by (auto simp: flt_less_def split: if_splits)

lemma winner_grows: "flt_less (snd (snd (winner w xs))) z \<Longrightarrow> flt_less (snd (snd w)) z"
  by (induction w xs rule: winner.induct) (auto split: if_splits intro: flt_less_trans)

lemma winner_max: "x \<in> insert w (set xs) \<Longrightarrow> \<not> flt_less (snd (snd (winner w xs))) (snd (snd x))"
proof (induction w xs rule: winner.induct)
  case (1 w)
  then show ?case by simp
next
  case (2 w y xs)
  then show ?case
    using winner_grows [of "if flt_less (snd (snd w)) (snd (snd y)) then y else w" xs "snd (snd y)"]
      winner_grows [of w "y # xs" "snd (snd w)"]
    by (auto split: if_splits)
qed

text \<open>
  The workspace broadcast goes to a most salient faculty: unless the workspace is disabled, the
  winner is one of the five faculties, its salience is not exceeded by any of theirs (not even when a
  salience is NaN), and the scores broadcast are its own terms.
\<close>

theorem workspace_winner_maximal:
  assumes "compete s c e dmn = Ok b" and "is_disabled (pert s) ''workspace'' = Ok False"
  shows "\<exists>terms. (bc_winner b, terms) \<in> set (faculty_terms s c e) \<and> bc_scores b = map (\<lambda>(k, v). (k, py_round 6 v)) terms \<and>
           bc_salience b = py_round 6 (salience terms) \<and>
           list_all (\<lambda>(_, other). \<not> flt_less (salience terms) (salience other)) (faculty_terms s c e)"
proof -
  define scored where "scored = map (\<lambda>(name, terms). (name, terms, salience terms)) (faculty_terms s c e)"
  obtain w terms sal where w: "winner (hd scored) (tl scored) = (w, terms, sal)"
    by (cases "winner (hd scored) (tl scored)")
  have ne: "scored \<noteq> []"
    by (simp add: scored_def faculty_terms_def Let_def)
  then have ins: "insert (hd scored) (set (tl scored)) = set scored"
    by (cases scored) auto
  then have mem: "(w, terms, sal) \<in> set scored"
    using winner_mem [of "hd scored" "tl scored"] w by simp
  then have sal: "sal = salience terms" and fac: "(w, terms) \<in> set (faculty_terms s c e)"
    by (auto simp: scored_def)
  have "\<not> flt_less sal (salience other)" if "(name, other) \<in> set (faculty_terms s c e)" for name other
  proof -
    have "(name, other, salience other) \<in> set scored"
      using that by (force simp: scored_def)
    with winner_max [of "(name, other, salience other)" "hd scored" "tl scored"] w ins show ?thesis by simp
  qed
  then have "list_all (\<lambda>(_, other). \<not> flt_less (salience terms) (salience other)) (faculty_terms s c e)"
    by (auto simp: list_all_iff sal)
  moreover have "bc_winner b = w" "bc_scores b = map (\<lambda>(k, v). (k, py_round 6 v)) terms" "bc_salience b = py_round 6 sal"
    using assms by (auto simp: compete_def Let_def scored_def [symmetric] w)
  ultimately show ?thesis
    using fac sal by auto
qed

theorem workspace_winner_maximal_witness:
  "\<forall>c e. \<exists>b terms. compete reset_psyche c e ''neutral'' = Ok b \<and> (bc_winner b, terms) \<in> set (faculty_terms reset_psyche c e)"
proof (intro allI)
  fix c e
  have off: "is_disabled (pert reset_psyche) ''workspace'' = Ok False"
    by (simp add: is_disabled_def)
  obtain b where run: "compete reset_psyche c e ''neutral'' = Ok b"
    using compete_unperturbed [OF reset_pert(1)] by blast
  from workspace_winner_maximal [OF run off] run
  show "\<exists>b terms. compete reset_psyche c e ''neutral'' = Ok b \<and> (bc_winner b, terms) \<in> set (faculty_terms reset_psyche c e)"
    by blast
qed

end
