(* ===== verification/TimelineProps.thy ===== *)
theory TimelineProps
  imports Report Validation
begin

text \<open>
  Timelines and comparisons: the grouping of a stream equals a reference definition that splits it at
  the world frames, the windows of a schedule are the durations of its interventions, validation
  accepts exactly the strict JSON frames the schema accepts, stage order in a trace is the
  subsequence relation, and the verdict of an intervention test means what it says.
\<close>

section \<open>Grouping against a reference definition\<close>

text \<open>
  The reference: each tick is a world frame with the frames up to the next world. Its trace and
  memory are the last of their kind in that segment, its governance the last one seen so far.
\<close>

definition last_of :: "string \<Rightarrow> dict list \<Rightarrow> dict option \<Rightarrow> dict option" where
  "last_of kind fs old = (case filter (\<lambda>f. frame_kind f = JStr kind) fs of [] \<Rightarrow> old | gs \<Rightarrow> Some (last gs))"

abbreviation no_world :: "dict \<Rightarrow> bool" where
  "no_world f \<equiv> \<not> is_world f"

function split_ticks :: "nat \<Rightarrow> dict option \<Rightarrow> dict list \<Rightarrow> tick list" where
  "split_ticks n gov fs =
     (case dropWhile no_world fs of
        [] \<Rightarrow> []
      | w # rest \<Rightarrow>
          (let segment = takeWhile no_world rest;
               gov' = last_of ''governance'' segment (last_of ''governance'' (takeWhile no_world fs) gov)
           in \<lparr>tk_index = n, tk_world = w, tk_agent_trace = last_of ''agent_trace'' segment None,
               tk_memory = last_of ''memory'' segment None, tk_governance = gov',
               tk_interventions = filter is_intervention segment\<rparr>
              # split_ticks (Suc n) gov' (dropWhile no_world rest)))"
  by pat_completeness auto
termination
proof (relation "measure (\<lambda>(_, _, fs). length fs)")
  fix n :: nat and gov fs w rest segment gov'
  assume "dropWhile no_world fs = w # rest"
  then have "length (w # rest) \<le> length fs"
    by (metis length_dropWhile_le)
  then show "((Suc n, gov', dropWhile no_world rest), n, gov, fs) \<in> measure (\<lambda>(_, _, fs). length fs)"
    using length_dropWhile_le [of no_world rest] by simp
qed simp

declare split_ticks.simps [simp del]

lemma last_of_Nil [simp]: "last_of k [] old = old"
  by (simp add: last_of_def)

lemma last_of_Cons [simp]:
  "last_of k (f # fs) old = last_of k fs (if frame_kind f = JStr k then Some f else old)"
  by (cases "filter (\<lambda>f. frame_kind f = JStr k) fs") (auto simp: last_of_def)

text \<open>A segment without world frames only changes the current tick and the sticky governance.\<close>

lemma tick_step_snoc:
  "no_world f \<Longrightarrow> tick_step (ts @ [t], gov) f =
     (ts @ [t\<lparr>tk_agent_trace := last_of ''agent_trace'' [f] (tk_agent_trace t),
               tk_memory := last_of ''memory'' [f] (tk_memory t),
               tk_governance := last_of ''governance'' [f] (tk_governance t),
               tk_interventions := tk_interventions t @ filter is_intervention [f]\<rparr>],
      last_of ''governance'' [f] gov)"
  by (cases t) (simp add: tick_step_def Let_def)

lemma foldl_segment:
  assumes "list_all no_world seg" and "tk_governance t = gov"
  shows "foldl tick_step (ts @ [t], gov) seg =
     (ts @ [t\<lparr>tk_agent_trace := last_of ''agent_trace'' seg (tk_agent_trace t),
               tk_memory := last_of ''memory'' seg (tk_memory t),
               tk_governance := last_of ''governance'' seg gov,
               tk_interventions := tk_interventions t @ filter is_intervention seg\<rparr>],
      last_of ''governance'' seg gov)"
  using assms
proof (induction seg arbitrary: t gov)
  case Nil
  then show ?case by (cases t) simp
next
  case (Cons f seg)
  let ?t = "t\<lparr>tk_agent_trace := last_of ''agent_trace'' [f] (tk_agent_trace t),
               tk_memory := last_of ''memory'' [f] (tk_memory t),
               tk_governance := last_of ''governance'' [f] (tk_governance t),
               tk_interventions := tk_interventions t @ filter is_intervention [f]\<rparr>"
  have f: "no_world f" and seg: "list_all no_world seg"
    using Cons.prems(1) by simp_all
  have "foldl tick_step (ts @ [t], gov) (f # seg) = foldl tick_step (ts @ [?t], last_of ''governance'' [f] gov) seg"
    by (simp only: foldl_Cons tick_step_snoc [OF f])
  also have "\<dots> = (ts @ [?t\<lparr>tk_agent_trace := last_of ''agent_trace'' seg (tk_agent_trace ?t),
               tk_memory := last_of ''memory'' seg (tk_memory ?t),
               tk_governance := last_of ''governance'' seg (last_of ''governance'' [f] gov),
               tk_interventions := tk_interventions ?t @ filter is_intervention seg\<rparr>],
      last_of ''governance'' seg (last_of ''governance'' [f] gov))"
    by (rule Cons.IH [OF seg]) (use Cons.prems(2) in simp)
  finally show ?case
    by (cases t) simp
qed

lemma foldl_prelude:
  "list_all no_world seg \<Longrightarrow> foldl tick_step ([], gov) seg = ([], last_of ''governance'' seg gov)"
proof (induction seg arbitrary: gov)
  case (Cons f seg)
  then show ?case by (cases "is_governance f") (auto simp: tick_step_def)
qed simp

lemma list_all_takeWhile: "list_all P (takeWhile P xs)"
  by (induction xs) auto

text \<open>The state before a world frame, or after the last frame, of a stream already cut into ticks.\<close>

lemma takeWhile_dropWhile_Nil: "takeWhile P (dropWhile P xs) = []"
  by (induction xs) auto

lemma foldl_split:
  assumes "ts = [] \<or> takeWhile no_world fs = []"
  shows "fst (foldl tick_step (ts, gov) fs) = ts @ split_ticks (length ts) gov fs"
  using assms
proof (induction "length fs" arbitrary: ts gov fs rule: less_induct)
  case less
  let ?pre = "takeWhile no_world fs"
  have pre: "foldl tick_step (ts, gov) ?pre = (ts, last_of ''governance'' ?pre gov)"
    using less.prems by (auto simp: foldl_prelude list_all_takeWhile)
  show ?case
  proof (cases "dropWhile no_world fs")
    case Nil
    then have all: "?pre = fs"
      by (simp add: dropWhile_eq_Nil_conv takeWhile_eq_all_conv)
    have "fst (foldl tick_step (ts, gov) fs) = ts"
      using pre unfolding all by simp
    moreover have "split_ticks (length ts) gov fs = []"
      by (simp only: split_ticks.simps [of "length ts" gov fs] Nil list.case)
    ultimately show ?thesis by simp
  next
    case (Cons w rest)
    let ?seg = "takeWhile no_world rest" and ?rest = "dropWhile no_world rest"
    let ?g = "last_of ''governance'' ?pre gov"
    let ?t = "\<lparr>tk_index = length ts, tk_world = w, tk_agent_trace = last_of ''agent_trace'' ?seg None,
               tk_memory = last_of ''memory'' ?seg None, tk_governance = last_of ''governance'' ?seg ?g,
               tk_interventions = filter is_intervention ?seg\<rparr>"
    have w: "is_world w"
      using Cons hd_dropWhile [of no_world fs] by simp
    have fs: "foldl tick_step (ts, gov) fs = foldl tick_step (ts, gov) (?pre @ (w # (?seg @ ?rest)))"
      using Cons takeWhile_dropWhile_id [of no_world fs] by simp
    have "length ?rest < length fs"
      using Cons length_dropWhile_le [of no_world fs] length_dropWhile_le [of no_world rest] by simp
    then have "fst (foldl tick_step (ts @ [?t], last_of ''governance'' ?seg ?g) ?rest)
        = (ts @ [?t]) @ split_ticks (length (ts @ [?t])) (last_of ''governance'' ?seg ?g) ?rest"
      by (rule less.hyps) (simp add: takeWhile_dropWhile_Nil)
    moreover have step: "foldl tick_step (tick_step (ts, ?g) w) ?seg = (ts @ [?t], last_of ''governance'' ?seg ?g)"
      using w by (simp add: tick_step_def foldl_segment list_all_takeWhile)
    have "foldl tick_step (ts, gov) fs = foldl tick_step (ts @ [?t], last_of ''governance'' ?seg ?g) ?rest"
      unfolding fs by (simp only: foldl_append foldl_Cons pre step)
    moreover have "split_ticks (length ts) gov fs = ?t # split_ticks (Suc (length ts)) (last_of ''governance'' ?seg ?g) ?rest"
      by (simp only: split_ticks.simps [of "length ts" gov fs] Cons list.case Let_def)
    ultimately show ?thesis by simp
  qed
qed

text \<open>
  C33. Grouping is splitting: the loop over the stream, with its mutable current tick and sticky
  governance, computes the ticks of the reference definition.
\<close>

theorem group_into_ticks_split: "group_into_ticks fs = split_ticks 0 None fs"
  using foldl_split [of "[]" fs None] by (simp add: group_into_ticks_def)

section \<open>Schedules\<close>

text \<open>Whether an intervention that arrives at \<open>onset\<close> covers tick \<open>i\<close>.\<close>

definition covers :: "tick list \<Rightarrow> nat \<Rightarrow> nat \<times> dict \<Rightarrow> bool" where
  "covers ticks i arrival =
     (case arrival of (onset, iv) \<Rightarrow>
        (case covered_end onset iv ticks (world_phase (tk_world (ticks ! onset))) of
           Ok stop \<Rightarrow> onset \<le> i \<and> i < stop
         | Raise _ \<Rightarrow> False))"

lemma schedule_fold:
  assumes "foldR (\<lambda>windows (onset, iv).
               bindR (covered_end onset iv ticks (world_phase (tk_world (ticks ! onset))))
                 (\<lambda>stop. Ok (add_window windows onset stop iv))) w arrivals = Ok w'"
    and "i < length w"
  shows "length w' = length w \<and> w' ! i = w ! i @ map snd (filter (covers ticks i) arrivals)"
  using assms
proof (induction arrivals arbitrary: w)
  case Nil
  then show ?case by simp
next
  case (Cons a arrivals)
  obtain onset iv where a: "a = (onset, iv)" by (cases a)
  with Cons.prems(1) obtain stop where stop: "covered_end onset iv ticks (world_phase (tk_world (ticks ! onset))) = Ok stop"
    and rest: "foldR (\<lambda>windows (onset, iv).
               bindR (covered_end onset iv ticks (world_phase (tk_world (ticks ! onset))))
                 (\<lambda>stop. Ok (add_window windows onset stop iv))) (add_window w onset stop iv) arrivals = Ok w'"
    by (auto simp: result_simps)
  from Cons.IH [OF rest] Cons.prems(2) stop a show ?case
    by (simp add: covers_def add_window_nth)
qed

text \<open>Every element of a loop that completes was processed.\<close>

lemma foldR_processed: "foldR f s xs = Ok r \<Longrightarrow> x \<in> set xs \<Longrightarrow> \<exists>s' t. f s' x = Ok t"
  by (induction xs arbitrary: s) (auto simp: result_simps)

lemma onsets_arrival: "(onset, iv) \<in> set (onsets ticks) \<longleftrightarrow> onset < length ticks \<and> iv \<in> set (tk_interventions (ticks ! onset))"
  by (force simp: onsets_def in_set_enumerate_eq)


definition sample_boost :: dict where
  "sample_boost =
     [(''frame_kind'', JStr ''intervention''), (''experiment_id'', JStr ''e1''), (''operation'', JStr ''boost''),
      (''value'', JFloat (Num (1 / 2))), (''target'', JObj [(''subsystem'', JStr ''drives'')]),
      (''duration'', JObj [(''kind'', JStr ''ticks''), (''amount'', JInt 2)])]"

definition sample_stream :: "dict list" where
  "sample_stream =
     [[(''frame_kind'', JStr ''world'')], sample_boost, [(''frame_kind'', JStr ''world'')], [(''frame_kind'', JStr ''world'')]]"

lemma boost_schedule: "schedule_from_frames sample_stream = Ok [[sample_boost], [sample_boost], []]"
  by code_simp


text \<open>
  An intervention is active in the tick it arrives in, whatever its duration says, and no schedule
  reaches beyond the timeline.
\<close>

theorem schedule_covers_onset:
  assumes "schedule_from_frames fs = Ok w" and "onset < length (group_into_ticks fs)"
    and "iv \<in> set (tk_interventions (group_into_ticks fs ! onset))"
  shows "iv \<in> set (active w onset) \<and> active w (length (group_into_ticks fs)) = []"
proof -
  let ?ticks = "group_into_ticks fs"
  have arrival: "(onset, iv) \<in> set (onsets ?ticks)"
    using assms(2,3) by (simp add: onsets_arrival)
  then obtain stop where "covered_end onset iv ?ticks (world_phase (tk_world (?ticks ! onset))) = Ok stop"
    using foldR_processed [OF assms(1) [unfolded schedule_from_frames_def Let_def] arrival] by (auto simp: result_simps)
  with covered_end_bounds [OF this assms(2)] have "covers ?ticks onset (onset, iv)"
    by (simp add: covers_def)
  moreover have "length w = length ?ticks" and
    "active w onset = map snd (filter (covers ?ticks onset) (onsets ?ticks))"
    using schedule_fold [OF assms(1) [unfolded schedule_from_frames_def Let_def], of onset] assms(2)
    by (simp_all add: active_def)
  ultimately show ?thesis
    using arrival by (force simp: active_def)
qed

theorem schedule_covers_onset_witness: "sample_boost \<in> set (active [[sample_boost], [sample_boost], []] 0)"
proof -
  have ticks: "map tk_interventions (group_into_ticks sample_stream) = [[sample_boost], [], []]" by code_simp
  then have "length (map tk_interventions (group_into_ticks sample_stream)) = 3"
    by (simp only: list.size)
  then have n: "0 < length (group_into_ticks sample_stream)" by simp
  then have "tk_interventions (group_into_ticks sample_stream ! 0) = [sample_boost]"
    using ticks by (metis nth_Cons_0 nth_map)
  with schedule_covers_onset [OF boost_schedule n, of sample_boost] show ?thesis by simp
qed

text \<open>
  The null arm's schedule is inert: every operation is \<open>restore\<close>, targets and identities are kept,
  and its audit rows are empty in every tick.
\<close>

theorem neutralized_is_inert:
  assumes "list_all target_ok (concat w)"
  shows "map (map target_of) (neutralized w) = map (map target_of) w \<and>
         list_all (\<lambda>iv. dget iv ''operation'' = JStr ''restore'') (concat (neutralized w)) \<and>
         records (active (neutralized w) i) = Ok []"
proof -
  have "target_ok iv" if "iv \<in> set (active w i)" for iv
    using that assms by (auto simp: active_def list_all_iff split: if_splits)
  then have "\<forall>iv\<in>set (active (neutralized w) i). neutral iv"
    by (auto simp: active_neutralized intro: neutral_neutralize)
  then show ?thesis
    by (simp add: records_neutral neutralized_def list_all_iff) (simp add: neutralize_def)
qed

theorem neutralized_is_inert_witness:
  "records (active (neutralized [[sample_boost], [sample_boost], []]) 1) = Ok []"
  using neutralized_is_inert [of "[[sample_boost], [sample_boost], []]"]
  by (simp add: target_ok_def target_of_def sample_boost_def dget_or_def py_or_def is_dict_def)

section \<open>Validation\<close>

text \<open>
  What validation accepts: a frame passes exactly when it names a known kind, every number in it is
  finite (so it is strict JSON) and the schema of its kind reports nothing; it is returned unchanged.
\<close>

theorem validate_or_raise_accepts:
  "validate_or_raise se f = Ok f' \<longleftrightarrow>
     f' = f \<and> (\<exists>k\<in>set FRAME_KINDS. dget f ''frame_kind'' = JStr k \<and> all_finite (JObj f) \<and> se k f = [])"
  by (auto simp: is_valid_def iter_errors_def non_finite_errors_iff split: json.splits if_splits)

section \<open>Stage order\<close>

text \<open>
  The index-search loop over the stages of a trace decides the subsequence relation.
\<close>

theorem stage_search_is_subseq: "ordered_subsequence stages required = subseq (map JStr required) stages"
  by (simp add: ordered_subsequence_def ordered_from_subseq)

section \<open>Verdicts\<close>

text \<open>
  A passed test is causal evidence: its signal is supported in all three arms, the treated arm
  moved from the control arm in the expected direction, and the null arm did not move.
\<close>

theorem passed_test_is_causal:
  assumes "evaluate_intervention iv control treated nul = Ok r" and "tr_passed r"
  shows "\<exists>c t n. extract_signal (tr_target_signal r) control = Ok c \<and> extract_signal (tr_target_signal r) treated = Ok t \<and>
           extract_signal (tr_target_signal r) nul = Ok n \<and>
           direction_ok (tr_expected_direction r) (py_round 6 (fsub t c)) (tr_bound r) = Ok True \<and>
           flt_le (fabs (py_round 6 (fsub n c))) EPS"
proof -
  from assms obtain c t n e where
    "extract_three (tr_target_signal r) control treated nul = Ok (c, t, n, e)" and e: "e = None"
    and moved: "direction_ok (tr_expected_direction r) (py_round 6 (fsub t c)) (tr_bound r) = Ok True"
    and "flt_le (fabs (py_round 6 (fsub n c))) EPS"
    by (auto simp: evaluate_intervention_def Let_def result_simps split: if_splits)
  moreover from this have "extract_signal (tr_target_signal r) control = Ok c"
    "extract_signal (tr_target_signal r) treated = Ok t" "extract_signal (tr_target_signal r) nul = Ok n"
    by (auto simp: extract_three_def bindR_def split: sum.splits py_error.splits)
  ultimately show ?thesis by blast
qed

definition bare_output :: "dict list \<Rightarrow> psyche_outputs" where
  "bare_output sigs =
     \<lparr>psyche_state = [], workspace_broadcast = [], control_pressure = [], causal_trace = [], grounded_self_report = [],
      instinct_signals = sigs, authority_requests = []\<rparr>"

theorem passed_test_is_causal_witness:
  "\<exists>r. evaluate_intervention
         [(''experiment_id'', JStr ''e''), (''operation'', JStr ''boost''), (''expected_behavioral_change'',
            JObj [(''target_signal'', JStr ''instinct.count''), (''direction'', JStr ''increase'')])]
         [bare_output []] [bare_output [[]]] [bare_output []] = Ok r \<and>
       direction_ok (JStr ''increase'') (tr_observed_delta r) JNull = Ok True \<and>
       (\<exists>c. extract_signal (tr_target_signal r) [bare_output []] = Ok c)"
proof -
  let ?iv = "[(''experiment_id'', JStr ''e''), (''operation'', JStr ''boost''), (''expected_behavioral_change'',
            JObj [(''target_signal'', JStr ''instinct.count''), (''direction'', JStr ''increase'')])]"
  have "case evaluate_intervention ?iv [bare_output []] [bare_output [[]]] [bare_output []] of
          Inl _ \<Rightarrow> False
        | Inr r \<Rightarrow> tr_passed r \<and> direction_ok (JStr ''increase'') (tr_observed_delta r) JNull = Ok True"
    by code_simp
  then obtain r where run: "evaluate_intervention ?iv [bare_output []] [bare_output [[]]] [bare_output []] = Ok r"
    and "tr_passed r" "direction_ok (JStr ''increase'') (tr_observed_delta r) JNull = Ok True"
    by (auto split: sum.splits)
  with passed_test_is_causal [OF run] show ?thesis by blast
qed

end
