(* ===== verification/Bundles.thy ===== *)
theory Bundles
  imports Validation
begin

text \<open>
  Containers of frames (\<open>schemas/validate.py\<close>): input and output bundles, evidence campaigns and
  thought streams. The shell is checked against its own schema (a parameter, like the schema checker
  of single frames) and every member frame against the contract of its kind.
\<close>

section \<open>Model\<close>

definition py_type_name :: "json \<Rightarrow> string" where
  "py_type_name v =
     (case v of JNull \<Rightarrow> ''NoneType'' | JBool _ \<Rightarrow> ''bool'' | JInt _ \<Rightarrow> ''int'' | JFloat _ \<Rightarrow> ''float''
              | JStr _ \<Rightarrow> ''str'' | JList _ \<Rightarrow> ''list'' | JObj _ \<Rightarrow> ''dict'')"

text \<open>The \<open>bundle_kind\<close>s that have a schema.\<close>

definition BUNDLE_KINDS :: "string list" where
  "BUNDLE_KINDS = [''pneuma_input'', ''pneuma_output'']"

definition BUNDLE_MEMBER_KEYS :: "string list" where
  "BUNDLE_MEMBER_KEYS =
     [''world'', ''agent_trace'', ''governance'', ''risk_estimate'', ''instinct'', ''control_pressure'',
      ''causal_trace'', ''consciousness_evidence'', ''psyche_state'', ''workspace_broadcast'']"

text \<open>
  The shell: the non-finite scan, then the messages of the schema; \<open>what\<close> is the text between
  \<open>invalid\<close> and the messages.
\<close>

definition check_shell :: "string list \<Rightarrow> string \<Rightarrow> dict \<Rightarrow> unit result" where
  "check_shell shell_errors what doc =
     (let messages = non_finite_errors (JObj doc) ''<root>'' @ shell_errors in
      if messages \<noteq> []
      then Raise (FrameValidationError (''invalid '' @ what @ '': '' @ join ''; '' messages))
      else Ok ())"

definition validate_member :: "schema_checker \<Rightarrow> dict \<Rightarrow> string \<Rightarrow> unit result" where
  "validate_member schema_errors bundle key =
     (case dget bundle key of
        JObj member \<Rightarrow>
          if is_str (dget member ''frame_kind'')
          then bindR (validate_or_raise schema_errors member) (\<lambda>_. Ok ()) else Ok ()
      | _ \<Rightarrow> Ok ())"

definition validate_bundle :: "schema_checker \<Rightarrow> schema_checker \<Rightarrow> json \<Rightarrow> json result" where
  "validate_bundle bundle_errors schema_errors v =
     (case v of
        JObj bundle \<Rightarrow>
          (case dget bundle ''bundle_kind'' of
             JStr kind \<Rightarrow>
               if kind \<notin> set BUNDLE_KINDS
               then Raise (FrameValidationError (''unknown bundle_kind: '' @ repr_str kind))
               else
                 bindR (check_shell (bundle_errors kind bundle) (kind @ '' bundle'') bundle) (\<lambda>_.
                 bindR (foldR (\<lambda>_ key. validate_member schema_errors bundle key) () BUNDLE_MEMBER_KEYS) (\<lambda>_.
                 Ok v))
           | kind \<Rightarrow> Raise (FrameValidationError (''bundle has no string bundle_kind: '' @ py_repr_json kind)))
      | _ \<Rightarrow> Raise (FrameValidationError (''bundle is not an object: '' @ py_type_name v)))"

definition validate_campaign :: "(dict \<Rightarrow> string list) \<Rightarrow> schema_checker \<Rightarrow> json \<Rightarrow> json result" where
  "validate_campaign campaign_errors schema_errors v =
     (case v of
        JObj summary \<Rightarrow>
          bindR (check_shell (campaign_errors summary) ''evidence campaign'' summary) (\<lambda>_.
          bindR (py_iter (dget_or summary ''slices'' (JList []))) (\<lambda>slices.
          bindR (foldR (\<lambda>_ sl.
                   bindR (jget sl ''evidence_frame'') (\<lambda>frame.
                     case frame of JObj f \<Rightarrow> bindR (validate_or_raise schema_errors f) (\<lambda>_. Ok ()) | _ \<Rightarrow> Ok ()))
                 () slices) (\<lambda>_.
          Ok v)))
      | _ \<Rightarrow> Raise (FrameValidationError (''campaign is not an object: '' @ py_type_name v)))"

definition validate_thought_stream :: "(dict \<Rightarrow> string list) \<Rightarrow> json \<Rightarrow> json result" where
  "validate_thought_stream stream_errors v =
     (case v of
        JObj doc \<Rightarrow> bindR (check_shell (stream_errors doc) ''thought_stream'' doc) (\<lambda>_. Ok v)
      | _ \<Rightarrow> Raise (FrameValidationError (''thought_stream is not an object: '' @ py_type_name v)))"

section \<open>What is accepted\<close>

lemma check_shell_Ok [simp]:
  "check_shell errs what doc = Ok u \<longleftrightarrow> all_finite (JObj doc) \<and> errs = []"
  using non_finite_errors_iff(1) [of "JObj doc" "''<root>''"]
  by (simp add: check_shell_def Let_def del: all_finite.simps non_finite_errors.simps)

lemma foldR_unit_Ok: "foldR (\<lambda>_ x. f x) () xs = Ok u \<longleftrightarrow> (\<forall>x\<in>set xs. f x = Ok ())"
  by (induction xs) (auto simp: result_simps)

text \<open>A member frame: a dict that names its kind.\<close>

definition member_frame :: "dict \<Rightarrow> string \<Rightarrow> dict \<Rightarrow> bool" where
  "member_frame bundle key f \<longleftrightarrow> dget bundle key = JObj f \<and> is_str (dget f ''frame_kind'')"

lemma validate_member_Ok:
  "validate_member se bundle key = Ok u \<longleftrightarrow> (\<forall>f. member_frame bundle key f \<longrightarrow> is_valid se f)"
  by (auto simp: validate_member_def member_frame_def result_simps split: json.splits if_splits)

text \<open>
  What bundle validation accepts: exactly the dicts of a known bundle kind whose numbers are all
  finite, whose shell satisfies the bundle's schema and each of whose member frames is valid under
  the contract of its own kind; the bundle is returned unchanged.
\<close>

theorem validate_bundle_accepts:
  "validate_bundle be se (JObj bundle) = Ok v \<longleftrightarrow>
     v = JObj bundle \<and> all_finite v \<and>
     (\<exists>kind\<in>set BUNDLE_KINDS. dget bundle ''bundle_kind'' = JStr kind \<and> be kind bundle = []) \<and>
     list_all (\<lambda>key. case dget bundle key of
                       JObj f \<Rightarrow> (case dget f ''frame_kind'' of JStr _ \<Rightarrow> is_valid se f | _ \<Rightarrow> True)
                     | _ \<Rightarrow> True) BUNDLE_MEMBER_KEYS"
proof -
  have member: "(case dget bundle key of JObj f \<Rightarrow> (case dget f ''frame_kind'' of JStr _ \<Rightarrow> is_valid se f | _ \<Rightarrow> True) | _ \<Rightarrow> True)
      \<longleftrightarrow> validate_member se bundle key = Ok ()" for key
    by (auto simp: validate_member_Ok member_frame_def is_str_def split: json.splits)
  show ?thesis
    by (cases "dget bundle ''bundle_kind''")
       (auto simp: validate_bundle_def result_simps foldR_unit_Ok member list_all_iff simp del: all_finite.simps)
qed

end
