(* ===== verification/PyOrder.thy ===== *)
theory PyOrder
  imports PyJson
begin

text \<open>
  Comparison of Python values: \<open>a < b\<close> and the built-in \<open>sorted\<close> with a key. Incomparable values
  raise, so sorting is fallible.
\<close>

section \<open>Model\<close>

text \<open>
  \<open>a < b\<close> on the values of a frame: numbers across \<open>bool\<close>, \<open>int\<close> and \<open>float\<close>, strings by code point
  (the order of their UTF-8 bytes), lists by the first difference; anything else is a \<open>TypeError\<close>.
\<close>

definition num_less :: "json \<Rightarrow> json \<Rightarrow> bool option" where
  "num_less a b =
     (let view = (\<lambda>v. case v of JBool x \<Rightarrow> Some (Inl (if x then 1 else 0)) | JInt i \<Rightarrow> Some (Inl i)
                              | JFloat f \<Rightarrow> Some (Inr f) | _ \<Rightarrow> None) in
      case (view a, view b) of
        (Some (Inl i), Some (Inl j)) \<Rightarrow> Some (i < j)
      | (Some (Inl i), Some (Inr f)) \<Rightarrow> Some (if is_finite f then of_int i < fval f else f = PosInf)
      | (Some (Inr f), Some (Inl i)) \<Rightarrow> Some (if is_finite f then fval f < of_int i else f = NegInf)
      | (Some (Inr f), Some (Inr g)) \<Rightarrow> Some (flt_less f g)
      | _ \<Rightarrow> None)"

fun py_less :: "json \<Rightarrow> json \<Rightarrow> bool result"
  and py_less_list :: "json list \<Rightarrow> json list \<Rightarrow> bool result" where
  "py_less (JStr s) w = (case w of JStr t \<Rightarrow> Ok (s < t) | _ \<Rightarrow> Raise TypeError)"
| "py_less (JList xs) w = (case w of JList ys \<Rightarrow> py_less_list xs ys | _ \<Rightarrow> Raise TypeError)"
| "py_less JNull w = Raise TypeError"
| "py_less (JObj d) w = Raise TypeError"
| "py_less (JBool b) w = (case num_less (JBool b) w of Some r \<Rightarrow> Ok r | None \<Rightarrow> Raise TypeError)"
| "py_less (JInt i) w = (case num_less (JInt i) w of Some r \<Rightarrow> Ok r | None \<Rightarrow> Raise TypeError)"
| "py_less (JFloat f) w = (case num_less (JFloat f) w of Some r \<Rightarrow> Ok r | None \<Rightarrow> Raise TypeError)"
| "py_less_list [] ys = Ok (ys \<noteq> [])"
| "py_less_list (x # xs) ys =
     (case ys of [] \<Rightarrow> Ok False | y # zs \<Rightarrow> if py_eq x y then py_less_list xs zs else py_less x y)"

text \<open>
  \<open>sorted(xs, key=key)\<close>: a stable sort by comparisons. An element goes before the first one its key
  is less than; the first incomparable pair raises. The result does not depend on the algorithm for
  keys that are totally ordered (no NaN among them).
\<close>

fun py_insert :: "('a \<Rightarrow> json) \<Rightarrow> 'a \<Rightarrow> 'a list \<Rightarrow> 'a list result" where
  "py_insert key x [] = Ok [x]"
| "py_insert key x (y # ys) =
     bindR (py_less (key x) (key y)) (\<lambda>less.
       if less then Ok (x # y # ys) else bindR (py_insert key x ys) (\<lambda>zs. Ok (y # zs)))"

definition py_sorted_by :: "('a \<Rightarrow> json) \<Rightarrow> 'a list \<Rightarrow> 'a list result" where
  "py_sorted_by key xs = foldR (\<lambda>acc x. py_insert key x acc) [] xs"

end
