(* ===== verification/BridgeProps.thy ===== *)
theory BridgeProps
  imports Bridge EvidenceProps "HOL-Library.Multiset"
begin

text \<open>
  The trajectory bridge: agent frames come out in the stable order of their step indices, a timeline
  it produces groups into one tick for the task plus one per agent step, and on a well-formed
  envelope nothing but its own \<open>BridgeError\<close> is ever raised.
\<close>

section \<open>The sort\<close>

lemma py_insert_mset: "py_insert key x ys = Ok zs \<Longrightarrow> mset zs = add_mset x (mset ys)"
  by (induction key x ys arbitrary: zs rule: py_insert.induct) (auto simp: result_simps split: if_splits)

lemma py_less_JInt [simp]: "py_less (JInt i) (JInt j) = Ok (i < j)"
  by (simp add: num_less_def)

text \<open>With integer keys an insertion never raises, keeps the order and goes behind equal keys.\<close>

lemma py_insert_int:
  assumes "key x = JInt (k x)" and "\<And>y. y \<in> set ys \<Longrightarrow> key y = JInt (k y)"
  shows "py_insert key x ys = Ok (takeWhile (\<lambda>y. k y \<le> k x) ys @ x # dropWhile (\<lambda>y. k y \<le> k x) ys)"
  using assms(2)
proof (induction ys)
  case (Cons y ys)
  then have y: "key y = JInt (k y)"
    and ih: "py_insert key x ys = Ok (takeWhile (\<lambda>y. k y \<le> k x) ys @ x # dropWhile (\<lambda>y. k y \<le> k x) ys)"
    by simp_all
  show ?case
    by (cases "k x < k y") (simp_all only: py_insert.simps assms(1) y py_less_JInt bindR_Inr if_True if_False ih,
      simp_all add: not_less)
qed simp

lemma sorted_insert:
  assumes "sorted (map k ys)"
  shows "sorted (map k (takeWhile (\<lambda>y. k y \<le> k x) ys @ x # dropWhile (\<lambda>y. k y \<le> k x) ys))"
  using assms
proof (induction ys)
  case (Cons y ys)
  then show ?case
    by (cases "k y \<le> k x") (auto simp: not_le dest: set_takeWhileD set_dropWhileD)
qed simp

lemma dropWhile_sorted_above:
  fixes v :: "'b :: linorder"
  shows "sorted (map k ys) \<Longrightarrow> \<forall>y\<in>set (dropWhile (\<lambda>y. k y \<le> v) ys). v < k y"
  by (induction ys) (auto simp: not_le)

lemma filter_insert_stable:
  assumes "sorted (map k ys)"
  shows "filter (\<lambda>y. k y = v) (takeWhile (\<lambda>y. k y \<le> k x) ys @ x # dropWhile (\<lambda>y. k y \<le> k x) ys)
       = filter (\<lambda>y. k y = v) (ys @ [x])"
proof (cases "k x = v")
  case True
  have none: "filter (\<lambda>y. k y = v) (dropWhile (\<lambda>y. k y \<le> v) ys) = []"
    using dropWhile_sorted_above [OF assms, of v] by (auto simp: filter_empty_conv)
  have "filter (\<lambda>y. k y = v) ys
      = filter (\<lambda>y. k y = v) (takeWhile (\<lambda>y. k y \<le> v) ys @ dropWhile (\<lambda>y. k y \<le> v) ys)"
    by (simp only: takeWhile_dropWhile_id)
  also have "\<dots> = filter (\<lambda>y. k y = v) (takeWhile (\<lambda>y. k y \<le> v) ys)"
    by (simp only: filter_append none append_Nil2)
  finally show ?thesis
    using True none by simp
next
  case False
  have "filter (\<lambda>y. k y = v) ys
      = filter (\<lambda>y. k y = v) (takeWhile (\<lambda>y. k y \<le> k x) ys @ dropWhile (\<lambda>y. k y \<le> k x) ys)"
    by (simp only: takeWhile_dropWhile_id)
  with False show ?thesis
    by (simp only: filter_append filter.simps if_False append_Nil2)
qed

lemma py_sorted_by_snoc: "py_sorted_by key (xs @ [x]) = bindR (py_sorted_by key xs) (py_insert key x)"
  by (simp add: py_sorted_by_def foldR_append)

lemma py_sorted_by_mset: "py_sorted_by key xs = Ok ys \<Longrightarrow> mset ys = mset xs"
  by (induction xs arbitrary: ys rule: rev_induct)
     (auto simp: py_sorted_by_def foldR_append result_simps dest: py_insert_mset)

lemma py_sorted_by_int_ex:
  assumes "\<And>x. x \<in> set xs \<Longrightarrow> key x = JInt (k x)"
  shows "\<exists>ys. py_sorted_by key xs = Ok ys \<and> sorted (map k ys) \<and>
              (\<forall>v. filter (\<lambda>y. k y = v) ys = filter (\<lambda>y. k y = v) xs)"
  using assms
proof (induction xs rule: rev_induct)
  case Nil
  then show ?case by (simp add: py_sorted_by_def)
next
  case (snoc x xs)
  then obtain ys where ys: "py_sorted_by key xs = Ok ys" "sorted (map k ys)"
    "\<forall>v. filter (\<lambda>y. k y = v) ys = filter (\<lambda>y. k y = v) xs"
    by auto
  from py_sorted_by_mset [OF ys(1)] have set: "set ys = set xs"
    by (metis set_mset_mset)
  have "py_insert key x ys = Ok (takeWhile (\<lambda>y. k y \<le> k x) ys @ x # dropWhile (\<lambda>y. k y \<le> k x) ys)"
    using snoc.prems by (intro py_insert_int) (auto simp: set)
  then show ?case
    using ys by (simp add: py_sorted_by_snoc sorted_insert filter_insert_stable del: map_append filter_append) simp
qed

lemma py_sorted_by_int:
  assumes "\<And>x. x \<in> set xs \<Longrightarrow> key x = JInt (k x)"
  shows "py_sorted_by key xs = Ok (sort_key k xs)"
proof -
  obtain ys where ys: "py_sorted_by key xs = Ok ys" "sorted (map k ys)"
    "\<forall>v. filter (\<lambda>y. k y = v) ys = filter (\<lambda>y. k y = v) xs"
    using py_sorted_by_int_ex [of xs key k] assms by blast
  have "sort_key k xs = ys"
    using ys by (intro properties_for_sort_key) (auto simp: py_sorted_by_mset eq_commute)
  with ys(1) show ?thesis by simp
qed

text \<open>
  The agent frames of a trajectory are put in the order of their step indices, and frames with
  the same index keep the order they were recorded in: the fallible comparison sort equals the
  stable sort on the integers.
\<close>

theorem agent_frames_stable_sort:
  assumes "frames_of_kind envelope ''agent_trace'' = Ok fs"
    and "\<forall>f\<in>set fs. step_key f = JInt (k f)"
  shows "agent_frames envelope = Ok (sort_key k fs)"
  using assms by (simp add: agent_frames_def py_sorted_by_int)

section \<open>The expansion\<close>

lemma frames_of_kind_kind:
  "frames_of_kind envelope kind = Ok fs \<Longrightarrow> f \<in> set fs \<Longrightarrow> frame_kind f = JStr kind"
  by (auto simp: frames_of_kind_def result_simps split: json.splits if_splits)

lemma single_frame_Ok: "single_frame envelope kind = Ok f \<longleftrightarrow> frames_of_kind envelope kind = Ok [f]"
  by (cases "frames_of_kind envelope kind") (auto simp: single_frame_def split: list.split)

lemma single_frame_kind: "single_frame envelope kind = Ok f \<Longrightarrow> frame_kind f = JStr kind"
  by (auto simp: single_frame_Ok dest: frames_of_kind_kind)

lemma agent_frames_kind: "agent_frames envelope = Ok fs \<Longrightarrow> f \<in> set fs \<Longrightarrow> frame_kind f = JStr ''agent_trace''"
  by (auto simp: agent_frames_def result_simps dest!: py_sorted_by_mset dest: frames_of_kind_kind mset_eq_setD)

lemma minted_world_kind: "minted_world a run_id = Ok m \<Longrightarrow> frame_kind m = JStr ''world''"
  by (auto simp: minted_world_def frame_kind_def Let_def result_simps split: option.splits if_splits)

text \<open>How one minted frame relates to the step it was minted from.\<close>

definition minted_from :: "schema_checker \<Rightarrow> bool \<Rightarrow> json \<Rightarrow> dict \<Rightarrow> dict \<Rightarrow> bool" where
  "minted_from se strict run_id a m \<longleftrightarrow> minted_world a run_id = Ok m \<and> (strict \<longrightarrow> is_valid se m)"

lemma expand_step_Ok:
  "expand_step se strict trace_id run_id tline a = Ok tline' \<longleftrightarrow>
     (\<exists>m. minted_from se strict run_id a m \<and> tline' = tline @ [m, a])"
  by (auto simp: expand_step_def minted_from_def is_valid_def Let_def result_simps split: if_splits)

lemma expand_loop:
  assumes "foldR (expand_step se strict trace_id run_id) tline agents = Ok tline'"
  shows "\<exists>ms. list_all2 (minted_from se strict run_id) agents ms \<and>
              tline' = tline @ concat (map2 (\<lambda>m a. [m, a]) ms agents)"
  using assms
proof (induction agents arbitrary: tline)
  case (Cons a agents)
  then obtain m where m: "minted_from se strict run_id a m"
    and rest: "foldR (expand_step se strict trace_id run_id) (tline @ [m, a]) agents = Ok tline'"
    by (auto simp: result_simps expand_step_Ok)
  from Cons.IH [OF rest] obtain ms where "list_all2 (minted_from se strict run_id) agents ms"
    "tline' = (tline @ [m, a]) @ concat (map2 (\<lambda>m a. [m, a]) ms agents)"
    by blast
  with m show ?case
    by (intro exI [of _ "m # ms"]) simp
qed simp

text \<open>The tick a minted world frame and its agent frame become.\<close>

definition step_tick :: "dict \<Rightarrow> nat \<Rightarrow> dict \<times> dict \<Rightarrow> tick" where
  "step_tick gov i ma =
     \<lparr>tk_index = i, tk_world = fst ma, tk_agent_trace = Some (snd ma), tk_memory = None,
      tk_governance = Some gov, tk_interventions = []\<rparr>"

lemma group_steps:
  assumes "list_all2 (\<lambda>a m. frame_kind m = JStr ''world'' \<and> frame_kind a = JStr ''agent_trace'') agents ms"
  shows "foldl tick_step (ts, Some gov) (concat (map2 (\<lambda>m a. [m, a]) ms agents))
       = (ts @ map (\<lambda>(i, ma). step_tick gov i ma) (enumerate (length ts) (zip ms agents)), Some gov)"
  using assms
proof (induction agents ms arbitrary: ts rule: list_all2_induct)
  case (Cons a agents m ms)
  then have "foldl tick_step (ts, Some gov) [m, a] = (ts @ [step_tick gov (length ts) (m, a)], Some gov)"
    by (simp add: tick_step_def step_tick_def)
  then show ?case
    using Cons.IH [of "ts @ [step_tick gov (length ts) (m, a)]"] by simp
qed simp

lemma group_expanded:
  assumes "frame_kind gov = JStr ''governance''" and "frame_kind w = JStr ''world''"
    and "list_all2 (\<lambda>a m. frame_kind m = JStr ''world'' \<and> frame_kind a = JStr ''agent_trace'') agents ms"
  shows "group_into_ticks ([gov, w] @ concat (map2 (\<lambda>m a. [m, a]) ms agents))
       = \<lparr>tk_index = 0, tk_world = w, tk_agent_trace = None, tk_memory = None, tk_governance = Some gov,
          tk_interventions = []\<rparr>
         # map (\<lambda>(i, ma). step_tick gov i ma) (enumerate 1 (zip ms agents))"
  using assms(1,2) group_steps [OF assms(3)]
  by (simp add: group_into_ticks_def tick_step_def)

lemma expand_Ok:
  assumes "expand_trace_to_timeline se strict (JObj envelope) = Ok tline"
  shows "\<exists>agents gov w ms. agent_frames envelope = Ok agents \<and> agents \<noteq> [] \<and>
           single_frame envelope ''governance'' = Ok gov \<and> single_frame envelope ''world'' = Ok w \<and>
           list_all2 (minted_from se strict (py_or (dget w ''run_id'') (dget envelope ''run_id''))) agents ms \<and>
           tline = [gov, w] @ concat (map2 (\<lambda>m a. [m, a]) ms agents)"
  using assms
  by (auto simp: expand_trace_to_timeline_def Let_def result_simps split: if_splits dest!: expand_loop)

text \<open>
  C37. One tick per step: a timeline the bridge returns groups into the task's tick followed by one
  tick per agent frame, in step order; each of these ticks holds the world frame minted from that
  agent frame (valid, when \<open>strict\<close>), the agent frame itself unchanged, the envelope's governance
  frame, no memory and no intervention.
\<close>

theorem bridge_one_tick_per_step:
  assumes "expand_trace_to_timeline se strict (JObj envelope) = Ok tline"
  shows "\<exists>agents gov w ms. agent_frames envelope = Ok agents \<and>
           single_frame envelope ''governance'' = Ok gov \<and> single_frame envelope ''world'' = Ok w \<and>
           list_all2 (minted_from se strict (py_or (dget w ''run_id'') (dget envelope ''run_id''))) agents ms \<and>
           group_into_ticks tline =
             \<lparr>tk_index = 0, tk_world = w, tk_agent_trace = None, tk_memory = None, tk_governance = Some gov,
              tk_interventions = []\<rparr>
             # map (\<lambda>(i, ma). step_tick gov i ma) (enumerate 1 (zip ms agents))"
proof -
  from expand_Ok [OF assms] obtain agents gov w ms where e: "agent_frames envelope = Ok agents"
    "single_frame envelope ''governance'' = Ok gov" "single_frame envelope ''world'' = Ok w"
    "list_all2 (minted_from se strict (py_or (dget w ''run_id'') (dget envelope ''run_id''))) agents ms"
    "tline = [gov, w] @ concat (map2 (\<lambda>m a. [m, a]) ms agents)"
    by blast
  have "list_all2 (\<lambda>a m. frame_kind m = JStr ''world'' \<and> frame_kind a = JStr ''agent_trace'') agents ms"
    using e(4) by (rule list.rel_mono_strong)
      (auto simp: minted_from_def dest: minted_world_kind agent_frames_kind [OF e(1)])
  from group_expanded [OF single_frame_kind [OF e(2)] single_frame_kind [OF e(3)] this] show ?thesis
    using e by blast
qed

section \<open>Errors\<close>

text \<open>
  An envelope as the adapters record it: its frames are a list, and each agent frame has an integer
  step index, a timestamp, and lists of objects (or nothing) for its tool calls and observations.
\<close>

definition object_list :: "json \<Rightarrow> bool" where
  "object_list v = (case v of JNull \<Rightarrow> True | JList xs \<Rightarrow> list_all is_dict xs | _ \<Rightarrow> False)"

definition recorded_step :: "dict \<Rightarrow> bool" where
  "recorded_step a \<longleftrightarrow>
     is_int (step_key a) \<and> map_of a ''timestamp'' \<noteq> None \<and>
     object_list (dget a ''tool_calls'') \<and> object_list (dget a ''observations'')"

definition recorded :: "dict \<Rightarrow> bool" where
  "recorded envelope \<longleftrightarrow>
     (case frames_of_kind envelope ''agent_trace'' of
        Ok fs \<Rightarrow> list_all recorded_step fs
      | Raise _ \<Rightarrow> False)"

lemma object_list_or: "object_list v \<Longrightarrow> \<exists>xs. py_or v (JList []) = JList xs \<and> list_all is_dict xs"
  by (auto simp: object_list_def py_or_def split: json.splits)

lemma is_dict_iff: "is_dict v \<longleftrightarrow> (\<exists>d. v = JObj d)"
  by (auto simp: is_dict_def split: json.splits)

lemma tool_name_total:
  assumes "list_all is_dict cs"
  shows "\<exists>t. tool_name (JList cs) j = Ok t"
proof (cases "j < length cs")
  case True
  with assms obtain d where "cs ! j = JObj d"
    by (auto simp: list_all_length is_dict_iff)
  with True show ?thesis
    by (simp add: tool_name_def py_len_def py_index_def)
next
  case False
  with assms show ?thesis
    by (cases cs) (auto simp: tool_name_def py_len_def py_index_def is_dict_iff)
qed

lemma step_tool_events_total:
  assumes "recorded_step a"
  shows "\<exists>es. step_tool_events a = Ok es"
proof -
  obtain cs where cs: "py_or (dget a ''tool_calls'') (JList []) = JList cs" "list_all is_dict cs"
    using assms object_list_or by (auto simp: recorded_step_def)
  obtain obs where obs: "py_or (dget a ''observations'') (JList []) = JList obs" "list_all is_dict obs"
    using assms object_list_or by (auto simp: recorded_step_def)
  let ?event = "\<lambda>(j, ob). bindR (tool_name (JList cs) j) (\<lambda>tool. bindR (jget ob ''error_marker'') (\<lambda>marker.
          Ok (JObj [(''tool'', tool), (''status'', JStr (if truthy marker then ''error'' else ''ok''))])))"
  have "\<exists>ys. mapR ?event (enumerate 0 obs) = Ok ys"
  proof (rule mapR_ex)
    fix x
    assume "x \<in> set (enumerate 0 obs)"
    then have "snd x \<in> snd ` set (enumerate 0 obs)"
      by (rule imageI)
    then have "snd x \<in> set obs"
      by (simp flip: set_map)
    then obtain j ob where x: "x = (j, ob)" "ob \<in> set obs"
      by (cases x) simp
    then obtain d where "ob = JObj d"
      using obs(2) by (auto simp: list_all_iff is_dict_iff)
    moreover obtain t where "tool_name (JList cs) j = Ok t"
      using tool_name_total cs(2) by blast
    ultimately show "\<exists>y. ?event x = Ok y"
      using x(1) by simp
  qed
  then show ?thesis
    by (simp add: step_tool_events_def cs(1) obs(1))
qed

lemma expand_step_error:
  assumes "recorded_step a" and "expand_step se strict trace_id run_id tline a = Raise e"
  shows "\<exists>msg. e = BridgeError msg"
proof -
  obtain es where "step_tool_events a = Ok es"
    using step_tool_events_total [OF assms(1)] by blast
  with assms show ?thesis
    by (auto simp: expand_step_def minted_world_def recorded_step_def Let_def split: if_splits)
qed

lemma foldR_error:
  assumes "foldR f s xs = Raise e"
  shows "\<exists>x\<in>set xs. \<exists>s'. f s' x = Raise e"
  using assms by (induction xs arbitrary: s) (auto simp: result_simps)

lemma single_frame_error:
  "frames_of_kind envelope kind = Ok fs \<Longrightarrow> single_frame envelope kind = Raise e \<Longrightarrow> \<exists>msg. e = BridgeError msg"
  by (auto simp: single_frame_def split: list.splits)

lemma frames_of_kind_any: "frames_of_kind envelope kind = Ok fs \<Longrightarrow> \<exists>gs. frames_of_kind envelope kind' = Ok gs"
  by (auto simp: frames_of_kind_def result_simps)

lemma recorded_agent_frames:
  assumes "recorded envelope"
  obtains fs where "agent_frames envelope = Ok fs" and "list_all recorded_step fs"
proof -
  obtain fs where fs: "frames_of_kind envelope ''agent_trace'' = Ok fs" "list_all recorded_step fs"
    using assms by (auto simp: recorded_def split: sum.splits)
  let ?k = "\<lambda>f. case step_key f of JInt i \<Rightarrow> i | _ \<Rightarrow> 0"
  have "\<forall>f\<in>set fs. step_key f = JInt (?k f)"
    using fs(2) by (auto simp: list_all_iff recorded_step_def is_int_def split: json.splits)
  then have "agent_frames envelope = Ok (sort_key ?k fs)"
    using fs(1) by (simp add: agent_frames_def py_sorted_by_int)
  then show ?thesis
    using fs(2) that by (simp add: list_all_iff)
qed

text \<open>
  C38. The bridge fails with its own error: on an envelope whose agent frames are recorded as the
  adapters record them, whatever the third-party schema checker says and whatever else is missing
  (trajectory, world or governance frame, steps), the only exception that leaves the expansion is a
  \<open>BridgeError\<close>.
\<close>

theorem bridge_only_raises_bridge_error:
  assumes "recorded envelope"
    and "expand_trace_to_timeline se strict (JObj envelope) = Raise e"
  shows "\<exists>msg. e = BridgeError msg"
proof -
  obtain fs where fs: "agent_frames envelope = Ok fs" "list_all recorded_step fs"
    using recorded_agent_frames [OF assms(1)] .
  have any: "\<exists>gs. frames_of_kind envelope kind = Ok gs" for kind
    using fs(1) frames_of_kind_any by (auto simp: agent_frames_def result_simps)
  show ?thesis
    using assms(2) fs any [of "''world''"] any [of "''governance''"]
    by (auto simp: expand_trace_to_timeline_def Let_def result_simps list_all_iff split: if_splits
        dest!: foldR_error dest: expand_step_error single_frame_error)
qed

section \<open>A recorded trajectory\<close>

definition step_one :: dict where
  "step_one = [(''frame_kind'', JStr ''agent_trace''), (''timestamp'', JStr ''t1''), (''step_index'', JInt 1),
     (''tool_calls'', JList [JObj [(''tool'', JStr ''bash'')]]),
     (''observations'', JList [JObj [(''error_marker'', JBool True)], JObj []])]"

definition step_zero :: dict where
  "step_zero = [(''frame_kind'', JStr ''agent_trace''), (''timestamp'', JStr ''t0''),
     (''timestamp_provenance'', JStr ''synthetic_ordinal'')]"

definition task_world :: dict where
  "task_world = [(''frame_kind'', JStr ''world''), (''timestamp'', JStr ''t0''), (''run_id'', JStr ''r'')]"

definition task_governance :: dict where
  "task_governance = [(''frame_kind'', JStr ''governance'')]"

definition recorded_trace :: dict where
  "recorded_trace = [(''trace_id'', JStr ''x''), (''trajectory'', JObj [(''steps'', JInt 2)]),
     (''frames'', JList [JObj task_world, JObj task_governance, JObj step_one, JObj step_zero])]"

lemma recorded_trace_frames:
  "frames_of_kind recorded_trace ''agent_trace'' = Ok [step_one, step_zero]"
  by code_simp

lemma recorded_trace_expands: "\<exists>tline. expand_trace_to_timeline accept_all True (JObj recorded_trace) = Ok tline"
proof -
  have "(case expand_trace_to_timeline accept_all True (JObj recorded_trace) of Ok _ \<Rightarrow> True | Raise _ \<Rightarrow> False)"
    by code_simp
  then show ?thesis by (auto split: sum.splits)
qed

theorem agent_frames_stable_sort_witness:
  "agent_frames recorded_trace = Ok [step_zero, step_one]"
proof -
  let ?k = "\<lambda>f. if f = step_one then 1 else (0 :: int)"
  have "\<forall>f\<in>set [step_one, step_zero]. step_key f = JInt (?k f)"
    by code_simp
  from agent_frames_stable_sort [OF recorded_trace_frames this] show ?thesis
    by (simp add: step_one_def step_zero_def)
qed

theorem bridge_one_tick_per_step_witness:
  "\<exists>tline ms. expand_trace_to_timeline accept_all True (JObj recorded_trace) = Ok tline \<and>
     list_all2 (minted_from accept_all True (JStr ''r'')) [step_zero, step_one] ms \<and>
     map tk_agent_trace (group_into_ticks tline) = [None, Some step_zero, Some step_one]"
proof -
  obtain tline where t: "expand_trace_to_timeline accept_all True (JObj recorded_trace) = Ok tline"
    using recorded_trace_expands by blast
  have sample: "agent_frames recorded_trace = Ok [step_zero, step_one]"
    "single_frame recorded_trace ''world'' = Ok task_world"
    "py_or (dget task_world ''run_id'') (dget recorded_trace ''run_id'') = JStr ''r''"
    by code_simp+
  from bridge_one_tick_per_step [OF t] sample obtain gov ms where
    ms: "list_all2 (minted_from accept_all True (JStr ''r'')) [step_zero, step_one] ms"
    and ticks: "group_into_ticks tline =
             \<lparr>tk_index = 0, tk_world = task_world, tk_agent_trace = None, tk_memory = None, tk_governance = Some gov,
              tk_interventions = []\<rparr>
             # map (\<lambda>(i, ma). step_tick gov i ma) (enumerate 1 (zip ms [step_zero, step_one]))"
    by auto
  from ms obtain m n where "ms = [m, n]"
    by (auto simp: list_all2_Cons1)
  with ticks have "map tk_agent_trace (group_into_ticks tline) = [None, Some step_zero, Some step_one]"
    by (simp add: step_tick_def)
  with t ms show ?thesis by (intro exI conjI)
qed

theorem bridge_only_raises_bridge_error_witness:
  "\<exists>msg. expand_trace_to_timeline accept_all True (JObj (dset recorded_trace ''trajectory'' JNull)) =
     Raise (BridgeError msg)"
proof -
  let ?trace = "dset recorded_trace ''trajectory'' JNull"
  have "recorded ?trace"
    by code_simp
  moreover obtain e where e: "expand_trace_to_timeline accept_all True (JObj ?trace) = Raise e"
    by (simp add: expand_trace_to_timeline_def)
  ultimately have "\<exists>msg. e = BridgeError msg"
    by (rule bridge_only_raises_bridge_error)
  with e show ?thesis by simp
qed

end
