(* ===== verification/SampleExperiment.thy ===== *)
theory SampleExperiment
  imports RunProps
begin

text \<open>
  One complete paired experiment, small enough to evaluate: a one-tick timeline with one registered
  \<open>boost\<close> of the effort pressure, the outputs of its control, treated and null arms, and the provenance
  issued over three passes of them. It scores Level 4, so what is proved of Level 4 frames is not
  vacuous.
\<close>

section \<open>The experiment\<close>

definition boost_frame :: dict where
  "boost_frame =
     [(''frame_kind'', JStr ''intervention''), (''timestamp'', JStr ''t''), (''run_id'', JStr ''r''),
      (''experiment_id'', JStr ''e1''), (''hypothesis'', JStr ''effort follows its boost''), (''operation'', JStr ''boost''),
      (''target'', JObj [(''subsystem'', JStr ''pressures''), (''dimension'', JStr ''effort'')]), (''value'', JFloat (Num (1 / 2))),
      (''expected_behavioral_change'',
         JObj [(''target_signal'', JStr ''control_pressure.effort''), (''direction'', JStr ''increase'')])]"

definition experiment_timeline :: "dict list" where
  "experiment_timeline = [one_world, boost_frame]"

definition boost_receipt :: json where
  "boost_receipt =
     JObj [(''experiment_id'', JStr ''e1''), (''operation'', JStr ''boost''), (''subsystem'', JStr ''pressures''),
           (''dimension'', JStr ''effort''), (''value'', JFloat (Num (1 / 2)))]"

text \<open>The outputs of the tick for a given effort and list of intervention receipts.\<close>

definition header :: "string \<Rightarrow> dict" where
  "header kind = [(''frame_kind'', JStr kind), (''timestamp'', JStr ''t''), (''run_id'', JStr ''r'')]"

definition experiment_tick :: "flt \<Rightarrow> json list \<Rightarrow> psyche_outputs" where
  "experiment_tick effort receipts =
     \<lparr>psyche_state = header ''psyche_state'' @
        [(''state_hash'', JStr ''h1''),
         (''self_model'', JObj [(''predicted_error'', JFloat (Num 0)), (''self_model_reliability'', JFloat (Num 1))]),
         (''calibration_state'', JObj [(''samples'', JInt 1)]),
         (''identity_continuity_state'', JObj [(''continuity_score'', JFloat (Num 1)), (''anchors_carried'', JInt 1)])],
      workspace_broadcast = header ''workspace_broadcast'' @
        [(''broadcast_id'', JStr ''b''), (''winning_faculty'', JStr ''effort''),
         (''salience_scores'', JObj [(''effort'', JFloat (Num 1))]), (''recommended_attention_target'', JStr ''task'')],
      control_pressure = header ''control_pressure'' @ [(''pressures'', JObj [(''effort'', JFloat effort)])],
      causal_trace = header ''causal_trace'' @
        [(''trace_id'', JStr ''c''), (''previous_state_hash'', JStr ''h0''), (''new_state_hash'', JStr ''h1''),
         (''state_update_mechanism'', JStr ''resolved prior prediction''),
         (''counterfactual_predictions'', JList [JStr ''p'']),
         (''causal_path'', JList (map (\<lambda>s. JObj [(''stage'', JStr s)])
            [''event'', ''internal_state'', ''broadcast'', ''pressure'', ''behavior''])),
         (''interventions_applied'', JList receipts), (''emitted_outputs'', JList [JStr ''s''])],
      grounded_self_report = header ''grounded_self_report'' @
        [(''report_id'', JStr ''s''), (''affect_state_hash'', JStr ''h1''), (''workspace_broadcast_id'', JStr ''b''),
         (''causal_trace_id'', JStr ''c''),
         (''reported_measurements'', JObj
            [(''control_pressure.effort'', JFloat effort), (''instinct.count'', JFloat (Num 1)), (''instinct.severity'', JFloat (Num 1)),
             (''psyche_state.continuity_score'', JFloat (Num 1)), (''workspace_broadcast.integrity'', JFloat (Num 1))])],
      instinct_signals = [header ''instinct_signal'' @ [(''severity'', JFloat (Num 1)), (''match_type'', JStr ''exact'')]],
      authority_requests = []\<rparr>"

definition control_arm :: "psyche_outputs list" where
  "control_arm = [experiment_tick (Num (1 / 4)) []]"

definition treated_arm :: "psyche_outputs list" where
  "treated_arm = [experiment_tick (Num (3 / 4)) [boost_receipt]]"

definition experiment_pass :: "(string \<times> psyche_outputs list) list" where
  "experiment_pass = [(''control'', control_arm), (''treated'', treated_arm), (''null'', control_arm)]"

definition certified_names :: factory_names where
  "certified_names = \<lparr>fn_module = None, fn_qualname = None, fn_type_module = ''m'', fn_type_qualname = ''q''\<rparr>"

section \<open>Its score\<close>

lemma experiment_sources:
  "validate_source_frames accept_all experiment_timeline [control_arm, treated_arm, control_arm] = Ok ()"
  by code_simp

lemma experiment_identity:
  "validate_run_identity (JStr ''r'') experiment_timeline [control_arm, treated_arm, control_arm] = Ok ''r''"
  by code_simp

lemma experiment_expected:
  "is_finite e \<Longrightarrow> expected_measurements (experiment_tick e rs) =
     Ok [(''control_pressure.effort'', e), (''instinct.count'', Num 1), (''instinct.severity'', Num 1),
         (''psyche_state.continuity_score'', Num 1), (''workspace_broadcast.integrity'', Num 1)]"
proof -
  have "fint 1 = Num 1" and "py_sum [Num 1] = Num 1"
    by code_simp+
  then show "is_finite e \<Longrightarrow> ?thesis"
    by (simp add: expected_measurements_def experiment_tick_def header_def py_items_def py_or_def py_float_def
          signal_severity_def update_dict_def)
qed

lemma experiment_grounded: "is_finite e \<Longrightarrow> report_is_grounded_to_tick (experiment_tick e rs) = Ok True"
proof -
  assume e: "is_finite e"
  have "measurement_errors (experiment_tick e rs) = Ok []"
    by (rule measurement_errors_stated [OF experiment_expected [OF e]]) (simp_all add: experiment_tick_def header_def e)
  then show ?thesis
    by (simp add: report_is_grounded_to_tick_def report_grounding_errors_def Let_def)
       (simp add: experiment_tick_def header_def source_frames_def receipt_error_def py_in_def)
qed

lemma experiment_test:
  "case evaluate_intervention boost_frame control_arm treated_arm control_arm of
     Ok r \<Rightarrow> tr_passed r \<and> null_ok [r] (null_output_equivalent control_arm control_arm) \<and>
       promotion_ready (intervention_gate experiment_timeline (JInt 1) (report_summary [r]) [r] [])
   | Raise e \<Rightarrow> False"
  by code_simp

lemma experiment_frames: "fst (unique_intervention_frames experiment_timeline) = [boost_frame]"
  by code_simp

lemma experiment_traces:
  "bindR (schedule_from_frames experiment_timeline) (\<lambda>schedule.
   bindR (mapR (\<lambda>index. records (active schedule index)) [0..<length treated_arm]) (treated_trace_is_complete treated_arm)) = Ok True"
  "unperturbed_traces_are_clean [control_arm, control_arm]"
  "target_signal_of [boost_frame] = Ok (JStr ''control_pressure.effort'')"
  by code_simp+

lemma experiment_reports:
  "reports_track_target_signal control_arm treated_arm (JStr ''control_pressure.effort'') = Ok True"
proof -
  have "comparable_runs control_arm treated_arm = Ok True"
    by (simp add: comparable_runs_def run_reports_are_grounded_def control_arm_def treated_arm_def experiment_grounded is_finite_def)
  moreover have "map (reported_value ''control_pressure.effort'') (control_arm @ treated_arm) =
      [Ok (JFloat (Num (1 / 4))), Ok (JFloat (Num (3 / 4)))]"
    by (simp add: reported_value_def control_arm_def treated_arm_def experiment_tick_def header_def)
  ultimately show ?thesis
    by (simp add: reports_track_target_signal_def CONTINUITY_ALIAS_def control_arm_def treated_arm_def
          num_eq_def flt_eq_def is_nan_def is_finite_def)
qed

lemma experiment_comparison:
  "\<exists>tests. compare_arms experiment_timeline control_arm treated_arm control_arm = Ok (tests, True, True) \<and>
     null_ok tests (null_output_equivalent control_arm control_arm) \<and>
     promotion_ready (intervention_gate experiment_timeline (JInt 1) (report_summary tests) tests [])"
proof -
  obtain r where r: "evaluate_intervention boost_frame control_arm treated_arm control_arm = Ok r"
      "null_ok [r] (null_output_equivalent control_arm control_arm)"
      "promotion_ready (intervention_gate experiment_timeline (JInt 1) (report_summary [r]) [r] [])"
    using experiment_test by (auto split: sum.splits)
  obtain schedule es where traces: "schedule_from_frames experiment_timeline = Ok schedule"
      "mapR (\<lambda>index. records (active schedule index)) [0..<length treated_arm] = Ok es"
      "treated_trace_is_complete treated_arm es = Ok True"
    using experiment_traces(1) by (elim bindR_Inr_elim)
  have "compare_arms experiment_timeline control_arm treated_arm control_arm = Ok ([r], True, True)"
    unfolding compare_arms_def Let_def experiment_frames experiment_traces mapR.simps r(1) bindR_Inr traces
      experiment_reports by (simp add: experiment_traces(2))
  with r show ?thesis by blast
qed

section \<open>Level 4\<close>

lemma experiment_counts:
  "hash_chain_links (map causal_trace control_arm) = 1" "length (filter competed (map workspace_broadcast control_arm)) = 1"
  "length (filter (\<lambda>b. truthy (dget b ''recommended_attention_target'')) (map workspace_broadcast control_arm)) = 1"
  "length (filter (\<lambda>t. truthy (dget t ''counterfactual_predictions'')) (map causal_trace control_arm)) = 1"
  "concat (map instinct_signals control_arm) = [header ''instinct_signal'' @ [(''severity'', JFloat (Num 1)), (''match_type'', JStr ''exact'')]]"
  "anyR calibrated (map psyche_state control_arm) = Ok True"
  by code_simp+

lemma experiment_filters:
  "filterR models_itself (map psyche_state control_arm) = Ok (map psyche_state control_arm)"
  "filterR resolved_prediction (map causal_trace control_arm) = Ok (map causal_trace control_arm)"
  "filterR carries_anchors (map psyche_state control_arm) = Ok (map psyche_state control_arm)"
  "length control_arm = 1"
  by code_simp+

lemma strong_families_iff:
  "k \<in> set (strong_families families) \<longleftrightarrow> list_ex (\<lambda>(n, f). n = k \<and> fm_status f \<in> set SUPPORTED) families"
  by (force simp: strong_families_def list_ex_iff)

lemma experiment_families: "\<exists>fams. score_families control_arm g = Ok fams \<and> level3 True True fams"
  unfolding score_families_def Let_def experiment_counts experiment_filters bindR_Inr length_map
  by (simp add: level3_def ALL_FAMILIES_def strong_families_iff family_rec_def SUPPORTED_def)

lemma experiment_levels:
  "level1_signal_changes_behavior control_arm = Ok True" "level2_readback_changed_output control_arm = Ok True"
  by code_simp+

lemma experiment_risk: "confabulation_risk control_arm = Ok (Num 0, 0)"
  by (simp add: confabulation_risk_def control_arm_def experiment_grounded is_finite_def int_div_def mkf_def)

lemma experiment_provenance:
  "\<exists>p. issue experiment_timeline [experiment_pass, experiment_pass, experiment_pass] certified_names True = Ok p \<and>
       integrity_errors p experiment_timeline control_arm treated_arm control_arm = Ok []"
proof -
  have fin: "all_finite (JList (map JObj experiment_timeline))" "all_finite (JList (map JObj (concat (map all_frames control_arm))))"
    "all_finite (JList (map JObj (concat (map all_frames treated_arm))))"
    by code_simp+
  then obtain p where p: "issue experiment_timeline [experiment_pass, experiment_pass, experiment_pass] certified_names True = Ok p"
    by (simp add: issue_def experiment_pass_def digest_pass_def output_frames_sha256_def input_frames_sha256_def sha256_json_def
          COUNTERBALANCED_ORDERS_def Let_def del: all_finite.simps)
  have "ordinal_invariant p"
    by (rule issue_ordinal_invariant [OF p]) auto
  with issue_integrity [OF p, of control_arm treated_arm control_arm] p show ?thesis
    by (auto simp: experiment_pass_def)
qed

text \<open>The experiment earns Level 4 with the provenance issued for it.\<close>

lemma experiment_earns_level4:
  "\<exists>p ev rep. score_paired_with accept_all (JStr ''r'') experiment_timeline control_arm treated_arm control_arm (JInt 1) True (Some p)
       = Ok (ev, rep) \<and> dget ev ''evidence_level'' = JInt 4"
proof -
  obtain tests where cmp: "compare_arms experiment_timeline control_arm treated_arm control_arm = Ok (tests, True, True)"
    and nul: "null_ok tests (null_output_equivalent control_arm control_arm)"
    and ready: "promotion_ready (intervention_gate experiment_timeline (JInt 1) (report_summary tests) tests [])"
    using experiment_comparison by blast
  obtain p where p: "integrity_errors p experiment_timeline control_arm treated_arm control_arm = Ok []"
    using experiment_provenance by blast
  let ?g = "intervention_gate experiment_timeline (JInt 1) (report_summary tests) tests []"
  let ?pf = "\<lparr>pf_tests = report_summary tests, pf_null_passed = True, pf_trace_complete = True, pf_report_changed = True,
       pf_provenance = provenance_record p\<rparr>"
  obtain fams where fams: "score_families control_arm ?g = Ok fams" "level3 True True fams"
    using experiment_families by blast
  have total: "all_finite (reported_total ?g)"
    by (simp add: intervention_gate_def Let_def case_prod_beta report_summary_def)
  have recorded: "all_finite (pf_provenance ?pf)"
    by (auto simp: provenance_record_def digests_json_def)
  have risk: "is_finite (py_round 6 (Num 0))" "flt_le (Num 0) CONFAB_MAX_FOR_L4"
    by code_simp+
  have l2: "(if True then level2_readback_changed_output control_arm else Ok False) = Ok True"
    by (simp add: experiment_levels)
  have l4: "level4 (level3 True True fams) ?g ?pf (Num 0)"
    using fams(2) ready risk(2) by (simp add: level4_def)
  obtain missing where "score_core accept_all ''r'' control_arm True ?g ?pf =
      Ok (evidence_frame ''r'' control_arm ?g (provenance_record p) fams (ladder True True (level3 True True fams) True) True missing (Num 0) 0)"
    using score_core_issues [OF fams(1) experiment_levels(1) l2 experiment_risk total recorded risk(1)] l4 by auto
  then show ?thesis
    unfolding score_paired_with_def experiment_sources experiment_identity cmp bindR_Inr prod.case Let_def
    using p nul by (intro exI [of _ p]) (simp add: dget_evidence_frame ladder_def)
qed

end
