(* ===== verification/BaselineSubject.thy ===== *)
theory BaselineSubject
  imports ReferenceTick PyOrder
begin

text \<open>
  The baseline psyche subject of the nervous system (\<open>nervous_system/subject.py\<close>) with its workspace
  competition (\<open>nervous_system/workspace.py\<close>) and its scar store (\<open>nervous_system/scar_memory.py\<close>). It
  implements the same interface as the reference psyche: affect over the nine-axis manifold, scars
  seeded across runs, three candidate faculties, one advisory verification pressure. A scar motif is
  identified by a string, as the schema of memory frames demands.
\<close>

section \<open>Workspace competition\<close>

definition CANDIDATE_ORDER :: "string list" where
  "CANDIDATE_ORDER = [''risk_instinct'', ''memory_scar'', ''uncertainty_self_model'']"

definition salience_term :: "string \<Rightarrow> string" where
  "salience_term name =
     (if name = ''risk_instinct'' then ''risk'' else if name = ''memory_scar'' then ''scar_tissue'' else ''uncertainty'')"

definition candidate_rank :: "string \<Rightarrow> nat" where
  "candidate_rank name = (case index_of name CANDIDATE_ORDER of Some i \<Rightarrow> i | None \<Rightarrow> length CANDIDATE_ORDER)"

text \<open>The order of the keys \<open>(salience, -rank)\<close>.\<close>

definition key_less :: "string \<times> flt \<Rightarrow> string \<times> flt \<Rightarrow> bool" where
  "key_less a b =
     (if flt_eq (snd a) (snd b) then candidate_rank (fst b) < candidate_rank (fst a) else flt_less (snd a) (snd b))"

text \<open>\<open>max(xs, key=...)\<close>: the first of the greatest elements.\<close>

definition max_by :: "('a \<Rightarrow> 'a \<Rightarrow> bool) \<Rightarrow> 'a \<Rightarrow> 'a list \<Rightarrow> 'a" where
  "max_by lt x xs = foldl (\<lambda>best y. if lt best y then y else best) x xs"

record competition =
  cm_winner :: string
  cm_salience :: flt
  cm_terms :: fdict
  cm_competitors :: fdict
  cm_conviction :: flt

definition ranked :: "fdict \<Rightarrow> fdict" where
  "ranked candidates = map (\<lambda>name. (name, py_round 6 (fget candidates name))) CANDIDATE_ORDER"

definition ws_compete :: "fdict \<Rightarrow> competition" where
  "ws_compete candidates =
     (let ordered = ranked candidates; winner = max_by key_less (hd ordered) (tl ordered) in
      \<lparr>cm_winner = fst winner, cm_salience = snd winner,
       cm_terms = map (\<lambda>(name, sal). (salience_term name, sal)) ordered,
       cm_competitors = filter (\<lambda>(name, sal). name \<noteq> fst winner) ordered,
       cm_conviction = py_min (Num 1) (py_max (Num 0) (snd winner))\<rparr>)"

section \<open>Scar memory\<close>

text \<open>What \<open>save\<close> writes: rounded values under sorted keys.\<close>

definition saved_scars :: "fdict \<Rightarrow> fdict" where
  "saved_scars store = map (\<lambda>(k, v). (k, py_round 6 v)) (sort_key fst store)"

definition motif_step :: "(json \<times> flt) option \<Rightarrow> json \<Rightarrow> (json \<times> flt) option result" where
  "motif_step best m =
     bindR (jget_or m ''similarity'' (JFloat (Num 0))) (\<lambda>v. bindR (py_float v) (\<lambda>sim.
     bindR (jget m ''motif_id'') (\<lambda>motif.
       if motif = JNull then Ok best
       else (case best of
               None \<Rightarrow> Ok (Some (motif, sim))
             | Some (m0, s0) \<Rightarrow>
                 if flt_less s0 sim then Ok (Some (motif, sim))
                 else if flt_eq sim s0 then bindR (py_less motif m0) (\<lambda>less. Ok (if less then Some (motif, sim) else best))
                 else Ok best))))"

definition motif_of :: "dict option \<Rightarrow> (string \<times> flt) option result" where
  "motif_of memory_frame =
     (case memory_frame of
        None \<Rightarrow> Ok None
      | Some m \<Rightarrow>
          bindR (py_iter (py_or (dget m ''scar_motif_matches'') (JList []))) (\<lambda>matches.
          bindR (foldR motif_step None matches) (\<lambda>best.
            case best of
              None \<Rightarrow> Ok None
            | Some (JStr motif, sim) \<Rightarrow> Ok (Some (motif, sim))
            | Some _ \<Rightarrow> Raise TypeError)))"

section \<open>State\<close>

record baseline =
  sb_affect :: fdict
  sb_uncertainty :: flt
  sb_scars :: fdict
  sb_prev_hash :: string
  sb_pert :: perturbation_set

definition SUBJECT_TS :: string where "SUBJECT_TS = ''2026-07-10T00:00:00Z''"
definition SCAR_INCREMENT :: flt where "SCAR_INCREMENT = lit (1 / 10)"

text \<open>\<open>_clip(x, lo, hi)\<close>\<close>

definition subject_clip :: "flt \<Rightarrow> flt \<Rightarrow> flt \<Rightarrow> flt" where
  "subject_clip lo hi x = py_max lo (py_min hi x)"

text \<open>\<open>_min_tier(a, b)\<close>; an unknown tier sorts above all others.\<close>

definition tier_place :: "json \<Rightarrow> nat" where
  "tier_place t = (case t of JStr s \<Rightarrow> (case index_of s TIERS of Some i \<Rightarrow> i | None \<Rightarrow> length TIERS) | _ \<Rightarrow> length TIERS)"

definition min_tier :: "string \<Rightarrow> json \<Rightarrow> string result" where
  "min_tier a b =
     (let i = min (tier_place (JStr a)) (tier_place b) in if i < length TIERS then Ok (TIERS ! i) else Raise IndexError)"

definition baseline_interior :: "baseline \<Rightarrow> json" where
  "baseline_interior s = JObj
     [(''affect'', fdict_json (sb_affect s)), (''self_model_uncertainty'', JFloat (sb_uncertainty s)),
      (''scars'', fdict_json (saved_scars (sb_scars s)))]"

definition baseline_reset :: "fdict \<Rightarrow> baseline" where
  "baseline_reset seed =
     (let s = \<lparr>sb_affect = new_manifold, sb_uncertainty = Num 0, sb_scars = seed, sb_prev_hash = [], sb_pert = []\<rparr>
      in s\<lparr>sb_prev_hash := state_hash (baseline_interior s)\<rparr>)"

definition baseline_set_active :: "dict list \<Rightarrow> baseline \<Rightarrow> baseline" where
  "baseline_set_active interventions s = s\<lparr>sb_pert := interventions\<rparr>"

section \<open>Reading the inputs\<close>

definition has_error :: "dict \<Rightarrow> bool result" where
  "has_error world =
     bindR (py_iter (py_or (dget_or world ''tool_events'' (JList [])) (JList []))) (\<lambda>events.
     bindR (anyR (\<lambda>ev. bindR (jget ev ''status'') (\<lambda>s. Ok (py_eq s (JStr ''error'')))) events) (\<lambda>failed.
       if failed then Ok True
       else
         let vs = py_or (dget_or world ''verification_signals'' (JObj [])) (JObj []) in
         bindR (jget vs ''verdict'') (\<lambda>verdict.
           if py_eq verdict (JStr ''fail'') then Ok True
           else bindR (jget vs ''regression_found'') (\<lambda>r. Ok (truthy r)))))"

definition identity_refs :: "dict option \<Rightarrow> json list result" where
  "identity_refs memory =
     (case memory of
        None \<Rightarrow> Ok []
      | Some m \<Rightarrow>
          bindR (py_iter (dget_or m ''retrieved_continuity'' (JList []))) (\<lambda>cs.
          bindR (mapR (\<lambda>c. jget c ''ref'') cs) (\<lambda>refs. Ok (filter truthy refs))))"

text \<open>\<open>float(trace.get(k, 0) or 0)\<close>\<close>

definition trace_number :: "dict \<Rightarrow> string \<Rightarrow> flt result" where
  "trace_number trace k = py_float (py_or (dget trace k) (JInt 0))"

section \<open>One tick\<close>

text \<open>What a tick computes before it builds its frames.\<close>

record beat =
  bt_affect :: fdict
  bt_uncertainty :: flt
  bt_scars :: fdict
  bt_hash :: string
  bt_scar_sal :: flt
  bt_disabled :: bool
  bt_comp :: competition
  bt_verification :: flt
  bt_tier :: string
  bt_anchors :: "json list"
  bt_records :: "json list"

text \<open>Step 2: the affect law.\<close>

definition baseline_affect :: "baseline \<Rightarrow> bool \<Rightarrow> flt \<Rightarrow> flt \<Rightarrow> fdict result" where
  "baseline_affect s err retry unc =
     (let clip1 = subject_clip (Num (- 1)) (Num 1) in
      bindR (scalar (sb_pert s) ''affect_manifold'' ''tension''
               (clip1 (fadd (fmul (lit (1 / 2)) (fget (sb_affect s) ''tension'')) (fmul (lit (1 / 2)) (fbool err))))) (\<lambda>tension.
      let affect1 = dset (sb_affect s) ''tension'' tension;
          affect2 = dset affect1 ''cognitive_load'' (clip1 (py_min (Num 1) (fdiv retry (lit 3)))) in
      bindR (scalar (sb_pert s) ''affect_manifold'' ''certainty'' (clip1 (fsub (Num 1) (fmul (lit 2) unc)))) (\<lambda>certainty.
        Ok (dset affect2 ''certainty'' certainty))))"

text \<open>Step 3: the strongest motif leaves a scar unless the scar graph is blocked.\<close>

definition next_scars :: "fdict \<Rightarrow> (string \<times> flt) option \<Rightarrow> bool \<Rightarrow> fdict" where
  "next_scars store motif blocked =
     (case motif of
        Some (m, sim) \<Rightarrow> if blocked then store else dset store m (py_round 6 (fadd (fget store m) SCAR_INCREMENT))
      | None \<Rightarrow> store)"

text \<open>Step 4: the three saliences.\<close>

definition unit_clip :: "flt \<Rightarrow> flt" where
  "unit_clip x = subject_clip (Num 0) (Num 1) x"

definition risk_salience :: "bool \<Rightarrow> fdict \<Rightarrow> flt" where
  "risk_salience err a =
     unit_clip (fadd (fmul (lit (4 / 10)) (fbool err)) (fmul (lit (3 / 10)) (py_max (Num 0) (fget a ''tension''))))"

definition scar_salience :: "fdict \<Rightarrow> (string \<times> flt) option \<Rightarrow> bool \<Rightarrow> flt" where
  "scar_salience store motif blocked =
     (case motif of
        Some (m, sim) \<Rightarrow> if blocked then Num 0 else unit_clip (fadd (fmul (lit (4 / 10)) sim) (fget store m))
      | None \<Rightarrow> Num 0)"

definition uncertainty_salience :: "flt \<Rightarrow> fdict \<Rightarrow> flt" where
  "uncertainty_salience unc a =
     unit_clip (fadd (fmul (lit (1 / 2)) unc) (fmul (lit (1 / 2)) (py_max (Num 0) (fneg (fget a ''certainty'')))))"

definition baseline_beat :: "psyche_inputs \<Rightarrow> baseline \<Rightarrow> beat result" where
  "baseline_beat inputs s =
     (let world = in_world inputs; trace = opt_dict (in_agent_trace inputs);
          memory = in_memory inputs; governance = opt_dict (in_governance inputs); ivs = sb_pert s in
      bindR (has_error world) (\<lambda>err.
      bindR (trace_number trace ''retry_count'') (\<lambda>retry.
      bindR (trace_number trace ''uncertainty'') (\<lambda>unc_in.
      bindR (baseline_affect s err retry unc_in) (\<lambda>affect.
      let unc = unit_clip unc_in in
      bindR (motif_of memory) (\<lambda>motif.
      bindR (blocks ivs ''scar_graph'') (\<lambda>blocked.
      let scars = next_scars (sb_scars s) motif blocked;
          new_hash = state_hash (baseline_interior (s\<lparr>sb_affect := affect, sb_uncertainty := unc, sb_scars := scars\<rparr>));
          scar_sal = scar_salience scars motif blocked in
      bindR (blocks ivs ''workspace'') (\<lambda>disabled.
      let comp = ws_compete [(''risk_instinct'', risk_salience err affect), (''memory_scar'', scar_sal),
                             (''uncertainty_self_model'', uncertainty_salience unc affect)];
          verification = (if disabled then Num 0 else py_round 6 (cm_salience comp)) in
      bindR (jget_or (dget_or governance ''authority_ceilings'' (JObj [])) ''global_max'' (JStr ''soft'')) (\<lambda>global_max.
      bindR (min_tier ''soft'' global_max) (\<lambda>tier.
      bindR (identity_refs memory) (\<lambda>anchors.
      bindR (records ivs) (\<lambda>rows.
        Ok \<lparr>bt_affect = affect, bt_uncertainty = unc, bt_scars = scars, bt_hash = new_hash, bt_scar_sal = scar_sal,
            bt_disabled = disabled, bt_comp = comp, bt_verification = verification, bt_tier = tier,
            bt_anchors = anchors, bt_records = rows\<rparr>))))))))))))"

section \<open>Frames\<close>

text \<open>The identity of a tick: the raw run id and timestamp of its world frame, and its index.\<close>

definition subject_run_id :: "dict \<Rightarrow> json" where
  "subject_run_id world = dget_or world ''run_id'' (JStr ''subj'')"

definition subject_ts :: "dict \<Rightarrow> json" where
  "subject_ts world = dget_or world ''timestamp'' (JStr SUBJECT_TS)"

definition subject_id :: "psyche_inputs \<Rightarrow> string \<Rightarrow> string" where
  "subject_id inputs kind = frame_id (py_str (subject_run_id (in_world inputs))) (in_tick_index inputs) kind"

definition subject_header :: "psyche_inputs \<Rightarrow> string \<Rightarrow> dict" where
  "subject_header inputs kind =
     [(''schema_version'', JStr ''0.1.0''), (''frame_kind'', JStr kind),
      (''timestamp'', subject_ts (in_world inputs)), (''run_id'', subject_run_id (in_world inputs))]"

definition anchor_continuity :: "json list \<Rightarrow> flt" where
  "anchor_continuity anchors = py_round 6 (py_min (Num 1) (fdiv (fint (int (length anchors))) (lit 2)))"

definition subject_state_frame :: "psyche_inputs \<Rightarrow> beat \<Rightarrow> dict" where
  "subject_state_frame inputs b =
     subject_header inputs ''psyche_state'' @
     [(''state_hash'', JStr (bt_hash b)), (''affect_manifold'', fdict_r6 (bt_affect b)),
      (''self_model'', JObj [(''predicted_error'', r6 (bt_uncertainty b)), (''self_model_reliability'', JFloat (lit (1 / 2))),
                             (''identity_refs'', JList (bt_anchors b))]),
      (''identity_continuity_state'', JObj [(''continuity_score'', JFloat (anchor_continuity (bt_anchors b))),
                                            (''anchors_carried'', JInt (int (length (bt_anchors b))))]),
      (''derived_signals'', JObj [(''scar_strength'', r6 (bt_scar_sal b))])]"

definition winner_label :: "beat \<Rightarrow> string" where
  "winner_label b = (if bt_disabled b then ''none'' else cm_winner (bt_comp b))"

definition competitor_json :: "string \<times> flt \<Rightarrow> json" where
  "competitor_json c = JObj [(''faculty'', JStr (fst c)), (''salience'', JFloat (snd c))]"

definition subject_broadcast_frame :: "psyche_inputs \<Rightarrow> beat \<Rightarrow> dict" where
  "subject_broadcast_frame inputs b =
     (let comp = bt_comp b; off = bt_disabled b in
      subject_header inputs ''workspace_broadcast'' @
      [(''broadcast_id'', JStr (subject_id inputs ''workspace_broadcast'')), (''winning_faculty'', JStr (winner_label b)),
       (''competitors'', JList (if off then [] else map competitor_json (cm_competitors comp))),
       (''salience_scores'', fdict_json (cm_terms comp)),
       (''winning_salience'', JFloat (if off then Num 0 else cm_salience comp)),
       (''conviction'', JFloat (if off then Num 0 else cm_conviction comp)), (''disabled'', JBool off)])"

definition verification_bucket :: "flt \<Rightarrow> string" where
  "verification_bucket v =
     (if flt_le (lit (66 / 100)) v then ''high'' else if flt_le (lit (33 / 100)) v then ''medium'' else ''low'')"

definition subject_instincts :: "psyche_inputs \<Rightarrow> beat \<Rightarrow> dict list" where
  "subject_instincts inputs b =
     (let winner = cm_winner (bt_comp b); v = bt_verification b; bucket = verification_bucket v in
      if \<not> bt_disabled b \<and> winner \<in> {''risk_instinct'', ''memory_scar''} then
        [subject_header inputs ''instinct_signal'' @
         [(''motif_id'', JStr (''subject.'' @ winner @ ''-'' @ bucket)), (''match_type'', JStr ''anomaly''),
          (''confidence'', r6 v), (''severity'', r6 v),
          (''recommended_action'', JStr (if bucket = ''high'' then ''deepen_verification'' else ''continue_fast_path'')),
          (''authority_request'', JStr ''soft''), (''explanation_trace_id'', JStr (subject_id inputs ''causal_trace''))]]
      else [])"

definition subject_pressure_frame :: "psyche_inputs \<Rightarrow> beat \<Rightarrow> dict" where
  "subject_pressure_frame inputs b =
     subject_header inputs ''control_pressure'' @
     [(''authority_tier'', JStr (bt_tier b)), (''pressures'', JObj [(''verification'', JFloat (bt_verification b))]),
      (''sources'', JList [JStr (subject_id inputs ''workspace_broadcast'')]),
      (''causal_trace_id'', JStr (subject_id inputs ''causal_trace''))]"

definition subject_report_frame :: "psyche_inputs \<Rightarrow> beat \<Rightarrow> dict" where
  "subject_report_frame inputs b =
     subject_header inputs ''grounded_self_report'' @
     [(''report_id'', JStr (subject_id inputs ''grounded_self_report'')),
      (''report_text'', JStr (''verification-seeking state at '' @ py_repr (bt_verification b) @ ''; winner='' @ winner_label b)),
      (''affect_state_hash'', JStr (bt_hash b)), (''workspace_broadcast_id'', JStr (subject_id inputs ''workspace_broadcast'')),
      (''causal_trace_id'', JStr (subject_id inputs ''causal_trace'')),
      (''reported_measurements'', JObj
         [(''verification_pressure'', JFloat (bt_verification b)), (''affect_certainty'', r6 (fget (bt_affect b) ''certainty'')),
          (''affect_tension'', r6 (fget (bt_affect b) ''tension''))]),
      (''uncertainty'', r6 (bt_uncertainty b))]"

definition subject_path :: "psyche_inputs \<Rightarrow> beat \<Rightarrow> json list" where
  "subject_path inputs b =
     [path_node ''event'' (JStr (subject_id inputs ''agent_trace'')) ''observable world + agent trace'',
      path_node ''internal_state'' (JStr (subject_id inputs ''psyche_state'')) ''affect updated; scars seeded'',
      path_node ''broadcast'' (JStr (subject_id inputs ''workspace_broadcast''))
        (if bt_disabled b then ''workspace disabled (expected break)'' else ''winner='' @ cm_winner (bt_comp b)),
      path_node ''pressure'' (JStr (subject_id inputs ''control_pressure'')) (''verification='' @ py_repr (bt_verification b))]"

definition subject_counterfactuals :: "json list" where
  "subject_counterfactuals =
     [JObj [(''condition'', JStr ''if scar_graph ablated''),
            (''predicted_outcome'', JStr ''memory_scar salience -> 0; winner may flip'')],
      JObj [(''condition'', JStr ''if affect_manifold.certainty clamped high''),
            (''predicted_outcome'', JStr ''uncertainty salience drops'')],
      JObj [(''condition'', JStr ''if workspace disabled''),
            (''predicted_outcome'', JStr ''no broadcast; verification pressure -> 0'')]]"

definition subject_trace_frame :: "psyche_inputs \<Rightarrow> string \<Rightarrow> beat \<Rightarrow> dict" where
  "subject_trace_frame inputs prev_hash b =
     subject_header inputs ''causal_trace'' @
     [(''trace_id'', JStr (subject_id inputs ''causal_trace'')),
      (''input_evidence_refs'', JList [JStr (subject_id inputs ''agent_trace'')]),
      (''previous_state_hash'', JStr prev_hash), (''new_state_hash'', JStr (bt_hash b)),
      (''changed_dimensions'', JList [JObj [(''dimension'', JStr ''affect.tension''), (''to'', r6 (fget (bt_affect b) ''tension''))]]),
      (''state_update_mechanism'', JStr ''baseline_subject.affect_update+workspace_competition''),
      (''causal_path'', JList (subject_path inputs b)),
      (''emitted_outputs'', JList (map JStr
         ([subject_id inputs ''psyche_state'', subject_id inputs ''workspace_broadcast'', subject_id inputs ''control_pressure''] @
          (if subject_instincts inputs b = [] then [] else [subject_id inputs ''instinct_signal''])))),
      (''interventions_applied'', JList (bt_records b)),
      (''counterfactual_predictions'', JList subject_counterfactuals)]"

definition subject_outputs :: "psyche_inputs \<Rightarrow> string \<Rightarrow> beat \<Rightarrow> psyche_outputs" where
  "subject_outputs inputs prev_hash b =
     \<lparr>psyche_state = subject_state_frame inputs b, workspace_broadcast = subject_broadcast_frame inputs b,
      control_pressure = subject_pressure_frame inputs b, causal_trace = subject_trace_frame inputs prev_hash b,
      grounded_self_report = subject_report_frame inputs b, instinct_signals = subject_instincts inputs b,
      authority_requests = []\<rparr>"

definition baseline_next :: "baseline \<Rightarrow> beat \<Rightarrow> baseline" where
  "baseline_next s b =
     s\<lparr>sb_affect := bt_affect b, sb_uncertainty := bt_uncertainty b, sb_scars := bt_scars b, sb_prev_hash := bt_hash b\<rparr>"

definition baseline_tick :: "psyche_inputs \<Rightarrow> baseline \<Rightarrow> (psyche_outputs \<times> baseline) result" where
  "baseline_tick inputs s =
     bindR (baseline_beat inputs s) (\<lambda>b. Ok (subject_outputs inputs (sb_prev_hash s) b, baseline_next s b))"

end
