(* ===== verification/Digests.thy ===== *)
theory Digests
  imports Hashing PyText
begin

text \<open>
  JSON text with escaped non-ASCII characters (\<open>json.dumps\<close> with its default \<open>ensure_ascii\<close>), and the
  digests the nervous system (\<open>nervous_system/frames.py\<close>) and the adversarial review
  (\<open>adversarial_review/canonical.py\<close>) take of it.
\<close>

section \<open>Escaped text\<close>

definition hex4 :: "nat \<Rightarrow> string" where
  "hex4 n = hex2 (n div 256) @ hex2 (n mod 256)"

definition u_escape :: "nat \<Rightarrow> string" where
  "u_escape n = [char_of (92::nat), CHR ''u''] @ hex4 n"

text \<open>From DEL on a character is escaped, beyond the basic plane as a surrogate pair.\<close>

definition ascii_point :: "nat \<Rightarrow> string" where
  "ascii_point n =
     (if n < 127 then [char_of n]
      else if n < 65536 then u_escape n
      else u_escape (55296 + (n - 65536) div 1024) @ u_escape (56320 + (n - 65536) mod 1024))"

text \<open>Only characters inside JSON strings are not ASCII, so the text is escaped as a whole.\<close>

definition dumps_ascii :: "json \<Rightarrow> string" where
  "dumps_ascii v = concat (map ascii_point (points (dumps v)))"

section \<open>Digests\<close>

text \<open>\<open>_digest\<close> of the nervous system's frames: sixteen hex digits.\<close>

definition short_digest :: "json \<Rightarrow> string" where
  "short_digest v = ''sha256:'' @ take 16 (sha256_hex (dumps_ascii v))"

text \<open>\<open>digest_value\<close> of review records: a trailing newline, no non-finite numbers.\<close>

definition review_json :: "json \<Rightarrow> string result" where
  "review_json v =
     (if all_finite v then Ok (dumps_ascii v @ [CHR 0x0A])
      else Raise (ValueError ''Out of range float values are not JSON compliant''))"

definition digest_value :: "json \<Rightarrow> string result" where
  "digest_value v = bindR (review_json v) (\<lambda>t. Ok (sha256_hex t))"

definition is_sha256_hex :: "json \<Rightarrow> bool" where
  "is_sha256_hex v =
     (case v of JStr s \<Rightarrow> length (points s) = 64 \<and> list_all (\<lambda>c. c \<in> set ''0123456789abcdef'') s | _ \<Rightarrow> False)"

end
