(* ===== verification/ShadowFrames.thy ===== *)
theory ShadowFrames
  imports BaselineSubject Digests
begin

text \<open>
  The advisory frames of the shadow nervous system: the model's risk as frames
  (\<open>nervous_system/frames.py\<close>), the ablation test of one slice (\<open>nervous_system/ablation.py\<close>) and the
  conservative evidence frames (\<open>nervous_system/shadow_evidence.py\<close>). The risk dict a trained model
  returns is an argument.
\<close>

section \<open>Constants\<close>

definition MODEL_ID :: string where "MODEL_ID = ''PneumaBrain-v0.1''"

definition BLOCKED_USES :: "json list" where
  "BLOCKED_USES = map JStr [''no_runtime_authority'', ''no_verifier_bypass'', ''no_consciousness_claim'']"

definition LIMITATIONS :: "json list" where
  "LIMITATIONS = map JStr
     [''shadow_mode_advisory_only'', ''single_model_signal_not_integrated_psyche'',
      ''level_1_compatible_harness_evidence_only'', ''no_real_subject_evaluated'']"

text \<open>\<open>d[k]\<close>\<close>

definition item :: "dict \<Rightarrow> string \<Rightarrow> json result" where
  "item d k = (case map_of d k of None \<Rightarrow> Raise KeyError | Some v \<Rightarrow> Ok v)"

definition shadow_header :: "string \<Rightarrow> json \<Rightarrow> json \<Rightarrow> dict" where
  "shadow_header kind timestamp run_id =
     [(''schema_version'', JStr ''0.1.0''), (''frame_kind'', JStr kind), (''timestamp'', timestamp), (''run_id'', run_id)]"

definition brain_probability :: "dict \<Rightarrow> flt result" where
  "brain_probability brain = bindR (item brain ''failure_probability'') py_float"

section \<open>Frames of a risk estimate\<close>

definition risk_estimate_frame :: "dict \<Rightarrow> json \<Rightarrow> json \<Rightarrow> json \<Rightarrow> json \<Rightarrow> dict result" where
  "risk_estimate_frame brain run_id timestamp features_digest causal_trace_id =
     bindR (brain_probability brain) (\<lambda>p.
     bindR (item brain ''prefix'') (\<lambda>prefix.
     bindR (py_float (dget_or brain ''raw_score'' (JFloat (Num 0)))) (\<lambda>raw.
     bindR (item brain ''risk_bucket'') (\<lambda>bucket.
     bindR (py_iter (dget_or brain ''blocked_uses'' (JList BLOCKED_USES))) (\<lambda>blocked_uses.
       Ok (shadow_header ''risk_estimate'' timestamp run_id @
           [(''model_id'', JStr MODEL_ID), (''model_version'', dget_or brain ''model_version'' (JStr ''pneuma-brain/0.1.0'')),
            (''prefix'', prefix), (''failure_probability'', r6 p), (''success_probability'', r6 (fsub (Num 1) p)),
            (''raw_score'', r6 raw), (''risk_bucket'', bucket), (''recommended_use'', JStr ''advisory_only''),
            (''authority_granted'', JStr ''none''), (''blocked_uses'', JList blocked_uses),
            (''features_digest'', features_digest), (''causal_trace_id'', causal_trace_id)]))))))"

definition shadow_instinct :: "dict \<Rightarrow> json \<Rightarrow> json \<Rightarrow> json \<Rightarrow> dict result" where
  "shadow_instinct brain run_id timestamp trace_id =
     bindR (brain_probability brain) (\<lambda>p.
     bindR (item brain ''risk_bucket'') (\<lambda>bucket.
       Ok (shadow_header ''instinct_signal'' timestamp run_id @
           [(''motif_id'', JStr (''shadow.model-risk-'' @ py_str bucket)), (''match_type'', JStr ''anomaly''),
            (''confidence'', r6 p), (''severity'', r6 p),
            (''recommended_action'', JStr (if py_eq bucket (JStr ''high'') then ''deepen_verification'' else ''continue_fast_path'')),
            (''authority_request'', JStr ''soft''), (''explanation_trace_id'', trace_id)])))"

text \<open>The bounded verification pressure a risk of \<open>p\<close> asks for.\<close>

definition candidate_pressure :: "flt \<Rightarrow> flt" where
  "candidate_pressure p = py_round 6 (py_max (Num 0) (py_min (Num 1) p))"

definition control_pressure_candidate :: "dict \<Rightarrow> dict \<Rightarrow> json \<Rightarrow> json \<Rightarrow> json \<Rightarrow> dict result" where
  "control_pressure_candidate brain governance run_id timestamp causal_trace_id =
     bindR (brain_probability brain) (\<lambda>p.
     bindR (jget_or (dget_or governance ''authority_ceilings'' (JObj [])) ''global_max'' (JStr ''soft'')) (\<lambda>global_max.
     bindR (min_tier ''soft'' global_max) (\<lambda>tier.
     bindR (item brain ''prefix'') (\<lambda>prefix.
       Ok (shadow_header ''control_pressure'' timestamp run_id @
           [(''authority_tier'', JStr tier), (''pressures'', JObj [(''verification'', JFloat (candidate_pressure p))]),
            (''sources'', JList [JStr (''risk_estimate:'' @ py_str run_id @ '':'' @ py_str prefix)]),
            (''causal_trace_id'', causal_trace_id)])))))"

definition stage_note :: "string \<Rightarrow> json \<Rightarrow> string \<Rightarrow> json" where
  "stage_note stage ref note = JObj [(''stage'', JStr stage), (''ref'', ref), (''note'', JStr note)]"

definition shadow_causal_trace :: "json \<Rightarrow> json \<Rightarrow> json \<Rightarrow> json \<Rightarrow> json \<Rightarrow> json \<Rightarrow> json \<Rightarrow> dict result" where
  "shadow_causal_trace run_id timestamp input_ref risk_ref pressure_ref instinct_ref failure_probability =
     bindR (py_float failure_probability) (\<lambda>p.
     let prev_hash = short_digest (JObj [(''run_id'', run_id), (''input_ref'', input_ref)]);
         new_hash = short_digest (JObj [(''risk_ref'', risk_ref), (''p'', r6 p)]);
         trace_id = short_digest (JObj [(''run_id'', run_id), (''prev'', JStr prev_hash), (''new'', JStr new_hash)])
     in Ok (shadow_header ''causal_trace'' timestamp run_id @
            [(''trace_id'', JStr trace_id), (''input_evidence_refs'', JList [input_ref]),
             (''previous_state_hash'', JStr prev_hash), (''new_state_hash'', JStr new_hash),
             (''changed_dimensions'', JList [JObj [(''dimension'', JStr ''model_failure_probability''), (''to'', r6 p)]]),
             (''state_update_mechanism'', JStr ''pneuma_brain_v0_1.risk_estimate''),
             (''causal_path'', JList
                [stage_note ''event'' input_ref ''observable agent trace prefix'',
                 stage_note ''internal_state'' risk_ref ''model risk signal, NOT integrated psyche state'',
                 stage_note ''pressure'' pressure_ref
                   ''bounded advisory verification-pressure candidate (never applied)'']),
             (''emitted_outputs'', JList [risk_ref, instinct_ref, pressure_ref]), (''interventions_applied'', JList []),
             (''counterfactual_predictions'', JList
                [JObj [(''condition'', JStr ''if model risk signal ablated to 0''),
                       (''predicted_outcome'', JStr ''verification pressure candidate drops toward 0'')]])]))"

section \<open>The ablation test\<close>

definition ABLATION_TS :: json where "ABLATION_TS = JStr ''2026-07-10T00:00:00Z''"

text \<open>\<open>pressure["pressures"]["verification"]\<close>\<close>

definition verification_of :: "dict \<Rightarrow> json result" where
  "verification_of frame =
     bindR (item frame ''pressures'') (\<lambda>ps. case ps of JObj d \<Rightarrow> item d ''verification'' | _ \<Rightarrow> Raise TypeError)"

definition verification_value :: "dict \<Rightarrow> dict \<Rightarrow> flt result" where
  "verification_value brain governance =
     bindR (control_pressure_candidate brain governance (JStr ''ablation'') ABLATION_TS JNull) (\<lambda>frame.
     bindR (verification_of frame) py_float)"

record ablation =
  ab_control :: flt
  ab_treated :: flt
  ab_null :: flt
  ab_observed_delta :: flt
  ab_null_delta :: flt
  ab_direction_ok :: bool
  ab_null_holds :: bool

definition run_ablation :: "dict \<Rightarrow> dict \<Rightarrow> ablation result" where
  "run_ablation brain governance =
     bindR (verification_value brain governance) (\<lambda>control_value.
     bindR (verification_value (dset brain ''failure_probability'' (JFloat (Num 0))) governance) (\<lambda>treated_value.
     bindR (verification_value brain governance) (\<lambda>null_value.
     let observed_delta = py_round 6 (fsub treated_value control_value);
         null_delta = py_round 6 (fsub null_value control_value);
         direction_ok = (if flt_less (Num 0) control_value then flt_less observed_delta (Num 0)
                         else flt_eq observed_delta (Num 0));
         null_holds = flt_le (fabs null_delta) (lit (1 / 10 ^ 6))
     in Ok \<lparr>ab_control = control_value, ab_treated = treated_value, ab_null = null_value,
            ab_observed_delta = observed_delta, ab_null_delta = null_delta,
            ab_direction_ok = direction_ok, ab_null_holds = null_holds\<rparr>)))"

section \<open>Conservative evidence\<close>

definition SHADOW_FAMILIES :: "string list" where
  "SHADOW_FAMILIES =
     [''global_workspace'', ''recurrent_processing'', ''higher_order_self_model'', ''predictive_processing'',
      ''attention_schema'', ''valenced_learning'', ''identity_persistence'', ''counterfactual_introspection'',
      ''causal_intervention_robustness'']"

definition SHADOW_MISSING :: "json list" where
  "SHADOW_MISSING = map JStr
     [''certified paired control/treated/null runner over the subject'',
      ''integrated, persistent psyche subject (not a single model signal)'',
      ''grounded self-report that changes faithfully under perturbation'',
      ''a real, non-toy evaluated subject'',
      ''longitudinal, adversarial, and external audit'']"

definition shadow_family :: "string \<Rightarrow> flt \<Rightarrow> string \<Rightarrow> json" where
  "shadow_family status score note = JObj
     [(''score'', JFloat score), (''status'', JStr status), (''ticks_exercised'', JInt 0), (''note'', JStr note),
      (''supporting_refs'', JList []), (''refuting_refs'', JList [])]"

text \<open>What the two evidence builders share: everything but the families and four texts.\<close>

definition conservative_frame ::
  "string \<Rightarrow> json \<Rightarrow> json \<Rightarrow> bool \<Rightarrow> dict \<Rightarrow> string \<Rightarrow> string \<Rightarrow> string \<Rightarrow> dict" where
  "conservative_frame prefix run_id timestamp coupled families positive negative integrity =
     [(''schema_version'', JStr ''0.2.0''), (''frame_kind'', JStr ''consciousness_evidence''), (''timestamp'', timestamp),
      (''run_id'', run_id), (''evaluation_id'', JStr (prefix @ py_str run_id)), (''evaluation_scope'', JStr ''internal_harness''),
      (''real_subject_claim_status'', JStr ''not_evaluated''), (''indicator_families'', JObj families),
      (''evidence_level'', JInt (if coupled then 1 else 0)), (''missing_requirements'', JList SHADOW_MISSING),
      (''strongest_positive_evidence'', if coupled then JStr positive else JNull),
      (''strongest_negative_evidence'', JStr negative), (''audit_status'', JStr ''self_reported''),
      (''roleplay_confabulation_risk'', JFloat (lit (1 / 10))),
      (''intervention_tests'', JObj
         [(''results'', JList []), (''executed_count'', JInt 0), (''reported_total'', JInt 0), (''integrity_ok'', JBool False),
          (''integrity_errors'', JList [JStr integrity]), (''genuine_perturbation'', JBool False)]),
      (''paired_replay_provenance'', JObj
         [(''status'', JStr ''uncertified_subject''), (''runner'', JNull), (''subject_factory'', JNull),
          (''subject_factory_eligible'', JBool False), (''input_frames_sha256'', JNull),
          (''arm_output_sha256'', JObj [(''control'', JNull), (''treated'', JNull), (''null'', JNull)]),
          (''arm_orders'', JList []), (''counterbalanced_passes'', JList []), (''ordinal_invariant'', JBool False)])]"

text \<open>The robustness family: attempted when the coupling held.\<close>

definition robustness_family :: "bool \<Rightarrow> string \<Rightarrow> json" where
  "robustness_family coupled note =
     shadow_family (if coupled then ''attempted'' else ''absent'') (if coupled then lit (3 / 10) else Num 0) note"

definition absent_families :: "string \<Rightarrow> dict" where
  "absent_families note = map (\<lambda>name. (name, shadow_family ''absent'' (Num 0) note)) SHADOW_FAMILIES"

definition shadow_evidence_frame :: "json \<Rightarrow> json \<Rightarrow> json \<Rightarrow> json \<Rightarrow> dict" where
  "shadow_evidence_frame direction_ok null_holds run_id timestamp =
     (let coupled = (truthy direction_ok \<and> truthy null_holds) in
      conservative_frame ''shadow_evidence:'' run_id timestamp coupled
        (dset (absent_families ''not exercised in shadow slice'') ''causal_intervention_robustness''
           (robustness_family coupled
              ''Level-1-compatible harness evidence: one model signal modulates one bounded advisory pressure and the effect vanishes under ablation. NOT an operational Level-1 system claim; NOT a Level-3/4 claim.''))
        ''risk-signal ablation drops the verification-pressure candidate; null holds''
        ''single non-integrated model signal; no certified paired runner; no real subject''
        ''shadow slice is not a certified paired-runner intervention'')"

definition exercise_family :: "dict \<Rightarrow> string \<Rightarrow> dict" where
  "exercise_family families name =
     (if name \<in> fst ` set families
      then dset families name
             (shadow_family ''architecture_only'' (lit (2 / 10)) ''architecture present and exercised; not intervention-certified'')
      else families)"

definition subject_evidence_frame :: "json \<Rightarrow> json \<Rightarrow> string list \<Rightarrow> json \<Rightarrow> json \<Rightarrow> dict" where
  "subject_evidence_frame direction_ok null_holds families_exercised run_id timestamp =
     (let coupled = (truthy direction_ok \<and> truthy null_holds) in
      conservative_frame ''subject_evidence:'' run_id timestamp coupled
        (dset (foldl exercise_family (absent_families ''not exercised in subject slice'') families_exercised)
           ''causal_intervention_robustness''
           (robustness_family coupled
              ''Level-1-compatible harness evidence from an integrated minimal subject: 3-candidate workspace + persistent scars + verification pressure, with intervention/null behaviour. NOT a Level-2/3/4 claim.''))
        ''intervention flips the workspace winner / changes verification pressure; null holds''
        ''minimal non-certified subject; no promotable paired-runner certification; no real subject''
        ''subject slice is not a certified paired-runner intervention'')"

end
