(* ===== verification/SubjectRuntime.thy ===== *)
theory SubjectRuntime
  imports ShadowFrames Runner Bundles
begin

text \<open>
  The runs of the nervous system: the shadow runtime over a risk model (\<open>nervous_system/runtime.py\<close>),
  the baseline subject driven by the replay harness (\<open>nervous_system/subject_runtime.py\<close>) and by the
  paired runner (\<open>nervous_system/subject_ablation.py\<close>), and its certified factory
  (\<open>nervous_system/certified_subject.py\<close>). The rows of the append-only log and the scars written back
  to the store are results. The inference of the trained model and its feature extraction are the
  arguments \<open>predict\<close> and \<open>features\<close>.
\<close>

section \<open>The baseline subject under the harness\<close>

definition baseline_subject :: "fdict \<Rightarrow> baseline subject" where
  "baseline_subject seed =
     \<lparr>sj_new = (\<lambda>_. baseline_reset seed), sj_reset = (\<lambda>_. baseline_reset seed), sj_perturbable = True,
      sj_set_active = baseline_set_active, sj_tick = baseline_tick\<rparr>"

definition FAMILIES_EXERCISED :: "string list" where
  "FAMILIES_EXERCISED =
     [''global_workspace'', ''valenced_learning'', ''identity_persistence'', ''higher_order_self_model'']"

definition governance_of :: "dict list \<Rightarrow> dict" where
  "governance_of frames = (case filter is_governance frames of g # _ \<Rightarrow> g | [] \<Rightarrow> [])"

definition base_timestamp :: "dict list \<Rightarrow> json" where
  "base_timestamp frames =
     (case filter is_str (map (\<lambda>f. dget f ''timestamp'') frames) of t # _ \<Rightarrow> t | [] \<Rightarrow> JStr SUBJECT_TS)"

definition killed :: "dict \<Rightarrow> bool" where
  "killed governance \<longleftrightarrow> \<not> py_eq (dget_or governance ''kill_switch_state'' (JStr ''on'')) (JStr ''on'')"

definition suppressed_row :: "json \<Rightarrow> json \<Rightarrow> json \<Rightarrow> dict" where
  "suppressed_row run_id kill timestamp =
     [(''status'', JStr ''suppressed_by_governance''), (''run_id'', run_id), (''kill_switch_state'', kill),
      (''timestamp'', timestamp)]"

text \<open>One tick's outputs as a bundle and a log row.\<close>

definition subject_bundle :: "json \<Rightarrow> dict \<Rightarrow> psyche_outputs \<Rightarrow> dict result" where
  "subject_bundle run_id evidence out =
     bindR (item (psyche_state out) ''timestamp'') (\<lambda>ts.
       Ok [(''schema_version'', JStr ''0.1.0''), (''bundle_kind'', JStr ''pneuma_output''), (''run_id'', run_id),
           (''timestamp'', ts), (''governance_status'', JStr ''emitted''), (''risk_estimate'', JNull),
           (''instinct'', case instinct_signals out of i # _ \<Rightarrow> JObj i | [] \<Rightarrow> JNull),
           (''control_pressure'', JObj (control_pressure out)), (''causal_trace'', JObj (causal_trace out)),
           (''consciousness_evidence'', JObj evidence), (''psyche_state'', JObj (psyche_state out)),
           (''workspace_broadcast'', JObj (workspace_broadcast out)), (''blocked_uses'', JList BLOCKED_USES),
           (''limitations'', JList LIMITATIONS)])"

definition emit_bundle ::
  "schema_checker \<Rightarrow> schema_checker \<Rightarrow> json \<Rightarrow> dict \<Rightarrow> psyche_outputs \<Rightarrow> (dict \<times> dict) result" where
  "emit_bundle be se run_id evidence out =
     bindR (subject_bundle run_id evidence out) (\<lambda>bundle.
     bindR (validate_bundle be se (JObj bundle)) (\<lambda>_.
     bindR (item (psyche_state out) ''state_hash'') (\<lambda>h.
     bindR (verification_of (control_pressure out)) (\<lambda>v.
       Ok (bundle, [(''status'', JStr ''emitted''), (''run_id'', run_id), (''tick'', h), (''verification'', v)])))))"

record subject_run =
  sr_bundles :: "dict list"
  sr_log :: "dict list"
  sr_scars :: fdict

text \<open>\<open>seed\<close> holds the scars loaded from the store; \<open>sr_scars\<close> is what the store holds afterwards.\<close>

definition run_subject ::
  "schema_checker \<Rightarrow> schema_checker \<Rightarrow> dict list \<Rightarrow> fdict \<Rightarrow> schedule option \<Rightarrow> subject_run result" where
  "run_subject be se input_frames seed sched =
     (let governance = governance_of input_frames;
          run_id = dget_or governance ''run_id'' (JStr ''subj'');
          timestamp = base_timestamp input_frames in
      if killed governance
      then Ok \<lparr>sr_bundles = [], sr_log = [suppressed_row run_id (dget governance ''kill_switch_state'') timestamp],
               sr_scars = seed\<rparr>
      else
        bindR (harness_run se (baseline_subject seed) True input_frames False sched (baseline_reset seed)) (\<lambda>(r, s).
        let evidence = subject_evidence_frame (JBool False) (JBool True) FAMILIES_EXERCISED run_id timestamp in
        bindR (mapR (emit_bundle be se run_id evidence) (rr_tick_outputs r)) (\<lambda>emitted.
          Ok \<lparr>sr_bundles = map fst emitted, sr_log = map snd emitted, sr_scars = saved_scars (sb_scars s)\<rparr>)))"

section \<open>The paired ablation of the subject\<close>

text \<open>The frame of the last tick, or the empty dict.\<close>

definition last_frame :: "(psyche_outputs \<Rightarrow> dict) \<Rightarrow> replay_result \<Rightarrow> dict" where
  "last_frame f r = (case rev (rr_tick_outputs r) of [] \<Rightarrow> [] | out # _ \<Rightarrow> f out)"

definition last_verification :: "replay_result \<Rightarrow> flt result" where
  "last_verification r =
     (case rev (rr_tick_outputs r) of
        [] \<Rightarrow> Ok (Num 0)
      | out # _ \<Rightarrow> bindR (verification_of (control_pressure out)) py_float)"

record subject_ablation =
  sa_winner_control :: json
  sa_winner_treated :: json
  sa_winner_null :: json
  sa_winner_changed :: bool
  sa_control_verification :: flt
  sa_treated_verification :: flt
  sa_observed_delta :: flt
  sa_null_delta :: flt
  sa_null_holds :: bool
  sa_arms :: paired_result
  sa_evidence :: dict

text \<open>The factory of an ablation run is a fresh function object; \<open>key\<close> is its identity.\<close>

definition ablation_factory :: "nat \<Rightarrow> fdict \<Rightarrow> baseline factory" where
  "ablation_factory key seed =
     \<lparr>fc_key = key,
      fc_names = \<lparr>fn_module = Some ''pneuma_lab.nervous_system.subject_ablation'',
                  fn_qualname = Some ''run_subject_ablation.<locals>.<lambda>'',
                  fn_type_module = ''builtins'', fn_type_qualname = ''function''\<rparr>,
      fc_constructible = True, fc_is_psyche = True, fc_subject = baseline_subject seed\<rparr>"

definition run_subject_ablation ::
  "schema_checker \<Rightarrow> registry \<Rightarrow> nat \<Rightarrow> dict list \<Rightarrow> fdict \<Rightarrow> subject_ablation result" where
  "run_subject_ablation se reg key input_frames seed =
     bindR (paired_run se reg (ablation_factory key seed) True input_frames (baseline_reset seed)) (\<lambda>(paired, _).
     let winner = (\<lambda>r. dget (last_frame workspace_broadcast r) ''winning_faculty'');
         wc = winner (pr_control paired); wt = winner (pr_treated paired); wn = winner (pr_null paired) in
     bindR (last_verification (pr_control paired)) (\<lambda>control_v.
     bindR (last_verification (pr_treated paired)) (\<lambda>treated_v.
     bindR (last_verification (pr_null paired)) (\<lambda>null_v.
     let observed_delta = py_round 6 (fsub treated_v control_v);
         null_delta = py_round 6 (fsub null_v control_v);
         null_holds = (flt_le (fabs null_delta) (lit (1 / 10 ^ 6)) \<and> py_eq wn wc);
         winner_changed = (\<not> py_eq wt wc);
         run_id = (case input_frames of [] \<Rightarrow> JStr ''subj'' | f # _ \<Rightarrow> dget_or f ''run_id'' (JStr ''subj''))
     in Ok \<lparr>sa_winner_control = wc, sa_winner_treated = wt, sa_winner_null = wn, sa_winner_changed = winner_changed,
            sa_control_verification = control_v, sa_treated_verification = treated_v,
            sa_observed_delta = observed_delta, sa_null_delta = null_delta, sa_null_holds = null_holds, sa_arms = paired,
            sa_evidence = subject_evidence_frame (JBool (winner_changed \<or> flt_less observed_delta (Num 0)))
              (JBool null_holds) FAMILIES_EXERCISED run_id (JStr SUBJECT_TS)\<rparr>))))"

section \<open>The certified factory\<close>

definition certified_baseline_factory :: "nat \<Rightarrow> fdict \<Rightarrow> baseline factory" where
  "certified_baseline_factory key seed =
     \<lparr>fc_key = key,
      fc_names = \<lparr>fn_module = Some ''pneuma_lab.nervous_system.certified_subject'', fn_qualname = None,
                  fn_type_module = ''pneuma_lab.nervous_system.certified_subject'',
                  fn_type_qualname = ''CertifiedBaselineSubjectFactory''\<rparr>,
      fc_constructible = True, fc_is_psyche = True, fc_subject = baseline_subject seed\<rparr>"

text \<open>\<open>probe\<close> holds the frames of the probe fixture.\<close>

definition certify_baseline_subject ::
  "schema_checker \<Rightarrow> nat \<Rightarrow> fdict \<Rightarrow> dict list \<Rightarrow> registry \<Rightarrow>
   (baseline factory \<times> certificate \<times> registry) result" where
  "certify_baseline_subject se key seed probe reg =
     (let f = certified_baseline_factory key seed in
      bindR (certify se f probe reg (baseline_reset seed)) (\<lambda>(cert, reg', _). Ok (f, cert, reg')))"

section \<open>The shadow runtime\<close>

definition features_digest :: "flt list \<Rightarrow> json" where
  "features_digest row = JStr (short_digest (JList (map r6 row)))"

definition ref_of :: "string \<Rightarrow> json \<Rightarrow> string \<Rightarrow> json" where
  "ref_of kind run_id window = JStr (kind @ '':'' @ py_str run_id @ '':'' @ window)"

text \<open>\<open>_base_timestamp(trace)\<close>: the first string timestamp of the trace's frames.\<close>

definition trace_timestamp :: "dict \<Rightarrow> json result" where
  "trace_timestamp trace =
     bindR (py_iter (dget_or trace ''frames'' (JList []))) (\<lambda>frames.
     bindR (foldR (\<lambda>found frame. case found of
              Some t \<Rightarrow> Ok (Some t)
            | None \<Rightarrow> bindR (jget frame ''timestamp'') (\<lambda>t. Ok (if is_str t then Some t else None))) None frames)
       (\<lambda>found. Ok (case found of Some t \<Rightarrow> t | None \<Rightarrow> JStr SUBJECT_TS)))"

text \<open>One prefix of a trace: its bundle and its log row.\<close>

definition run_prefix ::
  "schema_checker \<Rightarrow> schema_checker \<Rightarrow> (dict \<Rightarrow> string \<Rightarrow> dict result) \<Rightarrow> (dict \<Rightarrow> string \<Rightarrow> flt list result) \<Rightarrow>
   dict \<Rightarrow> dict \<Rightarrow> json \<Rightarrow> json \<Rightarrow> string \<Rightarrow> (dict \<times> dict) result" where
  "run_prefix be se predict features trace governance run_id timestamp window =
     bindR (predict trace window) (\<lambda>brain.
     bindR (features trace window) (\<lambda>row.
     bindR (item brain ''failure_probability'') (\<lambda>fp.
     bindR (shadow_causal_trace run_id timestamp (ref_of ''agent_trace'' run_id window) (ref_of ''risk_estimate'' run_id window)
              (ref_of ''control_pressure'' run_id window) (ref_of ''instinct'' run_id window) fp) (\<lambda>trace_frame.
     bindR (item trace_frame ''trace_id'') (\<lambda>trace_id.
     bindR (risk_estimate_frame brain run_id timestamp (features_digest row) trace_id) (\<lambda>risk.
     bindR (shadow_instinct brain run_id timestamp trace_id) (\<lambda>instinct.
     bindR (control_pressure_candidate brain governance run_id timestamp trace_id) (\<lambda>pressure.
     bindR (run_ablation brain governance) (\<lambda>coupling.
     let evidence = shadow_evidence_frame (JBool (ab_direction_ok coupling)) (JBool (ab_null_holds coupling)) run_id timestamp;
         bundle =
           [(''schema_version'', JStr ''0.1.0''), (''bundle_kind'', JStr ''pneuma_output''), (''run_id'', run_id),
            (''timestamp'', timestamp), (''governance_status'', JStr ''emitted''), (''risk_estimate'', JObj risk),
            (''instinct'', JObj instinct), (''control_pressure'', JObj pressure), (''causal_trace'', JObj trace_frame),
            (''consciousness_evidence'', JObj evidence), (''blocked_uses'', JList BLOCKED_USES),
            (''limitations'', JList LIMITATIONS)] in
     bindR (validate_bundle be se (JObj bundle)) (\<lambda>_.
     bindR (item risk ''failure_probability'') (\<lambda>p.
       Ok (bundle, [(''status'', JStr ''emitted''), (''run_id'', run_id), (''prefix'', JStr window), (''risk'', p),
                    (''timestamp'', timestamp)]))))))))))))"

text \<open>\<open>run_trace\<close>: the bundles and the rows appended to the shadow log.\<close>

definition run_trace ::
  "schema_checker \<Rightarrow> schema_checker \<Rightarrow> (dict \<Rightarrow> string \<Rightarrow> dict result) \<Rightarrow> (dict \<Rightarrow> string \<Rightarrow> flt list result) \<Rightarrow>
   dict \<Rightarrow> dict \<Rightarrow> string list \<Rightarrow> (dict list \<times> dict list) result" where
  "run_trace be se predict features trace governance windows =
     (let run_id = dget_or trace ''run_id'' (JStr ''unknown'') in
      bindR (trace_timestamp trace) (\<lambda>timestamp.
        if killed governance
        then Ok ([], [suppressed_row run_id (dget_or governance ''kill_switch_state'' (JStr ''on'')) timestamp])
        else bindR (mapR (run_prefix be se predict features trace governance run_id timestamp) windows) (\<lambda>slices.
               Ok (map fst slices, map snd slices))))"

end
