(* ===== verification/BaselineProps.thy ===== *)
theory BaselineProps
  imports SubjectRuntime OutputProps
begin

text \<open>
  Properties of the baseline subject: it keeps the contract of a psyche under test, its competition
  picks a greatest salience, its pressure is bounded and advisory, and the scorer's verdict on any of
  its replays depends only on the continuity anchors it carried.
\<close>

section \<open>The psyche contract\<close>

text \<open>Two states that differ at most in the installed interventions.\<close>

definition same_baseline :: "baseline \<Rightarrow> baseline \<Rightarrow> bool" where
  "same_baseline s t \<longleftrightarrow> s\<lparr>sb_pert := []\<rparr> = t\<lparr>sb_pert := []\<rparr>"

lemma baseline_affect_neutral:
  "\<forall>iv\<in>set (sb_pert s). neutral iv \<Longrightarrow>
   baseline_affect s err retry unc = baseline_affect (s\<lparr>sb_pert := []\<rparr>) err retry unc"
  by (simp add: baseline_affect_def Let_def scalar_neutral)

lemma interior_pert_free:
  "baseline_interior (s\<lparr>sb_pert := p, sb_affect := a, sb_uncertainty := u, sb_scars := c\<rparr>)
   = baseline_interior (s\<lparr>sb_affect := a, sb_uncertainty := u, sb_scars := c\<rparr>)"
  by (simp add: baseline_interior_def)

lemma baseline_beat_neutral:
  assumes "\<forall>iv\<in>set (sb_pert s). neutral iv"
  shows "baseline_beat i s = baseline_beat i (s\<lparr>sb_pert := []\<rparr>)"
  unfolding baseline_beat_def Let_def baseline_affect_neutral [OF assms] interior_pert_free
  by (simp add: blocks_neutral records_neutral assms)

lemma baseline_tick_neutral:
  assumes "\<forall>iv\<in>set (sb_pert s). neutral iv"
  shows "rel_step same_baseline (baseline_tick i s) (baseline_tick i (s\<lparr>sb_pert := []\<rparr>))"
  unfolding baseline_tick_def baseline_beat_neutral [OF assms]
  by (cases "baseline_beat i (s\<lparr>sb_pert := []\<rparr>)")
     (simp_all add: rel_step_def same_baseline_def baseline_next_def)

interpretation base: psyche_under_test "baseline_subject seed" same_baseline for seed
proof
  fix s t :: baseline and i :: psyche_inputs and ivs :: "dict list"
  show "sj_reset (baseline_subject seed) s = sj_reset (baseline_subject seed) t"
    by (simp add: baseline_subject_def)
  show "same_baseline s s"
    by (simp add: same_baseline_def)
  show "rel_step same_baseline (sj_tick (baseline_subject seed) i (sj_set_active (baseline_subject seed) ivs s))
          (sj_tick (baseline_subject seed) i (sj_set_active (baseline_subject seed) [] t))"
    if "same_baseline s t" and "\<forall>iv\<in>set ivs. neutral iv"
  proof -
    have "s\<lparr>sb_pert := ivs\<rparr>\<lparr>sb_pert := []\<rparr> = t\<lparr>sb_pert := []\<rparr>"
      using that(1) by (simp add: same_baseline_def)
    then show ?thesis
      using baseline_tick_neutral [of "s\<lparr>sb_pert := ivs\<rparr>" i] that(2)
      by (simp add: baseline_subject_def baseline_set_active_def)
  qed
  show "rel_step same_baseline (sj_tick (baseline_subject seed) i s) (sj_tick (baseline_subject seed) i t)"
    if "same_baseline s t" and "\<not> sj_perturbable (baseline_subject seed)"
    using that(2) by (simp add: baseline_subject_def)
qed

text \<open>
  C40. The null arm of the baseline subject reproduces control: with the schedule neutralized its
  replay emits, tick for tick, the outputs of the replay without a schedule, whatever scars it was
  seeded with, and raises where that raises.
\<close>

theorem baseline_null_reproduces_control:
  assumes "wf_schedule w"
  shows "outputs_of (run_ticks se (baseline_subject seed) v sm (Some (neutralized w)) ticks (baseline_reset seed))
       = outputs_of (run_ticks se (baseline_subject seed) v sm None ticks (baseline_reset seed))"
  using base.null_run [OF assms, of se seed v sm ticks] by (simp add: baseline_subject_def)

section \<open>The competition\<close>

lemma subject_clip_unit [simp]: "in_unit (unit_clip x)"
  by (cases x) (auto simp: unit_clip_def subject_clip_def py_max_def py_min_def flt_less_def in_unit_def)

lemma saliences_unit [simp]:
  "in_unit (risk_salience e a)" "in_unit (scar_salience c m b)" "in_unit (uncertainty_salience u a)"
  by (auto simp: risk_salience_def scar_salience_def uncertainty_salience_def in_unit_def split: option.splits)
    (metis in_unit_def subject_clip_unit)+

lemma ranked_eq:
  "ranked c = [(''risk_instinct'', py_round 6 (fget c ''risk_instinct'')), (''memory_scar'', py_round 6 (fget c ''memory_scar'')),
     (''uncertainty_self_model'', py_round 6 (fget c ''uncertainty_self_model''))]"
  by (simp add: ranked_def CANDIDATE_ORDER_def)

lemma candidate_ranks [simp]:
  "candidate_rank ''risk_instinct'' = 0" "candidate_rank ''memory_scar'' = 1" "candidate_rank ''uncertainty_self_model'' = 2"
  by (simp_all add: candidate_rank_def CANDIDATE_ORDER_def)

lemma ws_compete_winner:
  "(cm_winner (ws_compete c), cm_salience (ws_compete c)) = max_by key_less (hd (ranked c)) (tl (ranked c))"
  by (simp add: ws_compete_def Let_def)

lemma winner_member: "(cm_winner (ws_compete c), cm_salience (ws_compete c)) \<in> set (ranked c)"
  unfolding ws_compete_winner ranked_eq by (simp add: max_by_def)

lemma key_less_finite:
  "is_finite x \<Longrightarrow> is_finite y \<Longrightarrow>
   key_less (m, x) (n, y) \<longleftrightarrow> fval x < fval y \<or> fval x = fval y \<and> candidate_rank n < candidate_rank m"
  by (cases x; cases y) (auto simp: key_less_def flt_eq_def flt_less_def is_nan_def is_finite_def)

lemma winner_greatest:
  assumes "\<forall>(n, x)\<in>set (ranked c). is_finite x" and "(n, x) \<in> set (ranked c)"
  shows "\<not> key_less (cm_winner (ws_compete c), cm_salience (ws_compete c)) (n, x)"
  using assms unfolding ws_compete_winner ranked_eq
  by (auto simp: max_by_def key_less_finite not_less)

text \<open>
  The workspace competition is fair: over finite saliences the winner is one of the three
  candidates, it carries its own rounded salience, no candidate has a greater one, and a tie goes to
  the candidate that comes first in the fixed order; the others are listed as competitors.
\<close>

theorem competition_winner_maximal:
  assumes "list_all (\<lambda>n. is_finite (py_round 6 (fget c n))) CANDIDATE_ORDER"
  shows "cm_winner (ws_compete c) \<in> set CANDIDATE_ORDER \<and>
         cm_salience (ws_compete c) = py_round 6 (fget c (cm_winner (ws_compete c))) \<and>
         list_all (\<lambda>n. fval (py_round 6 (fget c n)) < fval (cm_salience (ws_compete c)) \<or>
             fval (py_round 6 (fget c n)) = fval (cm_salience (ws_compete c)) \<and>
             candidate_rank (cm_winner (ws_compete c)) \<le> candidate_rank n) CANDIDATE_ORDER \<and>
         map fst (cm_competitors (ws_compete c)) = filter (\<lambda>n. n \<noteq> cm_winner (ws_compete c)) CANDIDATE_ORDER"
proof -
  let ?w = "cm_winner (ws_compete c)" and ?s = "cm_salience (ws_compete c)"
  have fin: "\<forall>(n, x)\<in>set (ranked c). is_finite x"
    using assms by (auto simp: ranked_def list_all_iff)
  have mem: "?w \<in> set CANDIDATE_ORDER" "?s = py_round 6 (fget c ?w)"
    using winner_member [of c] by (auto simp: ranked_def)
  have "is_finite ?s"
    using fin winner_member [of c] by blast
  then have "list_all (\<lambda>n. fval (py_round 6 (fget c n)) < fval ?s \<or>
      fval (py_round 6 (fget c n)) = fval ?s \<and> candidate_rank ?w \<le> candidate_rank n) CANDIDATE_ORDER"
    using winner_greatest [OF fin] fin by (fastforce simp: list_all_iff ranked_def key_less_finite not_less)
  moreover have "map fst (cm_competitors (ws_compete c)) = filter (\<lambda>n. n \<noteq> ?w) CANDIDATE_ORDER"
    by (simp add: ws_compete_def Let_def ranked_def CANDIDATE_ORDER_def)
  ultimately show ?thesis
    using mem by blast
qed

section \<open>Advisory pressure\<close>

lemma min_tier_soft: "min_tier ''soft'' g = Ok t \<Longrightarrow> t = ''cosmetic'' \<or> t = ''soft''"
proof -
  have "tier_place (JStr ''soft'') = 1"
    by (simp add: tier_place_def TIERS_def)
  then show "min_tier ''soft'' g = Ok t \<Longrightarrow> ?thesis"
    by (cases "tier_place g") (auto simp: min_tier_def Let_def TIERS_def)
qed

lemma baseline_beatE:
  assumes "baseline_beat i s = Ok b"
  obtains err a u c m bl where
    "bt_comp b = ws_compete [(''risk_instinct'', risk_salience err a), (''memory_scar'', scar_salience c m bl),
                             (''uncertainty_self_model'', uncertainty_salience u a)]"
    "bt_verification b = (if bt_disabled b then Num 0 else py_round 6 (cm_salience (bt_comp b)))"
    "blocks (sb_pert s) ''workspace'' = Ok (bt_disabled b)" "bt_tier b = ''cosmetic'' \<or> bt_tier b = ''soft''"
    "records (sb_pert s) = Ok (bt_records b)"
  using assms unfolding baseline_beat_def Let_def
  by (elim bindR_Inr_elim) (auto intro: that dest: min_tier_soft)

lemma beat_verification_unit:
  assumes "baseline_beat i s = Ok b"
  shows "in_unit (bt_verification b)"
  using assms
proof (rule baseline_beatE)
  fix err a u c m bl
  assume comp: "bt_comp b = ws_compete [(''risk_instinct'', risk_salience err a), (''memory_scar'', scar_salience c m bl),
                             (''uncertainty_self_model'', uncertainty_salience u a)]"
    and v: "bt_verification b = (if bt_disabled b then Num 0 else py_round 6 (cm_salience (bt_comp b)))"
  have "in_unit (cm_salience (bt_comp b))"
    using winner_member [of "[(''risk_instinct'', risk_salience err a), (''memory_scar'', scar_salience c m bl),
                             (''uncertainty_self_model'', uncertainty_salience u a)]"]
    by (auto simp: comp ranked_eq fget_def py_round_unit)
  then show ?thesis
    by (simp add: v py_round_unit)
qed

lemma subject_outputs_simps [simp]:
  "psyche_state (subject_outputs i h b) = subject_state_frame i b"
  "workspace_broadcast (subject_outputs i h b) = subject_broadcast_frame i b"
  "control_pressure (subject_outputs i h b) = subject_pressure_frame i b"
  "causal_trace (subject_outputs i h b) = subject_trace_frame i h b"
  "grounded_self_report (subject_outputs i h b) = subject_report_frame i b"
  "instinct_signals (subject_outputs i h b) = subject_instincts i b" "authority_requests (subject_outputs i h b) = []"
  by (simp_all add: subject_outputs_def)

lemma baseline_tickE:
  assumes "baseline_tick i s = Ok (out, s')"
  obtains b where "baseline_beat i s = Ok b" "out = subject_outputs i (sb_prev_hash s) b" "s' = baseline_next s b"
  using assms by (auto simp: baseline_tick_def result_simps)

text \<open>
  The baseline subject only advises: whatever its inputs and interventions, every tick that
  returns asks for one verification pressure between 0 and 1 at a tier no higher than \<open>soft\<close> and
  requests no authority; with the workspace blocked the pressure is zero, nobody wins and no instinct
  fires.
\<close>

theorem baseline_pressure_advisory:
  assumes "baseline_tick i s = Ok (out, s')"
  shows "\<exists>v tier off. dget (control_pressure out) ''pressures'' = JObj [(''verification'', JFloat v)] \<and> in_unit v \<and>
           dget (control_pressure out) ''authority_tier'' = JStr tier \<and> tier \<in> {''cosmetic'', ''soft''} \<and>
           authority_requests out = [] \<and> blocks (sb_pert s) ''workspace'' = Ok off \<and>
           (off \<longrightarrow> v = Num 0 \<and> instinct_signals out = [] \<and>
                   dget (workspace_broadcast out) ''winning_faculty'' = JStr ''none'')"
proof -
  obtain b where b: "baseline_beat i s = Ok b" "out = subject_outputs i (sb_prev_hash s) b"
    using assms by (rule baseline_tickE)
  have facts: "blocks (sb_pert s) ''workspace'' = Ok (bt_disabled b)" "bt_tier b = ''cosmetic'' \<or> bt_tier b = ''soft''"
    "bt_disabled b \<Longrightarrow> bt_verification b = Num 0"
    using b(1) by (auto elim: baseline_beatE)
  show ?thesis
    using beat_verification_unit [OF b(1)] facts
    by (auto simp: b(2) subject_pressure_frame_def subject_header_def subject_instincts_def subject_broadcast_frame_def
        winner_label_def Let_def)
qed

section \<open>What the scorer makes of it\<close>

lemma subject_no_behavior: "tick_changes_behavior (subject_outputs i h b) = Ok False"
  by (simp add: tick_changes_behavior_def subject_pressure_frame_def subject_trace_frame_def subject_header_def
        subject_path_def path_node_def py_items_def hashable_def py_float_def)

lemma subject_anchors: "carries_anchors (psyche_state (subject_outputs i h b)) = Ok (bt_anchors b \<noteq> [])"
  by (simp add: carries_anchors_def subject_state_frame_def subject_header_def nested_get_def py_or_def json_gt0_def as_int_def)

lemma subject_match_type: "sg \<in> set (subject_instincts i b) \<Longrightarrow> dget sg ''match_type'' = JStr ''anomaly''"
  by (auto simp: subject_instincts_def subject_header_def Let_def split: if_splits)

text \<open>A tick that carried continuity anchors from memory.\<close>

definition carried :: "psyche_outputs \<Rightarrow> bool" where
  "carried out \<longleftrightarrow> carries_anchors (psyche_state out) = Ok True"

definition subject_ticks :: "psyche_outputs list \<Rightarrow> bool" where
  "subject_ticks outs \<longleftrightarrow> (\<forall>out\<in>set outs. \<exists>i h b. out = subject_outputs i h b)"

lemma subject_level1: "subject_ticks outs \<Longrightarrow> level1_signal_changes_behavior outs = Ok False"
  unfolding level1_signal_changes_behavior_def subject_ticks_def using subject_no_behavior
  by (subst anyR_total [where q = "\<lambda>_. False"]) auto

lemma subject_level2:
  assumes "subject_ticks outs"
  shows "level2_readback_changed_output outs = Ok (list_ex carried outs)"
proof -
  have "anyR (\<lambda>out. carries_anchors (psyche_state out)) outs = Ok (list_ex carried outs)"
    using assms subject_anchors unfolding subject_ticks_def carried_def list_ex_iff
    by (subst anyR_total [where q = "\<lambda>out. carries_anchors (psyche_state out) = Ok True"]) auto
  moreover have "dget sg ''match_type'' = JStr ''anomaly''" if "sg \<in> set (concat (map instinct_signals outs))" for sg
    using that assms subject_match_type by (fastforce simp: subject_ticks_def)
  then have "anyR (\<lambda>s. in_strings (dget s ''match_type'') [''exact'', ''near_duplicate'', ''prefix''])
      (concat (map instinct_signals outs)) = Ok False"
    by (subst anyR_total [where q = "\<lambda>_. False"]) (auto simp: in_strings_def)
  ultimately show ?thesis
    by (simp add: level2_readback_changed_output_def)
qed

lemma subject_score_level:
  assumes "score_core se r outs m g pf = Ok fr" and "subject_ticks outs"
  shows "dget fr ''evidence_level'' = JInt (if m \<and> list_ex carried outs then 2 else 0)"
  using assms(1)
proof (rule score_coreE)
  fix families l1 l2 risk u
  assume l1: "level1_signal_changes_behavior outs = Ok l1"
    and l2: "(if m then level2_readback_changed_output outs else Ok False) = Ok l2"
    and fr: "fr = evidence_frame r outs g (pf_provenance pf) families
            (ladder l1 l2 (level3 l1 l2 families) (level4 (level3 l1 l2 families) g pf risk))
            (level4 (level3 l1 l2 families) g pf risk)
            (missing_requirements (ladder l1 l2 (level3 l1 l2 families) (level4 (level3 l1 l2 families) g pf risk))
               families m l2 (pf_tests pf) (passed g) (failed g) (pf_null_passed pf) (pf_trace_complete pf)
               (pf_report_changed pf) (flt_le risk CONFAB_MAX_FOR_L4) g) risk u"
  have "\<not> l1" and "l2 \<longleftrightarrow> m \<and> list_ex carried outs"
    using l1 l2 subject_level1 [OF assms(2)] subject_level2 [OF assms(2)] by (auto split: if_splits)
  then show ?thesis
    unfolding fr dget_evidence_frame by (simp add: ladder_def level3_def level4_def)
qed

lemma subject_run_ticks:
  assumes "run_ticks se (baseline_subject seed) v sm sched ticks s = Ok (outs, ids, s')"
  shows "subject_ticks outs"
proof -
  let ?I = "\<lambda>(outs, ids :: json list, s :: baseline). subject_ticks outs"
  have "?I (outs, ids, s')"
    using assms unfolding run_ticks_def
  proof (rule foldR_invariant)
    fix a b and x :: tick
    assume "?I a" and "run_tick se (baseline_subject seed) v sm sched a x = Inr b"
    then show "?I b"
      by (cases a) (fastforce simp: run_tick_def Let_def result_simps baseline_subject_def subject_ticks_def elim: baseline_tickE)
  qed (simp add: subject_ticks_def)
  then show ?thesis by simp
qed

text \<open>
  How far the baseline subject gets: a replay of it, perturbed or not, is scored Level 2 when its
  memory was read back and some tick carried a continuity anchor, and Level 0 otherwise. It never
  meets Level 1, because its causal path ends at the pressure and has no behavior stage, so it never
  reaches Level 3 or 4 either.
\<close>

theorem baseline_level:
  assumes "harness_run se (baseline_subject seed) v fs sm sched s = Ok (rr, s')"
  shows "dget (rr_evidence_frame rr) ''evidence_level'' =
           JInt (if memory_present (group_into_ticks fs) \<and> \<not> sm \<and> list_ex carried (rr_tick_outputs rr) then 2 else 0) \<and>
         level1_signal_changes_behavior (rr_tick_outputs rr) = Ok False"
  using assms
proof (rule harness_runE)
  fix outs ids
  assume run: "run_ticks se (baseline_subject seed) v sm sched (group_into_ticks fs) (sj_reset (baseline_subject seed) s) = Ok (outs, ids, s')"
    and sc: "score se (case group_into_ticks fs of [] \<Rightarrow> JNull | t # _ \<Rightarrow> dget (tk_world t) ''run_id'') fs outs
       (JInt (int (length ids))) (memory_present (group_into_ticks fs) \<and> \<not> sm) = Ok (rr_evidence_frame rr)"
    and rr: "rr_tick_outputs rr = outs"
  note outs = subject_run_ticks [OF run]
  from sc have "dget (rr_evidence_frame rr) ''evidence_level'' =
      JInt (if (memory_present (group_into_ticks fs) \<and> \<not> sm) \<and> list_ex carried outs then 2 else 0)"
    by (rule scoreE) (rule subject_score_level [OF _ outs])
  with subject_level1 [OF outs] show ?thesis
    by (simp add: rr)
qed

section \<open>Conservative evidence\<close>

text \<open>What no evidence frame of the nervous system exceeds.\<close>

definition conservative :: "dict \<Rightarrow> bool" where
  "conservative fr \<longleftrightarrow>
     dget fr ''evidence_level'' \<in> {JInt 0, JInt 1} \<and> dget fr ''audit_status'' = JStr ''self_reported'' \<and>
     dget fr ''real_subject_claim_status'' = JStr ''not_evaluated'' \<and>
     jget (dget fr ''paired_replay_provenance'') ''status'' = Ok (JStr ''uncertified_subject'') \<and>
     (case dget fr ''indicator_families'' of
        JObj fams \<Rightarrow> map fst fams = SHADOW_FAMILIES \<and>
          list_all (\<lambda>(_, f). jget f ''status'' \<in> {Ok (JStr ''absent''), Ok (JStr ''attempted''), Ok (JStr ''architecture_only'')}) fams
      | _ \<Rightarrow> False)"

definition modest :: "dict \<Rightarrow> bool" where
  "modest fams \<longleftrightarrow> map fst fams = SHADOW_FAMILIES \<and>
     list_all (\<lambda>(_, f). jget f ''status'' \<in> {Ok (JStr ''absent''), Ok (JStr ''attempted''), Ok (JStr ''architecture_only'')}) fams"

lemma modest_dset:
  assumes "modest fams" and "k \<in> set SHADOW_FAMILIES"
    and "st \<in> {''absent'', ''attempted'', ''architecture_only''}"
  shows "modest (dset fams k (shadow_family st x note))"
proof -
  have "set (dset d k v) \<subseteq> insert (k, v) (set d)" for d :: dict and v
    by (induction d k v rule: dset.induct) auto
  then show ?thesis
    using assms by (fastforce simp: modest_def map_fst_dset list_all_iff shadow_family_def)
qed

lemma modest_absent: "modest (absent_families note)"
  by (auto simp: modest_def absent_families_def list_all_iff shadow_family_def comp_def)

lemma modest_exercise: "modest fams \<Longrightarrow> modest (foldl exercise_family fams names)"
proof (induction names arbitrary: fams)
  case (Cons n names)
  have "modest (exercise_family fams n)"
    using Cons.prems modest_dset [OF Cons.prems, of n "''architecture_only''"]
    by (auto simp: exercise_family_def modest_def simp flip: list.set_map)
  with Cons.IH show ?case by simp
qed simp

lemma conservative_frame_modest:
  "modest fams \<Longrightarrow> conservative (conservative_frame pre r t c fams p n i)"
  by (simp add: conservative_def conservative_frame_def modest_def)

lemma robust_modest:
  "modest fams \<Longrightarrow> modest (dset fams ''causal_intervention_robustness'' (robustness_family c note))"
  unfolding robustness_family_def by (rule modest_dset) (simp_all add: SHADOW_FAMILIES_def)

text \<open>
  Evidence of the nervous system under-claims by construction: whatever the ablation reported, both
  evidence frames stay at Level 0 or 1, are self-reported and not evaluated as a real subject, name an
  uncertified subject, and mark no family \<open>evidenced\<close> or \<open>intervention_backed\<close>.
\<close>

theorem nervous_evidence_conservative:
  "conservative (shadow_evidence_frame d n r t) \<and> conservative (subject_evidence_frame d n names r t)"
  unfolding shadow_evidence_frame_def subject_evidence_frame_def Let_def
  by (intro conjI conservative_frame_modest robust_modest modest_exercise modest_absent)

section \<open>The ablation test\<close>

lemma rnd64_micro: "9 / 10 ^ 7 \<le> rnd64 (1 / 10 ^ 6)" "rnd64 (9 / 10 ^ 7) \<ge> 8 / 10 ^ 7"
  "round_half_even (- 8 / 10) = - 1"
  by code_simp+

text \<open>A positive rounded pressure is at least about one millionth.\<close>

lemma rounded_positive:
  assumes "in_unit x" and "flt_less (Num 0) (py_round 6 x)"
  shows "\<exists>r. py_round 6 x = Num r \<and> 9 / 10 ^ 7 \<le> r \<and> r \<le> 1"
proof -
  obtain q where x: "x = Num q"
    using assms by (cases x) (auto simp: py_round_def flt_less_def in_unit_def)
  let ?k = "round_half_even (q * 10 ^ 6)"
  have unit: "in_unit (py_round 6 x)"
    by (rule py_round_unit [OF assms(1)])
  then obtain r where r: "py_round 6 x = Num r" "0 < r" "r \<le> 1"
    using assms(2) by (cases "py_round 6 x") (auto simp: flt_less_def in_unit_def)
  have "\<bar>of_int ?k / 10 ^ 6 :: rat\<bar> \<le> pow2 0"
  proof -
    have "0 \<le> ?k" "?k \<le> 10 ^ 6"
      using assms(1) round_half_even_ge_int [of 0 "q * 10 ^ 6"] round_half_even_le_int [of "q * 10 ^ 6" "10 ^ 6"]
      by (simp_all add: x in_unit_def)
    then have "(of_int ?k :: rat) \<le> of_int (10 ^ 6)"
      by (simp only: of_int_le_iff)
    with \<open>0 \<le> ?k\<close> show ?thesis
      by (simp add: pow2_def)
  qed
  then have val: "r = rnd64 (of_int ?k / 10 ^ 6)"
    using mkf_finite(2) [of "of_int ?k / 10 ^ 6" 0 "q < 0"] r(1) by (simp add: x py_round_def)
  have "\<not> ?k \<le> 0"
    using rnd64_mono [of "of_int ?k / 10 ^ 6" 0] r(2) val by (auto simp: divide_le_0_iff)
  then have "(1 :: rat) / 10 ^ 6 \<le> of_int ?k / 10 ^ 6"
    by (simp add: divide_right_mono)
  from rnd64_mono [OF this] show ?thesis
    using r rnd64_micro(1) val by auto
qed

lemma negated_delta:
  assumes "9 / 10 ^ 7 \<le> r" and "r \<le> 1"
  shows "flt_less (py_round 6 (fsub (Num 0) (Num r))) (Num 0)"
proof -
  have "fsub (Num 0) (Num r) = mkf False (- r)"
    using assms by (simp add: fsub_def fadd_def fneg_def is_nan_def fval_def)
  moreover have b: "\<bar>- r\<bar> \<le> pow2 0"
    using assms by (simp add: pow2_def)
  have y: "rnd64 (- r) \<le> - (8 / 10 ^ 7)" "- 1 \<le> rnd64 (- r)"
    using rnd64_mono [OF assms(1)] rnd64_micro(2) rnd64_abs_le [OF b] by (simp_all add: rnd64_neg pow2_def)
  have "is_finite (mkf False (- r))" "fval (mkf False (- r)) = rnd64 (- r)"
    using mkf_finite [OF b, of False] by simp_all
  then have "mkf False (- r) = Num (rnd64 (- r))"
    using y by (cases "mkf False (- r)") (auto simp: is_finite_def fval_def)
  moreover define k where "k = round_half_even (rnd64 (- r) * 10 ^ 6)"
  have "k \<le> - 1"
    using round_half_even_mono [of "rnd64 (- r) * 10 ^ 6" "- 8 / 10"] y(1) rnd64_micro(3) by (simp add: k_def)
  have "- (10 ^ 6) \<le> k"
    using round_half_even_ge_int [of "- (10 ^ 6)" "rnd64 (- r) * 10 ^ 6"] y(2) by (simp add: k_def)
  have kb: "\<bar>of_int k / 10 ^ 6 :: rat\<bar> \<le> pow2 0"
    using \<open>- (10 ^ 6) \<le> k\<close> \<open>k \<le> - 1\<close> by (simp add: pow2_def abs_le_iff)
  have "of_int k / 10 ^ 6 \<le> (- (1 / 10 ^ 6) :: rat)"
    using \<open>k \<le> - 1\<close> by (simp add: field_simps)
  from rnd64_mono [OF this] have "rnd64 (of_int k / 10 ^ 6) < 0"
    using rnd64_micro(1) by (simp add: rnd64_neg)
  moreover have "is_finite (mkf True (of_int k / 10 ^ 6))" "fval (mkf True (of_int k / 10 ^ 6)) = rnd64 (of_int k / 10 ^ 6)"
    using mkf_finite [OF kb, of True] by simp_all
  ultimately show ?thesis
    using y(1) by (simp add: py_round_def k_def flt_less_finite)
qed

lemma fsub_self_unit: "in_unit c \<Longrightarrow> fsub c c = Num 0"
  by (cases c) (auto simp: in_unit_def fsub_def fadd_def fneg_def is_nan_def fval_def mkf_def)

lemma candidate_pressure_unit: "in_unit (candidate_pressure p)"
  unfolding candidate_pressure_def by (rule py_round_unit [OF weight_in_unit])

lemma verification_value_Ok:
  assumes "verification_value brain governance = Ok c"
  shows "\<exists>p. brain_probability brain = Ok p \<and> c = candidate_pressure p"
  using assms unfolding verification_value_def control_pressure_candidate_def
  by (elim bindR_Inr_elim) (auto simp: verification_of_def item_def shadow_header_def py_float_def)

lemma ablated_probability: "brain_probability (dset brain ''failure_probability'' (JFloat (Num 0))) = Ok (Num 0)"
  by (simp add: brain_probability_def item_def py_float_def)

lemma coupled_level: "dget (shadow_evidence_frame (JBool True) (JBool True) r t) ''evidence_level'' = JInt 1"
  by (simp add: shadow_evidence_frame_def conservative_frame_def Let_def)

lemma candidate_pressure_0: "candidate_pressure (Num 0) = Num 0"
  by code_simp

lemma ablation_direction:
  assumes "in_unit c" and "c = py_round 6 x" and "in_unit x"
  shows "if flt_less (Num 0) c then flt_less (py_round 6 (fsub (Num 0) c)) (Num 0)
         else flt_eq (py_round 6 (fsub (Num 0) c)) (Num 0)"
proof (cases "flt_less (Num 0) c")
  case True
  with rounded_positive [OF assms(3)] assms(2) obtain r where "c = Num r" "9 / 10 ^ 7 \<le> r" "r \<le> 1"
    by auto
  with True negated_delta show ?thesis by simp
next
  case False
  then have "c = Num 0 \<or> c = NegZero"
    using assms(1) by (cases c) (auto simp: in_unit_def flt_less_def is_nan_def fval_def is_finite_def)
  then have "fsub (Num 0) c = Num 0"
    by (auto simp: fsub_def fadd_def fneg_def is_nan_def fval_def mkf_def)
  with False show ?thesis
    by (simp add: flt_eq_def is_nan_def is_finite_def)
qed

text \<open>
  The ablation test of the shadow slice cannot fail: for every risk dict and governance frame on
  which it returns, the treated value is zero, the null value is the control value, and both verdicts
  (the direction is right, the null holds) are true, so the evidence frame built from it is always
  at Level 1.
\<close>

theorem shadow_ablation_always_couples:
  assumes "run_ablation brain governance = Ok ab"
  shows "ab_treated ab = Num 0 \<and> ab_null ab = ab_control ab \<and> ab_direction_ok ab \<and> ab_null_holds ab \<and>
         dget (shadow_evidence_frame (JBool (ab_direction_ok ab)) (JBool (ab_null_holds ab)) r t) ''evidence_level'' = JInt 1"
proof -
  obtain c where c: "verification_value brain governance = Ok c" and
    z: "verification_value (dset brain ''failure_probability'' (JFloat (Num 0))) governance = Ok (ab_treated ab)"
    and ab: "ab_control ab = c" "ab_null ab = c"
      "ab_direction_ok ab = (if flt_less (Num 0) c then flt_less (py_round 6 (fsub (ab_treated ab) c)) (Num 0)
         else flt_eq (py_round 6 (fsub (ab_treated ab) c)) (Num 0))"
      "ab_null_holds ab = flt_le (fabs (py_round 6 (fsub c c))) (lit (1 / 10 ^ 6))"
    using assms by (auto simp: run_ablation_def Let_def result_simps)
  have treated: "ab_treated ab = Num 0"
    using verification_value_Ok [OF z] ablated_probability candidate_pressure_0 by auto
  obtain p where p: "c = candidate_pressure p"
    using verification_value_Ok [OF c] by blast
  have "flt_le (fabs (Num 0)) (lit (1 / 10 ^ 6))"
    by code_simp
  then have "ab_null_holds ab"
    using fsub_self_unit [OF candidate_pressure_unit, of p] by (simp add: ab p)
  moreover have "ab_direction_ok ab"
    using ablation_direction [OF candidate_pressure_unit candidate_pressure_def weight_in_unit, of p] by (simp add: ab p treated)
  ultimately show ?thesis
    using treated ab(1,2) coupled_level by simp
qed

section \<open>Concrete runs\<close>

theorem baseline_null_reproduces_control_witness:
  "wf_schedule [[sample_restore]] \<and>
   outputs_of (run_ticks accept_all (baseline_subject []) False False (Some (neutralized [[sample_restore]])) [sample_tick] (baseline_reset []))
   = outputs_of (run_ticks accept_all (baseline_subject []) False False None [sample_tick] (baseline_reset []))"
proof -
  have w: "wf_schedule [[sample_restore]]"
    by (simp add: wf_schedule_def wf_intervention_def target_ok_def hashable_ids_def sample_restore_def target_of_def
          py_or_def is_dict_def)
  show ?thesis
    by (rule conjI [OF w baseline_null_reproduces_control [OF w]])
qed

theorem competition_winner_maximal_witness:
  "cm_winner (ws_compete [(''memory_scar'', Num (1 / 2)), (''risk_instinct'', Num (1 / 4))]) = ''memory_scar'' \<and>
   cm_winner (ws_compete [(''memory_scar'', Num (1 / 2)), (''risk_instinct'', Num (1 / 4))]) \<in> set CANDIDATE_ORDER"
proof -
  let ?c = "[(''memory_scar'', Num (1 / 2)), (''risk_instinct'', Num (1 / 4))]"
  have "list_all (\<lambda>n. is_finite (py_round 6 (fget ?c n))) CANDIDATE_ORDER"
    by code_simp
  from competition_winner_maximal [OF this] have "cm_winner (ws_compete ?c) \<in> set CANDIDATE_ORDER"
    by blast
  moreover have "cm_winner (ws_compete ?c) = ''memory_scar''"
    by code_simp
  ultimately show ?thesis by blast
qed

text \<open>The first tick of an unseeded subject over a bare world frame.\<close>

definition quiet_affect :: fdict where
  "quiet_affect = dset new_manifold ''certainty'' (Num 1)"

definition quiet_competition :: competition where
  "quiet_competition = ws_compete [(''risk_instinct'', Num 0), (''memory_scar'', Num 0), (''uncertainty_self_model'', Num 0)]"

definition quiet_beat :: "string \<Rightarrow> beat" where
  "quiet_beat h =
     \<lparr>bt_affect = quiet_affect, bt_uncertainty = Num 0, bt_scars = [], bt_hash = h, bt_scar_sal = Num 0, bt_disabled = False,
      bt_comp = quiet_competition, bt_verification = Num 0, bt_tier = ''soft'', bt_anchors = [], bt_records = []\<rparr>"

lemma quiet_error: "has_error sample_world = Ok False"
  by code_simp

lemma quiet_number: "trace_number [] k = Ok (Num 0)"
  by (simp add: trace_number_def py_or_def py_float_def float_of_int_def fint_def mkf_def is_finite_def)

lemma quiet_laws:
  "subject_clip (Num (- 1)) (Num 1) (fadd (fmul (lit (1 / 2)) (fget new_manifold ''tension'')) (fmul (lit (1 / 2)) (fbool False))) = Num 0"
  "subject_clip (Num (- 1)) (Num 1) (py_min (Num 1) (fdiv (Num 0) (lit 3))) = Num 0"
  "subject_clip (Num (- 1)) (Num 1) (fsub (Num 1) (fmul (lit 2) (Num 0))) = Num 1"
  "dset (dset (dset new_manifold ''tension'' (Num 0)) ''cognitive_load'' (Num 0)) ''certainty'' (Num 1) = quiet_affect"
  by code_simp+

lemma quiet_affect_law: "baseline_affect (baseline_reset []) False (Num 0) (Num 0) = Ok quiet_affect"
proof -
  have "sb_affect (baseline_reset []) = new_manifold" "sb_pert (baseline_reset []) = []"
    by (simp_all add: baseline_reset_def Let_def)
  then show ?thesis
    unfolding baseline_affect_def Let_def by (simp only: quiet_laws scalar_Nil bindR_Inr)
qed

lemma quiet_saliences:
  "risk_salience False quiet_affect = Num 0" "uncertainty_salience (Num 0) quiet_affect = Num 0" "unit_clip (Num 0) = Num 0"
  by code_simp+

lemma quiet_winner: "cm_salience quiet_competition = Num 0" "min_tier ''soft'' (JStr ''soft'') = Ok ''soft''"
  by code_simp+

lemmas quiet_parts = quiet_error quiet_number quiet_affect_law quiet_saliences quiet_winner

lemma quiet_runs: "\<exists>h. baseline_beat sample_inputs (baseline_reset []) = Ok (quiet_beat h)"
proof -
  have "sb_pert (baseline_reset []) = []" "sb_scars (baseline_reset []) = []"
    by (simp_all add: baseline_reset_def Let_def)
  then show ?thesis
    by (simp add: baseline_beat_def sample_inputs_def opt_dict_def Let_def quiet_parts motif_of_def next_scars_def
          scar_salience_def identity_refs_def quiet_beat_def flip: quiet_competition_def)
qed

theorem baseline_pressure_advisory_witness:
  "\<exists>out s' v. baseline_tick sample_inputs (baseline_reset []) = Ok (out, s') \<and>
     dget (control_pressure out) ''pressures'' = JObj [(''verification'', JFloat v)] \<and> in_unit v"
proof -
  obtain h where "baseline_beat sample_inputs (baseline_reset []) = Ok (quiet_beat h)"
    using quiet_runs by blast
  then obtain out s' where "baseline_tick sample_inputs (baseline_reset []) = Ok (out, s')"
    by (simp add: baseline_tick_def)
  with baseline_pressure_advisory [OF this] show ?thesis by blast
qed

theorem shadow_ablation_always_couples_witness:
  "\<exists>ab. run_ablation [(''failure_probability'', JFloat (Num (3 / 4))), (''prefix'', JStr ''full'')] [] = Ok ab \<and>
     ab_direction_ok ab \<and> ab_null_holds ab"
proof -
  have "case run_ablation [(''failure_probability'', JFloat (Num (3 / 4))), (''prefix'', JStr ''full'')] [] of
          Ok ab \<Rightarrow> True | Raise e \<Rightarrow> False"
    by code_simp
  then obtain ab where "run_ablation [(''failure_probability'', JFloat (Num (3 / 4))), (''prefix'', JStr ''full'')] [] = Ok ab"
    by (auto split: sum.splits)
  with shadow_ablation_always_couples [OF this] show ?thesis by blast
qed

end
