(* ===== verification/ReviewRecords.thy ===== *)
theory ReviewRecords
  imports Digests "HOL-Library.Product_Lexorder"
begin

text \<open>
  The record types of the adversarial review (\<open>adversarial_review/records.py\<close>), its severity contract
  (\<open>severity.py\<close>) and the declared claims (\<open>matrix.py\<close>). The closed vocabularies the constructors check
  are datatypes with their texts; a value outside them is rejected where a record is parsed. Fields the
  code passes on from JSON unchecked stay JSON values.
\<close>

section \<open>Severity\<close>

datatype severity = Blocker | Major | Minor | Speculation

definition SEVERITIES :: "severity list" where
  "SEVERITIES = [Blocker, Major, Minor, Speculation]"

fun severity_text :: "severity \<Rightarrow> string" where
  "severity_text Blocker = ''blocker''"
| "severity_text Major = ''major''"
| "severity_text Minor = ''minor''"
| "severity_text Speculation = ''speculation''"

text \<open>Looking a text up in a closed vocabulary.\<close>

definition parse_text :: "('a \<Rightarrow> string) \<Rightarrow> 'a list \<Rightarrow> string \<Rightarrow> 'a option" where
  "parse_text txt vocabulary s = find (\<lambda>x. txt x = s) vocabulary"

definition is_valid_severity :: "string \<Rightarrow> bool" where
  "is_valid_severity s \<longleftrightarrow> parse_text severity_text SEVERITIES s \<noteq> None"

fun severity_rank :: "severity \<Rightarrow> nat" where
  "severity_rank Blocker = 0"
| "severity_rank Major = 1"
| "severity_rank Minor = 2"
| "severity_rank Speculation = 3"

definition EVIDENCE_REQUIRED :: "severity list" where
  "EVIDENCE_REQUIRED = [Blocker, Major, Minor]"

definition BLOCKING_ELIGIBLE :: "severity list" where
  "BLOCKING_ELIGIBLE = [Blocker, Major]"

definition MAJOR_QUORUM :: nat where
  "MAJOR_QUORUM = 3"

definition requires_evidence :: "severity \<Rightarrow> bool" where
  "requires_evidence s \<longleftrightarrow> s \<in> set EVIDENCE_REQUIRED"

definition severity_blocks :: "severity \<Rightarrow> bool" where
  "severity_blocks s \<longleftrightarrow> s = Blocker"

text \<open>Severities are ordered by rank: the blocker first.\<close>

instantiation severity :: linorder
begin

definition less_eq_severity :: "severity \<Rightarrow> severity \<Rightarrow> bool" where
  "a \<le> b \<longleftrightarrow> severity_rank a \<le> severity_rank b"

definition less_severity :: "severity \<Rightarrow> severity \<Rightarrow> bool" where
  "a < b \<longleftrightarrow> severity_rank a < severity_rank b"

instance
proof
  fix a b c :: severity
  show "a < b \<longleftrightarrow> a \<le> b \<and> \<not> b \<le> a"
    by (auto simp: less_eq_severity_def less_severity_def)
  show "a \<le> a"
    by (simp add: less_eq_severity_def)
  show "a \<le> b \<Longrightarrow> b \<le> c \<Longrightarrow> a \<le> c"
    by (simp add: less_eq_severity_def)
  show "a \<le> b \<Longrightarrow> b \<le> a \<Longrightarrow> a = b"
    by (cases a; cases b) (simp_all add: less_eq_severity_def)
  show "a \<le> b \<or> b \<le> a"
    by (auto simp: less_eq_severity_def)
qed

end

section \<open>Rejection\<close>

text \<open>\<open>_require\<close>: a broken contract stops the campaign.\<close>

definition require :: "bool \<Rightarrow> unit result" where
  "require c = (if c then Ok () else Raise (ReviewError InputContractError))"

lemma require_simps [simp]: "require True = Ok ()" "require c = Ok u \<longleftrightarrow> c"
  by (simp_all add: require_def)

text \<open>\<open>isinstance(v, int)\<close>: a bool is an int.\<close>

definition as_int :: "json \<Rightarrow> int option" where
  "as_int v = (case v of JInt i \<Rightarrow> Some i | JBool b \<Rightarrow> Some (if b then 1 else 0) | _ \<Rightarrow> None)"

text \<open>\<open>tuple(str(x) for x in d.get(k, ()))\<close>\<close>

definition text_items :: "dict \<Rightarrow> string \<Rightarrow> string list result" where
  "text_items d k = bindR (py_iter (dget_or d k (JList []))) (\<lambda>xs. Ok (map py_str xs))"

definition texts :: "string list \<Rightarrow> json" where
  "texts xs = JList (map JStr xs)"

section \<open>Evidence\<close>

datatype evidence_kind = RepoLine | Receipt | ArtifactDigest | ExternalSource | Command | ManuscriptSpan

fun kind_text :: "evidence_kind \<Rightarrow> string" where
  "kind_text RepoLine = ''repo_line''"
| "kind_text Receipt = ''receipt''"
| "kind_text ArtifactDigest = ''artifact_digest''"
| "kind_text ExternalSource = ''external_source''"
| "kind_text Command = ''command''"
| "kind_text ManuscriptSpan = ''manuscript_span''"

definition EVIDENCE_KINDS :: "evidence_kind list" where
  "EVIDENCE_KINDS = [RepoLine, Receipt, ArtifactDigest, ExternalSource, Command, ManuscriptSpan]"

record evidence_ref =
  er_kind :: evidence_kind
  er_locator :: string
  er_detail :: string
  er_start :: json
  er_end :: json
  er_digest :: json
  er_quoted :: json

definition spans :: "evidence_kind \<Rightarrow> bool" where
  "spans k \<longleftrightarrow> k = RepoLine \<or> k = ManuscriptSpan"

definition span_ok :: "json \<Rightarrow> json \<Rightarrow> bool" where
  "span_ok start end =
     (case (as_int start, as_int (if end = JNull then start else end)) of
        (Some i, Some j) \<Rightarrow> 1 \<le> i \<and> i \<le> j
      | _ \<Rightarrow> False)"

text \<open>\<open>__post_init__\<close>\<close>

definition evidence_ok :: "evidence_ref \<Rightarrow> bool" where
  "evidence_ok r \<longleftrightarrow>
     \<not> blank (er_locator r) \<and> \<not> blank (er_detail r) \<and> (spans (er_kind r) \<longrightarrow> span_ok (er_start r) (er_end r)) \<and>
     (er_digest r \<noteq> JNull \<longrightarrow> is_sha256_hex (er_digest r))"

definition evidence_json :: "evidence_ref \<Rightarrow> json" where
  "evidence_json r = JObj
     [(''kind'', JStr (kind_text (er_kind r))), (''locator'', JStr (er_locator r)), (''detail'', JStr (er_detail r)),
      (''start_line'', er_start r), (''end_line'', er_end r), (''expected_digest'', er_digest r), (''quoted'', er_quoted r)]"

definition evidence_from :: "json \<Rightarrow> evidence_ref result" where
  "evidence_from payload =
     (case payload of
        JObj d \<Rightarrow>
          (case parse_text kind_text EVIDENCE_KINDS (py_str (dget_or d ''kind'' (JStr []))) of
             None \<Rightarrow> Raise (ReviewError InputContractError)
           | Some k \<Rightarrow>
               let r = \<lparr>er_kind = k, er_locator = py_str (dget_or d ''locator'' (JStr [])),
                        er_detail = py_str (dget_or d ''detail'' (JStr [])), er_start = dget d ''start_line'',
                        er_end = dget d ''end_line'', er_digest = dget d ''expected_digest'', er_quoted = dget d ''quoted''\<rparr>
               in bindR (require (evidence_ok r)) (\<lambda>_. Ok r))
      | _ \<Rightarrow> Raise AttributeError)"

section \<open>Findings\<close>

record finding =
  fi_id :: string
  fi_role :: string
  fi_severity :: severity
  fi_title :: string
  fi_statement :: string
  fi_failure :: string
  fi_evidence :: "evidence_ref list"
  fi_claims :: "string list"
  fi_reproduction :: "string list"
  fi_refute :: string
  fi_confidence :: string

definition finding_ok :: "finding \<Rightarrow> bool" where
  "finding_ok f \<longleftrightarrow>
     \<not> blank (fi_id f) \<and> \<not> blank (fi_role f) \<and> \<not> blank (fi_title f) \<and> \<not> blank (fi_statement f) \<and> \<not> blank (fi_failure f)"

definition finding_json :: "finding \<Rightarrow> json" where
  "finding_json f = JObj
     [(''finding_id'', JStr (fi_id f)), (''role_id'', JStr (fi_role f)), (''severity'', JStr (severity_text (fi_severity f))),
      (''title'', JStr (fi_title f)), (''statement'', JStr (fi_statement f)), (''failure_mode'', JStr (fi_failure f)),
      (''evidence'', JList (map evidence_json (fi_evidence f))), (''claim_ids'', texts (fi_claims f)),
      (''reproduction'', texts (fi_reproduction f)), (''what_would_refute'', JStr (fi_refute f)),
      (''confidence'', JStr (fi_confidence f))]"

definition finding_digest :: "finding \<Rightarrow> string result" where
  "finding_digest f = digest_value (finding_json f)"

text \<open>\<open>from_mapping\<close>; a string is a sequence of its characters.\<close>

definition finding_from :: "dict \<Rightarrow> finding result" where
  "finding_from d =
     (let raw = dget_or d ''evidence'' (JList []); field = (\<lambda>k. py_str (dget_or d k (JStr []))) in
      bindR (require (case raw of JList _ \<Rightarrow> True | JStr _ \<Rightarrow> True | _ \<Rightarrow> False)) (\<lambda>_.
      bindR (py_iter raw) (\<lambda>items.
      bindR (mapR evidence_from items) (\<lambda>refs.
      bindR (text_items d ''claim_ids'') (\<lambda>claims.
      bindR (text_items d ''reproduction'') (\<lambda>reproduction.
        case parse_text severity_text SEVERITIES (field ''severity'') of
          None \<Rightarrow> Raise (ReviewError InputContractError)
        | Some sev \<Rightarrow>
            let f = \<lparr>fi_id = field ''finding_id'', fi_role = field ''role_id'', fi_severity = sev, fi_title = field ''title'',
                     fi_statement = field ''statement'', fi_failure = field ''failure_mode'', fi_evidence = refs,
                     fi_claims = claims, fi_reproduction = reproduction, fi_refute = field ''what_would_refute'',
                     fi_confidence = py_str (dget_or d ''confidence'' (JStr ''asserted''))\<rparr>
            in bindR (require (finding_ok f)) (\<lambda>_. Ok f)))))))"

section \<open>Reports\<close>

record subprocess_receipt =
  rc_role :: string
  rc_engine :: string
  rc_model :: string
  rc_task :: string
  rc_prompt :: string
  rc_response :: string
  rc_input_tokens :: json
  rc_output_tokens :: json
  rc_cost :: flt
  rc_seconds :: flt
  rc_status :: string

definition receipt_json :: "subprocess_receipt \<Rightarrow> json" where
  "receipt_json r = JObj
     [(''role_id'', JStr (rc_role r)), (''engine'', JStr (rc_engine r)), (''model'', JStr (rc_model r)), (''task'', JStr (rc_task r)),
      (''prompt_digest'', JStr (rc_prompt r)), (''response_digest'', JStr (rc_response r)),
      (''input_tokens'', rc_input_tokens r), (''output_tokens'', rc_output_tokens r),
      (''cost_usd_upper_bound'', JFloat (rc_cost r)), (''wall_clock_seconds'', JFloat (rc_seconds r)),
      (''exit_status'', JStr (rc_status r))]"

record reviewer_report =
  rp_role :: string
  rp_title :: string
  rp_mandate :: string
  rp_findings :: "finding list"
  rp_notes :: "string list"
  rp_dependencies :: "string list"
  rp_receipt :: "subprocess_receipt option"

definition report_json :: "reviewer_report \<Rightarrow> json" where
  "report_json r = JObj
     [(''role_id'', JStr (rp_role r)), (''role_title'', JStr (rp_title r)), (''mandate_digest'', JStr (rp_mandate r)),
      (''findings'', JList (map finding_json (rp_findings r))), (''coverage_notes'', texts (rp_notes r)),
      (''declared_dependencies'', texts (rp_dependencies r)),
      (''receipt'', case rp_receipt r of None \<Rightarrow> JNull | Some c \<Rightarrow> receipt_json c)]"

record verification_outcome =
  vo_digest :: string
  vo_admissible :: bool
  vo_checked :: nat
  vo_failures :: "string list"
  vo_downgraded :: "severity option"

definition outcome_json :: "verification_outcome \<Rightarrow> json" where
  "outcome_json v = JObj
     [(''finding_digest'', JStr (vo_digest v)), (''admissible'', JBool (vo_admissible v)),
      (''checked_refs'', JInt (int (vo_checked v))), (''failures'', texts (vo_failures v)),
      (''downgraded_to'', case vo_downgraded v of None \<Rightarrow> JNull | Some s \<Rightarrow> JStr (severity_text s))]"

section \<open>Claims\<close>

record claim =
  cl_id :: string
  cl_text :: string
  cl_kind :: string
  cl_support :: "string list"

record claim_row =
  cw_id :: string
  cw_text :: string
  cw_support :: "string list"
  cw_attacks :: "string list"
  cw_unsupported :: bool

definition claim_row_json :: "claim_row \<Rightarrow> json" where
  "claim_row_json w = JObj
     [(''claim_id'', JStr (cw_id w)), (''claim_text'', JStr (cw_text w)), (''supporting_evidence'', texts (cw_support w)),
      (''attacking_findings'', texts (cw_attacks w)), (''unsupported'', JBool (cw_unsupported w))]"

section \<open>Falsification and overrides\<close>

datatype chair_disposition = Blocking | NonBlockingTracked | Refuted | DeferredPostResults

fun chair_text :: "chair_disposition \<Rightarrow> string" where
  "chair_text Blocking = ''blocking''"
| "chair_text NonBlockingTracked = ''non_blocking_tracked''"
| "chair_text Refuted = ''refuted''"
| "chair_text DeferredPostResults = ''deferred_post_results''"

record falsification_item =
  fa_digest :: string
  fa_role :: string
  fa_severity :: severity
  fa_test :: string
  fa_required :: "string list"
  fa_owner :: string
  fa_disposition :: chair_disposition
  fa_gate :: string

definition item_json :: "falsification_item \<Rightarrow> json" where
  "item_json i = JObj
     [(''finding_digest'', JStr (fa_digest i)), (''role_id'', JStr (fa_role i)), (''severity'', JStr (severity_text (fa_severity i))),
      (''test_statement'', JStr (fa_test i)), (''required_evidence'', texts (fa_required i)), (''owner'', JStr (fa_owner i)),
      (''disposition'', JStr (chair_text (fa_disposition i))), (''gate'', JStr (fa_gate i))]"

record override =
  ov_digest :: string
  ov_signer :: string
  ov_signer_role :: string
  ov_rationale :: string
  ov_signature :: string
  ov_risk :: string

text \<open>\<open>__post_init__\<close>: a signed override gives a rationale of at least forty characters.\<close>

definition override_ok :: "override \<Rightarrow> bool" where
  "override_ok v \<longleftrightarrow>
     \<not> blank (ov_digest v) \<and> \<not> blank (ov_signer v) \<and> \<not> blank (ov_signer_role v) \<and>
     40 \<le> length (strip_points (points (ov_rationale v))) \<and> \<not> blank (ov_signature v) \<and> \<not> blank (ov_risk v)"

section \<open>Synthesis and disposition\<close>

record editor_synthesis =
  sy_argument :: string
  sy_ordered :: "string list"
  sy_minority :: "string list"
  sy_dissent :: "string list"
  sy_matrix :: "claim_row list"

definition synthesis_json :: "editor_synthesis \<Rightarrow> json" where
  "synthesis_json y = JObj
     [(''strongest_rejection_argument'', JStr (sy_argument y)), (''ordered_finding_digests'', texts (sy_ordered y)),
      (''minority_findings'', texts (sy_minority y)), (''dissent_notes'', texts (sy_dissent y)),
      (''claim_matrix'', JList (map claim_row_json (sy_matrix y)))]"

record readiness_disposition =
  rd_campaign :: string
  rd_stage :: string
  rd_verdict :: string
  rd_inputs :: string
  rd_reports :: string
  rd_synthesis :: string
  rd_falsification :: string
  rd_blocking :: "string list"
  rd_overridden :: "string list"
  rd_notice :: string
  rd_digest :: string

definition readiness_json :: "readiness_disposition \<Rightarrow> dict" where
  "readiness_json d =
     [(''campaign_id'', JStr (rd_campaign d)), (''stage'', JStr (rd_stage d)), (''verdict'', JStr (rd_verdict d)),
      (''inputs_digest'', JStr (rd_inputs d)), (''reports_digest'', JStr (rd_reports d)),
      (''synthesis_digest'', JStr (rd_synthesis d)), (''falsification_digest'', JStr (rd_falsification d)),
      (''blocking_finding_digests'', texts (rd_blocking d)), (''overridden_finding_digests'', texts (rd_overridden d)),
      (''non_authorization_notice'', JStr (rd_notice d))]"

text \<open>\<open>sealed\<close>: the digest binds every other field.\<close>

definition sealed :: "readiness_disposition \<Rightarrow> readiness_disposition result" where
  "sealed d = bindR (digest_value (JObj (readiness_json d))) (\<lambda>h. Ok (d\<lparr>rd_digest := h\<rparr>))"

section \<open>Laws\<close>

lemma severity_text_inject [simp]: "severity_text a = severity_text b \<longleftrightarrow> a = b"
  by (cases a; cases b) simp_all

lemma parse_severity_text [simp]: "parse_text severity_text SEVERITIES (severity_text s) = Some s"
  by (cases s) (simp_all add: parse_text_def SEVERITIES_def)

lemma parse_text_Some: "parse_text txt vocabulary s = Some x \<Longrightarrow> txt x = s"
  by (auto simp: parse_text_def find_Some_iff)

lemma speculation_greatest [simp]: "s \<le> Speculation"
  by (cases s) (simp_all add: less_eq_severity_def)

lemma texts_finite [simp]: "all_finite (texts xs)"
  by (simp add: texts_def)

lemma digest_value_finite: "all_finite v \<Longrightarrow> \<exists>h. digest_value v = Ok h"
  by (simp add: digest_value_def review_json_def)

lemma digest_value_Ok: "digest_value v = Ok h \<Longrightarrow> all_finite v"
  by (auto simp: digest_value_def review_json_def split: if_splits)

lemma readiness_finite [simp]: "all_finite (JObj (readiness_json d))"
  by (simp add: readiness_json_def)

lemma readiness_json_digest [simp]: "readiness_json (d\<lparr>rd_digest := h\<rparr>) = readiness_json d"
  by (simp add: readiness_json_def)

end
