(* ===== verification/ReviewInputs.thy ===== *)
theory ReviewInputs
  imports ReviewRoles
begin

text \<open>
  The input contract of a review campaign (\<open>adversarial_review/inputs.py\<close>): digest-bound objects, the
  environment pin and the preflight. The campaign root is a tree of files without symbolic links, so
  that resolving a path is its lexical normalisation; file names stay within the system's limits.
\<close>

section \<open>Files and paths\<close>

datatype node = FileNode string | FolderNode "(string \<times> node) list"

definition is_file :: "node option \<Rightarrow> bool" where
  "is_file n = (case n of Some (FileNode _) \<Rightarrow> True | _ \<Rightarrow> False)"

fun split_slash :: "string \<Rightarrow> string \<Rightarrow> string list" where
  "split_slash acc [] = [rev acc]"
| "split_slash acc (c # cs) = (if c = CHR ''/'' then rev acc # split_slash [] cs else split_slash (c # acc) cs)"

definition path_parts :: "string \<Rightarrow> string list" where
  "path_parts s = filter (\<lambda>c. c \<noteq> [] \<and> c \<noteq> ''.'') (split_slash [] s)"

text \<open>\<open>..\<close> drops a component; the root has no parent.\<close>

definition walk_part :: "string list \<Rightarrow> string \<Rightarrow> string list" where
  "walk_part acc c = (if c = ''..'' then butlast acc else acc @ [c])"

text \<open>\<open>(root / path).resolve()\<close>: an absolute path replaces the base.\<close>

definition resolve_path :: "string list \<Rightarrow> string \<Rightarrow> string list result" where
  "resolve_path base path =
     (if CHR 0x00 \<in> set path then Raise (ValueError ''embedded null byte'')
      else Ok (foldl walk_part (if take 1 path = ''/'' then [] else base) (path_parts path)))"

text \<open>\<open>path.relative_to(root)\<close>\<close>

definition relative_to :: "string list \<Rightarrow> string list \<Rightarrow> string list option" where
  "relative_to base path = (if take (length base) path = base then Some (drop (length base) path) else None)"

primrec lookup_node :: "string list \<Rightarrow> node \<Rightarrow> node option" where
  "lookup_node [] n = Some n"
| "lookup_node (c # cs) n =
     (case n of FolderNode kids \<Rightarrow> Option.bind (map_of kids c) (lookup_node cs) | FileNode _ \<Rightarrow> None)"

section \<open>Records\<close>

definition INPUT_SLOTS :: "string list" where
  "INPUT_SLOTS =
     [''repo_commit'', ''design'', ''plan'', ''manifest'', ''input_lock'', ''artifact_root'', ''power_report'', ''spend_ledger'',
      ''manuscript'', ''bibliography'', ''citation_queue'', ''venue_policy'', ''environment'', ''reviewer_reports'',
      ''editor_synthesis'']"

record input_object =
  io_slot :: string
  io_path :: string
  io_digest :: string
  io_description :: string
  io_optional :: bool

text \<open>\<open>__post_init__\<close>\<close>

definition object_ok :: "input_object \<Rightarrow> bool" where
  "object_ok i \<longleftrightarrow> io_slot i \<in> set INPUT_SLOTS \<and> is_sha256_hex (JStr (io_digest i))"

definition object_json :: "input_object \<Rightarrow> json" where
  "object_json i = JObj
     [(''slot'', JStr (io_slot i)), (''path'', JStr (io_path i)), (''declared_digest'', JStr (io_digest i)),
      (''description'', JStr (io_description i)), (''optional'', JBool (io_optional i))]"

record environment_pin =
  ep_commit :: string
  ep_dirty :: bool
  ep_python :: string
  ep_platform :: string
  ep_dependencies :: string

definition environment_json :: "environment_pin \<Rightarrow> json" where
  "environment_json e = JObj
     [(''repo_commit'', JStr (ep_commit e)), (''repo_dirty'', JBool (ep_dirty e)), (''python_version'', JStr (ep_python e)),
      (''platform'', JStr (ep_platform e)), (''dependency_digest'', JStr (ep_dependencies e))]"

record campaign_inputs =
  ci_campaign :: string
  ci_stage :: string
  ci_root :: "string list"
  ci_files :: node
  ci_environment :: environment_pin
  ci_objects :: "input_object list"
  ci_receipts :: dict
  ci_sources :: "string list"

definition input_slots :: "campaign_inputs \<Rightarrow> string set" where
  "input_slots inputs = set (map io_slot (ci_objects inputs))"

definition inputs_json :: "campaign_inputs \<Rightarrow> json" where
  "inputs_json inputs = JObj
     [(''campaign_id'', JStr (ci_campaign inputs)), (''stage'', JStr (ci_stage inputs)),
      (''environment'', environment_json (ci_environment inputs)), (''objects'', JList (map object_json (ci_objects inputs))),
      (''receipt_index'', JObj (sort_key fst (ci_receipts inputs))), (''external_sources'', texts (sort (ci_sources inputs)))]"

definition inputs_digest :: "campaign_inputs \<Rightarrow> string result" where
  "inputs_digest inputs = digest_value (inputs_json inputs)"

section \<open>Preflight\<close>

text \<open>
  \<open>_digest_tree\<close>: the files below a directory in the order of \<open>os.walk\<close> with sorted names, each with its
  relative path and digest.
\<close>

fun tree_entries :: "string \<Rightarrow> node \<Rightarrow> json list" where
  "tree_entries dir (FileNode b) = []"
| "tree_entries dir (FolderNode kids) =
     map snd (sort_key fst (concat (map (\<lambda>(n, k). case k of
         FileNode b \<Rightarrow> [(n, JList [JStr (dir @ n), JStr (sha256_hex b)])] | FolderNode _ \<Rightarrow> []) kids))) @
     concat (map snd (sort_key fst (map (\<lambda>(n, k). (n, tree_entries (dir @ n @ ''/'') k)) kids)))"

definition node_digest :: "node \<Rightarrow> string result" where
  "node_digest n = (case n of FileNode b \<Rightarrow> Ok (sha256_hex b) | FolderNode _ \<Rightarrow> digest_value (JList (tree_entries [] n)))"

text \<open>The loop body: the observed digests, keyed by declared path.\<close>

definition preflight_step ::
  "campaign_inputs \<Rightarrow> (string \<times> string) list \<Rightarrow> input_object \<Rightarrow> (string \<times> string) list result" where
  "preflight_step inputs observed i =
     bindR (resolve_path (ci_root inputs) (io_path i)) (\<lambda>path.
       case relative_to (ci_root inputs) path of
         None \<Rightarrow> Raise (ReviewError InputContractError)
       | Some inner \<Rightarrow>
           (case lookup_node inner (ci_files inputs) of
              None \<Rightarrow> if io_optional i then Ok observed else Raise (ReviewError InputContractError)
            | Some n \<Rightarrow>
                bindR (node_digest n) (\<lambda>actual.
                  if actual = io_digest i then Ok (dset observed (io_path i) actual)
                  else Raise (ReviewError StaleInputError))))"

definition preflight :: "campaign_inputs \<Rightarrow> string list \<Rightarrow> (string \<times> string) list result" where
  "preflight inputs required =
     (if list_all (\<lambda>s. s \<in> input_slots inputs) required
      then foldR (preflight_step inputs) [] (ci_objects inputs)
      else Raise (ReviewError InputContractError))"

definition required_slots_for :: "string list \<Rightarrow> string list result" where
  "required_slots_for role_ids =
     bindR (mapR (\<lambda>s. case role_by_id s of Some r \<Rightarrow> Ok (rl_inputs r) | None \<Rightarrow> Raise (ReviewError InputContractError)) role_ids)
       (\<lambda>slots. Ok (concat slots))"

end
