(* ===== verification/ReviewGrounding.thy ===== *)
theory ReviewGrounding
  imports ReviewInputs
begin

text \<open>
  Grounding of reviewer findings (\<open>adversarial_review/validation.py\<close>): every evidence reference is
  resolved against the pinned inputs, and a finding whose evidence fails is downgraded to speculation
  with the failures written into its statement.
\<close>

section \<open>Locator patterns\<close>

definition digits :: "nat \<Rightarrow> nat list \<Rightarrow> bool" where
  "digits n ns \<longleftrightarrow> length (take n ns) = n \<and> list_all digit_point (take n ns)"

definition starts_with :: "string \<Rightarrow> nat list \<Rightarrow> bool" where
  "starts_with t ns \<longleftrightarrow> take (length t) ns = map byte t"

definition version_tail :: "nat list \<Rightarrow> bool" where
  "version_tail ns \<longleftrightarrow> (case ns of [] \<Rightarrow> True | v # ds \<Rightarrow> v = 118 \<and> ds \<noteq> [] \<and> list_all digit_point ds)"

definition arxiv_id :: "nat list \<Rightarrow> bool" where
  "arxiv_id ns \<longleftrightarrow>
     starts_with ''arXiv:'' ns \<and>
     (let r = drop 6 ns; s = drop 5 r in
      digits 4 r \<and> take 1 (drop 4 r) = [46] \<and>
      (digits 4 s \<and> version_tail (drop 4 s) \<or> digits 5 s \<and> version_tail (drop 5 s)))"

definition solid :: "nat list \<Rightarrow> bool" where
  "solid ns \<longleftrightarrow> ns \<noteq> [] \<and> list_all (\<lambda>n. \<not> space_point n) ns"

definition doi :: "nat list \<Rightarrow> bool" where
  "doi ns \<longleftrightarrow>
     starts_with ''10.'' ns \<and>
     (let r = drop 3 ns; n = length (takeWhile digit_point r) in
      4 \<le> n \<and> n \<le> 9 \<and> take 1 (drop n r) = [47] \<and> solid (drop (Suc n) r))"

definition https_url :: "nat list \<Rightarrow> bool" where
  "https_url ns \<longleftrightarrow> starts_with ''https://'' ns \<and> solid (drop 8 ns)"

definition known_source_form :: "string \<Rightarrow> bool" where
  "known_source_form s \<longleftrightarrow> (let ns = points s in dollar arxiv_id ns \<or> dollar doi ns \<or> dollar https_url ns)"

section \<open>One reference\<close>

text \<open>\<open>_resolve_within_root\<close>\<close>

definition resolve_within_root :: "campaign_inputs \<Rightarrow> string \<Rightarrow> string list option result" where
  "resolve_within_root inputs locator =
     bindR (resolve_path (ci_root inputs) locator) (\<lambda>path. Ok (relative_to (ci_root inputs) path))"

definition file_at :: "campaign_inputs \<Rightarrow> string list option \<Rightarrow> node option" where
  "file_at inputs path = Option.bind path (\<lambda>p. lookup_node p (ci_files inputs))"

definition span_text :: "int \<Rightarrow> int \<Rightarrow> string list \<Rightarrow> string" where
  "span_text start end lines = join newline (take (nat (end - (start - 1))) (drop (nat (start - 1)) lines))"

definition verify_lines :: "evidence_ref \<Rightarrow> string list \<Rightarrow> string list result" where
  "verify_lines ref lines =
     bindR (py_int (py_or (er_start ref) (JInt 0))) (\<lambda>start.
     bindR (py_int (py_or (er_end ref) (JInt start))) (\<lambda>end.
       let cite = show_int start @ ''-'' @ show_int end in
       if start < 1 \<or> int (length lines) < end
       then Ok [kind_text (er_kind ref) @ '' evidence cites lines '' @ cite @ '' of '' @ repr_str (er_locator ref) @
                '', which has '' @ show_nat (length lines) @ '' lines'']
       else if truthy (er_quoted ref)
       then (case er_quoted ref of
               JStr q \<Rightarrow>
                 if substring (text_strip q) (span_text start end lines) then Ok []
                 else Ok [kind_text (er_kind ref) @ '' evidence quotes text absent from '' @ er_locator ref @ '':'' @ cite]
             | _ \<Rightarrow> Raise AttributeError)
       else Ok []))"

definition verify_span :: "evidence_ref \<Rightarrow> campaign_inputs \<Rightarrow> string list result" where
  "verify_span ref inputs =
     (let about = kind_text (er_kind ref) @ '' evidence path '' @ repr_str (er_locator ref) in
      bindR (resolve_within_root inputs (er_locator ref)) (\<lambda>path.
        case path of
          None \<Rightarrow> Ok [about @ '' does not resolve inside the campaign root'']
        | Some p \<Rightarrow>
            (case file_at inputs path of
               Some (FileNode b) \<Rightarrow>
                 if valid_utf8 b then verify_lines ref (split_lines (translate_newlines b))
                 else Ok [about @ '' is not UTF-8 text'']
             | _ \<Rightarrow> Ok [about @ '' is not a file''])))"

definition verify_artifact :: "evidence_ref \<Rightarrow> campaign_inputs \<Rightarrow> string list result" where
  "verify_artifact ref inputs =
     bindR (resolve_within_root inputs (er_locator ref)) (\<lambda>path.
       case file_at inputs path of
         Some (FileNode b) \<Rightarrow>
           (if er_digest ref = JNull then Ok [''artifact_digest evidence must cite the expected sha256'']
            else if py_eq (JStr (sha256_hex b)) (er_digest ref) then Ok []
            else Ok [''artifact '' @ repr_str (er_locator ref) @ '' digest mismatch: cited '' @ py_str (er_digest ref) @
                     '', observed '' @ sha256_hex b])
       | _ \<Rightarrow> Ok [''artifact '' @ repr_str (er_locator ref) @ '' does not resolve to a file in the campaign root''])"

definition verify_receipt :: "evidence_ref \<Rightarrow> campaign_inputs \<Rightarrow> string list" where
  "verify_receipt ref inputs =
     (let name = ''receipt '' @ repr_str (er_locator ref) in
      case map_of (ci_receipts inputs) (er_locator ref) of
        None \<Rightarrow> [name @ '' is not in the campaign receipt index'']
      | Some expected \<Rightarrow>
          if er_digest ref \<noteq> JNull \<and> \<not> py_eq (er_digest ref) expected
          then [name @ '' digest mismatch: cited '' @ py_str (er_digest ref) @ '', index holds '' @ py_str expected]
          else [])"

definition verify_source :: "evidence_ref \<Rightarrow> campaign_inputs \<Rightarrow> string list" where
  "verify_source ref inputs =
     (let name = ''external source '' @ repr_str (er_locator ref) in
      if known_source_form (er_locator ref)
      then (if er_locator ref \<in> set (ci_sources inputs) then []
            else [name @ '' is not in the campaign's declared source list; a reviewer may not introduce an unregistered source''])
      else [name @ '' is not a DOI, arXiv id, or https URL''])"

definition verify_command :: "evidence_ref \<Rightarrow> string list" where
  "verify_command ref =
     (if blank (er_locator ref) then [''command evidence must carry the exact command'']
      else if blank (er_detail ref) then [''command evidence must state the expected observable outcome'']
      else [])"

definition verify_evidence :: "evidence_ref \<Rightarrow> campaign_inputs \<Rightarrow> string list result" where
  "verify_evidence ref inputs =
     (case er_kind ref of
        RepoLine \<Rightarrow> verify_span ref inputs
      | ManuscriptSpan \<Rightarrow> verify_span ref inputs
      | Receipt \<Rightarrow> Ok (verify_receipt ref inputs)
      | ArtifactDigest \<Rightarrow> verify_artifact ref inputs
      | ExternalSource \<Rightarrow> Ok (verify_source ref inputs)
      | Command \<Rightarrow> Ok (verify_command ref))"

section \<open>One finding\<close>

definition indexed_failures :: "finding \<Rightarrow> campaign_inputs \<Rightarrow> string list result" where
  "indexed_failures f inputs =
     bindR (mapR (\<lambda>(i, ref). bindR (verify_evidence ref inputs) (\<lambda>ms.
              Ok (map (\<lambda>m. ''evidence['' @ show_nat i @ '']: '' @ m) ms))) (enumerate 0 (fi_evidence f)))
       (\<lambda>mss. Ok (concat mss))"

definition contract_failures :: "finding \<Rightarrow> string list" where
  "contract_failures f =
     (let sev = ''severity '' @ repr_str (severity_text (fi_severity f)) in
      (if requires_evidence (fi_severity f) \<and> fi_evidence f = []
       then [sev @ '' requires at least one evidence reference''] else []) @
      (if requires_evidence (fi_severity f) \<and> blank (fi_refute f)
       then [sev @ '' requires a stated refutation condition''] else []))"

definition verify_finding :: "finding \<Rightarrow> campaign_inputs \<Rightarrow> verification_outcome result" where
  "verify_finding f inputs =
     bindR (indexed_failures f inputs) (\<lambda>found.
     let failures = found @ contract_failures f in
     bindR (finding_digest f) (\<lambda>h.
       Ok \<lparr>vo_digest = h, vo_admissible = (failures = []), vo_checked = length (fi_evidence f), vo_failures = failures,
           vo_downgraded = (if failures = [] then None else Some Speculation)\<rparr>))"

definition apply_outcome :: "finding \<Rightarrow> verification_outcome \<Rightarrow> finding result" where
  "apply_outcome f v =
     (case (vo_admissible v, vo_downgraded v) of
        (False, Some s) \<Rightarrow>
          let note = '' [DOWNGRADED from '' @ severity_text (fi_severity f) @ '' to '' @ severity_text s @ '': '' @
                     join ''; '' (vo_failures v) @ '']'';
              g = f\<lparr>fi_severity := s, fi_statement := fi_statement f @ note, fi_confidence := ''unverified''\<rparr>
          in bindR (require (finding_ok g)) (\<lambda>_. Ok g)
      | _ \<Rightarrow> Ok f)"

section \<open>All findings\<close>

definition verify_one :: "campaign_inputs \<Rightarrow> finding \<Rightarrow> (finding \<times> verification_outcome) result" where
  "verify_one inputs f = bindR (verify_finding f inputs) (\<lambda>v. bindR (apply_outcome f v) (\<lambda>g. Ok (g, v)))"

definition verify_all :: "finding list \<Rightarrow> campaign_inputs \<Rightarrow> (finding list \<times> verification_outcome list) result" where
  "verify_all fs inputs = bindR (mapR (verify_one inputs) fs) (\<lambda>gvs. Ok (map fst gvs, map snd gvs))"

definition duplicate_finding_ids :: "finding list \<Rightarrow> string list" where
  "duplicate_finding_ids fs = sort (filter (\<lambda>i. 1 < count_list (map fi_id fs) i) (remdups (map fi_id fs)))"

end
