(* ===== verification/ReviewPanel.thy ===== *)
theory ReviewPanel
  imports ReviewGrounding
begin

text \<open>
  The second stage of a review over sealed reports: independence conflicts (\<open>conflicts.py\<close>), the
  evidence-to-claim matrix (\<open>matrix.py\<close>), the editor (\<open>editor.py\<close>) and the falsification chair
  (\<open>chair.py\<close>) of \<open>adversarial_review\<close>.
\<close>

section \<open>Conflicts of interest\<close>

record conflict =
  cn_kind :: string
  cn_roles :: "string list"
  cn_detail :: string
  cn_blocking :: bool

definition conflict_json :: "conflict \<Rightarrow> json" where
  "conflict_json c = JObj
     [(''kind'', JStr (cn_kind c)), (''role_ids'', texts (cn_roles c)), (''detail'', JStr (cn_detail c)),
      (''blocking'', JBool (cn_blocking c))]"

text \<open>The roles behind each prompt digest, in the order of the reports.\<close>

definition add_prompt :: "(string \<times> string list) list \<Rightarrow> reviewer_report \<Rightarrow> (string \<times> string list) list" where
  "add_prompt d r =
     (case rp_receipt r of
        None \<Rightarrow> d
      | Some c \<Rightarrow> dset d (rc_prompt c) ((case map_of d (rc_prompt c) of None \<Rightarrow> [] | Some xs \<Rightarrow> xs) @ [rp_role r]))"

definition conflict_groups :: "string list \<Rightarrow> string list" where
  "conflict_groups ids =
     remdups (concat (map (\<lambda>s. case role_by_id s of Some r \<Rightarrow> [rl_group r] | None \<Rightarrow> []) ids))"

definition shared_context :: "reviewer_report list \<Rightarrow> conflict list" where
  "shared_context reports =
     map (\<lambda>(prompt, ids).
            \<lparr>cn_kind = ''shared_context'', cn_roles = sort ids,
             cn_detail = ''roles share subprocess prompt digest '' @ take_points 16 prompt @ ''...; conflict groups '' @
               py_str (texts (sort (conflict_groups ids))),
             cn_blocking = (length (conflict_groups ids) = 1)\<rparr>)
       (filter (\<lambda>(prompt, ids). 2 \<le> length ids) (sort_key fst (foldl add_prompt [] reports)))"

definition declared_dependencies :: "reviewer_report list \<Rightarrow> conflict list" where
  "declared_dependencies reports =
     concat (map (\<lambda>r.
       if rp_role r \<in> set REVIEWER_ROLE_IDS
       then map (\<lambda>peer. \<lparr>cn_kind = ''declared_dependency'', cn_roles = [rp_role r, peer],
              cn_detail = ''stage-one role '' @ rp_role r @ '' declared a dependency on peer reviewer '' @ peer @
                ''; stage-one reviews must be independent'', cn_blocking = True\<rparr>)
            (filter (\<lambda>peer. peer \<in> set REVIEWER_ROLE_IDS \<and> peer \<noteq> rp_role r) (rp_dependencies r))
       else []) reports)"

definition cross_role_citations :: "reviewer_report list \<Rightarrow> conflict list" where
  "cross_role_citations reports =
     concat (map (\<lambda>r.
       if rp_role r \<in> set REVIEWER_ROLE_IDS
       then concat (map (\<lambda>f. concat (map (\<lambda>ref.
              map (\<lambda>peer. \<lparr>cn_kind = ''cross_role_citation'', cn_roles = [rp_role r, peer],
                     cn_detail = ''finding '' @ fi_id f @ '' cites '' @ repr_str (er_locator ref) @ '', which is peer reviewer '' @
                       peer @ [CHR 0x27] @ ''s output rather than a campaign input'', cn_blocking = True\<rparr>)
                (filter (\<lambda>peer. peer \<noteq> rp_role r \<and> substring peer (er_locator ref)) REVIEWER_ROLE_IDS))
              (fi_evidence f))) (rp_findings r))
       else []) reports)"

definition detect_conflicts :: "reviewer_report list \<Rightarrow> conflict list" where
  "detect_conflicts reports =
     sort_key (\<lambda>c. (\<not> cn_blocking c, cn_kind c, cn_roles c))
       (shared_context reports @ declared_dependencies reports @ cross_role_citations reports)"

definition blocking_conflicts :: "conflict list \<Rightarrow> conflict list" where
  "blocking_conflicts cs = filter cn_blocking cs"

section \<open>The claim matrix\<close>

definition claim_json :: "claim \<Rightarrow> json" where
  "claim_json c = JObj
     [(''claim_id'', JStr (cl_id c)), (''text'', JStr (cl_text c)), (''kind'', JStr (cl_kind c)),
      (''supporting_evidence'', texts (cl_support c))]"

definition load_claim :: "json \<Rightarrow> claim result" where
  "load_claim v =
     (case v of
        JObj d \<Rightarrow>
          (case (map_of d ''claim_id'', map_of d ''text'') of
             (Some i, Some t) \<Rightarrow>
               bindR (text_items d ''supporting_evidence'') (\<lambda>refs.
                 Ok \<lparr>cl_id = py_str i, cl_text = py_str t, cl_kind = py_str (dget_or d ''kind'' (JStr ''claim_of_record'')),
                     cl_support = refs\<rparr>)
           | _ \<Rightarrow> Raise KeyError)
      | _ \<Rightarrow> Raise TypeError)"

definition load_claims :: "json list \<Rightarrow> claim list result" where
  "load_claims payload = mapR load_claim payload"

text \<open>The claims a finding attacks, each with the finding's digest; speculation attacks none.\<close>

definition attack_entries :: "finding \<Rightarrow> (string \<times> string) list result" where
  "attack_entries f =
     (if fi_severity f = Speculation \<or> fi_claims f = [] then Ok []
      else bindR (finding_digest f) (\<lambda>h. Ok (map (\<lambda>c. (c, h)) (fi_claims f))))"

definition claim_matrix_row :: "(string \<times> string) list \<Rightarrow> claim \<Rightarrow> claim_row" where
  "claim_matrix_row attacks c =
     \<lparr>cw_id = cl_id c, cw_text = cl_text c, cw_support = sort (cl_support c),
      cw_attacks = sort (map snd (filter (\<lambda>(i, h). i = cl_id c) attacks)),
      cw_unsupported = (cl_support c = [] \<and> cl_kind c \<noteq> ''non_claim'')\<rparr>"

definition build_matrix :: "claim list \<Rightarrow> finding list \<Rightarrow> claim_row list result" where
  "build_matrix claims fs =
     bindR (mapR attack_entries fs) (\<lambda>entries. Ok (sort_key cw_id (map (claim_matrix_row (concat entries)) claims)))"

definition orphan_claim_ids :: "claim list \<Rightarrow> finding list \<Rightarrow> string list" where
  "orphan_claim_ids claims fs =
     sort (remdups (filter (\<lambda>i. i \<notin> set (map cl_id claims)) (concat (map fi_claims fs))))"

definition unsupported_rows :: "claim_row list \<Rightarrow> claim_row list" where
  "unsupported_rows rows = filter cw_unsupported rows"

section \<open>The editor\<close>

text \<open>A finding with its digest.\<close>

definition tag :: "finding \<Rightarrow> (finding \<times> string) result" where
  "tag f = bindR (finding_digest f) (\<lambda>h. Ok (f, h))"

definition editor_key :: "finding \<times> string \<Rightarrow> nat \<times> int \<times> int \<times> string" where
  "editor_key fh =
     (severity_rank (fi_severity (fst fh)), - int (card (set (fi_claims (fst fh)))), - int (length (fi_evidence (fst fh))),
      snd fh)"

definition collect_findings :: "reviewer_report list \<Rightarrow> finding list result" where
  "collect_findings reports =
     bindR (mapR tag (concat (map rp_findings reports))) (\<lambda>fhs. Ok (map fst (sort_key editor_key fhs)))"

definition bound_claims :: "finding \<Rightarrow> string list" where
  "bound_claims f = (if fi_claims f = [] then [''<unbound>''] else fi_claims f)"

definition claim_group :: "(finding \<times> string) list \<Rightarrow> string \<Rightarrow> (finding \<times> string) list" where
  "claim_group fhs c = concat (map (\<lambda>fh. map (\<lambda>_. fh) (filter (\<lambda>i. i = c) (bound_claims (fst fh)))) fhs)"

text \<open>The digests a claim's group contributes.\<close>

definition group_minority :: "(finding \<times> string) list \<Rightarrow> string list" where
  "group_minority peers =
     (if length peers = 1 then map snd peers
      else map snd (filter (\<lambda>(f, h).
             filter (\<lambda>(g, k). k \<noteq> h \<and> fi_severity g = fi_severity f) peers = [] \<and>
             1 < card (set (map (\<lambda>(g, k). fi_role g) peers))) peers))"

definition minority_findings :: "finding list \<Rightarrow> string list result" where
  "minority_findings fs =
     bindR (mapR tag (filter (\<lambda>f. fi_severity f \<noteq> Speculation) fs)) (\<lambda>fhs.
       let ids = remdups (concat (map (\<lambda>fh. bound_claims (fst fh)) fhs)) in
       Ok (sort (remdups (concat (map (\<lambda>c. group_minority (claim_group fhs c)) ids)))))"

definition of_severity :: "severity \<Rightarrow> finding list \<Rightarrow> finding list" where
  "of_severity s fs = filter (\<lambda>f. fi_severity f = s) fs"

definition sufficient_rejection_set :: "finding list \<Rightarrow> string list result" where
  "sufficient_rejection_set fs =
     bindR (mapR finding_digest (of_severity Blocker fs)) (\<lambda>blockers.
       if blockers \<noteq> [] then Ok blockers
       else bindR (mapR finding_digest (of_severity Major fs)) (\<lambda>majors.
         Ok (if MAJOR_QUORUM \<le> length majors then take MAJOR_QUORUM majors else [])))"

text \<open>\<open>by_digest[digest]\<close>: of findings with one digest the last.\<close>

definition by_digest :: "(finding \<times> string) list \<Rightarrow> string \<Rightarrow> finding result" where
  "by_digest fhs h = (case find (\<lambda>fh. snd fh = h) (rev fhs) of Some fh \<Rightarrow> Ok (fst fh) | None \<Rightarrow> Raise KeyError)"

definition severity_tag :: "finding \<Rightarrow> string" where
  "severity_tag f = ''- ['' @ severity_text (fi_severity f) @ ''] '' @ fi_role f @ '': '' @ fi_title f"

definition rejection_line :: "finding \<Rightarrow> string" where
  "rejection_line f =
     severity_tag f @ ''. If true: '' @ fi_failure f @ '' Discharged only by: '' @
     (if fi_refute f = [] then ''unstated'' else fi_refute f) @ ''.''"

definition rejection_lines :: "(finding \<times> string) list \<Rightarrow> string list \<Rightarrow> string list result" where
  "rejection_lines fhs sufficient =
     (if sufficient \<noteq> []
      then bindR (mapR (by_digest fhs) sufficient) (\<lambda>fs.
             Ok ((''The strongest case for rejection rests on '' @ show_nat (length sufficient) @
                  '' finding(s), each independently sufficient or jointly at quorum:'') # map rejection_line fs))
      else Ok [''No admissible finding, and no quorum of major findings, supports rejection on this input set. This is not an endorsement: it is a statement about what the reviewers were able to ground against the exact inputs declared for this campaign.''])"

definition unsupported_lines :: "claim_row list \<Rightarrow> string list" where
  "unsupported_lines rows =
     (if rows = [] then []
      else [[], ''Claims carrying no declared supporting evidence, which require no reviewer to defeat:''] @
           map (\<lambda>w. ''- '' @ cw_id w @ '': '' @ cw_text w) rows)"

definition minority_lines :: "(finding \<times> string) list \<Rightarrow> string list \<Rightarrow> string list result" where
  "minority_lines fhs minority =
     (if minority = [] then Ok []
      else bindR (mapR (by_digest fhs) minority) (\<lambda>fs.
             Ok ([[], ''Minority findings, preserved and not averaged away. Each is the sole admissible attack on its claim or the sole finding at its severity:''] @
                 map severity_tag fs)))"

definition dissent_notes :: "finding list \<Rightarrow> string list \<Rightarrow> string list" where
  "dissent_notes fs orphans =
     map (\<lambda>f. fi_role f @ '' raised, without groundable evidence: '' @ fi_title f @ ''. Recorded, barred from blocking.'')
       (of_severity Speculation fs) @
     map (\<lambda>i. ''A finding attacked claim id '' @ repr_str i @
            '', which no declared claim provides; the reviewer inferred a claim the authors did not state.'') orphans"

definition synthesize :: "reviewer_report list \<Rightarrow> claim list \<Rightarrow> editor_synthesis result" where
  "synthesize reports claims =
     bindR (collect_findings reports) (\<lambda>fs.
     bindR (build_matrix claims fs) (\<lambda>rows.
     bindR (minority_findings fs) (\<lambda>minority.
     bindR (sufficient_rejection_set fs) (\<lambda>sufficient.
     bindR (mapR tag fs) (\<lambda>fhs.
     bindR (rejection_lines fhs sufficient) (\<lambda>case_lines.
     bindR (minority_lines fhs minority) (\<lambda>dissenting.
       Ok \<lparr>sy_argument = join newline (case_lines @ unsupported_lines (unsupported_rows rows) @ dissenting),
           sy_ordered = map snd fhs, sy_minority = minority,
           sy_dissent = dissent_notes fs (orphan_claim_ids claims fs), sy_matrix = rows\<rparr>)))))))"

section \<open>The falsification chair\<close>

definition ROLE_GATES :: "(string \<times> string) list" where
  "ROLE_GATES =
     [(''R01-novelty'', ''pre_submission''), (''R02-identification'', ''pre_launch''), (''R03-statistics'', ''pre_launch''),
      (''R04-blinding'', ''pre_execution''), (''R05-benchmarks'', ''pre_launch''), (''R06-infrastructure'', ''pre_execution''),
      (''R07-feasibility'', ''pre_execution''), (''R08-reproducibility'', ''pre_submission''),
      (''R09-manuscript'', ''pre_submission''), (''R10-compliance'', ''pre_submission'')]"

definition ROLE_OWNERS :: "(string \<times> string) list" where
  "ROLE_OWNERS =
     [(''R01-novelty'', ''manuscript-owner''), (''R02-identification'', ''design-owner''), (''R03-statistics'', ''analysis-owner''),
      (''R04-blinding'', ''controller-owner''), (''R05-benchmarks'', ''roster-owner''), (''R06-infrastructure'', ''execution-owner''),
      (''R07-feasibility'', ''operations-owner''), (''R08-reproducibility'', ''release-owner''),
      (''R09-manuscript'', ''manuscript-owner''), (''R10-compliance'', ''submission-owner'')]"

definition role_gate :: "string \<Rightarrow> string" where
  "role_gate s = (case map_of ROLE_GATES s of Some g \<Rightarrow> g | None \<Rightarrow> ''pre_launch'')"

definition role_owner :: "string \<Rightarrow> string" where
  "role_owner s = (case map_of ROLE_OWNERS s of Some g \<Rightarrow> g | None \<Rightarrow> ''design-owner'')"

fun default_disposition :: "severity \<Rightarrow> chair_disposition" where
  "default_disposition Blocker = Blocking"
| "default_disposition Major = NonBlockingTracked"
| "default_disposition Minor = NonBlockingTracked"
| "default_disposition Speculation = NonBlockingTracked"

definition test_statement :: "finding \<Rightarrow> string" where
  "test_statement f =
     (let refutation = text_strip (fi_refute f) in
      if refutation = []
      then ''UNDER-SPECIFIED: '' @ fi_title f @
           ''. The finding states no condition that would discharge it, so it cannot be converted into a test. The reviewer must supply a refutation condition or the finding remains recorded without a falsification path.''
      else ''Test: '' @ refutation @
           '' PASS means the finding is discharged and the claim survives. FAIL means the stated failure mode stands: '' @
           fi_failure f)"

definition evidence_label :: "evidence_ref \<Rightarrow> string" where
  "evidence_label ref =
     kind_text (er_kind ref) @ '':'' @ er_locator ref @
     (if truthy (er_start ref)
      then '':'' @ py_str (er_start ref) @ ''-'' @ py_str (py_or (er_end ref) (er_start ref)) else [])"

definition required_evidence :: "finding \<Rightarrow> string list" where
  "required_evidence f =
     (let needed = map evidence_label (fi_evidence f) @ map (\<lambda>c. ''command:'' @ c) (fi_reproduction f) in
      if needed = []
      then [''NONE CITED '' @ em_dash @ '' the chair cannot state required evidence for an ungrounded finding'']
      else needed)"

definition RESULT_WORDS :: "string list" where
  "RESULT_WORDS =
     [''observed effect'', ''measured effect'', ''reported estimate'', ''post-unblind'', ''the results show'']"

text \<open>The words are ASCII and no other character lowers to a part of them.\<close>

definition needs_results :: "finding \<Rightarrow> bool" where
  "needs_results f =
     (let haystack = ascii_lower (join '' '' [fi_statement f, fi_refute f, fi_failure f]) in
      list_ex (\<lambda>w. substring w haystack) RESULT_WORDS)"

definition chair_item :: "bool \<Rightarrow> finding \<Rightarrow> falsification_item result" where
  "chair_item results_exist f =
     bindR (finding_digest f) (\<lambda>h.
     let deferred = (\<not> results_exist \<and> needs_results f) in
       Ok \<lparr>fa_digest = h, fa_role = fi_role f, fa_severity = fi_severity f, fa_test = test_statement f,
           fa_required = required_evidence f, fa_owner = role_owner (fi_role f),
           fa_disposition = (if deferred then DeferredPostResults else default_disposition (fi_severity f)),
           fa_gate = (if deferred then ''pre_submission'' else role_gate (fi_role f))\<rparr>)"

definition chair_convert :: "finding list \<Rightarrow> bool \<Rightarrow> falsification_item list result" where
  "chair_convert fs results_exist =
     bindR (mapR (chair_item results_exist) (filter (\<lambda>f. fi_severity f \<noteq> Speculation) fs)) (\<lambda>items.
       Ok (sort_key (\<lambda>i. (fa_gate i, severity_text (fa_severity i), fa_digest i)) items))"

definition blocking_items :: "falsification_item list \<Rightarrow> falsification_item list" where
  "blocking_items items = filter (\<lambda>i. fa_disposition i = Blocking) items"

definition underspecified_items :: "falsification_item list \<Rightarrow> falsification_item list" where
  "underspecified_items items = filter (\<lambda>i. take 15 (fa_test i) = ''UNDER-SPECIFIED'') items"

end
