(* ===== verification/PyLoads.thy ===== *)
theory PyLoads
  imports Digests
begin

text \<open>
  \<open>json.loads\<close>: the decoder of the standard library over UTF-8 text, and \<open>json.dumps\<close> with its default
  separators. Syntax errors are \<open>JSONDecodeError\<close>; an integer of more than 4300 digits is a plain
  \<open>ValueError\<close>. The decoder recurses on fuel, twice the length of the text, which
  \<open>loads_fuel\<close> shows to be enough.
\<close>

section \<open>Strings\<close>

definition hex_value :: "char \<Rightarrow> nat option" where
  "hex_value c =
     (let n = byte c in
      if 48 \<le> n \<and> n \<le> 57 then Some (n - 48)
      else if 97 \<le> n \<and> n \<le> 102 then Some (n - 87)
      else if 65 \<le> n \<and> n \<le> 70 then Some (n - 55) else None)"

definition scan_hex4 :: "string \<Rightarrow> (nat \<times> string) option" where
  "scan_hex4 s =
     (case s of
        a # b # c # d # r \<Rightarrow>
          (case (hex_value a, hex_value b, hex_value c, hex_value d) of
             (Some w, Some x, Some y, Some z) \<Rightarrow> Some (((w * 16 + x) * 16 + y) * 16 + z, r)
           | _ \<Rightarrow> None)
      | _ \<Rightarrow> None)"

abbreviation backslash :: char where "backslash \<equiv> CHR 0x5C"
abbreviation quote_mark :: char where "quote_mark \<equiv> CHR 0x22"

text \<open>After \<open>\u\<close>: a high surrogate joins the low one escaped right after it.\<close>

definition scan_unicode :: "string \<Rightarrow> (string \<times> string) option" where
  "scan_unicode s =
     (case scan_hex4 s of
        None \<Rightarrow> None
      | Some (n, r) \<Rightarrow>
          if 55296 \<le> n \<and> n \<le> 56319 \<and> take 2 r = [backslash, CHR ''u'']
          then (case scan_hex4 (drop 2 r) of
                  None \<Rightarrow> None
                | Some (m, r') \<Rightarrow>
                    if 56320 \<le> m \<and> m \<le> 57343
                    then Some (utf8_point (65536 + (n - 55296) * 1024 + (m - 56320)), r')
                    else Some (utf8_point n, r))
          else Some (utf8_point n, r))"

text \<open>After a backslash: the text of the escape and what follows it.\<close>

definition scan_escape :: "string \<Rightarrow> (string \<times> string) option" where
  "scan_escape s =
     (case s of
        [] \<Rightarrow> None
      | e # r \<Rightarrow>
          if e = quote_mark \<or> e = backslash \<or> e = CHR ''/'' then Some ([e], r)
          else if e = CHR ''n'' then Some ([CHR 0x0A], r)
          else if e = CHR ''r'' then Some ([CHR 0x0D], r)
          else if e = CHR ''t'' then Some ([CHR 0x09], r)
          else if e = CHR ''b'' then Some ([CHR 0x08], r)
          else if e = CHR ''f'' then Some ([CHR 0x0C], r)
          else if e = CHR ''u'' then scan_unicode r
          else None)"

lemma scan_hex4_shorter: "scan_hex4 s = Some (n, r) \<Longrightarrow> length r < length s"
  by (auto simp: scan_hex4_def split: list.splits option.splits)

lemma scan_unicode_shorter: "scan_unicode s = Some (t, r) \<Longrightarrow> length r < length s"
  by (fastforce simp: scan_unicode_def split: option.splits prod.splits if_splits dest: scan_hex4_shorter)

lemma scan_escape_shorter: "scan_escape s = Some (t, r) \<Longrightarrow> length r < length s"
  by (auto simp: scan_escape_def split: list.splits if_splits dest: scan_unicode_shorter)

text \<open>After the opening quote.\<close>

function scan_string :: "string \<Rightarrow> (string \<times> string) option" where
  "scan_string s =
     (case s of
        [] \<Rightarrow> None
      | c # cs \<Rightarrow>
          if c = quote_mark then Some ([], cs)
          else if byte c < 32 then None
          else if c = backslash
          then (case scan_escape cs of None \<Rightarrow> None | Some (t, r) \<Rightarrow> map_option (apfst (\<lambda>u. t @ u)) (scan_string r))
          else map_option (apfst (\<lambda>u. c # u)) (scan_string cs))"
  by pat_completeness auto
termination
  by (relation "measure length") (auto dest: scan_escape_shorter)

declare scan_string.simps [simp del]

section \<open>Numbers\<close>

definition lead_digits :: "string \<Rightarrow> string" where
  "lead_digits s = takeWhile is_digit s"

text \<open>The integer part, and an optional fraction and exponent; each must have a digit to count.\<close>

definition scan_fraction :: "string \<Rightarrow> string" where
  "scan_fraction s =
     (case s of c # cs \<Rightarrow> if c = CHR ''.'' \<and> lead_digits cs \<noteq> [] then c # lead_digits cs else [] | [] \<Rightarrow> [])"

definition scan_exponent :: "string \<Rightarrow> string" where
  "scan_exponent s =
     (case s of
        c # cs \<Rightarrow>
          if c = CHR ''e'' \<or> c = CHR ''E''
          then (let sign = (case cs of d # ds \<Rightarrow> if d = CHR ''+'' \<or> d = CHR ''-'' then [d] else [] | [] \<Rightarrow> []);
                    ds = lead_digits (drop (length sign) cs) in
                if ds = [] then [] else c # sign @ ds)
          else []
      | [] \<Rightarrow> [])"

definition number_parts :: "string \<Rightarrow> string \<times> string \<times> string \<times> string" where
  "number_parts s =
     (let sign = (case s of c # _ \<Rightarrow> if c = CHR ''-'' then [c] else [] | [] \<Rightarrow> []);
          s1 = drop (length sign) s;
          whole = (if take 1 s1 = ''0'' then ''0'' else lead_digits s1);
          s2 = drop (length whole) s1;
          fraction = scan_fraction s2
      in (sign, whole, fraction, scan_exponent (drop (length fraction) s2)))"

definition scan_number :: "string \<Rightarrow> (json \<times> string) result" where
  "scan_number s =
     (case number_parts s of (sign, whole, fraction, exponent) \<Rightarrow>
        let lexeme = sign @ whole @ fraction @ exponent; rest = drop (length lexeme) s in
        if whole = [] then Raise JSONDecodeError
        else if fraction @ exponent = []
        then (if 4300 < length whole then Raise (ValueError ''Exceeds the limit (4300 digits) for integer string conversion'')
              else case parse_int lexeme of Some i \<Rightarrow> Ok (JInt i, rest) | None \<Rightarrow> Raise JSONDecodeError)
        else (case parse_float lexeme of Some x \<Rightarrow> Ok (JFloat x, rest) | None \<Rightarrow> Raise JSONDecodeError))"

section \<open>Values\<close>

definition skip_space :: "string \<Rightarrow> string" where
  "skip_space s = dropWhile (\<lambda>c. c \<in> {CHR 0x20, CHR 0x09, CHR 0x0A, CHR 0x0D}) s"

definition literals :: "(string \<times> json) list" where
  "literals =
     [(''null'', JNull), (''true'', JBool True), (''false'', JBool False), (''NaN'', JFloat NaN),
      (''Infinity'', JFloat PosInf), (''-Infinity'', JFloat NegInf)]"

definition scan_atom :: "string \<Rightarrow> (json \<times> string) result" where
  "scan_atom s =
     (case filter (\<lambda>(t, _). take (length t) s = t) literals of
        (t, v) # _ \<Rightarrow> Ok (v, drop (length t) s)
      | [] \<Rightarrow> scan_number s)"

text \<open>A dict from its pairs: a later value replaces an earlier one of the same key.\<close>

definition dict_of :: "dict \<Rightarrow> dict" where
  "dict_of kvs = foldl (\<lambda>d (k, v). dset d k v) [] kvs"

text \<open>The character a text starts with.\<close>

definition opens :: "char \<Rightarrow> string \<Rightarrow> bool" where
  "opens c s \<longleftrightarrow> take 1 s = [c]"

text \<open>
  A value; the elements of an array after its bracket; the members of an object after its brace.
  Both lists are known not to be empty.
\<close>

fun scan_value :: "nat \<Rightarrow> string \<Rightarrow> (json \<times> string) result"
  and scan_elements :: "nat \<Rightarrow> string \<Rightarrow> (json list \<times> string) result"
  and scan_members :: "nat \<Rightarrow> string \<Rightarrow> (dict \<times> string) result" where
  "scan_value 0 s = Raise JSONDecodeError"
| "scan_value (Suc n) s =
     (let r = skip_space (drop 1 s) in
      if opens quote_mark s
      then (case scan_string (drop 1 s) of None \<Rightarrow> Raise JSONDecodeError | Some (t, r') \<Rightarrow> Ok (JStr t, r'))
      else if opens (CHR ''['') s
      then (if opens (CHR '']'') r then Ok (JList [], drop 1 r)
            else bindR (scan_elements n r) (\<lambda>(vs, r'). Ok (JList vs, r')))
      else if opens (CHR ''{'') s
      then (if opens (CHR ''}'') r then Ok (JObj [], drop 1 r)
            else bindR (scan_members n r) (\<lambda>(kvs, r'). Ok (JObj (dict_of kvs), r')))
      else scan_atom s)"
| "scan_elements 0 s = Raise JSONDecodeError"
| "scan_elements (Suc n) s =
     bindR (scan_value n s) (\<lambda>(v, r).
       let r' = skip_space r in
       if opens (CHR '']'') r' then Ok ([v], drop 1 r')
       else if opens (CHR '','') r'
       then bindR (scan_elements n (skip_space (drop 1 r'))) (\<lambda>(vs, r''). Ok (v # vs, r''))
       else Raise JSONDecodeError)"
| "scan_members 0 s = Raise JSONDecodeError"
| "scan_members (Suc n) s =
     (if \<not> opens quote_mark s then Raise JSONDecodeError
      else case scan_string (drop 1 s) of
        None \<Rightarrow> Raise JSONDecodeError
      | Some (k, r) \<Rightarrow>
          if \<not> opens (CHR '':'') (skip_space r) then Raise JSONDecodeError
          else bindR (scan_value n (skip_space (drop 1 (skip_space r)))) (\<lambda>(v, r1).
            let r' = skip_space r1 in
            if opens (CHR ''}'') r' then Ok ([(k, v)], drop 1 r')
            else if opens (CHR '','') r'
            then bindR (scan_members n (skip_space (drop 1 r'))) (\<lambda>(kvs, r''). Ok ((k, v) # kvs, r''))
            else Raise JSONDecodeError))"

definition loads :: "string \<Rightarrow> json result" where
  "loads s =
     bindR (scan_value (2 * length s + 2) (skip_space s)) (\<lambda>(v, r).
       if skip_space r = [] then Ok v else Raise JSONDecodeError)"

section \<open>Default text\<close>

text \<open>\<open>json.dumps(v, sort_keys=True)\<close>: escaped text with a space after each comma and colon.\<close>

definition ascii_str :: "string \<Rightarrow> string" where
  "ascii_str s = concat (map ascii_point (points (dumps_str s)))"

fun dumps_sorted :: "json \<Rightarrow> string"
  and sorted_items :: "json list \<Rightarrow> string list"
  and sorted_pairs :: "dict \<Rightarrow> (string \<times> string) list" where
  "dumps_sorted JNull = ''null''"
| "dumps_sorted (JBool b) = (if b then ''true'' else ''false'')"
| "dumps_sorted (JInt i) = show_int i"
| "dumps_sorted (JFloat f) = dumps_float f"
| "dumps_sorted (JStr s) = ascii_str s"
| "dumps_sorted (JList xs) = ''['' @ join '', '' (sorted_items xs) @ '']''"
| "dumps_sorted (JObj d) =
     ''{'' @ join '', '' (map (\<lambda>(k, t). ascii_str k @ '': '' @ t) (sort_key fst (sorted_pairs d))) @ ''}''"
| "sorted_items [] = []"
| "sorted_items (x # xs) = dumps_sorted x # sorted_items xs"
| "sorted_pairs [] = []"
| "sorted_pairs (kv # d) = (fst kv, dumps_sorted (snd kv)) # sorted_pairs d"

section \<open>The fuel suffices\<close>

lemma scan_string_shorter: "scan_string s = Some (t, r) \<Longrightarrow> length r < length s"
proof (induction s arbitrary: t rule: scan_string.induct)
  case (1 s)
  show ?case
    using 1 by (subst (asm) (3) scan_string.simps) (fastforce split: list.splits if_splits option.splits dest: scan_escape_shorter)
qed

lemma skip_space_length: "length (skip_space s) \<le> length s"
  by (simp add: skip_space_def length_dropWhile_le)

lemma opens_length: "opens c s \<Longrightarrow> 0 < length s"
  by (auto simp: opens_def)

lemma scan_number_shorter:
  assumes "scan_number s = Ok (v, r)"
  shows "length r < length s"
proof -
  obtain sign whole fraction exponent where parts: "number_parts s = (sign, whole, fraction, exponent)"
    by (cases "number_parts s") auto
  with assms have "whole \<noteq> []" and r: "r = drop (length (sign @ whole @ fraction @ exponent)) s"
    by (auto simp: scan_number_def Let_def split: if_splits option.splits)
  moreover have "s \<noteq> []"
    using parts \<open>whole \<noteq> []\<close> by (auto simp: number_parts_def Let_def lead_digits_def)
  ultimately show ?thesis
    by (cases s; cases whole) simp_all
qed

lemma scan_atom_shorter:
  assumes "scan_atom s = Ok (v, r)"
  shows "length r < length s"
proof (cases "filter (\<lambda>(t, _). take (length t) s = t) literals")
  case Nil
  with assms show ?thesis
    by (simp add: scan_atom_def scan_number_shorter)
next
  case (Cons tv tvs)
  obtain t w where tv: "tv = (t, w)"
    by (cases tv)
  have "(t, w) \<in> set (filter (\<lambda>(t, _). take (length t) s = t) literals)"
    unfolding Cons tv by simp
  then have "(t, w) \<in> set literals" and t: "take (length t) s = t"
    by simp_all
  then have "t \<noteq> []"
    by (auto simp: literals_def)
  with t have "s \<noteq> []" "0 < length t"
    by auto
  moreover have "r = drop (length t) s"
    using assms Cons tv by (simp add: scan_atom_def)
  ultimately show ?thesis
    by simp
qed

lemma skip_drop_length: "length (skip_space (drop 1 s)) \<le> length s - 1"
  using skip_space_length [of "drop 1 s"] by simp

lemma scan_value_step:
  assumes "scan_value (Suc n) s = Ok (v, r)"
    and "\<And>vs r'. scan_elements n (skip_space (drop 1 s)) = Ok (vs, r') \<Longrightarrow> length r' < length (skip_space (drop 1 s))"
    and "\<And>kvs r'. scan_members n (skip_space (drop 1 s)) = Ok (kvs, r') \<Longrightarrow> length r' < length (skip_space (drop 1 s))"
  shows "length r < length s"
proof -
  let ?r = "skip_space (drop 1 s)"
  have len: "length ?r \<le> length s - 1"
    by (rule skip_drop_length)
  consider (string) "opens quote_mark s" | (array) "opens (CHR ''['') s" | (object) "opens (CHR ''{'') s"
    | (atom) "\<not> opens quote_mark s" "\<not> opens (CHR ''['') s" "\<not> opens (CHR ''{'') s"
    by blast
  then show ?thesis
  proof cases
    case string
    with assms(1) obtain t where "scan_string (drop 1 s) = Some (t, r)"
      by (auto simp: Let_def split: option.splits)
    from scan_string_shorter [OF this] opens_length [OF string] show ?thesis by simp
  next
    case array
    then have "\<not> opens quote_mark s" by (simp add: opens_def)
    with assms(1) array consider "opens (CHR '']'') ?r" "r = drop 1 ?r" | vs where "scan_elements n ?r = Ok (vs, r)"
      by (auto simp: Let_def result_simps split: if_splits)
    then have "length r \<le> length ?r"
      by cases (use assms(2) in \<open>auto intro: less_imp_le\<close>)
    with len opens_length [OF array] show ?thesis by linarith
  next
    case object
    then have "\<not> opens quote_mark s" "\<not> opens (CHR ''['') s" by (simp_all add: opens_def)
    with assms(1) object consider "opens (CHR ''}'') ?r" "r = drop 1 ?r" | kvs where "scan_members n ?r = Ok (kvs, r)"
      by (auto simp: Let_def result_simps split: if_splits)
    then have "length r \<le> length ?r"
      by cases (use assms(3) in \<open>auto intro: less_imp_le\<close>)
    with len opens_length [OF object] show ?thesis by linarith
  next
    case atom
    with assms(1) show ?thesis by (simp add: Let_def scan_atom_shorter)
  qed
qed

lemma scan_elements_step:
  assumes "scan_elements (Suc n) s = Ok (vs, r)"
  obtains v r1 where "scan_value n s = Ok (v, r1)" "opens (CHR '']'') (skip_space r1)" "r = drop 1 (skip_space r1)" "vs = [v]"
  | v r1 us where "scan_value n s = Ok (v, r1)" "scan_elements n (skip_space (drop 1 (skip_space r1))) = Ok (us, r)" "vs = v # us"
  using assms by (auto simp: Let_def result_simps split: if_splits)

lemma scan_members_step:
  assumes "scan_members (Suc n) s = Ok (kvs, r)"
  obtains k r0 v r1 where "opens quote_mark s" "scan_string (drop 1 s) = Some (k, r0)"
      "scan_value n (skip_space (drop 1 (skip_space r0))) = Ok (v, r1)" "r = drop 1 (skip_space r1)"
  | k r0 v r1 us where "opens quote_mark s" "scan_string (drop 1 s) = Some (k, r0)"
      "scan_value n (skip_space (drop 1 (skip_space r0))) = Ok (v, r1)"
      "scan_members n (skip_space (drop 1 (skip_space r1))) = Ok (us, r)"
proof (cases "scan_string (drop 1 s)")
  case None
  with assms show ?thesis by (simp split: if_splits)
next
  case (Some kr)
  obtain k r0 where kr: "kr = (k, r0)" by (cases kr)
  from assms Some kr have q: "opens quote_mark s" and c: "opens (CHR '':'') (skip_space r0)"
    by (auto split: if_splits)
  from assms Some kr q c obtain v r1 where v: "scan_value n (skip_space (drop 1 (skip_space r0))) = Ok (v, r1)"
    by (auto simp: result_simps)
  show ?thesis
    using assms Some kr q c v that by (auto simp: Let_def result_simps split: if_splits)
qed

lemma skip_skip_length: "length (skip_space (drop 1 (skip_space s))) \<le> length s"
  using skip_space_length [of "drop 1 (skip_space s)"] skip_space_length [of s] by simp

lemma drop_skip_length: "length (drop 1 (skip_space s)) \<le> length s"
  using skip_space_length [of s] by simp

lemma member_value_shorter:
  assumes "opens quote_mark s" and "scan_string (drop 1 s) = Some (k, r0)"
  shows "length (skip_space (drop 1 (skip_space r0))) < length s"
  using scan_string_shorter [OF assms(2)] skip_skip_length [of r0] opens_length [OF assms(1)] by simp

lemma scan_shorter:
  "scan_value n s = Ok (v, r) \<Longrightarrow> length r < length s"
  "scan_elements n s = Ok (vs, r) \<Longrightarrow> length r < length s"
  "scan_members n s = Ok (kvs, r) \<Longrightarrow> length r < length s"
proof (induction n arbitrary: s v r vs kvs)
  case 0
  {
    case 1 then show ?case by simp
  next
    case 2 then show ?case by simp
  next
    case 3 then show ?case by simp
  }
next
  case (Suc n)
  {
    case 1
    then show ?case
      by (rule scan_value_step) (rule Suc.IH, assumption)+
  next
    case 2
    then show ?case
      by (rule scan_elements_step) (use drop_skip_length skip_skip_length Suc.IH in \<open>(meson le_less_trans less_trans)+\<close>)
  next
    case 3
    then show ?case
      by (rule scan_members_step)
        (use member_value_shorter drop_skip_length skip_skip_length Suc.IH in \<open>(meson le_less_trans less_trans)+\<close>)
  }
qed

lemma opened_tail: "opens c s \<Longrightarrow> 2 * length s + 2 \<le> Suc n \<Longrightarrow> 2 * length (skip_space (drop 1 s)) + 3 \<le> n"
  using skip_drop_length [of s] opens_length [of c s] by linarith

lemma scan_value_fuel:
  assumes "\<And>c. opens c s \<Longrightarrow> scan_elements n (skip_space (drop 1 s)) = scan_elements k (skip_space (drop 1 s))"
    and "\<And>c. opens c s \<Longrightarrow> scan_members n (skip_space (drop 1 s)) = scan_members k (skip_space (drop 1 s))"
  shows "scan_value (Suc n) s = scan_value (Suc k) s"
proof (cases "opens (CHR ''['') s \<or> opens (CHR ''{'') s")
  case True
  then have "scan_elements n (skip_space (drop 1 s)) = scan_elements k (skip_space (drop 1 s))"
    "scan_members n (skip_space (drop 1 s)) = scan_members k (skip_space (drop 1 s))"
    using assms by blast+
  then show ?thesis by (simp only: scan_value.simps Let_def)
next
  case False
  then show ?thesis by (simp add: Let_def)
qed

lemma scan_elements_fuel:
  assumes "scan_value n s = scan_value k s"
    and "\<And>w r. scan_value k s = Ok (w, r) \<Longrightarrow>
           scan_elements n (skip_space (drop 1 (skip_space r))) = scan_elements k (skip_space (drop 1 (skip_space r)))"
  shows "scan_elements (Suc n) s = scan_elements (Suc k) s"
  unfolding scan_elements.simps assms(1) Let_def
  by (intro bindR_cong refl) (clarify, drule assms(2), simp only: prod.case simp_thms)

lemma scan_members_fuel:
  assumes "\<And>t r0. opens quote_mark s \<Longrightarrow> scan_string (drop 1 s) = Some (t, r0) \<Longrightarrow>
      scan_value n (skip_space (drop 1 (skip_space r0))) = scan_value k (skip_space (drop 1 (skip_space r0)))"
    and "\<And>t r0 w r. opens quote_mark s \<Longrightarrow> scan_string (drop 1 s) = Some (t, r0) \<Longrightarrow>
      scan_value k (skip_space (drop 1 (skip_space r0))) = Ok (w, r) \<Longrightarrow>
      scan_members n (skip_space (drop 1 (skip_space r))) = scan_members k (skip_space (drop 1 (skip_space r)))"
  shows "scan_members (Suc n) s = scan_members (Suc k) s"
proof (cases "opens quote_mark s")
  case False
  then show ?thesis by simp
next
  case True
  show ?thesis
  proof (cases "scan_string (drop 1 s)")
    case None
    then show ?thesis by simp
  next
    case (Some tr)
    obtain t r0 where tr: "tr = (t, r0)" by (cases tr)
    show ?thesis
      unfolding scan_members.simps Some tr option.case prod.case Let_def assms(1) [OF True Some [unfolded tr]]
      by (intro if_cong bindR_cong refl) (clarify, drule assms(2) [OF True Some [unfolded tr]], simp only: prod.case simp_thms)
  qed
qed

lemma scan_fuel:
  "2 * length s + 2 \<le> n \<Longrightarrow> 2 * length s + 2 \<le> m \<Longrightarrow> scan_value n s = scan_value m s"
  "2 * length s + 3 \<le> n \<Longrightarrow> 2 * length s + 3 \<le> m \<Longrightarrow> scan_elements n s = scan_elements m s"
  "2 * length s + 3 \<le> n \<Longrightarrow> 2 * length s + 3 \<le> m \<Longrightarrow> scan_members n s = scan_members m s"
proof (induction n arbitrary: s m)
  case 0
  {
    case 1 then show ?case by simp
  next
    case 2 then show ?case by simp
  next
    case 3 then show ?case by simp
  }
next
  case (Suc n)
  {
    case 1
    then obtain k where m: "m = Suc k" by (cases m) auto
    show ?case
      unfolding m
    proof (rule scan_value_fuel)
      fix c assume "opens c s"
      then have "2 * length (skip_space (drop 1 s)) + 3 \<le> n" "2 * length (skip_space (drop 1 s)) + 3 \<le> k"
        using 1 opened_tail unfolding m by blast+
      then show "scan_elements n (skip_space (drop 1 s)) = scan_elements k (skip_space (drop 1 s))"
        "scan_members n (skip_space (drop 1 s)) = scan_members k (skip_space (drop 1 s))"
        by (rule Suc.IH)+
    qed
  next
    case 2
    then obtain k where m: "m = Suc k" by (cases m) auto
    show ?case
      unfolding m
    proof (rule scan_elements_fuel)
      show "scan_value n s = scan_value k s"
        using 2 unfolding m by (intro Suc.IH(1)) linarith+
    next
      fix w r assume "scan_value k s = Ok (w, r)"
      from scan_shorter(1) [OF this] skip_skip_length [of r]
      show "scan_elements n (skip_space (drop 1 (skip_space r))) = scan_elements k (skip_space (drop 1 (skip_space r)))"
        using 2 unfolding m by (intro Suc.IH(2)) linarith+
    qed
  next
    case 3
    then obtain k where m: "m = Suc k" by (cases m) auto
    show ?case
      unfolding m
    proof (rule scan_members_fuel)
      fix t r0 assume "opens quote_mark s" "scan_string (drop 1 s) = Some (t, r0)"
      note short = member_value_shorter [OF this]
      then show "scan_value n (skip_space (drop 1 (skip_space r0))) = scan_value k (skip_space (drop 1 (skip_space r0)))"
        using 3 unfolding m by (intro Suc.IH(1)) linarith+
      fix w r assume "scan_value k (skip_space (drop 1 (skip_space r0))) = Ok (w, r)"
      from scan_shorter(1) [OF this] short skip_skip_length [of r]
      show "scan_members n (skip_space (drop 1 (skip_space r))) = scan_members k (skip_space (drop 1 (skip_space r)))"
        using 3 unfolding m by (intro Suc.IH(3)) linarith+
    qed
  }
qed

theorem loads_fuel:
  assumes "2 * length s + 2 \<le> n"
  shows "loads s = bindR (scan_value n (skip_space s)) (\<lambda>(v, r). if skip_space r = [] then Ok v else Raise JSONDecodeError)"
proof -
  have "scan_value (2 * length s + 2) (skip_space s) = scan_value n (skip_space s)"
    using skip_space_length [of s] assms by (intro scan_fuel(1)) simp_all
  then show ?thesis
    by (simp add: loads_def)
qed

end
