(* ===== verification/ReviewCampaign.thy ===== *)
theory ReviewCampaign
  imports ReviewPanel PyLoads
begin

text \<open>
  Running a review: proposals and their sources (\<open>subprocess_adapter.py\<close>), the disposition and its seal
  (\<open>disposition.py\<close>), the two-stage campaign (\<open>campaign.py\<close>) and the exit status of its command
  (\<open>cli.py\<close>). A proposal source is a function from a role and its prompt to the proposal text and its
  receipt; the transcripts on disk and the launched process are arguments of the two sources.
\<close>

section \<open>Proposals\<close>

definition reject :: "'a result" where
  "reject = Raise (ReviewError InputContractError)"

text \<open>\<open>_extract_json\<close>: the whole text, or else what stands between the first and the last brace.\<close>

definition embedded_object :: "string \<Rightarrow> json result" where
  "embedded_object s =
     (case (find_char (CHR ''{'') s, rfind_char (CHR ''}'') s) of
        (Some i, Some j) \<Rightarrow>
          if j \<le> i then reject
          else (case loads (drop i (take (Suc j) s)) of Inl JSONDecodeError \<Rightarrow> reject | r \<Rightarrow> r)
      | _ \<Rightarrow> reject)"

definition extract_json :: "string \<Rightarrow> dict result" where
  "extract_json text =
     (let s = text_strip text in
      if s = [] then reject
      else bindR (case loads s of Inl JSONDecodeError \<Rightarrow> embedded_object s | r \<Rightarrow> r) (\<lambda>v.
             case v of JObj d \<Rightarrow> Ok d | _ \<Rightarrow> reject))"

definition proposal_finding :: "reviewer_role \<Rightarrow> json \<Rightarrow> finding result" where
  "proposal_finding role v =
     (case v of JObj d \<Rightarrow> finding_from (dset d ''role_id'' (JStr (rl_id role))) | _ \<Rightarrow> Raise TypeError)"

definition parse_proposal :: "reviewer_role \<Rightarrow> string \<Rightarrow> subprocess_receipt \<Rightarrow> reviewer_report result" where
  "parse_proposal role text receipt =
     bindR (extract_json text) (\<lambda>payload.
     bindR (require (py_str (dget_or payload ''role_id'' (JStr [])) = rl_id role)) (\<lambda>_.
       case dget_or payload ''findings'' (JList []) of
         JList items \<Rightarrow>
           bindR (mapR (proposal_finding role) items) (\<lambda>fs.
           bindR (mandate_digest role) (\<lambda>mandate.
           bindR (text_items payload ''coverage_notes'') (\<lambda>notes.
           bindR (text_items payload ''declared_dependencies'') (\<lambda>deps.
             Ok \<lparr>rp_role = rl_id role, rp_title = rl_title role, rp_mandate = mandate, rp_findings = fs, rp_notes = notes,
                 rp_dependencies = deps, rp_receipt = Some receipt\<rparr>))))
       | _ \<Rightarrow> reject))"

section \<open>Sources\<close>

type_synonym source = "reviewer_role \<Rightarrow> string \<Rightarrow> (string \<times> subprocess_receipt) result"

definition task_of :: "reviewer_role \<Rightarrow> string" where
  "task_of role = ''adversarial-review:'' @ rl_id role"

text \<open>\<open>ReplaySource.run\<close>; \<open>transcripts\<close> gives the bytes of the transcript of a role, if there is one.\<close>

definition replay_receipt :: "reviewer_role \<Rightarrow> string \<Rightarrow> dict \<Rightarrow> json \<Rightarrow> subprocess_receipt result" where
  "replay_receipt role prompt_digest payload response =
     bindR (digest_value response) (\<lambda>response_digest.
     bindR (py_float (dget_or payload ''cost_usd_upper_bound'' (JFloat (Num 0)))) (\<lambda>cost.
       Ok \<lparr>rc_role = rl_id role, rc_engine = py_str (dget_or payload ''engine'' (JStr ''replay'')),
           rc_model = py_str (dget_or payload ''model'' (JStr ''replay'')), rc_task = task_of role,
           rc_prompt = prompt_digest, rc_response = response_digest, rc_input_tokens = dget payload ''input_tokens'',
           rc_output_tokens = dget payload ''output_tokens'', rc_cost = cost, rc_seconds = Num 0,
           rc_status = ''replayed''\<rparr>))"

definition replay_source :: "bool \<Rightarrow> (string \<Rightarrow> string option) \<Rightarrow> source" where
  "replay_source strict transcripts role prompt =
     (case transcripts (rl_id role) of
        None \<Rightarrow> reject
      | Some b \<Rightarrow>
          if \<not> valid_utf8 b then Raise (ValueError ''invalid utf-8'')
          else
            bindR (loads (translate_newlines b)) (\<lambda>v.
            case v of
              JObj payload \<Rightarrow>
                (let prompt_digest = sha256_hex prompt in
                 bindR (require (strict \<longrightarrow> py_str (dget_or payload ''prompt_digest'' (JStr [])) = prompt_digest)) (\<lambda>_.
                 case map_of payload ''response'' of
                   None \<Rightarrow> Raise KeyError
                 | Some response \<Rightarrow>
                     bindR (replay_receipt role prompt_digest payload response) (\<lambda>receipt.
                       Ok (dumps_sorted response, receipt))))
            | _ \<Rightarrow> Raise AttributeError))"

record budget =
  bg_tokens :: int
  bg_seconds :: flt
  bg_cost :: flt

definition default_budget :: budget where
  "default_budget = \<lparr>bg_tokens = 16000, bg_seconds = lit 900, bg_cost = Num 1\<rparr>"

definition check_wall_clock :: "budget \<Rightarrow> flt \<Rightarrow> unit result" where
  "check_wall_clock b elapsed =
     (if flt_less (bg_seconds b) elapsed then Raise (ReviewError SubprocessBudgetError) else Ok ())"

definition ENGINE_ARGV :: "(string \<times> string list) list" where
  "ENGINE_ARGV =
     [(''claude'', [''claude'', ''--dangerously-skip-permissions'', ''-p'']),
      (''codex'', [''codex'', ''--yolo'', ''exec'', ''--skip-git-repo-check''])]"

text \<open>\<open>LiveSource.run\<close>; \<open>launch\<close> runs a command and gives its output, return code and elapsed seconds.\<close>

definition live_source ::
  "string \<Rightarrow> string \<Rightarrow> budget \<Rightarrow> (string list \<Rightarrow> flt \<Rightarrow> (string \<times> int \<times> flt) result) \<Rightarrow> source" where
  "live_source engine model b launch role prompt =
     (case map_of ENGINE_ARGV engine of
        None \<Rightarrow> reject
      | Some argv \<Rightarrow>
          bindR (launch (argv @ [prompt]) (bg_seconds b)) (\<lambda>(out, code, elapsed).
          bindR (check_wall_clock b elapsed) (\<lambda>_.
            Ok (out, \<lparr>rc_role = rl_id role, rc_engine = engine, rc_model = model, rc_task = task_of role,
                      rc_prompt = sha256_hex prompt, rc_response = sha256_hex out, rc_input_tokens = JNull,
                      rc_output_tokens = JNull, rc_cost = bg_cost b, rc_seconds = elapsed,
                      rc_status = (if code = 0 then ''ok'' else ''exit:'' @ show_int code)\<rparr>))))"

section \<open>Disposition\<close>

definition LAUNCH_BLOCKED :: string where "LAUNCH_BLOCKED = ''launch_blocked''"
definition LAUNCH_BLOCKED_BY_CONFLICT :: string where "LAUNCH_BLOCKED_BY_CONFLICT = ''launch_blocked_by_conflict''"
definition NO_BLOCKING_FINDINGS :: string where "NO_BLOCKING_FINDINGS = ''no_blocking_findings''"

definition NON_AUTHORIZATION_NOTICE :: string where
  "NON_AUTHORIZATION_NOTICE =
     ''This disposition records the outcome of an adversarial review against one declared, digest-bound input set. It authorizes nothing. It does not authorize an experiment, a provider action, a spend, a scientific claim, or a submission. A verdict of no_blocking_findings means twelve hostile reviewers could not ground a blocking objection against these exact inputs; it is not evidence that the study is correct.''"

definition override_step :: "string set \<Rightarrow> string list \<Rightarrow> override \<Rightarrow> string list result" where
  "override_step known seen v =
     (if ov_digest v \<notin> known \<or> ov_digest v \<in> set seen then Raise (ReviewError OverrideContractError)
      else Ok (ov_digest v # seen))"

definition validate_overrides :: "override list \<Rightarrow> falsification_item list \<Rightarrow> unit result" where
  "validate_overrides overrides items =
     bindR (foldR (override_step (set (map fa_digest items))) [] overrides) (\<lambda>_. Ok ())"

text \<open>An item stands unless a receipt discharged it or a human overrode it.\<close>

definition stands :: "dict \<Rightarrow> string list \<Rightarrow> falsification_item \<Rightarrow> bool" where
  "stands discharged overridden i \<longleftrightarrow> \<not> truthy (dget discharged (fa_digest i)) \<and> fa_digest i \<notin> set overridden"

definition standing_blockers :: "dict \<Rightarrow> string list \<Rightarrow> falsification_item list \<Rightarrow> falsification_item list" where
  "standing_blockers discharged overridden items =
     filter (\<lambda>i. fa_disposition i = Blocking \<and> stands discharged overridden i) items"

definition standing_majors :: "dict \<Rightarrow> string list \<Rightarrow> falsification_item list \<Rightarrow> falsification_item list" where
  "standing_majors discharged overridden items =
     filter (\<lambda>i. fa_severity i = Major \<and> stands discharged overridden i) items"

definition verdict_of :: "conflict list \<Rightarrow> falsification_item list \<Rightarrow> falsification_item list \<Rightarrow> string" where
  "verdict_of conflicts blocking majors =
     (if blocking_conflicts conflicts \<noteq> [] then LAUNCH_BLOCKED_BY_CONFLICT
      else if blocking \<noteq> [] \<or> MAJOR_QUORUM \<le> length majors then LAUNCH_BLOCKED
      else NO_BLOCKING_FINDINGS)"

definition decide ::
  "string \<Rightarrow> string \<Rightarrow> string \<Rightarrow> reviewer_report list \<Rightarrow> editor_synthesis \<Rightarrow> falsification_item list \<Rightarrow> conflict list \<Rightarrow>
   override list \<Rightarrow> dict \<Rightarrow> readiness_disposition result" where
  "decide campaign_id stage inputs_hash reports synthesis items conflicts overrides discharged =
     bindR (validate_overrides overrides items) (\<lambda>_.
     let overridden = sort (map ov_digest overrides);
         blocking = standing_blockers discharged overridden items;
         majors = standing_majors discharged overridden items;
         named = (if blocking = [] \<and> MAJOR_QUORUM \<le> length majors then take MAJOR_QUORUM majors else blocking) in
     bindR (digest_value (JList (map report_json reports))) (\<lambda>reports_hash.
     bindR (digest_value (synthesis_json synthesis)) (\<lambda>synthesis_hash.
     bindR (digest_value (JList (map item_json items))) (\<lambda>items_hash.
       sealed \<lparr>rd_campaign = campaign_id, rd_stage = stage, rd_verdict = verdict_of conflicts blocking majors,
               rd_inputs = inputs_hash, rd_reports = reports_hash, rd_synthesis = synthesis_hash,
               rd_falsification = items_hash, rd_blocking = sort (map fa_digest named), rd_overridden = overridden,
               rd_notice = NON_AUTHORIZATION_NOTICE, rd_digest = []\<rparr>))))"

definition verify_seal :: "readiness_disposition \<Rightarrow> bool result" where
  "verify_seal d = bindR (digest_value (JObj (readiness_json d))) (\<lambda>h. Ok (rd_digest d = h))"

section \<open>The campaign\<close>

definition STAGE_PRE_LAUNCH :: string where "STAGE_PRE_LAUNCH = ''stage_1_pre_launch''"
definition STAGE_PRE_SUBMISSION :: string where "STAGE_PRE_SUBMISSION = ''stage_2_pre_submission''"

record campaign_result =
  cr_campaign :: string
  cr_stage :: string
  cr_inputs :: string
  cr_reports :: "reviewer_report list"
  cr_verifications :: "verification_outcome list"
  cr_conflicts :: "conflict list"
  cr_synthesis :: editor_synthesis
  cr_items :: "falsification_item list"
  cr_disposition :: readiness_disposition

definition result_json :: "campaign_result \<Rightarrow> dict" where
  "result_json r =
     [(''campaign_id'', JStr (cr_campaign r)), (''stage'', JStr (cr_stage r)), (''inputs_digest'', JStr (cr_inputs r)),
      (''reports'', JList (map report_json (cr_reports r))), (''verifications'', JList (map outcome_json (cr_verifications r))),
      (''conflicts'', JList (map conflict_json (cr_conflicts r))), (''synthesis'', synthesis_json (cr_synthesis r)),
      (''falsification'', JList (map item_json (cr_items r))),
      (''disposition'', JObj (readiness_json (cr_disposition r) @
         [(''disposition_digest'', JStr (rd_digest (cr_disposition r)))]))]"

definition all_findings :: "reviewer_report list \<Rightarrow> finding list" where
  "all_findings reports = concat (map rp_findings reports)"

text \<open>One reviewer of stage one: its proposal, grounded, with the verification outcomes.\<close>

definition review_role ::
  "campaign_inputs \<Rightarrow> source \<Rightarrow> string \<Rightarrow> (reviewer_report \<times> verification_outcome list) result" where
  "review_role inputs src role_id =
     (case role_by_id role_id of
        None \<Rightarrow> Raise KeyError
      | Some role \<Rightarrow>
          bindR (src role (role_prompt role)) (\<lambda>(text, receipt).
          bindR (parse_proposal role text receipt) (\<lambda>proposal.
          bindR (verify_all (rp_findings proposal) inputs) (\<lambda>(recorded, outcomes).
          bindR (require (duplicate_finding_ids recorded = [])) (\<lambda>_.
            Ok (proposal\<lparr>rp_findings := recorded\<rparr>, outcomes))))))"

text \<open>Stage two over the sealed reports.\<close>

definition conclude ::
  "string \<Rightarrow> string \<Rightarrow> campaign_inputs \<Rightarrow> claim list \<Rightarrow> override list \<Rightarrow> dict \<Rightarrow> reviewer_report list \<Rightarrow>
   verification_outcome list \<Rightarrow> campaign_result result" where
  "conclude campaign_id stage inputs claims overrides discharged reports outcomes =
     (let conflicts = detect_conflicts reports in
      bindR (synthesize reports claims) (\<lambda>synthesis.
      bindR (chair_convert (all_findings reports) (stage = STAGE_PRE_SUBMISSION)) (\<lambda>items.
      bindR (inputs_digest inputs) (\<lambda>h.
      bindR (decide campaign_id stage h reports synthesis items conflicts overrides discharged) (\<lambda>d.
        Ok \<lparr>cr_campaign = campaign_id, cr_stage = stage, cr_inputs = h, cr_reports = reports,
            cr_verifications = outcomes, cr_conflicts = conflicts, cr_synthesis = synthesis, cr_items = items,
            cr_disposition = d\<rparr>)))))"

definition review_campaign ::
  "string \<Rightarrow> string \<Rightarrow> campaign_inputs \<Rightarrow> claim list \<Rightarrow> source \<Rightarrow> string list \<Rightarrow> override list \<Rightarrow> dict \<Rightarrow>
   campaign_result result" where
  "review_campaign campaign_id stage inputs claims src role_ids overrides discharged =
     bindR (require (stage \<in> {STAGE_PRE_LAUNCH, STAGE_PRE_SUBMISSION})) (\<lambda>_.
     bindR (require (ci_stage inputs = stage)) (\<lambda>_.
     bindR (require (list_all (\<lambda>s. role_by_id s \<noteq> None) role_ids)) (\<lambda>_.
     bindR (required_slots_for role_ids) (\<lambda>slots.
     bindR (preflight inputs slots) (\<lambda>_.
     bindR (mapR (review_role inputs src) (sort role_ids)) (\<lambda>rows.
       conclude campaign_id stage inputs claims overrides discharged
         (sort_key rp_role (map fst rows)) (concat (map snd rows))))))))"

section \<open>Artifacts and exit status\<close>

text \<open>\<open>write_campaign\<close>: the files written, each with its text and digest.\<close>

definition campaign_files :: "campaign_result \<Rightarrow> (string \<times> string \<times> string) list result" where
  "campaign_files r =
     mapR (\<lambda>(name, v). bindR (review_json v) (\<lambda>t. bindR (digest_value v) (\<lambda>h. Ok (name, t, h))))
       [(''campaign.json'', JObj (result_json r)), (''findings.json'', JList (map report_json (cr_reports r))),
        (''claim-matrix.json'', JList (map claim_row_json (sy_matrix (cr_synthesis r)))),
        (''falsification.json'', JList (map item_json (cr_items r))),
        (''disposition.json'', JObj (readiness_json (cr_disposition r) @
           [(''disposition_digest'', JStr (rd_digest (cr_disposition r)))]))]"

definition EXIT_OK :: int where "EXIT_OK = 0"
definition EXIT_BLOCKED :: int where "EXIT_BLOCKED = 1"
definition EXIT_FAIL_CLOSED :: int where "EXIT_FAIL_CLOSED = 2"

definition run_exit :: "campaign_result \<Rightarrow> int" where
  "run_exit r = (if rd_verdict (cr_disposition r) = NO_BLOCKING_FINDINGS then EXIT_OK else EXIT_BLOCKED)"

text \<open>\<open>main\<close>: a review error is an exit status, any other exception escapes.\<close>

definition main_exit :: "int result \<Rightarrow> int result" where
  "main_exit handled = (case handled of Inl (ReviewError _) \<Rightarrow> Ok EXIT_FAIL_CLOSED | r \<Rightarrow> r)"

text \<open>\<open>_prompt\<close> and \<open>_roles\<close>: the exit status and the lines on standard output.\<close>

definition prompt_command :: "string \<Rightarrow> int \<times> string list" where
  "prompt_command role_id =
     (case role_by_id role_id of None \<Rightarrow> (EXIT_FAIL_CLOSED, []) | Some role \<Rightarrow> (EXIT_OK, [role_prompt role]))"

definition roles_command :: "int \<times> string list" where
  "roles_command =
     (EXIT_OK, map (\<lambda>r. rl_id r @ [CHR 0x09] @ rl_stage r @ [CHR 0x09] @ rl_title r) ROLES)"

end
