(* ===== verification/ReviewReport.thy ===== *)
theory ReviewReport
  imports ReviewCampaign
begin

text \<open>
  The readable report of a review campaign (\<open>adversarial_review/report.py\<close>), rendered from the sealed
  record alone.
\<close>

section \<open>Pieces\<close>

definition or_dash :: "string \<Rightarrow> string" where
  "or_dash s = (if s = [] then em_dash else s)"

definition code_span :: "string \<Rightarrow> string" where
  "code_span s = ''`'' @ s @ ''`''"

fun severity_title :: "severity \<Rightarrow> string" where
  "severity_title Blocker = ''Blocking findings''"
| "severity_title Major = ''Major findings''"
| "severity_title Minor = ''Minor findings''"
| "severity_title Speculation = ''Speculation (recorded, cannot block)''"

definition evidence_line :: "evidence_ref \<Rightarrow> string" where
  "evidence_line ref =
     (let span = (if truthy (er_start ref)
                  then '':'' @ py_str (er_start ref) @
                       (if truthy (er_end ref) \<and> \<not> py_eq (er_end ref) (er_start ref) then ''-'' @ py_str (er_end ref) else [])
                  else []) in
      ''- '' @ code_span (kind_text (er_kind ref)) @ '' '' @ code_span (er_locator ref @ span) @ '' '' @ em_dash @ '' '' @
      er_detail ref)"

definition render_finding :: "finding \<Rightarrow> string list result" where
  "render_finding f =
     bindR (finding_digest f) (\<lambda>h. Ok (
       [''### '' @ code_span (fi_id f) @ '' '' @ fi_title f, [],
        ''- **Role:** '' @ fi_role f, ''- **Digest:** '' @ code_span h,
        ''- **Claims attacked:** '' @ or_dash (join '', '' (fi_claims f)), [],
        fi_statement f, [], ''**Failure mode.** '' @ fi_failure f, []] @
       (if fi_refute f = [] then [] else [''**Refuted by.** '' @ fi_refute f, []]) @
       (if fi_evidence f = [] then [] else [''**Evidence.**'', []] @ map evidence_line (fi_evidence f) @ [[]]) @
       (if fi_reproduction f = [] then [] else [''**Reproduction.**'', [], ''```sh''] @ fi_reproduction f @ [''```'', []])))"

definition render_severity :: "finding list \<Rightarrow> severity \<Rightarrow> string list result" where
  "render_severity fs s =
     (if of_severity s fs = [] then Ok []
      else bindR (mapR render_finding (sort_key (\<lambda>f. (fi_role f, fi_id f)) (of_severity s fs))) (\<lambda>lines.
             Ok ([''## '' @ severity_title s, []] @ concat lines @ [[]])))"

definition conflict_line :: "conflict \<Rightarrow> string" where
  "conflict_line c =
     ''- **'' @ cn_kind c @ ''** ('' @ (if cn_blocking c then ''BLOCKING'' else ''advisory'') @ '') '' @ em_dash @ '' '' @
     join '', '' (cn_roles c) @ '': '' @ cn_detail c"

definition render_conflicts :: "conflict list \<Rightarrow> string list" where
  "render_conflicts cs =
     (if cs = [] then [] else [''## Independence and conflicts of interest'', []] @ map conflict_line cs @ [[]])"

definition matrix_line :: "claim_row \<Rightarrow> string" where
  "matrix_line w =
     ''| '' @ code_span (cw_id w) @ '' | '' @ or_dash (join '', '' (cw_support w)) @ '' | '' @
     or_dash (join '', '' (map (take_points 12) (cw_attacks w))) @ '' | '' @ (if cw_unsupported w then ''**yes**'' else ''no'') @
     '' |''"

definition render_matrix :: "claim_row list \<Rightarrow> string list" where
  "render_matrix rows =
     [''## Evidence-to-claim matrix'', [], ''| claim | supporting evidence | attacking findings | unsupported |'',
      ''| --- | --- | --- | --- |''] @ map matrix_line rows @ [[]]"

definition item_line :: "falsification_item \<Rightarrow> string" where
  "item_line i =
     ''| '' @ code_span (fa_gate i) @ '' | '' @ severity_text (fa_severity i) @ '' | '' @ fa_owner i @ '' | '' @
     code_span (chair_text (fa_disposition i)) @ '' | '' @ replace_str ''|'' [CHR 0x5C, CHR ''|''] (fa_test i) @ '' |''"

definition render_items :: "falsification_item list \<Rightarrow> string list" where
  "render_items items =
     [''## Falsification schedule'', []] @
     (if items = [] then [''No finding required conversion into a falsification test.'']
      else [''| gate | severity | owner | disposition | test |'', ''| --- | --- | --- | --- | --- |''] @ map item_line items) @
     [[]]"

definition render_stragglers :: "falsification_item list \<Rightarrow> string list" where
  "render_stragglers items =
     (if items = [] then []
      else [''### Findings the chair could not convert into a decidable test'', []] @
           map (\<lambda>i. ''- '' @ code_span (take_points 12 (fa_digest i)) @ '' from '' @ fa_role i) items @ [[]])"

definition render_dissent :: "string list \<Rightarrow> string list" where
  "render_dissent notes =
     (if notes = [] then [] else [''## Preserved dissent'', []] @ map (\<lambda>n. ''- '' @ n) notes @ [[]])"

definition render_overrides :: "string list \<Rightarrow> string list" where
  "render_overrides hs =
     (if hs = [] then []
      else [''## Human overrides'', [],
            ''Each override below records accepted risk. The underlying finding remains in this report verbatim and was not erased.'',
            []] @ map (\<lambda>h. ''- '' @ code_span (take_points 12 h)) hs @ [[]])"

definition receipt_line :: "reviewer_report \<Rightarrow> string" where
  "receipt_line r =
     (case rp_receipt r of
        None \<Rightarrow> ''| '' @ rp_role r @ '' | '' @ em_dash @ '' | '' @ em_dash @ '' | '' @ em_dash @ '' | '' @ em_dash @
                '' | no receipt |''
      | Some c \<Rightarrow>
          ''| '' @ rc_role c @ '' | '' @ rc_engine c @ '' | '' @ rc_model c @ '' | '' @
          (if rc_output_tokens c = JNull then em_dash else py_str (rc_output_tokens c)) @ '' | '' @
          fmt_fixed 2 (rc_cost c) @ '' | '' @ rc_status c @ '' |'')"

definition render_receipts :: "reviewer_report list \<Rightarrow> string list" where
  "render_receipts reports =
     [''## Subprocess receipts'', [], ''| role | engine | model | output tokens | cost bound (USD) | status |'',
      ''| --- | --- | --- | ---: | ---: | --- |''] @ map receipt_line reports @ [[]]"

section \<open>The report\<close>

definition render_head :: "campaign_result \<Rightarrow> string list" where
  "render_head r =
     [''# Adversarial review '' @ em_dash @ '' '' @ cr_campaign r, [],
      ''**Stage:** '' @ code_span (cr_stage r), ''**Verdict:** '' @ code_span (rd_verdict (cr_disposition r)),
      ''**Inputs digest:** '' @ code_span (cr_inputs r),
      ''**Disposition digest:** '' @ code_span (rd_digest (cr_disposition r)), [],
      ''> '' @ replace_str newline '' '' (rd_notice (cr_disposition r)), [],
      ''## Strongest case for rejection'', [], sy_argument (cr_synthesis r), []]"

definition render :: "campaign_result \<Rightarrow> string result" where
  "render r =
     bindR (mapR (render_severity (all_findings (cr_reports r))) SEVERITIES) (\<lambda>groups.
       Ok (join newline
             (render_head r @ render_conflicts (cr_conflicts r) @ concat groups @ render_matrix (sy_matrix (cr_synthesis r)) @
              render_items (cr_items r) @ render_stragglers (underspecified_items (cr_items r)) @
              render_dissent (sy_dissent (cr_synthesis r)) @ render_overrides (rd_overridden (cr_disposition r)) @
              render_receipts (cr_reports r)) @ newline))"

end
