(* ===== verification/PyRoundtrip.thy ===== *)
theory PyRoundtrip
  imports PyLoads
begin

text \<open>
  The decoder reads back what the encoder wrote: for values without floats whose strings are valid
  UTF-8 and whose dicts are sorted, \<open>loads\<close> inverts both the default text and the compact one.
\<close>

section \<open>Numbers\<close>

lemma digit_char_digit: "0 \<le> d \<Longrightarrow> d \<le> 9 \<Longrightarrow> is_digit (digit_char d) \<and> int (of_char (digit_char d)) - 48 = d"
  by (simp add: is_digit_def digit_char_def of_char_of nat_mod_distrib)

lemma scan_digits_append:
  "list_all is_digit ds \<Longrightarrow>
   scan_digits (ds @ s) v n = scan_digits s (foldl (\<lambda>a c. 10 * a + (int (of_char c) - 48)) v ds) (n + length ds)"
  by (induction ds arbitrary: v n) auto

lemma show_digits_digits: "0 \<le> i \<Longrightarrow> list_all is_digit (show_digits i)"
proof (induction i rule: show_digits.induct)
  case (1 n)
  then show ?case
    by (subst show_digits.simps) (simp add: digit_char_digit)
qed

lemma show_digits_value:
  "0 \<le> i \<Longrightarrow> foldl (\<lambda>a c. 10 * a + (int (of_char c) - 48)) 0 (show_digits i) = i"
proof (induction i rule: show_digits.induct)
  case (1 n)
  then show ?case
    using digit_char_digit [of "n mod 10"] digit_char_digit [of n]
    by (subst show_digits.simps) auto
qed

lemma show_digits_head: "0 < i \<Longrightarrow> hd (show_digits i) \<noteq> CHR ''0''"
proof (induction i rule: show_digits.induct)
  case (1 n)
  show ?case
  proof (cases "n < 10")
    case True
    then have "int (of_char (hd (show_digits n))) = 48 + n"
      using digit_char_digit [of n] 1(2) by (subst show_digits.simps) auto
    with 1(2) show ?thesis by auto
  next
    case False
    then show ?thesis
      using 1 by (subst show_digits.simps) simp
  qed
qed

lemma show_digits_0: "show_digits 0 = ''0''"
  by code_simp

text \<open>What may follow a value.\<close>

definition stop :: "string \<Rightarrow> bool" where
  "stop r \<longleftrightarrow> r = [] \<or> hd r \<in> {CHR '','', CHR '']'', CHR ''}'', CHR 0x0A}"

lemma stop_tail: "stop r \<Longrightarrow> scan_fraction r = [] \<and> scan_exponent r = [] \<and> lead_digits r = []"
  by (cases r) (auto simp: stop_def scan_fraction_def scan_exponent_def lead_digits_def is_digit_def)

lemma lead_digits_append: "list_all is_digit ds \<Longrightarrow> lead_digits (ds @ s) = ds @ lead_digits s"
  by (induction ds) (auto simp: lead_digits_def)

lemma whole_digits:
  assumes "0 \<le> i" and "stop r"
  shows "(if take 1 (show_digits i @ r) = ''0'' then ''0'' else lead_digits (show_digits i @ r)) = show_digits i"
proof (cases "i = 0")
  case True
  then show ?thesis by (simp add: show_digits_0)
next
  case False
  with assms show_digits_head [of i] have "take 1 (show_digits i @ r) \<noteq> ''0''"
    by (cases "show_digits i") auto
  with assms show ?thesis
    by (simp add: lead_digits_append show_digits_digits stop_tail)
qed

lemma digit_start: "0 \<le> i \<Longrightarrow> \<exists>c cs. show_digits i = c # cs \<and> is_digit c"
  using show_digits_digits [of i] by (cases "show_digits i") auto

lemma number_parts_int:
  assumes "stop r"
  shows "number_parts (show_int i @ r) = (if i < 0 then ''-'' else [], show_digits \<bar>i\<bar>, [], [])"
proof -
  let ?sign = "if i < 0 then ''-'' else []"
  obtain c cs where c: "show_digits \<bar>i\<bar> = c # cs" "is_digit c"
    using digit_start [of "\<bar>i\<bar>"] by auto
  moreover from this have "c \<noteq> CHR ''-''"
    by (auto simp: is_digit_def)
  ultimately have sign: "(case show_int i @ r of c # _ \<Rightarrow> if c = CHR ''-'' then [c] else [] | [] \<Rightarrow> []) = ?sign"
    by (auto simp: show_int_def)
  have s1: "drop (length ?sign) (show_int i @ r) = show_digits \<bar>i\<bar> @ r"
    by (auto simp: show_int_def)
  have s2: "drop (length (show_digits \<bar>i\<bar>)) (show_digits \<bar>i\<bar> @ r) = r"
    by simp
  show ?thesis
    unfolding number_parts_def sign Let_def s1 whole_digits [OF abs_ge_zero assms] s2 using stop_tail [OF assms] by simp
qed

lemma dropWhile_solid: "\<not> p (hd s) \<Longrightarrow> dropWhile p s = s"
  by (cases s) auto

lemma strip_solid: "s \<noteq> [] \<Longrightarrow> \<not> is_space (hd s) \<Longrightarrow> \<not> is_space (last s) \<Longrightarrow> strip s = s"
  by (simp add: strip_def dropWhile_solid hd_rev)

lemma digit_no_space: "is_digit c \<Longrightarrow> \<not> is_space c"
  by (auto simp: is_digit_def is_space_def Let_def)

lemma minus_solid: "\<not> is_space CHR ''-''"
  by (simp add: is_space_def)

lemma show_int_solid: "strip (show_int i) = show_int i"
proof (rule strip_solid)
  have d: "list_all is_digit (show_digits \<bar>i\<bar>)" "show_digits \<bar>i\<bar> \<noteq> []"
    by (simp_all add: show_digits_digits)
  then have "is_digit (last (show_digits \<bar>i\<bar>))" "is_digit (hd (show_digits \<bar>i\<bar>))"
    by (simp_all add: list_all_iff)
  then show "\<not> is_space (last (show_int i))" "\<not> is_space (hd (show_int i))"
    using d minus_solid by (auto simp: show_int_def digit_no_space)
qed (simp add: show_int_def)

lemma parse_show_int: "parse_int (show_int i) = Some i"
proof (cases "i < 0")
  case True
  then show ?thesis
    using scan_digits_append [OF show_digits_digits, of "- i" "[]" 0 0] show_digits_value [of "- i"]
    by (simp add: parse_int_def show_int_solid) (simp add: show_int_def scan_sign_def)
next
  case False
  obtain c cs where "show_digits i = c # cs" "is_digit c"
    using digit_start [of i] False by auto
  moreover from this have "c \<noteq> CHR ''-''" "c \<noteq> CHR ''+''"
    by (auto simp: is_digit_def)
  ultimately show ?thesis
    using False scan_digits_append [OF show_digits_digits, of i "[]" 0 0] show_digits_value [of i]
    by (simp add: parse_int_def show_int_solid) (simp add: show_int_def scan_sign_def)
qed

lemma scan_number_int:
  assumes "stop r" and "length (show_digits \<bar>i\<bar>) \<le> 4300"
  shows "scan_number (show_int i @ r) = Ok (JInt i, r)"
proof -
  have "(if i < 0 then ''-'' else []) @ show_digits \<bar>i\<bar> = show_int i"
    by (auto simp: show_int_def)
  then show ?thesis
    using assms by (simp add: scan_number_def number_parts_int parse_show_int Let_def)
qed

section \<open>Strings\<close>

lemma hex_value_char: "d < 16 \<Longrightarrow> hex_value (hex_char d) = Some d"
  by (auto simp: hex_value_def hex_char_def of_char_of Let_def)

lemma scan_hex4_hex4:
  assumes "n < 65536"
  shows "scan_hex4 (hex4 n @ t) = Some (n, t)"
proof -
  define q r where "q = n div 256" and "r = n mod 256"
  have small: "q div 16 < 16" "r div 16 < 16"
    using assms by (simp_all add: q_def r_def less_mult_imp_div_less)
  then have "scan_hex4 (hex4 n @ t) = Some (((q div 16 * 16 + q mod 16) * 16 + r div 16) * 16 + r mod 16, t)"
    by (simp add: scan_hex4_def hex4_def hex2_def hex_value_char flip: q_def r_def)
  moreover have "((q div 16 * 16 + q mod 16) * 16 + r div 16) * 16 + r mod 16 = q * 256 + (r div 16 * 16 + r mod 16)"
    by (simp only: div_mult_mod_eq [of q 16]) simp
  moreover have "q * 256 + (r div 16 * 16 + r mod 16) = n"
    by (simp only: div_mult_mod_eq [of r 16]) (simp add: q_def r_def)
  ultimately show ?thesis by simp
qed

lemma char_lits:
  "char_of (34 :: nat) = CHR 0x22" "char_of (92 :: nat) = CHR 0x5C" "char_of (10 :: nat) = CHR 0x0A" "char_of (13 :: nat) = CHR 0x0D"
  "char_of (9 :: nat) = CHR 0x09" "char_of (8 :: nat) = CHR 0x08" "char_of (12 :: nat) = CHR 0x0C" "char_of (110 :: nat) = CHR ''n''"
  "char_of (114 :: nat) = CHR ''r''" "char_of (116 :: nat) = CHR ''t''" "char_of (98 :: nat) = CHR ''b''" "char_of (102 :: nat) = CHR ''f''"
  by code_simp+

lemma scan_string_escape:
  "scan_escape cs = Some (t, r) \<Longrightarrow> scan_string (backslash # cs) = map_option (apfst (\<lambda>u. t @ u)) (scan_string r)"
  by (subst scan_string.simps) simp

lemma scan_string_char:
  "c \<noteq> quote_mark \<Longrightarrow> c \<noteq> backslash \<Longrightarrow> 32 \<le> byte c \<Longrightarrow> scan_string (c # cs) = map_option (apfst (\<lambda>u. c # u)) (scan_string cs)"
  by (subst scan_string.simps) simp

lemma scan_string_end: "scan_string (quote_mark # cs) = Some ([], cs)"
  by (subst scan_string.simps) simp

text \<open>A code point escaped by the encoder, below the surrogates or above them, or beyond the basic plane.\<close>

lemma scan_u_escape:
  assumes "n < 65536" and "\<not> (55296 \<le> n \<and> n \<le> 56319)"
  shows "scan_string (u_escape n @ t) = map_option (apfst (\<lambda>u. utf8_point n @ u)) (scan_string t)"
proof -
  have "u_escape n @ t = backslash # CHR ''u'' # hex4 n @ t"
    by (simp add: u_escape_def char_lits)
  moreover have "scan_escape (CHR ''u'' # hex4 n @ t) = Some (utf8_point n, t)"
    using assms by (auto simp: scan_escape_def scan_unicode_def scan_hex4_hex4)
  ultimately show ?thesis
    by (simp add: scan_string_escape)
qed

lemma scan_surrogates:
  assumes "65536 \<le> n" and "n < 1114112"
  shows "scan_string (u_escape (55296 + (n - 65536) div 1024) @ u_escape (56320 + (n - 65536) mod 1024) @ t)
       = map_option (apfst (\<lambda>u. utf8_point n @ u)) (scan_string t)"
proof -
  define h where "h = 55296 + (n - 65536) div 1024"
  define l where "l = 56320 + (n - 65536) mod 1024"
  have h: "55296 \<le> h" "h \<le> 56319"
    using assms by (auto simp: h_def)
  have l: "56320 \<le> l" "l \<le> 57343"
    by (auto simp: l_def)
  have "65536 + (h - 55296) * 1024 + (l - 56320) = n"
    using assms by (simp add: h_def l_def)
  moreover have "u_escape h @ u_escape l @ t = backslash # CHR ''u'' # hex4 h @ backslash # CHR ''u'' # hex4 l @ t"
    by (simp add: u_escape_def char_lits)
  ultimately have "scan_escape (CHR ''u'' # hex4 h @ backslash # CHR ''u'' # hex4 l @ t) = Some (utf8_point n, t)"
    using h l by (simp add: scan_escape_def scan_unicode_def scan_hex4_hex4)
  then show ?thesis
    unfolding h_def [symmetric] l_def [symmetric] by (simp add: u_escape_def char_lits scan_string_escape)
qed

text \<open>The encoder on one ASCII character.\<close>

lemma ascii_points: "list_all (\<lambda>d. byte d < 127) s \<Longrightarrow> concat (map ascii_point (map byte s)) = s"
  by (induction s) (auto simp: ascii_point_def)

lemma hex_char_ascii: "d < 16 \<Longrightarrow> byte (hex_char d) < 127"
  by (auto simp: hex_char_def of_char_of)

lemma hex2_0: "hex2 0 = ''00''"
  by code_simp

lemma scan_ascii:
  assumes "byte c < 128"
  shows "scan_string (concat (map ascii_point (map byte (dumps_char c))) @ t) = map_option (apfst (\<lambda>u. c # u)) (scan_string t)"
proof -
  have c: "c = char_of (byte c)"
    by simp
  consider "byte c \<in> {34, 92, 10, 13, 9, 8, 12}" | "byte c < 32" "byte c \<notin> {10, 13, 9, 8, 12}" | "byte c = 127"
    | "32 \<le> byte c" "byte c < 127" "byte c \<noteq> 34" "byte c \<noteq> 92"
    using assms by fastforce
  then show ?thesis
  proof cases
    case 1
    then consider "c = char_of (34 :: nat)" | "c = char_of (92 :: nat)" | "c = char_of (10 :: nat)" | "c = char_of (13 :: nat)"
      | "c = char_of (9 :: nat)" | "c = char_of (8 :: nat)" | "c = char_of (12 :: nat)"
      using c by (metis insert_iff empty_iff)
    then show ?thesis
      by cases (simp_all add: dumps_char_def ascii_point_def scan_string_escape scan_escape_def char_lits Let_def)
  next
    case 2
    have "dumps_char c = u_escape (byte c)"
      using 2 by (simp add: dumps_char_def u_escape_def hex4_def hex2_0 Let_def)
    moreover have "list_all (\<lambda>d. byte d < 127) (u_escape (byte c))"
      by (simp add: u_escape_def hex4_def hex2_def hex_char_ascii char_lits)
    ultimately have e: "concat (map ascii_point (map byte (dumps_char c))) = u_escape (byte c)"
      by (metis ascii_points)
    have "utf8_point (byte c) = [c]"
      using assms by (simp add: utf8_point_def)
    then show ?thesis
      unfolding e using scan_u_escape [of "byte c" t] 2 by simp
  next
    case 3
    then have "dumps_char c = [c]"
      by (simp add: dumps_char_def)
    moreover have "ascii_point 127 = u_escape 127" "utf8_point 127 = [c]"
      using 3 c by (simp_all add: ascii_point_def utf8_point_def)
    ultimately show ?thesis
      using scan_u_escape [of 127 t] 3 by simp
  next
    case 4
    then have "dumps_char c = [c]" "ascii_point (byte c) = [c]"
      by (simp_all add: dumps_char_def ascii_point_def)
    moreover have "c \<noteq> quote_mark" "c \<noteq> backslash"
      using 4 by auto
    ultimately show ?thesis
      using scan_string_char [of c t] 4 by simp
  qed
qed

section \<open>Multi-byte characters\<close>

lemma continues_byte:
  assumes "continues d"
  obtains y where "y < 64" "d = char_of (128 + y :: nat)" "byte d = 128 + y" "byte d mod 64 = y"
proof -
  have e: "byte d = 128 + byte d mod 64"
    using assms div_mult_mod_eq [of "byte d" 64] by (simp add: continues_def)
  then have "char_of (128 + byte d mod 64) = d"
    by (simp flip: e)
  with e show ?thesis
    by (intro that [of "byte d mod 64"]) simp_all
qed

lemma trail_add: "y < 64 \<Longrightarrow> trail (q * 64 + y) = char_of (128 + y)"
  by (simp add: trail_def)

lemma char_of_eq: "byte c = n \<Longrightarrow> char_of n = c"
  by auto

lemma two_bytes:
  assumes "194 \<le> byte c" "byte c < 224" "continues d"
  shows "utf8_point (byte c mod 32 * 64 + byte d mod 64) = [c, d] \<and> byte c mod 32 * 64 + byte d mod 64 < 2048 \<and>
         128 \<le> byte c mod 32 * 64 + byte d mod 64"
proof -
  obtain y where y: "y < 64" "d = char_of (128 + y)" "byte d = 128 + y" "byte d mod 64 = y"
    using continues_byte [OF assms(3)] .
  define x where "x = byte c mod 32"
  have x: "byte c = 192 + x" "2 \<le> x" "x < 32"
    using assms(1,2) div_mult_mod_eq [of "byte c" 32] div_nat_eqI [of 32 6 "byte c"] by (simp_all add: x_def)
  have "(x * 64 + y) div 64 = x"
    using y by simp
  moreover have "\<not> x * 64 + y < 128" "x * 64 + y < 2048"
    using x y by auto
  ultimately show ?thesis
    using y char_of_eq [OF x(1)] by (simp add: utf8_point_def trail_add flip: x_def)
qed

lemma three_bytes:
  assumes "224 \<le> byte c" "byte c < 240" "continues d" "continues e"
    and "byte c = 224 \<longrightarrow> 160 \<le> byte d" and "byte c = 237 \<longrightarrow> byte d < 160"
  defines "p \<equiv> (byte c mod 16 * 64 + byte d mod 64) * 64 + byte e mod 64"
  shows "utf8_point p = [c, d, e] \<and> 128 \<le> p \<and> p < 65536 \<and> \<not> (55296 \<le> p \<and> p \<le> 56319)"
proof -
  obtain y where y: "y < 64" "d = char_of (128 + y)" "byte d = 128 + y" "byte d mod 64 = y"
    using continues_byte [OF assms(3)] .
  obtain z where z: "z < 64" "e = char_of (128 + z)" "byte e = 128 + z" "byte e mod 64 = z"
    using continues_byte [OF assms(4)] .
  define x where "x = byte c mod 16"
  have x: "byte c = 224 + x" "x < 16"
    using assms(1,2) div_mult_mod_eq [of "byte c" 16] div_nat_eqI [of 16 14 "byte c"] by (simp_all add: x_def)
  have p: "p = (x * 64 + y) * 64 + z"
    by (simp only: p_def x_def y(4) z(4))
  have q: "p = 4096 * x + 64 * y + z"
    by (simp add: p)
  have 0: "x = 0 \<longrightarrow> 32 \<le> y" and 13: "x = 13 \<longrightarrow> y < 32"
    using assms(5,6) x y by auto
  have "2048 \<le> p"
    using 0 by (cases "x = 0") (simp_all add: q)
  moreover have "p < 65536"
    using x(2) y(1) z(1) by (simp add: q)
  moreover have "\<not> (55296 \<le> p \<and> p \<le> 56319)"
  proof -
    consider "x \<le> 12" | "x = 13" | "14 \<le> x" by linarith
    then show ?thesis
      using 13 y(1) z(1) by cases (simp_all add: q)
  qed
  ultimately have range: "2048 \<le> p" "p < 65536" "\<not> (55296 \<le> p \<and> p \<le> 56319)"
    by blast+
  have "p div 64 = x * 64 + y"
    using z by (simp add: p)
  moreover have "p div 4096 = x"
    using y z by (simp add: p)
  ultimately show ?thesis
    using range y z char_of_eq [OF x(1)] trail_add [OF y(1), of x] trail_add [OF z(1), of "x * 64 + y"]
    by (simp add: utf8_point_def p)
qed

lemma four_bytes:
  assumes "240 \<le> byte c" "byte c < 245" "continues d" "continues e" "continues f"
    and "byte c = 240 \<longrightarrow> 144 \<le> byte d" and "byte c = 244 \<longrightarrow> byte d < 144"
  defines "p \<equiv> ((byte c mod 8 * 64 + byte d mod 64) * 64 + byte e mod 64) * 64 + byte f mod 64"
  shows "utf8_point p = [c, d, e, f] \<and> 65536 \<le> p \<and> p < 1114112"
proof -
  obtain y where y: "y < 64" "d = char_of (128 + y)" "byte d = 128 + y" "byte d mod 64 = y"
    using continues_byte [OF assms(3)] .
  obtain z where z: "z < 64" "e = char_of (128 + z)" "byte e = 128 + z" "byte e mod 64 = z"
    using continues_byte [OF assms(4)] .
  obtain w where w: "w < 64" "f = char_of (128 + w)" "byte f = 128 + w" "byte f mod 64 = w"
    using continues_byte [OF assms(5)] .
  define x where "x = byte c mod 8"
  have x: "byte c = 240 + x" "x < 5"
    using assms(1,2) div_mult_mod_eq [of "byte c" 8] div_nat_eqI [of 8 30 "byte c"] by (simp_all add: x_def)
  have p: "p = ((x * 64 + y) * 64 + z) * 64 + w"
    by (simp only: p_def x_def y(4) z(4) w(4))
  have q: "p = 262144 * x + 4096 * y + 64 * z + w"
    by (simp add: p)
  have 0: "x = 0 \<longrightarrow> 16 \<le> y" and 4: "x = 4 \<longrightarrow> y < 16"
    using assms(6,7) x y by auto
  have range: "65536 \<le> p"
    using 0 by (cases "x = 0") (simp_all add: q)
  moreover have "p < 1114112"
    using x(2) y(1) z(1) w(1) 4 by (cases "x = 4") (simp_all add: q)
  moreover have "p div 64 = (x * 64 + y) * 64 + z" "p div 4096 = x * 64 + y" "p div 262144 = x"
    using y z w by (simp_all add: p)
  ultimately show ?thesis
    using y z w char_of_eq [OF x(1)] trail_add [OF y(1), of x] trail_add [OF z(1), of "x * 64 + y"]
      trail_add [OF w(1), of "(x * 64 + y) * 64 + z"]
    by (simp add: utf8_point_def p)
qed

section \<open>Text\<close>

lemma valid_utf8_cases:
  assumes "valid_utf8 s"
  obtains "s = []"
  | c t where "s = c # t" "byte c < 128" "valid_utf8 t"
  | c d t where "s = c # d # t" "194 \<le> byte c" "byte c < 224" "continues d" "valid_utf8 t"
  | c d e t where "s = c # d # e # t" "224 \<le> byte c" "byte c < 240" "continues d" "continues e"
      "byte c = 224 \<longrightarrow> 160 \<le> byte d" "byte c = 237 \<longrightarrow> byte d < 160" "valid_utf8 t"
  | c d e f t where "s = c # d # e # f # t" "240 \<le> byte c" "byte c < 245" "continues d" "continues e" "continues f"
      "byte c = 240 \<longrightarrow> 144 \<le> byte d" "byte c = 244 \<longrightarrow> byte d < 144" "valid_utf8 t"
proof (cases s)
  case Nil
  then show ?thesis by (rule that)
next
  case (Cons c t)
  with assms consider "byte c < 128" | "194 \<le> byte c" "byte c < 224" | "224 \<le> byte c" "byte c < 240" | "240 \<le> byte c" "byte c < 245"
    by (fastforce simp: Let_def split: if_splits)
  then show ?thesis
  proof cases
    case 1
    with assms Cons show ?thesis by (simp add: that(2))
  next
    case 2
    with assms Cons show ?thesis by (cases t) (simp_all add: that(3) Let_def)
  next
    case 3
    with assms Cons obtain d u where t: "t = d # u" by (cases t) simp_all
    with 3 assms Cons show ?thesis by (cases u) (simp_all add: that(4) Let_def)
  next
    case 4
    with assms Cons obtain d u where t: "t = d # u" by (cases t) simp_all
    with 4 assms Cons obtain e v where u: "u = e # v" by (cases u) (simp_all add: Let_def)
    with 4 t assms Cons show ?thesis by (cases v) (simp_all add: that(5) Let_def)
  qed
qed

lemma valid_utf8_induct [consumes 1, case_names Nil one two three four]:
  assumes "valid_utf8 s"
    and "P []"
    and "\<And>c t. byte c < 128 \<Longrightarrow> valid_utf8 t \<Longrightarrow> P t \<Longrightarrow> P (c # t)"
    and "\<And>c d t. 194 \<le> byte c \<Longrightarrow> byte c < 224 \<Longrightarrow> continues d \<Longrightarrow> valid_utf8 t \<Longrightarrow> P t \<Longrightarrow> P (c # d # t)"
    and "\<And>c d e t. 224 \<le> byte c \<Longrightarrow> byte c < 240 \<Longrightarrow> continues d \<Longrightarrow> continues e \<Longrightarrow>
           byte c = 224 \<longrightarrow> 160 \<le> byte d \<Longrightarrow> byte c = 237 \<longrightarrow> byte d < 160 \<Longrightarrow> valid_utf8 t \<Longrightarrow> P t \<Longrightarrow> P (c # d # e # t)"
    and "\<And>c d e f t. 240 \<le> byte c \<Longrightarrow> byte c < 245 \<Longrightarrow> continues d \<Longrightarrow> continues e \<Longrightarrow> continues f \<Longrightarrow>
           byte c = 240 \<longrightarrow> 144 \<le> byte d \<Longrightarrow> byte c = 244 \<longrightarrow> byte d < 144 \<Longrightarrow> valid_utf8 t \<Longrightarrow> P t \<Longrightarrow> P (c # d # e # f # t)"
  shows "P s"
  using assms(1)
proof (induction "length s" arbitrary: s rule: less_induct)
  case less
  from less.prems show ?case
  proof (cases rule: valid_utf8_cases)
    case 1
    then show ?thesis using assms(2) by simp
  next
    case (2 c t)
    then show ?thesis using assms(3) less.hyps [of t] by simp
  next
    case (3 c d t)
    then show ?thesis using assms(4) less.hyps [of t] by simp
  next
    case (4 c d e t)
    then show ?thesis using assms(5) less.hyps [of t] by simp
  next
    case (5 c d e f t)
    then show ?thesis using assms(6) less.hyps [of t] by simp
  qed
qed

lemma points_append: "valid_utf8 a \<Longrightarrow> points (a @ b) = points a @ points b"
  by (induction a rule: valid_utf8_induct) simp_all

definition ascii_text :: "string \<Rightarrow> string" where
  "ascii_text s = concat (map ascii_point (points s))"

lemma ascii_text_append: "valid_utf8 a \<Longrightarrow> ascii_text (a @ b) = ascii_text a @ ascii_text b"
  by (simp add: ascii_text_def points_append)

lemma ascii_only: "list_all (\<lambda>d. byte d < 128) s \<Longrightarrow> valid_utf8 s \<and> points s = map byte s"
  by (induction s) auto

lemma ascii_text_ascii: "list_all (\<lambda>d. byte d < 128) s \<Longrightarrow> ascii_text s = concat (map ascii_point (map byte s))"
  by (simp add: ascii_text_def ascii_only)

lemma ascii_text_plain: "list_all (\<lambda>d. byte d < 127) s \<Longrightarrow> ascii_text s = s"
  using ascii_points [of s] by (subst ascii_text_ascii) (auto simp: list_all_iff)

lemma dumps_char_high: "128 \<le> byte c \<Longrightarrow> dumps_char c = [c]"
  by (simp add: dumps_char_def Let_def)

lemma hex_char_low: "d < 16 \<Longrightarrow> byte (hex_char d) < 128"
  using hex_char_ascii [of d] by simp

lemma dumps_char_low: "byte c < 128 \<Longrightarrow> list_all (\<lambda>d. byte d < 128) (dumps_char c)"
  by (simp add: dumps_char_def Let_def char_lits hex2_def hex_char_low)

lemma valid_append: "valid_utf8 a \<Longrightarrow> valid_utf8 (a @ b) = valid_utf8 b"
  by (induction a rule: valid_utf8_induct) (simp_all add: Let_def)

definition inner_text :: "string \<Rightarrow> string" where
  "inner_text s = concat (map dumps_char s)"

lemma continues_high: "continues d \<Longrightarrow> 128 \<le> byte d"
  by (auto elim: continues_byte)

lemma inner_text_valid: "valid_utf8 s \<Longrightarrow> valid_utf8 (inner_text s)"
  by (induction s rule: valid_utf8_induct)
    (simp_all add: inner_text_def dumps_char_high continues_high valid_append ascii_only dumps_char_low Let_def)

lemma scan_inner:
  assumes "valid_utf8 s"
  shows "scan_string (ascii_text (inner_text s) @ quote_mark # r) = Some (s, r)"
  using assms
proof (induction s rule: valid_utf8_induct)
  case Nil
  then show ?case by (simp add: inner_text_def ascii_text_def scan_string_end)
next
  case (one c t)
  have "ascii_text (inner_text (c # t)) = concat (map ascii_point (map byte (dumps_char c))) @ ascii_text (inner_text t)"
    using one by (simp add: inner_text_def ascii_text_append ascii_only dumps_char_low ascii_text_ascii)
  then show ?case
    using one by (simp only: append_assoc scan_ascii) simp
next
  case (two c d t)
  let ?p = "byte c mod 32 * 64 + byte d mod 64"
  have "ascii_text (inner_text (c # d # t)) = ascii_point ?p @ ascii_text (inner_text t)"
    using two by (simp add: inner_text_def ascii_text_def dumps_char_high continues_high)
  moreover have "ascii_point ?p = u_escape ?p"
    using two_bytes [OF two(1,2,3)] by (simp add: ascii_point_def)
  ultimately show ?case
    using two_bytes [OF two(1,2,3)] two(5) scan_u_escape [of ?p] by simp
next
  case (three c d e t)
  let ?p = "(byte c mod 16 * 64 + byte d mod 64) * 64 + byte e mod 64"
  note p = three_bytes [OF three(1-6)]
  have "ascii_text (inner_text (c # d # e # t)) = ascii_point ?p @ ascii_text (inner_text t)"
    using three by (simp add: inner_text_def ascii_text_def dumps_char_high continues_high)
  moreover have "ascii_point ?p = u_escape ?p"
    using p by (simp add: ascii_point_def)
  ultimately show ?case
    using p three(8) scan_u_escape [of ?p] by simp
next
  case (four c d e f t)
  let ?p = "((byte c mod 8 * 64 + byte d mod 64) * 64 + byte e mod 64) * 64 + byte f mod 64"
  note p = four_bytes [OF four(1-7)]
  have "ascii_text (inner_text (c # d # e # f # t)) = ascii_point ?p @ ascii_text (inner_text t)"
    using four by (simp add: inner_text_def ascii_text_def dumps_char_high continues_high)
  moreover have "ascii_point ?p = u_escape (55296 + (?p - 65536) div 1024) @ u_escape (56320 + (?p - 65536) mod 1024)"
    using p by (simp add: ascii_point_def)
  ultimately show ?case
    using p four(9) scan_surrogates [of ?p] by simp
qed

lemma ascii_str_eq:
  assumes "valid_utf8 s"
  shows "ascii_str s = quote_mark # ascii_text (inner_text s) @ [quote_mark]"
proof -
  have q: "ascii_text [quote_mark] = [quote_mark]"
    by (rule ascii_text_plain) simp
  have "ascii_str s = ascii_text ([quote_mark] @ inner_text s @ [quote_mark])"
    by (simp add: ascii_str_def dumps_str_def inner_text_def ascii_text_def char_lits)
  also have "\<dots> = [quote_mark] @ ascii_text (inner_text s) @ [quote_mark]"
    by (subst ascii_text_append, simp, subst ascii_text_append, rule inner_text_valid [OF assms], simp only: q)
  finally show ?thesis by simp
qed

lemma scan_ascii_str: "valid_utf8 s \<Longrightarrow> scan_string (drop 1 (ascii_str s @ r)) = Some (s, r)"
  by (simp add: ascii_str_eq scan_inner)

section \<open>Values\<close>

text \<open>
  Values whose text determines them: no floats, integers of at most 4300 digits, valid strings, dicts
  with their keys in order.
\<close>

fun plain :: "json \<Rightarrow> bool" where
  "plain (JInt i) = (length (show_digits \<bar>i\<bar>) \<le> 4300)"
| "plain (JFloat f) = False"
| "plain (JStr s) = valid_utf8 s"
| "plain (JList xs) = (\<forall>x\<in>set xs. plain x)"
| "plain (JObj d) = (sorted (map fst d) \<and> distinct (map fst d) \<and> (\<forall>kv\<in>set d. valid_utf8 (fst kv) \<and> plain (snd kv)))"
| "plain _ = True"

text \<open>The text of a plain value, for an encoder of strings and a pair of separators.\<close>

fun json_text :: "(string \<Rightarrow> string) \<Rightarrow> string \<Rightarrow> string \<Rightarrow> json \<Rightarrow> string" where
  "json_text enc sep colon JNull = ''null''"
| "json_text enc sep colon (JBool b) = (if b then ''true'' else ''false'')"
| "json_text enc sep colon (JInt i) = show_int i"
| "json_text enc sep colon (JFloat f) = dumps_float f"
| "json_text enc sep colon (JStr s) = enc s"
| "json_text enc sep colon (JList xs) = ''['' @ join sep (map (json_text enc sep colon) xs) @ '']''"
| "json_text enc sep colon (JObj d) =
     ''{'' @ join sep (map (\<lambda>kv. enc (fst kv) @ colon @ json_text enc sep colon (snd kv)) d) @ ''}''"

lemma sorted_pairs_map: "sorted_pairs d = map (\<lambda>kv. (fst kv, dumps_sorted (snd kv))) d"
  by (induction d) simp_all

lemma sorted_items_map: "sorted_items xs = map dumps_sorted xs"
  by (induction xs) simp_all

lemma dumps_pairs_map: "dumps_pairs d = map (\<lambda>kv. (fst kv, dumps (snd kv))) d"
  by (induction d) simp_all

lemma dumps_items_map: "dumps_items xs = map dumps xs"
  by (induction xs) simp_all

lemma sort_pairs: "sorted (map fst d) \<Longrightarrow> sort_key fst (map (\<lambda>kv. (fst kv, f (snd kv))) d) = map (\<lambda>kv. (fst kv, f (snd kv))) d"
  by (rule sort_key_id_if_sorted) (simp add: comp_def)

lemma dumps_sorted_text: "plain v \<Longrightarrow> dumps_sorted v = json_text ascii_str '', '' '': '' v"
proof (induction v)
  case (JList xs)
  then show ?case by (simp add: sorted_items_map cong: map_cong)
next
  case (JObj d)
  then have "dumps_sorted (snd kv) = json_text ascii_str '', '' '': '' (snd kv)" if "kv \<in> set d" for kv
    using that by (auto simp: snds.simps)
  with JObj.prems show ?case
    by (simp add: sorted_pairs_map sort_pairs comp_def cong: map_cong)
qed simp_all

lemma join_valid: "(\<And>x. x \<in> set xs \<Longrightarrow> valid_utf8 x) \<Longrightarrow> valid_utf8 sep \<Longrightarrow> valid_utf8 (join sep xs)"
proof (induction xs)
  case (Cons x xs)
  then have "valid_utf8 (concat (map (\<lambda>z. sep @ z) ys))" if "set ys \<subseteq> set xs" for ys
    using that by (induction ys) (auto simp: valid_append)
  with Cons show ?case
    by (simp add: join_def valid_append)
qed (simp add: join_def)

lemma show_int_ascii: "list_all (\<lambda>c. byte c < 127) (show_int i)"
proof -
  have "list_all (\<lambda>c. byte c < 127) (show_digits \<bar>i\<bar>)"
    using show_digits_digits [of "\<bar>i\<bar>"] by (auto simp: list_all_iff is_digit_def)
  then show ?thesis
    by (auto simp: show_int_def)
qed

lemma ascii_valid: "list_all (\<lambda>c. byte c < 127) s \<Longrightarrow> valid_utf8 s"
  by (induction s) auto

lemma ascii_text_join:
  assumes "\<And>x. x \<in> set xs \<Longrightarrow> valid_utf8 (f x)" and "list_all (\<lambda>c. byte c < 127) sep"
  shows "ascii_text (join sep (map f xs)) = join sep (map (\<lambda>x. ascii_text (f x)) xs)"
proof (cases xs)
  case Nil
  then show ?thesis by (simp add: join_def ascii_text_def)
next
  case (Cons x ys)
  have "ascii_text (concat (map (\<lambda>z. sep @ f z) zs)) = concat (map (\<lambda>z. sep @ ascii_text (f z)) zs)" if "set zs \<subseteq> set xs" for zs
    using that
  proof (induction zs)
    case Nil
    then show ?case by (simp add: ascii_text_def)
  next
    case (Cons z zs)
    then show ?case
      using assms(1) [of z] by (simp add: ascii_text_append ascii_valid ascii_text_plain assms(2))
  qed
  from this [of ys] show ?thesis
    using assms(1) [of x] by (simp add: Cons join_def ascii_text_append comp_def subset_insertI)
qed

lemma dumps_str_valid: "valid_utf8 s \<Longrightarrow> valid_utf8 (dumps_str s)"
  using inner_text_valid [of s] by (simp add: dumps_str_def valid_append inner_text_def char_lits)

lemma ascii_text_str: "ascii_text (dumps_str s) = ascii_str s"
  by (simp add: ascii_str_def ascii_text_def)

lemma dumps_valid: "plain v \<Longrightarrow> valid_utf8 (dumps v)"
proof (induction v)
  case (JInt i)
  then show ?case by (simp add: ascii_valid show_int_ascii)
next
  case (JList xs)
  then have "valid_utf8 (join '','' (map dumps xs))"
    by (intro join_valid) auto
  then show ?case by (simp add: dumps_items_map valid_append)
next
  case (JObj d)
  then have "valid_utf8 (join '','' (map (\<lambda>kv. dumps_str (fst kv) @ '':'' @ dumps (snd kv)) d))"
    by (intro join_valid) (auto simp: valid_append dumps_str_valid snds.simps)
  with JObj.prems show ?case
    by (simp add: dumps_pairs_map sort_pairs comp_def valid_append)
qed (simp_all add: dumps_str_valid)

lemma ascii_bracket: "valid_utf8 s \<Longrightarrow> byte b < 127 \<Longrightarrow> byte e < 127 \<Longrightarrow> ascii_text (b # s @ [e]) = b # ascii_text s @ [e]"
  using ascii_text_append [of "[b]" "s @ [e]"] ascii_text_append [of s "[e]"] ascii_text_plain [of "[b]"] ascii_text_plain [of "[e]"]
  by simp

lemma dumps_ascii_text: "plain v \<Longrightarrow> dumps_ascii v = json_text ascii_str '','' '':'' v"
proof -
  have "plain v \<Longrightarrow> ascii_text (dumps v) = json_text ascii_str '','' '':'' v"
  proof (induction v)
    case (JInt i)
    then show ?case by (simp add: ascii_text_plain show_int_ascii)
  next
    case (JStr s)
    then show ?case by (simp add: ascii_text_str)
  next
    case (JList xs)
    have "ascii_text (join '','' (map dumps xs)) = join '','' (map (\<lambda>x. ascii_text (dumps x)) xs)"
      using JList.prems by (intro ascii_text_join) (simp_all add: dumps_valid)
    moreover have "map (\<lambda>x. ascii_text (dumps x)) xs = map (json_text ascii_str '','' '':'') xs"
      using JList by simp
    moreover have "valid_utf8 (join '','' (map dumps xs))"
      using JList.prems by (intro join_valid) (auto simp: dumps_valid)
    ultimately show ?case by (simp add: dumps_items_map ascii_bracket)
  next
    case (JObj d)
    have v: "valid_utf8 (dumps_str (fst kv) @ '':'' @ dumps (snd kv))" if "kv \<in> set d" for kv
      using that JObj.prems by (simp add: valid_append dumps_str_valid dumps_valid)
    have t: "ascii_text (dumps_str (fst kv) @ '':'' @ dumps (snd kv)) = ascii_str (fst kv) @ '':'' @ json_text ascii_str '','' '':'' (snd kv)"
      if "kv \<in> set d" for kv
    proof -
      have "ascii_text (dumps_str (fst kv) @ '':'' @ dumps (snd kv)) = ascii_text (dumps_str (fst kv)) @ ascii_text '':'' @ ascii_text (dumps (snd kv))"
        using that JObj.prems by (simp add: ascii_text_append dumps_str_valid flip: append_Cons)
      moreover have "ascii_text (dumps (snd kv)) = json_text ascii_str '','' '':'' (snd kv)"
        using that JObj.IH [of kv "snd kv"] JObj.prems by (simp add: snds.simps)
      ultimately show ?thesis
        by (simp add: ascii_text_str ascii_text_plain)
    qed
    have "ascii_text (join '','' (map (\<lambda>kv. dumps_str (fst kv) @ '':'' @ dumps (snd kv)) d)) =
        join '','' (map (\<lambda>kv. ascii_text (dumps_str (fst kv) @ '':'' @ dumps (snd kv))) d)"
      by (rule ascii_text_join) (rule v, assumption, simp)
    also have "\<dots> = join '','' (map (\<lambda>kv. ascii_str (fst kv) @ '':'' @ json_text ascii_str '','' '':'' (snd kv)) d)"
      using t by (auto intro!: arg_cong [of _ _ "join _"])
    finally have j: "ascii_text (join '','' (map (\<lambda>kv. dumps_str (fst kv) @ '':'' @ dumps (snd kv)) d)) = \<dots>" .
    have "valid_utf8 (join '','' (map (\<lambda>kv. dumps_str (fst kv) @ '':'' @ dumps (snd kv)) d))"
      by (rule join_valid) (use v in auto)
    with j JObj.prems show ?case
      by (simp add: dumps_pairs_map sort_pairs comp_def ascii_bracket)
  qed (simp_all add: ascii_text_plain)
  then show "plain v \<Longrightarrow> ?thesis"
    by (simp add: dumps_ascii_def ascii_text_def)
qed

section \<open>Decoding\<close>

definition solid_start :: "string \<Rightarrow> bool" where
  "solid_start s \<longleftrightarrow> s \<noteq> [] \<and> hd s \<notin> {CHR 0x20, CHR 0x09, CHR 0x0A, CHR 0x0D}"

lemma skip_solid: "solid_start s \<Longrightarrow> skip_space (s @ r) = s @ r"
  by (cases s) (simp_all add: solid_start_def skip_space_def)

lemma skip_char: "c \<notin> {CHR 0x20, CHR 0x09, CHR 0x0A, CHR 0x0D} \<Longrightarrow> skip_space (c # r) = c # r"
  by (simp add: skip_space_def)

lemma show_int_start: "\<exists>c cs. show_int i = c # cs \<and> (is_digit c \<or> c = CHR ''-'')"
  using digit_start [of "\<bar>i\<bar>"] by (auto simp: show_int_def)

text \<open>The two pairs of separators: a comma and a colon, each with white space or none.\<close>

definition separators :: "string \<Rightarrow> string \<Rightarrow> bool" where
  "separators sep colon \<longleftrightarrow> (sep = '','' \<and> colon = '':'') \<or> (sep = '', '' \<and> colon = '': '')"

lemma skip_separator: "separators sep colon \<Longrightarrow> solid_start s \<Longrightarrow> skip_space (drop 1 sep @ s) = s \<and> skip_space (drop 1 colon @ s) = s"
  using skip_solid [of s "[]"] by (auto simp: separators_def skip_space_def)

lemma opens_append: "s \<noteq> [] \<Longrightarrow> opens c (s @ r) = (hd s = c)"
  by (cases s) (simp_all add: opens_def)

lemma opens_Cons: "opens c (d # r) = (d = c)"
  by (auto simp: opens_def)

lemma join_Cons_Cons: "join sep (x # y # ys) = x @ sep @ join sep (y # ys)"
  by (simp add: join_def)

lemma join_single: "join sep [x] = x"
  by (simp add: join_def)

text \<open>The statement for one value, over the fuel the decoder needs.\<close>

definition decodes :: "string \<Rightarrow> json \<Rightarrow> bool" where
  "decodes t v \<longleftrightarrow> (\<forall>n r. stop r \<longrightarrow> 2 * length (t @ r) + 2 \<le> n \<longrightarrow> scan_value n (t @ r) = Ok (v, r))"

lemma decodesD: "decodes t v \<Longrightarrow> stop r \<Longrightarrow> 2 * length (t @ r) + 2 \<le> n \<Longrightarrow> scan_value n (t @ r) = Ok (v, r)"
  by (simp add: decodes_def)

lemma scan_list:
  assumes "separators sep colon" and "vs \<noteq> []"
    and "\<And>v. v \<in> set vs \<Longrightarrow> decodes (T v) v \<and> solid_start (T v)"
    and "2 * length (join sep (map T vs) @ '']'' @ r) + 3 \<le> n"
  shows "scan_elements n (join sep (map T vs) @ '']'' @ r) = Ok (vs, r)"
  using assms(2-4)
proof (induction vs arbitrary: n)
  case Nil
  then show ?case by simp
next
  case (Cons v vs)
  then obtain m where n: "n = Suc m" by (cases n) auto
  show ?case
  proof (cases vs)
    case Nil
    have "scan_value m (T v @ '']'' @ r) = Ok (v, '']'' @ r)"
      using Cons.prems Nil by (intro decodesD) (auto simp: n stop_def join_single)
    then show ?thesis
      by (simp add: n Nil join_single skip_char opens_Cons)
  next
    case (Cons w ws)
    let ?s = "join sep (map T vs) @ '']'' @ r"
    have whole: "join sep (map T (v # vs)) @ '']'' @ r = T v @ sep @ ?s"
      by (simp add: Cons join_Cons_Cons)
    obtain sp where sp: "sep = CHR '','' # sp"
      using assms(1) by (auto simp: separators_def)
    have "T w \<noteq> []" "hd (T w) \<notin> {CHR 0x20, CHR 0x09, CHR 0x0A, CHR 0x0D}"
      using Cons.prems(2) [of w] Cons by (auto simp: solid_start_def)
    then have "solid_start ?s"
      by (auto simp: Cons solid_start_def join_def)
    with skip_separator [OF assms(1)] have skip: "skip_space (sp @ ?s) = ?s"
      by (simp add: sp)
    have "scan_value m (T v @ sep @ ?s) = Ok (v, sep @ ?s)"
      using Cons.prems(2) [of v] Cons.prems(3) unfolding whole by (intro decodesD) (auto simp: n stop_def sp)
    moreover have "scan_elements m ?s = Ok (vs, r)"
      using Cons.prems(2,3) Cons unfolding whole by (intro Cons.IH) (auto simp: n sp)
    ultimately show ?thesis
      unfolding whole by (simp add: n sp skip_char opens_Cons skip [unfolded sp append_Cons append_Nil])
  qed
qed

definition member_text :: "(string \<Rightarrow> string) \<Rightarrow> string \<Rightarrow> (json \<Rightarrow> string) \<Rightarrow> string \<times> json \<Rightarrow> string" where
  "member_text enc colon T kv = enc (fst kv) @ colon @ T (snd kv)"

lemma dict_of_distinct:
  assumes "distinct (map fst d)"
  shows "dict_of d = d"
proof -
  have "foldl (\<lambda>d (k, v). dset d k v) e d = e @ d" if "distinct (map fst (e @ d))" for e
    using that
  proof (induction d arbitrary: e)
    case Nil
    then show ?case by simp
  next
    case (Cons kv d)
    have "dset e (fst kv) (snd kv) = e @ [kv]"
      using Cons.prems by (induction e) auto
    then show ?case
      using Cons by (cases kv) simp
  qed
  from this [of "[]"] assms show ?thesis
    by (simp add: dict_of_def)
qed

lemma not_opens_digit: "is_digit c \<or> c = CHR ''-'' \<Longrightarrow>
  \<not> opens quote_mark (c # s) \<and> \<not> opens (CHR ''['') (c # s) \<and> \<not> opens (CHR ''{'') (c # s)"
  by (auto simp: opens_Cons is_digit_def)

lemma literal_starts:
  "(t, v) \<in> set literals \<Longrightarrow> t \<noteq> [] \<and> (hd t \<in> {CHR ''n'', CHR ''t'', CHR ''f'', CHR ''N'', CHR ''I''} \<or> (\<exists>u. t = CHR ''-'' # CHR ''I'' # u))"
  by (auto simp: literals_def)

lemma scan_atom_digit:
  assumes "is_digit c \<or> c = CHR ''-'' \<and> cs \<noteq> [] \<and> is_digit (hd cs)"
  shows "scan_atom (c # cs) = scan_number (c # cs)"
proof -
  have "take (length t) (c # cs) \<noteq> t" if "(t, v) \<in> set literals" for t v
  proof
    assume t: "take (length t) (c # cs) = t"
    from literal_starts [OF that] show False
    proof (elim conjE disjE exE)
      assume "t \<noteq> []" "hd t \<in> {CHR ''n'', CHR ''t'', CHR ''f'', CHR ''N'', CHR ''I''}"
      moreover from this t have "hd t = c"
        by (metis hd_append2 append_take_drop_id list.sel(1))
      ultimately show False
        using assms by (auto simp: is_digit_def)
    next
      fix u assume "t = CHR ''-'' # CHR ''I'' # u"
      with t have "c = CHR ''-''" "cs \<noteq> []" "hd cs = CHR ''I''"
        by (cases cs; simp)+
      with assms show False
        by (auto simp: is_digit_def)
    qed
  qed
  then have "filter (\<lambda>(t, _). take (length t) (c # cs) = t) literals = []"
    by (auto simp: filter_empty_conv)
  then show ?thesis
    by (simp only: scan_atom_def list.case)
qed

lemma show_int_head: "\<exists>c cs. show_int i = c # cs \<and> (is_digit c \<or> c = CHR ''-'' \<and> cs \<noteq> [] \<and> is_digit (hd cs))"
  using digit_start [of "\<bar>i\<bar>"] by (auto simp: show_int_def)

lemma decodes_atom:
  assumes "\<And>r. stop r \<Longrightarrow> scan_atom (c # cs @ r) = Ok (v, r)" and "c \<notin> {quote_mark, CHR ''['', CHR ''{''}"
  shows "decodes (c # cs) v"
  unfolding decodes_def
proof (intro allI impI)
  fix n r assume r: "stop r" and n: "2 * length ((c # cs) @ r) + 2 \<le> n"
  then obtain m where m: "n = Suc m" by (cases n) auto
  show "scan_value n ((c # cs) @ r) = Ok (v, r)"
    using assms(2) assms(1) [OF r] by (simp add: m opens_Cons Let_def)
qed

lemma decodes_int:
  assumes "length (show_digits \<bar>i\<bar>) \<le> 4300"
  shows "decodes (show_int i) (JInt i)"
proof -
  obtain c cs where c: "show_int i = c # cs" and d: "is_digit c \<or> c = CHR ''-'' \<and> cs \<noteq> [] \<and> is_digit (hd cs)"
    using show_int_head by blast
  show ?thesis
    unfolding c
  proof (rule decodes_atom)
    fix r assume "stop r"
    from scan_number_int [OF this assms] show "scan_atom (c # cs @ r) = Ok (JInt i, r)"
      using d scan_atom_digit [of c "cs @ r"] by (auto simp: c)
  qed (use d in \<open>auto simp: is_digit_def\<close>)
qed

text \<open>What a decoder needs of an encoder of strings.\<close>

locale string_codec =
  fixes enc :: "string \<Rightarrow> string"
  assumes enc_quote: "valid_utf8 s \<Longrightarrow> \<exists>t. enc s = quote_mark # t"
    and enc_scan: "valid_utf8 s \<Longrightarrow> scan_string (drop 1 (enc s @ r)) = Some (s, r)"
begin

lemma enc_opens: "valid_utf8 s \<Longrightarrow> opens quote_mark (enc s @ r)"
  using enc_quote [of s] by (auto simp: opens_Cons)

lemma enc_solid: "valid_utf8 s \<Longrightarrow> solid_start (enc s @ r)"
  using enc_quote [of s] by (auto simp: solid_start_def)

lemma json_text_solid:
  assumes "plain v"
  shows "solid_start (json_text enc sep colon v)"
proof (cases v)
  case (JInt i)
  then show ?thesis
    using show_int_start [of i] by (auto simp: solid_start_def is_digit_def)
next
  case (JStr s)
  then show ?thesis
    using enc_solid [of s "[]"] assms by simp
qed (use assms in \<open>auto simp: solid_start_def\<close>)

lemma scan_member:
  assumes "separators sep colon" and "valid_utf8 k" and "solid_start t"
    and "scan_value n (t @ r) = Ok (v, r)"
  shows "scan_members (Suc n) (enc k @ colon @ t @ r) =
     (if opens (CHR ''}'') (skip_space r) then Ok ([(k, v)], drop 1 (skip_space r))
      else if opens (CHR '','') (skip_space r)
      then bindR (scan_members n (skip_space (drop 1 (skip_space r)))) (\<lambda>(kvs, r''). Ok ((k, v) # kvs, r''))
      else Raise JSONDecodeError)"
proof -
  obtain c where c: "colon = CHR '':'' # c"
    using assms(1) by (auto simp: separators_def)
  have "opens quote_mark (enc k @ colon @ t @ r)"
    using assms(2) by (rule enc_opens)
  moreover have "scan_string (drop 1 (enc k @ colon @ t @ r)) = Some (k, colon @ t @ r)"
    by (rule enc_scan [OF assms(2)])
  moreover have "skip_space (colon @ t @ r) = colon @ t @ r"
    by (simp add: c skip_char)
  moreover have "solid_start (t @ r)"
    using assms(3) by (simp add: solid_start_def)
  then have "skip_space (drop 1 (colon @ t @ r)) = t @ r"
    using skip_separator [OF assms(1)] by (simp add: c)
  moreover have "opens (CHR '':'') (colon @ t @ r)"
    by (simp add: c opens_Cons)
  ultimately show ?thesis
    using assms(4) by (simp only: scan_members.simps simp_thms if_True if_False option.case prod.case bindR_Inr Let_def)
qed

lemma scan_dict:
  assumes "separators sep colon" and "d \<noteq> []"
    and "\<And>kv. kv \<in> set d \<Longrightarrow> valid_utf8 (fst kv) \<and> decodes (T (snd kv)) (snd kv) \<and> solid_start (T (snd kv))"
    and "2 * length (join sep (map (member_text enc colon T) d) @ ''}'' @ r) + 3 \<le> n"
  shows "scan_members n (join sep (map (member_text enc colon T) d) @ ''}'' @ r) = Ok (d, r)"
  using assms(2-4)
proof (induction d arbitrary: n)
  case Nil
  then show ?case by simp
next
  case (Cons kv d)
  then obtain m where n: "n = Suc m" by (cases n) auto
  obtain k v where kv: "kv = (k, v)" by (cases kv)
  note this_member = Cons.prems(2) [of kv, unfolded kv, simplified]
  show ?case
  proof (cases d)
    case Nil
    have "scan_value m (T v @ ''}'' @ r) = Ok (v, ''}'' @ r)"
      using Cons.prems(3) Nil this_member by (intro decodesD) (auto simp: n kv stop_def join_single member_text_def)
    then have "scan_members (Suc m) (enc k @ colon @ T v @ ''}'' @ r) = Ok ([(k, v)], r)"
      using this_member by (subst scan_member [OF assms(1)]) (auto simp: skip_char opens_Cons)
    then show ?thesis
      by (simp add: n Nil kv join_single member_text_def)
  next
    case (Cons w ws)
    let ?s = "join sep (map (member_text enc colon T) d) @ ''}'' @ r"
    have whole: "join sep (map (member_text enc colon T) (kv # d)) @ ''}'' @ r = enc k @ colon @ T v @ sep @ ?s"
      by (simp add: Cons join_Cons_Cons kv member_text_def)
    obtain sp where sp: "sep = CHR '','' # sp"
      using assms(1) by (auto simp: separators_def)
    obtain x where "?s = enc (fst w) @ x"
      by (simp add: Cons join_def member_text_def)
    moreover have "valid_utf8 (fst w)"
      using Cons.prems(2) [of w] Cons by simp
    ultimately have "solid_start ?s"
      by (simp only: enc_solid)
    with skip_separator [OF assms(1)] have skip: "skip_space (sp @ ?s) = ?s"
      by (simp add: sp)
    have "scan_value m (T v @ sep @ ?s) = Ok (v, sep @ ?s)"
      using this_member Cons.prems(3) unfolding whole by (intro decodesD) (auto simp: n stop_def sp)
    moreover have "scan_members m ?s = Ok (d, r)"
      using Cons.prems(2,3) Cons unfolding whole by (intro Cons.IH) (auto simp: n sp)
    moreover have "skip_space (sep @ ?s) = sep @ ?s" "drop 1 (sep @ ?s) = sp @ ?s" "opens (CHR '','') (sep @ ?s)" "\<not> opens (CHR ''}'') (sep @ ?s)"
      by (simp_all add: sp skip_char opens_Cons)
    ultimately show ?thesis
      unfolding whole n using this_member
      by (subst scan_member [OF assms(1), where r = "sep @ ?s" and v = v]) (simp_all only: kv skip simp_thms if_True if_False bindR_Inr prod.case)
  qed
qed

lemma bracket_free: "plain v \<Longrightarrow> hd (json_text enc sep colon v) \<noteq> CHR '']''"
proof (induction v)
  case (JInt i)
  then show ?case
    using show_int_start [of i] by (auto simp: is_digit_def)
next
  case (JStr s)
  then show ?case
    using enc_quote [of s] by auto
qed simp_all

lemma decodes_text:
  assumes "separators sep colon" and "plain v"
  shows "decodes (json_text enc sep colon v) v"
  using assms(2)
proof (induction v)
  case JNull
  show ?case
    by (simp, rule decodes_atom) (simp_all add: scan_atom_def literals_def)
next
  case (JBool b)
  have "decodes ''true'' (JBool True)" "decodes ''false'' (JBool False)"
    by (rule decodes_atom; simp add: scan_atom_def literals_def)+
  then show ?case by simp
next
  case (JInt i)
  then show ?case by (simp add: decodes_int)
next
  case (JFloat f)
  then show ?case by simp
next
  case (JStr s)
  show ?case
    unfolding decodes_def json_text.simps
  proof (intro allI impI)
    fix n r assume "2 * length (enc s @ r) + 2 \<le> n"
    then obtain m where m: "n = Suc m" by (cases n) auto
    have "opens quote_mark (enc s @ r)"
      using JStr by (simp add: enc_opens)
    moreover have "scan_string (drop 1 (enc s @ r)) = Some (s, r)"
      using JStr by (intro enc_scan) simp
    ultimately show "scan_value n (enc s @ r) = Ok (JStr s, r)"
      by (simp only: m scan_value.simps Let_def if_True option.case prod.case)
  qed
next
  case (JList vs)
  show ?case
    unfolding decodes_def
  proof (intro allI impI)
    fix n r assume r: "stop r" and n: "2 * length (json_text enc sep colon (JList vs) @ r) + 2 \<le> n"
    then obtain m where m: "n = Suc m" by (cases n) auto
    show "scan_value n (json_text enc sep colon (JList vs) @ r) = Ok (JList vs, r)"
    proof (cases "vs = []")
      case True
      then show ?thesis by (simp add: m join_def opens_Cons skip_char)
    next
      case False
      let ?s = "join sep (map (json_text enc sep colon) vs) @ '']'' @ r"
      have "scan_elements m ?s = Ok (vs, r)"
        using JList False n by (intro scan_list [OF assms(1)]) (auto simp: json_text_solid m)
      moreover obtain c x where x: "?s = c # x" "c \<notin> {CHR 0x20, CHR 0x09, CHR 0x0A, CHR 0x0D, CHR '']''}"
      proof -
        obtain w ws where vs: "vs = w # ws"
          using False by (cases vs) auto
        have "solid_start (json_text enc sep colon w)" "hd (json_text enc sep colon w) \<noteq> CHR '']''"
          using JList.prems vs by (simp_all add: json_text_solid bracket_free)
        then show thesis
          using that by (cases "json_text enc sep colon w") (auto simp: vs join_def solid_start_def)
      qed
      moreover have "scan_value (Suc m) (CHR ''['' # c # x) = bindR (scan_elements m (c # x)) (\<lambda>(vs, r'). Ok (JList vs, r'))"
        using x(2) by (simp add: opens_Cons skip_char)
      ultimately show ?thesis
        by (simp add: m)
    qed
  qed
next
  case (JObj d)
  have "plain (snd kv) \<and> valid_utf8 (fst kv)" if "kv \<in> set d" for kv
    using that JObj.prems by simp
  then have parts: "valid_utf8 (fst kv) \<and> decodes (json_text enc sep colon (snd kv)) (snd kv) \<and> solid_start (json_text enc sep colon (snd kv))"
    if "kv \<in> set d" for kv
    using that JObj.IH [of kv "snd kv"] json_text_solid by (auto simp: snds.simps)
  have members: "map (\<lambda>kv. enc (fst kv) @ colon @ json_text enc sep colon (snd kv)) d = map (member_text enc colon (json_text enc sep colon)) d"
    by (simp add: member_text_def)
  show ?case
    unfolding decodes_def
  proof (intro allI impI)
    fix n r assume r: "stop r" and n: "2 * length (json_text enc sep colon (JObj d) @ r) + 2 \<le> n"
    then obtain m where m: "n = Suc m" by (cases n) auto
    show "scan_value n (json_text enc sep colon (JObj d) @ r) = Ok (JObj d, r)"
    proof (cases "d = []")
      case True
      then show ?thesis by (simp add: m join_def opens_Cons skip_char)
    next
      case False
      let ?s = "join sep (map (member_text enc colon (json_text enc sep colon)) d) @ ''}'' @ r"
      have "scan_members m ?s = Ok (d, r)"
        using False n parts by (intro scan_dict [OF assms(1)]) (auto simp: m members)
      moreover obtain x where x: "?s = quote_mark # x"
      proof -
        obtain w ws where d: "d = w # ws"
          using False by (cases d) auto
        then have "valid_utf8 (fst w)"
          using JObj.prems by simp
        then show thesis
          using that enc_quote [of "fst w"] by (auto simp: d join_def member_text_def)
      qed
      moreover have "scan_value (Suc m) (CHR ''{'' # quote_mark # x) = bindR (scan_members m (quote_mark # x)) (\<lambda>(kvs, r'). Ok (JObj (dict_of kvs), r'))"
        by (simp add: opens_Cons skip_char)
      moreover have "dict_of d = d"
        using JObj.prems by (simp add: dict_of_distinct)
      ultimately show ?thesis
        by (simp add: m members)
    qed
  qed
qed

text \<open>White space may follow the value.\<close>

lemma loads_text_space:
  assumes "separators sep colon" and "plain v" and "stop r" and "skip_space r = []"
  shows "loads (json_text enc sep colon v @ r) = Ok v"
proof -
  let ?t = "json_text enc sep colon v"
  have "skip_space (?t @ r) = ?t @ r"
    by (rule skip_solid) (rule json_text_solid [OF assms(2)])
  moreover have "scan_value (2 * length (?t @ r) + 2) (?t @ r) = Ok (v, r)"
    by (rule decodesD [OF decodes_text [OF assms(1,2)] assms(3)]) simp
  ultimately show ?thesis
    using assms(4) by (simp add: loads_def)
qed

lemma loads_text: "separators sep colon \<Longrightarrow> plain v \<Longrightarrow> loads (json_text enc sep colon v) = Ok v"
  using loads_text_space [of sep colon v "[]"] by (simp add: stop_def skip_space_def)

end

section \<open>The round trip\<close>

text \<open>Both encoders of strings: with every character escaped that is not ASCII, and with none.\<close>

interpretation ascii_codec: string_codec ascii_str
  by unfold_locales (simp add: ascii_str_eq, rule scan_ascii_str)

lemma scan_dumps_char: "scan_string (dumps_char c @ t) = map_option (apfst (\<lambda>u. c # u)) (scan_string t)"
proof (cases "byte c < 127")
  case True
  have "list_all (\<lambda>d. byte d < 127) (dumps_char c)"
    using True by (auto simp: dumps_char_def hex2_def hex_char_ascii char_lits Let_def)
  then show ?thesis
    using scan_ascii [of c t] True by (simp only: ascii_points)
next
  case False
  then have "dumps_char c = [c]"
    by (simp add: dumps_char_def Let_def)
  moreover have "c \<noteq> quote_mark" "c \<noteq> backslash"
    using False by auto
  ultimately show ?thesis
    using scan_string_char [of c t] False by simp
qed

lemma scan_dumps_str: "scan_string (drop 1 (dumps_str s @ r)) = Some (s, r)"
proof -
  have "scan_string (concat (map dumps_char s) @ quote_mark # r) = Some (s, r)"
    by (induction s) (simp_all add: scan_string_end scan_dumps_char)
  then show ?thesis
    by (simp add: dumps_str_def char_lits)
qed

interpretation utf8_codec: string_codec dumps_str
  by unfold_locales (simp add: dumps_str_def char_lits, rule scan_dumps_str)

theorem loads_dumps_sorted: "plain v \<Longrightarrow> loads (dumps_sorted v) = Ok v"
  by (simp add: dumps_sorted_text ascii_codec.loads_text separators_def)

theorem loads_dumps_ascii: "plain v \<Longrightarrow> loads (dumps_ascii v) = Ok v"
  by (simp add: dumps_ascii_text ascii_codec.loads_text separators_def)

lemma dumps_text: "plain v \<Longrightarrow> dumps v = json_text dumps_str '','' '':'' v"
proof (induction v)
  case (JList xs)
  then show ?case by (simp add: dumps_items_map cong: map_cong)
next
  case (JObj d)
  then have "dumps (snd kv) = json_text dumps_str '','' '':'' (snd kv)" if "kv \<in> set d" for kv
    using that by (auto simp: snds.simps)
  with JObj.prems show ?case
    by (simp add: dumps_pairs_map sort_pairs comp_def cong: map_cong)
qed simp_all

theorem loads_dumps: "plain v \<Longrightarrow> loads (dumps v @ [CHR 0x0A]) = Ok v"
  by (subst dumps_text, assumption, rule utf8_codec.loads_text_space) (simp_all add: separators_def stop_def skip_space_def)

lemma dumps_ascii_inject: "plain v \<Longrightarrow> plain w \<Longrightarrow> dumps_ascii v = dumps_ascii w \<longleftrightarrow> v = w"
  by (metis loads_dumps_ascii sum.inject(2))

end
