(* ===== verification/PyCanonical.thy ===== *)
theory PyCanonical
  imports PyRoundtrip
begin

text \<open>
  What the encoded text looks like: it is ASCII, \<open>strip\<close> leaves it alone, and it does not depend on
  the order in which a dict was built, so equal compact texts mean equal dicts.
\<close>

section \<open>Encoded text is ASCII\<close>

lemma u_escape_ascii: "list_all (\<lambda>c. byte c < 127) (u_escape n)"
  by (simp add: u_escape_def hex4_def hex2_def hex_char_ascii char_lits)

lemma ascii_point_ascii: "list_all (\<lambda>c. byte c < 127) (ascii_point n)"
  by (simp add: ascii_point_def u_escape_ascii)

lemma list_all_concat_map: "(\<And>x. list_all P (f x)) \<Longrightarrow> list_all P (concat (map f xs))"
  by (induction xs) simp_all

lemma ascii_str_ascii: "list_all (\<lambda>c. byte c < 127) (ascii_str s)"
  unfolding ascii_str_def by (intro list_all_concat_map ascii_point_ascii)

lemma join_ascii: "list_all (\<lambda>c. byte c < 127) sep \<Longrightarrow> list_all (list_all (\<lambda>c. byte c < 127)) xs \<Longrightarrow> list_all (\<lambda>c. byte c < 127) (join sep xs)"
  by (cases xs) (auto simp: join_def list_all_iff)

lemma json_text_ascii: "plain v \<Longrightarrow> separators sep colon \<Longrightarrow> list_all (\<lambda>c. byte c < 127) (json_text ascii_str sep colon v)"
proof (induction v)
  case (JInt i)
  then show ?case by (simp add: show_int_ascii)
next
  case (JStr s)
  then show ?case by (simp add: ascii_str_ascii)
next
  case (JList xs)
  have "list_all (\<lambda>c. byte c < 127) sep"
    using JList.prems by (auto simp: separators_def)
  moreover have "list_all (list_all (\<lambda>c. byte c < 127)) (map (json_text ascii_str sep colon) xs)"
    using JList by (simp add: list.pred_map list_all_iff)
  ultimately have "list_all (\<lambda>c. byte c < 127) (join sep (map (json_text ascii_str sep colon) xs))"
    by (rule join_ascii)
  then show ?case by simp
next
  case (JObj d)
  have "list_all (\<lambda>c. byte c < 127) sep" and c: "list_all (\<lambda>c. byte c < 127) colon"
    using JObj.prems by (auto simp: separators_def)
  moreover have "list_all (\<lambda>c. byte c < 127) (ascii_str (fst kv) @ colon @ json_text ascii_str sep colon (snd kv))" if "kv \<in> set d" for kv
    using that JObj.IH [of kv "snd kv"] JObj.prems c ascii_str_ascii by (simp add: snds.simps)
  ultimately have "list_all (\<lambda>c. byte c < 127) (join sep (map (\<lambda>kv. ascii_str (fst kv) @ colon @ json_text ascii_str sep colon (snd kv)) d))"
    by (intro join_ascii) (simp_all add: list_all_iff)
  then show ?case by simp
qed simp_all

lemma utf8_text_ascii: "list_all (\<lambda>c. byte c < 127) s \<Longrightarrow> utf8_text (map byte s) = s"
  by (induction s) (auto simp: utf8_text_def utf8_point_def)

lemma strip_points_solid:
  "ns \<noteq> [] \<Longrightarrow> \<not> space_point (hd ns) \<Longrightarrow> \<not> space_point (last ns) \<Longrightarrow> strip_points ns = ns"
  by (simp add: strip_points_def dropWhile_solid hd_rev)

lemma text_strip_ascii:
  assumes "list_all (\<lambda>c. byte c < 127) s" and "s \<noteq> []" and "\<not> space_point (byte (hd s))" and "\<not> space_point (byte (last s))"
  shows "text_strip s = s"
proof -
  have "points s = map byte s"
    using assms(1) by (intro ascii_only [THEN conjunct2]) (auto elim!: list.pred_mono_strong)
  then show ?thesis
    using assms by (simp add: text_strip_def strip_points_solid hd_map last_map utf8_text_ascii)
qed

section \<open>Order of keys\<close>

lemma insort_pairs: "insort_key fst (fst kv, f (snd kv)) (map (\<lambda>kv. (fst kv, f (snd kv))) d) = map (\<lambda>kv. (fst kv, f (snd kv))) (insort_key fst kv d)"
  by (induction d) auto

lemma sort_pairs_map: "sort_key fst (map (\<lambda>kv. (fst kv, f (snd kv))) d) = map (\<lambda>kv. (fst kv, f (snd kv))) (sort_key fst d)"
  by (induction d) (simp_all add: insort_pairs)

lemma sort_key_again: "sort_key fst (sort_key fst d) = sort_key fst d"
  by (rule sort_key_id_if_sorted) simp

lemma dumps_sort_keys: "dumps (JObj (sort_key fst d)) = dumps (JObj d)"
  by (simp add: dumps_pairs_map sort_pairs_map sort_key_again)

lemma dumps_ascii_sort_keys: "dumps_ascii (JObj (sort_key fst d)) = dumps_ascii (JObj d)"
  by (simp only: dumps_ascii_def dumps_sort_keys)

lemma map_of_sort_key: "distinct (map fst d) \<Longrightarrow> map_of (sort_key fst d) = map_of d"
  by (rule map_of_inject_set [THEN iffD2]) (simp_all add: distinct_map)

section \<open>Canonical values\<close>

text \<open>The keys of every dict in order.\<close>

fun canonical :: "json \<Rightarrow> json" where
  "canonical (JList vs) = JList (map canonical vs)"
| "canonical (JObj d) = JObj (sort_key fst (map (\<lambda>kv. (fst kv, canonical (snd kv))) d))"
| "canonical v = v"

text \<open>A value without floats, of integers of at most 4300 digits and valid text, with distinct keys.\<close>

fun exact :: "json \<Rightarrow> bool" where
  "exact (JInt i) = (length (show_digits \<bar>i\<bar>) \<le> 4300)"
| "exact (JFloat f) = False"
| "exact (JStr s) = valid_utf8 s"
| "exact (JList vs) = (\<forall>v \<in> set vs. exact v)"
| "exact (JObj d) = (distinct (map fst d) \<and> (\<forall>kv \<in> set d. valid_utf8 (fst kv) \<and> exact (snd kv)))"
| "exact _ = True"

lemma canonical_plain: "exact v \<Longrightarrow> plain (canonical v)"
proof (induction v)
  case (JObj d)
  have "plain (canonical (snd kv))" if "kv \<in> set d" for kv
    using that JObj.IH [of kv "snd kv"] JObj.prems by (simp add: snds.simps)
  then show ?case
    using JObj.prems by (auto simp: comp_def distinct_map inj_on_def)
qed simp_all

lemma dumps_canonical: "dumps (canonical v) = dumps v"
proof (induction v)
  case (JObj d)
  have "map (\<lambda>kv. (fst kv, dumps (canonical (snd kv)))) d = map (\<lambda>kv. (fst kv, dumps (snd kv))) d"
    using JObj.IH by (simp add: snds.simps)
  then show ?case
    by (simp only: canonical.simps dumps_sort_keys) (simp add: dumps_pairs_map comp_def cong: map_cong)
qed (simp_all add: dumps_items_map cong: map_cong)

lemma dumps_sorted_sort_keys: "dumps_sorted (JObj (sort_key fst d)) = dumps_sorted (JObj d)"
  by (simp add: sorted_pairs_map sort_pairs_map sort_key_again)

lemma dumps_sorted_canonical: "dumps_sorted (canonical v) = dumps_sorted v"
proof (induction v)
  case (JObj d)
  have "map (\<lambda>kv. (fst kv, dumps_sorted (canonical (snd kv)))) d = map (\<lambda>kv. (fst kv, dumps_sorted (snd kv))) d"
    using JObj.IH by (simp add: snds.simps)
  then show ?case
    by (simp only: canonical.simps dumps_sorted_sort_keys) (simp add: sorted_pairs_map comp_def cong: map_cong)
qed (simp_all add: sorted_items_map cong: map_cong)

lemma dumps_ascii_canonical: "dumps_ascii (canonical v) = dumps_ascii v"
  by (simp add: dumps_ascii_def dumps_canonical)

lemma loads_dumps_sorted_canonical: "exact v \<Longrightarrow> loads (dumps_sorted v) = Ok (canonical v)"
  by (metis canonical_plain dumps_sorted_canonical loads_dumps_sorted)

lemma dumps_ascii_canonical_inject: "exact v \<Longrightarrow> exact w \<Longrightarrow> dumps_ascii v = dumps_ascii w \<Longrightarrow> canonical v = canonical w"
  by (metis canonical_plain dumps_ascii_canonical dumps_ascii_inject)

lemma canonical_finite: "all_finite (canonical v) = all_finite v"
proof (induction v)
  case (JObj d)
  then show ?case by (auto simp: snds.simps)
qed simp_all

lemma exact_finite: "exact v \<Longrightarrow> all_finite v"
proof (induction v)
  case (JObj d)
  then show ?case by (auto simp: snds.simps)
qed simp_all

lemma digest_canonical: "digest_value (canonical v) = digest_value v"
  by (simp add: digest_value_def review_json_def canonical_finite dumps_ascii_canonical)

text \<open>Stripping leaves an encoded object alone.\<close>

lemma strip_object: "exact (JObj d) \<Longrightarrow> text_strip (dumps_sorted (JObj d)) = dumps_sorted (JObj d)"
proof -
  assume d: "exact (JObj d)"
  have "list_all (\<lambda>c. byte c < 127) (dumps_sorted (canonical (JObj d)))"
    unfolding dumps_sorted_text [OF canonical_plain [OF d]] by (intro json_text_ascii canonical_plain d) (simp add: separators_def)
  then have "list_all (\<lambda>c. byte c < 127) (dumps_sorted (JObj d))"
    by (simp only: dumps_sorted_canonical)
  then show ?thesis
    by (rule text_strip_ascii) (simp_all add: space_point_def)
qed

end
