(* ===== verification/ReviewFacts.thy ===== *)
theory ReviewFacts
  imports ReviewReport PyCanonical "HOL-Library.Sublist" "HOL-Library.Multiset"
begin

text \<open>
  Facts about the adversarial review that its properties share: what a successful call of each stage
  went through, what grounding keeps of a finding, and when the second stage concludes.
\<close>


section \<open>Disposition\<close>

lemma sealedE:
  assumes "sealed d = Ok e"
  obtains h where "digest_value (JObj (readiness_json d)) = Ok h" "e = d\<lparr>rd_digest := h\<rparr>"
  using assms by (auto simp: sealed_def result_simps)

lemma decideE:
  assumes "decide c st h reports y items cs ovs dis = Ok d"
  obtains "validate_overrides ovs items = Ok ()"
    and "rd_verdict d = verdict_of cs (standing_blockers dis (sort (map ov_digest ovs)) items) (standing_majors dis (sort (map ov_digest ovs)) items)"
    and "rd_blocking d = (let bs = standing_blockers dis (sort (map ov_digest ovs)) items; ms = standing_majors dis (sort (map ov_digest ovs)) items in
           sort (map fa_digest (if bs = [] \<and> MAJOR_QUORUM \<le> length ms then take MAJOR_QUORUM ms else bs)))"
    and "rd_overridden d = sort (map ov_digest ovs)" and "rd_notice d = NON_AUTHORIZATION_NOTICE"
    and "digest_value (JObj (readiness_json d)) = Ok (rd_digest d)"
  using assms by (auto simp: decide_def Let_def result_simps readiness_json_def elim!: sealedE)

lemma stands_unsorted: "stands dis (sort xs) i = stands dis xs i"
  by (simp add: stands_def)

lemma sealed_verifies: "sealed d = Ok e \<Longrightarrow> verify_seal e = Ok True"
  by (auto simp: verify_seal_def elim: sealedE)

section \<open>Grounding\<close>

text \<open>What a finding becomes in the record.\<close>

definition recorded_as :: "finding \<Rightarrow> finding \<Rightarrow> bool" where
  "recorded_as f g \<longleftrightarrow>
     g = f\<lparr>fi_severity := fi_severity g, fi_statement := fi_statement g, fi_confidence := fi_confidence g\<rparr> \<and>
     (g = f \<or> fi_severity g = Speculation \<and> prefix (fi_statement f) (fi_statement g) \<and> fi_confidence g = ''unverified'')"

lemma verify_oneE:
  assumes "verify_one inputs f = Ok (g, v)"
  obtains "verify_finding f inputs = Ok v" "g = f" "vo_admissible v"
  | s where "verify_finding f inputs = Ok v" "\<not> vo_admissible v" "fi_severity g = Speculation" "fi_confidence g = ''unverified''"
      "fi_statement g = fi_statement f @ s"
      "g = f\<lparr>fi_severity := fi_severity g, fi_statement := fi_statement g, fi_confidence := fi_confidence g\<rparr>"
  using assms by (auto simp: verify_one_def verify_finding_def apply_outcome_def Let_def result_simps split: if_splits)

lemma verify_one_recorded: "verify_one inputs f = Ok (g, v) \<Longrightarrow> recorded_as f g"
  by (erule verify_oneE) (auto simp: recorded_as_def)

lemma recorded_fields:
  assumes "recorded_as f g"
  shows "fi_id g = fi_id f" "fi_role g = fi_role f" "fi_evidence g = fi_evidence f" "fi_claims g = fi_claims f"
proof -
  have e: "g = f\<lparr>fi_severity := fi_severity g, fi_statement := fi_statement g, fi_confidence := fi_confidence g\<rparr>"
    using assms by (simp add: recorded_as_def)
  show "fi_id g = fi_id f" "fi_role g = fi_role f" "fi_evidence g = fi_evidence f" "fi_claims g = fi_claims f"
    by (subst e, simp)+
qed

lemma recorded_severity: "recorded_as f g \<Longrightarrow> fi_severity f \<le> fi_severity g"
  by (auto simp: recorded_as_def)

lemma mapR_list_all2: "mapR f xs = Ok ys \<Longrightarrow> (\<And>x y. f x = Ok y \<Longrightarrow> P x y) \<Longrightarrow> list_all2 P xs ys"
  by (induction xs arbitrary: ys) (auto simp: result_simps)

lemma verified_finding:
  assumes "verify_one inputs f = Ok (g, v)" and "fi_severity g \<noteq> Speculation"
  shows "verify_finding g inputs = Ok v \<and> vo_admissible v"
  using assms by (auto elim: verify_oneE)

section \<open>The campaign's parts\<close>

lemma concludeE:
  assumes "conclude c st inputs claims ovs dis reports outcomes = Ok r"
  obtains y h where "cr_reports r = reports" "synthesize reports claims = Ok y" "cr_synthesis r = y"
    "chair_convert (all_findings reports) (st = STAGE_PRE_SUBMISSION) = Ok (cr_items r)"
    "decide c st h reports y (cr_items r) (detect_conflicts reports) ovs dis = Ok (cr_disposition r)"
  using assms by (auto simp: conclude_def Let_def result_simps)

lemma review_campaignE:
  assumes "review_campaign c st inputs claims src ids ovs dis = Ok r"
  obtains rows where "mapR (review_role inputs src) (sort ids) = Ok rows"
    "conclude c st inputs claims ovs dis (sort_key rp_role (map fst rows)) (concat (map snd rows)) = Ok r"
  using assms by (auto simp: review_campaign_def result_simps)

lemma review_roleE:
  assumes "review_role inputs src i = Ok (report, outcomes)"
  obtains proposal where "verify_all (rp_findings proposal) inputs = Ok (rp_findings report, outcomes)"
    "report = proposal\<lparr>rp_findings := rp_findings report\<rparr>"
  using assms by (auto simp: review_role_def result_simps split: option.splits)

lemma recorded_finding:
  assumes "mapR (review_role inputs src) is = Ok rows" and "f \<in> set (all_findings (sort_key rp_role (map fst rows)))"
  shows "\<exists>f0 v. verify_one inputs f0 = Ok (f, v)"
proof -
  obtain report outcomes where "(report, outcomes) \<in> set rows" and f: "f \<in> set (rp_findings report)"
    using assms(2) by (auto simp: all_findings_def)
  from mapR_set [OF assms(1) this(1)] obtain i where "review_role inputs src i = Ok (report, outcomes)"
    by blast
  then show ?thesis
  proof (rule review_roleE)
    fix proposal
    assume "verify_all (rp_findings proposal) inputs = Ok (rp_findings report, outcomes)"
    then obtain gvs where "mapR (verify_one inputs) (rp_findings proposal) = Ok gvs" "rp_findings report = map fst gvs"
      by (auto simp: verify_all_def result_simps)
    with f mapR_set [OF this(1)] show ?thesis
      by fastforce
  qed
qed

lemma chair_itemE:
  assumes "chair_item b f = Ok i"
  obtains "finding_digest f = Ok (fa_digest i)" "fa_severity i = fi_severity f"
    "fa_disposition i = (if \<not> b \<and> needs_results f then DeferredPostResults else default_disposition (fi_severity f))"
  using assms by (auto simp: chair_item_def Let_def result_simps)

lemma default_blocking: "default_disposition s = Blocking \<longleftrightarrow> s = Blocker" "Blocking = default_disposition s \<longleftrightarrow> s = Blocker"
  by (cases s; simp)+

lemma chair_convertE:
  assumes "chair_convert fs b = Ok items" and "i \<in> set items"
  obtains f where "f \<in> set fs" "fi_severity f \<noteq> Speculation" "chair_item b f = Ok i"
  using assms by (auto simp: chair_convert_def result_simps dest!: mapR_set)

lemma named_item:
  assumes "decide c st h reports y items cs ovs dis = Ok d" and "k \<in> set (rd_blocking d)"
  obtains i where "i \<in> set items" "fa_digest i = k" "fa_disposition i = Blocking \<or> fa_severity i = Major"
  using assms
  by (auto elim!: decideE simp: Let_def standing_blockers_def standing_majors_def split: if_splits dest!: in_set_takeD)

section \<open>The editor\<close>

lemma mapR_projections:
  "mapR f xs = Ok ys \<Longrightarrow> (\<And>x y. f x = Ok y \<Longrightarrow> p y = q x) \<Longrightarrow> map p ys = map q xs"
  by (induction xs arbitrary: ys) (auto simp: result_simps)

lemma mapR_image: "(\<And>x. x \<in> set xs \<Longrightarrow> f (p x) = Ok (q x)) \<Longrightarrow> mapR f (map p xs) = Ok (map q xs)"
  by (induction xs) auto

lemma tag_Ok: "tag f = Ok fh \<longleftrightarrow> fst fh = f \<and> finding_digest f = Ok (snd fh)"
  by (cases fh) (auto simp: tag_def result_simps)

lemma tagged: "mapR tag fs = Ok fhs \<longleftrightarrow> map fst fhs = fs \<and> mapR finding_digest fs = Ok (map snd fhs)"
proof (induction fs arbitrary: fhs)
  case Nil
  then show ?case by auto
next
  case (Cons f fs)
  show ?case
    by (cases fhs) (auto simp: result_simps tag_Ok Cons)
qed

lemma sorted_first_component:
  assumes "sorted (map k xs)" and "\<And>x y. k x \<le> k y \<Longrightarrow> p x \<le> p y"
  shows "sorted (map p xs)"
  using assms(1) by (auto simp: sorted_map elim!: sorted_wrt_mono_rel [rotated] assms(2))

lemma editor_key_severity: "editor_key a \<le> editor_key b \<Longrightarrow> fi_severity (fst a) \<le> fi_severity (fst b)"
  by (auto simp: editor_key_def less_eq_severity_def)

lemma collect_findingsE:
  assumes "collect_findings reports = Ok fs"
  obtains fhs where "fs = map fst (sort_key editor_key fhs)" "map fst fhs = all_findings reports"
    "mapR finding_digest (all_findings reports) = Ok (map snd fhs)"
  using assms by (auto simp: collect_findings_def result_simps tagged all_findings_def)

lemma digest_of_pair:
  assumes "mapR finding_digest (map fst fhs) = Ok (map snd fhs)" and "fh \<in> set fhs"
  shows "finding_digest (fst fh) = Ok (snd fh)"
  using assms by (induction fhs) (auto simp: result_simps)

lemma synthesizeE:
  assumes "synthesize reports claims = Ok y"
  obtains fs fhs sufficient where "collect_findings reports = Ok fs" "mapR tag fs = Ok fhs" "sy_ordered y = map snd fhs"
    "minority_findings fs = Ok (sy_minority y)" "sufficient_rejection_set fs = Ok sufficient"
  using assms by (auto simp: synthesize_def result_simps)

lemma minority_subset:
  assumes "minority_findings fs = Ok hs" and "mapR tag fs = Ok fhs"
  shows "set hs \<subseteq> set (map snd fhs)"
proof
  fix h assume "h \<in> set hs"
  then obtain ghs c where g: "mapR tag (filter (\<lambda>f. fi_severity f \<noteq> Speculation) fs) = Ok ghs"
    and "h \<in> set (group_minority (claim_group ghs c))"
    using assms(1) by (auto simp: minority_findings_def Let_def result_simps)
  then obtain f where fh: "(f, h) \<in> set ghs"
    by (auto simp: group_minority_def claim_group_def split: if_splits)
  from mapR_set [OF g fh] have "f \<in> set fs" "finding_digest f = Ok h"
    by (auto simp: tag_Ok)
  then obtain i where i: "i < length fs" "fs ! i = f"
    by (auto simp: in_set_conv_nth)
  with mapR_nth [OF assms(2), of i] mapR_length [OF assms(2)] \<open>finding_digest f = Ok h\<close>
  show "h \<in> set (map snd fhs)"
    by (auto simp: tag_Ok intro!: image_eqI [of _ _ "fhs ! i"])
qed

section \<open>The editor and the disposition\<close>

lemma stands_free: "stands [] [] i"
  by (simp add: stands_def)

lemma chair_counts:
  assumes "chair_convert fs True = Ok items"
  shows "filter (\<lambda>i. fa_disposition i = Blocking) items = [] \<longleftrightarrow> of_severity Blocker fs = []"
    and "length (filter (\<lambda>i. fa_severity i = Major) items) = length (of_severity Major fs)"
proof -
  obtain raw where raw: "mapR (chair_item True) (filter (\<lambda>f. fi_severity f \<noteq> Speculation) fs) = Ok raw"
    and items: "mset items = mset raw"
    using assms by (auto simp: chair_convert_def result_simps)
  have sev: "map fa_severity raw = map fi_severity (filter (\<lambda>f. fi_severity f \<noteq> Speculation) fs)"
    by (rule mapR_projections [OF raw]) (auto elim: chair_itemE)
  have dis: "map (\<lambda>i. fa_disposition i = Blocking) raw = map (\<lambda>f. fi_severity f = Blocker) (filter (\<lambda>f. fi_severity f \<noteq> Speculation) fs)"
    by (rule mapR_projections [OF raw]) (auto elim: chair_itemE simp: default_blocking)
  have "(\<exists>i\<in>set items. fa_disposition i = Blocking) \<longleftrightarrow> True \<in> set (map (\<lambda>i. fa_disposition i = Blocking) raw)"
    using mset_eq_setD [OF items] by auto
  also have "\<dots> \<longleftrightarrow> (\<exists>f\<in>set fs. fi_severity f = Blocker)"
    unfolding dis by auto
  finally show "filter (\<lambda>i. fa_disposition i = Blocking) items = [] \<longleftrightarrow> of_severity Blocker fs = []"
    by (auto simp: of_severity_def filter_empty_conv)
  have "length (filter (\<lambda>i. fa_severity i = Major) items) = length (filter (\<lambda>s. s = Major) (map fa_severity raw))"
    using items by (metis (no_types, lifting) comp_apply filter_cong filter_map length_map mset_filter size_mset)
  also have "\<dots> = length (of_severity Major fs)"
    unfolding sev by (simp add: filter_map comp_def of_severity_def) (metis severity.distinct)
  finally show "length (filter (\<lambda>i. fa_severity i = Major) items) = length (of_severity Major fs)" .
qed

lemma sufficient_nonempty:
  assumes "sufficient_rejection_set fs = Ok s"
  shows "s \<noteq> [] \<longleftrightarrow> of_severity Blocker fs \<noteq> [] \<or> MAJOR_QUORUM \<le> length (of_severity Major fs)"
  using assms mapR_length [of finding_digest "of_severity Blocker fs"] mapR_length [of finding_digest "of_severity Major fs"]
  by (auto simp: sufficient_rejection_set_def result_simps MAJOR_QUORUM_def split: if_splits)

lemma of_severity_mset: "mset fs = mset gs \<Longrightarrow> length (of_severity s fs) = length (of_severity s gs)"
  unfolding of_severity_def by (metis mset_filter size_mset)

section \<open>Preflight\<close>

definition object_holds :: "campaign_inputs \<Rightarrow> input_object \<Rightarrow> bool" where
  "object_holds inputs i =
     (case resolve_path (ci_root inputs) (io_path i) of
        Inl _ \<Rightarrow> False
      | Inr p \<Rightarrow>
          (case relative_to (ci_root inputs) p of
             None \<Rightarrow> False
           | Some q \<Rightarrow>
               (case lookup_node q (ci_files inputs) of
                  None \<Rightarrow> io_optional i
                | Some n \<Rightarrow> node_digest n = Ok (io_digest i))))"

lemma preflight_step_holds: "(\<exists>obs'. preflight_step inputs obs i = Ok obs') \<longleftrightarrow> object_holds inputs i"
  by (auto simp: preflight_step_def object_holds_def result_simps split: sum.splits option.splits)

lemma foldR_total_iff:
  assumes "\<And>s x. (\<exists>s'. f s x = Ok s') \<longleftrightarrow> p x"
  shows "(\<exists>s'. foldR f s xs = Ok s') \<longleftrightarrow> list_all p xs"
proof (induction xs arbitrary: s)
  case Nil
  then show ?case by simp
next
  case (Cons x xs)
  show ?case
    using assms [of s x] Cons by (cases "f s x") auto
qed

section \<open>Order of the roles\<close>

lemma preflight_slots: "set slots = set slots' \<Longrightarrow> preflight inputs slots = preflight inputs slots'"
  by (simp add: preflight_def list_all_iff)

lemma required_slots_known:
  assumes "list_all (\<lambda>s. role_by_id s \<noteq> None) ids"
  shows "required_slots_for ids = Ok (concat (map (\<lambda>s. rl_inputs (the (role_by_id s))) ids))"
proof -
  have "mapR (\<lambda>s. case role_by_id s of Some r \<Rightarrow> Ok (rl_inputs r) | None \<Rightarrow> Raise (ReviewError InputContractError)) ids
      = Ok (map (\<lambda>s. rl_inputs (the (role_by_id s))) ids)"
    using assms by (intro mapR_total) (auto simp: list_all_iff split: option.splits)
  then show ?thesis by (simp add: required_slots_for_def)
qed


section \<open>The second stage concludes\<close>

lemma mapR_exists: "(\<And>x. x \<in> set xs \<Longrightarrow> \<exists>y. f x = Ok y) \<Longrightarrow> \<exists>ys. mapR f xs = Ok ys"
proof (induction xs)
  case Nil
  then show ?case by simp
next
  case (Cons x xs)
  obtain y where "f x = Ok y"
    using Cons.prems by auto
  moreover obtain ys where "mapR f xs = Ok ys"
    using Cons by auto
  ultimately show ?case by simp
qed

text \<open>Reports whose JSON has no infinity and no NaN.\<close>

definition encodable :: "reviewer_report list \<Rightarrow> bool" where
  "encodable reports \<longleftrightarrow> list_all (\<lambda>r. all_finite (report_json r)) reports"

lemma digest_total: "all_finite (finding_json f) \<Longrightarrow> \<exists>h. finding_digest f = Ok h"
  unfolding finding_digest_def by (rule digest_value_finite)

lemma encodable_findings:
  assumes "encodable reports" and "f \<in> set (all_findings reports)"
  shows "\<exists>h. finding_digest f = Ok h"
proof -
  obtain r where "r \<in> set reports" "f \<in> set (rp_findings r)"
    using assms(2) by (auto simp: all_findings_def)
  moreover from this assms(1) have "all_finite (report_json r)"
    by (simp add: encodable_def list_all_iff)
  ultimately have "all_finite (finding_json f)"
    by (simp add: report_json_def list_all_iff)
  then show ?thesis by (rule digest_total)
qed

lemma item_finite: "all_finite (item_json i)" and claim_row_finite: "all_finite (claim_row_json w)"
  and synthesis_finite: "all_finite (synthesis_json y)"
  by (simp_all add: item_json_def claim_row_json_def synthesis_json_def list_all_iff)

lemma tag_total: "\<exists>h. finding_digest f = Ok h \<Longrightarrow> \<exists>fh. tag f = Ok fh"
  by (auto simp add: tag_def simp del: split_paired_Ex)

lemma collect_findings_total:
  assumes "\<And>f. f \<in> set (all_findings reports) \<Longrightarrow> \<exists>h. finding_digest f = Ok h"
  obtains fs where "collect_findings reports = Ok fs" "set fs = set (all_findings reports)"
proof -
  have "\<exists>fhs. mapR tag (all_findings reports) = Ok fhs"
    using assms by (intro mapR_exists tag_total)
  then obtain fhs where "mapR tag (all_findings reports) = Ok fhs" by blast
  moreover from this have "map fst fhs = all_findings reports"
    by (simp add: tagged)
  ultimately show thesis
    using that [of "map fst (sort_key editor_key fhs)"] by (simp add: collect_findings_def flip: all_findings_def) (metis list.set_map)
qed

lemma digests_total:
  assumes "\<And>f. f \<in> set fs \<Longrightarrow> \<exists>h. finding_digest f = Ok h"
  shows "\<exists>hs. mapR finding_digest fs = Ok hs" and "\<exists>fhs. mapR tag fs = Ok fhs"
  using assms by (intro mapR_exists tag_total; blast)+

lemma by_digest_total: "h \<in> set (map snd fhs) \<Longrightarrow> \<exists>f. by_digest fhs h = Ok f"
  by (auto simp: by_digest_def find_None_iff split: option.splits)

lemma build_matrix_total:
  assumes "\<And>f. f \<in> set fs \<Longrightarrow> \<exists>h. finding_digest f = Ok h"
  shows "\<exists>rows. build_matrix claims fs = Ok rows"
proof -
  have "\<exists>es. mapR attack_entries fs = Ok es"
    using assms by (intro mapR_exists) (fastforce simp: attack_entries_def)
  then show ?thesis by (auto simp: build_matrix_def)
qed

lemma minority_total:
  assumes "\<And>f. f \<in> set fs \<Longrightarrow> \<exists>h. finding_digest f = Ok h"
  shows "\<exists>hs. minority_findings fs = Ok hs"
  using digests_total(2) [of "filter (\<lambda>f. fi_severity f \<noteq> Speculation) fs"] assms by (auto simp: minority_findings_def Let_def)

lemma sufficient_total:
  assumes "\<And>f. f \<in> set fs \<Longrightarrow> \<exists>h. finding_digest f = Ok h" and "mapR tag fs = Ok fhs"
  obtains hs where "sufficient_rejection_set fs = Ok hs" "set hs \<subseteq> set (map snd fhs)"
proof -
  obtain bs ms where b: "mapR finding_digest (of_severity Blocker fs) = Ok bs" and m: "mapR finding_digest (of_severity Major fs) = Ok ms"
    using digests_total(1) [of "of_severity Blocker fs"] digests_total(1) [of "of_severity Major fs"] assms(1)
    by (auto simp: of_severity_def)
  have "h \<in> set (map snd fhs)" if hs: "mapR finding_digest (of_severity s fs) = Ok hs" "h \<in> set hs" for s hs h
  proof -
    obtain f where "f \<in> set (of_severity s fs)" "finding_digest f = Ok h"
      using mapR_set [OF hs] by blast
    then obtain i where "i < length fs" "fs ! i = f" "finding_digest f = Ok h"
      by (auto simp: of_severity_def in_set_conv_nth)
    with mapR_nth [OF assms(2), of i] mapR_length [OF assms(2)] show ?thesis
      by (auto simp: tag_Ok intro!: image_eqI [of _ _ "fhs ! i"])
  qed
  note sub = this
  have "sufficient_rejection_set fs = Ok (if bs \<noteq> [] then bs else if MAJOR_QUORUM \<le> length ms then take MAJOR_QUORUM ms else [])"
    using b m by (simp add: sufficient_rejection_set_def)
  moreover have "set (if bs \<noteq> [] then bs else if MAJOR_QUORUM \<le> length ms then take MAJOR_QUORUM ms else []) \<subseteq> set (map snd fhs)"
    using sub [OF b] sub [OF m] by (auto dest: in_set_takeD)
  ultimately show thesis by (rule that)
qed

lemma synthesize_total:
  assumes "\<And>f. f \<in> set (all_findings reports) \<Longrightarrow> \<exists>h. finding_digest f = Ok h"
  shows "\<exists>y. synthesize reports claims = Ok y"
proof -
  obtain fs where fs: "collect_findings reports = Ok fs" "set fs = set (all_findings reports)"
    using assms by (rule collect_findings_total)
  then have d: "\<exists>h. finding_digest f = Ok h" if "f \<in> set fs" for f
    using that assms by simp
  obtain rows where "build_matrix claims fs = Ok rows"
    using build_matrix_total [OF d] by blast
  moreover obtain minority where m: "minority_findings fs = Ok minority"
    using minority_total [OF d] by blast
  moreover obtain fhs where t: "mapR tag fs = Ok fhs"
    using digests_total(2) [OF d] by blast
  moreover obtain sufficient where "sufficient_rejection_set fs = Ok sufficient" "set sufficient \<subseteq> set (map snd fhs)"
    using sufficient_total [OF d t] by blast
  moreover obtain ls where "rejection_lines fhs sufficient = Ok ls"
  proof -
    have "\<exists>gs. mapR (by_digest fhs) sufficient = Ok gs"
      using calculation(5) by (intro mapR_exists by_digest_total) auto
    then show thesis
      using that by (cases "sufficient = []") (auto simp: rejection_lines_def)
  qed
  moreover obtain ms where "minority_lines fhs minority = Ok ms"
  proof -
    have "\<exists>gs. mapR (by_digest fhs) minority = Ok gs"
      using minority_subset [OF m t] by (intro mapR_exists by_digest_total) auto
    then show thesis
      using that by (cases "minority = []") (auto simp: minority_lines_def)
  qed
  ultimately show ?thesis
    by (simp add: synthesize_def fs)
qed

lemma chair_total:
  assumes "\<And>f. f \<in> set fs \<Longrightarrow> \<exists>h. finding_digest f = Ok h"
  shows "\<exists>items. chair_convert fs b = Ok items"
proof -
  have "\<exists>items. mapR (chair_item b) (filter (\<lambda>f. fi_severity f \<noteq> Speculation) fs) = Ok items"
    using assms by (intro mapR_exists) (fastforce simp: chair_item_def Let_def)
  then show ?thesis by (auto simp: chair_convert_def)
qed

lemma encodable_digest: "encodable reports \<Longrightarrow> \<exists>h. digest_value (JList (map report_json reports)) = Ok h"
  by (rule digest_value_finite) (simp add: encodable_def list_all_iff)

lemma items_digest: "\<exists>h. digest_value (JList (map item_json items)) = Ok h"
  by (rule digest_value_finite) (simp add: list_all_iff item_finite)

lemma sealed_total: "\<exists>e. sealed d = Ok e"
  using digest_value_finite [OF readiness_finite [of d]] by (auto simp: sealed_def)

lemma decide_total:
  assumes "encodable reports" and "validate_overrides ovs items = Ok ()"
  shows "\<exists>d. decide c st h reports y items cs ovs dis = Ok d"
  using encodable_digest [OF assms(1)] digest_value_finite [OF synthesis_finite [of y]] items_digest [of items] sealed_total
  by (fastforce simp: decide_def Let_def assms(2))

lemma inputs_finite: "all_finite (JObj (ci_receipts inputs)) \<Longrightarrow> \<exists>h. inputs_digest inputs = Ok h"
  unfolding inputs_digest_def
  by (rule digest_value_finite) (auto simp: inputs_json_def environment_json_def object_json_def list_all_iff)

lemma conclude_total:
  assumes "encodable reports" and "all_finite (JObj (ci_receipts inputs))"
  shows "\<exists>r. conclude c st inputs claims [] dis reports outcomes = Ok r"
proof -
  note d = encodable_findings [OF assms(1)]
  obtain y where "synthesize reports claims = Ok y"
    using synthesize_total [OF d] by blast
  moreover obtain items where "chair_convert (all_findings reports) (st = STAGE_PRE_SUBMISSION) = Ok items"
    using chair_total [OF d] by blast
  moreover obtain h where "inputs_digest inputs = Ok h"
    using inputs_finite [OF assms(2)] by blast
  moreover obtain d where "decide c st h reports y items (detect_conflicts reports) [] dis = Ok d"
    using decide_total [OF assms(1)] by (fastforce simp: validate_overrides_def)
  ultimately show ?thesis
    by (simp add: conclude_def Let_def)
qed

section \<open>Seals\<close>

text \<open>Two texts on which SHA-256 collides.\<close>

definition collision :: "string \<Rightarrow> string \<Rightarrow> bool" where
  "collision s t \<longleftrightarrow> s \<noteq> t \<and> sha256_hex s = sha256_hex t"

definition seal_text :: "readiness_disposition \<Rightarrow> string" where
  "seal_text d = dumps_ascii (JObj (readiness_json d)) @ newline"

lemma canonical_texts: "map canonical (map JStr xs) = map JStr xs"
  by (simp add: comp_def)

lemma canonical_readiness: "canonical (JObj (readiness_json d)) = JObj (sort_key fst (readiness_json d))"
  unfolding canonical.simps by (rule arg_cong [of _ _ "\<lambda>kvs. JObj (sort_key fst kvs)"]) (simp add: readiness_json_def texts_def comp_def)

lemma readiness_distinct: "distinct (map fst (readiness_json d))"
  by (simp add: readiness_json_def)

lemma map_JStr_inject: "map JStr xs = map JStr ys \<longleftrightarrow> xs = ys"
  by (rule inj_map_eq_map) (simp add: inj_def)

lemma readiness_fields:
  assumes "map_of (readiness_json d) = map_of (readiness_json e)" and "rd_digest d = rd_digest e"
  shows "d = e"
proof -
  have k: "map_of (readiness_json d) x = map_of (readiness_json e) x" for x
    by (simp add: assms(1))
  show ?thesis
    using k [of "''campaign_id''"] k [of "''stage''"] k [of "''verdict''"] k [of "''inputs_digest''"] k [of "''reports_digest''"]
      k [of "''synthesis_digest''"] k [of "''falsification_digest''"] k [of "''blocking_finding_digests''"]
      k [of "''overridden_finding_digests''"] k [of "''non_authorization_notice''"] assms(2)
    by (cases d; cases e) (simp add: readiness_json_def texts_def map_JStr_inject)
qed

lemma seal_digest: "verify_seal d = Ok (rd_digest d = sha256_hex (seal_text d))"
  by (simp only: verify_seal_def digest_value_def review_json_def seal_text_def newline_def readiness_finite if_True bindR_Inr)

end
