(* ===== verification/ReviewSample.thy ===== *)
theory ReviewSample
  imports ReviewFacts
begin

text \<open>
  A review campaign on concrete inputs: one reviewer, four declared files, one grounded blocker. Digests
  stay symbolic; everything else is evaluated.
\<close>

section \<open>A sample campaign\<close>

definition sample_proposal :: dict where
  "sample_proposal =
     [(''role_id'', JStr ''R01-novelty''),
      (''findings'', JList [JObj
         [(''finding_id'', JStr ''F1''), (''severity'', JStr ''blocker''), (''title'', JStr ''Prior art''),
          (''statement'', JStr ''The claim is known.''), (''failure_mode'', JStr ''The paper claims an old result.''),
          (''evidence'', JList [JObj [(''kind'', JStr ''command''), (''locator'', JStr ''make check''), (''detail'', JStr ''exits 0'')]]),
          (''claim_ids'', JList [JStr ''C1'']), (''what_would_refute'', JStr ''A dated earlier draft.'')]]),
      (''coverage_notes'', JList []), (''declared_dependencies'', JList [])]"

definition sample_ref :: evidence_ref where
  "sample_ref = \<lparr>er_kind = Command, er_locator = ''make check'', er_detail = ''exits 0'', er_start = JNull, er_end = JNull,
        er_digest = JNull, er_quoted = JNull\<rparr>"

definition sample_finding :: finding where
  "sample_finding = \<lparr>fi_id = ''F1'', fi_role = ''R01-novelty'', fi_severity = Blocker, fi_title = ''Prior art'',
     fi_statement = ''The claim is known.'', fi_failure = ''The paper claims an old result.'',
     fi_evidence = [sample_ref],
     fi_claims = [''C1''], fi_reproduction = [], fi_refute = ''A dated earlier draft.'', fi_confidence = ''asserted''\<rparr>"

definition sample_files :: "(string \<times> string) list" where
  "sample_files = [(''manuscript'', ''We show.''), (''design'', ''Four arms.''), (''bibliography'', ''None.''), (''citation_queue'', ''Empty.'')]"

definition sample_inputs :: campaign_inputs where
  "sample_inputs =
     \<lparr>ci_campaign = ''c1'', ci_stage = STAGE_PRE_SUBMISSION, ci_root = [''work''],
      ci_files = FolderNode (map (\<lambda>(n, b). (n, FileNode b)) sample_files),
      ci_environment = \<lparr>ep_commit = ''0'', ep_dirty = False, ep_python = ''3.12'', ep_platform = ''linux'', ep_dependencies = ''0''\<rparr>,
      ci_objects = map (\<lambda>(n, b). \<lparr>io_slot = n, io_path = n, io_digest = sha256_hex b, io_description = n, io_optional = False\<rparr>) sample_files,
      ci_receipts = [], ci_sources = []\<rparr>"

definition sample_receipt :: subprocess_receipt where
  "sample_receipt = \<lparr>rc_role = ''R01-novelty'', rc_engine = ''replay'', rc_model = ''replay'', rc_task = task_of role_novelty,
     rc_prompt = ''p'', rc_response = ''r'', rc_input_tokens = JNull, rc_output_tokens = JNull, rc_cost = Num 0,
     rc_seconds = Num 0, rc_status = ''replayed''\<rparr>"

definition sample_source :: source where
  "sample_source role prompt = Ok (dumps_sorted (JObj sample_proposal), sample_receipt)"

lemma sample_exact: "exact (JObj sample_proposal)"
  by code_simp

lemma sample_canonical: "canonical (JObj sample_proposal) = JObj
     [(''coverage_notes'', JList []), (''declared_dependencies'', JList []),
      (''findings'', JList [JObj
         [(''claim_ids'', JList [JStr ''C1'']), 
          (''evidence'', JList [JObj [(''detail'', JStr ''exits 0''), (''kind'', JStr ''command''), (''locator'', JStr ''make check'')]]),
          (''failure_mode'', JStr ''The paper claims an old result.''), (''finding_id'', JStr ''F1''), (''severity'', JStr ''blocker''), 
          (''statement'', JStr ''The claim is known.''), (''title'', JStr ''Prior art''), 
          (''what_would_refute'', JStr ''A dated earlier draft.'')]]),
      (''role_id'', JStr ''R01-novelty'')]"
  by code_simp

lemma extract_object: "exact (JObj d) \<Longrightarrow> extract_json (dumps_sorted (JObj d)) = Ok (case canonical (JObj d) of JObj e \<Rightarrow> e)"
proof -
  assume d: "exact (JObj d)"
  have "dumps_sorted (JObj d) \<noteq> []" by simp
  moreover obtain e where "canonical (JObj d) = JObj e" by simp
  ultimately show ?thesis
    by (simp only: extract_json_def strip_object [OF d] loads_dumps_sorted_canonical [OF d] Let_def if_False sum.case bindR_Inr json.case)
qed

lemma sample_extracted: "extract_json (dumps_sorted (JObj sample_proposal)) = Ok (case canonical (JObj sample_proposal) of JObj d \<Rightarrow> d)"
  by (rule extract_object [OF sample_exact])

lemma novelty_id: "rl_id role_novelty = ''R01-novelty''"
  by (simp add: role_novelty_def)

lemma blank_char: "\<not> space_point (byte c) \<Longrightarrow> byte c < 128 \<Longrightarrow> \<not> blank (c # s)"
  by (simp add: blank_def)


lemma py_str_JStr: "py_str (JStr s) = s"
  by (simp add: py_str_def)

lemma sample_ref_ok: "evidence_ok sample_ref"
  by (simp add: sample_ref_def evidence_ok_def blank_char space_point_def spans_def)

lemma sample_ref_parsed: "evidence_from (JObj [(''detail'', JStr ''exits 0''), (''kind'', JStr ''command''), (''locator'', JStr ''make check'')]) = Ok sample_ref"
  using sample_ref_ok by (simp add: evidence_from_def parse_text_def EVIDENCE_KINDS_def sample_ref_def Let_def py_str_JStr)

lemma sample_finding_ok: "finding_ok sample_finding"
  by (simp add: sample_finding_def finding_ok_def blank_char space_point_def)

lemma sample_finding_parsed:
  "proposal_finding role_novelty (JObj
         [(''claim_ids'', JList [JStr ''C1'']), 
          (''evidence'', JList [JObj [(''detail'', JStr ''exits 0''), (''kind'', JStr ''command''), (''locator'', JStr ''make check'')]]),
          (''failure_mode'', JStr ''The paper claims an old result.''), (''finding_id'', JStr ''F1''), (''severity'', JStr ''blocker''), 
          (''statement'', JStr ''The claim is known.''), (''title'', JStr ''Prior art''), 
          (''what_would_refute'', JStr ''A dated earlier draft.'')]) = Ok sample_finding"
  using sample_finding_ok
  by (simp add: proposal_finding_def finding_from_def sample_ref_parsed parse_text_def SEVERITIES_def
      text_items_def novelty_id sample_finding_def Let_def py_str_JStr)


lemma finding_digest_sample: "\<exists>h. finding_digest sample_finding = Ok h"
  by (rule digest_total) (simp add: finding_json_def evidence_json_def sample_finding_def sample_ref_def)

lemma mandate_total: "\<exists>h. mandate_digest role = Ok h"
  unfolding mandate_digest_def by (rule digest_value_finite) simp

lemma sample_parsed:
  obtains m where "parse_proposal role_novelty (dumps_sorted (JObj sample_proposal)) sample_receipt
    = Ok \<lparr>rp_role = ''R01-novelty'', rp_title = rl_title role_novelty, rp_mandate = m, rp_findings = [sample_finding], rp_notes = [],
          rp_dependencies = [], rp_receipt = Some sample_receipt\<rparr>"
proof -
  obtain m where "mandate_digest role_novelty = Ok m"
    using mandate_total by blast
  then show thesis
    using that [of m] sample_finding_parsed
    by (simp add: parse_proposal_def sample_extracted sample_canonical text_items_def novelty_id py_str_JStr
        del: dumps_sorted.simps canonical.simps)
qed

lemma command_finding:
  assumes "fi_evidence f = [sample_ref]" and "\<not> blank (fi_refute f)" and "finding_digest f = Ok h"
  shows "verify_one inputs f = Ok (f, \<lparr>vo_digest = h, vo_admissible = True, vo_checked = 1, vo_failures = [], vo_downgraded = None\<rparr>)"
proof -
  have "verify_evidence sample_ref inputs = Ok []"
    by (simp add: verify_evidence_def verify_command_def sample_ref_def blank_char space_point_def)
  then have "indexed_failures f inputs = Ok []"
    by (simp add: indexed_failures_def assms)
  then show ?thesis
    by (simp add: verify_one_def verify_finding_def apply_outcome_def contract_failures_def assms)
qed

lemma sample_verified:
  obtains v where "verify_all [sample_finding] inputs = Ok ([sample_finding], [v])"
proof -
  obtain h where "finding_digest sample_finding = Ok h"
    using finding_digest_sample by blast
  then show thesis
    using that command_finding [of sample_finding h inputs]
    by (simp add: verify_all_def sample_finding_def blank_char space_point_def)
qed

definition sample_report :: "string \<Rightarrow> reviewer_report" where
  "sample_report m = \<lparr>rp_role = ''R01-novelty'', rp_title = rl_title role_novelty, rp_mandate = m, rp_findings = [sample_finding],
     rp_notes = [], rp_dependencies = [], rp_receipt = Some sample_receipt\<rparr>"

lemma novelty_found: "role_by_id ''R01-novelty'' = Some role_novelty"
  by (simp add: role_by_id_def ROLES_def novelty_id)

lemma sample_reviewed:
  obtains m v where "review_role sample_inputs sample_source ''R01-novelty'' = Ok (sample_report m, [v])"
proof -
  obtain m where "parse_proposal role_novelty (dumps_sorted (JObj sample_proposal)) sample_receipt = Ok (sample_report m)"
    using sample_parsed unfolding sample_report_def by metis
  moreover obtain v where "verify_all [sample_finding] sample_inputs = Ok ([sample_finding], [v])"
    by (rule sample_verified)
  ultimately show thesis
    using that [of m v]
    by (simp add: review_role_def novelty_found sample_source_def sample_report_def duplicate_finding_ids_def
        del: dumps_sorted.simps)
qed


lemma sample_object: "(n, b) \<in> set sample_files \<Longrightarrow>
  object_holds sample_inputs \<lparr>io_slot = n, io_path = n, io_digest = sha256_hex b, io_description = n, io_optional = False\<rparr>"
  by (auto simp: sample_files_def sample_inputs_def object_holds_def resolve_path_def path_parts_def walk_part_def relative_to_def node_digest_def)

lemma sample_preflight: "\<exists>observed. preflight sample_inputs [''manuscript'', ''design'', ''bibliography'', ''citation_queue''] = Ok observed"
proof -
  have "list_all (object_holds sample_inputs) (ci_objects sample_inputs)"
    using sample_object by (auto simp: list_all_iff sample_inputs_def)
  then have "\<exists>observed. foldR (preflight_step sample_inputs) [] (ci_objects sample_inputs) = Ok observed"
    by (simp only: foldR_total_iff [OF preflight_step_holds])
  moreover have "list_all (\<lambda>s. s \<in> input_slots sample_inputs) [''manuscript'', ''design'', ''bibliography'', ''citation_queue'']"
    by (simp add: input_slots_def sample_inputs_def sample_files_def)
  ultimately show ?thesis
    by (simp only: preflight_def if_True)
qed

lemma sample_encodable: "encodable [sample_report m]"
  by (simp add: encodable_def report_json_def sample_report_def finding_json_def evidence_json_def sample_finding_def sample_ref_def
      receipt_json_def sample_receipt_def is_finite_def)

lemma sample_campaign:
  obtains m r where
    "review_campaign ''c1'' STAGE_PRE_SUBMISSION sample_inputs [] sample_source [''R01-novelty''] [] [] = Ok r"
    "cr_reports r = [sample_report m]"
proof -
  obtain m v where row: "review_role sample_inputs sample_source ''R01-novelty'' = Ok (sample_report m, [v])"
    by (rule sample_reviewed)
  obtain observed where pre: "preflight sample_inputs [''manuscript'', ''design'', ''bibliography'', ''citation_queue''] = Ok observed"
    using sample_preflight by blast
  have "all_finite (JObj (ci_receipts sample_inputs))"
    by (simp add: sample_inputs_def)
  then obtain r where c: "conclude ''c1'' STAGE_PRE_SUBMISSION sample_inputs [] [] [] [sample_report m] [v] = Ok r"
    using conclude_total [OF sample_encodable] by blast
  moreover have "cr_reports r = [sample_report m]"
    using c by (rule concludeE)
  moreover have "required_slots_for [''R01-novelty''] = Ok [''manuscript'', ''design'', ''bibliography'', ''citation_queue'']"
    by (simp add: required_slots_for_def novelty_found) (simp add: role_novelty_def)
  moreover have "ci_stage sample_inputs = STAGE_PRE_SUBMISSION"
    by (simp add: sample_inputs_def)
  ultimately show thesis
    using that row pre by (simp add: review_campaign_def novelty_found)
qed

lemma sort_empty: "[] = sort xs \<longleftrightarrow> xs = []"
  by (metis length_0_conv length_sort)

lemma campaign_blocks:
  assumes "conclude c STAGE_PRE_SUBMISSION inputs claims [] [] reports outcomes = Ok r" and "of_severity Blocker (all_findings reports) \<noteq> []"
  shows "rd_blocking (cr_disposition r) \<noteq> []"
  using assms(1)
proof (rule concludeE)
  fix y h
  assume items: "chair_convert (all_findings reports) (STAGE_PRE_SUBMISSION = STAGE_PRE_SUBMISSION) = Ok (cr_items r)"
    and "decide c STAGE_PRE_SUBMISSION h reports y (cr_items r) (detect_conflicts reports) [] [] = Ok (cr_disposition r)"
  moreover have "filter (\<lambda>i. fa_disposition i = Blocking) (cr_items r) \<noteq> []"
    using chair_counts(1) [OF items [simplified]] assms(2) by simp
  ultimately show ?thesis
    by (auto elim!: decideE simp: Let_def standing_blockers_def stands_free sort_empty)
qed

lemma sample_blocks: "\<exists>r h. review_campaign ''c1'' STAGE_PRE_SUBMISSION sample_inputs [] sample_source [''R01-novelty''] [] [] = Ok r \<and>
    h \<in> set (rd_blocking (cr_disposition r))"
proof -
  obtain m r where r: "review_campaign ''c1'' STAGE_PRE_SUBMISSION sample_inputs [] sample_source [''R01-novelty''] [] [] = Ok r"
    "cr_reports r = [sample_report m]"
    by (rule sample_campaign)
  from r(1) have "rd_blocking (cr_disposition r) \<noteq> []"
  proof (rule review_campaignE)
    fix rows
    assume c: "conclude ''c1'' STAGE_PRE_SUBMISSION sample_inputs [] [] [] (sort_key rp_role (map fst rows)) (concat (map snd rows)) = Ok r"
    then have "sort_key rp_role (map fst rows) = [sample_report m]"
      using r(2) by (metis concludeE)
    then show ?thesis
      by (intro campaign_blocks [OF c]) (simp add: all_findings_def of_severity_def sample_report_def sample_finding_def)
  qed
  then show ?thesis
    using r(1) by (metis list.set_intros(1) neq_Nil_conv)
qed

end
