(* ===== verification/ReviewProps.thy ===== *)
theory ReviewProps
  imports ReviewSample
begin



definition sample_disposition :: readiness_disposition where
  "sample_disposition = \<lparr>rd_campaign = ''c'', rd_stage = STAGE_PRE_LAUNCH, rd_verdict = NO_BLOCKING_FINDINGS, rd_inputs = ''i'',
     rd_reports = ''r'', rd_synthesis = ''s'', rd_falsification = ''f'', rd_blocking = [], rd_overridden = [], rd_notice = ''n'',
     rd_digest = []\<rparr>"

lemma sample_disposition_exact: "exact (JObj (readiness_json sample_disposition))"
  by code_simp



lemma role_ids [simp]:
  "rl_id role_novelty = ''R01-novelty''" "rl_stage role_novelty = ''reviewers''"
  "rl_id role_identification = ''R02-identification''" "rl_stage role_identification = ''reviewers''"
  "rl_id role_statistics = ''R03-statistics''" "rl_stage role_statistics = ''reviewers''"
  "rl_id role_blinding = ''R04-blinding''" "rl_stage role_blinding = ''reviewers''"
  "rl_id role_benchmarks = ''R05-benchmarks''" "rl_stage role_benchmarks = ''reviewers''"
  "rl_id role_infrastructure = ''R06-infrastructure''" "rl_stage role_infrastructure = ''reviewers''"
  "rl_id role_feasibility = ''R07-feasibility''" "rl_stage role_feasibility = ''reviewers''"
  "rl_id role_reproducibility = ''R08-reproducibility''" "rl_stage role_reproducibility = ''reviewers''"
  "rl_id role_manuscript = ''R09-manuscript''" "rl_stage role_manuscript = ''reviewers''"
  "rl_id role_compliance = ''R10-compliance''" "rl_stage role_compliance = ''reviewers''"
  "rl_id role_editor = ''R11-editor''" "rl_stage role_editor = ''synthesis''"
  "rl_id role_chair = ''R12-chair''" "rl_stage role_chair = ''synthesis''"
  by (simp_all only: role_novelty_def role_identification_def role_statistics_def role_blinding_def role_benchmarks_def role_infrastructure_def role_feasibility_def role_reproducibility_def role_manuscript_def role_compliance_def role_editor_def role_chair_def reviewer_role.select_convs)

lemma reviewer_ids: "REVIEWER_ROLE_IDS = [''R01-novelty'', ''R02-identification'', ''R03-statistics'', ''R04-blinding'', ''R05-benchmarks'', ''R06-infrastructure'', ''R07-feasibility'', ''R08-reproducibility'', ''R09-manuscript'', ''R10-compliance'']"
  by (simp add: REVIEWER_ROLE_IDS_def ROLES_def)

lemma sample_conflict_free: "blocking_conflicts (detect_conflicts [sample_report m]) = []"
  by (simp add: blocking_conflicts_def detect_conflicts_def shared_context_def declared_dependencies_def cross_role_citations_def
      add_prompt_def sample_report_def sample_receipt_def sample_finding_def sample_ref_def reviewer_ids substring_def)



text \<open>
  C8. Every digest a campaign's disposition names as blocking is the digest of a finding of a recorded report,
  of severity blocker or major, whose every evidence reference was verified against the campaign's own
  inputs: no ungrounded objection ever blocks.
\<close>

theorem blocking_is_grounded:
  assumes "review_campaign c st inputs claims src ids ovs dis = Ok r" and "h \<in> set (rd_blocking (cr_disposition r))"
  shows "\<exists>f v. f \<in> set (all_findings (cr_reports r)) \<and> finding_digest f = Ok h \<and> fi_severity f \<in> set BLOCKING_ELIGIBLE \<and>
           verify_finding f inputs = Ok v \<and> vo_admissible v"
  using assms(1)
proof (rule review_campaignE)
  fix rows
  assume rows: "mapR (review_role inputs src) (sort ids) = Ok rows"
    and "conclude c st inputs claims ovs dis (sort_key rp_role (map fst rows)) (concat (map snd rows)) = Ok r"
  from this(2) show ?thesis
  proof (rule concludeE)
    fix y k
    assume reports: "cr_reports r = sort_key rp_role (map fst rows)"
      and items: "chair_convert (all_findings (sort_key rp_role (map fst rows))) (st = STAGE_PRE_SUBMISSION) = Ok (cr_items r)"
      and "decide c st k (sort_key rp_role (map fst rows)) y (cr_items r) (detect_conflicts (sort_key rp_role (map fst rows))) ovs dis
        = Ok (cr_disposition r)"
    from named_item [OF this(3) assms(2)] obtain i where
      i: "i \<in> set (cr_items r)" "fa_digest i = h" "fa_disposition i = Blocking \<or> fa_severity i = Major" .
    from chair_convertE [OF items i(1)] obtain f where
      f: "f \<in> set (all_findings (cr_reports r))" "fi_severity f \<noteq> Speculation"
      and item: "chair_item (st = STAGE_PRE_SUBMISSION) f = Ok i"
      unfolding reports .
    from item i(2,3) have "finding_digest f = Ok h" "fi_severity f = Blocker \<or> fi_severity f = Major"
      by (auto elim!: chair_itemE simp: default_blocking split: if_splits)
    moreover from recorded_finding [OF rows] f obtain f0 v where "verify_one inputs f0 = Ok (f, v)"
      unfolding reports by blast
    ultimately show ?thesis
      using f verified_finding by (auto simp: BLOCKING_ELIGIBLE_def)
  qed
qed

theorem blocking_is_grounded_witness:
  "\<exists>r h f. review_campaign ''c1'' STAGE_PRE_SUBMISSION sample_inputs [] sample_source [''R01-novelty''] [] [] = Ok r \<and>
       h \<in> set (rd_blocking (cr_disposition r)) \<and> finding_digest f = Ok h \<and> fi_severity f \<in> set BLOCKING_ELIGIBLE"
proof -
  obtain r h where r: "review_campaign ''c1'' STAGE_PRE_SUBMISSION sample_inputs [] sample_source [''R01-novelty''] [] [] = Ok r"
    and h: "h \<in> set (rd_blocking (cr_disposition r))"
    using sample_blocks by blast
  then show ?thesis
    using blocking_is_grounded [OF r h] by blast
qed



text \<open>
  C32. The editor orders every recorded finding, the worst severities first, and drops none; what it lists as a
  minority finding is one of them.
\<close>

theorem editor_keeps_every_finding:
  assumes "synthesize reports claims = Ok y"
  shows "\<exists>fs. mset fs = mset (all_findings reports) \<and> sorted (map fi_severity fs) \<and>
           mapR finding_digest fs = Ok (sy_ordered y) \<and> set (sy_minority y) \<subseteq> set (sy_ordered y)"
  using assms
proof (rule synthesizeE)
  fix fs fhs s
  assume c: "collect_findings reports = Ok fs" and t: "mapR tag fs = Ok fhs" and o: "sy_ordered y = map snd fhs"
    and m: "minority_findings fs = Ok (sy_minority y)"
  from c obtain ghs where g: "fs = map fst (sort_key editor_key ghs)" "map fst ghs = all_findings reports"
    by (rule collect_findingsE)
  have "mset fs = mset (all_findings reports)"
    by (simp add: g(1) flip: g(2))
  moreover have "sorted (map fi_severity fs)"
    using sorted_first_component [of editor_key "sort_key editor_key ghs" "\<lambda>fh. fi_severity (fst fh)"]
    by (simp add: g(1) comp_def editor_key_severity)
  moreover have "mapR finding_digest fs = Ok (sy_ordered y)"
    using t by (simp add: tagged o)
  moreover have "set (sy_minority y) \<subseteq> set (sy_ordered y)"
    using minority_subset [OF m t] by (simp add: o)
  ultimately show ?thesis by blast
qed

theorem editor_keeps_every_finding_witness:
  "\<exists>y fs. synthesize [sample_report ''m''] [] = Ok y \<and> mset fs = {#sample_finding#} \<and> mapR finding_digest fs = Ok (sy_ordered y)"
proof -
  obtain y where y: "synthesize [sample_report ''m''] [] = Ok y"
    using synthesize_total encodable_findings [OF sample_encodable] by blast
  then show ?thesis
    using editor_keeps_every_finding [OF y] by (auto simp: all_findings_def sample_report_def)
qed

text \<open>
  C31. Without conflicts, overrides or discharges, the disposition before a submission blocks exactly when the
  editor finds a set of findings sufficient for rejection: two routines that count severities on their own
  agree.
\<close>

theorem editor_agrees_with_disposition:
  assumes "conclude c STAGE_PRE_SUBMISSION inputs claims [] [] reports outcomes = Ok r"
    and "blocking_conflicts (detect_conflicts reports) = []"
  shows "\<exists>fs s. collect_findings reports = Ok fs \<and> sufficient_rejection_set fs = Ok s \<and>
           (rd_verdict (cr_disposition r) = LAUNCH_BLOCKED \<longleftrightarrow> s \<noteq> []) \<and>
           (rd_verdict (cr_disposition r) = NO_BLOCKING_FINDINGS \<longleftrightarrow> s = [])"
  using assms(1)
proof (rule concludeE)
  fix y h
  assume y: "synthesize reports claims = Ok y"
    and items: "chair_convert (all_findings reports) (STAGE_PRE_SUBMISSION = STAGE_PRE_SUBMISSION) = Ok (cr_items r)"
    and d: "decide c STAGE_PRE_SUBMISSION h reports y (cr_items r) (detect_conflicts reports) [] [] = Ok (cr_disposition r)"
  from y obtain fs s where fs: "collect_findings reports = Ok fs" and s: "sufficient_rejection_set fs = Ok s"
    by (rule synthesizeE)
  from fs obtain ghs where "fs = map fst (sort_key editor_key ghs)" "map fst ghs = all_findings reports"
    by (rule collect_findingsE)
  then have "mset fs = mset (all_findings reports)"
    by (metis mset_map mset_sort)
  then have len: "length (of_severity k fs) = length (of_severity k (all_findings reports))" for k
    by (rule of_severity_mset)
  note counts = chair_counts [OF items [simplified]]
  have "rd_verdict (cr_disposition r) = verdict_of (detect_conflicts reports)
      (filter (\<lambda>i. fa_disposition i = Blocking) (cr_items r)) (filter (\<lambda>i. fa_severity i = Major) (cr_items r))"
    using d by (rule decideE) (simp add: standing_blockers_def standing_majors_def stands_free)
  moreover have "LAUNCH_BLOCKED \<noteq> NO_BLOCKING_FINDINGS"
    by (simp add: LAUNCH_BLOCKED_def NO_BLOCKING_FINDINGS_def)
  moreover have "s \<noteq> [] \<longleftrightarrow> of_severity Blocker (all_findings reports) \<noteq> [] \<or> MAJOR_QUORUM \<le> length (of_severity Major (all_findings reports))"
    using sufficient_nonempty [OF s] len [of Blocker] len [of Major] by (metis length_0_conv)
  ultimately show ?thesis
    using fs s assms(2) counts by (auto simp: verdict_of_def)
qed

theorem editor_agrees_with_disposition_witness:
  "\<exists>r. conclude ''c1'' STAGE_PRE_SUBMISSION sample_inputs [] [] [] [sample_report ''m''] [] = Ok r \<and>
       (rd_verdict (cr_disposition r) = NO_BLOCKING_FINDINGS \<or> rd_verdict (cr_disposition r) = LAUNCH_BLOCKED)"
proof -
  obtain r where r: "conclude ''c1'' STAGE_PRE_SUBMISSION sample_inputs [] [] [] [sample_report ''m''] [] = Ok r"
    using conclude_total [OF sample_encodable, of sample_inputs] by (force simp: sample_inputs_def)
  then show ?thesis
    using editor_agrees_with_disposition [OF r sample_conflict_free] by blast
qed



text \<open>
  Preflight accepts the declared inputs exactly when every slot the roles need is declared and every declared
  object lies inside the campaign root and still has its declared digest, an optional one being allowed to be
  missing.
\<close>

theorem preflight_accepts:
  "(\<exists>observed. preflight inputs slots = Ok observed) \<longleftrightarrow>
     set slots \<subseteq> input_slots inputs \<and> list_all (object_holds inputs) (ci_objects inputs)"
  by (auto simp: preflight_def foldR_total_iff [OF preflight_step_holds] list_all_iff subset_eq)

text \<open>
  The outcome of a campaign, errors included, does not depend on the order in which the roles are named.
\<close>

theorem campaign_role_order:
  assumes "mset ids = mset ids'"
  shows "review_campaign c st inputs claims src ids ovs dis = review_campaign c st inputs claims src ids' ovs dis"
proof -
  have s: "set ids = set ids'" and o: "sort ids = sort ids'"
    using assms by (auto dest: mset_eq_setD intro: properties_for_sort)
  show ?thesis
  proof (cases "list_all (\<lambda>s. role_by_id s \<noteq> None) ids")
    case True
    moreover from this have "list_all (\<lambda>s. role_by_id s \<noteq> None) ids'"
      by (simp add: list_all_iff s)
    moreover have "preflight inputs (concat (map (\<lambda>s. rl_inputs (the (role_by_id s))) ids)) =
        preflight inputs (concat (map (\<lambda>s. rl_inputs (the (role_by_id s))) ids'))"
      by (rule preflight_slots) (simp add: s)
    ultimately show ?thesis
      by (simp add: review_campaign_def required_slots_known o)
  next
    case False
    moreover from this have "\<not> list_all (\<lambda>s. role_by_id s \<noteq> None) ids'"
      by (simp add: list_all_iff s)
    ultimately show ?thesis
      by (simp only: review_campaign_def require_def if_False bindR_Inl)
  qed
qed

theorem campaign_role_order_witness:
  "review_campaign ''c1'' STAGE_PRE_LAUNCH sample_inputs [] sample_source [''R01-novelty'', ''R03-statistics''] [] [] =
   review_campaign ''c1'' STAGE_PRE_LAUNCH sample_inputs [] sample_source [''R03-statistics'', ''R01-novelty''] [] []"
  by (rule campaign_role_order) simp



text \<open>
  C11. Two dispositions that verify under the same seal are the same disposition, unless their texts are a SHA-256
  collision: no field of a sealed disposition can be altered unnoticed.
\<close>

theorem seal_is_tamper_evident:
  assumes "verify_seal d = Ok True" and "verify_seal e = Ok True" and "rd_digest d = rd_digest e"
    and "exact (JObj (readiness_json d))" and "exact (JObj (readiness_json e))" and "\<not> collision (seal_text d) (seal_text e)"
  shows "d = e"
proof -
  have "sha256_hex (seal_text d) = rd_digest d" "sha256_hex (seal_text e) = rd_digest e"
    using seal_digest assms(1,2) by simp_all
  then have "seal_text d = seal_text e"
    using assms(3,6) by (simp add: collision_def)
  then have "dumps_ascii (JObj (readiness_json d)) = dumps_ascii (JObj (readiness_json e))"
    by (simp add: seal_text_def)
  from dumps_ascii_canonical_inject [OF assms(4,5) this]
  have "sort_key fst (readiness_json d) = sort_key fst (readiness_json e)"
    by (simp only: canonical_readiness json.inject)
  then have "map_of (readiness_json d) = map_of (readiness_json e)"
    by (metis map_of_sort_key readiness_distinct)
  then show ?thesis
    using assms(3) by (rule readiness_fields)
qed

theorem seal_is_tamper_evident_witness:
  "\<exists>d e. verify_seal d = Ok True \<and> verify_seal e = Ok True \<and> rd_digest d = rd_digest e \<and> d = e"
proof -
  obtain d where d: "sealed sample_disposition = Ok d"
    using sealed_total by blast
  then obtain h where "d = sample_disposition\<lparr>rd_digest := h\<rparr>"
    by (rule sealedE)
  then have x: "exact (JObj (readiness_json d))"
    using sample_disposition_exact by (simp only: readiness_json_digest)
  note v = sealed_verifies [OF d]
  have "d = d"
    by (rule seal_is_tamper_evident [OF v v refl x x]) (simp add: collision_def)
  with v show ?thesis by blast
qed

end
