(* ===== verification/CrashFiles.thy ===== *)
theory CrashFiles
  imports Hashing
begin

text \<open>
  A file system as a crash-safe protocol sees it: names are links to inodes, inodes hold bytes. An
  operation yields its result, its final state and every state in between, so that "the process dies
  here" is a member of a list. Regular files only; parent directories exist; a synced or unsynced
  change survives a crash of the process alike.
\<close>

section \<open>State\<close>

type_synonym path = "string list"

record fs =
  fs_names :: "(path \<times> nat) list"
  fs_data :: "(nat \<times> string) list"

definition inode_of :: "fs \<Rightarrow> path \<Rightarrow> nat option" where
  "inode_of s p = map_of (fs_names s) p"

definition bytes_of :: "fs \<Rightarrow> nat \<Rightarrow> string" where
  "bytes_of s i = (case map_of (fs_data s) i of Some b \<Rightarrow> b | None \<Rightarrow> [])"

definition exists_at :: "fs \<Rightarrow> path \<Rightarrow> bool" where
  "exists_at s p \<longleftrightarrow> inode_of s p \<noteq> None"

text \<open>What \<open>read_bytes\<close> gives.\<close>

definition content :: "fs \<Rightarrow> path \<Rightarrow> string option" where
  "content s p = map_option (bytes_of s) (inode_of s p)"

section \<open>Operations with their intermediate states\<close>

type_synonym 'a io = "fs \<Rightarrow> 'a result \<times> fs list \<times> fs"

definition io_return :: "'a \<Rightarrow> 'a io" where
  "io_return x s = (Ok x, [], s)"

definition io_raise :: "py_error \<Rightarrow> 'a io" where
  "io_raise e s = (Raise e, [], s)"

definition io_bind :: "'a io \<Rightarrow> ('a \<Rightarrow> 'b io) \<Rightarrow> 'b io" where
  "io_bind m f s =
     (case m s of
        (Inl e, tr, s') \<Rightarrow> (Inl e, tr, s')
      | (Inr x, tr, s') \<Rightarrow> (case f x s' of (r, tr', s'') \<Rightarrow> (r, tr @ tr', s'')))"

text \<open>Reading the state, a fallible read, and a check.\<close>

definition io_get :: "(fs \<Rightarrow> 'a result) \<Rightarrow> 'a io" where
  "io_get f s = (f s, [], s)"

definition io_check :: "(fs \<Rightarrow> bool) \<Rightarrow> py_error \<Rightarrow> unit io" where
  "io_check c e = io_get (\<lambda>s. if c s then Ok () else Raise e)"

text \<open>\<open>try: m except BaseException: h; raise\<close>\<close>

definition io_on_error :: "'a io \<Rightarrow> unit io \<Rightarrow> 'a io" where
  "io_on_error m h s =
     (case m s of
        (Inl e, tr, s') \<Rightarrow> (case h s' of (Inl e', tr', s'') \<Rightarrow> (Inl e', tr @ tr', s'') | (Inr _, tr', s'') \<Rightarrow> (Inl e, tr @ tr', s''))
      | (Inr x, tr, s') \<Rightarrow> (Inr x, tr, s'))"

fun io_iter :: "('a \<Rightarrow> unit io) \<Rightarrow> 'a list \<Rightarrow> unit io" where
  "io_iter f [] = io_return ()"
| "io_iter f (x # xs) = io_bind (f x) (\<lambda>_. io_iter f xs)"

definition result_of :: "'a io \<Rightarrow> fs \<Rightarrow> 'a result" where
  "result_of m s = fst (m s)"

definition final_of :: "'a io \<Rightarrow> fs \<Rightarrow> fs" where
  "final_of m s = snd (snd (m s))"

text \<open>Where a crash can leave the files.\<close>

definition crash_states :: "'a io \<Rightarrow> fs \<Rightarrow> fs set" where
  "crash_states m s = insert s (set (fst (snd (m s))))"

section \<open>System calls\<close>

text \<open>\<open>O_CREAT | O_EXCL\<close>; \<open>fresh\<close> picks the inode of a new file from the names in use.\<close>

definition io_create :: "((path \<times> nat) list \<Rightarrow> nat) \<Rightarrow> path \<Rightarrow> nat io" where
  "io_create fresh p s =
     (if exists_at s p then (Raise FileExistsError, [], s)
      else let i = fresh (fs_names s);
               s' = s\<lparr>fs_names := dset (fs_names s) p i, fs_data := dset (fs_data s) i []\<rparr>
           in (Ok i, [s'], s'))"

text \<open>Writing all bytes in as many calls as it takes: every prefix may be on disk.\<close>

definition io_write :: "nat \<Rightarrow> string \<Rightarrow> unit io" where
  "io_write i b s =
     (let tr = map (\<lambda>n. s\<lparr>fs_data := dset (fs_data s) i (bytes_of s i @ take n b)\<rparr>) [1..<Suc (length b)]
      in (Ok (), tr, last (s # tr)))"

definition set_link :: "path \<Rightarrow> nat \<Rightarrow> fs \<Rightarrow> fs" where
  "set_link p i s = s\<lparr>fs_names := dset (fs_names s) p i\<rparr>"

definition drop_link :: "path \<Rightarrow> fs \<Rightarrow> fs" where
  "drop_link p s = s\<lparr>fs_names := filter (\<lambda>(q, _). q \<noteq> p) (fs_names s)\<rparr>"

definition io_link :: "path \<Rightarrow> path \<Rightarrow> unit io" where
  "io_link src dst s =
     (case inode_of s src of
        None \<Rightarrow> (Raise FileNotFoundError, [], s)
      | Some i \<Rightarrow> if exists_at s dst then (Raise FileExistsError, [], s)
                  else let s' = set_link dst i s in (Ok (), [s'], s'))"

definition io_replace :: "path \<Rightarrow> path \<Rightarrow> unit io" where
  "io_replace src dst s =
     (case inode_of s src of
        None \<Rightarrow> (Raise FileNotFoundError, [], s)
      | Some i \<Rightarrow> let s' = set_link dst i (drop_link src s) in (Ok (), [s'], s'))"

definition io_unlink :: "path \<Rightarrow> unit io" where
  "io_unlink p s =
     (if exists_at s p then let s' = drop_link p s in (Ok (), [s'], s') else (Raise FileNotFoundError, [], s))"

section \<open>Keyed digests\<close>

text \<open>\<open>hmac.new(key, message, hashlib.sha256).hexdigest()\<close>\<close>

definition hmac_block :: "string \<Rightarrow> nat list" where
  "hmac_block key = take 64 ((if 64 < length key then sha256 key else map of_char key) @ replicate 64 0)"

definition hmac_sha256_hex :: "string \<Rightarrow> string \<Rightarrow> string" where
  "hmac_sha256_hex key msg =
     (let pad = (\<lambda>n. map (\<lambda>k. char_of (Bit_Operations.xor k n)) (hmac_block key)) in
      sha256_hex (pad 92 @ map char_of (sha256 (pad 54 @ msg))))"

section \<open>Laws\<close>

lemma inode_set_link [simp]: "inode_of (set_link p i s) q = (if q = p then Some i else inode_of s q)"
  by (simp add: inode_of_def set_link_def)

lemma map_of_filter_key: "map_of (filter (\<lambda>(q, _). q \<noteq> p) xs) = (map_of xs)(p := None)"
  by (induction xs) (auto simp: fun_eq_iff)

lemma inode_drop_link [simp]: "inode_of (drop_link p s) q = (if q = p then None else inode_of s q)"
  by (simp add: inode_of_def drop_link_def map_of_filter_key)

lemma bytes_set_link [simp]: "bytes_of (set_link p i s) j = bytes_of s j"
  by (simp add: bytes_of_def set_link_def)

lemma bytes_drop_link [simp]: "bytes_of (drop_link p s) j = bytes_of s j"
  by (simp add: bytes_of_def drop_link_def)

end
