(* ===== verification/PyTorn.thy ===== *)
theory PyTorn
  imports PyCanonical
begin

text \<open>
  A torn write of a JSON object is always noticed: no proper prefix of its compact text decodes, except
  the one that lacks only the final newline.
\<close>

section \<open>Proper prefixes\<close>

definition cut :: "string \<Rightarrow> string \<Rightarrow> bool" where
  "cut p t \<longleftrightarrow> (\<exists>u. u \<noteq> [] \<and> t = p @ u)"

lemma cut_Nil [simp]: "\<not> cut p []"
  by (simp add: cut_def)

lemma cut_Cons [simp]: "cut p (c # t) \<longleftrightarrow> p = [] \<or> (\<exists>q. p = c # q \<and> cut q t)"
  by (cases p) (auto simp: cut_def)

lemma cut_append: "cut p (s @ t) \<longleftrightarrow> cut p s \<or> (\<exists>q. p = s @ q \<and> cut q t)"
proof (induction s arbitrary: p)
  case Nil
  then show ?case by simp
next
  case (Cons c s)
  then show ?case by (cases p) auto
qed

section \<open>Strings\<close>

lemma scan_string_Nil: "scan_string [] = None"
  by (subst scan_string.simps) simp

lemma scan_string_stuck: "scan_escape cs = None \<Longrightarrow> scan_string (backslash # cs) = None"
  by (subst scan_string.simps) simp

lemma cut_char: "cut p (dumps_char c) \<Longrightarrow> scan_string p = None"
proof -
  assume p: "cut p (dumps_char c)"
  have short: "scan_escape q = None" if "cut q (''u00'' @ hex2 n)" for q n
    using that by (auto simp: hex2_def scan_escape_def scan_unicode_def scan_hex4_def)
  have "dumps_char c = [c] \<or> (\<exists>d. dumps_char c = [backslash, d]) \<or> (\<exists>n. dumps_char c = backslash # ''u00'' @ hex2 n)"
    by (auto simp: dumps_char_def Let_def char_lits)
  then consider "dumps_char c = [c]" | d where "dumps_char c = [backslash, d]" | n where "dumps_char c = backslash # ''u00'' @ hex2 n"
    by blast
  then show ?thesis
  proof cases
    case 1
    with p show ?thesis by (simp add: scan_string_Nil)
  next
    case (2 d)
    with p show ?thesis by (auto simp: scan_string_Nil scan_escape_def intro: scan_string_stuck)
  next
    case (3 n)
    with p have "p = [] \<or> (\<exists>q. p = backslash # q \<and> cut q (''u00'' @ hex2 n))"
      by simp
    then show ?thesis
      using short by (auto simp: scan_string_Nil intro: scan_string_stuck)
  qed
qed

lemma cut_chars: "cut p (concat (map dumps_char s) @ [quote_mark]) \<Longrightarrow> scan_string p = None"
proof (induction s arbitrary: p)
  case Nil
  then show ?case by (simp add: scan_string_Nil)
next
  case (Cons c s)
  then have "cut p (dumps_char c) \<or> (\<exists>q. p = dumps_char c @ q \<and> cut q (concat (map dumps_char s) @ [quote_mark]))"
    by (simp add: cut_append)
  then show ?case
    using Cons.IH cut_char by (auto simp: scan_dumps_char)
qed

lemma dumps_str_chars: "dumps_str s = quote_mark # concat (map dumps_char s) @ [quote_mark]"
  by (simp add: dumps_str_def char_lits)

section \<open>Values\<close>

text \<open>The decoder rejects the text or reads it to its end.\<close>

definition spent :: "('a \<times> string) result \<Rightarrow> bool" where
  "spent r \<longleftrightarrow> (\<forall>v t. r = Ok (v, t) \<longrightarrow> t = [])"

lemma spent_Raise [simp]: "spent (Raise e)"
  by (simp add: spent_def)

lemma spent_Ok [simp]: "spent (Ok (v, t)) \<longleftrightarrow> t = []"
  by (simp add: spent_def)

lemma opens_Nil [simp]: "\<not> opens c []"
  by (simp add: opens_def)

lemma skip_Nil [simp]: "skip_space [] = []"
  by (simp add: skip_space_def)

lemma scan_atom_Nil: "scan_atom [] = Raise JSONDecodeError"
  by (simp add: scan_atom_def literals_def scan_number_def number_parts_def lead_digits_def scan_fraction_def Let_def)

lemma scan_value_Nil: "scan_value n [] = Raise JSONDecodeError"
  by (cases n) (simp_all add: scan_atom_Nil)

lemma scan_elements_Nil: "scan_elements n [] = Raise JSONDecodeError"
  by (cases n) (simp_all add: scan_value_Nil)

lemma scan_members_Nil: "scan_members n [] = Raise JSONDecodeError"
  by (cases n) simp_all

text \<open>Atoms other than literals.\<close>

lemma cut_digits: "cut p ds \<Longrightarrow> list_all is_digit ds \<Longrightarrow> list_all is_digit p"
  by (auto simp: cut_def)

lemma number_parts_digits:
  assumes "list_all is_digit ds" and "take 1 ds \<noteq> ''0''" and "sg = [] \<or> sg = ''-''"
  shows "number_parts (sg @ ds) = (sg, ds, [], [])"
proof -
  have l: "lead_digits ds = ds"
    using lead_digits_append [OF assms(1), of "[]"] by (simp add: lead_digits_def)
  have "case ds of c # _ \<Rightarrow> c \<noteq> CHR ''-'' | [] \<Rightarrow> True"
    using assms(1) by (auto simp: is_digit_def split: list.split)
  then have "(case sg @ ds of c # _ \<Rightarrow> if c = CHR ''-'' then [c] else [] | [] \<Rightarrow> []) = sg"
    using assms(3) by (auto split: list.splits)
  then show ?thesis
    unfolding number_parts_def Let_def using assms(2) by (simp add: l scan_fraction_def scan_exponent_def)
qed

lemma number_spent:
  assumes "list_all is_digit ds" and "take 1 ds \<noteq> ''0''" and "sg = [] \<or> sg = ''-''"
  shows "spent (scan_number (sg @ ds))"
  unfolding scan_number_def number_parts_digits [OF assms] by (simp add: Let_def split: option.split)

lemma literal_length: "(t, v) \<in> set literals \<Longrightarrow> 3 \<le> length t \<and> \<not> list_all is_digit (tl t)"
  by (auto simp: literals_def is_digit_def)

lemma atom_number:
  assumes "list_all is_digit ds" and "sg = [] \<or> sg = ''-''"
  shows "scan_atom (sg @ ds) = scan_number (sg @ ds)"
proof -
  have "take (length t) (sg @ ds) \<noteq> t" if "(t, v) \<in> set literals" for t v
  proof
    assume "take (length t) (sg @ ds) = t"
    then have "take (length t - 1) (tl (sg @ ds)) = tl t"
      using literal_length [OF that] by (metis tl_take)
    moreover have "list_all is_digit (tl (sg @ ds))"
      using assms by (cases ds) auto
    ultimately show False
      using literal_length [OF that] by (metis append_take_drop_id list_all_append)
  qed
  then have "filter (\<lambda>(t, _). take (length t) (sg @ ds) = t) literals = []"
    by (auto simp: filter_empty_conv)
  then show ?thesis
    by (simp only: scan_atom_def list.case)
qed

lemma plain_value: "\<not> opens quote_mark s \<Longrightarrow> \<not> opens (CHR ''['') s \<Longrightarrow> \<not> opens (CHR ''{'') s \<Longrightarrow> scan_value (Suc n) s = scan_atom s"
  by (simp add: Let_def)

lemma digits_open: "list_all is_digit ds \<Longrightarrow> sg = [] \<or> sg = ''-'' \<Longrightarrow> c \<in> {quote_mark, CHR ''['', CHR ''{''} \<Longrightarrow> \<not> opens c (sg @ ds)"
  by (cases ds) (auto simp: opens_Cons is_digit_def)

lemma int_spent: "cut p (show_int i) \<Longrightarrow> spent (scan_value n p)"
proof (cases n)
  case (Suc m)
  assume p: "cut p (show_int i)"
  show ?thesis
  proof (cases "p = []")
    case True
    then show ?thesis by (simp add: scan_value_Nil)
  next
    case False
    define sg where "sg = (if i < 0 then ''-'' else [])"
    have "show_int i = sg @ show_digits \<bar>i\<bar>"
      by (simp add: sg_def show_int_def)
    with p False obtain ds where ds: "p = sg @ ds" "cut ds (show_digits \<bar>i\<bar>)"
      by (auto simp: cut_append sg_def split: if_splits)
    then have d: "list_all is_digit ds"
      using show_digits_digits [of "\<bar>i\<bar>"] by (auto simp: cut_def)
    have z: "take 1 ds \<noteq> ''0''"
    proof (cases "i = 0")
      case True
      with ds show ?thesis by (simp add: show_digits_0)
    next
      case False
      then have "hd (show_digits \<bar>i\<bar>) \<noteq> CHR ''0''"
        by (intro show_digits_head) simp
      with ds(2) show ?thesis
        by (cases ds) (auto simp: cut_def)
    qed
    have sg: "sg = [] \<or> sg = ''-''"
      by (simp add: sg_def)
    have "scan_value n p = scan_number p"
      unfolding Suc ds(1) using digits_open [OF d sg] by (subst plain_value) (simp_all add: atom_number [OF d sg])
    then show ?thesis
      using number_spent [OF d z sg] ds(1) by simp
  qed
qed simp

lemma torn_literals:
  "list_all (\<lambda>p. scan_atom p = Raise JSONDecodeError \<and> list_all (\<lambda>c. \<not> opens c p) [quote_mark, CHR ''['', CHR ''{''])
     [[], ''n'', ''nu'', ''nul'', ''t'', ''tr'', ''tru'', ''f'', ''fa'', ''fal'', ''fals'']"
  by code_simp

lemma literal_spent:
  assumes "t \<in> {''null'', ''true'', ''false''}" and "cut p t"
  shows "spent (scan_value n p)"
proof (cases n)
  case (Suc m)
  have "p \<in> set [[], ''n'', ''nu'', ''nul'', ''t'', ''tr'', ''tru'', ''f'', ''fa'', ''fal'', ''fals'']"
    using assms by auto
  with torn_literals have "scan_atom p = Raise JSONDecodeError" "list_all (\<lambda>c. \<not> opens c p) [quote_mark, CHR ''['', CHR ''{'']"
    unfolding list_all_iff by blast+
  then show ?thesis
    unfolding Suc by (subst plain_value) simp_all
qed simp

lemma str_spent: "cut p (dumps_str s) \<Longrightarrow> spent (scan_value n p)"
  by (cases n) (auto simp: dumps_str_chars scan_value_Nil scan_atom_Nil cut_chars opens_Cons)

section \<open>Arrays and objects\<close>

abbreviation compact_text :: "json \<Rightarrow> string" where
  "compact_text \<equiv> json_text dumps_str '','' '':''"

lemma comma_colon: "separators '','' '':''"
  by (simp add: separators_def)

lemma compact_solid: "plain v \<Longrightarrow> solid_start (compact_text v)"
  by (rule utf8_codec.json_text_solid)

lemma compact_decodes: "plain v \<Longrightarrow> decodes (compact_text v) v"
  by (rule utf8_codec.decodes_text [OF comma_colon])

definition torn :: "string \<Rightarrow> bool" where
  "torn t \<longleftrightarrow> (\<forall>p n. cut p t \<longrightarrow> 2 * length p + 2 \<le> n \<longrightarrow> spent (scan_value n p))"

lemma torn_elements:
  assumes "\<And>v. v \<in> set vs \<Longrightarrow> plain v \<and> torn (compact_text v)" and "vs \<noteq> []"
    and "cut p (join '','' (map compact_text vs) @ '']'')" and "2 * length p + 3 \<le> n"
  shows "\<exists>e. scan_elements n p = Raise e"
  using assms
proof (induction vs arbitrary: p n)
  case Nil
  then show ?case by simp
next
  case (Cons v vs)
  obtain m where n: "n = Suc m"
    using Cons.prems(4) by (cases n) auto
  have v: "plain v" "torn (compact_text v)"
    using Cons.prems(1) by simp_all
  have stop_here: "\<exists>e. scan_elements n p = Raise e" if "spent (scan_value m p)"
    using that by (cases "scan_value m p") (auto simp: n)
  define rest where "rest = (if vs = [] then '']'' else CHR '','' # join '','' (map compact_text vs) @ '']'')"
  have "join '','' (map compact_text (v # vs)) @ '']'' = compact_text v @ rest"
    by (cases vs) (simp_all add: rest_def join_single join_Cons_Cons)
  with Cons.prems(3) have "cut p (compact_text v @ rest)"
    by (simp only:)
  then consider "cut p (compact_text v)" | q where "p = compact_text v @ q" "cut q rest"
    by (auto simp: cut_append)
  then show ?case
  proof cases
    case 1
    with v(2) show ?thesis
      using Cons.prems(4) by (intro stop_here) (simp add: torn_def n)
  next
    case (2 q)
    have val: "scan_value m (compact_text v @ q) = Ok (v, q)"
      using 2 Cons.prems(4) v(1)
      by (intro decodesD compact_decodes) (auto simp: rest_def stop_def n split: if_splits)
    show ?thesis
    proof (cases "q = []")
      case True
      then show ?thesis
        using val by (intro stop_here) (simp add: 2)
    next
      case False
      with 2 obtain x where vs: "vs \<noteq> []" and q: "q = CHR '','' # x" "cut x (join '','' (map compact_text vs) @ '']'')"
        by (auto simp: rest_def split: if_splits)
      have "\<exists>e. scan_elements m x = Raise e"
        using Cons.prems(1,4) vs q 2 by (intro Cons.IH) (auto simp: n)
      moreover have "skip_space x = x"
      proof (cases "x = []")
        case False
        have "solid_start (compact_text (hd vs))"
          using vs Cons.prems(1) by (intro compact_solid) simp
        then have "solid_start (join '','' (map compact_text vs) @ '']'')"
          using vs by (cases vs) (auto simp: join_def solid_start_def)
        then have "solid_start x"
          using q(2) False by (cases x) (auto simp: cut_def solid_start_def)
        then show ?thesis
          using skip_solid [of x "[]"] by simp
      qed simp
      ultimately show ?thesis
        using val by (auto simp: n 2 q skip_char opens_Cons)
    qed
  qed
qed

lemma torn_members:
  assumes "\<And>kv. kv \<in> set d \<Longrightarrow> valid_utf8 (fst kv) \<and> plain (snd kv) \<and> torn (compact_text (snd kv))" and "d \<noteq> []"
    and "cut p (join '','' (map (member_text dumps_str '':'' compact_text) d) @ ''}'')" and "2 * length p + 3 \<le> n"
  shows "\<exists>e. scan_members n p = Raise e"
  using assms
proof (induction d arbitrary: p n)
  case Nil
  then show ?case by simp
next
  case (Cons kv d)
  obtain m where n: "n = Suc m"
    using Cons.prems(4) by (cases n) auto
  obtain k v where kv: "kv = (k, v)" by (cases kv)
  have v: "valid_utf8 k" "plain v" "torn (compact_text v)"
    using Cons.prems(1) [of kv] by (simp_all add: kv)
  define rest where "rest = (if d = [] then ''}'' else CHR '','' # join '','' (map (member_text dumps_str '':'' compact_text) d) @ ''}'')"
  have "join '','' (map (member_text dumps_str '':'' compact_text) (kv # d)) @ ''}'' = dumps_str k @ CHR '':'' # compact_text v @ rest"
    by (cases d) (simp_all add: rest_def join_single join_Cons_Cons member_text_def kv)
  with Cons.prems(3) have "cut p (dumps_str k @ CHR '':'' # compact_text v @ rest)"
    by (simp only:)
  then consider "cut p (dumps_str k)" | "p = dumps_str k" | q where "p = dumps_str k @ CHR '':'' # q" "cut q (compact_text v)"
    | q where "p = dumps_str k @ CHR '':'' # compact_text v @ q" "cut q rest"
    by (auto simp: cut_append)
  then show ?case
  proof cases
    case 1
    then show ?thesis
      by (auto simp: n dumps_str_chars opens_Cons cut_chars)
  next
    case 2
    then show ?thesis
      using scan_dumps_str [of k "[]"] by (simp add: n)
  next
    case (3 q)
    have start: "opens quote_mark p"
      by (simp add: 3 dumps_str_chars opens_Cons)
    have scan: "scan_string (drop 1 p) = Some (k, CHR '':'' # q)"
      unfolding 3(1) by (rule scan_dumps_str)
    have "skip_space q = q"
    proof (cases "q = []")
      case False
      then have "solid_start q"
        using 3(2) compact_solid [OF v(2)] by (cases q) (auto simp: cut_def solid_start_def)
      then show ?thesis
        using skip_solid [of q "[]"] by simp
    qed simp
    moreover have "spent (scan_value m q)"
      using 3 v(3) Cons.prems(4) by (simp add: torn_def n)
    ultimately show ?thesis
      using start scan by (cases "scan_value m q") (auto simp: n skip_char opens_Cons Let_def)
  next
    case (4 q)
    have start: "opens quote_mark p"
      by (simp add: 4 dumps_str_chars opens_Cons)
    have scan: "scan_string (drop 1 p) = Some (k, CHR '':'' # compact_text v @ q)"
      unfolding 4(1) by (rule scan_dumps_str)
    have skip: "skip_space (compact_text v @ q) = compact_text v @ q"
      by (rule skip_solid [OF compact_solid [OF v(2)]])
    have val: "scan_value m (compact_text v @ q) = Ok (v, q)"
      using 4 Cons.prems(4) v(2)
      by (intro decodesD compact_decodes) (auto simp: rest_def stop_def n split: if_splits)
    show ?thesis
    proof (cases "q = []")
      case True
      then show ?thesis
        using start scan skip val by (simp add: n skip_char opens_Cons Let_def)
    next
      case False
      with 4 obtain x where d: "d \<noteq> []" and q: "q = CHR '','' # x" "cut x (join '','' (map (member_text dumps_str '':'' compact_text) d) @ ''}'')"
        by (auto simp: rest_def split: if_splits)
      have "\<exists>e. scan_members m x = Raise e"
        using Cons.prems(1,4) d q 4 by (intro Cons.IH) (auto simp: n)
      moreover have "skip_space x = x"
      proof (cases "x = []")
        case False
        have "solid_start (join '','' (map (member_text dumps_str '':'' compact_text) d) @ ''}'')"
          using d by (cases d) (auto simp: join_def solid_start_def member_text_def dumps_str_chars)
        then have "solid_start x"
          using q(2) False by (cases x) (auto simp: cut_def solid_start_def)
        then show ?thesis
          using skip_solid [of x "[]"] by simp
      qed simp
      ultimately show ?thesis
        using start scan skip val by (auto simp: n q skip_char opens_Cons Let_def)
    qed
  qed
qed

text \<open>An object cut short is rejected whatever the fuel above the decoder's need.\<close>

lemma torn_object:
  assumes "\<And>kv. kv \<in> set d \<Longrightarrow> valid_utf8 (fst kv) \<and> plain (snd kv) \<and> torn (compact_text (snd kv))"
    and "cut p (compact_text (JObj d))" and "2 * length p + 2 \<le> n"
  shows "\<exists>e. scan_value n p = Raise e"
proof (cases "p = []")
  case True
  then show ?thesis by (simp add: scan_value_Nil)
next
  case False
  obtain m where n: "n = Suc m"
    using assms(3) by (cases n) auto
  have members: "map (\<lambda>kv. dumps_str (fst kv) @ CHR '':'' # compact_text (snd kv)) d = map (member_text dumps_str '':'' compact_text) d"
    by (simp add: member_text_def)
  obtain q where q: "p = CHR ''{'' # q" "cut q (join '','' (map (member_text dumps_str '':'' compact_text) d) @ ''}'')"
    using assms(2) False by (auto simp: members)
  show ?thesis
  proof (cases "d = [] \<or> q = []")
    case True
    then have "q = []"
      using q(2) by (auto simp: join_def)
    then show ?thesis
      by (simp add: n q opens_Cons scan_members_Nil)
  next
    case False
    have "solid_start (join '','' (map (member_text dumps_str '':'' compact_text) d) @ ''}'')"
      using False by (cases d) (auto simp: join_def solid_start_def member_text_def dumps_str_chars)
    moreover have "hd (join '','' (map (member_text dumps_str '':'' compact_text) d) @ ''}'') = quote_mark"
      using False by (cases d) (auto simp: join_def member_text_def dumps_str_chars)
    ultimately have "solid_start q" "hd q = quote_mark"
      using q(2) False by (cases q; auto simp: cut_def solid_start_def)+
    then have "skip_space q = q" "\<not> opens (CHR ''}'') q"
      using skip_solid [of q "[]"] by (cases q; simp add: opens_Cons)+
    moreover have "\<exists>e. scan_members m q = Raise e"
      using assms(1,3) False q by (intro torn_members [of d]) (auto simp: n)
    ultimately show ?thesis
      by (auto simp: n q opens_Cons)
  qed
qed

lemma torn_array:
  assumes "\<And>v. v \<in> set vs \<Longrightarrow> plain v \<and> torn (compact_text v)"
    and "cut p (compact_text (JList vs))" and "2 * length p + 2 \<le> n"
  shows "\<exists>e. scan_value n p = Raise e"
proof (cases "p = []")
  case True
  then show ?thesis by (simp add: scan_value_Nil)
next
  case False
  obtain m where n: "n = Suc m"
    using assms(3) by (cases n) auto
  obtain q where q: "p = CHR ''['' # q" "cut q (join '','' (map compact_text vs) @ '']'')"
    using assms(2) False by auto
  show ?thesis
  proof (cases "vs = [] \<or> q = []")
    case True
    then have "q = []"
      using q(2) by (auto simp: join_def)
    then show ?thesis
      by (simp add: n q opens_Cons scan_elements_Nil)
  next
    case False
    have v: "plain (hd vs)"
      using False assms(1) by simp
    have "solid_start (join '','' (map compact_text vs) @ '']'')"
      using False compact_solid [OF v] by (cases vs) (auto simp: join_def solid_start_def)
    moreover have "hd (join '','' (map compact_text vs) @ '']'') \<noteq> CHR '']''"
      using False compact_solid [OF v] utf8_codec.bracket_free [OF v, of "'',''" "'':''"]
      by (cases vs) (auto simp: join_def solid_start_def)
    ultimately have "solid_start q" "hd q \<noteq> CHR '']''"
      using q(2) False by (cases q; auto simp: cut_def solid_start_def)+
    then have "skip_space q = q" "\<not> opens (CHR '']'') q"
      using skip_solid [of q "[]"] by (cases q; simp add: opens_Cons)+
    moreover have "\<exists>e. scan_elements m q = Raise e"
      using assms(1,3) False q by (intro torn_elements [of vs]) (auto simp: n)
    ultimately show ?thesis
      by (auto simp: n q opens_Cons)
  qed
qed

lemma torn_value: "plain v \<Longrightarrow> torn (compact_text v)"
proof (induction v)
  case (JBool b)
  then show ?case
    by (cases b) (auto simp: torn_def intro: literal_spent [of "''true''"] literal_spent [of "''false''"] simp del: cut_Cons)
next
  case (JList vs)
  have "\<exists>e. scan_value n p = Raise e" if "cut p (compact_text (JList vs))" "2 * length p + 2 \<le> n" for p n
    using JList that by (intro torn_array) auto
  then show ?case
    unfolding torn_def by (metis spent_Raise)
next
  case (JObj d)
  have "torn (compact_text (snd kv))" if "kv \<in> set d" for kv
    using that JObj.IH [of kv "snd kv"] JObj.prems by (simp add: snds.simps)
  then have "\<exists>e. scan_value n p = Raise e" if "cut p (compact_text (JObj d))" "2 * length p + 2 \<le> n" for p n
    using JObj.prems that by (intro torn_object) auto
  then show ?case
    unfolding torn_def by (metis spent_Raise)
qed (auto simp: torn_def int_spent str_spent intro: literal_spent [of "''null''"] simp del: cut_Cons)

theorem torn_object_rejected:
  assumes "plain (JObj d)" and "cut p (dumps (JObj d) @ [CHR 0x0A])" and "p \<noteq> dumps (JObj d)"
  shows "\<exists>e. loads p = Raise e"
proof -
  have p: "cut p (compact_text (JObj d))"
    using assms(2,3) unfolding dumps_text [OF assms(1)] by (auto simp: cut_append simp del: json_text.simps)
  have "\<exists>e. scan_value (2 * length p + 2) p = Raise e"
    using assms(1) p by (intro torn_object [of d]) (auto simp: torn_value)
  moreover have "skip_space p = p"
    using p by (cases p) (simp_all add: skip_char)
  ultimately show ?thesis
    by (auto simp: loads_def)
qed

end
