(* ===== verification/PairPublication.thy ===== *)
theory PairPublication
  imports CrashFiles PyTorn ReviewInputs
begin

text \<open>
  The outcome taint and the paired publication of \<open>resampling_null/task6_state.py\<close>, with the part of
  \<open>unblind_and_publish_analysis\<close> (\<open>resampling_null/blinding.py\<close>) that runs it. The journal is an
  authenticated JSON file; both targets are staged in private files and installed as hard links. The
  kernel's choice of inodes and the random tokens are arguments.
\<close>

section \<open>The run\<close>

record env =
  ev_root :: path
  ev_key :: string
  ev_device :: int
  ev_fresh :: "(path \<times> nat) list \<Rightarrow> nat"
  ev_nonce :: "nat \<Rightarrow> string"

section \<open>Outcome taint\<close>

definition taint_path :: "path \<Rightarrow> path" where
  "taint_path base = base @ [''operational'', ''task6'', ''outcome-tainted.json'']"

definition PROTECTED_ACTIONS :: "string list" where
  "PROTECTED_ACTIONS = [''resampling_analysis_freeze'', ''resampling_task_block'', ''resampling_blinded_projection'']"

definition SINGLETONS :: "string list" where
  "SINGLETONS = [''resampling_blinded_projection'', ''resampling_unblind_receipt'']"

definition tainted :: "path \<Rightarrow> fs \<Rightarrow> bool" where
  "tainted base s \<longleftrightarrow> exists_at s (taint_path base)"

definition require_preunblind_context :: "path \<Rightarrow> string \<Rightarrow> unit io" where
  "require_preunblind_context base action =
     io_check (\<lambda>s. \<not> (action \<in> set PROTECTED_ACTIONS \<and> tainted base s)) RecordValidationError"

definition taint_text :: string where
  "taint_text = ''{\"state\":\"outcome_tainted_v1\"}'' @ [CHR 0x0A]"

definition mark_outcome_tainted :: "env \<Rightarrow> unit io" where
  "mark_outcome_tainted e =
     io_bind (io_check (\<lambda>s. \<not> exists_at s (taint_path (ev_root e))) RecordValidationError) (\<lambda>_.
     io_bind (io_create (ev_fresh e) (taint_path (ev_root e))) (\<lambda>i. io_write i taint_text))"

text \<open>One file of the search for a singleton.\<close>

definition is_singleton :: "path \<Rightarrow> string \<Rightarrow> fs \<Rightarrow> path \<Rightarrow> bool result" where
  "is_singleton base kind s p =
     (case relative_to base p of
        None \<Rightarrow> Ok False
      | Some rel \<Rightarrow>
          if rel = [] \<or> drop (length (last rel) - 5) (last rel) \<noteq> ''.json'' \<or> hd rel \<in> {''operational'', ''sources''}
          then Ok False
          else (case content s p of
                  None \<Rightarrow> Ok False
                | Some b \<Rightarrow>
                    if \<not> valid_utf8 b then Ok False
                    else (case loads (translate_newlines b) of
                            Inl JSONDecodeError \<Rightarrow> Ok False
                          | Inl err \<Rightarrow> Raise err
                          | Inr (JObj d) \<Rightarrow> Ok (py_eq (dget d ''record_kind'') (JStr kind))
                          | Inr _ \<Rightarrow> Ok False)))"

definition require_singleton_absent :: "path \<Rightarrow> string \<Rightarrow> unit io" where
  "require_singleton_absent base kind =
     io_get (\<lambda>s. if kind \<notin> set SINGLETONS then Ok ()
       else foldR (\<lambda>_ p. bindR (is_singleton base kind s p) (\<lambda>b. if b then Raise RecordValidationError else Ok ())) ()
              (map fst (fs_names s)))"

section \<open>The journal\<close>

definition transaction_path :: "path \<Rightarrow> path" where
  "transaction_path base = base @ [''operational'', ''task6'', ''paired-publication.json'']"

text \<open>\<open>canonical_json_bytes(value, indent=None)\<close>\<close>

definition canonical_line :: "json \<Rightarrow> string result" where
  "canonical_line v =
     (if \<not> all_finite v then Raise (ValueError ''Out of range float values are not JSON compliant'')
      else if \<not> valid_utf8 (dumps v) then Raise (ValueError ''surrogates not allowed'')
      else Ok (dumps v @ [CHR 0x0A]))"

text \<open>An entry: the target, its payload's digest and size, the staging file and its identity.\<close>

record pair_entry =
  pe_path :: string
  pe_sha :: string
  pe_bytes :: int
  pe_temp :: string
  pe_identity :: "(int \<times> int) option"

definition identity_json :: "(int \<times> int) option \<Rightarrow> json" where
  "identity_json i = (case i of None \<Rightarrow> JNull | Some (d, n) \<Rightarrow> JObj [(''device'', JInt d), (''inode'', JInt n)])"

definition pair_entry_json :: "pair_entry \<Rightarrow> json" where
  "pair_entry_json en = JObj
     [(''relative_path'', JStr (pe_path en)), (''sha256'', JStr (pe_sha en)), (''byte_count'', JInt (pe_bytes en)),
      (''temporary_relative_path'', JStr (pe_temp en)), (''temporary_identity'', identity_json (pe_identity en))]"

definition transaction_mac :: "string \<Rightarrow> json \<Rightarrow> json \<Rightarrow> string result" where
  "transaction_mac key state entries =
     bindR (canonical_line (JObj [(''state'', state), (''entries'', entries)])) (\<lambda>t. Ok (hmac_sha256_hex key t))"

definition transaction_text :: "string \<Rightarrow> pair_entry list \<Rightarrow> string result" where
  "transaction_text key ens =
     (let state = JStr ''prepared_v2''; entries = JList (map pair_entry_json ens) in
      bindR (transaction_mac key state entries) (\<lambda>mac.
        canonical_line (JObj [(''state'', state), (''entries'', entries), (''auth_hmac_sha256'', JStr mac)])))"

definition temporary_name :: "string \<Rightarrow> string" where
  "temporary_name token = ''.paired-publication.json.'' @ token @ ''.tmp''"

text \<open>\<open>_write_transaction\<close>: a new file under a random name replaces the journal.\<close>

definition write_transaction :: "env \<Rightarrow> string \<Rightarrow> pair_entry list \<Rightarrow> unit io" where
  "write_transaction e token ens =
     io_bind (io_get (\<lambda>_. transaction_text (ev_key e) ens)) (\<lambda>t.
     let journal = transaction_path (ev_root e); temporary = butlast journal @ [temporary_name token] in
     io_bind (io_create (ev_fresh e) temporary) (\<lambda>i.
     io_bind (io_write i t) (\<lambda>_.
       io_replace temporary journal)))"

text \<open>\<open>_inside\<close>\<close>

definition inside :: "env \<Rightarrow> string \<Rightarrow> path result" where
  "inside e rel =
     (if rel = [] \<or> CHR 0x5C \<in> set rel then Raise RecordValidationError
      else case resolve_path (ev_root e) rel of
             Inl _ \<Rightarrow> Raise RecordValidationError
           | Inr p \<Rightarrow> if relative_to (ev_root e) p = None then Raise RecordValidationError else Ok p)"

definition file_name :: "path \<Rightarrow> string" where
  "file_name p = (if p = [] then [] else last p)"

definition parse_identity :: "json \<Rightarrow> (int \<times> int) option result" where
  "parse_identity v =
     (case v of
        JNull \<Rightarrow> Ok None
      | JObj d \<Rightarrow>
          if set (map fst d) = {''device'', ''inode''}
          then (case (dget d ''device'', dget d ''inode'') of
                  (JInt a, JInt b) \<Rightarrow> Ok (Some (a, b)) | _ \<Rightarrow> Raise RecordValidationError)
          else Raise RecordValidationError
      | _ \<Rightarrow> Raise RecordValidationError)"

definition parse_pair_entry :: "env \<Rightarrow> json \<Rightarrow> pair_entry result" where
  "parse_pair_entry e v =
     (case v of
        JObj d \<Rightarrow>
          if set (map fst d) \<noteq> {''relative_path'', ''sha256'', ''byte_count'', ''temporary_relative_path'', ''temporary_identity''}
          then Raise RecordValidationError
          else (case (dget d ''relative_path'', dget d ''sha256'', dget d ''byte_count'', dget d ''temporary_relative_path'') of
                  (JStr p, JStr h, JInt n, JStr t) \<Rightarrow>
                    if n < 0 then Raise RecordValidationError
                    else
                      bindR (inside e p) (\<lambda>target.
                      bindR (inside e t) (\<lambda>temporary.
                        if butlast target \<noteq> butlast temporary \<or> file_name temporary = file_name target
                        then Raise RecordValidationError
                        else bindR (parse_identity (dget d ''temporary_identity'')) (\<lambda>i.
                               Ok \<lparr>pe_path = p, pe_sha = h, pe_bytes = n, pe_temp = t, pe_identity = i\<rparr>)))
                | _ \<Rightarrow> Raise RecordValidationError)
      | _ \<Rightarrow> Raise RecordValidationError)"

text \<open>\<open>hmac.compare_digest\<close> of two texts wants ASCII.\<close>

definition compare_digest :: "string \<Rightarrow> string \<Rightarrow> bool result" where
  "compare_digest a b = (if list_all (\<lambda>c. byte c < 128) (a @ b) then Ok (a = b) else Raise TypeError)"

definition parse_transaction :: "env \<Rightarrow> json \<Rightarrow> pair_entry list result" where
  "parse_transaction e v =
     (case v of
        JObj d \<Rightarrow>
          (case (set (map fst d) = {''state'', ''entries'', ''auth_hmac_sha256''}, dget d ''state'', dget d ''entries'', dget d ''auth_hmac_sha256'') of
             (True, JStr st, JList [a, b], JStr mac) \<Rightarrow>
               if st \<noteq> ''prepared_v2'' then Raise RecordValidationError
               else
                 bindR (transaction_mac (ev_key e) (JStr st) (JList [a, b])) (\<lambda>expected.
                 bindR (compare_digest mac expected) (\<lambda>same.
                   if same then mapR (parse_pair_entry e) [a, b] else Raise RecordValidationError))
           | _ \<Rightarrow> Raise RecordValidationError)
      | _ \<Rightarrow> Raise RecordValidationError)"

definition load_transaction :: "env \<Rightarrow> fs \<Rightarrow> pair_entry list result" where
  "load_transaction e s =
     (case content s (transaction_path (ev_root e)) of
        None \<Rightarrow> Raise RecordValidationError
      | Some b \<Rightarrow>
          if \<not> valid_utf8 b then Raise RecordValidationError
          else (case loads (translate_newlines b) of
                  Inl JSONDecodeError \<Rightarrow> Raise RecordValidationError
                | Inl err \<Rightarrow> Raise err
                | Inr v \<Rightarrow> parse_transaction e v))"

section \<open>Beginning\<close>

text \<open>\<open>target.relative_to(base).as_posix()\<close>\<close>

definition as_posix :: "path \<Rightarrow> string" where
  "as_posix p = (if p = [] then ''.'' else join ''/'' p)"

definition staging_name :: "env \<Rightarrow> nat \<Rightarrow> path \<Rightarrow> string \<Rightarrow> string" where
  "staging_name e k target rel =
     ''.'' @ file_name target @ ''.'' @ hmac_sha256_hex (ev_key e) (rel @ ev_nonce e k) @ ''.task6-pair.tmp''"

definition new_entry :: "env \<Rightarrow> nat \<Rightarrow> path \<Rightarrow> string \<Rightarrow> fs \<Rightarrow> pair_entry result" where
  "new_entry e k target payload s =
     (if exists_at s target then Raise FileExistsError
      else case relative_to (ev_root e) target of
             None \<Rightarrow> Raise RecordValidationError
           | Some rel \<Rightarrow>
               (case relative_to (ev_root e) (butlast target @ [staging_name e k target (as_posix rel)]) of
                  None \<Rightarrow> Raise (ValueError ''is not in the subpath'')
                | Some temp \<Rightarrow>
                    Ok \<lparr>pe_path = as_posix rel, pe_sha = sha256_hex payload, pe_bytes = int (length payload),
                        pe_temp = as_posix temp, pe_identity = None\<rparr>))"

definition begin_pair :: "env \<Rightarrow> (path \<times> string) list \<Rightarrow> unit io" where
  "begin_pair e targets =
     (case targets of
        [(t0, p0), (t1, p1)] \<Rightarrow>
          if t0 = t1 then io_raise RecordValidationError
          else
            io_bind (io_check (\<lambda>s. \<not> exists_at s (transaction_path (ev_root e))) RecordValidationError) (\<lambda>_.
            io_bind (io_get (new_entry e 0 t0 p0)) (\<lambda>e0.
            io_bind (io_get (new_entry e 1 t1 p1)) (\<lambda>e1.
            io_bind (io_create (ev_fresh e) (transaction_path (ev_root e))) (\<lambda>i.
            io_bind (io_get (\<lambda>_. transaction_text (ev_key e) [e0, e1])) (\<lambda>t.
              io_write i t)))))
      | _ \<Rightarrow> io_raise RecordValidationError)"

section \<open>Staging and installing\<close>

text \<open>The entry of an index, and the same journal with its entry replaced.\<close>

definition entry_at :: "pair_entry list \<Rightarrow> int \<Rightarrow> pair_entry result" where
  "entry_at ens k = (if 0 \<le> k \<and> k < int (length ens) then Ok (ens ! nat k) else Raise RecordValidationError)"

definition prepare_entry :: "env \<Rightarrow> int \<Rightarrow> string \<Rightarrow> string \<Rightarrow> unit io" where
  "prepare_entry e k payload token =
     io_bind (io_get (load_transaction e)) (\<lambda>ens.
     io_bind (io_get (\<lambda>_. entry_at ens k)) (\<lambda>en.
     io_bind (io_check (\<lambda>_. sha256_hex payload = pe_sha en \<and> int (length payload) = pe_bytes en) RecordValidationError) (\<lambda>_.
     io_bind (io_check (\<lambda>_. pe_identity en = None) RecordValidationError) (\<lambda>_.
     io_bind (io_get (\<lambda>_. inside e (pe_path en))) (\<lambda>target.
     io_bind (io_get (\<lambda>_. inside e (pe_temp en))) (\<lambda>temporary.
     io_bind (io_check (\<lambda>s. \<not> (exists_at s target \<or> exists_at s temporary)) FileExistsError) (\<lambda>_.
     io_bind (io_create (ev_fresh e) temporary) (\<lambda>i.
     io_bind (io_write i payload) (\<lambda>_.
       write_transaction e token (ens[nat k := en\<lparr>pe_identity := Some (ev_device e, int i)\<rparr>]))))))))))"

text \<open>\<open>_owned\<close>: the journaled inode with the journaled bytes.\<close>

definition owned :: "env \<Rightarrow> pair_entry \<Rightarrow> fs \<Rightarrow> path \<Rightarrow> bool" where
  "owned e en s p \<longleftrightarrow>
     (case (pe_identity en, inode_of s p) of
        (Some (d, n), Some i) \<Rightarrow>
          d = ev_device e \<and> n = int i \<and> int (length (bytes_of s i)) = pe_bytes en \<and> sha256_hex (bytes_of s i) = pe_sha en
      | _ \<Rightarrow> False)"

definition install_entry :: "env \<Rightarrow> int \<Rightarrow> unit io" where
  "install_entry e k =
     io_bind (io_get (load_transaction e)) (\<lambda>ens.
     io_bind (io_get (\<lambda>_. entry_at ens k)) (\<lambda>en.
     io_bind (io_check (\<lambda>_. pe_identity en \<noteq> None) RecordValidationError) (\<lambda>_.
     io_bind (io_get (\<lambda>_. inside e (pe_path en))) (\<lambda>target.
     io_bind (io_get (\<lambda>_. inside e (pe_temp en))) (\<lambda>temporary.
     io_bind (io_check (\<lambda>s. owned e en s temporary) RecordValidationError) (\<lambda>_.
     io_bind (io_link temporary target) (\<lambda>_.
       io_check (\<lambda>s. owned e en s target) RecordValidationError)))))))"

section \<open>Recovery\<close>

record survey =
  sv_targets :: "path list"
  sv_temporaries :: "path list"
  sv_present :: nat

definition survey_candidate :: "env \<Rightarrow> fs \<Rightarrow> pair_entry \<Rightarrow> path \<Rightarrow> path \<Rightarrow> path \<Rightarrow> survey \<Rightarrow> survey result" where
  "survey_candidate e s en target temporary c sv =
     (if \<not> exists_at s c then Ok sv
      else if c = temporary \<and> pe_identity en = None then Ok (sv\<lparr>sv_temporaries := sv_temporaries sv @ [c]\<rparr>)
      else if \<not> owned e en s c then Raise RecordValidationError
      else if c = target then Ok (sv\<lparr>sv_targets := sv_targets sv @ [c]\<rparr>)
      else Ok (sv\<lparr>sv_temporaries := sv_temporaries sv @ [c]\<rparr>))"

definition survey_entry :: "env \<Rightarrow> fs \<Rightarrow> survey \<Rightarrow> pair_entry \<Rightarrow> survey result" where
  "survey_entry e s sv en =
     bindR (inside e (pe_path en)) (\<lambda>target.
     bindR (inside e (pe_temp en)) (\<lambda>temporary.
     bindR (survey_candidate e s en target temporary target sv) (\<lambda>sv1.
     bindR (survey_candidate e s en target temporary temporary sv1) (\<lambda>sv2.
       Ok (if exists_at s target then sv2\<lparr>sv_present := Suc (sv_present sv2)\<rparr> else sv2)))))"

definition survey_all :: "env \<Rightarrow> pair_entry list \<Rightarrow> fs \<Rightarrow> survey result" where
  "survey_all e ens s = foldR (survey_entry e s) \<lparr>sv_targets = [], sv_temporaries = [], sv_present = 0\<rparr> ens"

definition recover_pair :: "env \<Rightarrow> unit io" where
  "recover_pair e s =
     (if \<not> exists_at s (transaction_path (ev_root e)) then io_return () s
      else
        io_bind (io_get (load_transaction e)) (\<lambda>ens.
        io_bind (io_get (survey_all e ens)) (\<lambda>sv.
        io_bind (if sv_present sv = 2 then io_return () else io_iter io_unlink (sv_targets sv)) (\<lambda>_.
        io_bind (io_iter io_unlink (sv_temporaries sv)) (\<lambda>_.
          io_unlink (transaction_path (ev_root e)))))) s)"

definition abort_pair :: "env \<Rightarrow> unit io" where
  "abort_pair e = recover_pair e"

section \<open>The whole publication\<close>

definition publish_pair :: "env \<Rightarrow> path \<times> string \<Rightarrow> path \<times> string \<Rightarrow> unit io" where
  "publish_pair e first_target second_target =
     io_bind (begin_pair e [first_target, second_target]) (\<lambda>_.
     io_bind (io_on_error
       (io_bind (prepare_entry e 0 (snd first_target) (ev_nonce e 2)) (\<lambda>_.
        io_bind (prepare_entry e 1 (snd second_target) (ev_nonce e 3)) (\<lambda>_.
        io_bind (install_entry e 0) (\<lambda>_.
          install_entry e 1))))
       (abort_pair e)) (\<lambda>_.
       recover_pair e))"

end
