(* ===== verification/PairJournal.thy ===== *)
theory PairJournal
  imports PairPublication
begin

text \<open>
  The journal as a codec: what is written is read back entry by entry, with or without the final newline,
  and a journal torn anywhere else is refused.
\<close>

section \<open>Small integers\<close>

lemma show_digits_length: "0 \<le> i \<Longrightarrow> i < 10 ^ Suc k \<Longrightarrow> length (show_digits i) \<le> Suc k"
proof (induction k arbitrary: i)
  case 0
  then show ?case
    by (subst show_digits.simps) simp
next
  case (Suc k)
  show ?case
  proof (cases "i < 10")
    case True
    then show ?thesis
      by (subst show_digits.simps) simp
  next
    case False
    then have "length (show_digits (i div 10)) \<le> Suc k"
      using Suc.prems by (intro Suc.IH) auto
    then show ?thesis
      using False by (subst show_digits.simps) simp
  qed
qed

definition u64 :: "int \<Rightarrow> bool" where
  "u64 i \<longleftrightarrow> 0 \<le> i \<and> i < 2 ^ 64"

lemma u64_digits: "u64 i \<Longrightarrow> length (show_digits \<bar>i\<bar>) \<le> 4300"
  using show_digits_length [of i 19] by (simp add: u64_def)

section \<open>Digests are ASCII\<close>

lemma hex2_ascii: "list_all (\<lambda>c. byte c < 127) (hex2 n)"
  by (simp add: hex2_def hex_char_ascii)

lemma sha256_hex_ascii: "list_all (\<lambda>c. byte c < 127) (sha256_hex s)"
  unfolding sha256_hex_def by (intro list_all_concat_map hex2_ascii)

lemma hmac_ascii: "list_all (\<lambda>c. byte c < 127) (hmac_sha256_hex key s)"
  by (simp add: hmac_sha256_hex_def Let_def sha256_hex_ascii)

lemma ascii_128: "list_all (\<lambda>c. byte c < 127) s \<Longrightarrow> list_all (\<lambda>c. byte c < 128) s"
  by (auto elim: list.pred_mono_strong)

section \<open>Entries\<close>

definition entry_ok :: "env \<Rightarrow> pair_entry \<Rightarrow> bool" where
  "entry_ok e en \<longleftrightarrow>
     valid_utf8 (pe_path en) \<and> valid_utf8 (pe_temp en) \<and> valid_utf8 (pe_sha en) \<and> u64 (pe_bytes en) \<and>
     (case pe_identity en of None \<Rightarrow> True | Some (d, i) \<Rightarrow> u64 d \<and> u64 i) \<and>
     (\<exists>t m. inside e (pe_path en) = Ok t \<and> inside e (pe_temp en) = Ok m \<and> butlast t = butlast m \<and> file_name m \<noteq> file_name t)"

lemma entry_exact: "entry_ok e en \<Longrightarrow> exact (pair_entry_json en)"
  by (auto simp: entry_ok_def pair_entry_json_def identity_json_def u64_digits split: option.splits prod.splits)

lemma entry_keys_sorted: "sort_key fst
  [(''relative_path'', a :: json), (''sha256'', b), (''byte_count'', c), (''temporary_relative_path'', d), (''temporary_identity'', f)] =
  [(''byte_count'', c), (''relative_path'', a), (''sha256'', b), (''temporary_identity'', f), (''temporary_relative_path'', d)]"
  by code_simp

lemma identity_keys_sorted: "sort_key fst [(''device'', a :: json), (''inode'', b)] = [(''device'', a), (''inode'', b)]"
  by code_simp

lemma identity_canonical: "canonical (identity_json i) = identity_json i"
  by (simp add: identity_json_def identity_keys_sorted split: option.split prod.split)

lemma entry_canonical: "canonical (pair_entry_json en) = JObj
  [(''byte_count'', JInt (pe_bytes en)), (''relative_path'', JStr (pe_path en)), (''sha256'', JStr (pe_sha en)),
   (''temporary_identity'', identity_json (pe_identity en)), (''temporary_relative_path'', JStr (pe_temp en))]"
  unfolding pair_entry_json_def canonical.simps list.map fst_conv snd_conv identity_canonical entry_keys_sorted ..

lemma parse_identity_json: "parse_identity (identity_json i) = Ok i"
  by (auto simp: parse_identity_def identity_json_def split: option.split prod.split)

lemma entry_key_set: "{a, b, c, d, f} = {b, c, a, f, d}"
  by auto

lemma parse_entry_canonical:
  assumes "entry_ok e en"
  shows "parse_pair_entry e (canonical (pair_entry_json en)) = Ok en"
proof -
  obtain t m where "inside e (pe_path en) = Ok t" "inside e (pe_temp en) = Ok m" "butlast t = butlast m" "file_name m \<noteq> file_name t"
    "\<not> pe_bytes en < 0"
    using assms by (auto simp: entry_ok_def u64_def)
  then show ?thesis
    unfolding entry_canonical parse_pair_entry_def json.case list.map list.set fst_conv
      entry_key_set [of "''byte_count''" "''relative_path''" "''sha256''" "''temporary_identity''" "''temporary_relative_path''"]
    by (simp add: parse_identity_json)
qed

section \<open>Text without control characters\<close>

definition printable :: "string \<Rightarrow> bool" where
  "printable s \<longleftrightarrow> list_all (\<lambda>c. 32 \<le> byte c) s"

lemma printable_simps [simp]: "printable []" "printable (c # s) \<longleftrightarrow> 32 \<le> byte c \<and> printable s" "printable (s @ t) \<longleftrightarrow> printable s \<and> printable t"
  by (simp_all add: printable_def)

lemma printable_join: "printable sep \<Longrightarrow> (\<And>x. x \<in> set xs \<Longrightarrow> printable x) \<Longrightarrow> printable (join sep xs)"
  by (cases xs) (auto simp: join_def printable_def list_all_iff)

lemma printable_char: "printable (dumps_char c)"
  by (auto simp: dumps_char_def hex2_def hex_char_def char_lits Let_def of_char_of)

lemma printable_str: "printable (dumps_str s)"
  unfolding dumps_str_chars by (induction s) (simp_all add: printable_char)

lemma printable_int: "printable (show_int i)"
proof -
  have "printable (show_digits \<bar>i\<bar>)"
    using show_digits_digits [of "\<bar>i\<bar>"] by (auto simp: printable_def is_digit_def elim: list.pred_mono_strong)
  then show ?thesis by (auto simp: show_int_def abs_if split: if_splits)
qed

lemma printable_text: "plain v \<Longrightarrow> printable (compact_text v)"
proof (induction v)
  case (JObj d)
  have "printable (dumps_str (fst kv) @ '':'' @ compact_text (snd kv))" if "kv \<in> set d" for kv
    using that JObj.IH [of kv "snd kv"] JObj.prems by (simp add: snds.simps printable_str)
  then show ?case
    by (auto intro!: printable_join)
qed (auto simp: printable_int printable_str intro!: printable_join)

lemma no_return: "printable s \<Longrightarrow> translate_newlines (s @ [CHR 0x0A]) = s @ [CHR 0x0A] \<and> translate_newlines s = s"
  by (induction s) auto

lemma exact_dumps:
  assumes "exact v"
  shows "valid_utf8 (dumps v)" "printable (dumps v)"
proof -
  note p = canonical_plain [OF assms]
  show "valid_utf8 (dumps v)"
    using dumps_valid [OF p] by (simp only: dumps_canonical)
  show "printable (dumps v)"
    using printable_text [OF p] by (simp only: dumps_text [OF p, symmetric] dumps_canonical)
qed

lemma canonical_line_exact: "exact v \<Longrightarrow> canonical_line v = Ok (dumps v @ [CHR 0x0A])"
  by (simp add: canonical_line_def exact_finite exact_dumps)

section \<open>The whole journal\<close>

definition unsigned_value :: "pair_entry list \<Rightarrow> json" where
  "unsigned_value ens = JObj [(''state'', JStr ''prepared_v2''), (''entries'', JList (map pair_entry_json ens))]"

definition journal_mac :: "string \<Rightarrow> pair_entry list \<Rightarrow> string" where
  "journal_mac key ens = hmac_sha256_hex key (dumps (unsigned_value ens) @ [CHR 0x0A])"

definition journal_value :: "string \<Rightarrow> pair_entry list \<Rightarrow> json" where
  "journal_value key ens = JObj
     [(''state'', JStr ''prepared_v2''), (''entries'', JList (map pair_entry_json ens)), (''auth_hmac_sha256'', JStr (journal_mac key ens))]"

definition journal_body :: "string \<Rightarrow> pair_entry list \<Rightarrow> string" where
  "journal_body key ens = dumps (journal_value key ens)"

lemma unsigned_exact: "list_all (entry_ok e) ens \<Longrightarrow> exact (unsigned_value ens)"
  by (auto simp: unsigned_value_def list_all_iff entry_exact)

lemma ascii_valid_128: "list_all (\<lambda>c. byte c < 127) s \<Longrightarrow> valid_utf8 s"
  by (rule ascii_valid)

lemma journal_exact: "list_all (entry_ok e) ens \<Longrightarrow> exact (journal_value key ens)"
  by (auto simp: journal_value_def list_all_iff entry_exact journal_mac_def ascii_valid [OF hmac_ascii])

lemma journal_mac_eq: "list_all (entry_ok e) ens \<Longrightarrow>
  transaction_mac key (JStr ''prepared_v2'') (JList (map pair_entry_json ens)) = Ok (journal_mac key ens)"
  using canonical_line_exact [OF unsigned_exact] by (simp add: transaction_mac_def journal_mac_def unsigned_value_def)

lemma transaction_text_eq: "list_all (entry_ok e) ens \<Longrightarrow> transaction_text key ens = Ok (journal_body key ens @ [CHR 0x0A])"
  using canonical_line_exact [OF journal_exact, of e ens key]
  by (simp add: transaction_text_def Let_def journal_mac_eq journal_body_def journal_value_def)

lemma journal_keys_sorted: "sort_key fst [(''state'', a :: json), (''entries'', b), (''auth_hmac_sha256'', c)] =
  [(''auth_hmac_sha256'', c), (''entries'', b), (''state'', a)]"
  by code_simp

lemma journal_canonical: "canonical (journal_value key ens) = JObj
  [(''auth_hmac_sha256'', JStr (journal_mac key ens)), (''entries'', JList (map (\<lambda>en. canonical (pair_entry_json en)) ens)),
   (''state'', JStr ''prepared_v2'')]"
  unfolding journal_value_def canonical.simps list.map fst_conv snd_conv journal_keys_sorted by (simp add: comp_def)

lemma canonical_line_canonical: "canonical_line (canonical v) = canonical_line v"
  by (simp only: canonical_line_def canonical_finite dumps_canonical)

lemma dumps_canonical_list: "dumps (JList (map canonical vs)) = dumps (JList vs)"
  using dumps_canonical [of "JList vs"] by (simp only: canonical.simps)

lemma finite_canonical_list: "all_finite (JList (map canonical vs)) = all_finite (JList vs)"
  using canonical_finite [of "JList vs"] by (simp only: canonical.simps)

lemma mac_canonical: "transaction_mac key st (JList (map canonical vs)) = transaction_mac key st (JList vs)"
proof -
  let ?d = "[(''state'', st), (''entries'', JList (map canonical vs))]" and ?e = "[(''state'', st), (''entries'', JList vs)]"
  have "dumps_pairs ?d = dumps_pairs ?e"
    by (simp only: dumps_pairs.simps fst_conv snd_conv dumps_canonical_list)
  then have "dumps (JObj ?d) = dumps (JObj ?e)"
    by (simp only: dumps.simps)
  moreover have "all_finite (JObj ?d) = all_finite (JObj ?e)"
    using finite_canonical_list [of vs] by simp
  ultimately show ?thesis
    by (simp only: transaction_mac_def canonical_line_def)
qed

lemma journal_key_set: "{a, b, c} = {c, b, a}"
  by auto

lemma parse_transaction_journal:
  assumes "entry_ok e a" and "entry_ok e b"
  shows "parse_transaction e (canonical (journal_value (ev_key e) [a, b])) = Ok [a, b]"
proof -
  have ok: "list_all (entry_ok e) [a, b]"
    using assms by simp
  have mac: "transaction_mac (ev_key e) (JStr ''prepared_v2'') (JList [canonical (pair_entry_json a), canonical (pair_entry_json b)])
      = Ok (journal_mac (ev_key e) [a, b])"
    using mac_canonical [of "ev_key e" "JStr ''prepared_v2''" "map pair_entry_json [a, b]"] journal_mac_eq [OF ok] by simp
  have cmp: "compare_digest (journal_mac (ev_key e) [a, b]) (journal_mac (ev_key e) [a, b]) = Ok True"
    using ascii_128 [OF hmac_ascii] by (simp add: compare_digest_def journal_mac_def)
  show ?thesis
    unfolding journal_canonical parse_transaction_def json.case list.map list.set fst_conv
      journal_key_set [of "''auth_hmac_sha256''" "''entries''" "''state''"]
    by (simp add: mac cmp parse_entry_canonical assms)
qed

text \<open>Reading the journal back, with its last newline or without.\<close>

lemma load_parts:
  assumes "entry_ok e a" and "entry_ok e b" and "content s (transaction_path (ev_root e)) = Some t"
    and "t = journal_body (ev_key e) [a, b] @ [CHR 0x0A] \<or> t = journal_body (ev_key e) [a, b]"
  shows "load_transaction e s = Ok [a, b]"
proof -
  let ?v = "journal_value (ev_key e) [a, b]"
  have x: "exact ?v"
    using assms(1,2) by (intro journal_exact [of e]) simp
  note p = canonical_plain [OF x]
  have "loads t = Ok (canonical ?v)"
    using assms(4)
  proof
    assume "t = journal_body (ev_key e) [a, b] @ [CHR 0x0A]"
    then show ?thesis
      using loads_dumps [OF p] by (simp only: journal_body_def dumps_canonical)
  next
    assume "t = journal_body (ev_key e) [a, b]"
    then show ?thesis
      using utf8_codec.loads_text [OF comma_colon p] by (simp only: journal_body_def dumps_text [OF p, symmetric] dumps_canonical)
  qed
  moreover have "translate_newlines t = t"
    using assms(4) no_return [OF exact_dumps(2) [OF x]] by (auto simp: journal_body_def)
  moreover have "valid_utf8 t"
    using assms(4) exact_dumps(1) [OF x] by (auto simp: journal_body_def valid_append)
  ultimately show ?thesis
    using parse_transaction_journal [OF assms(1,2)] by (simp add: load_transaction_def assms(3))
qed

text \<open>A journal cut off anywhere else is refused.\<close>

lemma load_torn:
  assumes "entry_ok e a" and "entry_ok e b" and "content s (transaction_path (ev_root e)) = Some t"
    and "cut t (journal_body (ev_key e) [a, b] @ [CHR 0x0A])" and "t \<noteq> journal_body (ev_key e) [a, b]"
  shows "\<exists>err. load_transaction e s = Raise err"
proof -
  let ?v = "journal_value (ev_key e) [a, b]"
  have x: "exact ?v"
    using assms(1,2) by (intro journal_exact [of e]) simp
  note p = canonical_plain [OF x]
  obtain d where d: "canonical ?v = JObj d"
    by (simp add: journal_canonical)
  have "plain (JObj d)" "cut t (dumps (JObj d) @ [CHR 0x0A])" "t \<noteq> dumps (JObj d)"
    using p assms(4,5) by (simp_all only: d [symmetric] journal_body_def dumps_canonical not_False_eq_True)
  from torn_object_rejected [OF this] obtain err where "loads t = Raise err"
    by blast
  moreover obtain u where u: "journal_body (ev_key e) [a, b] = t @ u"
    using assms(4,5) by (auto simp: cut_append) (auto simp: cut_def)
  then have "printable t"
    using exact_dumps(2) [OF x] by (simp add: journal_body_def)
  then have "translate_newlines t = t"
    using no_return by blast
  ultimately show ?thesis
    by (auto simp: load_transaction_def assms(3) split: py_error.split)
qed

end
