(* ===== verification/CrashTriples.thy ===== *)
theory CrashTriples
  imports CrashFiles
begin

text \<open>
  Reasoning about crashes: the view of a file system (what each name leads to), the effect of every system
  call on it, and triples with a crash condition beside the postcondition.
\<close>

section \<open>Views\<close>

text \<open>The inode and the bytes behind a name.\<close>

definition view :: "fs \<Rightarrow> path \<Rightarrow> (nat \<times> string) option" where
  "view s p = map_option (\<lambda>i. (i, bytes_of s i)) (inode_of s p)"

lemma exists_view: "exists_at s p \<longleftrightarrow> view s p \<noteq> None"
  by (simp add: exists_at_def view_def)

lemma content_view: "content s p = map_option snd (view s p)"
  by (cases "inode_of s p") (simp_all add: content_def view_def)

lemma inode_view: "inode_of s p = map_option fst (view s p)"
  by (cases "inode_of s p") (simp_all add: view_def)

lemma view_bytes: "view s p = Some (i, b) \<Longrightarrow> bytes_of s i = b"
  by (auto simp: view_def)

lemma view_set_link: "view s src = Some (i, b) \<Longrightarrow> view (set_link dst i s) q = (if q = dst then Some (i, b) else view s q)"
  by (auto simp: view_def)

lemma view_drop_link: "view (drop_link p s) q = (if q = p then None else view s q)"
  by (simp add: view_def)

lemma names_set_link: "length (fs_names (set_link p i s)) \<le> Suc (length (fs_names s))"
  by (simp add: set_link_def) (metis length_map map_fst_dset length_append_singleton le_Suc_eq le_refl)

lemma names_drop_link: "length (fs_names (drop_link p s)) \<le> length (fs_names s)"
  by (simp add: drop_link_def)

section \<open>Triples\<close>

text \<open>
  From a state with \<open>P\<close> the operation succeeds with \<open>Q\<close>, and wherever it is cut off \<open>C\<close> holds.
\<close>

definition triple :: "(fs \<Rightarrow> bool) \<Rightarrow> 'a io \<Rightarrow> ('a \<Rightarrow> fs \<Rightarrow> bool) \<Rightarrow> (fs \<Rightarrow> bool) \<Rightarrow> bool" where
  "triple P m Q C \<longleftrightarrow>
     (\<forall>s. P s \<longrightarrow> (\<exists>x. result_of m s = Ok x \<and> Q x (final_of m s)) \<and> (\<forall>c \<in> crash_states m s. C c))"

lemma tripleI:
  assumes "\<And>s. P s \<Longrightarrow> \<exists>x tr s'. m s = (Ok x, tr, s') \<and> Q x s' \<and> C s \<and> list_all C tr"
  shows "triple P m Q C"
  unfolding triple_def
proof (intro allI impI)
  fix s assume "P s"
  then obtain x tr s' where "m s = (Ok x, tr, s')" "Q x s'" "C s" "list_all C tr"
    using assms by blast
  then show "(\<exists>x. result_of m s = Ok x \<and> Q x (final_of m s)) \<and> (\<forall>c \<in> crash_states m s. C c)"
    by (auto simp: result_of_def final_of_def crash_states_def list_all_iff)
qed

lemma tripleE:
  assumes "triple P m Q C" and "P s"
  obtains x tr s' where "m s = (Ok x, tr, s')" "Q x s'" "C s" "list_all C tr"
proof (cases "m s")
  case (fields r tr s')
  then show thesis
    using assms that unfolding triple_def by (cases r) (auto simp: result_of_def final_of_def crash_states_def list_all_iff)
qed

lemma triple_bind [intro]:
  assumes "triple P m R C" and "\<And>x. triple (R x) (f x) Q C"
  shows "triple P (io_bind m f) Q C"
proof (rule tripleI)
  fix s assume "P s"
  with assms(1) obtain x tr s' where m: "m s = (Ok x, tr, s')" "R x s'" "C s" "list_all C tr"
    by (rule tripleE)
  from assms(2) m(2) obtain y tr' s'' where "f x s' = (Ok y, tr', s'')" "Q y s''" "list_all C tr'"
    by (rule tripleE)
  with m show "\<exists>x tr s'. io_bind m f s = (Ok x, tr, s') \<and> Q x s' \<and> C s \<and> list_all C tr"
    by (simp add: io_bind_def)
qed

lemma triple_return: "(\<And>s. P s \<Longrightarrow> Q x s \<and> C s) \<Longrightarrow> triple P (io_return x) Q C"
  by (rule tripleI) (simp add: io_return_def)

lemma triple_get: "(\<And>s. P s \<Longrightarrow> \<exists>x. f s = Ok x \<and> Q x s \<and> C s) \<Longrightarrow> triple P (io_get f) Q C"
  by (rule tripleI) (auto simp: io_get_def)

lemma triple_check: "(\<And>s. P s \<Longrightarrow> c s \<and> Q s \<and> C s) \<Longrightarrow> triple P (io_check c e) (\<lambda>_. Q) C"
  unfolding io_check_def by (rule triple_get) simp

lemma triple_on_error: "triple P m Q C \<Longrightarrow> triple P (io_on_error m h) Q C"
  by (rule tripleI, erule (1) tripleE) (simp add: io_on_error_def)

lemma triple_weaken:
  assumes "triple P m Q C" and "\<And>s. P' s \<Longrightarrow> P s" and "\<And>x s. Q x s \<Longrightarrow> Q' x s" and "\<And>s. C s \<Longrightarrow> C' s"
  shows "triple P' m Q' C'"
  using assms unfolding triple_def by blast

lemma triple_exists: "(\<And>a. triple (P a) m Q C) \<Longrightarrow> triple (\<lambda>s. \<exists>a. P a s) m Q C"
  unfolding triple_def by blast

section \<open>System calls\<close>

text \<open>
  Creating a file and writing it: the new inode is not in use, so no other name sees the writes, and a
  crash leaves some prefix.
\<close>

definition adds_file :: "path \<Rightarrow> nat \<Rightarrow> string \<Rightarrow> fs \<Rightarrow> fs \<Rightarrow> bool" where
  "adds_file p i b s s' \<longleftrightarrow>
     view s' = (view s)(p \<mapsto> (i, b)) \<and> length (fs_names s') \<le> Suc (length (fs_names s))"

lemma bytes_written: "bytes_of (s\<lparr>fs_names := ns, fs_data := dset (fs_data s') i b\<rparr>) j = (if j = i then b else bytes_of s' j)"
  "bytes_of (s\<lparr>fs_data := dset (fs_data s') i b\<rparr>) j = (if j = i then b else bytes_of s' j)"
  by (simp_all add: bytes_of_def)

lemma inode_written: "inode_of (s\<lparr>fs_names := dset (fs_names s) p i, fs_data := ds\<rparr>) q = (if q = p then Some i else inode_of s q)"
  "inode_of (s\<lparr>fs_data := ds\<rparr>) q = inode_of s q"
  "inode_of (s\<lparr>fs_names := dset (fs_names s) p i\<rparr>) q = (if q = p then Some i else inode_of s q)"
  by (simp_all add: inode_of_def)

lemma inode_used: "inode_of s q = Some i \<Longrightarrow> i \<in> snd ` set (fs_names s)"
  by (force simp: inode_of_def dest: map_of_SomeD)

lemma create_write:
  assumes "\<not> exists_at s p" and "fresh (fs_names s) \<notin> snd ` set (fs_names s)"
  shows "\<exists>s1 tr. io_create fresh p s = (Ok (fresh (fs_names s)), [s1], s1) \<and>
     adds_file p (fresh (fs_names s)) [] s s1 \<and>
     io_write (fresh (fs_names s)) b s1 = (Ok (), tr, last (s1 # tr)) \<and>
     adds_file p (fresh (fs_names s)) b s (last (s1 # tr)) \<and>
     list_all (\<lambda>c. \<exists>n \<le> length b. adds_file p (fresh (fs_names s)) (take n b) s c) tr"
proof -
  define i where "i = fresh (fs_names s)"
  define s1 where "s1 = s\<lparr>fs_names := dset (fs_names s) p i, fs_data := dset (fs_data s) i []\<rparr>"
  define w where "w n = s1\<lparr>fs_data := dset (fs_data s1) i (take n b)\<rparr>" for n
  have other: "inode_of s q \<noteq> Some i" for q
    using assms(2) inode_used unfolding i_def by blast
  have len: "length (fs_names s1) \<le> Suc (length (fs_names s))"
    using names_set_link [of p i s] by (simp add: s1_def set_link_def)
  have a1: "adds_file p i [] s s1"
    using other len by (auto simp: adds_file_def view_def fun_eq_iff s1_def bytes_written inode_written option.map_sel
        split: option.split intro!: map_option_cong)
  have aw: "adds_file p i (take n b) s (w n)" for n
    using other len by (auto simp: adds_file_def view_def fun_eq_iff w_def s1_def bytes_of_def inode_written
        split: option.split intro!: map_option_cong)
  have "bytes_of s1 i = []"
    by (simp add: s1_def bytes_written)
  then have wr: "io_write i b s1 = (Ok (), map w [1..<Suc (length b)], last (s1 # map w [1..<Suc (length b)]))"
    by (simp add: io_write_def w_def Let_def)
  have "last (s1 # map w [1..<Suc (length b)]) = (if b = [] then s1 else w (length b))"
    by (cases b) (simp_all add: last_map)
  then have fin: "adds_file p i b s (last (s1 # map w [1..<Suc (length b)]))"
    using a1 aw [of "length b"] by (cases "b = []") simp_all
  have "io_create fresh p s = (Ok i, [s1], s1)"
    using assms(1) by (simp add: io_create_def i_def s1_def Let_def)
  moreover have "list_all (\<lambda>c. \<exists>n \<le> length b. adds_file p i (take n b) s c) (map w [1..<Suc (length b)])"
    using aw by (auto simp: list_all_iff intro: less_imp_le)
  ultimately show ?thesis
    using a1 wr fin unfolding i_def [symmetric] by blast
qed

lemma triple_create_write:
  assumes "\<And>s. P s \<Longrightarrow> \<not> exists_at s p \<and> fresh (fs_names s) \<notin> snd ` set (fs_names s) \<and> C s"
    and "\<And>s s'. P s \<Longrightarrow> adds_file p (fresh (fs_names s)) b s s' \<Longrightarrow> R (fresh (fs_names s)) s'"
    and "\<And>s s' n. P s \<Longrightarrow> n \<le> length b \<Longrightarrow> adds_file p (fresh (fs_names s)) (take n b) s s' \<Longrightarrow> C s'"
    and "\<And>i. triple (R i) (f i) Q C"
  shows "triple P (io_bind (io_create fresh p) (\<lambda>i. io_bind (io_write i b) (\<lambda>_. f i))) Q C"
proof (rule tripleI)
  fix s assume s: "P s"
  let ?i = "fresh (fs_names s)"
  obtain s1 tr where c: "io_create fresh p s = (Ok ?i, [s1], s1)" "adds_file p ?i [] s s1"
    and w: "io_write ?i b s1 = (Ok (), tr, last (s1 # tr))" "adds_file p ?i b s (last (s1 # tr))"
    and tr: "list_all (\<lambda>c. \<exists>n \<le> length b. adds_file p ?i (take n b) s c) tr"
    using create_write [of s p fresh b] assms(1) [OF s] by blast
  have "C s1" using assms(3) [OF s, of 0] c(2) by simp
  moreover have "list_all C tr"
    using tr assms(3) [OF s] by (auto simp: list_all_iff)
  moreover have "R ?i (last (s1 # tr))"
    by (rule assms(2) [OF s w(2)])
  with assms(4) obtain x tr' s' where "f ?i (last (s1 # tr)) = (Ok x, tr', s')" "Q x s'" "list_all C tr'"
    by (rule tripleE)
  ultimately show "\<exists>x tr s'. io_bind (io_create fresh p) (\<lambda>i. io_bind (io_write i b) (\<lambda>_. f i)) s = (Ok x, tr, s') \<and>
      Q x s' \<and> C s \<and> list_all C tr"
    using c(1) w(1) assms(1) [OF s] by (simp add: io_bind_def)
qed

section \<open>Crash after crash\<close>

text \<open>The run is cut off somewhere, and so is every attempt to recover.\<close>

inductive reached :: "unit io \<Rightarrow> unit io \<Rightarrow> fs \<Rightarrow> fs \<Rightarrow> bool" for run recover s0 where
  crashed: "c \<in> crash_states run s0 \<Longrightarrow> reached run recover s0 c"
| crashed_again: "reached run recover s0 s \<Longrightarrow> c \<in> crash_states recover s \<Longrightarrow> reached run recover s0 c"

inductive_cases reachedE: "reached run recover s0 s"

text \<open>
  A crash-safe protocol: a crash of the run leaves an acceptable state, a crash of the recovery too, and a
  recovery that returns has settled the matter.
\<close>

locale crash_protocol =
  fixes starts :: "'p \<Rightarrow> fs \<Rightarrow> bool"
    and run :: "'p \<Rightarrow> unit io"
    and recover :: "'p \<Rightarrow> unit io"
    and acceptable :: "'p \<Rightarrow> fs \<Rightarrow> fs \<Rightarrow> bool"
    and stuck :: "'p \<Rightarrow> fs \<Rightarrow> fs \<Rightarrow> bool"
    and outcome :: "'p \<Rightarrow> fs \<Rightarrow> fs \<Rightarrow> bool"
  assumes run_crash: "starts p s0 \<Longrightarrow> c \<in> crash_states (run p) s0 \<Longrightarrow> acceptable p s0 c"
    and recover_crash: "starts p s0 \<Longrightarrow> acceptable p s0 s \<Longrightarrow> c \<in> crash_states (recover p) s \<Longrightarrow> acceptable p s0 c"
    and recover_decides: "starts p s0 \<Longrightarrow> acceptable p s0 s \<Longrightarrow> \<not> stuck p s0 s \<Longrightarrow>
      result_of (recover p) s = Ok () \<and> outcome p s0 (final_of (recover p) s)"
    and recover_stuck: "starts p s0 \<Longrightarrow> stuck p s0 s \<Longrightarrow> (\<exists>e. result_of (recover p) s = Raise e) \<and> crash_states (recover p) s = {s}"
begin

lemma reached_acceptable:
  assumes "starts p s0" and "reached (run p) (recover p) s0 s"
  shows "acceptable p s0 s"
  using assms(2) by induction (auto intro: run_crash recover_crash assms(1))

lemma reached_settles:
  assumes "starts p s0" and "reached (run p) (recover p) s0 s" and "\<not> stuck p s0 s"
  shows "result_of (recover p) s = Ok () \<and> outcome p s0 (final_of (recover p) s)"
  using assms reached_acceptable recover_decides by blast

lemma stuck_forever:
  assumes "starts p s0" and "stuck p s0 s" and "reached (recover p) (recover p) s c"
  shows "c = s \<and> (\<exists>e. result_of (recover p) c = Raise e)"
  using assms(3)
proof induction
  case (crashed c)
  then show ?case using recover_stuck [OF assms(1,2)] by simp
next
  case (crashed_again s' c)
  then show ?case using recover_stuck [OF assms(1,2)] by simp
qed

end

section \<open>Where a run ends\<close>

text \<open>The last state is one of the states a crash can leave, so \<open>reached\<close> covers completed runs.\<close>

definition lands :: "'a io \<Rightarrow> bool" where
  "lands m \<longleftrightarrow> (\<forall>s. final_of m s \<in> crash_states m s)"

lemma landsI: "(\<And>s r tr s'. m s = (r, tr, s') \<Longrightarrow> s' = s \<or> s' \<in> set tr) \<Longrightarrow> lands m"
  unfolding lands_def final_of_def crash_states_def by (metis insert_iff prod.collapse)

lemma landsD: "lands m \<Longrightarrow> m s = (r, tr, s') \<Longrightarrow> s' = s \<or> s' \<in> set tr"
  unfolding lands_def final_of_def crash_states_def by (metis fst_conv insert_iff snd_conv)

lemma lands_bind:
  assumes "lands m" and "\<And>x. lands (f x)"
  shows "lands (io_bind m f)"
proof (rule landsI)
  fix s r tr s' assume run: "io_bind m f s = (r, tr, s')"
  obtain x tr1 s1 where m: "m s = (x, tr1, s1)" by (cases "m s")
  show "s' = s \<or> s' \<in> set tr"
  proof (cases x)
    case (Inl e)
    then show ?thesis
      using run landsD [OF assms(1) m] by (simp add: io_bind_def m)
  next
    case (Inr y)
    obtain r2 tr2 s2 where f: "f y s1 = (r2, tr2, s2)" by (cases "f y s1")
    then show ?thesis
      using run landsD [OF assms(1) m] landsD [OF assms(2) f] by (auto simp: io_bind_def m Inr)
  qed
qed

lemma lands_write: "lands (io_write i b)"
proof (rule landsI)
  fix s r tr s' assume "io_write i b s = (r, tr, s')"
  then have "s' = last (s # tr)"
    by (auto simp: io_write_def Let_def)
  then show "s' = s \<or> s' \<in> set tr"
    by (cases tr) (auto dest: last_in_set split: if_splits)
qed

lemma lands_calls:
  "lands (io_return x)" "lands (io_raise e)" "lands (io_get f)" "lands (io_check b0 e)" "lands (io_create fresh p)" "lands (io_link p q)" "lands (io_replace p q)" "lands (io_unlink p)"
  by (auto intro!: landsI simp: io_return_def io_raise_def io_get_def io_check_def io_create_def io_link_def
      io_replace_def io_unlink_def Let_def split: if_splits option.splits)

lemma lands_iter: "(\<And>x. lands (f x)) \<Longrightarrow> lands (io_iter f xs)"
  by (induction xs) (auto intro: lands_bind lands_calls)

lemma lands_on_error:
  assumes "lands m" and "lands h"
  shows "lands (io_on_error m h)"
proof (rule landsI)
  fix s r tr s' assume run: "io_on_error m h s = (r, tr, s')"
  obtain x tr1 s1 where m: "m s = (x, tr1, s1)" by (cases "m s")
  obtain y tr2 s2 where h: "h s1 = (y, tr2, s2)" by (cases "h s1")
  show "s' = s \<or> s' \<in> set tr"
    using run landsD [OF assms(1) m] landsD [OF assms(2) h] by (cases x; cases y) (auto simp: io_on_error_def m h)
qed

lemmas lands_rules = lands_bind lands_calls lands_write lands_iter lands_on_error

text \<open>A crash in the first of two operations, or in the second.\<close>

lemma crash_first: "c \<in> crash_states m s \<Longrightarrow> c \<in> crash_states (io_bind m f) s"
  by (auto simp: crash_states_def io_bind_def split: prod.splits sum.splits)

lemma crash_second: "m s = (Ok x, tr, s') \<Longrightarrow> c \<in> set (fst (snd (f x s'))) \<Longrightarrow> c \<in> crash_states (io_bind m f) s"
  by (auto simp: crash_states_def io_bind_def split: prod.splits)

section \<open>Only removals\<close>

text \<open>Cut off anywhere, or completed, the operation at most removes names in \<open>R\<close>.\<close>

definition only_removes :: "(path \<Rightarrow> bool) \<Rightarrow> 'a io \<Rightarrow> bool" where
  "only_removes R m \<longleftrightarrow>
     (\<forall>s. \<forall>c \<in> insert (final_of m s) (crash_states m s). \<forall>p. view c p = view s p \<or> (R p \<and> view c p = None))"

lemma only_removesI:
  assumes "\<And>s r tr s' c p. m s = (r, tr, s') \<Longrightarrow> c \<in> insert s' (set tr) \<Longrightarrow> view c p = view s p \<or> (R p \<and> view c p = None)"
  shows "only_removes R m"
  unfolding only_removes_def
proof (intro allI ballI)
  fix s c p assume c: "c \<in> insert (final_of m s) (crash_states m s)"
  obtain r tr s' where "m s = (r, tr, s')" by (cases "m s")
  then have "c = s \<or> m s = (r, tr, s') \<and> c \<in> insert s' (set tr)"
    using c by (auto simp: final_of_def crash_states_def)
  then show "view c p = view s p \<or> (R p \<and> view c p = None)"
    using assms [of s r tr s' c p] by (elim disjE conjE) (simp, blast)
qed

lemma only_removesD:
  assumes "only_removes R m" and "m s = (r, tr, s')" and "c \<in> insert s' (set tr)"
  shows "view c p = view s p \<or> (R p \<and> view c p = None)"
proof -
  have "c \<in> insert (final_of m s) (crash_states m s)"
    using assms(2,3) by (auto simp: final_of_def crash_states_def)
  from bspec [OF spec [OF assms(1) [unfolded only_removes_def], of s] this] show ?thesis
    by (rule spec)
qed

lemma only_removes_bind:
  assumes "only_removes R m" and "\<And>x. only_removes R (f x)"
  shows "only_removes R (io_bind m f)"
proof (rule only_removesI)
  fix s r tr s' c p assume run: "io_bind m f s = (r, tr, s')" and c: "c \<in> insert s' (set tr)"
  obtain x tr1 s1 where m: "m s = (x, tr1, s1)" by (cases "m s")
  show "view c p = view s p \<or> (R p \<and> view c p = None)"
  proof (cases x)
    case (Inl e)
    then show ?thesis
      using run c only_removesD [OF assms(1) m] by (simp add: io_bind_def m)
  next
    case (Inr y)
    obtain r2 tr2 s2 where f: "f y s1 = (r2, tr2, s2)" by (cases "f y s1")
    have "c \<in> set tr1 \<or> c \<in> insert s2 (set tr2)"
      using run c by (auto simp: io_bind_def m Inr f)
    then show ?thesis
      using only_removesD [OF assms(1) m, of c p] only_removesD [OF assms(1) m, of s1 p] only_removesD [OF assms(2) f, of c p]
      by auto
  qed
qed

lemma only_removes_return: "only_removes R (io_return x)"
  by (rule only_removesI) (simp add: io_return_def)

lemma only_removes_unlink: "R p \<Longrightarrow> only_removes R (io_unlink p)"
  by (rule only_removesI) (auto simp: io_unlink_def Let_def view_drop_link split: if_splits)

lemma only_removes_iter: "(\<And>p. p \<in> set xs \<Longrightarrow> R p) \<Longrightarrow> only_removes R (io_iter io_unlink xs)"
  by (induction xs) (auto intro!: only_removes_bind only_removes_unlink only_removes_return)

end
