(* ===== verification/PairFacts.thy ===== *)
theory PairFacts
  imports PairJournal CrashTriples
begin

text \<open>
  The plan of a paired publication: its two targets, the names it uses beside them, the entries it writes,
  and what the reader of the journal makes of them.
\<close>

section \<open>Relative names\<close>

definition good_name :: "string \<Rightarrow> bool" where
  "good_name c \<longleftrightarrow> c \<noteq> [] \<and> c \<noteq> ''.'' \<and> c \<noteq> ''..'' \<and> set c \<inter> {CHR ''/'', CHR 0x00, CHR 0x5C} = {} \<and> valid_utf8 c"

lemma split_slash_append: "CHR ''/'' \<notin> set c \<Longrightarrow> split_slash acc (c @ s) = split_slash (rev c @ acc) s"
  by (induction c arbitrary: acc) auto

lemma split_slash_tail:
  "list_all good_name cs \<Longrightarrow> split_slash acc (concat (map (\<lambda>z. ''/'' @ z) cs)) = rev acc # cs"
proof (induction cs arbitrary: acc)
  case Nil
  then show ?case by simp
next
  case (Cons c cs)
  then have "CHR ''/'' \<notin> set c"
    by (simp add: good_name_def)
  from split_slash_append [OF this, of "[]"] Cons show ?case
    by simp
qed

lemma parts_posix: "list_all good_name r \<Longrightarrow> r \<noteq> [] \<Longrightarrow> path_parts (as_posix r) = r"
proof -
  assume r: "list_all good_name r" "r \<noteq> []"
  then obtain c cs where c: "r = c # cs" "CHR ''/'' \<notin> set c"
    by (cases r) (auto simp: good_name_def)
  have "split_slash [] (as_posix r) = r"
    using r by (simp add: as_posix_def join_def c split_slash_append split_slash_tail)
  moreover have "filter (\<lambda>c. c \<noteq> [] \<and> c \<noteq> ''.'') r = r"
    using r by (auto simp: filter_id_conv list_all_iff good_name_def)
  ultimately show ?thesis
    by (simp add: path_parts_def)
qed

lemma walk_good: "list_all good_name r \<Longrightarrow> foldl walk_part base r = base @ r"
  by (induction r arbitrary: base) (auto simp: walk_part_def good_name_def)

lemma posix_chars:
  assumes "list_all good_name r" and "r \<noteq> []"
  shows "as_posix r \<noteq> []" "CHR 0x5C \<notin> set (as_posix r)" "CHR 0x00 \<notin> set (as_posix r)" "take 1 (as_posix r) \<noteq> ''/''" "valid_utf8 (as_posix r)"
proof -
  obtain c cs where r: "r = c # cs" using assms(2) by (cases r) auto
  have v: "valid_utf8 (concat (map (\<lambda>z. sep @ z) zs))" if "list_all good_name zs" "valid_utf8 sep" for zs sep
    using that by (induction zs) (auto simp: good_name_def valid_append)
  obtain b c' where c: "c = b # c'" "b \<noteq> CHR ''/''"
    using assms(1) by (cases c) (auto simp: r good_name_def)
  then show "as_posix r \<noteq> []" "take 1 (as_posix r) \<noteq> ''/''"
    by (simp_all add: r as_posix_def join_def)
  show "CHR 0x5C \<notin> set (as_posix r)" "CHR 0x00 \<notin> set (as_posix r)"
    using assms(1) by (auto simp: r as_posix_def join_def good_name_def list_all_iff)
  define sep where "sep = ''/''"
  have "as_posix r = (b # c') @ concat (map (\<lambda>z. sep @ z) cs)"
    by (simp only: r as_posix_def join_def list.case list.distinct if_False c sep_def)
  moreover have "valid_utf8 sep"
    by (simp add: sep_def)
  moreover have "valid_utf8 (b # c')" "list_all good_name cs"
    using assms(1) by (simp_all only: r good_name_def c list.pred_inject)
  ultimately show "valid_utf8 (as_posix r)"
    using v [of cs sep] by (simp only: valid_append)
qed

lemma inside_posix: "list_all good_name r \<Longrightarrow> r \<noteq> [] \<Longrightarrow> inside e (as_posix r) = Ok (ev_root e @ r)"
  using posix_chars [of r] by (simp add: inside_def resolve_path_def parts_posix walk_good relative_to_def)

lemma relative_append [simp]: "relative_to base (base @ r) = Some r"
  by (simp add: relative_to_def)

section \<open>The plan\<close>

datatype side = First | Second

fun turn :: "side \<Rightarrow> nat" where
  "turn First = 0"
| "turn Second = 1"

datatype slot = Journal | Target side | Staging side | Draft side

record publication =
  pb_env :: env
  pb_rel :: "side \<Rightarrow> path"
  pb_payload :: "side \<Rightarrow> string"

definition pair_target :: "publication \<Rightarrow> side \<Rightarrow> path" where
  "pair_target P k = ev_root (pb_env P) @ pb_rel P k"

definition staging_rel :: "publication \<Rightarrow> side \<Rightarrow> path" where
  "staging_rel P k = butlast (pb_rel P k) @ [staging_name (pb_env P) (turn k) (pair_target P k) (as_posix (pb_rel P k))]"

primrec place :: "publication \<Rightarrow> slot \<Rightarrow> path" where
  "place P Journal = transaction_path (ev_root (pb_env P))"
| "place P (Target k) = pair_target P k"
| "place P (Staging k) = ev_root (pb_env P) @ staging_rel P k"
| "place P (Draft k) = butlast (transaction_path (ev_root (pb_env P))) @ [temporary_name (ev_nonce (pb_env P) (turn k + 2))]"

definition entry_of :: "publication \<Rightarrow> side \<Rightarrow> nat option \<Rightarrow> pair_entry" where
  "entry_of P k i = \<lparr>pe_path = as_posix (pb_rel P k), pe_sha = sha256_hex (pb_payload P k), pe_bytes = int (length (pb_payload P k)),
     pe_temp = as_posix (staging_rel P k), pe_identity = map_option (\<lambda>n. (ev_device (pb_env P), int n)) i\<rparr>"

definition publish :: "publication \<Rightarrow> unit io" where
  "publish P = publish_pair (pb_env P) (pair_target P First, pb_payload P First) (pair_target P Second, pb_payload P Second)"

definition plan_ok :: "publication \<Rightarrow> bool" where
  "plan_ok P \<longleftrightarrow>
     (\<forall>k. pb_rel P k \<noteq> [] \<and> list_all good_name (pb_rel P k) \<and> int (length (pb_payload P k)) < 2 ^ 64) \<and>
     u64 (ev_device (pb_env P)) \<and> (\<forall>names. ev_fresh (pb_env P) names \<notin> snd ` set names) \<and> inj (place P)"

text \<open>None of the names is in use; the file system can number eight more files.\<close>

definition clean_start :: "publication \<Rightarrow> fs \<Rightarrow> bool" where
  "clean_start P s \<longleftrightarrow>
     (\<forall>x. \<not> exists_at s (place P x)) \<and>
     (\<forall>names. length names \<le> length (fs_names s) + 8 \<longrightarrow> int (ev_fresh (pb_env P) names) < 2 ^ 64)"

lemma hex_char_name: "n < 16 \<Longrightarrow> hex_char n \<notin> {CHR ''/'', CHR 0x00, CHR 0x5C}"
  by (auto simp: hex_char_def char_lits of_char_of dest!: arg_cong [of _ _ byte])

lemma hmac_name: "set (hmac_sha256_hex key s) \<inter> {CHR ''/'', CHR 0x00, CHR 0x5C} = {}"
proof -
  have "hex_char (n mod 16) \<notin> {CHR ''/'', CHR 0x00, CHR 0x5C}" for n
    by (rule hex_char_name) simp
  then have "set (hex2 n) \<inter> {CHR ''/'', CHR 0x00, CHR 0x5C} = {}" for n
    by (auto simp: hex2_def)
  then show ?thesis
    unfolding hmac_sha256_hex_def sha256_hex_def Let_def set_concat set_map by blast
qed

lemma staging_good:
  assumes "plan_ok P"
  shows "list_all good_name (staging_rel P k)" "staging_rel P k \<noteq> []"
proof -
  let ?r = "pb_rel P k"
  have r: "?r \<noteq> []" "list_all good_name ?r"
    using assms by (auto simp: plan_ok_def)
  have name: "file_name (pair_target P k) = last ?r"
    using r(1) by (simp add: file_name_def pair_target_def)
  have "good_name (last ?r)"
    using r by (simp add: list_all_iff)
  moreover have "set (hmac_sha256_hex key s) \<inter> {CHR ''/'', CHR 0x00, CHR 0x5C} = {}" for key s
    by (rule hmac_name)
  ultimately have "good_name (staging_name (pb_env P) (turn k) (pair_target P k) (as_posix ?r))"
    by (auto simp: good_name_def staging_name_def name valid_append ascii_valid [OF hmac_ascii] list_all_iff)
  then show "list_all good_name (staging_rel P k)"
    using r by (auto simp: staging_rel_def list_all_iff dest: in_set_butlastD)
qed (simp add: staging_rel_def)

lemma place_inside:
  assumes "plan_ok P"
  shows "inside (pb_env P) (as_posix (pb_rel P k)) = Ok (place P (Target k))"
    and "inside (pb_env P) (as_posix (staging_rel P k)) = Ok (place P (Staging k))"
  using assms staging_good [OF assms] by (auto simp: plan_ok_def inside_posix pair_target_def)

lemma place_eq [simp]: "plan_ok P \<Longrightarrow> place P x = place P y \<longleftrightarrow> x = y"
  by (auto simp: plan_ok_def inj_eq)

lemma entry_of_ok: "plan_ok P \<Longrightarrow> (\<And>n. i = Some n \<Longrightarrow> int n < 2 ^ 64) \<Longrightarrow> entry_ok (pb_env P) (entry_of P k i)"
proof -
  assume ok: "plan_ok P" and i: "\<And>n. i = Some n \<Longrightarrow> int n < 2 ^ 64"
  have r: "pb_rel P k \<noteq> []" "list_all good_name (pb_rel P k)" "int (length (pb_payload P k)) < 2 ^ 64" "u64 (ev_device (pb_env P))"
    using ok by (auto simp: plan_ok_def)
  have "butlast (place P (Target k)) = butlast (place P (Staging k))" "file_name (place P (Staging k)) \<noteq> file_name (place P (Target k))"
    using r(1) by (simp_all add: pair_target_def staging_rel_def butlast_append file_name_def staging_name_def)
      (metis append_is_Nil_conv impossible_Cons length_append le_add1)?
  then show ?thesis
    using i r posix_chars(5) staging_good [OF ok] sha256_hex_ascii [of "pb_payload P k"]
    by (auto simp: entry_ok_def entry_of_def place_inside [OF ok] ascii_valid u64_def split: option.splits)
qed

end
