(* ===== verification/PairStages.thy ===== *)
theory PairStages
  imports PairFacts
begin

text \<open>
  The stages of a paired publication: what lies under each name of the plan after every call, and that
  every state in between is one recovery can deal with.
\<close>

section \<open>What lies under the names\<close>

type_synonym look = "slot \<Rightarrow> (nat \<times> string) option"

definition looks :: "publication \<Rightarrow> fs \<Rightarrow> nat \<Rightarrow> look \<Rightarrow> fs \<Rightarrow> bool" where
  "looks P s0 n f s \<longleftrightarrow>
     (\<forall>x. view s (place P x) = f x) \<and> (\<forall>q. q \<notin> range (place P) \<longrightarrow> view s q = view s0 q) \<and>
     length (fs_names s) \<le> length (fs_names s0) + n"

lemma looks_view: "looks P s0 n f s \<Longrightarrow> view s (place P x) = f x"
  by (simp add: looks_def)

lemma looks_exists: "looks P s0 n f s \<Longrightarrow> exists_at s (place P x) \<longleftrightarrow> f x \<noteq> None"
  by (simp add: exists_view looks_view)

lemma looks_more: "looks P s0 n f s \<Longrightarrow> n \<le> m \<Longrightarrow> looks P s0 m f s"
  by (auto simp: looks_def)

lemma looks_update:
  assumes "plan_ok P" and "looks P s0 n f s" and "view s' = (view s)(place P x := v)"
    and "length (fs_names s') \<le> length (fs_names s) + d"
  shows "looks P s0 (n + d) (f(x := v)) s'"
  using assms by (auto simp: looks_def)

lemma looks_adds: "plan_ok P \<Longrightarrow> looks P s0 n f s \<Longrightarrow> adds_file (place P x) i b s s' \<Longrightarrow> looks P s0 (Suc n) (f(x \<mapsto> (i, b))) s'"
  using looks_update [of P s0 n f s s' x _ 1] by (simp add: adds_file_def)

lemma looks_link:
  "plan_ok P \<Longrightarrow> looks P s0 n f s \<Longrightarrow> f x = Some (i, b) \<Longrightarrow> looks P s0 (Suc n) (f(y \<mapsto> (i, b))) (set_link (place P y) i s)"
  using looks_update [of P s0 n f s "set_link (place P y) i s" y "Some (i, b)" 1] names_set_link
  by (simp add: fun_eq_iff view_set_link [of s "place P x"] looks_view)

lemma looks_drop: "plan_ok P \<Longrightarrow> looks P s0 n f s \<Longrightarrow> looks P s0 n (f(x := None)) (drop_link (place P x) s)"
  using looks_update [of P s0 n f s "drop_link (place P x) s" x None 0] names_drop_link
  by (simp add: fun_eq_iff view_drop_link)

section \<open>Calls on the names\<close>

lemma triple_read:
  assumes "\<And>s. P s \<Longrightarrow> f s = Ok x" and "triple P (g x) Q C"
  shows "triple P (io_bind (io_get f) g) Q C"
  using assms by (auto simp: triple_def io_bind_def io_get_def result_of_def final_of_def crash_states_def split: prod.split)

lemma triple_assert:
  assumes "\<And>s. P s \<Longrightarrow> c s" and "triple P m Q C"
  shows "triple P (io_bind (io_check c e) (\<lambda>_. m)) Q C"
  unfolding io_check_def by (rule triple_read) (use assms in auto)

lemma triple_link:
  assumes "plan_ok P" and "f x = Some v" and "f y = None"
    and "\<And>s. looks P s0 n f s \<Longrightarrow> C s" and "\<And>s. looks P s0 (Suc n) (f(y \<mapsto> v)) s \<Longrightarrow> C s"
  shows "triple (looks P s0 n f) (io_link (place P x) (place P y)) (\<lambda>_. looks P s0 (Suc n) (f(y \<mapsto> v))) C"
proof (rule tripleI)
  fix s assume s: "looks P s0 n f s"
  obtain i b where v: "v = (i, b)" by (cases v)
  have "inode_of s (place P x) = Some i" "\<not> exists_at s (place P y)"
    using s assms(2,3) by (simp_all add: inode_view looks_view exists_view v)
  then show "\<exists>z tr s'. io_link (place P x) (place P y) s = (Ok z, tr, s') \<and> looks P s0 (Suc n) (f(y \<mapsto> v)) s' \<and> C s \<and> list_all C tr"
    using assms(4,5) s looks_link [OF assms(1) s, of x i b y] assms(2) by (simp add: io_link_def v Let_def)
qed

lemma triple_replace:
  assumes "plan_ok P" and "f x = Some v" and "x \<noteq> y"
    and "\<And>s. looks P s0 n f s \<Longrightarrow> C s" and "\<And>s. looks P s0 (Suc n) (f(x := None, y \<mapsto> v)) s \<Longrightarrow> C s"
  shows "triple (looks P s0 n f) (io_replace (place P x) (place P y)) (\<lambda>_. looks P s0 (Suc n) (f(x := None, y \<mapsto> v))) C"
proof (rule tripleI)
  fix s assume s: "looks P s0 n f s"
  obtain i b where v: "v = (i, b)" by (cases v)
  have i: "inode_of s (place P x) = Some i"
    using s assms(2) by (simp add: inode_view looks_view v)
  let ?s = "set_link (place P y) i (drop_link (place P x) s)"
  have view: "view s (place P x) = Some (i, b)"
    using s assms(2) by (simp add: looks_view v)
  have "view ?s = (view (drop_link (place P x) s))(place P y := Some (i, b))"
    using view by (auto simp: view_def)
  then have "looks P s0 (n + 1) (f(x := None, y \<mapsto> v)) ?s"
    using looks_update [OF assms(1) looks_drop [OF assms(1) s, of x], of ?s y "Some (i, b)" 1] names_set_link
    by (simp add: v)
  then show "\<exists>z tr s'. io_replace (place P x) (place P y) s = (Ok z, tr, s') \<and>
      looks P s0 (Suc n) (f(x := None, y \<mapsto> v)) s' \<and> C s \<and> list_all C tr"
    using assms(4,5) s i by (simp add: io_replace_def Let_def)
qed

lemma triple_unlink:
  assumes "plan_ok P" and "f x \<noteq> None"
    and "\<And>s. looks P s0 n f s \<Longrightarrow> C s" and "\<And>s. looks P s0 n (f(x := None)) s \<Longrightarrow> C s"
  shows "triple (looks P s0 n f) (io_unlink (place P x)) (\<lambda>_. looks P s0 n (f(x := None))) C"
proof (rule tripleI)
  fix s assume s: "looks P s0 n f s"
  then show "\<exists>z tr s'. io_unlink (place P x) s = (Ok z, tr, s') \<and> looks P s0 n (f(x := None)) s' \<and> C s \<and> list_all C tr"
    using assms(2-4) looks_drop [OF assms(1) s, of x] by (simp add: io_unlink_def looks_exists Let_def)
qed

text \<open>Writing a whole new file under a name of the plan.\<close>

lemma triple_new_file:
  assumes "plan_ok P" and "clean_start P s0" and "f x = None" and "n < 8"
    and "\<And>s. looks P s0 n f s \<Longrightarrow> C s"
    and "\<And>i k s. k \<le> length b \<Longrightarrow> int i < 2 ^ 64 \<Longrightarrow> looks P s0 (Suc n) (f(x \<mapsto> (i, take k b))) s \<Longrightarrow> C s"
    and "\<And>i. int i < 2 ^ 64 \<Longrightarrow> triple (looks P s0 (Suc n) (f(x \<mapsto> (i, b)))) (g i) Q C"
  shows "triple (looks P s0 n f) (io_bind (io_create (ev_fresh (pb_env P)) (place P x)) (\<lambda>i. io_bind (io_write i b) (\<lambda>_. g i))) Q C"
proof (rule triple_create_write [where R = "\<lambda>i s. int i < 2 ^ 64 \<and> looks P s0 (Suc n) (f(x \<mapsto> (i, b))) s"])
  fix s assume s: "looks P s0 n f s"
  have i: "int (ev_fresh (pb_env P) (fs_names s)) < 2 ^ 64"
    using s assms(2,4) by (simp add: clean_start_def looks_def)
  show "\<not> exists_at s (place P x) \<and> ev_fresh (pb_env P) (fs_names s) \<notin> snd ` set (fs_names s) \<and> C s"
    using s assms(1,3,5) by (simp add: looks_exists plan_ok_def)
  fix s' assume "adds_file (place P x) (ev_fresh (pb_env P) (fs_names s)) b s s'"
  then show "int (ev_fresh (pb_env P) (fs_names s)) < 2 ^ 64 \<and> looks P s0 (Suc n) (f(x \<mapsto> (ev_fresh (pb_env P) (fs_names s), b))) s'"
    using looks_adds [OF assms(1) s] i by blast
next
  fix s s' k assume s: "looks P s0 n f s" and k: "k \<le> length b"
    and a: "adds_file (place P x) (ev_fresh (pb_env P) (fs_names s)) (take k b) s s'"
  have "int (ev_fresh (pb_env P) (fs_names s)) < 2 ^ 64"
    using s assms(2,4) by (simp add: clean_start_def looks_def)
  then show "C s'"
    using assms(6) [OF k] looks_adds [OF assms(1) s a] by blast
next
  fix i
  show "triple (\<lambda>s. int i < 2 ^ 64 \<and> looks P s0 (Suc n) (f(x \<mapsto> (i, b))) s) (g i) Q C"
    using assms(7) [of i] unfolding triple_def by blast
qed

section \<open>The states of a publication\<close>

definition journal_of :: "publication \<Rightarrow> (side \<Rightarrow> nat option) \<Rightarrow> string" where
  "journal_of P ids = journal_body (ev_key (pb_env P)) [entry_of P First (ids First), entry_of P Second (ids Second)]"

definition staged :: "publication \<Rightarrow> (side \<Rightarrow> nat option) \<Rightarrow> side \<Rightarrow> (nat \<times> string) option" where
  "staged P ids k = map_option (\<lambda>i. (i, pb_payload P k)) (ids k)"

text \<open>Where the calls stand: the staging files in \<open>ids\<close> are written, the targets in \<open>ins\<close> are linked.\<close>

definition shape :: "publication \<Rightarrow> (side \<Rightarrow> nat option) \<Rightarrow> (side \<Rightarrow> bool) \<Rightarrow> look \<Rightarrow> bool" where
  "shape P ids ins f \<longleftrightarrow>
     (\<exists>j. f Journal = Some (j, journal_of P ids @ [CHR 0x0A])) \<and>
     (\<forall>k. f (Staging k) = staged P ids k \<and> f (Target k) = (if ins k then staged P ids k else None) \<and>
          (ids k = None \<longrightarrow> f (Draft k) = None) \<and> (\<forall>i. ids k = Some i \<longrightarrow> int i < 2 ^ 64))"

text \<open>
  What a crash can leave: nothing; a torn first journal; a journal with files of its own; both targets.
\<close>

definition nothing_there :: "look \<Rightarrow> bool" where
  "nothing_there f \<longleftrightarrow> f Journal = None \<and> (\<forall>k. f (Target k) = None \<and> f (Staging k) = None)"

definition torn_journal :: "publication \<Rightarrow> look \<Rightarrow> bool" where
  "torn_journal P f \<longleftrightarrow>
     (\<exists>i t. f Journal = Some (i, t) \<and> cut t (journal_of P (\<lambda>_. None) @ [CHR 0x0A]) \<and> t \<noteq> journal_of P (\<lambda>_. None)) \<and>
     (\<forall>k. f (Target k) = None \<and> f (Staging k) = None)"

definition side_ok :: "publication \<Rightarrow> (side \<Rightarrow> nat option) \<Rightarrow> look \<Rightarrow> side \<Rightarrow> bool" where
  "side_ok P ids f k \<longleftrightarrow>
     f (Target k) \<in> {None, staged P ids k} \<and>
     (\<forall>i. ids k = Some i \<longrightarrow> int i < 2 ^ 64 \<and> f (Staging k) \<in> {None, staged P ids k})"

definition under_way :: "publication \<Rightarrow> (side \<Rightarrow> nat option) \<Rightarrow> look \<Rightarrow> bool" where
  "under_way P ids f \<longleftrightarrow>
     (\<exists>i t. f Journal = Some (i, t) \<and> (t = journal_of P ids @ [CHR 0x0A] \<or> t = journal_of P ids)) \<and> (\<forall>k. side_ok P ids f k)"

definition delivered :: "publication \<Rightarrow> look \<Rightarrow> bool" where
  "delivered P f \<longleftrightarrow> f Journal = None \<and> (\<forall>k. f (Staging k) = None \<and> (\<exists>i. f (Target k) = Some (i, pb_payload P k)))"

definition safe :: "publication \<Rightarrow> fs \<Rightarrow> fs \<Rightarrow> bool" where
  "safe P s0 s \<longleftrightarrow>
     (\<exists>n f. looks P s0 n f s \<and> (nothing_there f \<or> torn_journal P f \<or> (\<exists>ids. under_way P ids f) \<or> delivered P f))"

lemma shape_under_way: "shape P ids ins f \<Longrightarrow> under_way P ids f"
  by (auto simp: shape_def under_way_def side_ok_def)

lemma under_way_safe: "looks P s0 n f s \<Longrightarrow> under_way P ids f \<Longrightarrow> safe P s0 s"
  by (auto simp: safe_def)

text \<open>What the reader of the journal makes of it.\<close>

lemma load_under_way:
  assumes "plan_ok P" and "looks P s0 n f s" and "under_way P ids f"
  shows "load_transaction (pb_env P) s = Ok [entry_of P First (ids First), entry_of P Second (ids Second)]"
proof -
  obtain i t where t: "f Journal = Some (i, t)" "t = journal_of P ids @ [CHR 0x0A] \<or> t = journal_of P ids"
    using assms(3) by (auto simp: under_way_def)
  have "content s (transaction_path (ev_root (pb_env P))) = Some t"
    using looks_view [OF assms(2), of Journal] t(1) by (simp add: content_view)
  moreover have "entry_ok (pb_env P) (entry_of P k (ids k))" for k
    using assms(3) by (intro entry_of_ok [OF assms(1)]) (simp add: under_way_def side_ok_def)
  ultimately show ?thesis
    using t(2) by (intro load_parts) (auto simp: journal_of_def)
qed

lemma load_torn_journal:
  assumes "plan_ok P" and "looks P s0 n f s" and "torn_journal P f"
  shows "\<exists>err. load_transaction (pb_env P) s = Raise err"
proof -
  obtain i t where t: "f Journal = Some (i, t)" "cut t (journal_of P (\<lambda>_. None) @ [CHR 0x0A])" "t \<noteq> journal_of P (\<lambda>_. None)"
    using assms(3) by (auto simp: torn_journal_def)
  have "content s (transaction_path (ev_root (pb_env P))) = Some t"
    using looks_view [OF assms(2), of Journal] t(1) by (simp add: content_view)
  then show ?thesis
    using t(2,3) entry_of_ok [OF assms(1)] by (intro load_torn) (auto simp: journal_of_def)
qed

lemma triple_load:
  assumes "plan_ok P" and "under_way P ids f"
    and "triple (looks P s0 n f) (g [entry_of P First (ids First), entry_of P Second (ids Second)]) Q C"
  shows "triple (looks P s0 n f) (io_bind (io_get (load_transaction (pb_env P))) g) Q C"
  using assms by (intro triple_read [OF load_under_way])

end
