(* ===== verification/PairSteps.thy ===== *)
theory PairSteps
  imports PairStages
begin

text \<open>
  Each call of the publication takes one stage to the next, and a crash inside it leaves a state that
  recovery accepts.
\<close>

section \<open>The journal\<close>

definition entries_of :: "publication \<Rightarrow> (side \<Rightarrow> nat option) \<Rightarrow> pair_entry list" where
  "entries_of P ids = [entry_of P First (ids First), entry_of P Second (ids Second)]"

definition small_ids :: "(side \<Rightarrow> nat option) \<Rightarrow> bool" where
  "small_ids ids \<longleftrightarrow> (\<forall>k i. ids k = Some i \<longrightarrow> int i < 2 ^ 64)"

lemma small_ids_simps [simp]: "small_ids (\<lambda>_. None)" "small_ids ids \<Longrightarrow> int i < 2 ^ 64 \<Longrightarrow> small_ids (ids(k \<mapsto> i))"
  by (simp_all add: small_ids_def)

lemma journal_text:
  assumes "plan_ok P" and "small_ids ids"
  shows "transaction_text (ev_key (pb_env P)) (entries_of P ids) = Ok (journal_of P ids @ [CHR 0x0A])"
proof -
  have "entry_ok (pb_env P) (entry_of P k (ids k))" for k
    using assms(2) by (intro entry_of_ok [OF assms(1)]) (simp add: small_ids_def)
  then show ?thesis
    by (simp add: entries_of_def journal_of_def transaction_text_eq [of "pb_env P"])
qed

lemma entry_at_turn: "entry_at (entries_of P ids) (int (turn k)) = Ok (entry_of P k (ids k))"
  by (cases k) (simp_all add: entry_at_def entries_of_def)

lemma entries_update: "(entries_of P ids)[turn k := entry_of P k (Some i)] = entries_of P (ids(k \<mapsto> i))"
  by (cases k) (simp_all add: entries_of_def)

lemma draft_place: "butlast (transaction_path (ev_root (pb_env P))) @ [temporary_name (ev_nonce (pb_env P) (turn k + 2))] = place P (Draft k)"
  by simp

lemma journal_place: "transaction_path (ev_root (pb_env P)) = place P Journal"
  by simp

text \<open>Replacing the journal: the draft is invisible to recovery until the rename.\<close>

lemma triple_write_journal:
  assumes P: "plan_ok P" "clean_start P s0" and "small_ids ids" and "f (Draft k) = None" and "n + 2 \<le> 8"
    and crash: "\<And>g m s. looks P s0 m g s \<Longrightarrow> \<forall>x. x \<noteq> Draft k \<longrightarrow> g x = f x \<Longrightarrow> C s"
    and "\<And>j s. looks P s0 (n + 2) (f(Journal \<mapsto> (j, journal_of P ids @ [CHR 0x0A]))) s \<Longrightarrow> C s"
  shows "triple (looks P s0 n f) (write_transaction (pb_env P) (ev_nonce (pb_env P) (turn k + 2)) (entries_of P ids))
     (\<lambda>_ s. \<exists>j. looks P s0 (n + 2) (f(Journal \<mapsto> (j, journal_of P ids @ [CHR 0x0A]))) s) C"
  unfolding write_transaction_def Let_def draft_place unfolding journal_place
proof (rule triple_read, rule journal_text [OF P(1) assms(3)],
    rule triple_new_file [OF P, where x = "Draft k"])
  let ?t = "journal_of P ids @ [CHR 0x0A]"
  fix i
  have *: "f(Draft k := None, Journal \<mapsto> (i, ?t)) = f(Journal \<mapsto> (i, ?t))"
    using assms(4) by auto
  have "triple (looks P s0 (Suc n) (f(Draft k \<mapsto> (i, ?t)))) (io_replace (place P (Draft k)) (place P Journal))
      (\<lambda>_. looks P s0 (Suc (Suc n)) ((f(Draft k \<mapsto> (i, ?t)))(Draft k := None, Journal \<mapsto> (i, ?t)))) C"
    using assms(7) [of i] crash by (intro triple_replace [OF P(1)]) (auto simp: *)
  then show "triple (looks P s0 (Suc n) (f(Draft k \<mapsto> (i, ?t)))) (io_replace (place P (Draft k)) (place P Journal))
      (\<lambda>_ s. \<exists>j. looks P s0 (n + 2) (f(Journal \<mapsto> (j, ?t))) s) C"
    by (rule triple_weaken) (auto simp: *)
qed (use assms crash in auto)

section \<open>Staging and installing\<close>

definition stage :: "publication \<Rightarrow> fs \<Rightarrow> nat \<Rightarrow> (side \<Rightarrow> nat option) \<Rightarrow> (side \<Rightarrow> bool) \<Rightarrow> fs \<Rightarrow> bool" where
  "stage P s0 n ids ins s \<longleftrightarrow> (\<exists>f. looks P s0 n f s \<and> shape P ids ins f)"

lemma triple_stage: "(\<And>f. shape P ids ins f \<Longrightarrow> triple (looks P s0 n f) m Q C) \<Longrightarrow> triple (stage P s0 n ids ins) m Q C"
  unfolding triple_def stage_def by blast

lemma shape_small: "shape P ids ins f \<Longrightarrow> small_ids ids"
  by (simp add: shape_def small_ids_def)

lemma entry_fields [simp]:
  "pe_path (entry_of P k i) = as_posix (pb_rel P k)" "pe_sha (entry_of P k i) = sha256_hex (pb_payload P k)"
  "pe_bytes (entry_of P k i) = int (length (pb_payload P k))" "pe_temp (entry_of P k i) = as_posix (staging_rel P k)"
  "pe_identity (entry_of P k i) = map_option (\<lambda>n. (ev_device (pb_env P), int n)) i"
  "(entry_of P k None)\<lparr>pe_identity := Some (ev_device (pb_env P), int n)\<rparr> = entry_of P k (Some n)"
  by (simp_all add: entry_of_def)

lemma under_way_cong: "under_way P ids f \<Longrightarrow> (\<And>x. (\<forall>k. x \<noteq> Draft k) \<Longrightarrow> g x = f x) \<Longrightarrow> under_way P ids g"
  by (simp add: under_way_def side_ok_def)

lemma under_way_staging: "under_way P ids f \<Longrightarrow> ids k = None \<Longrightarrow> under_way P ids (f(Staging k := v))"
  by (auto simp: under_way_def side_ok_def)

lemma prepare_stage:
  assumes P: "plan_ok P" "clean_start P s0" and ids: "ids k = None" "\<not> ins k" and n: "n + 3 \<le> 8"
  shows "triple (stage P s0 n ids ins) (prepare_entry (pb_env P) (int (turn k)) (pb_payload P k) (ev_nonce (pb_env P) (turn k + 2)))
     (\<lambda>_ s. \<exists>i. stage P s0 (n + 3) (ids(k \<mapsto> i)) ins s) (safe P s0)"
  unfolding prepare_entry_def
proof (rule triple_stage, rule triple_load [OF P(1)], erule shape_under_way, unfold entries_of_def [symmetric],
    (rule triple_read, rule entry_at_turn, (rule triple_assert, simp add: ids)+)+,
    rule triple_read, simp only: entry_fields, rule place_inside(1) [OF P(1)],
    rule triple_read, simp only: entry_fields, rule place_inside(2) [OF P(1)])
  fix f assume f: "shape P ids ins f"
  note u = shape_under_way [OF f]
  let ?en = "entry_of P k (ids k)"
  have empty: "f (Staging k) = None" "f (Target k) = None" "f (Draft k) = None"
    using f ids by (simp_all add: shape_def staged_def)
  have safe: "safe P s0 s" if "looks P s0 m g s" "\<And>x. (\<forall>k. x \<noteq> Draft k) \<Longrightarrow> g x = (f(Staging k := v)) x" for s m g v
    using under_way_cong [OF under_way_staging [OF u ids(1)] that(2)] that(1) under_way_safe by blast
  have ended: "shape P (ids(k \<mapsto> i)) ins (f(Staging k \<mapsto> (i, pb_payload P k), Journal \<mapsto> (j, journal_of P (ids(k \<mapsto> i)) @ [CHR 0x0A])))"
    if "int i < 2 ^ 64" for i j
    using f that ids by (auto simp: shape_def staged_def)
  show "triple (looks P s0 n f)
     (io_bind (io_check (\<lambda>s. \<not> (exists_at s (place P (Target k)) \<or> exists_at s (place P (Staging k)))) FileExistsError) (\<lambda>_.
      io_bind (io_create (ev_fresh (pb_env P)) (place P (Staging k))) (\<lambda>i.
      io_bind (io_write i (pb_payload P k)) (\<lambda>_.
        write_transaction (pb_env P) (ev_nonce (pb_env P) (turn k + 2))
          ((entries_of P ids)[nat (int (turn k)) := ?en\<lparr>pe_identity := Some (ev_device (pb_env P), int i)\<rparr>])))))
     (\<lambda>_ s. \<exists>i. stage P s0 (n + 3) (ids(k \<mapsto> i)) ins s) (safe P s0)"
  proof (rule triple_assert, simp add: looks_exists empty del: place.simps, rule triple_new_file [OF P])
    fix i assume i: "int i < 2 ^ 64"
    let ?f = "f(Staging k \<mapsto> (i, pb_payload P k))"
    have "triple (looks P s0 (Suc n) ?f) (write_transaction (pb_env P) (ev_nonce (pb_env P) (turn k + 2)) (entries_of P (ids(k \<mapsto> i))))
       (\<lambda>_ s. \<exists>j. looks P s0 (Suc n + 2) (?f(Journal \<mapsto> (j, journal_of P (ids(k \<mapsto> i)) @ [CHR 0x0A]))) s) (safe P s0)"
    proof (rule triple_write_journal [OF P])
      show "small_ids (ids(k \<mapsto> i))"
        using i shape_small [OF f] by simp
      fix g m s assume "looks P s0 m g s" "\<forall>x. x \<noteq> Draft k \<longrightarrow> g x = ?f x"
      then show "safe P s0 s"
        by (intro safe [of m g s "Some (i, pb_payload P k)"]) auto
    next
      fix j s assume "looks P s0 (Suc n + 2) (?f(Journal \<mapsto> (j, journal_of P (ids(k \<mapsto> i)) @ [CHR 0x0A]))) s"
      then show "safe P s0 s"
        using shape_under_way [OF ended [OF i]] under_way_safe by blast
    qed (use empty n in auto)
    then show "triple (looks P s0 (Suc n) ?f) (write_transaction (pb_env P) (ev_nonce (pb_env P) (turn k + 2))
          ((entries_of P ids)[nat (int (turn k)) := ?en\<lparr>pe_identity := Some (ev_device (pb_env P), int i)\<rparr>]))
       (\<lambda>_ s. \<exists>i. stage P s0 (n + 3) (ids(k \<mapsto> i)) ins s) (safe P s0)"
      unfolding ids(1) entry_fields nat_int entries_update
      by (rule triple_weaken) (use ended [OF i] in \<open>auto simp: stage_def numeral_3_eq_3\<close>)
  next
    fix i b s assume "looks P s0 (Suc n) (f(Staging k \<mapsto> (i, take b (pb_payload P k)))) s"
    then show "safe P s0 s"
      by (rule safe) simp
  qed (use n empty under_way_safe [OF _ u] in auto)
qed

lemma owned_staged:
  assumes "staged P ids k = Some v" and "view s p = Some v"
  shows "owned (pb_env P) (entry_of P k (ids k)) s p"
proof -
  obtain i where i: "ids k = Some i" "v = (i, pb_payload P k)"
    using assms(1) by (auto simp: staged_def)
  then have "inode_of s p = Some i" "bytes_of s i = pb_payload P k"
    using assms(2) view_bytes [of s p] by (simp_all add: inode_view)
  then show ?thesis
    by (simp add: owned_def i(1))
qed

lemma install_stage:
  assumes P: "plan_ok P" and ids: "ids k = Some i" "\<not> ins k"
  shows "triple (stage P s0 n ids ins) (install_entry (pb_env P) (int (turn k)))
     (\<lambda>_. stage P s0 (Suc n) ids (ins(k := True))) (safe P s0)"
  unfolding install_entry_def
proof (rule triple_stage, rule triple_load [OF P], erule shape_under_way, unfold entries_of_def [symmetric],
    rule triple_read, rule entry_at_turn, rule triple_assert, simp add: ids,
    rule triple_read, simp only: entry_fields, rule place_inside(1) [OF P],
    rule triple_read, simp only: entry_fields, rule place_inside(2) [OF P])
  fix f assume f: "shape P ids ins f"
  let ?v = "(i, pb_payload P k)" and ?g = "f(Target k \<mapsto> (i, pb_payload P k))"
  have look: "staged P ids k = Some ?v" "f (Staging k) = Some ?v" "f (Target k) = None"
    using f ids by (simp_all add: shape_def staged_def)
  have g: "shape P ids (ins(k := True)) ?g"
    using f look(1) by (auto simp: shape_def)
  have own: "owned (pb_env P) (entry_of P k (ids k)) s (place P x)" if "looks P s0 m h s" "h x = Some ?v" for s m h x
    using owned_staged [of P ids k _ s "place P x"] look(1) that by (simp add: looks_view)
  have "triple (looks P s0 n f) (io_link (place P (Staging k)) (place P (Target k))) (\<lambda>_. looks P s0 (Suc n) ?g) (safe P s0)"
    using look(2,3) under_way_safe shape_under_way [OF f] shape_under_way [OF g] by (intro triple_link [OF P]) auto
  moreover have "triple (looks P s0 (Suc n) ?g) (io_check (\<lambda>s. owned (pb_env P) (entry_of P k (ids k)) s (place P (Target k))) RecordValidationError)
      (\<lambda>_. stage P s0 (Suc n) ids (ins(k := True))) (safe P s0)"
    using own g under_way_safe shape_under_way [OF g] by (intro triple_check) (auto simp: stage_def simp del: place.simps)
  ultimately show "triple (looks P s0 n f)
     (io_bind (io_check (\<lambda>s. owned (pb_env P) (entry_of P k (ids k)) s (place P (Staging k))) RecordValidationError) (\<lambda>_.
      io_bind (io_link (place P (Staging k)) (place P (Target k))) (\<lambda>_.
        io_check (\<lambda>s. owned (pb_env P) (entry_of P k (ids k)) s (place P (Target k))) RecordValidationError)))
     (\<lambda>_. stage P s0 (Suc n) ids (ins(k := True))) (safe P s0)"
    using own look(2) by (intro triple_assert triple_bind) blast+
qed

section \<open>Beginning\<close>

lemma bind_get_Ok: "io_bind (io_get (\<lambda>_. Ok x)) g = g x"
  by (simp add: fun_eq_iff io_bind_def io_get_def)

lemma bind_return: "io_bind m (\<lambda>_. io_return ()) = m"
  by (simp add: fun_eq_iff io_bind_def io_return_def split: prod.split sum.split)

lemma new_entry_plan:
  assumes "plan_ok P" and "looks P s0 n f s" and "f (Target k) = None"
  shows "new_entry (pb_env P) (turn k) (pair_target P k) (pb_payload P k) s = Ok (entry_of P k None)"
proof -
  have "\<not> exists_at s (pair_target P k)"
    using looks_exists [OF assms(2), of "Target k"] assms(3) by simp
  moreover have "butlast (pair_target P k) = ev_root (pb_env P) @ butlast (pb_rel P k)"
    using assms(1) by (simp add: plan_ok_def pair_target_def butlast_append)
  ultimately show ?thesis
    by (simp add: new_entry_def entry_of_def) (simp add: pair_target_def staging_rel_def)
qed

lemma clean_look: "clean_start P s0 \<Longrightarrow> looks P s0 0 (\<lambda>_. None) s0"
  by (simp add: clean_start_def looks_def exists_view del: split_paired_All not_None_eq not_Some_eq place.simps)

lemma begin_crash:
  assumes P: "plan_ok P" and "looks P s0 n ((\<lambda>_. None)(Journal \<mapsto> (i, take m (journal_of P (\<lambda>_. None) @ [CHR 0x0A])))) s"
  shows "safe P s0 s"
proof -
  let ?b = "journal_of P (\<lambda>_. None)" and ?f = "(\<lambda>_. None)(Journal \<mapsto> (i, take m (journal_of P (\<lambda>_. None) @ [CHR 0x0A])))"
  have "under_way P (\<lambda>_. None) ?f \<or> torn_journal P ?f"
  proof (cases "m < length (?b @ [CHR 0x0A])")
    case True
    then have "cut (take m (?b @ [CHR 0x0A])) (?b @ [CHR 0x0A])"
      unfolding cut_def by (intro exI [of _ "drop m (?b @ [CHR 0x0A])"]) simp
    then show ?thesis
      by (auto simp: under_way_def torn_journal_def side_ok_def)
  qed (simp add: under_way_def side_ok_def)
  then show ?thesis
    using assms(2) unfolding safe_def by blast
qed

lemma begin_stage:
  assumes P: "plan_ok P" "clean_start P s0"
  shows "triple (\<lambda>s. s = s0)
     (begin_pair (pb_env P) [(pair_target P First, pb_payload P First), (pair_target P Second, pb_payload P Second)])
     (\<lambda>_. stage P s0 1 (\<lambda>_. None) (\<lambda>_. False)) (safe P s0)"
proof -
  let ?e = "pb_env P" and ?none = "\<lambda>_. None :: (nat \<times> string) option" and ?t = "journal_of P (\<lambda>_. None) @ [CHR 0x0A]"
  have ne: "pair_target P First \<noteq> pair_target P Second"
    using place_eq [OF P(1), of "Target First" "Target Second"] by simp
  have start: "safe P s0 s" if "looks P s0 0 ?none s" for s
    using that unfolding safe_def nothing_there_def by blast
  have fin: "stage P s0 1 (\<lambda>_. None) (\<lambda>_. False) s" if "looks P s0 (Suc 0) (?none(Journal \<mapsto> (i, ?t))) s" for i s
    using that unfolding stage_def shape_def by (intro exI [of _ "?none(Journal \<mapsto> (i, ?t))"]) (simp add: staged_def)
  have "triple (looks P s0 0 ?none)
     (io_bind (io_create (ev_fresh ?e) (place P Journal)) (\<lambda>i. io_bind (io_write i ?t) (\<lambda>_. io_return ())))
     (\<lambda>_. stage P s0 1 (\<lambda>_. None) (\<lambda>_. False)) (safe P s0)"
  proof (rule triple_new_file [OF P])
    fix i
    show "triple (looks P s0 (Suc 0) (?none(Journal \<mapsto> (i, ?t)))) (io_return ()) (\<lambda>_. stage P s0 1 (\<lambda>_. None) (\<lambda>_. False)) (safe P s0)"
      using fin begin_crash [OF P(1), of s0 "Suc 0" i "length ?t"] by (intro triple_return) auto
  qed (use start begin_crash [OF P(1)] in auto)
  moreover have "transaction_text (ev_key ?e) [entry_of P First None, entry_of P Second None] = Ok ?t"
    using journal_text [OF P(1), of "\<lambda>_. None"] by (simp add: entries_of_def)
  ultimately have writes: "triple (looks P s0 0 ?none)
     (io_bind (io_create (ev_fresh ?e) (transaction_path (ev_root ?e))) (\<lambda>i.
      io_bind (io_get (\<lambda>_. transaction_text (ev_key ?e) [entry_of P First None, entry_of P Second None])) (\<lambda>t. io_write i t)))
     (\<lambda>_. stage P s0 1 (\<lambda>_. None) (\<lambda>_. False)) (safe P s0)"
    by (simp only: bind_get_Ok bind_return journal_place)
  have "triple (looks P s0 0 ?none)
     (begin_pair ?e [(pair_target P First, pb_payload P First), (pair_target P Second, pb_payload P Second)])
     (\<lambda>_. stage P s0 1 (\<lambda>_. None) (\<lambda>_. False)) (safe P s0)"
    unfolding begin_pair_def list.case prod.case if_not_P [OF ne] journal_place
  proof (rule triple_assert)
    show "\<not> exists_at s (place P Journal)" if "looks P s0 0 ?none s" for s
      using that by (simp add: looks_exists del: place.simps)
    have entry: "new_entry ?e (turn k) (pair_target P k) (pb_payload P k) s = Ok (entry_of P k None)" if "looks P s0 0 ?none s" for s k
      using new_entry_plan [OF P(1) that] by simp
    show "triple (looks P s0 0 ?none)
       (io_bind (io_get (new_entry ?e 0 (pair_target P First) (pb_payload P First))) (\<lambda>e0.
        io_bind (io_get (new_entry ?e 1 (pair_target P Second) (pb_payload P Second))) (\<lambda>e1.
        io_bind (io_create (ev_fresh ?e) (place P Journal)) (\<lambda>i.
        io_bind (io_get (\<lambda>_. transaction_text (ev_key ?e) [e0, e1])) (\<lambda>t. io_write i t)))))
       (\<lambda>_. stage P s0 1 (\<lambda>_. None) (\<lambda>_. False)) (safe P s0)"
      using writes entry [of _ First] entry [of _ Second] by (intro triple_read) simp_all
  qed
  then show ?thesis
    using clean_look [OF P(2)] unfolding triple_def by blast
qed

end
