(* ===== verification/PairRecovery.thy ===== *)
theory PairRecovery
  imports PairSteps
begin

text \<open>
  Recovery of a paired publication, from every state a crash can leave: what it decides, what it removes,
  and that it may be interrupted as often as it likes.
\<close>

section \<open>Clearing names\<close>

definition clear :: "slot set \<Rightarrow> look \<Rightarrow> look" where
  "clear X f = (\<lambda>x. if x \<in> X then None else f x)"

lemma clear_simps [simp]: "clear {} f = f" "clear X (clear Y f) = clear (X \<union> Y) f"
  by (auto simp: clear_def fun_eq_iff)

lemma clear_at: "clear X f x = (if x \<in> X then None else f x)"
  by (simp add: clear_def)

lemma clear_upd: "f(x := None) = clear {x} f"
  by (auto simp: clear_def fun_eq_iff)

lemma triple_unlink_all:
  assumes "plan_ok P" and "distinct xs" and "\<forall>x \<in> set xs. f x \<noteq> None"
    and "\<And>X s. X \<subseteq> set xs \<Longrightarrow> looks P s0 n (clear X f) s \<Longrightarrow> C s"
  shows "triple (looks P s0 n f) (io_iter io_unlink (map (place P) xs)) (\<lambda>_. looks P s0 n (clear (set xs) f)) C"
  using assms(2-4)
proof (induction xs arbitrary: f)
  case Nil
  then show ?case by (auto intro: triple_return)
next
  case (Cons x xs)
  have "triple (looks P s0 n f) (io_unlink (place P x)) (\<lambda>_. looks P s0 n (f(x := None))) C"
    using Cons.prems(2) Cons.prems(3) [of "{}"] Cons.prems(3) [of "{x}"]
    by (intro triple_unlink [OF assms(1)]) (auto simp only: clear_upd clear_simps list.set)
  moreover have "triple (looks P s0 n (clear {x} f)) (io_iter io_unlink (map (place P) xs)) (\<lambda>_. looks P s0 n (clear (set xs) (clear {x} f))) C"
  proof (rule Cons.IH)
    fix X s assume "X \<subseteq> set xs" "looks P s0 n (clear X (clear {x} f)) s"
    then show "C s"
      using Cons.prems(3) [of "X \<union> {x}" s] by auto
  qed (use Cons.prems in \<open>auto simp: clear_at\<close>)
  ultimately show ?case
    unfolding clear_upd list.map io_iter.simps clear_simps list.set Un_insert_right Un_empty_right by (rule triple_bind)
qed

lemma clear_absent: "clear (set (filter (\<lambda>x. f x \<noteq> None) xs)) f = clear (set xs) f"
  by (auto simp: fun_eq_iff clear_at simp del: not_None_eq not_Some_eq)

lemma under_way_clear: "under_way P ids f \<Longrightarrow> Journal \<notin> X \<Longrightarrow> under_way P ids (clear X f)"
  by (auto simp: under_way_def side_ok_def clear_at)

section \<open>The survey\<close>

definition found :: "look \<Rightarrow> slot list \<Rightarrow> slot list" where
  "found f = filter (\<lambda>x. f x \<noteq> None)"

lemma survey_side:
  assumes "plan_ok P" and "looks P s0 n f s" and "side_ok P ids f k"
  shows "survey_entry (pb_env P) s sv (entry_of P k (ids k)) = Ok
    \<lparr>sv_targets = sv_targets sv @ map (place P) (found f [Target k]), sv_temporaries = sv_temporaries sv @ map (place P) (found f [Staging k]),
     sv_present = sv_present sv + length (found f [Target k])\<rparr>"
proof -
  let ?e = "pb_env P" and ?en = "entry_of P k (ids k)"
  have own: "owned ?e ?en s (place P x)" if "f x = staged P ids k" "f x \<noteq> None" for x
    using owned_staged [of P ids k _ s "place P x"] that looks_view [OF assms(2), of x] by auto
  have ne: "place P (Target k) \<noteq> place P (Staging k)"
    using assms(1) by (simp del: place.simps)
  have t: "survey_candidate ?e s ?en (place P (Target k)) (place P (Staging k)) (place P (Target k)) sv =
      Ok (sv\<lparr>sv_targets := sv_targets sv @ map (place P) (found f [Target k])\<rparr>)" for sv
    using assms(3) own [of "Target k"] ne looks_exists [OF assms(2), of "Target k"]
    by (auto simp: survey_candidate_def found_def side_ok_def simp del: place.simps)
  have m: "survey_candidate ?e s ?en (place P (Target k)) (place P (Staging k)) (place P (Staging k)) sv =
      Ok (sv\<lparr>sv_temporaries := sv_temporaries sv @ map (place P) (found f [Staging k])\<rparr>)" for sv
    using assms(3) own [of "Staging k"] ne looks_exists [OF assms(2), of "Staging k"]
    by (cases "ids k") (auto simp: survey_candidate_def found_def side_ok_def simp del: place.simps)
  show ?thesis
    unfolding survey_entry_def entry_fields place_inside [OF assms(1)] bindR_Inr t m
    using looks_exists [OF assms(2), of "Target k"] by (cases sv) (simp add: found_def del: place.simps)
qed

lemma survey_under_way:
  assumes "plan_ok P" and "looks P s0 n f s" and "under_way P ids f"
  shows "survey_all (pb_env P) (entries_of P ids) s = Ok
    \<lparr>sv_targets = map (place P) (found f [Target First, Target Second]), sv_temporaries = map (place P) (found f [Staging First, Staging Second]),
     sv_present = length (found f [Target First, Target Second])\<rparr>"
proof -
  have "side_ok P ids f k" for k
    using assms(3) by (simp add: under_way_def)
  note s = survey_side [OF assms(1,2) this]
  show ?thesis
    by (simp add: survey_all_def entries_of_def s del: place.simps) (simp add: found_def)
qed

section \<open>Recovering\<close>

definition both :: "look \<Rightarrow> bool" where
  "both f \<longleftrightarrow> (\<forall>k. f (Target k) \<noteq> None)"

lemma all_sides: "(\<forall>k. R k) \<longleftrightarrow> R First \<and> R Second"
  by (metis side.exhaust)

lemma found_both: "length (found f [Target First, Target Second]) = 2 \<longleftrightarrow> both f"
  by (simp add: found_def both_def all_sides)

lemma recover_tail:
  assumes "plan_ok P" and "under_way P ids f" and "both f \<or> (\<forall>k. f (Target k) = None)"
  shows "triple (looks P s0 n f)
     (io_bind (io_iter io_unlink (map (place P) (found f [Staging First, Staging Second]))) (\<lambda>_. io_unlink (place P Journal)))
     (\<lambda>_ s. \<exists>g. looks P s0 n g s \<and> (if both f then delivered P g else nothing_there g)) (safe P s0)"
proof (rule triple_bind)
  let ?M = "set [Staging First, Staging Second]"
  have clear: "clear (set (found f [Staging First, Staging Second])) f = clear ?M f"
    unfolding found_def by (rule clear_absent)
  have uw: "under_way P ids (clear X f)" if "X \<subseteq> ?M" for X
    using that by (intro under_way_clear [OF assms(2)]) auto
  show "triple (looks P s0 n f) (io_iter io_unlink (map (place P) (found f [Staging First, Staging Second])))
      (\<lambda>_. looks P s0 n (clear ?M f)) (safe P s0)"
    unfolding clear [symmetric]
  proof (rule triple_unlink_all [OF assms(1)])
    fix X s assume "X \<subseteq> set (found f [Staging First, Staging Second])" "looks P s0 n (clear X f) s"
    then show "safe P s0 s"
      using uw [of X] by (intro under_way_safe [of P s0 n "clear X f" s ids]) (auto simp: found_def split: if_splits)
  qed (simp_all add: found_def)
  let ?g = "(clear ?M f)(Journal := None)"
  have g: "if both f then delivered P ?g else nothing_there ?g"
    using assms(2,3) unfolding delivered_def nothing_there_def both_def under_way_def side_ok_def staged_def
    by (auto simp: all_sides clear_at)
  have "triple (looks P s0 n (clear ?M f)) (io_unlink (place P Journal)) (\<lambda>_. looks P s0 n ?g) (safe P s0)"
  proof (rule triple_unlink [OF assms(1)])
    show "safe P s0 s" if "looks P s0 n (clear ?M f) s" for s
      using that uw by (intro under_way_safe) auto
    show "safe P s0 s" if "looks P s0 n ?g s" for s
      using that g unfolding safe_def by (auto split: if_splits)
  qed (use assms(2) in \<open>auto simp: under_way_def clear_at\<close>)
  then show "triple (looks P s0 n (clear ?M f)) (io_unlink (place P Journal))
      (\<lambda>_ s. \<exists>g. looks P s0 n g s \<and> (if both f then delivered P g else nothing_there g)) (safe P s0)"
    by (rule triple_weaken) (use g in auto)
qed

text \<open>With its journal readable, recovery always succeeds.\<close>

definition settled :: "publication \<Rightarrow> fs \<Rightarrow> fs \<Rightarrow> bool" where
  "settled P s0 s \<longleftrightarrow> (\<exists>n f. looks P s0 n f s \<and> (delivered P f \<or> nothing_there f))"

lemma recover_present:
  assumes "exists_at s (transaction_path (ev_root e))"
  shows "recover_pair e s =
    io_bind (io_get (load_transaction e)) (\<lambda>ens.
    io_bind (io_get (survey_all e ens)) (\<lambda>sv.
    io_bind (if sv_present sv = 2 then io_return () else io_iter io_unlink (sv_targets sv)) (\<lambda>_.
    io_bind (io_iter io_unlink (sv_temporaries sv)) (\<lambda>_.
      io_unlink (transaction_path (ev_root e)))))) s"
  using assms by (simp add: recover_pair_def)

lemma triple_cong: "(\<And>s. P s \<Longrightarrow> m s = m' s) \<Longrightarrow> triple P m' Q C \<Longrightarrow> triple P m Q C"
  by (simp add: triple_def result_of_def final_of_def crash_states_def)

lemma recover_under_way:
  assumes P: "plan_ok P" and f: "under_way P ids f"
  shows "triple (looks P s0 n f) (recover_pair (pb_env P))
    (\<lambda>_ s. \<exists>g. looks P s0 n g s \<and> (if both f then delivered P g else nothing_there g)) (safe P s0)"
proof (rule triple_cong, rule recover_present)
  show "exists_at s (transaction_path (ev_root (pb_env P)))" if "looks P s0 n f s" for s
    using that f looks_exists [of P s0 n f s Journal] by (auto simp: under_way_def)
  let ?Q = "\<lambda>_ s. \<exists>g. looks P s0 n g s \<and> (if both f then delivered P g else nothing_there g)"
  let ?sv = "\<lparr>sv_targets = map (place P) (found f [Target First, Target Second]), sv_temporaries = map (place P) (found f [Staging First, Staging Second]),
     sv_present = length (found f [Target First, Target Second])\<rparr>"
  have main: "triple (looks P s0 n f)
     (io_bind (if both f then io_return () else io_iter io_unlink (sv_targets ?sv)) (\<lambda>_.
      io_bind (io_iter io_unlink (sv_temporaries ?sv)) (\<lambda>_. io_unlink (place P Journal)))) ?Q (safe P s0)"
  proof (cases "both f")
    case True
    have "triple (looks P s0 n f) (io_return ()) (\<lambda>_. looks P s0 n f) (safe P s0)"
      using under_way_safe [OF _ f] by (intro triple_return) blast
    then show ?thesis
      using recover_tail [OF P f, of s0 n] True by auto
  next
    case False
    let ?T = "set [Target First, Target Second]"
    have g: "under_way P ids (clear X f)" if "X \<subseteq> ?T" for X
      using that by (intro under_way_clear [OF f]) auto
    have clear: "clear (set (found f [Target First, Target Second])) f = clear ?T f"
      unfolding found_def by (rule clear_absent)
    have "triple (looks P s0 n f) (io_iter io_unlink (map (place P) (found f [Target First, Target Second]))) (\<lambda>_. looks P s0 n (clear ?T f)) (safe P s0)"
      unfolding clear [symmetric]
    proof (rule triple_unlink_all [OF P])
      fix X s assume "X \<subseteq> set (found f [Target First, Target Second])" "looks P s0 n (clear X f) s"
      then show "safe P s0 s"
        using g [of X] by (intro under_way_safe [of P s0 n "clear X f" s ids]) (auto simp: found_def split: if_splits)
    qed (simp_all add: found_def)
    moreover have "found (clear ?T f) [Staging First, Staging Second] = found f [Staging First, Staging Second]"
      by (simp add: found_def clear_at)
    moreover have "\<forall>k. clear ?T f (Target k) = None"
      by (simp add: all_sides clear_at)
    moreover have "\<not> both (clear ?T f)"
      by (simp add: both_def all_sides clear_at)
    ultimately show ?thesis
      using recover_tail [OF P g [OF subset_refl], of s0 n] False by auto
  qed
  then show "triple (looks P s0 n f)
    (io_bind (io_get (load_transaction (pb_env P))) (\<lambda>ens.
     io_bind (io_get (survey_all (pb_env P) ens)) (\<lambda>sv.
     io_bind (if sv_present sv = 2 then io_return () else io_iter io_unlink (sv_targets sv)) (\<lambda>_.
     io_bind (io_iter io_unlink (sv_temporaries sv)) (\<lambda>_.
       io_unlink (transaction_path (ev_root (pb_env P)))))))) ?Q (safe P s0)"
    unfolding journal_place
    by (intro triple_load [OF P f] triple_read [OF survey_under_way [OF P _ f, unfolded entries_of_def]])
      (simp_all add: found_both del: place.simps)
qed

section \<open>The whole publication, and recovery from anywhere\<close>

lemma publish_delivers:
  assumes P: "plan_ok P" "clean_start P s0"
  shows "triple (\<lambda>s. s = s0) (publish P) (\<lambda>_ s. \<exists>n g. looks P s0 n g s \<and> delivered P g) (safe P s0)"
proof -
  let ?e = "pb_env P" and ?none = "\<lambda>_. None :: nat option" and ?no = "\<lambda>_. False"
  let ?Q = "\<lambda>_ s. \<exists>n i j. stage P s0 n (?none(First \<mapsto> i, Second \<mapsto> j)) (?no(First := True, Second := True)) s"
  have inst1: "triple (stage P s0 8 ids (?no(First := True))) (install_entry ?e 1) ?Q (safe P s0)"
    if "ids = ?none(First \<mapsto> i, Second \<mapsto> j)" for ids i j
    by (rule triple_weaken, rule install_stage [OF P(1), of ids Second j, unfolded turn.simps of_nat_1]) (use that in auto)
  have inst0: "triple (stage P s0 7 ids ?no) (install_entry ?e 0) (\<lambda>_. stage P s0 8 ids (?no(First := True))) (safe P s0)"
    if "ids = ?none(First \<mapsto> i, Second \<mapsto> j)" for ids i j
    using install_stage [OF P(1), of ids First i ?no s0 7] that by simp
  have prep1: "triple (stage P s0 4 (?none(First \<mapsto> i)) ?no) (prepare_entry ?e 1 (pb_payload P Second) (ev_nonce ?e 3))
      (\<lambda>_ s. \<exists>j. stage P s0 7 (?none(First \<mapsto> i, Second \<mapsto> j)) ?no s) (safe P s0)" for i
    using prepare_stage [OF P, of "?none(First \<mapsto> i)" Second ?no 4] by (simp add: numeral_3_eq_3)
  have prep0: "triple (stage P s0 1 ?none ?no) (prepare_entry ?e 0 (pb_payload P First) (ev_nonce ?e 2))
      (\<lambda>_ s. \<exists>i. stage P s0 4 (?none(First \<mapsto> i)) ?no s) (safe P s0)"
    using prepare_stage [OF P, of ?none First ?no 1] by (simp add: numeral_2_eq_2)
  have body: "triple (stage P s0 1 ?none ?no)
     (io_bind (prepare_entry ?e 0 (pb_payload P First) (ev_nonce ?e 2)) (\<lambda>_.
      io_bind (prepare_entry ?e 1 (pb_payload P Second) (ev_nonce ?e 3)) (\<lambda>_.
      io_bind (install_entry ?e 0) (\<lambda>_. install_entry ?e 1)))) ?Q (safe P s0)"
    by (rule triple_bind [OF prep0], rule triple_exists, rule triple_bind [OF prep1], rule triple_exists,
        rule triple_bind [OF inst0 [OF refl]], rule inst1 [OF refl])
  have full: "under_way P ids f \<and> both f" if "shape P ids (?no(First := True, Second := True)) f" "ids = ?none(First \<mapsto> i, Second \<mapsto> j)" for ids f i j
    using shape_under_way [OF that(1)] that by (auto simp: shape_def both_def all_sides staged_def)
  have rec: "triple (?Q ()) (recover_pair ?e) (\<lambda>_ s. \<exists>n g. looks P s0 n g s \<and> delivered P g) (safe P s0)"
  proof (intro triple_exists triple_stage)
    fix n i j f assume "shape P (?none(First \<mapsto> i, Second \<mapsto> j)) (?no(First := True, Second := True)) f"
    from full [OF this refl] show "triple (looks P s0 n f) (recover_pair ?e) (\<lambda>_ s. \<exists>n g. looks P s0 n g s \<and> delivered P g) (safe P s0)"
      by (intro triple_weaken [OF recover_under_way [OF P(1), of "?none(First \<mapsto> i, Second \<mapsto> j)" f]]) auto
  qed
  show ?thesis
    unfolding publish_def publish_pair_def snd_conv
    by (rule triple_bind [OF begin_stage [OF P]], rule triple_bind, rule triple_on_error, rule body, rule rec)
qed

definition stuck_torn :: "publication \<Rightarrow> fs \<Rightarrow> fs \<Rightarrow> bool" where
  "stuck_torn P s0 s \<longleftrightarrow> (\<exists>n f. looks P s0 n f s \<and> torn_journal P f)"

definition starts_well :: "publication \<Rightarrow> fs \<Rightarrow> bool" where
  "starts_well P s0 \<longleftrightarrow> plan_ok P \<and> clean_start P s0"

lemma recover_without_journal:
  assumes "looks P s0 n f s" and "f Journal = None"
  shows "recover_pair (pb_env P) s = (Ok (), [], s)"
  using looks_exists [OF assms(1), of Journal] assms(2) by (simp add: recover_pair_def io_return_def)

lemma recover_torn:
  assumes "plan_ok P" and "looks P s0 n f s" and "torn_journal P f"
  shows "\<exists>err. recover_pair (pb_env P) s = (Raise err, [], s)"
proof -
  obtain err where "load_transaction (pb_env P) s = Raise err"
    using load_torn_journal [OF assms] by blast
  moreover have "exists_at s (transaction_path (ev_root (pb_env P)))"
    using looks_exists [OF assms(2), of Journal] assms(3) by (auto simp: torn_journal_def)
  ultimately show ?thesis
    by (simp add: recover_present) (simp add: io_bind_def io_get_def)
qed

lemma safe_cases:
  assumes "safe P s0 s"
  obtains (Settled) n f where "looks P s0 n f s" "delivered P f \<or> nothing_there f"
    | (Torn) "stuck_torn P s0 s"
    | (Journaled) n f ids where "looks P s0 n f s" "under_way P ids f"
  using assms unfolding safe_def stuck_torn_def by blast

text \<open>The publication is an instance of a crash-safe protocol.\<close>

interpretation pair: crash_protocol starts_well publish "\<lambda>P. recover_pair (pb_env P)" safe stuck_torn settled
proof
  fix P s0 c assume "starts_well P s0" "c \<in> crash_states (publish P) s0"
  then show "safe P s0 c"
    using publish_delivers [of P s0] by (auto simp: starts_well_def triple_def)
next
  fix P s0 s c assume P: "starts_well P s0" and s: "safe P s0 s" and c: "c \<in> crash_states (recover_pair (pb_env P)) s"
  from s show "safe P s0 c"
  proof (cases rule: safe_cases)
    case (Settled n f)
    then have "recover_pair (pb_env P) s = (Ok (), [], s)"
      using recover_without_journal [OF Settled(1)] by (auto simp: delivered_def nothing_there_def)
    then show ?thesis using c s by (simp add: crash_states_def)
  next
    case Torn
    then obtain err where "recover_pair (pb_env P) s = (Raise err, [], s)"
      using P recover_torn unfolding starts_well_def stuck_torn_def by blast
    then show ?thesis using c s by (simp add: crash_states_def)
  next
    case (Journaled n f ids)
    then show ?thesis
      using recover_under_way [of P ids f s0 n] P c unfolding starts_well_def triple_def by blast
  qed
next
  fix P s0 s assume P: "starts_well P s0" and s: "safe P s0 s" "\<not> stuck_torn P s0 s"
  from s(1) show "result_of (recover_pair (pb_env P)) s = Ok () \<and> settled P s0 (final_of (recover_pair (pb_env P)) s)"
  proof (cases rule: safe_cases)
    case (Settled n f)
    then have "recover_pair (pb_env P) s = (Ok (), [], s)"
      using recover_without_journal [OF Settled(1)] by (auto simp: delivered_def nothing_there_def)
    then show ?thesis
      using Settled by (auto simp: result_of_def final_of_def settled_def)
  next
    case Torn
    with s show ?thesis by blast
  next
    case (Journaled n f ids)
    then have "\<exists>x. result_of (recover_pair (pb_env P)) s = Ok x \<and>
        (\<exists>g. looks P s0 n g (final_of (recover_pair (pb_env P)) s) \<and> (if both f then delivered P g else nothing_there g))"
      using recover_under_way [of P ids f s0 n] P unfolding starts_well_def triple_def by blast
    then show ?thesis
      unfolding settled_def by (auto split: if_splits)
  qed
next
  fix P s0 s assume "starts_well P s0" "stuck_torn P s0 s"
  then obtain err where "recover_pair (pb_env P) s = (Raise err, [], s)"
    using recover_torn unfolding starts_well_def stuck_torn_def by blast
  then show "(\<exists>e. result_of (recover_pair (pb_env P)) s = Raise e) \<and> crash_states (recover_pair (pb_env P)) s = {s}"
    by (simp add: result_of_def crash_states_def)
qed

section \<open>Completed runs are among the crash states\<close>

lemma lands_begin: "lands (begin_pair e targets)"
  unfolding begin_pair_def by (auto intro!: lands_rules split: list.split)

lemma lands_write_transaction: "lands (write_transaction e token ens)"
  unfolding write_transaction_def Let_def by (intro lands_rules)

lemma lands_recover: "lands (recover_pair e)"
proof (rule landsI)
  fix s r tr s' assume run: "recover_pair e s = (r, tr, s')"
  let ?m = "io_bind (io_get (load_transaction e)) (\<lambda>ens.
    io_bind (io_get (survey_all e ens)) (\<lambda>sv.
    io_bind (if sv_present sv = 2 then io_return () else io_iter io_unlink (sv_targets sv)) (\<lambda>_.
    io_bind (io_iter io_unlink (sv_temporaries sv)) (\<lambda>_.
      io_unlink (transaction_path (ev_root e))))))"
  have "lands (if b then io_return () else io_iter io_unlink xs)" for b xs
    by (auto intro: lands_rules)
  then have "lands ?m"
    by (intro lands_rules)
  then show "s' = s \<or> s' \<in> set tr"
    using run landsD [of ?m s r tr s'] by (auto simp: recover_pair_def io_return_def split: if_splits)
qed

lemma lands_publish: "lands (publish P)"
  unfolding publish_def publish_pair_def prepare_entry_def install_entry_def abort_pair_def
  by (intro lands_rules lands_begin lands_write_transaction lands_recover)

section \<open>What recovery may remove\<close>

text \<open>The journal, a file it can prove its own, or a staging file whose identity was not yet journaled.\<close>

definition removable :: "env \<Rightarrow> pair_entry list \<Rightarrow> fs \<Rightarrow> path \<Rightarrow> bool" where
  "removable e ens s p \<longleftrightarrow>
     p = transaction_path (ev_root e) \<or>
     (\<exists>en \<in> set ens. owned e en s p \<or> (pe_identity en = None \<and> inside e (pe_temp en) = Ok p))"

definition survey_inv :: "env \<Rightarrow> pair_entry list \<Rightarrow> fs \<Rightarrow> survey \<Rightarrow> bool" where
  "survey_inv e ens s sv \<longleftrightarrow> (\<forall>p \<in> set (sv_targets sv @ sv_temporaries sv). removable e ens s p)"

lemma survey_candidate_inv:
  assumes "survey_candidate e s en target temporary c sv = Ok sv'" and "survey_inv e ens s sv" and "en \<in> set ens"
    and "inside e (pe_temp en) = Ok temporary"
  shows "survey_inv e ens s sv'"
proof -
  have "sv' = sv \<or> removable e ens s c"
    using assms(1,3,4) by (auto simp: survey_candidate_def removable_def split: if_splits)
  moreover have "set (sv_targets sv' @ sv_temporaries sv') \<subseteq> insert c (set (sv_targets sv @ sv_temporaries sv))"
    using assms(1) by (auto simp: survey_candidate_def split: if_splits)
  ultimately show ?thesis
    using assms(2) unfolding survey_inv_def by blast
qed

lemma survey_all_inv:
  assumes "survey_all e ens s = Ok sv"
  shows "survey_inv e ens s sv"
proof -
  have step: "survey_inv e ens s sv'" if "survey_entry e s sv en = Ok sv'" "survey_inv e ens s sv" "en \<in> set ens" for en sv sv'
  proof -
    note entry = that
    obtain target temporary sv1 sv2 where
      t: "inside e (pe_temp en) = Ok temporary" and
      s1: "survey_candidate e s en target temporary target sv = Ok sv1" and
      s2: "survey_candidate e s en target temporary temporary sv1 = Ok sv2" and
      r: "Ok (if exists_at s target then sv2\<lparr>sv_present := Suc (sv_present sv2)\<rparr> else sv2) = (Ok sv' :: survey result)"
      using entry(1) unfolding survey_entry_def by (elim bindR_Inr_elim)
    have "survey_inv e ens s sv2"
      using survey_candidate_inv [OF s2 survey_candidate_inv [OF s1 that(2,3) t] that(3) t] .
    then show ?thesis
      using r by (auto simp: survey_inv_def split: if_splits)
  qed
  have "survey_inv e ens s sv'" if "foldR (survey_entry e s) sv xs = Ok sv'" "survey_inv e ens s sv" "set xs \<subseteq> set ens" for xs sv sv'
    using that by (induction xs arbitrary: sv) (auto simp: bindR_eq_Inr intro: step)
  then show ?thesis
    using assms by (auto simp: survey_all_def survey_inv_def)
qed

lemma recover_removes:
  assumes "load_transaction e s = Ok ens" and "c \<in> crash_states (recover_pair e) s"
  shows "view c p = view s p \<or> (removable e ens s p \<and> view c p = None)"
proof (cases "exists_at s (transaction_path (ev_root e))")
  case False
  then show ?thesis using assms(2) by (simp add: recover_pair_def io_return_def crash_states_def)
next
  case True
  let ?tail = "\<lambda>sv. io_bind (if sv_present sv = 2 then io_return () else io_iter io_unlink (sv_targets sv)) (\<lambda>_.
    io_bind (io_iter io_unlink (sv_temporaries sv)) (\<lambda>_. io_unlink (transaction_path (ev_root e))))"
  have run: "recover_pair e s = io_bind (io_get (survey_all e ens)) ?tail s"
    unfolding recover_present [OF True] by (simp add: io_bind_def io_get_def assms(1) split: prod.split)
  show ?thesis
  proof (cases "survey_all e ens s")
    case (Inl err)
    then show ?thesis
      using assms(2) by (simp add: crash_states_def run) (simp add: io_bind_def io_get_def)
  next
    case (Inr sv)
    have inv: "survey_inv e ens s sv"
      by (rule survey_all_inv [OF Inr])
    have "recover_pair e s = ?tail sv s"
      unfolding run by (simp add: io_bind_def [of "io_get _"] io_get_def Inr split: prod.split)
    then have c: "c \<in> crash_states (?tail sv) s"
      using assms(2) by (simp only: crash_states_def)
    have first: "only_removes (removable e ens s) (if sv_present sv = 2 then io_return () else io_iter io_unlink (sv_targets sv))"
      using inv by (auto simp: survey_inv_def intro: only_removes_return only_removes_iter)
    have "only_removes (removable e ens s) (?tail sv)"
      using inv by (intro only_removes_bind first only_removes_iter only_removes_unlink) (auto simp: survey_inv_def removable_def)
    from bspec [OF spec [OF this [unfolded only_removes_def], of s], of c] c show ?thesis
      by blast
  qed
qed

end
