(* ===== verification/PairProps.thy ===== *)
theory PairProps
  imports PairRecovery
begin

text \<open>
  The properties of the outcome taint and of the paired publication, with a sample publication on which
  they are applied.
\<close>

section \<open>What an observer sees\<close>

definition published :: "publication \<Rightarrow> fs \<Rightarrow> bool" where
  "published P s \<longleftrightarrow> (\<forall>k. content s (pair_target P k) = Some (pb_payload P k))"

definition unpublished :: "publication \<Rightarrow> fs \<Rightarrow> bool" where
  "unpublished P s \<longleftrightarrow> (\<forall>k. \<not> exists_at s (pair_target P k))"

definition tidy :: "publication \<Rightarrow> fs \<Rightarrow> bool" where
  "tidy P s \<longleftrightarrow> \<not> exists_at s (transaction_path (ev_root (pb_env P))) \<and> (\<forall>k. \<not> exists_at s (place P (Staging k)))"

definition rest_kept :: "publication \<Rightarrow> fs \<Rightarrow> fs \<Rightarrow> bool" where
  "rest_kept P s0 s \<longleftrightarrow> (\<forall>q. q \<notin> range (place P) \<longrightarrow> inode_of s q = inode_of s0 q \<and> content s q = content s0 q)"

lemma looks_rest: "looks P s0 n f s \<Longrightarrow> rest_kept P s0 s"
  by (simp add: looks_def rest_kept_def inode_view content_view)

lemma looks_content: "looks P s0 n f s \<Longrightarrow> content s (place P x) = map_option snd (f x)"
  by (simp add: content_view looks_view)

lemma delivered_seen: "looks P s0 n f s \<Longrightarrow> delivered P f \<Longrightarrow> published P s \<and> tidy P s"
  using looks_content [of P s0 n f s "Target _"] looks_exists [of P s0 n f s "Staging _"] looks_exists [of P s0 n f s Journal]
  by (fastforce simp: delivered_def published_def tidy_def simp del: place.simps(3))

lemma nothing_seen: "looks P s0 n f s \<Longrightarrow> nothing_there f \<Longrightarrow> unpublished P s \<and> tidy P s"
  using looks_exists [of P s0 n f s "Target _"] looks_exists [of P s0 n f s "Staging _"] looks_exists [of P s0 n f s Journal]
  by (simp add: nothing_there_def unpublished_def tidy_def del: place.simps(3))

lemma settled_seen: "settled P s0 s \<Longrightarrow> (published P s \<or> unpublished P s) \<and> tidy P s \<and> rest_kept P s0 s"
  unfolding settled_def using delivered_seen nothing_seen looks_rest by blast

lemma torn_seen:
  assumes "stuck_torn P s0 s"
  shows "unpublished P s \<and> rest_kept P s0 s"
    and "\<exists>t u. u \<noteq> [] \<and> content s (transaction_path (ev_root (pb_env P))) = Some t \<and> t @ u = journal_of P (\<lambda>_. None)"
proof -
  obtain n f where f: "looks P s0 n f s" "torn_journal P f"
    using assms unfolding stuck_torn_def by blast
  show "unpublished P s \<and> rest_kept P s0 s"
    using f looks_exists [OF f(1), of "Target _"] looks_rest by (auto simp: torn_journal_def unpublished_def)
  obtain i t where t: "f Journal = Some (i, t)" "cut t (journal_of P (\<lambda>_. None) @ [CHR 0x0A])" "t \<noteq> journal_of P (\<lambda>_. None)"
    using f(2) by (auto simp: torn_journal_def)
  then have "cut t (journal_of P (\<lambda>_. None))"
    by (auto simp: cut_append)
  then show "\<exists>t u. u \<noteq> [] \<and> content s (transaction_path (ev_root (pb_env P))) = Some t \<and> t @ u = journal_of P (\<lambda>_. None)"
    using looks_content [OF f(1), of Journal] t(1) unfolding cut_def by fastforce
qed

lemma journal_not_Nil: "journal_of P ids \<noteq> []"
  by (simp add: journal_of_def journal_body_def journal_value_def)

section \<open>A sample publication\<close>

definition sample_fresh :: "(path \<times> nat) list \<Rightarrow> nat" where
  "sample_fresh names = hd (filter (\<lambda>n. n \<notin> snd ` set names) [0..<Suc (length names)])"

lemma sample_fresh: "sample_fresh names \<notin> snd ` set names" "sample_fresh names \<le> length names"
proof -
  have "\<exists>n \<in> {..length names}. n \<notin> snd ` set names"
  proof (rule ccontr)
    assume "\<not> ?thesis"
    then have "card {..length names} \<le> card (snd ` set names)"
      by (intro card_mono) auto
    also have "\<dots> \<le> length names"
      by (metis card_image_le card_length finite_set le_trans)
    finally show False by simp
  qed
  then obtain n where "n \<in> set (filter (\<lambda>n. n \<notin> snd ` set names) [0..<Suc (length names)])"
    by (auto simp: less_Suc_eq_le simp del: upt_Suc)
  then have "filter (\<lambda>n. n \<notin> snd ` set names) [0..<Suc (length names)] \<noteq> []"
    by (metis empty_iff list.set(1))
  then have "sample_fresh names \<in> set (filter (\<lambda>n. n \<notin> snd ` set names) [0..<Suc (length names)])"
    unfolding sample_fresh_def by (rule hd_in_set)
  then show "sample_fresh names \<notin> snd ` set names" "sample_fresh names \<le> length names"
    unfolding set_filter by (simp_all add: less_Suc_eq_le del: upt_Suc)
qed

definition sample_env :: env where
  "sample_env = \<lparr>ev_root = [''run''], ev_key = ''key'', ev_device = 1, ev_fresh = sample_fresh,
     ev_nonce = nth [''a'', ''b'', ''c'', ''d'']\<rparr>"

definition sample_publication :: publication where
  "sample_publication = \<lparr>pb_env = sample_env,
     pb_rel = (\<lambda>k. case k of First \<Rightarrow> [''receipt.json''] | Second \<Rightarrow> [''analysis.json'']),
     pb_payload = (\<lambda>k. case k of First \<Rightarrow> ''receipt'' | Second \<Rightarrow> ''analysis'')\<rparr>"

definition sample_fs :: fs where
  "sample_fs = \<lparr>fs_names = [([''run'', ''sources'', ''ledger.json''], 0)], fs_data = [(0, ''{}'')]\<rparr>"

lemmas sample_names = sample_publication_def sample_env_def pair_target_def staging_rel_def staging_name_def transaction_path_def
  temporary_name_def file_name_def as_posix_def join_def

lemma sample_place: "place sample_publication x =
  (case x of Journal \<Rightarrow> [''run'', ''operational'', ''task6'', ''paired-publication.json'']
   | Target First \<Rightarrow> [''run'', ''receipt.json''] | Target Second \<Rightarrow> [''run'', ''analysis.json'']
   | Staging First \<Rightarrow> [''run'', ''.receipt.json.'' @ hmac_sha256_hex ''key'' ''receipt.jsona'' @ ''.task6-pair.tmp'']
   | Staging Second \<Rightarrow> [''run'', ''.analysis.json.'' @ hmac_sha256_hex ''key'' ''analysis.jsonb'' @ ''.task6-pair.tmp'']
   | Draft First \<Rightarrow> [''run'', ''operational'', ''task6'', ''.paired-publication.json.c.tmp'']
   | Draft Second \<Rightarrow> [''run'', ''operational'', ''task6'', ''.paired-publication.json.d.tmp''])"
proof (cases x)
  case (Target k)
  then show ?thesis by (cases k) (simp_all add: sample_names)
next
  case (Staging k)
  then show ?thesis by (cases k) (simp_all add: sample_names)
next
  case (Draft k)
  then show ?thesis by (cases k) (simp_all add: sample_names)
qed (simp add: sample_names)

lemma sample_plan: "plan_ok sample_publication"
proof -
  have "inj (place sample_publication)"
    by (rule injI) (simp add: sample_place split: slot.splits side.splits)
  moreover have "pb_rel sample_publication k \<noteq> [] \<and> list_all good_name (pb_rel sample_publication k) \<and>
      int (length (pb_payload sample_publication k)) < 2 ^ 64" for k
    by (cases k) (simp_all add: sample_publication_def good_name_def)
  ultimately show ?thesis
    using sample_fresh by (simp add: plan_ok_def sample_publication_def sample_env_def u64_def)
qed

lemma sample_clean: "clean_start sample_publication sample_fs"
proof -
  have "int (sample_fresh names) < 2 ^ 64" if "length names \<le> length (fs_names sample_fs) + 8" for names
    using sample_fresh(2) [of names] that by (simp add: sample_fs_def)
  moreover have "\<not> exists_at sample_fs (place sample_publication x)" for x
    by (simp add: sample_place sample_fs_def exists_at_def inode_of_def split: slot.split side.split)
  ultimately show ?thesis
    by (simp add: clean_start_def sample_publication_def sample_env_def)
qed

section \<open>Two crashes of the beginning\<close>

lemma run_read: "f s = Ok x \<Longrightarrow> io_bind (io_get f) g s = g x s"
  by (simp add: io_bind_def io_get_def split: prod.split)

lemma run_assert: "c s \<Longrightarrow> io_bind (io_check c e) (\<lambda>_. m) s = m s"
  unfolding io_check_def by (simp add: run_read)

lemma publish_begins:
  "c \<in> crash_states (begin_pair (pb_env P) [(pair_target P First, pb_payload P First), (pair_target P Second, pb_payload P Second)]) s0 \<Longrightarrow>
   c \<in> crash_states (publish P) s0"
  unfolding publish_def publish_pair_def by (rule crash_first)

lemma begin_torn:
  assumes "starts_well P s0"
  shows "\<exists>c \<in> crash_states (publish P) s0. stuck_torn P s0 c"
proof -
  have P: "plan_ok P" "clean_start P s0"
    using assms by (simp_all add: starts_well_def)
  let ?e = "pb_env P" and ?j = "transaction_path (ev_root (pb_env P))"
  have look: "looks P s0 0 (\<lambda>_. None) s0"
    by (rule clean_look [OF P(2)])
  have free: "\<not> exists_at s0 ?j"
    using looks_exists [OF look, of Journal] by simp
  then obtain s1 where s1: "io_create (ev_fresh ?e) ?j s0 = (Ok (ev_fresh ?e (fs_names s0)), [s1], s1)"
    "adds_file ?j (ev_fresh ?e (fs_names s0)) [] s0 s1"
    using create_write [of s0 ?j "ev_fresh ?e" "[]"] P(1) by (auto simp: plan_ok_def)
  have ne: "pair_target P First \<noteq> pair_target P Second"
    using place_eq [OF P(1), of "Target First" "Target Second"] by simp
  have entry: "new_entry ?e (turn k) (pair_target P k) (pb_payload P k) s0 = Ok (entry_of P k None)" for k
    using new_entry_plan [OF P(1) look] by simp
  have "begin_pair ?e [(pair_target P First, pb_payload P First), (pair_target P Second, pb_payload P Second)] s0 =
      io_bind (io_create (ev_fresh ?e) ?j) (\<lambda>i. io_bind (io_get (\<lambda>_. transaction_text (ev_key ?e) [entry_of P First None, entry_of P Second None]))
        (\<lambda>t. io_write i t)) s0"
    unfolding begin_pair_def list.case prod.case if_not_P [OF ne]
    using free entry [of First] entry [of Second] by (simp add: run_assert run_read)
  moreover have "s1 \<in> crash_states (io_create (ev_fresh ?e) ?j) s0"
    by (simp add: crash_states_def s1(1))
  ultimately have "s1 \<in> crash_states (publish P) s0"
    by (intro publish_begins) (simp only: crash_states_def crash_first [unfolded crash_states_def])
  moreover have "looks P s0 1 ((\<lambda>_. None)(Journal \<mapsto> (ev_fresh ?e (fs_names s0), []))) s1"
    using looks_adds [OF P(1) look, of Journal] s1(2) by simp
  moreover have "torn_journal P ((\<lambda>_. None)(Journal \<mapsto> (i, [])))" for i
    using journal_not_Nil [symmetric] by (simp add: torn_journal_def cut_def)
  ultimately show ?thesis
    unfolding stuck_torn_def by blast
qed

lemma begin_journaled:
  assumes "starts_well P s0"
  shows "\<exists>c \<in> crash_states (publish P) s0. stage P s0 1 (\<lambda>_. None) (\<lambda>_. False) c"
proof -
  let ?opening = "begin_pair (pb_env P) [(pair_target P First, pb_payload P First), (pair_target P Second, pb_payload P Second)]"
  have "stage P s0 1 (\<lambda>_. None) (\<lambda>_. False) (final_of ?opening s0)"
    using begin_stage [of P s0] assms by (auto simp: starts_well_def triple_def)
  moreover have "final_of ?opening s0 \<in> crash_states (publish P) s0"
    using lands_begin [unfolded lands_def] by (intro publish_begins) blast
  ultimately show ?thesis by blast
qed

lemma stage_not_torn:
  assumes "plan_ok P" and "stage P s0 n ids ins s"
  shows "\<not> stuck_torn P s0 s"
proof
  assume "stuck_torn P s0 s"
  then obtain m g where "looks P s0 m g s" "torn_journal P g"
    unfolding stuck_torn_def by blast
  moreover obtain f where "looks P s0 n f s" "shape P ids ins f"
    using assms(2) unfolding stage_def by blast
  ultimately show False
    using load_under_way [OF assms(1), of s0 n f s ids] load_torn_journal [OF assms(1), of s0 m g s] shape_under_way by force
qed

section \<open>Properties\<close>

text \<open>
  C12. Wherever a paired publication is cut off, and however often its recovery is cut off in turn, a
  recovery that returns leaves either both targets with their whole payloads or neither, no journal and no
  staging file, and every other file as it was.
\<close>

theorem publication_is_all_or_nothing:
  assumes "plan_ok P" and "clean_start P s0" and "reached (publish P) (recover_pair (pb_env P)) s0 s"
    and "result_of (recover_pair (pb_env P)) s = Ok ()"
  shows "(published P (final_of (recover_pair (pb_env P)) s) \<or> unpublished P (final_of (recover_pair (pb_env P)) s)) \<and>
    tidy P (final_of (recover_pair (pb_env P)) s) \<and> rest_kept P s0 (final_of (recover_pair (pb_env P)) s)"
proof -
  have P: "starts_well P s0"
    using assms(1,2) by (simp add: starts_well_def)
  have "\<not> stuck_torn P s0 s"
    using pair.recover_stuck [OF P] assms(4) by fastforce
  then show ?thesis
    using pair.reached_settles [OF P assms(3)] settled_seen by blast
qed

lemma sample_starts: "starts_well sample_publication sample_fs"
  using sample_plan sample_clean by (simp add: starts_well_def)

theorem publication_is_all_or_nothing_witness:
  "\<exists>s. reached (publish sample_publication) (recover_pair sample_env) sample_fs s \<and> exists_at s (transaction_path [''run'']) \<and>
     (published sample_publication (final_of (recover_pair sample_env) s) \<or> unpublished sample_publication (final_of (recover_pair sample_env) s)) \<and>
     tidy sample_publication (final_of (recover_pair sample_env) s)"
proof -
  let ?P = sample_publication
  have env: "pb_env ?P = sample_env" "ev_root sample_env = [''run'']"
    by (simp_all add: sample_publication_def sample_env_def)
  obtain s where s: "s \<in> crash_states (publish ?P) sample_fs" "stage ?P sample_fs 1 (\<lambda>_. None) (\<lambda>_. False) s"
    using begin_journaled [OF sample_starts] by blast
  have r: "reached (publish ?P) (recover_pair (pb_env ?P)) sample_fs s"
    using s(1) by (rule reached.crashed)
  have ok: "result_of (recover_pair (pb_env ?P)) s = Ok ()"
    using pair.reached_settles [OF sample_starts r stage_not_torn [OF sample_plan s(2)]] by blast
  have "exists_at s (place ?P Journal)"
    using s(2) looks_exists [of ?P sample_fs 1 _ s Journal] unfolding stage_def shape_def by fastforce
  then show ?thesis
    using publication_is_all_or_nothing [OF sample_plan sample_clean r ok] r by (auto simp: env)
qed

text \<open>
  C14. Recovery refuses to finish only while the first journal is a proper prefix of what was to be written:
  then no target is there, nothing else was touched, and no further attempt changes anything.
\<close>

theorem recovery_refuses_only_torn_journal:
  assumes "plan_ok P" and "clean_start P s0" and "reached (publish P) (recover_pair (pb_env P)) s0 s"
    and "result_of (recover_pair (pb_env P)) s = Raise err"
  shows "unpublished P s \<and> rest_kept P s0 s \<and>
    (\<exists>t u. u \<noteq> [] \<and> content s (transaction_path (ev_root (pb_env P))) = Some t \<and> t @ u = journal_of P (\<lambda>_. None)) \<and>
    (\<forall>c. reached (recover_pair (pb_env P)) (recover_pair (pb_env P)) s c \<longrightarrow> c = s)"
proof -
  have P: "starts_well P s0"
    using assms(1,2) by (simp add: starts_well_def)
  have "stuck_torn P s0 s"
    using pair.reached_settles [OF P assms(3)] assms(4) by force
  then show ?thesis
    using torn_seen pair.stuck_forever [OF P] by blast
qed

theorem recovery_refuses_only_torn_journal_witness:
  "\<exists>s. reached (publish sample_publication) (recover_pair (pb_env sample_publication)) sample_fs s \<and> unpublished sample_publication s"
proof -
  obtain s where s: "s \<in> crash_states (publish sample_publication) sample_fs" "stuck_torn sample_publication sample_fs s"
    using begin_torn [OF sample_starts] by blast
  then have r: "reached (publish sample_publication) (recover_pair (pb_env sample_publication)) sample_fs s"
    by (intro reached.crashed)
  obtain err where "result_of (recover_pair (pb_env sample_publication)) s = Raise err"
    using pair.recover_stuck [OF sample_starts s(2)] by blast
  from recovery_refuses_only_torn_journal [OF sample_plan sample_clean r this] r show ?thesis
    by blast
qed

text \<open>
  C39. The journal of \<open>begin_paired_publication\<close> is created and written in place, so there is a crash of
  every publication after which recovery fails for good and a new publication is refused as unfinished.
\<close>

theorem torn_journal_sticks:
  assumes "plan_ok P" and "clean_start P s0"
  shows "\<exists>c \<in> crash_states (publish P) s0. unpublished P c \<and> result_of (publish P) c = Raise RecordValidationError \<and>
    (\<forall>d. reached (recover_pair (pb_env P)) (recover_pair (pb_env P)) c d \<longrightarrow> d = c \<and> (\<exists>err. result_of (recover_pair (pb_env P)) d = Raise err))"
proof -
  have P: "starts_well P s0"
    using assms by (simp add: starts_well_def)
  then obtain c where c: "c \<in> crash_states (publish P) s0" "stuck_torn P s0 c"
    using begin_torn by blast
  have "exists_at c (transaction_path (ev_root (pb_env P)))"
    using torn_seen(2) [OF c(2)] by (auto simp: exists_view content_view)
  moreover have "pair_target P First \<noteq> pair_target P Second"
    using place_eq [OF assms(1), of "Target First" "Target Second"] by simp
  ultimately have "result_of (publish P) c = Raise RecordValidationError"
    by (simp add: publish_def publish_pair_def begin_pair_def result_of_def io_bind_def io_check_def io_get_def)
  then show ?thesis
    using c pair.stuck_forever [OF P c(2)] torn_seen(1) by blast
qed

theorem torn_journal_sticks_witness:
  "\<exists>c \<in> crash_states (publish sample_publication) sample_fs. result_of (publish sample_publication) c = Raise RecordValidationError"
  using torn_journal_sticks [OF sample_plan sample_clean] by blast

text \<open>
  C15. An uninterrupted publication returns, both targets hold their payloads, the journal and the staging
  files are gone and no other file has changed.
\<close>

theorem publication_completes:
  assumes "plan_ok P" and "clean_start P s0"
  shows "result_of (publish P) s0 = Ok () \<and> published P (final_of (publish P) s0) \<and> tidy P (final_of (publish P) s0) \<and>
    rest_kept P s0 (final_of (publish P) s0)"
proof -
  obtain n g where "result_of (publish P) s0 = Ok ()" "looks P s0 n g (final_of (publish P) s0)" "delivered P g"
    using publish_delivers [OF assms] by (auto simp: triple_def)
  then show ?thesis
    using delivered_seen looks_rest by blast
qed

theorem publication_completes_witness:
  "content (final_of (publish sample_publication) sample_fs) [''run'', ''receipt.json''] = Some ''receipt''"
  using publication_completes [OF sample_plan sample_clean]
  by (auto simp: published_def sample_publication_def sample_env_def pair_target_def split: side.splits dest: spec [of _ First])

text \<open>
  C13. For any file system and any journal that authenticates: wherever recovery stops, a name leads to the
  same bytes in the same inode as before, or it is gone and was the journal, a file with the journaled
  inode, size and digest, or the keyed staging name of an entry whose inode was not journaled yet.
\<close>

theorem recovery_removes_only_its_own:
  assumes "load_transaction e s = Ok ens" and "c \<in> crash_states (recover_pair e) s"
  shows "view c p = view s p \<or>
    view c p = None \<and> (p = transaction_path (ev_root e) \<or>
      (\<exists>en \<in> set ens. owned e en s p \<or> pe_identity en = None \<and> inside e (pe_temp en) = Ok p))"
  using recover_removes [OF assms] unfolding removable_def by blast

lemma sample_env_eq [simp]: "pb_env sample_publication = sample_env" "ev_root sample_env = [''run'']"
  by (simp_all add: sample_publication_def sample_env_def)

lemma sample_journaled:
  "\<exists>s. load_transaction sample_env s = Ok [entry_of sample_publication First None, entry_of sample_publication Second None] \<and>
     exists_at s (transaction_path [''run'']) \<and> \<not> exists_at (final_of (recover_pair sample_env) s) (transaction_path [''run''])"
proof -
  let ?P = sample_publication
  obtain s where s: "s \<in> crash_states (publish ?P) sample_fs" "stage ?P sample_fs 1 (\<lambda>_. None) (\<lambda>_. False) s"
    using begin_journaled [OF sample_starts] by blast
  then obtain f where f: "looks ?P sample_fs 1 f s" "shape ?P (\<lambda>_. None) (\<lambda>_. False) f"
    unfolding stage_def by blast
  have "settled ?P sample_fs (final_of (recover_pair (pb_env ?P)) s)"
    using pair.reached_settles [OF sample_starts reached.crashed [OF s(1)] stage_not_torn [OF sample_plan s(2)]] by blast
  then have "tidy ?P (final_of (recover_pair sample_env) s)"
    using settled_seen by simp
  moreover have "exists_at s (place ?P Journal)"
    using looks_exists [OF f(1), of Journal] f(2) unfolding shape_def by fastforce
  ultimately show ?thesis
    using load_under_way [OF sample_plan f(1) shape_under_way [OF f(2)]] by (auto simp: tidy_def)
qed

theorem recovery_removes_only_its_own_witness:
  "\<exists>s ens c. load_transaction sample_env s = Ok ens \<and> exists_at s (transaction_path [''run'']) \<and> \<not> exists_at c (transaction_path [''run'']) \<and>
     (\<forall>p. view c p = view s p \<or> view c p = None)"
proof -
  obtain s where s: "load_transaction sample_env s = Ok [entry_of sample_publication First None, entry_of sample_publication Second None]"
    "exists_at s (transaction_path [''run''])" "\<not> exists_at (final_of (recover_pair sample_env) s) (transaction_path [''run''])"
    using sample_journaled by blast
  have "final_of (recover_pair sample_env) s \<in> crash_states (recover_pair sample_env) s"
    using lands_recover [unfolded lands_def] by blast
  from recovery_removes_only_its_own [OF s(1) this]
  have "view (final_of (recover_pair sample_env) s) p = view s p \<or> view (final_of (recover_pair sample_env) s) p = None" for p
    by (rule disj_forward) (assumption, erule conjunct1)
  then show ?thesis
    using s by metis
qed

text \<open>A file under a target's name that is not the journaled one.\<close>

lemma survey_stops:
  assumes "survey_entry e s sv en = Ok sv'" and "inside e (pe_path en) = Ok target" and "exists_at s target"
    and "pe_identity en \<noteq> None \<or> inside e (pe_temp en) \<noteq> Ok target"
  shows "owned e en s target"
proof -
  obtain temporary sv1 where "inside e (pe_temp en) = Ok temporary" "survey_candidate e s en target temporary target sv = Ok sv1"
    using assms(1,2) unfolding survey_entry_def by (auto elim!: bindR_Inr_elim)
  then show ?thesis
    using assms(3,4) by (auto simp: survey_candidate_def split: if_splits)
qed

lemma foldR_each: "foldR f acc xs = Ok acc' \<Longrightarrow> x \<in> set xs \<Longrightarrow> \<exists>a b. f a x = Ok b"
  by (induction xs arbitrary: acc) (auto simp: bindR_eq_Inr)

text \<open>
  A target's name taken by a file that is not the journaled one, by inode, size or digest, stops
  recovery before it has changed anything.
\<close>

theorem foreign_target_stops_recovery:
  assumes "load_transaction e s = Ok ens" and "en \<in> set ens" and "inside e (pe_path en) = Ok target"
    and "exists_at s target" and "\<not> owned e en s target" and "inside e (pe_temp en) \<noteq> Ok target"
  shows "\<exists>err. result_of (recover_pair e) s = Raise err \<and> crash_states (recover_pair e) s = {s}"
proof -
  obtain err where err: "survey_all e ens s = Raise err"
    using foldR_each [of "survey_entry e s" _ ens _ en] survey_stops [of e s _ en _ target] assms
    by (cases "survey_all e ens s") (auto simp: survey_all_def)
  have "exists_at s (transaction_path (ev_root e))"
    using assms(1) by (auto simp: load_transaction_def content_def exists_at_def split: option.splits)
  then show ?thesis
    using assms(1) err by (simp add: result_of_def crash_states_def recover_present) (simp add: io_bind_def io_get_def)
qed

theorem foreign_target_stops_recovery_witness:
  "\<exists>s. exists_at s [''run'', ''receipt.json''] \<and> crash_states (recover_pair sample_env) s = {s}"
proof -
  let ?P = sample_publication and ?t = "[''run'', ''receipt.json'']"
  obtain s where s: "load_transaction sample_env s = Ok [entry_of ?P First None, entry_of ?P Second None]"
    using sample_journaled by blast
  let ?s = "set_link ?t 7 s"
  have "content ?s (transaction_path [''run'']) = content s (transaction_path [''run''])"
    by (auto simp: content_def transaction_path_def intro: map_option_cong)
  then have load: "load_transaction sample_env ?s = Ok [entry_of ?P First None, entry_of ?P Second None]"
    using s by (simp add: load_transaction_def)
  have target: "place ?P (Target First) = ?t"
    using sample_place [of "Target First"] by simp
  have path: "inside sample_env (pe_path (entry_of ?P First None)) = Ok ?t"
    using place_inside(1) [OF sample_plan, of First] target by simp
  have temp: "inside sample_env (pe_temp (entry_of ?P First None)) \<noteq> Ok ?t"
    using place_inside(2) [OF sample_plan, of First] place_eq [OF sample_plan, of "Staging First" "Target First"] target by simp
  have here: "exists_at ?s ?t"
    by (simp add: exists_at_def)
  have "\<not> owned sample_env (entry_of ?P First None) ?s ?t"
    by (simp add: owned_def)
  then have "\<exists>err. result_of (recover_pair sample_env) ?s = Raise err \<and> crash_states (recover_pair sample_env) ?s = {?s}"
    by (intro foreign_target_stops_recovery [OF load _ path here _ temp]) simp_all
  then show ?thesis
    using here by blast
qed

lemma mark_crash:
  assumes "c \<in> crash_states (mark_outcome_tainted e) s" and "c \<noteq> s"
  shows "tainted (ev_root e) c"
proof -
  have free: "\<not> exists_at s (taint_path (ev_root e))"
    using assms by (auto simp: mark_outcome_tainted_def crash_states_def io_bind_def io_check_def io_get_def)
  let ?i = "ev_fresh e (fs_names s)"
  obtain s1 where s1: "io_create (ev_fresh e) (taint_path (ev_root e)) s = (Ok ?i, [s1], s1)" "inode_of s1 (taint_path (ev_root e)) = Some ?i"
    using free by (simp add: io_create_def Let_def inode_written)
  obtain tr s2 where tr: "io_write ?i taint_text s1 = (Ok (), tr, s2)" "\<forall>d \<in> set tr. fs_names d = fs_names s1"
    by (auto simp: io_write_def Let_def)
  have "c \<in> set (s1 # tr)"
    using assms free tr(1) by (simp add: mark_outcome_tainted_def run_assert crash_states_def) (simp add: io_bind_def s1(1))
  then have "fs_names c = fs_names s1"
    using tr(2) by auto
  then show ?thesis
    using s1(2) by (simp add: tainted_def exists_at_def inode_of_def)
qed

text \<open>
  C16. As soon as the marker's file exists, whole or torn, every protected action is refused and the run
  cannot be marked again, at every later moment of a publication and of its recoveries.
\<close>

theorem taint_is_one_way:
  assumes "c \<in> crash_states (mark_outcome_tainted (pb_env P)) s" and "c \<noteq> s"
    and "plan_ok P" and "clean_start P c" and "reached (publish P) (recover_pair (pb_env P)) c d"
  shows "result_of (mark_outcome_tainted (pb_env P)) d = Raise RecordValidationError \<and>
    (\<forall>action \<in> set PROTECTED_ACTIONS. result_of (require_preunblind_context (ev_root (pb_env P)) action) d = Raise RecordValidationError)"
proof -
  let ?t = "taint_path (ev_root (pb_env P))"
  have t: "exists_at c ?t"
    using mark_crash [OF assms(1,2)] by (simp add: tainted_def)
  then have "?t \<notin> range (place P)"
    using assms(4) by (auto simp: clean_start_def)
  moreover have "safe P c d"
    using pair.reached_acceptable assms(3-5) by (auto simp: starts_well_def)
  ultimately have "view d ?t = view c ?t"
    unfolding safe_def looks_def by blast
  then have "exists_at d ?t"
    using t by (simp add: exists_view)
  then show ?thesis
    by (simp add: mark_outcome_tainted_def require_preunblind_context_def tainted_def result_of_def io_bind_def io_check_def io_get_def)
qed

text \<open>The marker beside the sample publication.\<close>

lemma sample_marked:
  "\<exists>c. c \<in> crash_states (mark_outcome_tainted sample_env) sample_fs \<and> c \<noteq> sample_fs \<and> clean_start sample_publication c"
proof -
  define m where "m = \<lparr>fs_names = fs_names sample_fs @ [(taint_path [''run''], 1)], fs_data = fs_data sample_fs @ [(1, [])]\<rparr>"
  have "sample_fresh (fs_names sample_fs) = 1"
    by (simp add: sample_fresh_def sample_fs_def upt_rec)
  then have "io_create (ev_fresh sample_env) (taint_path [''run'']) sample_fs = (Ok 1, [m], m)"
    by (simp add: io_create_def m_def sample_env_def sample_fs_def exists_at_def inode_of_def taint_path_def Let_def)
  then have "m \<in> crash_states (io_create (ev_fresh sample_env) (taint_path [''run''])) sample_fs"
    by (simp add: crash_states_def)
  moreover have "\<not> exists_at sample_fs (taint_path [''run''])"
    by (simp add: exists_at_def inode_of_def sample_fs_def taint_path_def)
  ultimately have "m \<in> crash_states (mark_outcome_tainted sample_env) sample_fs"
    unfolding mark_outcome_tainted_def by (simp add: crash_states_def run_assert) (use crash_first [unfolded crash_states_def] in fastforce)
  moreover have "m \<noteq> sample_fs"
    by (simp add: m_def sample_fs_def)
  moreover have "\<not> exists_at m (place sample_publication x)" for x
    by (simp add: sample_place m_def sample_fs_def exists_at_def inode_of_def taint_path_def split: slot.split side.split)
  moreover have "int (sample_fresh names) < 2 ^ 64" if "length names \<le> length (fs_names m) + 8" for names
    using sample_fresh(2) [of names] that by (simp add: m_def sample_fs_def)
  ultimately show ?thesis
    by (auto simp: clean_start_def) (auto simp: sample_env_def)
qed

theorem taint_is_one_way_witness:
  "\<exists>c d. c \<in> crash_states (mark_outcome_tainted sample_env) sample_fs \<and> d = final_of (publish sample_publication) c \<and>
     result_of (require_preunblind_context [''run''] ''resampling_task_block'') d = Raise RecordValidationError"
proof -
  obtain c where c: "c \<in> crash_states (mark_outcome_tainted (pb_env sample_publication)) sample_fs" "c \<noteq> sample_fs" "clean_start sample_publication c"
    using sample_marked by auto
  have "reached (publish sample_publication) (recover_pair (pb_env sample_publication)) c (final_of (publish sample_publication) c)"
    using lands_publish unfolding lands_def by (intro reached.crashed) blast
  from taint_is_one_way [OF c(1,2) sample_plan c(3) this] c(1) show ?thesis
    by (auto simp: PROTECTED_ACTIONS_def)
qed

end
