(* ===== verification/Splits.thy ===== *)
theory Splits
  imports Hashing PyOrder PyLoads ReviewInputs "HOL-Library.Product_Lexorder"
begin

text \<open>
  Deterministic dataset splits (\<open>training/splits.py\<close>): examples are grouped by repository, the groups are
  visited in the order of a digest, and each goes to the split with the most room. Files are arguments:
  the input is a byte string, the outputs are texts.
\<close>

section \<open>Splits and ratios\<close>

datatype split = Train | Validation | Test

fun split_name :: "split \<Rightarrow> string" where
  "split_name Train = ''train''"
| "split_name Validation = ''validation''"
| "split_name Test = ''test''"

definition SPLITS :: "split list" where
  "SPLITS = [Train, Validation, Test]"

fun split_index :: "split \<Rightarrow> int" where
  "split_index Train = 0"
| "split_index Validation = 1"
| "split_index Test = 2"

definition validate_ratios :: "(split \<Rightarrow> flt) \<Rightarrow> (split \<Rightarrow> flt) result" where
  "validate_ratios ratios =
     bindR (foldR (\<lambda>_ s. if flt_less (ratios s) (fint 0) then Raise (ValueError (split_name s @ '' ratio must be non-negative'')) else Ok ())
        () SPLITS) (\<lambda>_.
     let sum = py_sum (map ratios SPLITS) in
     if flt_less (lit (1 / 10 ^ 9)) (fabs (fsub sum (Num 1))) then Raise (ValueError ''split ratios must sum to 1.0'')
     else Ok ratios)"

section \<open>Output paths\<close>

text \<open>\<open>Path(path).resolve()\<close> starts at the working directory; so does the forbidden root, which is relative here.\<close>

definition FORBIDDEN_OUTPUT_ROOT :: "string list" where
  "FORBIDDEN_OUTPUT_ROOT = [''C:'', ''pneuma-data'']"

definition reject_forbidden_output_path :: "string list \<Rightarrow> string \<Rightarrow> unit result" where
  "reject_forbidden_output_path cwd path =
     bindR (resolve_path cwd path) (\<lambda>resolved.
       let forbidden = cwd @ FORBIDDEN_OUTPUT_ROOT in
       if take (length forbidden) resolved = forbidden
       then Raise (ValueError ''refusing to write split output under C:/pneuma-data'')
       else if (resolved \<noteq> [] \<and> last resolved = ''build'') \<or> \<not> list_ex (\<lambda>part. ascii_lower part = ''build'') resolved
       then Raise (ValueError ''refusing to write split output outside a build/ directory'')
       else Ok ())"

section \<open>Loading\<close>

text \<open>The lines of a text file, with their ends.\<close>

fun file_lines :: "string \<Rightarrow> string \<Rightarrow> string list" where
  "file_lines acc [] = (if acc = [] then [] else [rev acc])"
| "file_lines acc (c # cs) = (if c = CHR 0x0A then rev (c # acc) # file_lines [] cs else file_lines (c # acc) cs)"

text \<open>One line: the examples and the identities seen so far.\<close>

definition load_line :: "string \<Rightarrow> dict list \<times> string list \<Rightarrow> nat \<times> string \<Rightarrow> (dict list \<times> string list) result" where
  "load_line dataset_id acc numbered =
     (case (acc, numbered) of ((examples, seen), (n, line)) \<Rightarrow>
        if blank line then Ok (examples, seen)
        else
          bindR (loads line) (\<lambda>v.
          bindR (jget v ''dataset_id'') (\<lambda>found.
            if \<not> py_eq found (JStr dataset_id)
            then Raise (ValueError (''line '' @ show_nat n @ '' has dataset_id '' @ py_repr_json found @ '', expected '' @ repr_str dataset_id))
            else
              (case v of
                 JObj example \<Rightarrow>
                   (case dget example ''example_id'' of
                      JStr i \<Rightarrow>
                        if i = [] then Raise (ValueError (''line '' @ show_nat n @ '' is missing example_id''))
                        else if i \<in> set seen then Raise (ValueError (''duplicate example_id: '' @ i))
                        else Ok (examples @ [example], i # seen)
                    | _ \<Rightarrow> Raise (ValueError (''line '' @ show_nat n @ '' is missing example_id'')))
               | _ \<Rightarrow> Raise AttributeError))))"

definition load_examples_jsonl :: "string \<Rightarrow> string \<Rightarrow> dict list result" where
  "load_examples_jsonl dataset_id bytes =
     (if \<not> valid_utf8 bytes then Raise (ValueError ''invalid utf-8'')
      else
        bindR (foldR (load_line dataset_id) ([], []) (enumerate 1 (file_lines [] (translate_newlines bytes)))) (\<lambda>(examples, _).
          if examples = [] then Raise (ValueError ''no examples loaded'') else Ok examples))"

section \<open>Reading an example\<close>

definition required_split_group :: "dict \<Rightarrow> (string \<times> string option) result" where
  "required_split_group example =
     (let group = py_or (dget example ''split_group'') (JObj []) in
      bindR (jget group ''repo'') (\<lambda>repo.
        case repo of
          JStr r \<Rightarrow>
            if r = [] then Raise (ValueError (''example '' @ py_str (dget example ''example_id'') @ '' is missing split_group.repo''))
            else
              bindR (jget group ''task_id'') (\<lambda>task.
                case task of
                  JNull \<Rightarrow> Ok (r, None)
                | JStr t \<Rightarrow> Ok (r, Some t)
                | _ \<Rightarrow> Raise (ValueError (''example '' @ py_str (dget example ''example_id'') @ '' has non-string task_id'')))
        | _ \<Rightarrow> Raise (ValueError (''example '' @ py_str (dget example ''example_id'') @ '' is missing split_group.repo''))))"

definition example_resolved :: "dict \<Rightarrow> bool result" where
  "example_resolved example =
     bindR (jget (py_or (dget example ''target'') (JObj [])) ''resolved'') (\<lambda>v.
       case v of
         JBool b \<Rightarrow> Ok b
       | _ \<Rightarrow> Raise (ValueError (''example '' @ py_str (dget example ''example_id'') @ '' is missing boolean target.resolved'')))"

section \<open>Groups\<close>

text \<open>\<open>sorted(xs, key=lambda item: item["example_id"])\<close>: all keys first, then the comparisons.\<close>

definition example_key :: "dict \<Rightarrow> json result" where
  "example_key example = (case map_of example ''example_id'' of None \<Rightarrow> Raise KeyError | Some v \<Rightarrow> Ok v)"

definition sorted_by_id :: "('a \<Rightarrow> json result) \<Rightarrow> 'a list \<Rightarrow> 'a list result" where
  "sorted_by_id key xs =
     bindR (mapR (\<lambda>x. bindR (key x) (\<lambda>k. Ok (k, x))) xs) (\<lambda>keyed.
     bindR (py_sorted_by fst keyed) (\<lambda>ys. Ok (map snd ys)))"

definition add_example :: "(string \<times> dict list) list \<Rightarrow> dict \<Rightarrow> (string \<times> dict list) list result" where
  "add_example groups example =
     bindR (required_split_group example) (\<lambda>(repo, _).
       Ok (dset groups repo ((case map_of groups repo of None \<Rightarrow> [] | Some es \<Rightarrow> es) @ [example])))"

definition group_examples :: "dict list \<Rightarrow> (string \<times> dict list) list result" where
  "group_examples examples =
     bindR (foldR add_example [] examples) (\<lambda>groups.
     bindR (mapR (\<lambda>(repo, es). bindR (sorted_by_id example_key es) (\<lambda>es'. Ok (repo, es'))) groups) (\<lambda>groups'.
       Ok (sort_key fst groups')))"

section \<open>Assignment\<close>

definition utf8_encode :: "string \<Rightarrow> string result" where
  "utf8_encode s = (if valid_utf8 s then Ok s else Raise (ValueError ''surrogates not allowed''))"

definition group_order_key :: "string \<Rightarrow> string \<Rightarrow> string result" where
  "group_order_key dataset_id repo = bindR (utf8_encode (dataset_id @ ''|repo|'' @ repo)) (\<lambda>s. Ok (sha256_hex s))"

text \<open>\<open>round(x)\<close>\<close>

definition py_round_int :: "flt \<Rightarrow> int result" where
  "py_round_int x =
     (if is_nan x then Raise (ValueError ''cannot convert float NaN to integer'')
      else if is_finite x then Ok (round_half_even (fval x)) else Raise OverflowError)"

definition target_counts :: "int \<Rightarrow> (split \<Rightarrow> flt) \<Rightarrow> (split \<Rightarrow> int) result" where
  "target_counts n_examples ratios =
     bindR (float_of_int n_examples) (\<lambda>n.
     bindR (py_round_int (fmul n (ratios Train))) (\<lambda>train_target.
     bindR (py_round_int (fmul n (ratios Validation))) (\<lambda>validation_target.
       Ok (\<lambda>s. case s of Train \<Rightarrow> train_target | Validation \<Rightarrow> validation_target
                | Test \<Rightarrow> n_examples - train_target - validation_target))))"

definition split_key :: "(split \<Rightarrow> int) \<Rightarrow> (split \<Rightarrow> int) \<Rightarrow> int \<Rightarrow> split \<Rightarrow> int \<times> int \<times> int" where
  "split_key counts targets group_size s =
     (counts s + group_size - targets s, \<bar>(counts s + group_size) - targets s\<bar>, split_index s)"

text \<open>\<open>min(SPLITS, key=...)\<close>: the first of the least.\<close>

definition best_split :: "(split \<Rightarrow> int) \<Rightarrow> (split \<Rightarrow> int) \<Rightarrow> int \<Rightarrow> split" where
  "best_split counts targets group_size =
     foldl (\<lambda>best s. if split_key counts targets group_size s < split_key counts targets group_size best then s else best)
       (hd SPLITS) (tl SPLITS)"

definition assign_step ::
  "(split \<Rightarrow> int) \<Rightarrow> (split \<Rightarrow> int) \<times> (string \<times> split) list \<Rightarrow> string \<times> int \<Rightarrow> (split \<Rightarrow> int) \<times> (string \<times> split) list" where
  "assign_step targets acc entry =
     (case (acc, entry) of ((counts, assigned), (repo, group_size)) \<Rightarrow>
        let best = best_split counts targets group_size in
        (counts(best := counts best + group_size), dset assigned repo best))"

definition group_sizes :: "(string \<times> dict list) list \<Rightarrow> (string \<times> int) list" where
  "group_sizes groups = map (\<lambda>(repo, es). (repo, int (length es))) groups"

definition ordered_groups :: "string \<Rightarrow> (string \<times> int) list \<Rightarrow> (string \<times> int) list result" where
  "ordered_groups dataset_id sizes =
     bindR (mapR (\<lambda>(repo, n). bindR (group_order_key dataset_id repo) (\<lambda>k. Ok (k, repo, n))) sizes) (\<lambda>keyed.
       Ok (map snd (sort_key (\<lambda>(k, repo, _). (k, repo)) keyed)))"

definition assign_sizes :: "string \<Rightarrow> (string \<times> int) list \<Rightarrow> (split \<Rightarrow> flt) \<Rightarrow> (string \<times> split) list result" where
  "assign_sizes dataset_id sizes ratios =
     bindR (target_counts (sum_list (map snd sizes)) ratios) (\<lambda>targets.
     bindR (ordered_groups dataset_id sizes) (\<lambda>ordered.
       Ok (snd (foldl (assign_step targets) (\<lambda>_. 0, []) ordered))))"

definition assign_groups :: "string \<Rightarrow> (string \<times> dict list) list \<Rightarrow> (split \<Rightarrow> flt) \<Rightarrow> (string \<times> split) list result" where
  "assign_groups dataset_id groups ratios = assign_sizes dataset_id (group_sizes groups) ratios"

section \<open>Counting\<close>

record assignment =
  as_id :: json
  as_split :: split
  as_repo :: string
  as_task :: "string option"
  as_resolved :: bool

record tally =
  tl_examples :: int
  tl_resolved :: int
  tl_unresolved :: int
  tl_repos :: "string set"
  tl_tasks :: "string set"

definition count_step :: "(split \<Rightarrow> tally) \<Rightarrow> assignment \<Rightarrow> (split \<Rightarrow> tally)" where
  "count_step counts a =
     (let s = as_split a; t = counts s;
          t = t\<lparr>tl_examples := tl_examples t + 1\<rparr>;
          t = (if as_resolved a then t\<lparr>tl_resolved := tl_resolved t + 1\<rparr> else t\<lparr>tl_unresolved := tl_unresolved t + 1\<rparr>);
          t = t\<lparr>tl_repos := insert (as_repo a) (tl_repos t)\<rparr>;
          t = (case as_task a of Some task \<Rightarrow> if task = [] then t else t\<lparr>tl_tasks := insert task (tl_tasks t)\<rparr> | None \<Rightarrow> t)
      in counts(s := t))"

definition split_counts :: "assignment list \<Rightarrow> split \<Rightarrow> tally" where
  "split_counts assignments =
     foldl count_step (\<lambda>_. \<lparr>tl_examples = 0, tl_resolved = 0, tl_unresolved = 0, tl_repos = {}, tl_tasks = {}\<rparr>) assignments"

definition tally_json :: "tally \<Rightarrow> json" where
  "tally_json t = JObj
     [(''examples'', JInt (tl_examples t)), (''resolved'', JInt (tl_resolved t)), (''unresolved'', JInt (tl_unresolved t)),
      (''resolved_rate'', if tl_examples t \<noteq> 0 then JFloat (int_div (tl_resolved t) (tl_examples t)) else JNull),
      (''repos'', JInt (int (card (tl_repos t)))), (''tasks'', JInt (int (card (tl_tasks t))))]"

definition by_split :: "(split \<Rightarrow> json) \<Rightarrow> json" where
  "by_split f = JObj (map (\<lambda>s. (split_name s, f s)) SPLITS)"

definition overlap_step :: "(string \<times> split set) list \<Rightarrow> assignment \<Rightarrow> (string \<times> split set) list" where
  "overlap_step acc a =
     dset acc (as_repo a) (insert (as_split a) (case map_of acc (as_repo a) of None \<Rightarrow> {} | Some ss \<Rightarrow> ss))"

definition repo_overlap :: "assignment list \<Rightarrow> (string \<times> string list) list" where
  "repo_overlap assignments =
     map (\<lambda>(repo, ss). (repo, sort (map split_name (filter (\<lambda>s. s \<in> ss) SPLITS))))
       (filter (\<lambda>(_, ss). 1 < card ss) (sort_key fst (foldl overlap_step [] assignments)))"

definition repo_stats :: "(string \<times> split) list \<Rightarrow> string \<times> dict list \<Rightarrow> (string \<times> json) result" where
  "repo_stats repo_assignments entry =
     (case entry of (repo, items) \<Rightarrow>
        bindR (mapR example_resolved items) (\<lambda>flags.
          case map_of repo_assignments repo of
            None \<Rightarrow> Raise KeyError
          | Some s \<Rightarrow>
              Ok (repo, JObj [(''split'', JStr (split_name s)), (''examples'', JInt (int (length items))),
                 (''resolved'', JInt (int (length (filter id flags)))), (''unresolved'', JInt (int (length (filter Not flags))))])))"

definition largest_group :: "(string \<times> dict list) list \<Rightarrow> int" where
  "largest_group groups = foldl max 0 (map (\<lambda>(_, items). int (length items)) groups)"

definition group_stats :: "(string \<times> dict list) list \<Rightarrow> (string \<times> split) list \<Rightarrow> dict result" where
  "group_stats groups repo_assignments =
     (let sizes = map snd (group_sizes groups) in
      bindR (mapR (repo_stats repo_assignments) (sort_key fst groups)) (\<lambda>stats.
        Ok [(''group_field'', JStr ''split_group.repo''), (''repo_groups'', JInt (int (length groups))),
            (''largest_repo_examples'', JInt (largest_group groups)),
            (''largest_repo_fraction'', if sizes \<noteq> [] then JFloat (int_div (largest_group groups) (sum_list sizes)) else JNull),
            (''assignments_by_repo'', JObj stats)]))"

definition split_caveats ::
  "int \<Rightarrow> (string \<times> dict list) list \<Rightarrow> (split \<Rightarrow> tally) \<Rightarrow> (string \<times> string list) list \<Rightarrow> (split \<Rightarrow> int) \<Rightarrow> string list" where
  "split_caveats n_examples groups counts overlap targets =
     (if length groups < length SPLITS then [''repo groups are fewer than requested splits; some splits may be empty''] else []) @
     (if overlap \<noteq> [] then [''at least one repo appears in multiple splits''] else []) @
     (if n_examples \<noteq> 0 \<and> flt_less (lit (1 / 4)) (int_div (largest_group groups) n_examples)
      then [''largest repo group is large enough to make target ratios imperfect''] else []) @
     concat (map (\<lambda>s.
       if n_examples \<noteq> 0 \<and> flt_less (lit (1 / 20)) (int_div \<bar>tl_examples (counts s) - targets s\<bar> n_examples)
       then [split_name s @ '' split count differs from target ratio by more than 5 percent''] else []) SPLITS) @
     (if list_ex (\<lambda>s. tl_examples (counts s) \<noteq> 0 \<and> tl_resolved (counts s) = 0) SPLITS
      then [''one or more non-empty splits has zero resolved examples''] else []) @
     [''split assignment did not use outcome labels except for post-hoc balance reporting'',
      ''split manifest is readiness infrastructure only and does not authorize training'']"

section \<open>Manifest and report\<close>

definition SPLIT_GENERATOR_VERSION :: string where
  "SPLIT_GENERATOR_VERSION = ''pneuma-training-splits/0.1.0''"

definition DEFAULT_POLICY :: string where
  "DEFAULT_POLICY = ''repo_grouped''"

definition example_assignment :: "string \<Rightarrow> split \<Rightarrow> dict \<Rightarrow> assignment result" where
  "example_assignment repo s example =
     bindR (required_split_group example) (\<lambda>(_, task).
     bindR (example_key example) (\<lambda>i.
     bindR (example_resolved example) (\<lambda>r.
       Ok \<lparr>as_id = i, as_split = s, as_repo = repo, as_task = task, as_resolved = r\<rparr>)))"

definition group_assignments :: "(string \<times> split) list \<Rightarrow> string \<times> dict list \<Rightarrow> assignment list result" where
  "group_assignments repo_assignments entry =
     (case entry of (repo, items) \<Rightarrow>
        (case map_of repo_assignments repo of
           None \<Rightarrow> Raise KeyError
         | Some s \<Rightarrow> mapR (example_assignment repo s) items))"

definition assignment_json :: "assignment \<Rightarrow> json" where
  "assignment_json a = JObj
     [(''example_id'', as_id a), (''split'', JStr (split_name (as_split a))), (''repo'', JStr (as_repo a)),
      (''task_id'', case as_task a of None \<Rightarrow> JNull | Some t \<Rightarrow> JStr t)]"

text \<open>\<open>{item["example_id"] for item in assignments}\<close>: unhashable values raise.\<close>

fun distinct_ids :: "json list \<Rightarrow> json list \<Rightarrow> int result" where
  "distinct_ids seen [] = Ok (int (length seen))"
| "distinct_ids seen (v # vs) =
     (case v of JList _ \<Rightarrow> Raise TypeError | JObj _ \<Rightarrow> Raise TypeError
      | _ \<Rightarrow> distinct_ids (if list_ex (py_eq v) seen then seen else v # seen) vs)"

definition build_manifest ::
  "string \<Rightarrow> (split \<Rightarrow> flt) \<Rightarrow> string \<Rightarrow> string \<Rightarrow> assignment list \<Rightarrow> int \<Rightarrow> dict" where
  "build_manifest dataset_id ratios input_path source_sha assignments n_groups =
     [(''split_manifest_schema_version'', JStr ''0.1.0''), (''generator_version'', JStr SPLIT_GENERATOR_VERSION),
      (''dataset_id'', JStr dataset_id), (''policy'', JStr DEFAULT_POLICY), (''ratios'', by_split (\<lambda>s. JFloat (ratios s))),
      (''source'', JObj [(''examples_jsonl'', JStr input_path), (''examples_jsonl_sha256'', JStr source_sha)]),
      (''counts'', JObj [(''examples'', JInt (int (length assignments))), (''assignments'', JInt (int (length assignments))),
         (''repo_groups'', JInt n_groups)]),
      (''split_counts'', by_split (\<lambda>s. tally_json (split_counts assignments s))),
      (''assignments'', JList (map assignment_json assignments))]"

definition build_report ::
  "string \<Rightarrow> (split \<Rightarrow> flt) \<Rightarrow> string \<Rightarrow> assignment list \<Rightarrow> (string \<times> dict list) list \<Rightarrow> (string \<times> split) list \<Rightarrow>
   (split \<Rightarrow> int) \<Rightarrow> dict result" where
  "build_report dataset_id ratios source_sha assignments groups repo_assignments targets =
     (let n = int (length assignments); overlap = repo_overlap assignments; counts = split_counts assignments;
          resolved = int (length (filter as_resolved assignments)) in
      bindR (distinct_ids [] (map as_id assignments)) (\<lambda>n_ids.
      bindR (group_stats groups repo_assignments) (\<lambda>stats.
        Ok [(''split_report_schema_version'', JStr ''0.1.0''), (''generator_version'', JStr SPLIT_GENERATOR_VERSION),
            (''dataset_id'', JStr dataset_id), (''policy'', JStr DEFAULT_POLICY), (''ratios'', by_split (\<lambda>s. JFloat (ratios s))),
            (''target_counts'', by_split (\<lambda>s. JInt (targets s))),
            (''counts'', JObj [(''examples'', JInt n), (''assigned_once'', JBool (n_ids = n)), (''repo_groups'', JInt (int (length groups)))]),
            (''split_counts'', by_split (\<lambda>s. tally_json (counts s))),
            (''class_balance'', JObj [(''resolved'', JInt resolved), (''unresolved'', JInt (n - resolved)),
               (''resolved_rate'', if n \<noteq> 0 then JFloat (int_div resolved n) else JNull)]),
            (''grouping'', JObj ([(''repo_overlap'', JObj (map (\<lambda>(r, ss). (r, JList (map JStr ss))) overlap)),
               (''same_repo_in_multiple_splits'', JBool (overlap \<noteq> []))] @ stats)),
            (''source_hashes'', JObj [(''examples_jsonl_sha256'', JStr source_sha)]),
            (''caveats'', JList (map JStr (split_caveats n groups counts overlap targets))),
            (''training_authorization'', JObj [(''status'', JStr ''not_authorized''), (''training_weight'', JFloat (Num 0))])])))"

definition build_split_artifacts ::
  "dict list \<Rightarrow> string \<Rightarrow> string \<Rightarrow> (split \<Rightarrow> flt) \<Rightarrow> string \<Rightarrow> string \<Rightarrow> (dict \<times> dict) result" where
  "build_split_artifacts examples dataset_id policy ratios input_path source_sha =
     (if policy \<noteq> DEFAULT_POLICY then Raise (ValueError (''unsupported split policy: '' @ policy))
      else
        bindR (group_examples examples) (\<lambda>groups.
        bindR (assign_groups dataset_id groups ratios) (\<lambda>repo_assignments.
        bindR (mapR (group_assignments repo_assignments) groups) (\<lambda>found.
        bindR (sorted_by_id (\<lambda>a. Ok (as_id a)) (concat found)) (\<lambda>assignments.
        bindR (target_counts (int (length assignments)) ratios) (\<lambda>targets.
        let manifest = build_manifest dataset_id ratios input_path source_sha assignments (int (length groups)) in
        bindR (build_report dataset_id ratios source_sha assignments groups repo_assignments targets) (\<lambda>report.
          Ok (manifest, report))))))))"

section \<open>The whole run\<close>

definition json_file_text :: "json \<Rightarrow> string" where
  "json_file_text v = dumps v @ [CHR 0x0A]"

definition sha256_text :: "string \<Rightarrow> string result" where
  "sha256_text s = bindR (utf8_encode s) (\<lambda>t. Ok (sha256_hex t))"

definition build_hash_manifest :: "string \<Rightarrow> string \<Rightarrow> string \<Rightarrow> string \<Rightarrow> string \<Rightarrow> json \<Rightarrow> dict result" where
  "build_hash_manifest manifest_text report_text input_path source_sha dataset_id own =
     bindR (sha256_text manifest_text) (\<lambda>m.
     bindR (sha256_text report_text) (\<lambda>r.
       Ok [(''hash_manifest_schema_version'', JStr ''0.1.0''), (''generator_version'', JStr SPLIT_GENERATOR_VERSION),
           (''dataset_id'', JStr dataset_id),
           (''hash_manifest_hash_convention'', JStr (''hash_manifest_json_sha256 is the sha256 of canonical manifest JSON '' @
              ''with hashes.hash_manifest_json_sha256 set to null'')),
           (''source'', JObj [(''examples_jsonl'', JStr input_path), (''examples_jsonl_sha256'', JStr source_sha)]),
           (''hashes'', JObj [(''split_manifest_json_sha256'', JStr m), (''split_report_json_sha256'', JStr r),
              (''hash_manifest_json_sha256'', own)])]))"

text \<open>The three files a run writes: manifest, report and hash manifest.\<close>

definition run_split_generation ::
  "string list \<Rightarrow> string option \<Rightarrow> string \<Rightarrow> string \<times> string \<times> string \<Rightarrow> string \<Rightarrow> string \<Rightarrow> (split \<Rightarrow> flt) \<Rightarrow>
   (string \<times> string \<times> string) result" where
  "run_split_generation cwd input_bytes input_path outputs dataset_id policy ratios =
     bindR (validate_ratios ratios) (\<lambda>ratios.
     bindR (mapR (reject_forbidden_output_path cwd) [fst outputs, fst (snd outputs), snd (snd outputs)]) (\<lambda>_.
     case input_bytes of
       None \<Rightarrow> Raise FileNotFoundError
     | Some bytes \<Rightarrow>
         bindR (load_examples_jsonl dataset_id bytes) (\<lambda>examples.
         bindR (build_split_artifacts examples dataset_id policy ratios input_path (sha256_hex bytes)) (\<lambda>(manifest, report).
         let manifest_text = json_file_text (JObj manifest); report_text = json_file_text (JObj report);
             draft = build_hash_manifest manifest_text report_text input_path (sha256_hex bytes) dataset_id in
         bindR (draft JNull) (\<lambda>h.
         bindR (sha256_text (json_file_text (JObj h))) (\<lambda>own.
         bindR (draft (JStr own)) (\<lambda>hashes.
         bindR (utf8_encode (json_file_text (JObj hashes))) (\<lambda>hash_text.
           Ok (manifest_text, report_text, hash_text)))))))))"

text \<open>\<open>main\<close> after parsing: a \<open>ValueError\<close> is reported and exits with 2, anything else is raised.\<close>

definition splits_exit :: "'a result \<Rightarrow> int result" where
  "splits_exit r =
     (case r of Inr _ \<Rightarrow> Ok 0 | Inl (ValueError _) \<Rightarrow> Ok 2 | Inl JSONDecodeError \<Rightarrow> Ok 2 | Inl err \<Rightarrow> Raise err)"

end
