(* ===== verification/SplitFacts.thy ===== *)
theory SplitFacts
  imports Splits PyCanonical "HOL-Library.Multiset"
begin

text \<open>
  Facts about the splitter: sorting by string identities, the groups as a function of the set of examples,
  and the balance the greedy assignment keeps.
\<close>

section \<open>Sorting by strings\<close>

definition text_of :: "json \<Rightarrow> string" where
  "text_of v = (case v of JStr s \<Rightarrow> s | _ \<Rightarrow> [])"

lemma py_insert_text:
  assumes "\<exists>s. key x = JStr s" and "\<forall>y \<in> set ys. \<exists>s. key y = JStr s" and "sorted (map (\<lambda>x. text_of (key x)) ys)"
  shows "\<exists>zs. py_insert key x ys = Ok zs \<and> mset zs = add_mset x (mset ys) \<and> sorted (map (\<lambda>x. text_of (key x)) zs)"
  using assms(2,3)
proof (induction ys)
  case Nil
  then show ?case by simp
next
  case (Cons y ys)
  obtain s t where st: "key x = JStr s" "key y = JStr t"
    using assms(1) Cons.prems(1) by auto
  show ?case
  proof (cases "s < t")
    case True
    then show ?thesis
      using Cons.prems by (auto simp: st text_of_def)
  next
    case False
    obtain zs where zs: "py_insert key x ys = Ok zs" "mset zs = add_mset x (mset ys)" "sorted (map (\<lambda>x. text_of (key x)) zs)"
      using Cons by auto
    have "set zs = insert x (set ys)"
      using zs(2) by (metis set_mset_add_mset_insert set_mset_mset)
    then show ?thesis
      using zs False Cons.prems(2) by (auto simp: st text_of_def)
  qed
qed

lemma py_sorted_text:
  assumes "\<forall>x \<in> set xs. \<exists>s. key x = JStr s" and "distinct (map (\<lambda>x. text_of (key x)) xs)"
  shows "py_sorted_by key xs = Ok (sort_key (\<lambda>x. text_of (key x)) xs)"
proof -
  have "\<exists>zs. foldR (\<lambda>acc x. py_insert key x acc) ys xs = Ok zs \<and> mset zs = mset ys + mset xs \<and> sorted (map (\<lambda>x. text_of (key x)) zs)"
    if "\<forall>x \<in> set (ys @ xs). \<exists>s. key x = JStr s" "sorted (map (\<lambda>x. text_of (key x)) ys)" for ys
    using that
  proof (induction xs arbitrary: ys)
    case Nil
    then show ?case by simp
  next
    case (Cons x xs)
    obtain zs where zs: "py_insert key x ys = Ok zs" "mset zs = add_mset x (mset ys)" "sorted (map (\<lambda>x. text_of (key x)) zs)"
      using py_insert_text [of key x ys] Cons.prems by auto
    have "set zs = insert x (set ys)"
      using zs(2) by (metis set_mset_add_mset_insert set_mset_mset)
    then show ?case
      using Cons.IH [of zs] Cons.prems(1) zs by auto
  qed
  from this [of "[]"] obtain zs where zs: "py_sorted_by key xs = Ok zs" "mset zs = mset xs" "sorted (map (\<lambda>x. text_of (key x)) zs)"
    using assms(1) by (auto simp: py_sorted_by_def)
  have "set zs = set xs" "distinct (map (\<lambda>x. text_of (key x)) zs)"
    using zs(2) assms(2) by (auto dest: mset_eq_setD) (metis mset_map mset_eq_imp_distinct_iff)
  then have "zs = sort_key (\<lambda>x. text_of (key x)) xs"
    using assms(2) zs(3)
    by (intro map_sorted_distinct_set_unique [of "\<lambda>x. text_of (key x)"])
      (auto simp: distinct_map distinct_sort inj_on_def)
  then show ?thesis
    using zs(1) by simp
qed

lemma sort_key_map: "sort_key k (map g xs) = map g (sort_key (\<lambda>x. k (g x)) xs)"
proof -
  have "insort_key k (g x) (map g ys) = map g (insort_key (\<lambda>x. k (g x)) x ys)" for x ys
    by (induction ys) auto
  then show ?thesis
    by (induction xs) simp_all
qed

lemma sorted_by_id_text:
  assumes "\<forall>x \<in> set xs. key x = Ok (JStr (f x))" and "distinct (map f xs)"
  shows "sorted_by_id key xs = Ok (sort_key f xs)"
proof -
  let ?keyed = "map (\<lambda>x. (JStr (f x), x)) xs"
  have "mapR (\<lambda>x. bindR (key x) (\<lambda>k. Ok (k, x))) xs = Ok ?keyed"
    using assms(1) by (induction xs) auto
  moreover have "py_sorted_by fst ?keyed = Ok (sort_key (\<lambda>kx. text_of (fst kx)) ?keyed)"
    using assms(2) by (intro py_sorted_text) (auto simp: comp_def text_of_def)
  ultimately show ?thesis
    by (simp add: sorted_by_id_def sort_key_map comp_def text_of_def)
qed

lemma sort_key_perm:
  assumes "mset xs = mset ys" and "distinct (map f xs)"
  shows "sort_key f xs = sort_key f ys"
proof -
  have "set xs = set ys"
    using assms(1) by (rule mset_eq_setD)
  moreover have "distinct (map f ys)"
    using assms by (metis mset_eq_imp_distinct_iff mset_map)
  ultimately have "set xs = set ys" "distinct (map f ys)"
    by simp_all
  then show ?thesis
    using assms(2) by (intro map_sorted_distinct_set_unique [of f]) (auto simp: distinct_map distinct_sort inj_on_def)
qed

section \<open>Groups\<close>

definition ident :: "dict \<Rightarrow> string" where
  "ident e = text_of (dget e ''example_id'')"

definition repo_name :: "dict \<Rightarrow> string" where
  "repo_name e = (case required_split_group e of Inl _ \<Rightarrow> [] | Inr (r, _) \<Rightarrow> r)"

definition task_name :: "dict \<Rightarrow> string option" where
  "task_name e = (case required_split_group e of Inl _ \<Rightarrow> None | Inr (_, t) \<Rightarrow> t)"

lemma map_of_keys: "map_of (map (\<lambda>r. (r, f r)) rs) r = (if r \<in> set rs then Some (f r) else None)"
  by (induction rs) auto

lemma distinct_map_sort: "distinct (map f (sort_key g xs)) = distinct (map f xs)"
  by (metis mset_eq_imp_distinct_iff mset_map mset_sort)

text \<open>Examples as the loader leaves them: named by distinct strings.\<close>

definition identified :: "dict list \<Rightarrow> bool" where
  "identified xs \<longleftrightarrow> (\<forall>e \<in> set xs. map_of e ''example_id'' = Some (JStr (ident e))) \<and> distinct (map ident xs)"

lemma load_line_cases:
  assumes "load_line dataset_id (xs, seen) (n, line) = Ok (ys, seen')"
  shows "(ys = xs \<and> seen' = seen) \<or> (\<exists>e i. dget e ''example_id'' = JStr i \<and> i \<notin> set seen \<and> ys = xs @ [e] \<and> seen' = i # seen)"
proof (cases "blank line")
  case True
  then show ?thesis using assms by (simp add: load_line_def)
next
  case False
  let ?missing = "Raise (ValueError (''line '' @ show_nat n @ '' is missing example_id''))"
  obtain v found where v: "(if \<not> py_eq found (JStr dataset_id)
      then Raise (ValueError (''line '' @ show_nat n @ '' has dataset_id '' @ py_repr_json found @ '', expected '' @ repr_str dataset_id))
      else (case v of
        JObj example \<Rightarrow>
          (case dget example ''example_id'' of
             JStr i \<Rightarrow> if i = [] then ?missing
               else if i \<in> set seen then Raise (ValueError (''duplicate example_id: '' @ i))
               else Ok (xs @ [example], i # seen)
           | _ \<Rightarrow> ?missing)
      | _ \<Rightarrow> Raise AttributeError)) = Ok (ys, seen')"
    using assms unfolding load_line_def prod.case if_not_P [OF False] by (elim bindR_Inr_elim)
  then have "py_eq found (JStr dataset_id)"
    by (meson Inl_Inr_False)
  note v = v [unfolded if_not_P [OF not_not [THEN iffD2, OF this]]]
  obtain e where e: "v = JObj e"
    using v by (cases v) simp_all
  obtain i where i: "dget e ''example_id'' = JStr i"
    using v unfolding e json.case by (cases "dget e ''example_id''") simp_all
  have "i \<noteq> []" and new: "i \<notin> set seen"
    using v unfolding e json.case i by (meson Inl_Inr_False)+
  then have "ys = xs @ [e] \<and> seen' = i # seen"
    using v unfolding e json.case i by auto
  then show ?thesis
    using i new by blast
qed

lemma load_line_identified:
  assumes "load_line dataset_id (xs, seen) entry = Ok (ys, seen')" and "identified xs" and "map ident xs = rev seen"
  shows "identified ys \<and> map ident ys = rev seen'"
proof -
  obtain n line where entry: "entry = (n, line)" by (cases entry)
  from load_line_cases [OF assms(1) [unfolded entry]] show ?thesis
  proof (elim disjE exE conjE)
    fix e i assume e: "dget e ''example_id'' = JStr i" "i \<notin> set seen" "ys = xs @ [e]" "seen' = i # seen"
    then have "map_of e ''example_id'' = Some (JStr i)" "ident e = i"
      by (auto simp: dget_or_def ident_def text_of_def split: option.splits)
    moreover have "i \<notin> ident ` set xs"
      using e(2) arg_cong [OF assms(3), of set] by simp
    ultimately show ?thesis
      using e(2-4) assms(2,3) by (auto simp: identified_def)
  qed (use assms in simp)
qed

text \<open>Every dataset the loader accepts.\<close>

lemma loaded_identified:
  assumes "load_examples_jsonl dataset_id bytes = Ok xs"
  shows "identified xs"
proof -
  have "identified ys \<and> map ident ys = rev seen'"
    if "foldR (load_line dataset_id) (xs, seen) entries = Ok (ys, seen')" "identified xs" "map ident xs = rev seen" for entries xs seen ys seen'
    using that
  proof (induction entries arbitrary: xs seen)
    case Nil
    then show ?case by simp
  next
    case (Cons entry entries)
    then obtain xs' seen0 where "load_line dataset_id (xs, seen) entry = Ok (xs', seen0)"
      "foldR (load_line dataset_id) (xs', seen0) entries = Ok (ys, seen')"
      by (auto simp: bindR_eq_Inr)
    then show ?case
      using Cons.IH load_line_identified Cons.prems(2,3) by blast
  qed
  from this [of "[]" "[]"] show ?thesis
    using assms by (auto simp: load_examples_jsonl_def bindR_eq_Inr identified_def split: if_splits)
qed

definition group_of :: "dict list \<Rightarrow> string \<Rightarrow> dict list" where
  "group_of xs r = filter (\<lambda>e. repo_name e = r) xs"

definition groups_spec :: "dict list \<Rightarrow> (string \<times> dict list) list" where
  "groups_spec xs = map (\<lambda>r. (r, sort_key ident (group_of xs r))) (sorted_list_of_set (repo_name ` set xs))"

lemma add_example_ok:
  assumes "foldR add_example gs xs = Ok hs"
  shows "\<forall>e \<in> set xs. \<exists>t. required_split_group e = Ok (repo_name e, t)"
  using assms
  by (induction xs arbitrary: gs) (auto simp: bindR_eq_Inr add_example_def repo_name_def split: prod.splits)

lemma foldR_add_example:
  assumes "\<forall>e \<in> set xs. \<exists>t. required_split_group e = Ok (repo_name e, t)"
  shows "\<exists>gs. foldR add_example [] xs = Ok gs \<and> distinct (map fst gs) \<and>
    (\<forall>r. map_of gs r = (if r \<in> repo_name ` set xs then Some (group_of xs r) else None))"
  using assms
proof (induction xs rule: rev_induct)
  case Nil
  then show ?case by simp
next
  case (snoc e xs)
  then obtain gs where gs: "foldR add_example [] xs = Ok gs" "distinct (map fst gs)"
    "\<forall>r. map_of gs r = (if r \<in> repo_name ` set xs then Some (group_of xs r) else None)"
    by auto
  obtain t where "required_split_group e = Ok (repo_name e, t)"
    using snoc.prems by auto
  moreover have none: "group_of xs (repo_name e) = []" if "repo_name e \<notin> repo_name ` set xs"
    using that by (metis (mono_tags, lifting) filter_empty_conv group_of_def imageI)
  ultimately have "add_example gs e = Ok (dset gs (repo_name e) (group_of xs (repo_name e) @ [e]))"
    using gs(3) none by (auto simp: add_example_def)
  then have "foldR add_example [] (xs @ [e]) = Ok (dset gs (repo_name e) (group_of xs (repo_name e) @ [e]))"
    by (simp add: foldR_append gs(1))
  moreover have "map_of (dset gs (repo_name e) (group_of xs (repo_name e) @ [e])) r =
      (if r \<in> repo_name ` set (xs @ [e]) then Some (group_of (xs @ [e]) r) else None)" for r
    using gs(3) by (auto simp: group_of_def)
  ultimately show ?case
    using gs(2) by (auto simp: distinct_dset)
qed

lemma assoc_unique:
  assumes "sorted (map fst xs)" "distinct (map fst xs)" "sorted (map fst ys)" "distinct (map fst ys)" "map_of xs = map_of ys"
  shows "xs = (ys :: (string \<times> 'b) list)"
proof -
  have "set xs = set ys"
    using assms by (metis map_of_inject_set)
  moreover have "inj_on fst (set xs \<union> set ys)"
    using assms(2) calculation by (simp add: distinct_map)
  ultimately show ?thesis
    using assms by (intro map_sorted_distinct_set_unique [of fst]) (auto simp: distinct_map)
qed

lemma group_examples_spec:
  assumes "identified xs"
  shows "group_examples xs = Ok gs \<longleftrightarrow> (\<forall>e \<in> set xs. \<exists>t. required_split_group e = Ok (repo_name e, t)) \<and> gs = groups_spec xs"
proof (cases "\<forall>e \<in> set xs. \<exists>t. required_split_group e = Ok (repo_name e, t)")
  case True
  then obtain gs0 where gs0: "foldR add_example [] xs = Ok gs0" "distinct (map fst gs0)"
    "\<forall>r. map_of gs0 r = (if r \<in> repo_name ` set xs then Some (group_of xs r) else None)"
    using foldR_add_example by blast
  have members: "es = group_of xs r \<and> r \<in> repo_name ` set xs" if "(r, es) \<in> set gs0" for r es
    using gs0(2,3) that map_of_is_SomeI [of gs0 r es] by (auto split: if_splits)
  have "sorted_by_id example_key (group_of xs r) = Ok (sort_key ident (group_of xs r))" for r
    using assms by (intro sorted_by_id_text) (auto simp: identified_def group_of_def example_key_def distinct_map_filter)
  then have sorts: "sorted_by_id example_key es = Ok (sort_key ident es)" if "es \<in> snd ` set gs0" for es
    using that members by force
  then have "mapR (\<lambda>(repo, es). bindR (sorted_by_id example_key es) (\<lambda>es'. Ok (repo, es'))) gs0 = Ok (map (\<lambda>(r, es). (r, sort_key ident es)) gs0)"
    by (induction gs0) auto
  then have run: "group_examples xs = Ok (sort_key fst (map (\<lambda>(r, es). (r, sort_key ident es)) gs0))"
    by (simp add: group_examples_def gs0(1))
  have fsts: "map fst (map (\<lambda>(r, es). (r, sort_key ident es)) gs0) = map fst gs0"
    by (induction gs0) auto
  have "sort_key fst (map (\<lambda>(r, es). (r, sort_key ident es)) gs0) = groups_spec xs"
  proof (rule assoc_unique)
    have "map_of (map (\<lambda>(r, es). (r, sort_key ident es)) gs0) = map_of (groups_spec xs)"
      using gs0(3) by (auto simp: fun_eq_iff groups_spec_def map_of_map map_of_keys)
    then show "map_of (sort_key fst (map (\<lambda>(r, es). (r, sort_key ident es)) gs0)) = map_of (groups_spec xs)"
      using gs0(2) by (subst map_of_sort_key) (simp_all only: fsts not_False_eq_True)
  qed (use gs0(2) in \<open>simp_all add: groups_spec_def comp_def distinct_map_sort fsts [unfolded map_map comp_def]\<close>)
  with run True show ?thesis by auto
next
  case False
  then show ?thesis
    using add_example_ok by (fastforce simp: group_examples_def bindR_eq_Inr)
qed

section \<open>The greedy assignment\<close>

lemma best_room: "counts (best_split counts targets n) - targets (best_split counts targets n) \<le> counts s - targets s"
  by (cases s) (auto simp: best_split_def SPLITS_def split_key_def less_prod_simp)

definition over :: "(split \<Rightarrow> int) \<Rightarrow> (split \<Rightarrow> int) \<Rightarrow> split \<Rightarrow> int" where
  "over counts targets s = counts s - targets s"

definition over_all :: "(split \<Rightarrow> int) \<Rightarrow> (split \<Rightarrow> int) \<Rightarrow> int" where
  "over_all counts targets = over counts targets Train + over counts targets Validation + over counts targets Test"

text \<open>A group goes where there is most room, so no split is ever overfull by more than two thirds of it.\<close>

lemma step_balance:
  assumes "over_all counts targets + rest = 0" and "0 \<le> n" and "n \<le> rest" and "n \<le> largest"
    and "\<forall>s. 3 * over counts targets s \<le> 2 * largest"
    and "counts' = counts(best_split counts targets n := counts (best_split counts targets n) + n)"
  shows "over_all counts' targets + (rest - n) = 0" and "\<forall>s. 3 * over counts' targets s \<le> 2 * largest"
proof -
  let ?b = "best_split counts targets n"
  have room: "over counts targets ?b \<le> over counts targets s" for s
    using best_room by (simp add: over_def)
  then have "3 * over counts targets ?b \<le> over_all counts targets"
    using add_mono [OF add_mono [OF room [of Train] room [of Validation]] room [of Test]] by (simp add: over_all_def)
  then have b: "3 * (over counts targets ?b + n) \<le> 2 * largest"
    using assms(1-4) by simp
  show "over_all counts' targets + (rest - n) = 0"
    using assms(1) unfolding assms(6) by (cases ?b) (simp_all add: over_all_def over_def)
  show "\<forall>s. 3 * over counts' targets s \<le> 2 * largest"
    using assms(5) b by (simp add: assms(6) over_def)
qed

lemma assign_step_eq:
  "assign_step targets (counts, a) (r, n) = (counts(best_split counts targets n := counts (best_split counts targets n) + n), dset a r (best_split counts targets n))"
  by (simp add: assign_step_def Let_def)

lemma fold_balance:
  assumes "\<forall>(r, n) \<in> set ord. 0 \<le> n \<and> n \<le> largest" and "over_all counts targets + sum_list (map snd ord) = 0"
    and "\<forall>s. 3 * over counts targets s \<le> 2 * largest"
  shows "over_all (fst (foldl (assign_step targets) (counts, a) ord)) targets = 0 \<and>
    (\<forall>s. 3 * over (fst (foldl (assign_step targets) (counts, a) ord)) targets s \<le> 2 * largest)"
  using assms
proof (induction ord arbitrary: counts a)
  case Nil
  then show ?case by simp
next
  case (Cons x ord)
  obtain r n where x: "x = (r, n)" by (cases x)
  let ?counts = "counts(best_split counts targets n := counts (best_split counts targets n) + n)"
  have n: "0 \<le> n" "n \<le> largest"
    using Cons.prems(1) by (auto simp: x)
  have "0 \<le> sum_list (map snd ord)"
    using Cons.prems(1) by (intro sum_list_nonneg) auto
  then have le: "n \<le> sum_list (map snd (x # ord))"
    by (simp add: x)
  have bal: "over_all ?counts targets + (sum_list (map snd (x # ord)) - n) = 0" "\<forall>s. 3 * over ?counts targets s \<le> 2 * largest"
    by (rule step_balance [OF Cons.prems(2) n(1) le n(2) Cons.prems(3) refl])+
  have rest: "sum_list (map snd (x # ord)) - n = sum_list (map snd ord)"
    by (simp add: x)
  have eq: "foldl (assign_step targets) (counts, a) (x # ord) = foldl (assign_step targets) (?counts, dset a r (best_split counts targets n)) ord"
    by (simp add: x assign_step_eq)
  have "\<forall>(r, n) \<in> set ord. 0 \<le> n \<and> n \<le> largest"
    using Cons.prems(1) by auto
  then show ?case
    unfolding eq by (rule Cons.IH [OF _ bal(1) [unfolded rest] bal(2)])
qed

text \<open>What is counted for a split is what is assigned to it.\<close>

lemma fold_counts:
  assumes "distinct (map fst ord)" and "foldl (assign_step targets) (\<lambda>_. 0, []) ord = (counts, a)"
  shows "dom (map_of a) = fst ` set ord" and "counts s = sum_list (map snd (filter (\<lambda>(r, _). map_of a r = Some s) ord))"
proof -
  have "dom (map_of a) = fst ` set ord \<and> (\<forall>s. counts s = sum_list (map snd (filter (\<lambda>(r, _). map_of a r = Some s) ord)))"
    using assms
  proof (induction ord arbitrary: counts a rule: rev_induct)
    case Nil
    then show ?case by auto
  next
    case (snoc x ord)
    obtain r n where x: "x = (r, n)" by (cases x)
    obtain c b where cb: "foldl (assign_step targets) (\<lambda>_. 0, []) ord = (c, b)"
      by (cases "foldl (assign_step targets) (\<lambda>_. 0, []) ord")
    let ?s = "best_split c targets n"
    have ih: "dom (map_of b) = fst ` set ord" "\<forall>s. c s = sum_list (map snd (filter (\<lambda>(r, _). map_of b r = Some s) ord))"
      using snoc.IH [OF _ cb] snoc.prems(1) by auto
    have ca: "counts = c(?s := c ?s + n)" "a = dset b r ?s"
      using snoc.prems(2) by (auto simp: cb x assign_step_eq)
    have "r \<notin> fst ` set ord"
      using snoc.prems(1) by (auto simp: x)
    then have "filter (\<lambda>(r', _). map_of a r' = Some s) ord = filter (\<lambda>(r', _). map_of b r' = Some s) ord" for s
      by (intro filter_cong) (force simp: ca(2))+
    then have "counts s = sum_list (map snd (filter (\<lambda>(r, _). map_of a r = Some s) (ord @ [x])))" for s
      using ih(2) by (auto simp: x ca)
    moreover have "dom (map_of a) = fst ` set (ord @ [x])"
      using ih(1) by (simp add: x ca)
    ultimately show ?case
      by blast
  qed
  then show "dom (map_of a) = fst ` set ord" "counts s = sum_list (map snd (filter (\<lambda>(r, _). map_of a r = Some s) ord))"
    by auto
qed

section \<open>Assignments\<close>

definition resolved_of :: "dict \<Rightarrow> bool" where
  "resolved_of e = (case example_resolved e of Inl _ \<Rightarrow> False | Inr b \<Rightarrow> b)"

definition entry_in :: "(string \<times> split) list \<Rightarrow> dict \<Rightarrow> assignment" where
  "entry_in a e = \<lparr>as_id = JStr (ident e), as_split = the (map_of a (repo_name e)), as_repo = repo_name e,
     as_task = task_name e, as_resolved = resolved_of e\<rparr>"

definition repo_sizes :: "dict list \<Rightarrow> (string \<times> int) list" where
  "repo_sizes xs = map (\<lambda>r. (r, int (length (group_of xs r)))) (sorted_list_of_set (repo_name ` set xs))"

lemma group_sizes_spec: "group_sizes (groups_spec xs) = repo_sizes xs"
  by (simp add: group_sizes_def groups_spec_def repo_sizes_def)

text \<open>The groups hold every example once.\<close>

lemma mset_groups:
  assumes "finite R" and "repo_name ` set xs \<subseteq> R"
  shows "(\<Sum>r\<in>R. mset (group_of xs r)) = mset xs"
  using assms(2)
proof (induction xs)
  case Nil
  then show ?case by (simp add: group_of_def)
next
  case (Cons e xs)
  have "(\<Sum>r\<in>R. mset (group_of (e # xs) r)) = (\<Sum>r\<in>R. (if r = repo_name e then {#e#} else {#}) + mset (group_of xs r))"
    by (rule sum.cong) (auto simp: group_of_def)
  also have "\<dots> = {#e#} + mset xs"
    using Cons assms(1) by (simp add: sum.distrib)
  finally show ?case by simp
qed

lemma mset_concat_sum: "distinct rs \<Longrightarrow> mset (concat (map f rs)) = (\<Sum>r\<in>set rs. mset (f r))"
  by (induction rs) auto

lemma concat_groups: "mset (concat (map snd (groups_spec xs))) = mset xs"
  using mset_groups [of "repo_name ` set xs" xs]
  by (simp add: groups_spec_def comp_def mset_concat_sum)

lemma count_groups:
  assumes "finite R" and "repo_name ` set xs \<subseteq> R"
  shows "(\<Sum>r \<in> {r \<in> R. Q r}. length (group_of xs r)) = length (filter (\<lambda>e. Q (repo_name e)) xs)"
  using assms(2)
proof (induction xs)
  case Nil
  then show ?case by (simp add: group_of_def)
next
  case (Cons e xs)
  have "(\<Sum>r \<in> {r \<in> R. Q r}. length (group_of (e # xs) r)) =
      (\<Sum>r \<in> {r \<in> R. Q r}. (if r = repo_name e then 1 else 0) + length (group_of xs r))"
    by (rule sum.cong) (auto simp: group_of_def)
  also have "\<dots> = (if Q (repo_name e) then 1 else 0) + length (filter (\<lambda>e. Q (repo_name e)) xs)"
    using Cons assms(1) by (simp add: sum.distrib)
  finally show ?case by simp
qed

lemma sum_repo_sizes:
  "sum_list (map snd (filter (\<lambda>(r, _). Q r) (repo_sizes xs))) = int (length (filter (\<lambda>e. Q (repo_name e)) xs))"
proof -
  let ?R = "repo_name ` set xs"
  have "sum_list (map snd (filter (\<lambda>(r, _). Q r) (repo_sizes xs))) =
      sum_list (map (\<lambda>r. int (length (group_of xs r))) (filter Q (sorted_list_of_set ?R)))"
    by (simp add: repo_sizes_def filter_map comp_def)
  also have "\<dots> = (\<Sum>r \<in> {r \<in> ?R. Q r}. int (length (group_of xs r)))"
    by (simp add: sum_list_distinct_conv_sum_set)
  also have "\<dots> = int (length (filter (\<lambda>e. Q (repo_name e)) xs))"
    using count_groups [of ?R xs Q] by (simp flip: of_nat_sum)
  finally show ?thesis .
qed

definition member_ok :: "string \<Rightarrow> dict \<Rightarrow> bool" where
  "member_ok r e \<longleftrightarrow> map_of e ''example_id'' = Some (JStr (ident e)) \<and> repo_name e = r"

lemma group_assignments_entry:
  assumes "group_assignments a (r, es) = Ok found" and "\<forall>e \<in> set es. member_ok r e"
  shows "found = map (entry_in a) es" and "r \<in> dom (map_of a)" and "\<forall>e \<in> set es. example_resolved e = Ok (resolved_of e)"
proof -
  obtain s where s: "map_of a r = Some s" "mapR (example_assignment r s) es = Ok found"
    using assms(1) by (auto simp: group_assignments_def split: option.splits)
  have one: "b = entry_in a e \<and> example_resolved e = Ok (resolved_of e)" if "example_assignment r s e = Ok b" "member_ok r e" for e b
    using that s(1)
    by (auto simp: example_assignment_def bindR_eq_Inr member_ok_def example_key_def entry_in_def repo_name_def task_name_def
        resolved_of_def split: prod.splits)
  have "found = map (entry_in a) es \<and> (\<forall>e \<in> set es. example_resolved e = Ok (resolved_of e))"
    using s(2) assms(2)
  proof (induction es arbitrary: found)
    case Nil
    then show ?case by simp
  next
    case (Cons e es)
    then obtain b bs where "example_assignment r s e = Ok b" "mapR (example_assignment r s) es = Ok bs" "found = b # bs"
      by (auto simp: bindR_eq_Inr)
    then show ?case
      using Cons.IH [of bs] Cons.prems(2) one by simp
  qed
  then show "found = map (entry_in a) es" "r \<in> dom (map_of a)" "\<forall>e \<in> set es. example_resolved e = Ok (resolved_of e)"
    using s(1) by auto
qed

lemma all_assignments:
  assumes "mapR (group_assignments a) gs = Ok found" and "\<forall>(r, es) \<in> set gs. \<forall>e \<in> set es. member_ok r e"
  shows "concat found = map (entry_in a) (concat (map snd gs))"
    and "\<forall>(r, es) \<in> set gs. \<forall>e \<in> set es. r \<in> dom (map_of a) \<and> example_resolved e = Ok (resolved_of e)"
proof -
  have "concat found = map (entry_in a) (concat (map snd gs)) \<and>
      (\<forall>(r, es) \<in> set gs. \<forall>e \<in> set es. r \<in> dom (map_of a) \<and> example_resolved e = Ok (resolved_of e))"
    using assms
  proof (induction gs arbitrary: found)
    case Nil
    then show ?case by simp
  next
    case (Cons g gs)
    obtain r es where g: "g = (r, es)" by (cases g)
    obtain b bs where b: "group_assignments a (r, es) = Ok b" "mapR (group_assignments a) gs = Ok bs" "found = b # bs"
      using Cons.prems(1) by (auto simp: g bindR_eq_Inr)
    then show ?case
      using Cons.IH [OF b(2)] Cons.prems(2) group_assignments_entry [OF b(1)] by (auto simp: g)
  qed
  then show "concat found = map (entry_in a) (concat (map snd gs))"
    "\<forall>(r, es) \<in> set gs. \<forall>e \<in> set es. r \<in> dom (map_of a) \<and> example_resolved e = Ok (resolved_of e)"
    by blast+
qed

text \<open>The artifacts of a successful run, over the examples and the assignment of their repositories.\<close>

lemma build_parts:
  assumes "identified xs" and "build_split_artifacts xs dataset_id policy ratios input_path source_sha = Ok (manifest, report)"
  obtains a targets where
    "assign_sizes dataset_id (repo_sizes xs) ratios = Ok a"
    "target_counts (int (length xs)) ratios = Ok targets"
    "manifest = build_manifest dataset_id ratios input_path source_sha (map (entry_in a) (sort_key ident xs)) (int (length (groups_spec xs)))"
    "build_report dataset_id ratios source_sha (map (entry_in a) (sort_key ident xs)) (groups_spec xs) a targets = Ok report"
    "\<forall>e \<in> set xs. repo_name e \<in> dom (map_of a) \<and> required_split_group e = Ok (repo_name e, task_name e) \<and> example_resolved e = Ok (resolved_of e)"
proof -
  obtain gs a found asg targets where parts: "group_examples xs = Ok gs" "assign_groups dataset_id gs ratios = Ok a"
    "mapR (group_assignments a) gs = Ok found" "sorted_by_id (\<lambda>a. Ok (as_id a)) (concat found) = Ok asg"
    "target_counts (int (length asg)) ratios = Ok targets"
    "manifest = build_manifest dataset_id ratios input_path source_sha asg (int (length gs))"
    "build_report dataset_id ratios source_sha asg gs a targets = Ok report"
    using assms(2) by (auto simp: build_split_artifacts_def bindR_eq_Inr Let_def split: if_splits)
  have gs: "gs = groups_spec xs" and reqd: "\<forall>e \<in> set xs. \<exists>t. required_split_group e = Ok (repo_name e, t)"
    using group_examples_spec [OF assms(1)] parts(1) by auto
  have members: "\<forall>(r, es) \<in> set gs. \<forall>e \<in> set es. member_ok r e"
    using assms(1) by (auto simp: gs groups_spec_def group_of_def member_ok_def identified_def)
  note all = all_assignments [OF parts(3) members]
  have perm: "mset (concat (map snd gs)) = mset xs"
    by (simp add: gs concat_groups)
  then have sets: "set (concat (map snd gs)) = set xs"
    by (rule mset_eq_setD)
  have dist: "distinct (map ident (concat (map snd gs)))"
    using assms(1) perm by (metis identified_def mset_eq_imp_distinct_iff mset_map)
  have "sorted_by_id (\<lambda>a. Ok (as_id a)) (concat found) = Ok (sort_key (\<lambda>b. text_of (as_id b)) (concat found))"
    using dist by (intro sorted_by_id_text) (auto simp: all(1) entry_in_def text_of_def comp_def)
  then have asg: "asg = map (entry_in a) (sort_key ident xs)"
    using parts(4) sort_key_perm [OF perm dist] by (simp add: all(1) sort_key_map entry_in_def text_of_def)
  have "repo_name e \<in> dom (map_of a) \<and> required_split_group e = Ok (repo_name e, task_name e) \<and> example_resolved e = Ok (resolved_of e)"
    if "e \<in> set xs" for e
  proof -
    have "e \<in> (\<Union>g \<in> set gs. set (snd g))"
      using that sets by simp
    then obtain r es where "(r, es) \<in> set gs" "e \<in> set es"
      by (metis UN_E prod.collapse)
    then have "r \<in> dom (map_of a)" "example_resolved e = Ok (resolved_of e)" "repo_name e = r"
      using all(2) members by (auto simp: member_ok_def)
    moreover have "required_split_group e = Ok (repo_name e, task_name e)"
      using reqd that by (auto simp: task_name_def)
    ultimately show ?thesis by simp
  qed
  then show thesis
    using that parts(2,5-7) by (simp add: asg gs assign_groups_def group_sizes_spec)
qed

end
