(* ===== verification/SplitProps.thy ===== *)
theory SplitProps
  imports SplitFacts
begin

text \<open>
  Properties of the dataset splits: the assignment is a function of repositories, it ignores the order of
  the examples and their outcomes, and it stays near its targets.
\<close>

section \<open>Order and outcomes\<close>

lemma groups_spec_perm:
  assumes "identified xs" and "mset xs = mset ys"
  shows "groups_spec xs = groups_spec ys"
proof -
  have "sort_key ident (group_of xs r) = sort_key ident (group_of ys r)" for r
    using assms by (intro sort_key_perm) (auto simp: group_of_def identified_def distinct_map_filter)
  then show ?thesis
    using mset_eq_setD [OF assms(2)] by (simp add: groups_spec_def)
qed

lemma identified_perm:
  assumes "identified xs" and "mset xs = mset ys"
  shows "identified ys"
proof -
  have "mset (map ident xs) = mset (map ident ys)"
    using assms(2) by simp
  from mset_eq_imp_distinct_iff [OF this] show ?thesis
    using assms(1) mset_eq_setD [OF assms(2)] by (simp add: identified_def)
qed

lemma group_examples_perm:
  assumes "identified xs" and "mset xs = mset ys" and "group_examples xs = Ok gs"
  shows "group_examples ys = Ok gs"
  using assms(3) mset_eq_setD [OF assms(2)]
  by (simp add: group_examples_spec [OF assms(1)] group_examples_spec [OF identified_perm [OF assms(1,2)]] groups_spec_perm [OF assms(1,2)])

text \<open>An example without its outcome.\<close>

definition unlabelled :: "dict \<Rightarrow> dict" where
  "unlabelled e = filter (\<lambda>(k, _). k \<noteq> ''target'') e"

lemma dget_unlabelled: "k \<noteq> ''target'' \<Longrightarrow> dget_or (unlabelled e) k d = dget_or e k d"
proof -
  assume k: "k \<noteq> ''target''"
  have "map_of (unlabelled e) k = map_of e k"
    using k unfolding unlabelled_def by (induction e) auto
  then show ?thesis by (simp add: dget_or_def)
qed

lemma unlabelled_keys:
  "ident (unlabelled e) = ident e" "repo_name (unlabelled e) = repo_name e" "task_name (unlabelled e) = task_name e"
proof -
  have r: "required_split_group (unlabelled e) = required_split_group e"
  proof -
    have "dget (unlabelled e) ''split_group'' = dget e ''split_group''" "dget (unlabelled e) ''example_id'' = dget e ''example_id''"
      by (rule dget_unlabelled; simp)+
    then show ?thesis by (simp only: required_split_group_def)
  qed
  show "ident (unlabelled e) = ident e" "repo_name (unlabelled e) = repo_name e" "task_name (unlabelled e) = task_name e"
    by (simp_all add: ident_def repo_name_def task_name_def r dget_unlabelled)
qed

definition manifest_entry :: "(string \<times> split) list \<Rightarrow> dict \<Rightarrow> json" where
  "manifest_entry a e = JObj
     [(''example_id'', JStr (ident e)), (''split'', JStr (split_name (the (map_of a (repo_name e))))), (''repo'', JStr (repo_name e)),
      (''task_id'', case task_name e of None \<Rightarrow> JNull | Some t \<Rightarrow> JStr t)]"

lemma manifest_entry_unlabelled: "manifest_entry a (unlabelled e) = manifest_entry a e"
  by (simp add: manifest_entry_def unlabelled_keys)

lemma manifest_assignments:
  "dget (build_manifest dataset_id ratios input_path source_sha (map (entry_in a) es) n) ''assignments'' = JList (map (manifest_entry a) es)"
  by (simp add: build_manifest_def dget_or_def assignment_json_def entry_in_def manifest_entry_def)

lemma unlabelled_views:
  "repo_sizes (map unlabelled xs) = repo_sizes xs"
  "map (manifest_entry a) (sort_key ident (map unlabelled xs)) = map (manifest_entry a) (sort_key ident xs)"
proof -
  have "length (group_of (map unlabelled xs) r) = length (group_of xs r)" for r
    by (simp add: group_of_def filter_map comp_def unlabelled_keys)
  moreover have "repo_name ` set (map unlabelled xs) = repo_name ` set xs"
    by (simp add: image_image unlabelled_keys)
  ultimately show "repo_sizes (map unlabelled xs) = repo_sizes xs"
    by (simp only: repo_sizes_def)
  show "map (manifest_entry a) (sort_key ident (map unlabelled xs)) = map (manifest_entry a) (sort_key ident xs)"
    by (simp add: sort_key_map unlabelled_keys comp_def manifest_entry_unlabelled)
qed

section \<open>Balance\<close>

lemma tally_examples: "tl_examples (split_counts asg s) = int (length (filter (\<lambda>a. as_split a = s) asg))"
proof (induction asg rule: rev_induct)
  case Nil
  then show ?case by (simp add: split_counts_def)
next
  case (snoc a asg)
  have "tl_examples (count_step c a s) = tl_examples (c s) + (if as_split a = s then 1 else 0)" for c
    by (simp add: count_step_def Let_def split: option.split)
  then show ?case
    using snoc by (simp add: split_counts_def)
qed

lemma ordered_groups_mset: "ordered_groups dataset_id sizes = Ok ord \<Longrightarrow> mset ord = mset sizes"
proof -
  assume "ordered_groups dataset_id sizes = Ok ord"
  then obtain keyed where k: "mapR (\<lambda>(repo, n). bindR (group_order_key dataset_id repo) (\<lambda>k. Ok (k, repo, n))) sizes = Ok keyed"
    "ord = map snd (sort_key (\<lambda>(k, repo, _). (k, repo)) keyed)"
    by (auto simp: ordered_groups_def bindR_eq_Inr)
  have "map snd keyed = sizes"
    using k(1) by (induction sizes arbitrary: keyed) (auto simp: bindR_eq_Inr)
  moreover have "mset ord = mset (map snd keyed)"
    by (simp add: k(2))
  ultimately show ?thesis by simp
qed

lemma sum_list_perm:
  fixes f :: "'a \<Rightarrow> int"
  assumes "mset xs = mset ys"
  shows "sum_list (map f (filter P xs)) = sum_list (map f (filter P ys))"
proof -
  have "sum_mset (mset (map f (filter P xs))) = sum_mset (mset (map f (filter P ys)))"
    using assms by (simp del: sum_mset_sum_list)
  then show ?thesis
    by (simp only: sum_mset_sum_list)
qed

lemma repo_sizes_keys: "map fst (repo_sizes xs) = sorted_list_of_set (repo_name ` set xs)"
  by (simp add: repo_sizes_def comp_def)

lemma assigned_balance:
  assumes "assign_sizes dataset_id (repo_sizes xs) ratios = Ok a" and "target_counts (int (length xs)) ratios = Ok targets"
    and "\<forall>s. 0 \<le> targets s" and "\<forall>r. int (length (group_of xs r)) \<le> largest"
  shows "3 * (int (length (filter (\<lambda>e. map_of a (repo_name e) = Some s) xs)) - targets s) \<le> 2 * largest"
    and "(\<Sum>s\<leftarrow>SPLITS. int (length (filter (\<lambda>e. map_of a (repo_name e) = Some s) xs)) - targets s) = 0"
proof -
  have whole: "sum_list (map snd (repo_sizes xs)) = int (length xs)"
    using sum_repo_sizes [of "\<lambda>_. True" xs] by (simp add: case_prod_beta)
  then obtain ord where ord: "ordered_groups dataset_id (repo_sizes xs) = Ok ord"
    "a = snd (foldl (assign_step targets) (\<lambda>_. 0, []) ord)"
    using assms(1,2) by (auto simp: assign_sizes_def bindR_eq_Inr)
  define counts where "counts = fst (foldl (assign_step targets) (\<lambda>_. 0, []) ord)"
  have fold: "foldl (assign_step targets) (\<lambda>_. 0, []) ord = (counts, a)"
    by (simp add: counts_def ord(2))
  note perm = ordered_groups_mset [OF ord(1)]
  have keys: "distinct (map fst ord)"
  proof -
    have "mset (map fst ord) = mset (sorted_list_of_set (repo_name ` set xs))"
      unfolding repo_sizes_keys [symmetric] using perm by simp
    then show ?thesis
      using mset_eq_imp_distinct_iff by fastforce
  qed
  have count: "counts s = int (length (filter (\<lambda>e. map_of a (repo_name e) = Some s) xs))" for s
  proof -
    have "counts s = sum_list (map snd (filter (\<lambda>(r, _). map_of a r = Some s) ord))"
      by (rule fold_counts(2) [OF keys fold])
    also have "\<dots> = sum_list (map snd (filter (\<lambda>(r, _). map_of a r = Some s) (repo_sizes xs)))"
      by (rule sum_list_perm [OF perm])
    finally show ?thesis
      by (simp add: sum_repo_sizes)
  qed
  have "targets Train + targets Validation + targets Test = int (length xs)"
    using assms(2) by (auto simp: target_counts_def bindR_eq_Inr)
  moreover have "sum_list (map snd ord) = int (length xs)"
    using whole sum_list_perm [OF perm, of snd "\<lambda>_. True"] by simp
  ultimately have start: "over_all (\<lambda>_. 0) targets + sum_list (map snd ord) = 0"
    by (simp add: over_all_def over_def)
  have l: "0 \<le> largest"
    using assms(4) by (metis of_nat_0_le_iff order_trans)
  have sizes: "\<forall>(r, n) \<in> set ord. 0 \<le> n \<and> n \<le> largest"
    using assms(4) mset_eq_setD [OF perm] by (auto simp: repo_sizes_def)
  have init: "\<forall>s. 3 * over (\<lambda>_. 0) targets s \<le> 2 * largest"
  proof
    fix s show "3 * over (\<lambda>_. 0) targets s \<le> 2 * largest"
      using assms(3) [rule_format, of s] l by (simp add: over_def)
  qed
  from fold_balance [OF sizes start init, of "[]"]
  have bal: "over_all counts targets = 0" "\<And>s. 3 * over counts targets s \<le> 2 * largest"
    by (simp_all add: fold)
  show "3 * (int (length (filter (\<lambda>e. map_of a (repo_name e) = Some s) xs)) - targets s) \<le> 2 * largest"
    using bal(2) [of s] by (simp add: over_def count)
  show "(\<Sum>s\<leftarrow>SPLITS. int (length (filter (\<lambda>e. map_of a (repo_name e) = Some s) xs)) - targets s) = 0"
    using bal(1) by (simp add: over_all_def over_def count SPLITS_def)
qed

section \<open>Runs that succeed\<close>

definition splittable :: "string \<Rightarrow> dict list \<Rightarrow> bool" where
  "splittable dataset_id xs \<longleftrightarrow> identified xs \<and>
     (\<forall>e \<in> set xs. required_split_group e = Ok (repo_name e, task_name e) \<and> example_resolved e = Ok (resolved_of e) \<and>
        valid_utf8 (dataset_id @ ''|repo|'' @ repo_name e))"

lemma distinct_ids_total: "\<exists>n. distinct_ids seen (map JStr ss) = Ok n"
  by (induction ss arbitrary: seen) auto

lemma ordered_total:
  assumes "\<forall>(r, _) \<in> set sizes. valid_utf8 (dataset_id @ ''|repo|'' @ r)"
  shows "\<exists>ord. ordered_groups dataset_id sizes = Ok ord"
proof -
  have "\<exists>keyed. mapR (\<lambda>(repo, n). bindR (group_order_key dataset_id repo) (\<lambda>k. Ok (k, repo, n))) sizes = Ok keyed"
    using assms by (intro mapR_ex) (auto simp: group_order_key_def utf8_encode_def)
  then show ?thesis
    by (auto simp: ordered_groups_def)
qed

lemma assigned_repos:
  assumes "assign_sizes dataset_id (repo_sizes xs) ratios = Ok a"
  shows "dom (map_of a) = repo_name ` set xs"
proof -
  obtain targets ord where ord: "ordered_groups dataset_id (repo_sizes xs) = Ok ord"
    "a = snd (foldl (assign_step targets) (\<lambda>_. 0, []) ord)"
    using assms by (auto simp: assign_sizes_def bindR_eq_Inr)
  have perm: "mset (map fst ord) = mset (sorted_list_of_set (repo_name ` set xs))"
    unfolding repo_sizes_keys [symmetric] using ordered_groups_mset [OF ord(1)] by simp
  then have "distinct (map fst ord)"
    using mset_eq_imp_distinct_iff by fastforce
  then have "dom (map_of a) = fst ` set ord"
    using fold_counts(1) [of ord targets "fst (foldl (assign_step targets) (\<lambda>_. 0, []) ord)" a] by (simp add: ord(2))
  then show ?thesis
    using mset_eq_setD [OF perm] by simp
qed

lemma splits_total:
  assumes ok: "splittable dataset_id xs" and targets: "target_counts (int (length xs)) ratios = Ok targets"
  shows "\<exists>m r. build_split_artifacts xs dataset_id DEFAULT_POLICY ratios input_path source_sha = Ok (m, r)"
proof -
  have xs: "identified xs" "\<forall>e \<in> set xs. required_split_group e = Ok (repo_name e, task_name e) \<and> example_resolved e = Ok (resolved_of e)"
    using ok by (auto simp: splittable_def)
  have gs: "group_examples xs = Ok (groups_spec xs)"
    using group_examples_spec [OF xs(1)] xs(2) by blast
  have whole: "sum_list (map snd (repo_sizes xs)) = int (length xs)"
    using sum_repo_sizes [of "\<lambda>_. True" xs] by (simp add: case_prod_beta)
  have "\<exists>ord. ordered_groups dataset_id (repo_sizes xs) = Ok ord"
    using ok by (intro ordered_total) (auto simp: repo_sizes_def splittable_def)
  then obtain a where a: "assign_sizes dataset_id (repo_sizes xs) ratios = Ok a"
    using targets by (auto simp: assign_sizes_def whole)
  have dom: "r \<in> dom (map_of a)" if "(r, es) \<in> set (groups_spec xs)" for r es
    using that assigned_repos [OF a] by (auto simp: groups_spec_def)
  have members: "\<forall>(r, es) \<in> set (groups_spec xs). \<forall>e \<in> set es. member_ok r e \<and> e \<in> set xs"
    using xs(1) by (auto simp: groups_spec_def group_of_def member_ok_def identified_def)
  have "\<exists>b. group_assignments a (r, es) = Ok b" if "(r, es) \<in> set (groups_spec xs)" for r es
  proof -
    note entry = that
    obtain s where s: "map_of a r = Some s"
      using dom [OF entry] by auto
    have "\<exists>b. mapR (example_assignment r s) es = Ok b"
      using members entry xs(2) by (intro mapR_ex) (fastforce simp: example_assignment_def member_ok_def example_key_def)
    then show ?thesis
      by (simp add: group_assignments_def s)
  qed
  then obtain found where found: "mapR (group_assignments a) (groups_spec xs) = Ok found"
    using mapR_ex [of "groups_spec xs" "group_assignments a"] by auto
  have parts: "concat found = map (entry_in a) (concat (map snd (groups_spec xs)))"
    using members by (intro all_assignments(1) [OF found]) auto
  have dist: "distinct (map ident (concat (map snd (groups_spec xs))))"
    using xs(1) concat_groups [of xs] by (metis identified_def mset_eq_imp_distinct_iff mset_map)
  have sorted: "sorted_by_id (\<lambda>a. Ok (as_id a)) (concat found) = Ok (map (entry_in a) (sort_key ident xs))"
  proof -
    have "sorted_by_id (\<lambda>a. Ok (as_id a)) (concat found) = Ok (sort_key (\<lambda>b. text_of (as_id b)) (concat found))"
      using dist by (intro sorted_by_id_text) (auto simp: parts entry_in_def text_of_def comp_def)
    then show ?thesis
      using sort_key_perm [OF concat_groups dist] by (simp add: parts sort_key_map entry_in_def text_of_def)
  qed
  have "\<exists>st. repo_stats a (r, es) = Ok st" if "(r, es) \<in> set (groups_spec xs)" for r es
  proof -
    note entry = that
    obtain s where s: "map_of a r = Some s"
      using dom [OF entry] by auto
    have "\<exists>b. mapR example_resolved es = Ok b"
      using members entry xs(2) by (intro mapR_ex) fastforce
    then show ?thesis
      by (auto simp: repo_stats_def s)
  qed
  then obtain stats where "mapR (repo_stats a) (sort_key fst (groups_spec xs)) = Ok stats"
    using mapR_ex [of "sort_key fst (groups_spec xs)" "repo_stats a"] by auto
  moreover obtain n where "distinct_ids [] (map as_id (map (entry_in a) (sort_key ident xs))) = Ok n"
    using distinct_ids_total [of "[]" "map ident (sort_key ident xs)"] by (auto simp: comp_def entry_in_def)
  ultimately have "\<exists>r. build_report dataset_id ratios source_sha (map (entry_in a) (sort_key ident xs)) (groups_spec xs) a targets = Ok r"
    by (simp add: build_report_def group_stats_def Let_def)
  then show ?thesis
    using targets found by (auto simp: build_split_artifacts_def gs assign_groups_def group_sizes_spec a sorted Let_def)
qed

section \<open>A sample dataset\<close>

definition sample_example :: "string \<Rightarrow> string \<Rightarrow> bool \<Rightarrow> dict" where
  "sample_example i repo resolved =
     [(''dataset_id'', JStr ''d''), (''example_id'', JStr i), (''split_group'', JObj [(''repo'', JStr repo)]),
      (''target'', JObj [(''resolved'', JBool resolved)])]"

definition sample_examples :: "bool \<Rightarrow> dict list" where
  "sample_examples b = [sample_example ''e2'' ''r1'' b, sample_example ''e1'' ''r2'' False, sample_example ''e3'' ''r1'' True]"

definition sample_ratios :: "split \<Rightarrow> flt" where
  "sample_ratios s = (case s of Train \<Rightarrow> Num (1 / 2) | Validation \<Rightarrow> Num (1 / 4) | Test \<Rightarrow> Num (1 / 4))"

lemma sample_example_views [simp]:
  assumes "repo \<noteq> []"
  shows "required_split_group (sample_example i repo b) = Ok (repo, None)"
    and "repo_name (sample_example i repo b) = repo" and "task_name (sample_example i repo b) = None"
    and "ident (sample_example i repo b) = i" and "map_of (sample_example i repo b) ''example_id'' = Some (JStr i)"
    and "example_resolved (sample_example i repo b) = Ok b" and "resolved_of (sample_example i repo b) = b"
proof -
  show r: "required_split_group (sample_example i repo b) = Ok (repo, None)"
    using assms by (simp add: sample_example_def required_split_group_def py_or_def truthy_def jget_or_def dget_or_def)
  show e: "example_resolved (sample_example i repo b) = Ok b"
    by (simp add: sample_example_def example_resolved_def py_or_def truthy_def jget_or_def dget_or_def)
  show "repo_name (sample_example i repo b) = repo" "task_name (sample_example i repo b) = None" "resolved_of (sample_example i repo b) = b"
    by (simp_all add: repo_name_def task_name_def resolved_of_def r e)
  show "ident (sample_example i repo b) = i" "map_of (sample_example i repo b) ''example_id'' = Some (JStr i)"
    by (simp_all add: sample_example_def ident_def text_of_def dget_or_def)
qed

lemma sample_splittable: "splittable ''d'' (sample_examples b)"
  by (simp add: splittable_def identified_def sample_examples_def)

lemma sample_targets: "\<exists>targets. target_counts 3 sample_ratios = Ok targets \<and> targets Train = 2 \<and> targets Validation = 1 \<and> targets Test = 0"
proof -
  have "case target_counts 3 sample_ratios of Inl _ \<Rightarrow> False | Inr t \<Rightarrow> t Train = 2 \<and> t Validation = 1 \<and> t Test = 0"
    by code_simp
  then show ?thesis by (auto split: sum.splits)
qed

lemma sample_length: "int (length (sample_examples b)) = 3"
  by (simp add: sample_examples_def)

lemma sample_splits: "\<exists>m r. build_split_artifacts (sample_examples b) ''d'' DEFAULT_POLICY sample_ratios ''in'' ''sha'' = Ok (m, r)"
  using splits_total [OF sample_splittable] sample_targets sample_length by metis

text \<open>Rounding two halves of three examples up leaves less than nothing for the last split.\<close>

lemma negative_target:
  "\<exists>targets. target_counts 3 (\<lambda>s. case s of Train \<Rightarrow> Num (1 / 2) | Validation \<Rightarrow> Num (1 / 2) | Test \<Rightarrow> Num 0) = Ok targets \<and>
     targets Test = -1"
proof -
  have "case target_counts 3 (\<lambda>s. case s of Train \<Rightarrow> Num (1 / 2) | Validation \<Rightarrow> Num (1 / 2) | Test \<Rightarrow> Num 0) of
      Inl _ \<Rightarrow> False | Inr t \<Rightarrow> t Test = -1"
    by code_simp
  then show ?thesis by (auto split: sum.splits)
qed

section \<open>Properties\<close>

text \<open>
  C17. The manifest lists every example exactly once, in the order of identities, and the split of an
  example is a function of its repository alone, so no repository is ever in two splits; that function
  is computed from the dataset's name, the ratios and the sizes of the repositories.
\<close>

theorem splits_by_repository:
  assumes "identified xs" and "build_split_artifacts xs dataset_id policy ratios input_path source_sha = Ok (manifest, report)"
  shows "\<exists>a. assign_sizes dataset_id (repo_sizes xs) ratios = Ok a \<and> repo_name ` set xs \<subseteq> dom (map_of a) \<and>
    dget manifest ''assignments'' = JList (map (manifest_entry a) (sort_key ident xs))"
  using assms
proof (rule build_parts)
  fix a targets
  assume "assign_sizes dataset_id (repo_sizes xs) ratios = Ok a"
    "manifest = build_manifest dataset_id ratios input_path source_sha (map (entry_in a) (sort_key ident xs)) (int (length (groups_spec xs)))"
    "\<forall>e \<in> set xs. repo_name e \<in> dom (map_of a) \<and> required_split_group e = Ok (repo_name e, task_name e) \<and> example_resolved e = Ok (resolved_of e)"
  then show ?thesis
    using manifest_assignments by (intro exI [of _ a]) auto
qed

theorem splits_by_repository_witness:
  "\<exists>m r a. build_split_artifacts (sample_examples True) ''d'' DEFAULT_POLICY sample_ratios ''in'' ''sha'' = Ok (m, r) \<and>
     dget m ''assignments'' = JList (map (manifest_entry a) (sort_key ident (sample_examples True)))"
proof -
  obtain m r where "build_split_artifacts (sample_examples True) ''d'' DEFAULT_POLICY sample_ratios ''in'' ''sha'' = Ok (m, r)"
    using sample_splits by blast
  with splits_by_repository [OF _ this] sample_splittable show ?thesis
    by (auto simp: splittable_def)
qed

text \<open>
  C18. The artifacts do not depend on the order of the examples: any rearrangement of them gives the same
  manifest and the same report.
\<close>

theorem splits_ignore_order:
  assumes "identified xs" and "mset xs = mset ys"
    and "build_split_artifacts xs dataset_id policy ratios input_path source_sha = Ok artifacts"
  shows "build_split_artifacts ys dataset_id policy ratios input_path source_sha = Ok artifacts"
proof -
  obtain gs where gs: "group_examples xs = Ok gs"
    using assms(3) by (auto simp: build_split_artifacts_def bindR_eq_Inr split: if_splits)
  have gs': "group_examples ys = Ok gs"
    by (rule group_examples_perm [OF assms(1,2) gs])
  have "build_split_artifacts ys dataset_id policy ratios input_path source_sha = build_split_artifacts xs dataset_id policy ratios input_path source_sha"
    by (simp only: build_split_artifacts_def gs gs')
  then show ?thesis
    by (simp only: assms(3))
qed

theorem splits_ignore_order_witness:
  "\<exists>artifacts. build_split_artifacts (sample_examples True) ''d'' DEFAULT_POLICY sample_ratios ''in'' ''sha'' = Ok artifacts \<and>
     build_split_artifacts (rev (sample_examples True)) ''d'' DEFAULT_POLICY sample_ratios ''in'' ''sha'' = Ok artifacts"
proof -
  obtain m r where run: "build_split_artifacts (sample_examples True) ''d'' DEFAULT_POLICY sample_ratios ''in'' ''sha'' = Ok (m, r)"
    using sample_splits by blast
  have "identified (sample_examples True)"
    using sample_splittable by (simp add: splittable_def)
  from splits_ignore_order [OF this _ run, of "rev (sample_examples True)"] run show ?thesis
    by auto
qed

text \<open>
  C19. Outcomes do not influence the assignment: two datasets that differ only in the targets of their
  examples get the same assignments, whatever else the artifacts report.
\<close>

theorem splits_ignore_outcomes:
  assumes "identified xs" and "identified ys" and "map unlabelled xs = map unlabelled ys"
    and "build_split_artifacts xs dataset_id policy ratios input_path source_sha = Ok (m, r)"
    and "build_split_artifacts ys dataset_id policy ratios input_path source_sha' = Ok (m', r')"
  shows "dget m ''assignments'' = dget m' ''assignments''"
proof -
  have sizes: "repo_sizes xs = repo_sizes ys"
    using unlabelled_views(1) [of xs] unlabelled_views(1) [of ys] assms(3) by simp
  from assms(1,4) obtain a where a: "assign_sizes dataset_id (repo_sizes xs) ratios = Ok a"
    "dget m ''assignments'' = JList (map (manifest_entry a) (sort_key ident xs))"
    by (rule build_parts) (auto simp: manifest_assignments)
  from assms(2,5) obtain b where b: "assign_sizes dataset_id (repo_sizes ys) ratios = Ok b"
    "dget m' ''assignments'' = JList (map (manifest_entry b) (sort_key ident ys))"
    by (rule build_parts) (auto simp: manifest_assignments)
  show ?thesis
    using a b sizes unlabelled_views(2) [of a xs] unlabelled_views(2) [of a ys] assms(3) by simp
qed

theorem splits_ignore_outcomes_witness:
  "\<exists>m r m' r'. build_split_artifacts (sample_examples True) ''d'' DEFAULT_POLICY sample_ratios ''in'' ''sha'' = Ok (m, r) \<and>
     build_split_artifacts (sample_examples False) ''d'' DEFAULT_POLICY sample_ratios ''in'' ''sha'' = Ok (m', r') \<and>
     dget m ''assignments'' = dget m' ''assignments''"
proof -
  obtain m r m' r' where run: "build_split_artifacts (sample_examples True) ''d'' DEFAULT_POLICY sample_ratios ''in'' ''sha'' = Ok (m, r)"
    "build_split_artifacts (sample_examples False) ''d'' DEFAULT_POLICY sample_ratios ''in'' ''sha'' = Ok (m', r')"
    using sample_splits by metis
  have "identified (sample_examples b)" for b
    using sample_splittable by (simp add: splittable_def)
  moreover have "map unlabelled (sample_examples True) = map unlabelled (sample_examples False)"
    by (simp add: sample_examples_def sample_example_def unlabelled_def)
  ultimately show ?thesis
    using splits_ignore_outcomes [OF _ _ _ run] run by blast
qed

text \<open>
  C20. The greedy assignment stays near its targets: while no target is negative, a split has at most two
  thirds of the largest repository more than its target and at most four thirds of it less.
\<close>

theorem splits_near_targets:
  assumes "identified xs" and "build_split_artifacts xs dataset_id policy ratios input_path source_sha = Ok (manifest, report)"
    and "target_counts (int (length xs)) ratios = Ok targets" and "\<forall>s. 0 \<le> targets s"
    and "\<forall>r. int (length (group_of xs r)) \<le> largest"
  shows "\<exists>tallies. dget manifest ''split_counts'' = by_split (\<lambda>s. tally_json (tallies s)) \<and>
    (\<forall>s. 3 * (tl_examples (tallies s) - targets s) \<le> 2 * largest \<and> - 4 * largest \<le> 3 * (tl_examples (tallies s) - targets s))"
  using assms(1,2)
proof (rule build_parts)
  fix a
  assume a: "assign_sizes dataset_id (repo_sizes xs) ratios = Ok a"
    and m: "manifest = build_manifest dataset_id ratios input_path source_sha (map (entry_in a) (sort_key ident xs)) (int (length (groups_spec xs)))"
    and dom: "\<forall>e \<in> set xs. repo_name e \<in> dom (map_of a) \<and> required_split_group e = Ok (repo_name e, task_name e) \<and> example_resolved e = Ok (resolved_of e)"
  define tallies where "tallies = split_counts (map (entry_in a) (sort_key ident xs))"
  define d where "d s = tl_examples (tallies s) - targets s" for s
  have count: "tl_examples (tallies s) = int (length (filter (\<lambda>e. map_of a (repo_name e) = Some s) xs))" for s
  proof -
    have "length (filter (\<lambda>b. as_split b = s) (map (entry_in a) (sort_key ident xs))) = length (filter (\<lambda>e. the (map_of a (repo_name e)) = s) (sort_key ident xs))"
      by (simp add: filter_map comp_def entry_in_def)
    also have "\<dots> = length (filter (\<lambda>e. the (map_of a (repo_name e)) = s) xs)"
      by (simp flip: size_mset)
    also have "\<dots> = length (filter (\<lambda>e. map_of a (repo_name e) = Some s) xs)"
      using dom by (intro arg_cong [of _ _ length] filter_cong) auto
    finally show ?thesis
      by (simp add: tallies_def tally_examples)
  qed
  have upper: "3 * d s \<le> 2 * largest" for s
    using assigned_balance(1) [OF a assms(3-5)] by (simp add: d_def count)
  moreover have "d Train + d Validation + d Test = 0"
    using assigned_balance(2) [OF a assms(3-5)] by (simp add: d_def count SPLITS_def)
  ultimately have "- 4 * largest \<le> 3 * d Train" "- 4 * largest \<le> 3 * d Validation" "- 4 * largest \<le> 3 * d Test"
    using upper [of Train] upper [of Validation] upper [of Test] by linarith+
  then have "- 4 * largest \<le> 3 * d s" for s
    by (cases s) simp_all
  then show ?thesis
    using upper by (intro exI [of _ tallies]) (simp add: m build_manifest_def dget_or_def tallies_def d_def)
qed

theorem splits_near_targets_witness:
  "\<exists>m r tallies. build_split_artifacts (sample_examples True) ''d'' DEFAULT_POLICY sample_ratios ''in'' ''sha'' = Ok (m, r) \<and>
     dget m ''split_counts'' = by_split (\<lambda>s. tally_json (tallies s)) \<and> 3 * tl_examples (tallies Test) \<le> 4"
proof -
  obtain m r where run: "build_split_artifacts (sample_examples True) ''d'' DEFAULT_POLICY sample_ratios ''in'' ''sha'' = Ok (m, r)"
    using sample_splits by blast
  obtain targets where t: "target_counts (int (length (sample_examples True))) sample_ratios = Ok targets"
    "targets Train = 2" "targets Validation = 1" "targets Test = 0"
    using sample_targets by (auto simp: sample_length)
  have "0 \<le> targets s" for s
    by (cases s) (simp_all add: t)
  moreover have "int (length (group_of (sample_examples True) r)) \<le> 2" for r
    by (cases "r = ''r1''"; cases "r = ''r2''") (simp_all add: group_of_def sample_examples_def)
  moreover have "identified (sample_examples True)"
    using sample_splittable by (simp add: splittable_def)
  ultimately obtain tallies where "dget m ''split_counts'' = by_split (\<lambda>s. tally_json (tallies s))"
    "3 * (tl_examples (tallies Test) - targets Test) \<le> 2 * 2"
    using splits_near_targets [OF _ run t(1), of 2] by blast
  then show ?thesis
    using run t(4) by auto
qed

end
