(* ===== verification/Guardrails.thy ===== *)
theory Guardrails
  imports PyCase Grounding
begin

text \<open>
  Governance of the first training dataset (\<open>training/governance.py\<close>): which input fields a model may see,
  the scan of an example's input for label fields, and the manifest a run must present before it starts.
  Text is code points here; a path is read and written as UTF-8.
\<close>

section \<open>Fields\<close>

definition DATASET_1_ID :: string where "DATASET_1_ID = ''swe-gym-openhands-sampled''"
definition DATASET_1_TASK_TYPE :: string where "DATASET_1_TASK_TYPE = ''RISK_PREDICTION''"
definition TRAINING_GOVERNANCE_VERSION :: string where "TRAINING_GOVERNANCE_VERSION = ''pneuma-training-governance/0.1.0''"
definition FEATURE_ALLOWLIST_SCHEMA_VERSION :: string where "FEATURE_ALLOWLIST_SCHEMA_VERSION = ''0.1.0''"
definition RUN_MANIFEST_SCHEMA_VERSION :: string where "RUN_MANIFEST_SCHEMA_VERSION = ''0.1.0''"
definition APPROVED_ARTIFACT_ROOT_PREFIX :: string where
  "APPROVED_ARTIFACT_ROOT_PREFIX = ''build/training_runs/openhands-sampled/''"

definition DEFAULT_ALLOWED_FEATURE_PATHS :: "string list" where
  "DEFAULT_ALLOWED_FEATURE_PATHS =
     [''input.prefix'', ''input.trajectory.num_messages'', ''input.trajectory.num_agent_steps'',
      ''input.observable_summary.tool_call_count'', ''input.observable_summary.tool_counts.*'',
      ''input.observable_summary.retry_count_max'', ''input.observable_summary.retry_count_mean'',
      ''input.observable_summary.steps_retry_ge2'', ''input.observable_summary.strategy_switches_final'',
      ''input.observable_summary.error_observation_count'', ''input.observable_summary.observation_count'',
      ''input.observable_summary.error_density'', ''input.observable_summary.assistant_text_length_mean'',
      ''input.observable_summary.assistant_text_length_max'', ''input.observable_summary.observation_length_mean'',
      ''input.observable_summary.observation_length_max'', ''input.objective.present'', ''input.objective.mode'',
      ''input.feature_refs.*'']"

definition SOURCE_METADATA_FEATURE_PATHS :: "string list" where
  "SOURCE_METADATA_FEATURE_PATHS =
     [''input.trace_id'', ''input.run_id'', ''input.task_id'', ''input.repo'', ''input.objective.text_sha256'',
      ''input.objective.text_length'']"

definition BLOCKED_FIELD_TOKENS :: "string list" where
  "BLOCKED_FIELD_TOKENS =
     [''target'', ''resolved'', ''outcome'', ''labels'', ''gold'', ''oracle'', ''fail_to_pass'', ''pass_to_pass'', ''patch'',
      ''test_patch'', ''verdict'', ''verifier_answers'', ''reference_supervision'', ''final_outcome_fields'',
      ''raw_objective_text'', ''raw_issue_text'']"

definition BLOCKED_EXACT_FEATURE_PATHS :: "string list" where
  "BLOCKED_EXACT_FEATURE_PATHS = [''input.objective.text'', ''input.raw_objective_text'', ''input.raw_issue_text'']"

section \<open>Paths\<close>

abbreviation pts :: "string \<Rightarrow> nat list" where
  "pts s \<equiv> map byte s"

text \<open>\<open>if v.startswith(t): v = v[len(t):]\<close>\<close>

definition drop_start :: "string \<Rightarrow> nat list \<Rightarrow> nat list" where
  "drop_start t ns = (if take (length t) ns = pts t then drop (length t) ns else ns)"

text \<open>\<open>v.replace("[*]", ".*")\<close> and \<open>re.sub(r"\[\d+\]", ".*", v)\<close>\<close>

fun star_markers :: "nat list \<Rightarrow> nat list" where
  "star_markers [] = []"
| "star_markers (n # ns) =
     (if n = 91 \<and> take 2 ns = [42, 93] then 46 # 42 # star_markers (drop 2 ns) else n # star_markers ns)"

function index_markers :: "nat list \<Rightarrow> nat list" where
  "index_markers [] = []"
| "index_markers (n # ns) =
     (if n = 91 \<and> takeWhile digit_point ns \<noteq> [] \<and> take 1 (dropWhile digit_point ns) = [93]
      then 46 # 42 # index_markers (drop 1 (dropWhile digit_point ns))
      else n # index_markers ns)"
  by pat_completeness auto
termination
  by (relation "measure length") (auto simp: less_Suc_eq_le intro: order_trans [OF diff_le_self length_dropWhile_le])

definition strip_dots :: "nat list \<Rightarrow> nat list" where
  "strip_dots ns = rev (dropWhile (\<lambda>n. n = 46) (rev (dropWhile (\<lambda>n. n = 46) ns)))"

definition path_points :: "nat list \<Rightarrow> nat list" where
  "path_points ns =
     (let v = drop_start ''/'' (drop_start ''#/'' (strip_points ns));
          v = (if 47 \<in> set v \<and> 46 \<notin> set v then map (\<lambda>n. if n = 47 then 46 else n) v else v);
          v = drop_start ''example.'' (drop_start ''$.'' v) in
      strip_dots (index_markers (star_markers v)))"

definition normalize_feature_path :: "string \<Rightarrow> string" where
  "normalize_feature_path path = utf8_text (path_points (points path))"

definition leaf_child :: "string \<Rightarrow> string \<Rightarrow> string" where
  "leaf_child p key = (if p \<noteq> [] then p @ ''.'' @ key else key)"

function iter_leaf_paths :: "json \<Rightarrow> string \<Rightarrow> string list" where
  "iter_leaf_paths value p =
     (case value of
        JObj d \<Rightarrow> concat (map (\<lambda>(key, child). iter_leaf_paths child (leaf_child p key)) (sort_key fst d))
      | JList xs \<Rightarrow> concat (map (\<lambda>item. iter_leaf_paths item (if p \<noteq> [] then p @ ''.*'' else ''*'')) xs)
      | _ \<Rightarrow> [p])"
  by pat_completeness auto
termination
  by (relation "measure (\<lambda>(v, p). size v)") (auto simp: less_Suc_eq_le intro: size_list_estimation' trans_le_add2)

declare iter_leaf_paths.simps [simp del]

definition matches_pattern :: "string \<Rightarrow> string \<Rightarrow> bool" where
  "matches_pattern pattern path =
     (if drop (length pattern - 2) pattern = ''.*'' \<and> 2 \<le> length pattern
      then (let p = take (length pattern - 2) pattern in path = p \<or> take (length p + 1) path = p @ ''.'')
      else path = pattern)"

definition matches_any :: "string list \<Rightarrow> string \<Rightarrow> bool" where
  "matches_any patterns path = list_ex (\<lambda>pattern. matches_pattern pattern path) patterns"

fun split_dots :: "string \<Rightarrow> string \<Rightarrow> string list" where
  "split_dots acc [] = [rev acc]"
| "split_dots acc (c # cs) = (if c = CHR ''.'' then rev acc # split_dots [] cs else split_dots (c # acc) cs)"

text \<open>The set of tokens, listed in order.\<close>

definition path_tokens :: "string \<Rightarrow> string list" where
  "path_tokens path = sort (remdups (filter (\<lambda>part. part \<noteq> [] \<and> part \<noteq> ''*'') (split_dots [] path)))"

section \<open>Checks\<close>

text \<open>A finding names its blocked tokens only when there is a reason to.\<close>

record guard_finding =
  gf_path :: string
  gf_code :: string
  gf_message :: string
  gf_blocked :: "string list option"

abbreviation note_finding :: "string \<Rightarrow> string \<Rightarrow> string \<Rightarrow> guard_finding" where
  "note_finding path code message \<equiv> \<lparr>gf_path = path, gf_code = code, gf_message = message, gf_blocked = None\<rparr>"

definition blocked_in :: "string list \<Rightarrow> string \<Rightarrow> string list" where
  "blocked_in tokens path = filter (\<lambda>t. t \<in> set tokens) (path_tokens path)"

definition check_feature_path :: "string list \<Rightarrow> string list \<Rightarrow> bool \<Rightarrow> string \<Rightarrow> guard_finding list" where
  "check_feature_path allowed source_metadata allow_source_metadata raw =
     (let path = normalize_feature_path raw; blocked = blocked_in BLOCKED_FIELD_TOKENS path in
      if path \<in> set BLOCKED_EXACT_FEATURE_PATHS \<or> blocked \<noteq> []
      then [\<lparr>gf_path = path, gf_code = ''blocked_field'',
             gf_message = ''feature path touches a target, oracle, raw, or label field'', gf_blocked = Some blocked\<rparr>]
      else if matches_any source_metadata path \<and> \<not> allow_source_metadata
      then [note_finding path ''source_metadata_requires_approval''
             ''source metadata may only be used when the run manifest approves it'']
      else if matches_any allowed path then []
      else if allow_source_metadata \<and> matches_any source_metadata path then []
      else [note_finding path ''not_allowlisted'' ''feature path is not in the Dataset #1 feature allowlist''])"

definition check_feature_allowlist :: "string list \<Rightarrow> bool \<Rightarrow> string list \<Rightarrow> guard_finding list" where
  "check_feature_allowlist feature_paths allow_source_metadata allowed_paths =
     (let allowed = map normalize_feature_path allowed_paths;
          source_metadata = map normalize_feature_path SOURCE_METADATA_FEATURE_PATHS in
      concat (map (check_feature_path allowed source_metadata allow_source_metadata) feature_paths))"

definition check_example_input_leakage :: "dict \<Rightarrow> guard_finding list" where
  "check_example_input_leakage example =
     filter (\<lambda>finding. gf_code finding = ''blocked_field'')
       (check_feature_allowlist (iter_leaf_paths (py_or (dget example ''input'') (JObj [])) ''input'') False
          DEFAULT_ALLOWED_FEATURE_PATHS)"

definition assert_feature_allowlist :: "string list \<Rightarrow> bool \<Rightarrow> unit result" where
  "assert_feature_allowlist feature_paths allow_source_metadata =
     (let findings = check_feature_allowlist feature_paths allow_source_metadata DEFAULT_ALLOWED_FEATURE_PATHS in
      if findings \<noteq> []
      then Raise (ValueError (''feature leakage check failed: '' @
             join ''; '' (map (\<lambda>item. gf_path item @ '':'' @ gf_code item) findings)))
      else Ok ())"

section \<open>Run manifests\<close>

definition REQUIRED_PRE_RUN_MANIFEST_FIELDS :: "string list" where
  "REQUIRED_PRE_RUN_MANIFEST_FIELDS =
     [''run_manifest_schema_version'', ''dataset_id'', ''task_type'', ''training_authorization'', ''artifact_root'',
      ''feature_allowlist_version'', ''approved_feature_paths'', ''source_metadata_approved'',
      ''feature_extractor_version'', ''model_type'', ''hyperparameters'', ''random_seed'', ''class_weighting_strategy'',
      ''planned_metrics'', ''blocked_feature_checks'', ''runtime_integration'', ''training_weight'']"

definition REQUIRED_MATERIALIZED_HASH_FIELDS :: "string list" where
  "REQUIRED_MATERIALIZED_HASH_FIELDS = [''input_examples_sha256'', ''split_manifest_sha256'']"

definition REQUIRED_PLANNED_METRICS :: "string list" where
  "REQUIRED_PLANNED_METRICS =
     [''AUROC'', ''AUPRC'', ''Brier score'', ''ECE'', ''per_repo_breakdown'', ''baseline_lift_over_constant_predictor'']"

definition NON_GOALS :: "string list" where
  "NON_GOALS =
     [''no_training_in_this_pass'', ''no_calibration_in_this_pass'', ''no_runtime_integration'', ''no_j_space'',
      ''no_swe_chat'', ''no_consciousness_claims'', ''no_moral_patienthood_claims'']"

definition strings :: "string list \<Rightarrow> json" where
  "strings xs = JList (map JStr xs)"

definition build_pre_run_manifest_template :: dict where
  "build_pre_run_manifest_template =
     [(''run_manifest_schema_version'', JStr RUN_MANIFEST_SCHEMA_VERSION),
      (''governance_version'', JStr TRAINING_GOVERNANCE_VERSION), (''dataset_id'', JStr DATASET_1_ID),
      (''task_type'', JStr DATASET_1_TASK_TYPE), (''training_authorization'', JStr ''not_authorized''),
      (''artifact_root'', JStr ''build/training_runs/openhands-sampled/risk-baseline-v0/''),
      (''input_examples_sha256'', JNull), (''split_manifest_sha256'', JNull),
      (''feature_allowlist_version'', JStr FEATURE_ALLOWLIST_SCHEMA_VERSION),
      (''approved_feature_paths'', strings DEFAULT_ALLOWED_FEATURE_PATHS), (''source_metadata_approved'', JBool False),
      (''feature_extractor_version'', JNull), (''model_type'', JNull), (''hyperparameters'', JObj []), (''random_seed'', JNull),
      (''class_weighting_strategy'', JStr ''not_selected''), (''planned_metrics'', strings REQUIRED_PLANNED_METRICS),
      (''blocked_feature_checks'', JObj
         [(''feature_allowlist'', JStr ''required_before_fit''),
          (''target_oracle_raw_field_scan'', JStr ''required_before_fit''),
          (''source_metadata_approval'', JStr ''required_before_fit'')]),
      (''runtime_integration'', JStr ''none''), (''training_weight'', JFloat (Num 0)), (''output_artifact_hashes'', JObj []),
      (''non_goals'', strings NON_GOALS)]"

definition is_sha256 :: "json \<Rightarrow> bool" where
  "is_sha256 v =
     (case v of
        JStr s \<Rightarrow>
          (let t = (if take 7 s = ''sha256:'' then drop 7 s else s) in
           length t = 64 \<and> list_all (\<lambda>c. c \<in> set ''0123456789abcdef'') t)
      | _ \<Rightarrow> False)"

definition missing_fields :: "string list \<Rightarrow> string \<Rightarrow> dict \<Rightarrow> guard_finding list" where
  "missing_fields required message manifest =
     map (\<lambda>field. note_finding field ''missing_required_field'' message)
       (filter (\<lambda>field. field \<notin> set (map fst manifest)) required)"

text \<open>A field that must equal a fixed value.\<close>

definition expect_field :: "dict \<Rightarrow> string \<Rightarrow> json \<Rightarrow> string \<Rightarrow> string \<Rightarrow> guard_finding list" where
  "expect_field manifest field v code message =
     (if \<not> py_eq (dget manifest field) v then [note_finding field code message] else [])"

definition check_artifact_root :: "dict \<Rightarrow> guard_finding list" where
  "check_artifact_root manifest =
     (let root = replace_str [CHR 0x5C] ''/'' (py_str (py_or (dget manifest ''artifact_root'') (JStr []))) in
      (if take (length APPROVED_ARTIFACT_ROOT_PREFIX) root \<noteq> APPROVED_ARTIFACT_ROOT_PREFIX
       then [note_finding ''artifact_root'' ''artifact_root_not_approved''
               ''run artifacts must stay under the approved repo-local build root''] else []) @
      (if substring ''C:/pneuma-data'' root
       then [note_finding ''artifact_root'' ''off_repo_artifact_root''
               ''run artifacts must not be written to C:/pneuma-data''] else []))"

definition check_metrics :: "dict \<Rightarrow> guard_finding list result" where
  "check_metrics manifest =
     bindR (filterR (\<lambda>metric. bindR (py_in (JStr metric) (py_or (dget manifest ''planned_metrics'') (JList []))) (\<lambda>b. Ok (\<not> b)))
        REQUIRED_PLANNED_METRICS) (\<lambda>missing.
       Ok (map (\<lambda>metric. note_finding ''planned_metrics'' ''missing_required_metric'' (''planned metrics omit '' @ metric)) missing))"

definition validate_pre_run_manifest :: "dict \<Rightarrow> bool \<Rightarrow> guard_finding list result" where
  "validate_pre_run_manifest manifest require_materialized_hashes =
     bindR (py_iter (py_or (dget manifest ''approved_feature_paths'') (JList []))) (\<lambda>approved.
     bindR (check_metrics manifest) (\<lambda>metrics.
       Ok (missing_fields REQUIRED_PRE_RUN_MANIFEST_FIELDS ''required pre-run manifest field is absent'' manifest @
           expect_field manifest ''run_manifest_schema_version'' (JStr RUN_MANIFEST_SCHEMA_VERSION) ''unsupported_schema_version''
             ''run manifest schema version is not recognized'' @
           expect_field manifest ''dataset_id'' (JStr DATASET_1_ID) ''wrong_dataset'' ''manifest does not target Dataset #1'' @
           expect_field manifest ''task_type'' (JStr DATASET_1_TASK_TYPE) ''wrong_task_type''
             ''manifest does not target risk prediction'' @
           expect_field manifest ''runtime_integration'' (JStr ''none'') ''runtime_integration_not_allowed''
             ''Dataset #1 baseline manifests must not wire runtime behavior'' @
           expect_field manifest ''training_authorization'' (JStr ''not_authorized'') ''training_authorization_not_allowed''
             ''this infrastructure convention does not authorize training'' @
           expect_field manifest ''training_weight'' (JFloat (Num 0)) ''training_weight_must_remain_zero''
             ''Dataset #1 examples remain weight 0.0 in this pass'' @
           check_artifact_root manifest @
           check_feature_allowlist (map py_str approved) (truthy (dget manifest ''source_metadata_approved''))
             DEFAULT_ALLOWED_FEATURE_PATHS @
           metrics @
           (if require_materialized_hashes
            then map (\<lambda>field. note_finding field ''missing_materialized_hash'' ''fit-ready manifests must record a sha256 hash'')
                   (filter (\<lambda>field. \<not> is_sha256 (dget manifest field)) REQUIRED_MATERIALIZED_HASH_FIELDS)
            else []))))"

end
