(* ===== verification/DialogueGuard.thy ===== *)
theory DialogueGuard
  imports Guardrails
begin

text \<open>
  Guardrails of the dialogue dataset (\<open>training/dialogue_governance.py\<close>): the input scan, which also blocks
  the target fields of the task at hand and ignores case, the license gate before real rows are read, and
  the readiness manifest. Its leaf paths, patterns and tokens are verbatim those of \<open>training/governance.py\<close>.
\<close>

section \<open>Fields\<close>

definition DATASET_2_ID :: string where "DATASET_2_ID = ''dialogue-swe-bench''"
definition DATASET_2_GOVERNANCE_VERSION :: string where "DATASET_2_GOVERNANCE_VERSION = ''pneuma-dialogue-governance/0.1.0''"
definition READINESS_MANIFEST_SCHEMA_VERSION :: string where "READINESS_MANIFEST_SCHEMA_VERSION = ''0.1.0''"
definition MAX_BOUNDED_REAL_ROWS :: int where "MAX_BOUNDED_REAL_ROWS = 10"
definition APPROVED_BOUNDED_ARTIFACT_ROOT :: string where
  "APPROVED_BOUNDED_ARTIFACT_ROOT = ''build/training_examples/dialogue-swe-bench/bounded/''"
definition LICENSE_STATUS_BLOCKED :: string where "LICENSE_STATUS_BLOCKED = ''blocked_unresolved_license''"
definition LICENSE_STATUS_ALLOWED :: string where "LICENSE_STATUS_ALLOWED = ''license_review_resolved''"

definition DIALOGUE_ALLOWED_INPUT_PATHS :: "string list" where
  "DIALOGUE_ALLOWED_INPUT_PATHS =
     [''input.dataset.dataset_id'', ''input.dataset.dataset_family'', ''input.dataset.source_split'',
      ''input.dataset.source_file_sha256'', ''input.dataset.source_row'', ''input.dataset.license_status'',
      ''input.dataset.license_review_required'', ''input.task.instance_id'', ''input.task.repo'', ''input.task.base_commit'',
      ''input.task.persona'', ''input.dialogue_summary.turn_count'', ''input.dialogue_summary.role_sequence.*'',
      ''input.dialogue_summary.turn_length_summary.*'', ''input.code_change_summary.has_change'',
      ''input.code_change_summary.has_tests'', ''input.code_change_summary.code_change_sha256'',
      ''input.code_change_summary.test_change_sha256'', ''input.code_change_summary.text_included'',
      ''input.code_change_summary.oracle_lists_included'', ''input.feature_refs.*'']"

definition DIALOGUE_TASK_BLOCKS :: "(string \<times> string list) list" where
  "DIALOGUE_TASK_BLOCKS =
     [(''TASK_DIFFICULTY'', [''difficulty'']),
      (''OPERATOR_PUSHBACK'', [''operator_pushback'', ''simulated_correction_count'']),
      (''SELF_REPORT_FAITHFULNESS'', [''faithfulness'', ''self_report'', ''claim'']),
      (''PATCH_SUCCESS'', [''patch_success'', ''resolved'', ''outcome''])]"

definition DIALOGUE_BLOCKED_TOKENS :: "string list" where
  "DIALOGUE_BLOCKED_TOKENS =
     [''problem_statement'', ''draft_problem_statement'', ''full_problem_statement'', ''dialogue_text'', ''raw_dialogue'',
      ''raw_issue_text'', ''patch'', ''test_patch'', ''fail_to_pass'', ''pass_to_pass'', ''outcome'', ''resolved'',
      ''labels'', ''oracle'', ''gold'', ''verdict'', ''target'']"

definition REQUIRED_READINESS_FIELDS :: "string list" where
  "REQUIRED_READINESS_FIELDS =
     [''manifest_schema_version'', ''dataset_id'', ''status'', ''training_authorization'', ''bounded_real_conversion'',
      ''license_gate'', ''governance_module'', ''governance_version'', ''allowed_input_paths'', ''blocked_field_tokens'',
      ''task_target_field_blocks'', ''next_recommended_dataset'']"

section \<open>The input scan\<close>

definition dialogue_feature_path :: "string \<Rightarrow> string" where
  "dialogue_feature_path path = utf8_text (lower_points (path_points (points path)))"

text \<open>\<open>BLOCKS.get(task_type, ())\<close>, in lower case.\<close>

definition task_tokens :: "(string \<times> string list) list \<Rightarrow> string \<Rightarrow> string list" where
  "task_tokens table task_type = map text_lower (case map_of table task_type of None \<Rightarrow> [] | Some ts \<Rightarrow> ts)"

definition check_dialogue_path :: "string list \<Rightarrow> string list \<Rightarrow> string \<Rightarrow> guard_finding list" where
  "check_dialogue_path allowed task_blocks raw =
     (let path = dialogue_feature_path raw;
          blocked = blocked_in DIALOGUE_BLOCKED_TOKENS path; task_blocked = blocked_in task_blocks path in
      if blocked \<noteq> [] \<or> task_blocked \<noteq> []
      then [\<lparr>gf_path = path, gf_code = ''blocked_field'',
             gf_message = ''input path touches raw, oracle, target, or task-label material'',
             gf_blocked = Some (blocked @ task_blocked)\<rparr>]
      else if matches_any allowed path then []
      else [note_finding path ''not_allowlisted'' ''input path is not approved for Dataset #2 conversion''])"

definition check_dialogue_allowlist :: "string list \<Rightarrow> string \<Rightarrow> string list \<Rightarrow> guard_finding list" where
  "check_dialogue_allowlist input_paths task_type allowed_paths =
     concat (map (check_dialogue_path (map dialogue_feature_path allowed_paths) (task_tokens DIALOGUE_TASK_BLOCKS task_type))
       input_paths)"

definition check_dialogue_leakage :: "dict \<Rightarrow> guard_finding list" where
  "check_dialogue_leakage example =
     filter (\<lambda>finding. gf_code finding = ''blocked_field'')
       (check_dialogue_allowlist (iter_leaf_paths (py_or (dget example ''input'') (JObj [])) ''input'')
          (py_str (py_or (dget example ''task_type'') (JStr []))) DIALOGUE_ALLOWED_INPUT_PATHS)"

section \<open>The license gate\<close>

definition license_gate_status :: "json \<Rightarrow> string \<Rightarrow> bool \<Rightarrow> bool \<Rightarrow> dict" where
  "license_gate_status local_license normalized_metadata_license hf_license_declared github_license_declared =
     (let notes =
            (if list_ex (py_eq local_license) [JNull, JStr [], JStr ''null'']
             then [''local provenance license is null''] else [''local provenance license='' @ py_str local_license]) @
            (if normalized_metadata_license \<noteq> [] then [''normalized metadata license='' @ normalized_metadata_license] else []) @
            (if \<not> hf_license_declared then [''Hugging Face dataset license is not declared''] else []) @
            (if \<not> github_license_declared then [''GitHub repository license is not declared''] else []);
          allowed = (truthy local_license \<and> hf_license_declared \<and> github_license_declared) in
      [(''status'', JStr (if allowed then LICENSE_STATUS_ALLOWED else LICENSE_STATUS_BLOCKED)),
       (''real_row_conversion_allowed'', JBool allowed), (''bounded_real_conversion_allowed'', JBool allowed),
       (''training_authorization'', JStr ''not_authorized''), (''notes'', strings notes)])"

definition validate_bounded_conversion_request :: "int \<Rightarrow> string \<Rightarrow> dict \<Rightarrow> guard_finding list" where
  "validate_bounded_conversion_request limit output_root license_gate =
     (let normalized = replace_str [CHR 0x5C] ''/'' output_root in
      (if \<not> truthy (dget license_gate ''bounded_real_conversion_allowed'')
       then [note_finding ''license_gate'' ''license_gate_blocked''
               ''bounded real-row conversion is blocked until license review resolves''] else []) @
      (if limit \<le> 0 \<or> MAX_BOUNDED_REAL_ROWS < limit
       then [note_finding ''limit'' ''invalid_bounded_limit'' (''limit must be between 1 and '' @ show_int MAX_BOUNDED_REAL_ROWS)] else []) @
      (if substring ''C:/pneuma-data'' normalized
       then [note_finding ''output_root'' ''off_repo_output_forbidden''
               ''bounded outputs must not be written to C:/pneuma-data''] else []) @
      (if take (length APPROVED_BOUNDED_ARTIFACT_ROOT) normalized \<noteq> APPROVED_BOUNDED_ARTIFACT_ROOT
       then [note_finding ''output_root'' ''unapproved_output_root''
               ''bounded outputs must stay under the approved repo-local build root''] else []))"

section \<open>The readiness manifest\<close>

definition build_readiness_manifest_template :: dict where
  "build_readiness_manifest_template =
     (let gate = license_gate_status JNull ''paper=CC BY 4.0; hf_dataset=not declared; github=none'' False False in
      [(''manifest_schema_version'', JStr READINESS_MANIFEST_SCHEMA_VERSION), (''dataset_id'', JStr DATASET_2_ID),
       (''status'', JStr ''readiness_guardrails_committed_real_conversion_blocked''),
       (''training_authorization'', JStr ''not_authorized''),
       (''bounded_real_conversion'', JStr ''blocked_until_license_review''), (''license_gate'', JObj gate),
       (''governance_module'', JStr ''pneuma_lab.training.dialogue_governance''),
       (''governance_version'', JStr DATASET_2_GOVERNANCE_VERSION),
       (''allowed_input_paths'', strings DIALOGUE_ALLOWED_INPUT_PATHS),
       (''blocked_field_tokens'', strings (sort DIALOGUE_BLOCKED_TOKENS)),
       (''task_target_field_blocks'', JObj (map (\<lambda>(task, tokens). (task, strings tokens)) DIALOGUE_TASK_BLOCKS)),
       (''max_bounded_real_rows_after_license_resolution'', JInt MAX_BOUNDED_REAL_ROWS),
       (''approved_bounded_artifact_root_after_license_resolution'', JStr APPROVED_BOUNDED_ARTIFACT_ROOT),
       (''next_recommended_dataset'', JObj
          [(''dataset_id'', JStr ''swe-gym-openhands-verifier''),
           (''reason'', JStr (''adapter-backed OpenHands verifier data is the next closest '' @
              ''non-SWE-chat supervision lane, but task-join caveats must be '' @ ''handled before conversion/training use''))])])"

definition validate_readiness_manifest :: "dict \<Rightarrow> guard_finding list result" where
  "validate_readiness_manifest manifest =
     bindR (jget (py_or (dget manifest ''license_gate'') (JObj [])) ''status'') (\<lambda>status.
     bindR (py_iter (py_or (dget manifest ''allowed_input_paths'') (JList []))) (\<lambda>paths.
       Ok (missing_fields REQUIRED_READINESS_FIELDS ''required Dataset #2 readiness field is absent'' manifest @
           expect_field manifest ''manifest_schema_version'' (JStr READINESS_MANIFEST_SCHEMA_VERSION)
             ''unsupported_schema_version'' ''readiness manifest schema version is not recognized'' @
           expect_field manifest ''dataset_id'' (JStr DATASET_2_ID) ''wrong_dataset''
             ''readiness manifest does not target Dataset #2'' @
           (if \<not> py_eq status (JStr LICENSE_STATUS_BLOCKED)
            then [note_finding ''license_gate.status'' ''license_gate_not_blocked''
                    ''Dataset #2 must remain blocked until license review resolves''] else []) @
           expect_field manifest ''training_authorization'' (JStr ''not_authorized'') ''training_authorization_not_allowed''
             ''Dataset #2 readiness does not authorize training'' @
           check_dialogue_allowlist (map py_str paths) ''TASK_DIFFICULTY'' DIALOGUE_ALLOWED_INPUT_PATHS)))"

end
