(* ===== verification/TracesGuard.thy ===== *)
theory TracesGuard
  imports DialogueGuard
begin

text \<open>
  Guardrails of the Open-SWE-Traces dataset (\<open>governance/open_swe_traces.py\<close>): the input scan and the policy
  on where labels may come from. Leaf paths, patterns and tokens are verbatim those of \<open>training/governance.py\<close>.
\<close>

definition TRACES_BLOCKED_TOKENS :: "string list" where
  "TRACES_BLOCKED_TOKENS =
     [''trajectory'', ''tool_calls'', ''tools'', ''metadata'', ''reference_patch'', ''model_patch'', ''patch'', ''category'',
      ''resolved'', ''fail_to_pass'', ''pass_to_pass'', ''oracle'', ''target'', ''labels'', ''outcome'', ''verdict'', ''gold'',
      ''instance_id'', ''repo'', ''trajectory_id'']"

definition BLOCKED_EXACT_INPUT_PATHS :: "string list" where
  "BLOCKED_EXACT_INPUT_PATHS = [''input.trajectory'', ''input.tool_calls'', ''input.tools'', ''input.metadata'']"

definition TRACES_ALLOWED_INPUT_PATHS :: "string list" where
  "TRACES_ALLOWED_INPUT_PATHS =
     [''input.dataset.dataset_id'', ''input.dataset.dataset_family'', ''input.dataset.source_group'',
      ''input.dataset.hf_revision'', ''input.language'', ''input.source.instance_id_digest'', ''input.source.repo_digest'',
      ''input.source.trajectory_id_digest'', ''input.source.license'', ''input.trajectory_summary.num_messages'',
      ''input.trajectory_summary.num_agent_steps'', ''input.tool_summary.tool_call_count'',
      ''input.tool_summary.tool_counts.*'', ''input.observable_summary.*'', ''input.objective.present'',
      ''input.objective.mode'', ''input.objective.text_sha256'', ''input.objective.text_length'', ''input.feature_refs.*'']"

definition TRACES_TASK_BLOCKS :: "(string \<times> string list) list" where
  "TRACES_TASK_BLOCKS = [(''RISK_PREDICTION'', [''resolved''])]"

definition traces_feature_path :: "string \<Rightarrow> string" where
  "traces_feature_path path = utf8_text (lower_points (path_points (points path)))"

definition check_traces_path :: "string list \<Rightarrow> string list \<Rightarrow> string \<Rightarrow> guard_finding list" where
  "check_traces_path allowed task_blocks raw =
     (let path = traces_feature_path raw;
          blocked = blocked_in TRACES_BLOCKED_TOKENS path; task_blocked = blocked_in task_blocks path in
      if path \<in> set BLOCKED_EXACT_INPUT_PATHS \<or> blocked \<noteq> [] \<or> task_blocked \<noteq> []
      then [\<lparr>gf_path = path, gf_code = ''blocked_field'',
             gf_message = ''input path touches raw, oracle, target, or metadata content'',
             gf_blocked = Some (sort (remdups (blocked @ task_blocked)))\<rparr>]
      else if matches_any allowed path then []
      else [note_finding path ''not_allowlisted'' ''input path is not approved for Open-SWE-Traces conversion''])"

definition check_traces_allowlist :: "string list \<Rightarrow> string \<Rightarrow> string list \<Rightarrow> guard_finding list" where
  "check_traces_allowlist input_paths task_type allowed_paths =
     concat (map (check_traces_path (map traces_feature_path allowed_paths) (task_tokens TRACES_TASK_BLOCKS task_type))
       input_paths)"

definition check_traces_leakage :: "dict \<Rightarrow> guard_finding list" where
  "check_traces_leakage example =
     filter (\<lambda>finding. gf_code finding = ''blocked_field'')
       (check_traces_allowlist (iter_leaf_paths (py_or (dget example ''input'') (JObj [])) ''input'')
          (py_str (py_or (dget example ''task_type'') (JStr []))) TRACES_ALLOWED_INPUT_PATHS)"

section \<open>Provenance of labels\<close>

definition LABEL_PROVENANCE_ALLOWED_KINDS :: "string list" where
  "LABEL_PROVENANCE_ALLOWED_KINDS = [''constructed_label'', ''simulated_label'']"

definition LABEL_PROVENANCE_FORBIDDEN_KIND :: string where
  "LABEL_PROVENANCE_FORBIDDEN_KIND = ''harness_outcome''"

definition LABEL_PROVENANCE_MAX_CONFIDENCE :: string where
  "LABEL_PROVENANCE_MAX_CONFIDENCE = ''medium''"

definition CONFIDENCE_RANK :: "(string \<times> int) list" where
  "CONFIDENCE_RANK = [(''low'', 0), (''medium'', 1), (''high'', 2)]"

text \<open>\<open>_CONFIDENCE_RANK.get(confidence, 99)\<close>; lists and dicts are unhashable.\<close>

definition confidence_rank :: "json \<Rightarrow> int result" where
  "confidence_rank v =
     (case v of
        JStr s \<Rightarrow> Ok (case map_of CONFIDENCE_RANK s of None \<Rightarrow> 99 | Some r \<Rightarrow> r)
      | JList _ \<Rightarrow> Raise TypeError | JObj _ \<Rightarrow> Raise TypeError
      | _ \<Rightarrow> Ok 99)"

definition validate_label_provenance :: "dict \<Rightarrow> guard_finding list result" where
  "validate_label_provenance label_provenance =
     bindR (let kind = dget label_provenance ''kind'' in
            if py_eq kind (JStr LABEL_PROVENANCE_FORBIDDEN_KIND)
            then Ok [note_finding ''label_provenance.kind'' ''harness_outcome_forbidden''
                  (''Open-SWE-Traces resolved outcomes are synthetic/automated; '' @
                   ''label_provenance.kind must never be harness_outcome'')]
            else bindR (in_strings kind LABEL_PROVENANCE_ALLOWED_KINDS) (\<lambda>known.
                   Ok (if known then []
                       else [note_finding ''label_provenance.kind'' ''kind_not_allowed''
                               ''label_provenance.kind must be constructed_label or simulated_label'']))) (\<lambda>kinds.
     bindR (confidence_rank (dget label_provenance ''confidence'')) (\<lambda>rank.
     bindR (confidence_rank (JStr LABEL_PROVENANCE_MAX_CONFIDENCE)) (\<lambda>most.
       Ok (kinds @
           (if most < rank
            then [note_finding ''label_provenance.confidence'' ''confidence_too_high''
                    (''resolved-derived confidence must stay at medium or lower '' @
                     ''pending independent review of the verifier methodology'')] else [])))))"

end
