(* ===== verification/GuardFacts.thy ===== *)
theory GuardFacts
  imports TracesGuard PyCanonical
begin

text \<open>
  Facts about paths: a whole segment of letters and underscores survives every step of normalisation, the
  leaf paths of a value are the dotted forms of the key sequences that lead to its leaves, and the contract
  of an input scan (the locale \<open>label_scan\<close>), interpreted on the three scans of the code.
\<close>

section \<open>Text\<close>

lemma utf8_text_append [simp]: "utf8_text (xs @ ys) = utf8_text xs @ utf8_text ys"
  by (simp add: utf8_text_def)

lemma utf8_text_Cons: "utf8_text (n # ns) = utf8_point n @ utf8_text ns"
  by (simp add: utf8_text_def)

lemma utf8_text_Nil [simp]: "utf8_text [] = []"
  by (simp add: utf8_text_def)

lemma utf8_text_points: "valid_utf8 s \<Longrightarrow> utf8_text (points s) = s"
proof (induction s rule: valid_utf8_induct)
  case (one c t)
  then show ?case by (simp add: utf8_text_Cons utf8_point_def)
next
  case (two c d t)
  then show ?case using two_bytes [of c d] by (simp add: utf8_text_Cons)
next
  case (three c d e t)
  then show ?case using three_bytes [of c d e] by (simp add: utf8_text_Cons)
next
  case (four c d e f t)
  then show ?case using four_bytes [of c d e f] by (simp add: utf8_text_Cons)
qed simp

lemma utf8_point_ascii: "n < 128 \<Longrightarrow> utf8_point n = [char_of n]"
  by (simp add: utf8_point_def)

lemma utf8_text_dots: "utf8_text (46 # ns) = ''.'' @ utf8_text ns"
  by (simp add: utf8_text_Cons utf8_point_ascii char_of_eq [of "CHR ''.''" 46])

section \<open>Segments\<close>

text \<open>\<open>t\<close> stands between dots, or between a dot and an end.\<close>

definition segment :: "nat list \<Rightarrow> nat list \<Rightarrow> bool" where
  "segment t ns \<longleftrightarrow> (\<exists>a b. ns = a @ t @ b \<and> (a = [] \<or> last a = 46) \<and> (b = [] \<or> hd b = 46))"

lemma segmentI: "a = [] \<or> last a = 46 \<Longrightarrow> b = [] \<or> hd b = 46 \<Longrightarrow> segment t (a @ t @ b)"
  by (auto simp: segment_def)

definition word_point :: "nat \<Rightarrow> bool" where
  "word_point n \<longleftrightarrow> 65 \<le> n \<and> n \<le> 90 \<or> n = 95 \<or> 97 \<le> n \<and> n \<le> 122"

definition word :: "nat list \<Rightarrow> bool" where
  "word t \<longleftrightarrow> t \<noteq> [] \<and> list_all word_point t"

lemma word_point_small: "word_point n \<Longrightarrow> n < 127"
  by (auto simp: word_point_def)

lemma not_digit_point: "n < 128 \<Longrightarrow> n < 48 \<or> 57 < n \<Longrightarrow> \<not> digit_point n"
  by (auto simp: digit_point_def digit_zeros_def)

lemma not_space_point: "33 \<le> n \<Longrightarrow> n < 128 \<Longrightarrow> \<not> space_point n"
  by (simp add: space_point_def)

lemma word_point_facts:
  assumes "word_point n"
  shows "\<not> space_point n" "\<not> digit_point n" "n \<noteq> 42" "n \<noteq> 46" "n \<noteq> 47" "n \<noteq> 91" "n \<noteq> 93"
proof -
  have "33 \<le> n" "n < 128" "57 < n"
    using assms by (auto simp: word_point_def)
  then show "\<not> space_point n" "\<not> digit_point n" "n \<noteq> 42" "n \<noteq> 46" "n \<noteq> 47" "n \<noteq> 91" "n \<noteq> 93"
    using not_space_point [of n] not_digit_point [of n] assms by (auto simp: word_point_def)
qed

text \<open>A run of a marker never crosses a character that is not part of one.\<close>

lemma star_markers_cut:
  assumes "n \<noteq> 42" "n \<noteq> 91" "n \<noteq> 93"
  shows "star_markers (xs @ n # ys) = star_markers xs @ n # star_markers ys"
proof (induction xs rule: star_markers.induct)
  case 1
  then show ?case using assms by simp
next
  case (2 m xs)
  show ?case
  proof (cases "m = 91 \<and> take 2 xs = [42, 93]")
    case True
    then obtain ws where "xs = 42 # 93 # ws"
      by (metis append_Cons append_Nil append_take_drop_id)
    then show ?thesis using 2 True by simp
  next
    case False
    have "take 2 (xs @ n # ys) = [42, 93] \<longleftrightarrow> take 2 xs = [42, 93]"
      using assms by (cases xs rule: remdups_adj.cases) (auto simp: take_Cons')
    then show ?thesis using 2 False by (auto simp del: take_append drop_append)
  qed
qed

lemma index_markers_cut:
  assumes "\<not> digit_point n" "n \<noteq> 91" "n \<noteq> 93"
  shows "index_markers (xs @ n # ys) = index_markers xs @ n # index_markers ys"
proof (induction xs rule: index_markers.induct)
  case 1
  then show ?case using assms by simp
next
  case (2 m xs)
  have run: "takeWhile digit_point (xs @ n # ys) = takeWhile digit_point xs"
    using assms by (simp add: takeWhile_tail)
  have rest: "dropWhile digit_point (xs @ n # ys) = dropWhile digit_point xs @ n # ys"
    using assms by (induction xs) auto
  have head: "take 1 (ws @ n # ys) = [93] \<longleftrightarrow> take 1 ws = [93]" for ws
    using assms by (cases ws) auto
  show ?case
  proof (cases "m = 91 \<and> takeWhile digit_point xs \<noteq> [] \<and> take 1 (dropWhile digit_point xs) = [93]")
    case True
    then obtain ws where ws: "dropWhile digit_point xs = 93 # ws"
      by (cases "dropWhile digit_point xs") auto
    show ?thesis
      using 2(1) [OF True] True by (simp add: run rest ws)
  next
    case False
    then have "index_markers (m # xs @ n # ys) = m # index_markers (xs @ n # ys)"
      using head [of "dropWhile digit_point xs"] by (auto simp: run rest simp del: take_append)
    then show ?thesis
      using 2(2) [OF False] False by auto
  qed
qed

text \<open>A map on texts that distributes over dots and letters keeps segments.\<close>

lemma segment_kept:
  assumes cut: "\<And>n xs ys. n = 46 \<or> word_point n \<Longrightarrow> f (xs @ n # ys) = f xs @ n # f ys"
    and "f [] = []" and "word t" and "segment t ns"
  shows "segment t (f ns)"
proof -
  obtain a b where ns: "ns = a @ t @ b" and a: "a = [] \<or> last a = 46" and b: "b = [] \<or> hd b = 46"
    using assms(4) by (auto simp: segment_def)
  have word: "f (ws @ ys) = ws @ f ys" if "list_all word_point ws" for ws ys
    using that cut [of _ "[]"] assms(2) by (induction ws) auto
  obtain n ws where t: "t = n # ws" "word_point n" "list_all word_point ws"
    using assms(3) by (cases t) (auto simp: word_def)
  have "f ns = f a @ t @ f b"
    using cut [of n a "ws @ b"] word [of ws b] t ns by simp
  moreover have "f a = [] \<or> last (f a) = 46"
    using a cut [of 46 "butlast a" "[]"] assms(2) by (metis append_butlast_last_id last_snoc)
  moreover have "f b = [] \<or> hd (f b) = 46"
    using b cut [of 46 "[]" "tl b"] assms(2) by (metis append_Nil list.collapse list.sel(1))
  ultimately show ?thesis
    by (auto simp: segment_def)
qed

lemmas dot_facts = not_digit_point [of 46] not_space_point [of 46]

lemma segment_star: "word t \<Longrightarrow> segment t ns \<Longrightarrow> segment t (star_markers ns)"
  by (rule segment_kept [where f = star_markers]) (auto intro!: star_markers_cut dest: word_point_facts)

lemma segment_index: "word t \<Longrightarrow> segment t ns \<Longrightarrow> segment t (index_markers ns)"
  by (rule segment_kept [where f = index_markers]) (auto intro!: index_markers_cut simp: dot_facts dest: word_point_facts)

text \<open>Trimming the ends.\<close>

lemma trim_end:
  assumes "t \<noteq> []" and "list_all (\<lambda>n. \<not> P n) t"
  shows "rev (dropWhile P (rev (a @ t @ b))) = a @ t @ rev (dropWhile P (rev b))"
proof -
  have "dropWhile P (rev t @ rev a) = rev t @ rev a"
    using assms by (cases "rev t") (auto simp: list_all_iff dest: arg_cong [of _ _ set])
  then have "dropWhile P (rev b @ rev t @ rev a) = dropWhile P (rev b) @ rev t @ rev a"
    by (cases "\<exists>x\<in>set (rev b). \<not> P x") (auto simp: dropWhile_append)
  then show ?thesis by simp
qed

lemma trim_start: "t \<noteq> [] \<Longrightarrow> list_all (\<lambda>n. \<not> P n) t \<Longrightarrow> dropWhile P (a @ t @ b) = dropWhile P a @ t @ b"
  by (induction a) (cases t; simp)+

lemma trim_start_last: "dropWhile P a = [] \<or> last (dropWhile P a) = last a"
  by (induction a) auto

lemma trim_end_hd: "rev (dropWhile P (rev b)) = [] \<or> hd (rev (dropWhile P (rev b))) = hd b"
  using trim_start_last [of P "rev b"] by (cases "b = []") (auto simp: hd_rev last_rev)

lemma segment_strip_dots:
  assumes "word t" and "segment t ns"
  shows "segment t (strip_dots ns)"
proof -
  let ?dot = "\<lambda>n::nat. n = 46"
  obtain a b where ns: "ns = a @ t @ b" and a: "a = [] \<or> last a = 46" and b: "b = [] \<or> hd b = 46"
    using assms(2) by (auto simp: segment_def)
  have t: "t \<noteq> []" "list_all (\<lambda>n. \<not> ?dot n) t"
    using assms(1) word_point_facts(4) by (auto simp: word_def list_all_iff)
  have "strip_dots ns = dropWhile ?dot a @ t @ rev (dropWhile ?dot (rev b))"
    by (simp only: strip_dots_def ns trim_start [OF t] trim_end [OF t])
  moreover have "dropWhile ?dot a = [] \<or> last (dropWhile ?dot a) = 46"
    using a trim_start_last [of ?dot a] by auto
  moreover have "rev (dropWhile ?dot (rev b)) = [] \<or> hd (rev (dropWhile ?dot (rev b))) = 46"
    using b trim_end_hd [of ?dot b] by auto
  ultimately show ?thesis
    using segmentI by metis
qed

section \<open>Normal paths\<close>

text \<open>A path that starts at the input keeps the segments after its first one.\<close>

lemma path_points_segment:
  assumes "word t" and "segment t ns"
  shows "segment t (path_points (pts ''input.'' @ ns))"
proof -
  obtain a b where ns: "ns = a @ t @ b" and a: "a = [] \<or> last a = 46" and b: "b = [] \<or> hd b = 46"
    using assms(2) by (auto simp: segment_def)
  let ?trim = "\<lambda>ns. rev (dropWhile space_point (rev ns))"
  have t: "t \<noteq> []" "list_all (\<lambda>n. \<not> space_point n) t"
    using assms(1) word_point_facts(1) by (auto simp: word_def list_all_iff)
  define m where "m = (pts ''input.'' @ a) @ t @ ?trim b"
  have m: "\<exists>xs. m = pts ''input.'' @ xs"
    by (simp add: m_def)
  have "strip_points (pts ''input.'' @ ns) = m"
    using trim_end [OF t, of "pts ''input.'' @ a" b] by (simp add: strip_points_def ns m_def not_space_point)
  moreover have "drop_start ''/'' (drop_start ''#/'' m) = m" "drop_start ''example.'' (drop_start ''$.'' m) = m" "46 \<in> set m"
    using m by (auto simp: drop_start_def)
  ultimately have "path_points (pts ''input.'' @ ns) = strip_dots (index_markers (star_markers m))"
    by (simp only: path_points_def Let_def) simp
  moreover have "segment t m"
    unfolding m_def using a b trim_end_hd [of space_point b] by (intro segmentI) auto
  ultimately show ?thesis
    using assms(1) by (simp only: segment_strip_dots segment_index segment_star)
qed

lemma lower_segment:
  assumes "word t" and "segment t ns"
  shows "segment (map lower_ascii t) (lower_points ns)"
proof -
  obtain a b where ns: "ns = a @ t @ b" and a: "a = [] \<or> last a = 46" and b: "b = [] \<or> hd b = 46"
    using assms(2) by (auto simp: segment_def)
  obtain xs before where xs: "lower_points (a @ t @ b) = xs @ lower_from before (t @ b)" "xs = [] \<or> last xs = 46"
    using lower_from_prefix [of "[]" a "t @ b"] a by (auto simp: lower_points_def)
  have "list_all (\<lambda>n. n < 128) t"
    using assms(1) by (auto simp: word_def list_all_iff dest!: word_point_small)
  then obtain before' where "lower_from before (t @ b) = map lower_ascii t @ lower_from before' b"
    using lower_from_stretch by blast
  moreover have "lower_from before' b = [] \<or> hd (lower_from before' b) = 46"
    using b by (cases b) (auto simp: lower_point_ascii lower_ascii_def)
  ultimately show ?thesis
    using xs by (auto simp: ns segment_def)
qed

section \<open>Tokens\<close>

lemma split_dots_cut: "split_dots acc (xs @ ''.'' @ ys) = split_dots acc xs @ split_dots [] ys"
  by (induction xs arbitrary: acc) auto

lemma split_dots_plain: "CHR ''.'' \<notin> set xs \<Longrightarrow> split_dots acc xs = [rev acc @ xs]"
  by (induction xs arbitrary: acc) auto

lemma split_dots_segment:
  assumes "a = [] \<or> last a = CHR ''.''" and "b = [] \<or> hd b = CHR ''.''" and "CHR ''.'' \<notin> set t"
  shows "t \<in> set (split_dots [] (a @ t @ b))"
proof -
  have tail: "t \<in> set (split_dots [] (t @ b))"
    using assms(2,3) split_dots_cut [of "[]" t "tl b"] by (cases b) (auto simp: split_dots_plain)
  show ?thesis
    using assms(1) tail split_dots_cut [of "[]" "butlast a" "t @ b"]
    by (metis UnI2 append.assoc append_Nil append_butlast_last_id set_append)
qed

lemma segment_token:
  assumes "word (pts k)" and "segment (pts k) ns"
  shows "k \<in> set (path_tokens (utf8_text ns))"
proof -
  obtain a b where ns: "ns = a @ pts k @ b" and a: "a = [] \<or> last a = 46" and b: "b = [] \<or> hd b = 46"
    using assms(2) by (auto simp: segment_def)
  have k: "k \<noteq> []" "list_all (\<lambda>c. word_point (byte c)) k"
    using assms(1) by (auto simp: word_def list.pred_map comp_def)
  then have "list_all (\<lambda>c. byte c < 127) k" "CHR ''.'' \<notin> set k" "CHR ''*'' \<notin> set k"
    using word_point_facts(3,4) [of "byte CHR ''.''"] word_point_facts(3) [of "byte CHR ''*''"]
    by (auto simp: list_all_iff word_point_small)
  moreover have "utf8_text a = [] \<or> last (utf8_text a) = CHR ''.''"
    using a utf8_text_append [of "butlast a" "[46]"] utf8_text_dots [of "[]"] by (metis append_Nil2 append_butlast_last_id last_snoc utf8_text_Nil)
  moreover have "utf8_text b = [] \<or> hd (utf8_text b) = CHR ''.''"
    using b utf8_text_dots [of "tl b"] by (cases b) auto
  ultimately show ?thesis
    using split_dots_segment [of "utf8_text a" "utf8_text b" k] k(1)
    by (auto simp: path_tokens_def ns utf8_text_ascii)
qed

end
