(* ===== verification/GuardScan.thy ===== *)
theory GuardScan
  imports GuardFacts
begin

text \<open>
  What an input scan promises: the leaf paths it looks at are exactly the dotted key sequences that lead to
  a leaf, no blocked key on the way to one goes unreported, and on plain keys nothing else is reported. The
  contracts are the locales \<open>label_scan\<close> and \<open>plain_scan\<close>; the three scans of the code satisfy them.
\<close>

section \<open>Leaves\<close>

definition container :: "json \<Rightarrow> bool" where
  "container v = (case v of JObj _ \<Rightarrow> True | JList _ \<Rightarrow> True | _ \<Rightarrow> False)"

text \<open>A leaf is reached through the keys of dicts; a list contributes a star.\<close>

inductive leaf_at :: "string list \<Rightarrow> json \<Rightarrow> bool" where
  leaf_value: "\<not> container v \<Longrightarrow> leaf_at [] v"
| leaf_field: "(k, w) \<in> set d \<Longrightarrow> leaf_at ks w \<Longrightarrow> leaf_at (k # ks) (JObj d)"
| leaf_item: "w \<in> set xs \<Longrightarrow> leaf_at ks w \<Longrightarrow> leaf_at (''*'' # ks) (JList xs)"

inductive_simps leaf_at_dict: "leaf_at ks (JObj d)"
inductive_simps leaf_at_list: "leaf_at ks (JList xs)"
inductive_simps leaf_at_field: "leaf_at (k # ks) v"

definition dotted :: "string \<Rightarrow> string list \<Rightarrow> string" where
  "dotted p ks = p @ concat (map (\<lambda>k. ''.'' @ k) ks)"

lemma dotted_Nil [simp]: "dotted p [] = p"
  by (simp add: dotted_def)

lemma dotted_Cons: "dotted p (k # ks) = p @ ''.'' @ dotted k ks"
  by (simp add: dotted_def)

lemma dotted_child: "dotted p (k # ks) = dotted (p @ ''.'' @ k) ks"
  by (simp add: dotted_def)

theorem leaf_paths:
  assumes "p \<noteq> []"
  shows "set (iter_leaf_paths v p) = {dotted p ks | ks. leaf_at ks v}"
  using assms
proof (induction v p rule: iter_leaf_paths.induct)
  case (1 v p)
  have "set (iter_leaf_paths v p) = {dotted p ks | ks. leaf_at ks v}" if "v = JObj d" for d
  proof -
    have "set (iter_leaf_paths v p) = (\<Union>(k, w) \<in> set d. {dotted p (k # ks) | ks. leaf_at ks w})"
      using 1(2) [OF that] 1(3) that
      by (subst iter_leaf_paths.simps) (auto simp: leaf_child_def dotted_child split_beta image_iff)
    then show ?thesis
      using that by (auto simp: leaf_at_dict container_def)
  qed
  moreover have "set (iter_leaf_paths v p) = {dotted p ks | ks. leaf_at ks v}" if "v = JList xs" for xs
  proof -
    have "set (iter_leaf_paths v p) = (\<Union>w \<in> set xs. {dotted p (''*'' # ks) | ks. leaf_at ks w})"
      using 1(1) [OF that] 1(3) that by (subst iter_leaf_paths.simps) (auto simp: dotted_child)
    then show ?thesis
      using that by (auto simp: leaf_at_list container_def)
  qed
  moreover have "set (iter_leaf_paths v p) = {dotted p ks | ks. leaf_at ks v}" if "\<not> container v"
  proof -
    have "leaf_at ks v \<longleftrightarrow> ks = []" for ks
      using that by (auto simp: container_def elim: leaf_at.cases intro: leaf_value)
    then show ?thesis
      using that by (subst iter_leaf_paths.simps) (auto simp: container_def split: json.splits)
  qed
  ultimately show ?case
    by (cases v) (auto simp: container_def)
qed

section \<open>Paths of leaves\<close>

lemma points_dotted:
  "list_all valid_utf8 ks \<Longrightarrow> points (dotted ''input'' ks) = pts ''input'' @ concat (map (\<lambda>k. 46 # points k) ks)"
proof -
  have "points (concat (map (\<lambda>k. ''.'' @ k) ks)) = concat (map (\<lambda>k. 46 # points k) ks)" if "list_all valid_utf8 ks" for ks
    using that by (induction ks) (simp_all add: points_append)
  moreover assume "list_all valid_utf8 ks"
  ultimately show ?thesis
    using points_append [of "''input''"] by (simp add: dotted_def)
qed

lemma dotted_segment:
  assumes "list_all valid_utf8 ks" and "k \<in> set ks"
  shows "\<exists>ns. points (dotted ''input'' ks) = pts ''input.'' @ ns \<and> segment (points k) ns"
proof -
  let ?cat = "\<lambda>ks. concat (map (\<lambda>k. 46 # points k) ks)"
  obtain us vs where ks: "ks = us @ k # vs"
    using assms(2) by (meson split_list)
  define a where "a = tl (?cat us @ [46])"
  have a: "?cat us @ [46] = 46 # a" "a = [] \<or> last a = 46"
    by (cases us; auto simp: a_def last_tl)+
  have "points (dotted ''input'' ks) = pts ''input'' @ ?cat us @ [46] @ points k @ ?cat vs"
    using points_dotted [OF assms(1)] by (simp add: ks)
  also have "\<dots> = pts ''input'' @ (46 # a) @ points k @ ?cat vs"
    by (simp only: append_assoc flip: a(1))
  finally have "points (dotted ''input'' ks) = pts ''input.'' @ a @ points k @ ?cat vs"
    by simp
  moreover have "segment (points k) (a @ points k @ ?cat vs)"
    using a(2) by (intro segmentI) (cases vs; simp)+
  ultimately show ?thesis
    by blast
qed

text \<open>A key that is a word: letters and underscores.\<close>

abbreviation word_key :: "string \<Rightarrow> bool" where
  "word_key k \<equiv> word (pts k)"

lemma word_points: "word_key k \<Longrightarrow> points k = pts k"
  using ascii_only [of k] word_point_small by (fastforce simp: word_def list_all_iff)

lemma ascii_lower_points: "map lower_ascii (pts k) = pts (ascii_lower k)"
  by (auto simp: ascii_lower_def lower_char_def lower_ascii_def)

lemma kept_token:
  assumes "list_all valid_utf8 ks" and "k \<in> set ks" and "word_key k"
  shows "k \<in> set (path_tokens (normalize_feature_path (dotted ''input'' ks)))"
  using dotted_segment [OF assms(1,2)] assms(3) path_points_segment segment_token
  by (fastforce simp: normalize_feature_path_def word_points)

lemma word_lower: "word_key k \<Longrightarrow> word_key (ascii_lower k)"
  by (auto simp: word_def word_point_def lower_ascii_def simp flip: ascii_lower_points simp: list.pred_map elim!: list.pred_mono_strong)

lemma lowered_token:
  assumes "list_all valid_utf8 ks" and "k \<in> set ks" and "word_key k"
  shows "ascii_lower k \<in> set (path_tokens (dialogue_feature_path (dotted ''input'' ks)))"
proof -
  obtain ns where "points (dotted ''input'' ks) = pts ''input.'' @ ns" "segment (pts k) ns"
    using dotted_segment [OF assms(1,2)] assms(3) by (auto simp: word_points)
  then have "segment (pts (ascii_lower k)) (lower_points (path_points (points (dotted ''input'' ks))))"
    using lower_segment [OF assms(3) path_points_segment [OF assms(3)]] by (metis ascii_lower_points)
  then show ?thesis
    using segment_token [OF word_lower [OF assms(3)]] by (simp add: dialogue_feature_path_def)
qed

section \<open>Plain keys\<close>

text \<open>Identifiers and list items: keys that normalisation has no reason to touch.\<close>

definition plain_char :: "char \<Rightarrow> bool" where
  "plain_char c \<longleftrightarrow> word_point (byte c) \<or> 48 \<le> byte c \<and> byte c \<le> 57"

definition plain_key :: "string \<Rightarrow> bool" where
  "plain_key k \<longleftrightarrow> k = ''*'' \<or> k \<noteq> [] \<and> list_all plain_char k"

lemma plain_char_facts:
  assumes "plain_char c"
  shows "byte c < 127" "byte c \<noteq> 46" "byte c \<noteq> 47" "byte c \<noteq> 91" "\<not> space_point (byte c)"
  using assms word_point_facts [of "byte c"] not_space_point [of "byte c"] by (auto simp: plain_char_def word_point_def)

lemma plain_key_facts:
  assumes "plain_key k"
  shows "k \<noteq> []" "CHR ''.'' \<notin> set k" "list_all (\<lambda>c. byte c < 127 \<and> byte c \<noteq> 46 \<and> byte c \<noteq> 47 \<and> byte c \<noteq> 91 \<and> \<not> space_point (byte c)) k"
  using assms plain_char_facts plain_char_facts(2) [of "CHR ''.''"] not_space_point [of 42]
  by (auto simp: plain_key_def list_all_iff)

lemma plain_lower: "plain_key k \<Longrightarrow> plain_key (ascii_lower k)"
  by (auto simp: plain_key_def ascii_lower_def plain_char_def word_point_def lower_char_def list.pred_map Let_def elim!: list.pred_mono_strong)

lemma star_markers_plain: "91 \<notin> set ns \<Longrightarrow> star_markers ns = ns"
  by (induction ns) auto

lemma index_markers_plain: "91 \<notin> set ns \<Longrightarrow> index_markers ns = ns"
  by (induction ns) auto

lemma dotted_plain:
  assumes "list_all plain_key ks"
  shows "list_all (\<lambda>c. byte c < 127 \<and> byte c \<noteq> 47 \<and> byte c \<noteq> 91 \<and> \<not> space_point (byte c)) (dotted ''input'' ks)"
    and "byte (last (dotted ''input'' ks)) \<noteq> 46"
proof -
  show "list_all (\<lambda>c. byte c < 127 \<and> byte c \<noteq> 47 \<and> byte c \<noteq> 91 \<and> \<not> space_point (byte c)) (dotted ''input'' ks)"
  proof -
    have "\<forall>k\<in>set ks. \<forall>c\<in>set k. byte c < 127 \<and> byte c \<noteq> 47 \<and> byte c \<noteq> 91 \<and> \<not> space_point (byte c)"
      using assms plain_key_facts(3) unfolding list_all_iff by blast
    then show ?thesis
      by (auto simp: dotted_def list_all_iff not_space_point)
  qed
  have "byte (last (p @ concat (map (\<lambda>k. ''.'' @ k) ks))) \<noteq> 46" if "p \<noteq> []" "byte (last p) \<noteq> 46" for p
    using assms that
  proof (induction ks arbitrary: p)
    case (Cons k ks)
    have "k \<noteq> []" "byte (last k) \<noteq> 46"
      using Cons.prems(1) plain_key_facts [of k] by (auto simp: list_all_iff)
    then show ?case
      using Cons.IH [of "p @ ''.'' @ k"] Cons.prems(1) by simp
  qed simp
  from this [of "''input''"] show "byte (last (dotted ''input'' ks)) \<noteq> 46"
    by (simp add: dotted_def)
qed

text \<open>A text that normalisation leaves alone.\<close>

definition still :: "nat list \<Rightarrow> bool" where
  "still ns \<longleftrightarrow> take 5 ns = pts ''input'' \<and> list_all (\<lambda>n. n \<noteq> 47 \<and> n \<noteq> 91 \<and> \<not> space_point n) ns \<and> last ns \<noteq> 46"

lemma path_points_still:
  assumes "still ns"
  shows "path_points ns = ns"
proof -
  have start: "\<exists>xs. ns = pts ''input'' @ xs"
    using assms append_take_drop_id [of 5 ns] by (metis still_def)
  have "ns \<noteq> []" "hd ns = 105"
    using start by auto
  moreover have "47 \<notin> set ns" "91 \<notin> set ns" "last ns \<noteq> 46"
    using assms by (auto simp: still_def list_all_iff)
  moreover have "\<not> space_point (last ns)"
    using assms \<open>ns \<noteq> []\<close> last_in_set unfolding still_def list_all_iff by blast
  ultimately have ends: "ns \<noteq> []" "hd ns = 105" "last ns \<noteq> 46" "47 \<notin> set ns" "91 \<notin> set ns" "\<not> space_point (last ns)"
    by blast+
  have "strip_points ns = ns" "strip_dots ns = ns"
    using ends by (simp_all add: strip_points_solid strip_dots_def dropWhile_solid hd_rev not_space_point)
  moreover have "drop_start ''/'' (drop_start ''#/'' ns) = ns" "drop_start ''example.'' (drop_start ''$.'' ns) = ns"
    using start by (auto simp: drop_start_def)
  ultimately show ?thesis
    using ends by (simp only: path_points_def Let_def) (simp add: star_markers_plain index_markers_plain)
qed

lemma path_points_plain:
  assumes "list_all plain_key ks"
  shows "path_points (pts (dotted ''input'' ks)) = pts (dotted ''input'' ks)"
proof -
  have "dotted ''input'' ks \<noteq> []"
    by (simp add: dotted_def)
  from last_map [OF this] have "last (pts (dotted ''input'' ks)) \<noteq> 46"
    using dotted_plain(2) [OF assms] by metis
  then have "still (pts (dotted ''input'' ks))"
    using dotted_plain(1) [OF assms] by (auto simp: still_def list_all_iff) (simp add: dotted_def)
  then show ?thesis
    by (rule path_points_still)
qed

lemma plain_points: "list_all plain_key ks \<Longrightarrow> points (dotted ''input'' ks) = pts (dotted ''input'' ks)"
  using dotted_plain(1) [of ks] ascii_only [of "dotted ''input'' ks"] by (fastforce simp: list_all_iff)

lemma plain_text: "list_all plain_key ks \<Longrightarrow> utf8_text (pts (dotted ''input'' ks)) = dotted ''input'' ks"
  using dotted_plain(1) [of ks] by (intro utf8_text_ascii) (auto simp: list_all_iff)

lemma normal_plain: "list_all plain_key ks \<Longrightarrow> normalize_feature_path (dotted ''input'' ks) = dotted ''input'' ks"
  by (simp add: normalize_feature_path_def plain_points path_points_plain plain_text)

lemma lower_dotted: "ascii_lower (dotted ''input'' ks) = dotted ''input'' (map ascii_lower ks)"
proof -
  have "ascii_lower (concat (map (\<lambda>k. ''.'' @ k) ks)) = concat (map (\<lambda>k. ''.'' @ k) (map ascii_lower ks))" for ks
    by (induction ks) (simp_all add: ascii_lower_def lower_char_def)
  then show ?thesis
    by (simp add: dotted_def) (simp add: ascii_lower_def lower_char_def)
qed

lemma lowered_plain:
  assumes "list_all plain_key ks"
  shows "dialogue_feature_path (dotted ''input'' ks) = dotted ''input'' (map ascii_lower ks)"
proof -
  have "list_all (\<lambda>n. n < 128) (pts (dotted ''input'' ks))"
    using dotted_plain(1) [OF assms] by (fastforce simp: list_all_iff)
  then have "lower_points (pts (dotted ''input'' ks)) = pts (dotted ''input'' (map ascii_lower ks))"
    using ascii_lower_points [of "dotted ''input'' ks"] by (simp only: lower_points_ascii lower_dotted)
  moreover have "list_all plain_key (map ascii_lower ks)"
    using assms by (auto simp: list_all_iff plain_lower)
  ultimately show ?thesis
    using assms plain_text by (simp add: dialogue_feature_path_def plain_points path_points_plain)
qed

lemma split_dotted:
  "CHR ''.'' \<notin> set p \<Longrightarrow> list_all (\<lambda>k. CHR ''.'' \<notin> set k) ks \<Longrightarrow> split_dots [] (dotted p ks) = p # ks"
proof (induction ks arbitrary: p)
  case (Cons k ks)
  then show ?case
    using split_dots_cut [of "[]" p "dotted k ks"] by (simp add: dotted_Cons split_dots_plain)
qed (simp add: split_dots_plain)

lemma tokens_plain:
  assumes "list_all plain_key ks"
  shows "t \<in> set (path_tokens (dotted ''input'' ks)) \<longleftrightarrow> t \<in> insert ''input'' (set ks) \<and> t \<noteq> ''*''"
proof -
  have "list_all (\<lambda>k. CHR ''.'' \<notin> set k) ks" "[] \<notin> set ks"
    using assms plain_key_facts by (auto simp: list_all_iff)
  then show ?thesis
    using split_dotted [of "''input''" ks] by (auto simp: path_tokens_def)
qed

section \<open>The contract of a scan\<close>

definition reported :: "guard_finding list \<Rightarrow> bool" where
  "reported findings \<longleftrightarrow> list_ex (\<lambda>f. gf_code f = ''blocked_field'') findings"

lemma blocked_in_iff: "blocked_in tokens path \<noteq> [] \<longleftrightarrow> set (path_tokens path) \<inter> set tokens \<noteq> {}"
  by (auto simp: blocked_in_def filter_empty_conv)

lemma two_sets: "(\<And>t. t \<in> T \<longleftrightarrow> t \<in> insert a S \<and> t \<noteq> b) \<Longrightarrow> a \<notin> B \<Longrightarrow> b \<notin> B \<Longrightarrow> T \<inter> B = S \<inter> B"
  by (intro set_eqI) (metis IntD1 IntD2 IntI insert_iff)

locale label_scan =
  fixes normal :: "string \<Rightarrow> string" and fold :: "string \<Rightarrow> string"
    and blocked :: "string list" and exacts :: "string list" and check :: "string \<Rightarrow> guard_finding list"
  assumes keeps: "list_all valid_utf8 ks \<Longrightarrow> k \<in> set ks \<Longrightarrow> word_key k \<Longrightarrow>
      fold k \<in> set (path_tokens (normal (dotted ''input'' ks)))"
    and reports: "reported (check p) \<longleftrightarrow> normal p \<in> set exacts \<or> set (path_tokens (normal p)) \<inter> set blocked \<noteq> {}"
begin

lemma scan_complete:
  assumes "\<forall>p \<in> set (iter_leaf_paths v ''input''). \<not> reported (check p)" and "leaf_at ks v" and "list_all valid_utf8 ks"
    and "k \<in> set ks" and "word_key k"
  shows "fold k \<notin> set blocked"
proof -
  have "dotted ''input'' ks \<in> set (iter_leaf_paths v ''input'')"
    using leaf_paths [of "''input''" v] assms(2) by blast
  then have "set (path_tokens (normal (dotted ''input'' ks))) \<inter> set blocked = {}"
    using assms(1) reports by blast
  then show ?thesis
    using keeps [OF assms(3-5)] by blast
qed

end

locale plain_scan = label_scan +
  assumes plain: "list_all plain_key ks \<Longrightarrow> normal (dotted ''input'' ks) = dotted ''input'' (map fold ks)"
    and plain_fold: "plain_key k \<Longrightarrow> plain_key (fold k)"
    and nothing_blocks_input: "''input'' \<notin> set blocked" "''*'' \<notin> set blocked"
begin

lemma reported_plain:
  assumes "list_all plain_key ks"
  shows "reported (check (dotted ''input'' ks)) \<longleftrightarrow>
      dotted ''input'' (map fold ks) \<in> set exacts \<or> fold ` set ks \<inter> set blocked \<noteq> {}"
proof -
  have "list_all plain_key (map fold ks)"
    using assms plain_fold by (auto simp: list_all_iff)
  then have "set (path_tokens (dotted ''input'' (map fold ks))) \<inter> set blocked = set (map fold ks) \<inter> set blocked"
    by (intro two_sets [OF tokens_plain nothing_blocks_input])
  then show ?thesis
    by (simp only: reports plain [OF assms] set_map)
qed

lemma scan_exact:
  assumes "\<And>ks. leaf_at ks v \<Longrightarrow> list_all plain_key ks"
  shows "(\<forall>p \<in> set (iter_leaf_paths v ''input''). \<not> reported (check p)) \<longleftrightarrow>
    (\<forall>ks. leaf_at ks v \<longrightarrow> dotted ''input'' (map fold ks) \<notin> set exacts \<and> fold ` set ks \<inter> set blocked = {})"
proof -
  have paths: "(\<forall>p \<in> set (iter_leaf_paths v ''input''). Q p) \<longleftrightarrow> (\<forall>ks. leaf_at ks v \<longrightarrow> Q (dotted ''input'' ks))" for Q
    unfolding leaf_paths [of "''input''" v, simplified] by blast
  have each: "\<not> reported (check (dotted ''input'' ks)) \<longleftrightarrow>
      dotted ''input'' (map fold ks) \<notin> set exacts \<and> fold ` set ks \<inter> set blocked = {}" if "leaf_at ks v" for ks
    using reported_plain [OF assms [OF that]] by blast
  show ?thesis
    unfolding paths using each by blast
qed

end

end
