(* ===== verification/LeakageRegistry.thy ===== *)
theory LeakageRegistry
  imports Splits
begin

text \<open>
  The registry of repositories shared by two datasets (\<open>training/leakage_registry.py\<close>): a repository is
  compared by its digest, so a lane that stores names can be checked against one that stores digests.
\<close>

definition REGISTRY_VERSION :: string where "REGISTRY_VERSION = ''pneuma-cross-dataset-leakage/0.1.0''"
definition DIGEST_PREFIX :: string where "DIGEST_PREFIX = ''sha256:''"

definition repo_digest :: "string \<Rightarrow> string result" where
  "repo_digest repo = bindR (utf8_encode repo) (\<lambda>s. Ok (DIGEST_PREFIX @ sha256_hex s))"

definition canonicalize_repo :: "string \<Rightarrow> string result" where
  "canonicalize_repo repo =
     (let v = text_strip repo in if take (length DIGEST_PREFIX) v = DIGEST_PREFIX then Ok v else repo_digest v)"

text \<open>Sets of digests, as sorted lists without repetition.\<close>

definition digest_set :: "string list \<Rightarrow> string list result" where
  "digest_set repos = bindR (mapR canonicalize_repo repos) (\<lambda>ds. Ok (sort (remdups ds)))"

definition collect_split_group_repos :: "dict list \<Rightarrow> string list result" where
  "collect_split_group_repos examples =
     bindR (foldR (\<lambda>digests example.
        bindR (jget (py_or (dget example ''split_group'') (JObj [])) ''repo'') (\<lambda>repo.
          case repo of
            JStr r \<Rightarrow> if r \<noteq> [] then bindR (canonicalize_repo r) (\<lambda>d. Ok (digests @ [d])) else Ok digests
          | _ \<Rightarrow> Ok digests)) [] examples) (\<lambda>ds. Ok (sort (remdups ds)))"

definition check_overlap :: "string list \<Rightarrow> string list \<Rightarrow> dict result" where
  "check_overlap dataset_a_repos dataset_b_repos =
     bindR (digest_set dataset_a_repos) (\<lambda>a.
     bindR (digest_set dataset_b_repos) (\<lambda>b.
       let overlap = filter (\<lambda>d. d \<in> set b) a in
       Ok [(''registry_version'', JStr REGISTRY_VERSION), (''dataset_a_repo_count'', JInt (int (length a))),
           (''dataset_b_repo_count'', JInt (int (length b))), (''overlap_count'', JInt (int (length overlap))),
           (''overlapping_repo_digests'', JList (map JStr overlap)), (''disjoint'', JBool (overlap = [])),
           (''joint_training_safe'', JBool (overlap = [])),
           (''note'', JStr (''disjoint repo sets are necessary but NOT sufficient for joint '' @
              ''training; other blockers (ToS, authorization) still apply''))]))"

definition uncollected_overlap :: dict where
  "uncollected_overlap =
     [(''registry_version'', JStr REGISTRY_VERSION), (''dataset_a_repo_count'', JNull), (''dataset_b_repo_count'', JNull),
      (''overlap_count'', JNull), (''overlapping_repo_digests'', JList []), (''disjoint'', JNull),
      (''joint_training_safe'', JBool False), (''note'', JStr ''repo sets not yet collected; joint training blocked'')]"

definition build_registry_manifest ::
  "string \<Rightarrow> string \<Rightarrow> string list option \<Rightarrow> string list option \<Rightarrow> bool \<Rightarrow> dict result" where
  "build_registry_manifest dataset_a_id dataset_b_id dataset_a_repos dataset_b_repos populated =
     bindR (case (populated, dataset_a_repos, dataset_b_repos) of
              (True, Some a, Some b) \<Rightarrow> bindR (check_overlap a b) (\<lambda>overlap. Ok (overlap, ''populated''))
            | _ \<Rightarrow> Ok (uncollected_overlap, ''foundation_unpopulated'')) (\<lambda>(overlap, status).
       Ok [(''leakage_registry_schema_version'', JStr ''0.1.0''), (''registry_version'', JStr REGISTRY_VERSION),
           (''status'', JStr status),
           (''canonicalization'', JObj
              [(''scheme'', JStr ''sha256:<hex> over raw repo string''), (''handles_mixed_raw_and_digest_lanes'', JBool True),
               (''matches_adapter_digest'', JStr ''adapters.open_swe_traces._digest'')]),
           (''datasets'', JObj [(''a'', JObj [(''dataset_id'', JStr dataset_a_id)]), (''b'', JObj [(''dataset_id'', JStr dataset_b_id)])]),
           (''overlap'', JObj overlap),
           (''joint_training_authorization'', JObj
              [(''status'', JStr ''not_authorized''),
               (''requires'', JList
                  [JStr ''populated repo sets for both datasets'',
                   JStr ''verified zero overlap OR an explicit split-quarantine plan'',
                   JStr ''all other per-dataset blockers resolved (e.g. Minimax/Qwen ToS)''])])])"

end
