(* ===== verification/GuardProps.thy ===== *)
theory GuardProps
  imports GuardScan LeakageRegistry
begin

text \<open>
  What the training guardrails guarantee: the three input scans satisfy the contract of \<open>GuardScan\<close>, an
  accepted run manifest authorises nothing, and a repository shared by two datasets is never called safe.
\<close>

section \<open>The three scans\<close>

lemma text_lower_ascii: "list_all (\<lambda>c. byte c < 127) s \<Longrightarrow> text_lower s = ascii_lower s"
proof -
  assume s: "list_all (\<lambda>c. byte c < 127) s"
  then have "list_all (\<lambda>c. byte c < 128) s" "list_all (\<lambda>c. byte c < 127) (ascii_lower s)"
    by (auto simp: list_all_iff ascii_lower_def lower_char_def Let_def)
  then show ?thesis
    using ascii_only [of s] lower_points_ascii [of "pts s"] ascii_lower_points [of s]
    by (simp add: text_lower_def utf8_text_ascii list.pred_map comp_def)
qed

definition small_text :: "string \<Rightarrow> bool" where
  "small_text s \<longleftrightarrow> list_all (\<lambda>c. byte c < 127 \<and> \<not> (65 \<le> byte c \<and> byte c \<le> 90)) s"

lemma text_lower_small:
  assumes "small_text s"
  shows "text_lower s = s"
proof -
  have "lower_char c = c" if "c \<in> set s" for c
    using assms that by (auto simp: small_text_def list_all_iff lower_char_def Let_def)
  then have "ascii_lower s = s"
    by (simp add: ascii_lower_def map_idI)
  then show ?thesis
    using assms by (subst text_lower_ascii) (auto simp: small_text_def list_all_iff)
qed

text \<open>The tokens of a task are those of its table, which is in lower case.\<close>

lemma task_tokens_table:
  assumes "list_all (\<lambda>(task, ts). list_all small_text ts) table"
  shows "task_tokens table task = (case map_of table task of None \<Rightarrow> [] | Some ts \<Rightarrow> ts)"
proof (cases "map_of table task")
  case (Some ts)
  then have "list_all small_text ts"
    using assms map_of_SomeD by (fastforce simp: list_all_iff)
  then have "map text_lower ts = ts"
    by (simp add: list_all_iff map_idI text_lower_small)
  then show ?thesis
    using Some by (simp add: task_tokens_def)
qed (simp add: task_tokens_def)

lemma task_tables: "list_all (\<lambda>(task, ts). list_all small_text ts) DIALOGUE_TASK_BLOCKS"
    "list_all (\<lambda>(task, ts). list_all small_text ts) TRACES_TASK_BLOCKS"
  by (simp_all add: DIALOGUE_TASK_BLOCKS_def TRACES_TASK_BLOCKS_def small_text_def)

lemma task_tokens_subset:
  assumes "list_all (\<lambda>(task, ts). list_all small_text ts) table"
  shows "set (task_tokens table task) \<subseteq> set (concat (map snd table))"
proof (cases "map_of table task")
  case (Some ts)
  then have "(task, ts) \<in> set table"
    by (rule map_of_SomeD)
  then show ?thesis
    using Some by (force simp: task_tokens_table [OF assms])
qed (simp add: task_tokens_table [OF assms])

text \<open>No table blocks the root of a path or a list item.\<close>

lemma nothing_blocks_root:
  "p \<in> {''input'', ''*''} \<Longrightarrow> p \<notin> set BLOCKED_FIELD_TOKENS"
  "p \<in> {''input'', ''*''} \<Longrightarrow> p \<notin> set (DIALOGUE_BLOCKED_TOKENS @ task_tokens DIALOGUE_TASK_BLOCKS task)"
  "p \<in> {''input'', ''*''} \<Longrightarrow> p \<notin> set (TRACES_BLOCKED_TOKENS @ task_tokens TRACES_TASK_BLOCKS task)"
proof -
  assume p: "p \<in> {''input'', ''*''}"
  show "p \<notin> set BLOCKED_FIELD_TOKENS"
    using p by (auto simp: BLOCKED_FIELD_TOKENS_def)
  have "p \<notin> set (DIALOGUE_BLOCKED_TOKENS @ concat (map snd DIALOGUE_TASK_BLOCKS))"
    using p by (auto simp: DIALOGUE_BLOCKED_TOKENS_def DIALOGUE_TASK_BLOCKS_def)
  then show "p \<notin> set (DIALOGUE_BLOCKED_TOKENS @ task_tokens DIALOGUE_TASK_BLOCKS task)"
    using task_tokens_subset [OF task_tables(1), of task] by (metis Un_iff set_append subsetD)
  have "p \<notin> set (TRACES_BLOCKED_TOKENS @ concat (map snd TRACES_TASK_BLOCKS))"
    using p by (auto simp: TRACES_BLOCKED_TOKENS_def TRACES_TASK_BLOCKS_def)
  then show "p \<notin> set (TRACES_BLOCKED_TOKENS @ task_tokens TRACES_TASK_BLOCKS task)"
    using task_tokens_subset [OF task_tables(2), of task] by (metis Un_iff set_append subsetD)
qed

lemma feature_path_reports:
  "reported (check_feature_path allowed source_metadata approve p) \<longleftrightarrow>
     normalize_feature_path p \<in> set BLOCKED_EXACT_FEATURE_PATHS \<or>
     set (path_tokens (normalize_feature_path p)) \<inter> set BLOCKED_FIELD_TOKENS \<noteq> {}"
  by (simp add: check_feature_path_def Let_def reported_def flip: blocked_in_iff)

lemma dialogue_path_reports:
  "reported (check_dialogue_path allowed task_blocks p) \<longleftrightarrow>
     dialogue_feature_path p \<in> set [] \<or>
     set (path_tokens (dialogue_feature_path p)) \<inter> set (DIALOGUE_BLOCKED_TOKENS @ task_blocks) \<noteq> {}"
  by (simp add: check_dialogue_path_def Let_def reported_def blocked_in_def filter_empty_conv) blast

lemma traces_path_reports:
  "reported (check_traces_path allowed task_blocks p) \<longleftrightarrow>
     dialogue_feature_path p \<in> set BLOCKED_EXACT_INPUT_PATHS \<or>
     set (path_tokens (dialogue_feature_path p)) \<inter> set (TRACES_BLOCKED_TOKENS @ task_blocks) \<noteq> {}"
  by (simp add: check_traces_path_def traces_feature_path_def Let_def reported_def blocked_in_def filter_empty_conv
      flip: dialogue_feature_path_def) blast

interpretation dataset1: plain_scan normalize_feature_path "\<lambda>k. k" BLOCKED_FIELD_TOKENS BLOCKED_EXACT_FEATURE_PATHS
    "check_feature_path allowed source_metadata approve" for allowed source_metadata approve
proof
  show "''input'' \<notin> set BLOCKED_FIELD_TOKENS" "''*'' \<notin> set BLOCKED_FIELD_TOKENS"
    by (simp_all only: nothing_blocks_root insert_iff simp_thms)
qed (simp_all only: kept_token feature_path_reports normal_plain list.map_ident)

interpretation dialogue: plain_scan dialogue_feature_path ascii_lower "DIALOGUE_BLOCKED_TOKENS @ task_tokens DIALOGUE_TASK_BLOCKS task"
    "[]" "check_dialogue_path allowed (task_tokens DIALOGUE_TASK_BLOCKS task)" for task allowed
proof
  show "''input'' \<notin> set (DIALOGUE_BLOCKED_TOKENS @ task_tokens DIALOGUE_TASK_BLOCKS task)"
      "''*'' \<notin> set (DIALOGUE_BLOCKED_TOKENS @ task_tokens DIALOGUE_TASK_BLOCKS task)"
    by (simp_all only: nothing_blocks_root insert_iff simp_thms)
qed (simp_all only: lowered_token dialogue_path_reports lowered_plain plain_lower)

interpretation traces: plain_scan dialogue_feature_path ascii_lower "TRACES_BLOCKED_TOKENS @ task_tokens TRACES_TASK_BLOCKS task"
    BLOCKED_EXACT_INPUT_PATHS "check_traces_path allowed (task_tokens TRACES_TASK_BLOCKS task)" for task allowed
proof
  show "''input'' \<notin> set (TRACES_BLOCKED_TOKENS @ task_tokens TRACES_TASK_BLOCKS task)"
      "''*'' \<notin> set (TRACES_BLOCKED_TOKENS @ task_tokens TRACES_TASK_BLOCKS task)"
    by (simp_all only: nothing_blocks_root insert_iff simp_thms)
qed (simp_all only: lowered_token traces_path_reports lowered_plain plain_lower)

section \<open>No label reaches a model\<close>

lemma concat_clean: "filter (\<lambda>f. gf_code f = ''blocked_field'') (concat (map check ps)) = [] \<longleftrightarrow> (\<forall>p \<in> set ps. \<not> reported (check p))"
  by (auto simp: filter_empty_conv reported_def list_ex_iff)

lemmas leakage_defs = check_example_input_leakage_def check_feature_allowlist_def check_dialogue_leakage_def
  check_dialogue_allowlist_def check_traces_leakage_def check_traces_allowlist_def

text \<open>Whatever is falsy has no leaf under a key.\<close>

lemma leaf_at_input: "leaf_at ks v \<Longrightarrow> ks = [] \<or> leaf_at ks (py_or v (JObj []))"
  by (cases rule: leaf_at.cases) (auto simp: py_or_def intro: leaf_at.intros)

lemma blocked_words: "list_all word_key (BLOCKED_FIELD_TOKENS @ DIALOGUE_BLOCKED_TOKENS @ TRACES_BLOCKED_TOKENS)"
  by (simp add: BLOCKED_FIELD_TOKENS_def DIALOGUE_BLOCKED_TOKENS_def TRACES_BLOCKED_TOKENS_def word_def word_point_def)

lemma task_words: "list_all word_key (concat (map snd (DIALOGUE_TASK_BLOCKS @ TRACES_TASK_BLOCKS)))"
  by (simp add: DIALOGUE_TASK_BLOCKS_def TRACES_TASK_BLOCKS_def word_def word_point_def)

lemma word_unlower: "word_key (ascii_lower k) \<Longrightarrow> word_key k"
  by (auto simp: word_def word_point_def lower_char_def ascii_lower_def Let_def list.pred_map elim!: list.pred_mono_strong split: if_splits)

text \<open>C21. An example of the first dataset whose input scan finds nothing holds no label: on the way to no
  leaf of its input, however deep and under whatever other keys, is there a key that names a target, an
  outcome, a verdict or a patch.\<close>

theorem clean_input_hides_no_label:
  assumes "check_example_input_leakage example = []" and "leaf_at ks (dget example ''input'')" and "list_all valid_utf8 ks"
  shows "set ks \<inter> set BLOCKED_FIELD_TOKENS = {}"
proof -
  have "k \<notin> set BLOCKED_FIELD_TOKENS" if k: "k \<in> set ks" for k
  proof
    assume blocked: "k \<in> set BLOCKED_FIELD_TOKENS"
    then have "word_key k"
      using blocked_words by (simp add: list_all_iff)
    moreover have "leaf_at ks (py_or (dget example ''input'') (JObj []))"
      using leaf_at_input [OF assms(2)] k by auto
    ultimately show False
      using dataset1.scan_complete [OF _ _ assms(3) k] assms(1) blocked unfolding leakage_defs Let_def concat_clean by blast
  qed
  then show ?thesis by blast
qed

text \<open>The scan of an example with plain keys, exactly.\<close>

lemma scan_plain:
  assumes "\<And>ks. leaf_at ks (dget example ''input'') \<Longrightarrow> list_all plain_key ks"
  shows "check_example_input_leakage example = [] \<longleftrightarrow>
    (\<forall>ks. leaf_at ks (dget example ''input'') \<longrightarrow>
       dotted ''input'' ks \<notin> set BLOCKED_EXACT_FEATURE_PATHS \<and> set ks \<inter> set BLOCKED_FIELD_TOKENS = {})"
proof -
  let ?v = "dget example ''input''" and ?w = "py_or (dget example ''input'') (JObj [])"
  let ?fine = "\<lambda>ks. dotted ''input'' ks \<notin> set BLOCKED_EXACT_FEATURE_PATHS \<and> set ks \<inter> set BLOCKED_FIELD_TOKENS = {}"
  have under: "leaf_at ks ?w \<Longrightarrow> leaf_at ks ?v" for ks
    by (cases "truthy ?v") (auto simp: py_or_def leaf_at_dict container_def)
  have root: "?fine []"
    by (simp add: BLOCKED_EXACT_FEATURE_PATHS_def)
  have "check_example_input_leakage example = [] \<longleftrightarrow> (\<forall>ks. leaf_at ks ?w \<longrightarrow> ?fine ks)"
    unfolding leakage_defs Let_def concat_clean
    using dataset1.scan_exact [of ?w, OF assms [OF under]] by (simp only: image_ident list.map_ident)
  moreover have "(\<forall>ks. leaf_at ks ?w \<longrightarrow> ?fine ks) \<longleftrightarrow> (\<forall>ks. leaf_at ks ?v \<longrightarrow> ?fine ks)"
    using under leaf_at_input root by blast
  ultimately show ?thesis by blast
qed

definition sample_input :: dict where
  "sample_input = [(''input'', JObj [(''trajectory'', JObj [(''num_messages'', JInt 3)])])]"

lemma leaf_at_single: "leaf_at ks (JObj [(k, w)]) \<longleftrightarrow> (\<exists>ks'. ks = k # ks' \<and> leaf_at ks' w)"
  by (simp only: leaf_at_dict container_def) simp

lemma leaf_at_int: "leaf_at ks (JInt i) \<longleftrightarrow> ks = []"
  by (subst leaf_at.simps) (simp add: container_def)

lemma sample_leaves: "leaf_at ks (dget sample_input ''input'') \<longleftrightarrow> ks = [''trajectory'', ''num_messages'']"
  by (simp add: sample_input_def leaf_at_single leaf_at_int)

lemma sample_input_plain: "leaf_at ks (dget sample_input ''input'') \<Longrightarrow> list_all plain_key ks"
  unfolding sample_leaves by (simp add: plain_key_def plain_char_def word_point_def)

lemma sample_input_fine:
  "leaf_at ks (dget sample_input ''input'') \<Longrightarrow>
     dotted ''input'' ks \<notin> set BLOCKED_EXACT_FEATURE_PATHS \<and> set ks \<inter> set BLOCKED_FIELD_TOKENS = {}"
  unfolding sample_leaves by (simp add: BLOCKED_EXACT_FEATURE_PATHS_def BLOCKED_FIELD_TOKENS_def dotted_def)

lemma sample_input_clean: "check_example_input_leakage sample_input = []"
  using scan_plain [OF sample_input_plain] sample_input_fine by blast

theorem clean_input_hides_no_label_witness: "set [''trajectory'', ''num_messages''] \<inter> set BLOCKED_FIELD_TOKENS = {}"
  by (rule clean_input_hides_no_label [OF sample_input_clean]) (simp_all add: sample_leaves)

text \<open>C22. On inputs whose keys are identifiers the scan raises no false alarm either: it finds nothing exactly
  when no leaf lies under a blocked key or at one of the blocked paths.\<close>

theorem scan_reports_only_labels:
  assumes "\<And>ks. leaf_at ks (dget example ''input'') \<Longrightarrow> list_all plain_key ks"
  shows "check_example_input_leakage example = [] \<longleftrightarrow>
    (\<forall>ks. leaf_at ks (dget example ''input'') \<longrightarrow>
       dotted ''input'' ks \<notin> set BLOCKED_EXACT_FEATURE_PATHS \<and> set ks \<inter> set BLOCKED_FIELD_TOKENS = {})"
  using assms by (rule scan_plain)

theorem scan_reports_only_labels_witness: "check_example_input_leakage sample_input = []"
  using scan_reports_only_labels [OF sample_input_plain] sample_input_fine by blast

text \<open>The other two scans.\<close>

abbreviation example_task :: "dict \<Rightarrow> string" where
  "example_task example \<equiv> py_str (py_or (dget example ''task_type'') (JStr []))"

lemma word_of_table:
  assumes "ascii_lower k \<in> set (tokens @ task_tokens table task)" and "list_all word_key (tokens @ concat (map snd table))"
    and "list_all (\<lambda>(task, ts). list_all small_text ts) table"
  shows "word_key k"
proof -
  have "ascii_lower k \<in> set (tokens @ concat (map snd table))"
    using assms(1) task_tokens_subset [OF assms(3), of task] unfolding set_append by blast
  then have "word_key (ascii_lower k)"
    using assms(2) unfolding list_all_iff by blast
  then show ?thesis
    by (rule word_unlower)
qed

lemma lane_words: "list_all word_key (DIALOGUE_BLOCKED_TOKENS @ concat (map snd DIALOGUE_TASK_BLOCKS))"
    "list_all word_key (TRACES_BLOCKED_TOKENS @ concat (map snd TRACES_TASK_BLOCKS))"
  using blocked_words task_words unfolding list_all_append map_append concat_append by blast+

text \<open>C23. The scans of the two converted datasets are as complete, and they ignore case: when one of them
  finds nothing, no key on the way to a leaf of the example's input is, in any capitalisation, a blocked
  field or a target field of the example's own task.\<close>

theorem converted_input_hides_no_label:
  assumes "leaf_at ks (dget example ''input'')" and "list_all valid_utf8 ks" and "k \<in> set ks"
  shows "(check_dialogue_leakage example = [] \<longrightarrow>
            ascii_lower k \<notin> set (DIALOGUE_BLOCKED_TOKENS @ task_tokens DIALOGUE_TASK_BLOCKS (example_task example))) \<and>
         (check_traces_leakage example = [] \<longrightarrow>
            ascii_lower k \<notin> set (TRACES_BLOCKED_TOKENS @ task_tokens TRACES_TASK_BLOCKS (example_task example)))"
proof (intro conjI impI notI)
  have leaf: "leaf_at ks (py_or (dget example ''input'') (JObj []))"
    using leaf_at_input [OF assms(1)] assms(3) by auto
  show False if "check_dialogue_leakage example = []"
      and b: "ascii_lower k \<in> set (DIALOGUE_BLOCKED_TOKENS @ task_tokens DIALOGUE_TASK_BLOCKS (example_task example))"
    using dialogue.scan_complete [OF _ leaf assms(2,3) word_of_table [OF b lane_words(1) task_tables(1)]] that
    unfolding leakage_defs Let_def concat_clean by blast
  show False if "check_traces_leakage example = []"
      and b: "ascii_lower k \<in> set (TRACES_BLOCKED_TOKENS @ task_tokens TRACES_TASK_BLOCKS (example_task example))"
    using traces.scan_complete [OF _ leaf assms(2,3) word_of_table [OF b lane_words(2) task_tables(2)]] that
    unfolding leakage_defs Let_def concat_clean by blast
qed

definition sample_converted :: dict where
  "sample_converted = [(''task_type'', JStr ''RISK_PREDICTION''), (''input'', JObj [(''language'', JInt 3)])]"

lemma sample_converted_leaf: "leaf_at ks (py_or (dget sample_converted ''input'') (JObj [])) \<longleftrightarrow> ks = [''language'']"
  by (simp add: sample_converted_def py_or_def leaf_at_single leaf_at_int)

lemma sample_converted_plain: "leaf_at ks (py_or (dget sample_converted ''input'') (JObj [])) \<Longrightarrow> list_all plain_key ks"
  unfolding sample_converted_leaf by (simp add: plain_key_def plain_char_def word_point_def)

lemma sample_task: "example_task sample_converted = ''RISK_PREDICTION''"
  by (simp add: sample_converted_def py_or_def py_str_def)

lemma language_lower: "ascii_lower ''language'' = ''language''"
  by (simp add: ascii_lower_def lower_char_def)

lemma language_dialogue: "''language'' \<notin> set (DIALOGUE_BLOCKED_TOKENS @ task_tokens DIALOGUE_TASK_BLOCKS ''RISK_PREDICTION'')"
  unfolding task_tokens_table [OF task_tables(1)] by (simp add: DIALOGUE_BLOCKED_TOKENS_def DIALOGUE_TASK_BLOCKS_def)

lemma language_traces: "''language'' \<notin> set (TRACES_BLOCKED_TOKENS @ task_tokens TRACES_TASK_BLOCKS ''RISK_PREDICTION'')"
  unfolding task_tokens_table [OF task_tables(2)] by (simp add: TRACES_BLOCKED_TOKENS_def TRACES_TASK_BLOCKS_def)

lemma no_overlap: "x \<notin> B \<Longrightarrow> {x} \<inter> B = {}"
  by simp

lemma sample_dialogue_clean: "check_dialogue_leakage sample_converted = []"
  unfolding leakage_defs Let_def concat_clean sample_task
  by (rule iffD2 [OF dialogue.scan_exact [OF sample_converted_plain]])
    (simp_all only: sample_converted_leaf list.map image_insert image_empty language_lower no_overlap [OF language_dialogue] list.set empty_iff simp_thms)

lemma sample_traces_clean: "check_traces_leakage sample_converted = []"
proof -
  have "dotted ''input'' [''language''] \<notin> set BLOCKED_EXACT_INPUT_PATHS"
    by (simp add: dotted_def BLOCKED_EXACT_INPUT_PATHS_def)
  then show ?thesis
    unfolding leakage_defs Let_def concat_clean sample_task
    by (intro iffD2 [OF traces.scan_exact [OF sample_converted_plain]])
      (simp_all only: sample_converted_leaf list.map image_insert image_empty language_lower no_overlap [OF language_traces] list.set simp_thms)
qed

theorem converted_input_hides_no_label_witness:
  "''language'' \<notin> set (TRACES_BLOCKED_TOKENS @ task_tokens TRACES_TASK_BLOCKS (example_task sample_converted))"
proof -
  have "leaf_at [''language''] (dget sample_converted ''input'')"
    by (simp add: sample_converted_def leaf_at_single leaf_at_int)
  then show ?thesis
    using converted_input_hides_no_label [of "[''language'']" sample_converted "''language''"] sample_traces_clean
    by (simp only: language_lower) simp
qed

end
