(* ===== verification/GuardTables.thy ===== *)
theory GuardTables
  imports GuardProps
begin

text \<open>
  The tables of the guardrails: their paths are in normal form, so normalisation leaves them alone, and every
  path on an allowlist passes the check it belongs to.
\<close>

section \<open>The tables are in normal form\<close>

definition neat :: "string \<Rightarrow> bool" where
  "neat p \<longleftrightarrow> take 5 p = ''input'' \<and> list_all (\<lambda>c. 40 \<le> byte c \<and> byte c < 127 \<and> byte c \<noteq> 47 \<and> byte c \<noteq> 91) p \<and> byte (last p) \<noteq> 46"

lemma tidy_still:
  assumes "neat p"
  shows "list_all (\<lambda>c. byte c < 127) p" "path_points (points p) = pts p"
proof -
  show small: "list_all (\<lambda>c. byte c < 127) p"
    using assms by (auto simp: neat_def list_all_iff)
  have "p \<noteq> []"
    using assms by (auto simp: neat_def)
  have "still (pts p)"
    unfolding still_def
  proof (intro conjI)
    show "take 5 (pts p) = pts ''input''"
      using assms by (simp only: neat_def take_map)
    show "list_all (\<lambda>n. n \<noteq> 47 \<and> n \<noteq> 91 \<and> \<not> space_point n) (pts p)"
      using assms not_space_point by (fastforce simp: neat_def list_all_iff)
    show "last (pts p) \<noteq> 46"
      using assms last_map [OF \<open>p \<noteq> []\<close>, of byte] by (simp add: neat_def)
  qed
  moreover have "points p = pts p"
    using small ascii_only [of p] by (fastforce simp: list_all_iff)
  ultimately show "path_points (points p) = pts p"
    by (simp add: path_points_still)
qed

lemma normal_tidy: "neat p \<Longrightarrow> normalize_feature_path p = p"
  by (simp add: normalize_feature_path_def tidy_still utf8_text_ascii)

lemma lowered_tidy: "neat p \<Longrightarrow> small_text p \<Longrightarrow> dialogue_feature_path p = p"
proof -
  assume p: "neat p" "small_text p"
  have "list_all (\<lambda>c. byte c < 128) p"
    using tidy_still(1) [OF p(1)] by (auto simp: list_all_iff)
  then have "lower_points (pts p) = pts p"
    using p(2) by (subst lower_points_ascii) (auto simp: list_all_iff small_text_def lower_ascii_def)
  then show ?thesis
    using p(1) by (simp add: dialogue_feature_path_def tidy_still utf8_text_ascii)
qed

lemma tidy_features: "list_all neat DEFAULT_ALLOWED_FEATURE_PATHS"
  by (simp add: DEFAULT_ALLOWED_FEATURE_PATHS_def neat_def)

lemma tidy_metadata: "list_all neat SOURCE_METADATA_FEATURE_PATHS"
  by (simp add: SOURCE_METADATA_FEATURE_PATHS_def neat_def)

lemma tidy_inputs: "list_all (\<lambda>p. neat p \<and> small_text p) DIALOGUE_ALLOWED_INPUT_PATHS"
  by (simp add: DIALOGUE_ALLOWED_INPUT_PATHS_def neat_def small_text_def)

lemma normal_tables:
  "map normalize_feature_path DEFAULT_ALLOWED_FEATURE_PATHS = DEFAULT_ALLOWED_FEATURE_PATHS"
  "map normalize_feature_path SOURCE_METADATA_FEATURE_PATHS = SOURCE_METADATA_FEATURE_PATHS"
  "map dialogue_feature_path DIALOGUE_ALLOWED_INPUT_PATHS = DIALOGUE_ALLOWED_INPUT_PATHS"
  using tidy_features tidy_metadata tidy_inputs normal_tidy lowered_tidy unfolding list_all_iff by (auto intro: map_idI)

lemma matches_self: "matches_pattern p p"
proof -
  have "take (length p - 2 + 1) p = take (length p - 2) p @ ''.''" if "drop (length p - 2) p = ''.*''" "2 \<le> length p"
    using that append_take_drop_id [of "length p - 2" p] by (metis Suc_eq_plus1 append_Cons append_Nil append_eq_conv_conj append_take_drop_id length_append_singleton length_take min.absorb2 diff_le_self append_assoc)
  then show ?thesis
    by (auto simp: matches_pattern_def Let_def)
qed

lemma matches_any_member: "p \<in> set ps \<Longrightarrow> matches_any ps p"
  using matches_self by (auto simp: matches_any_def list_ex_iff)

lemma token_dots: "t \<in> set (path_tokens p) \<Longrightarrow> t \<in> set (split_dots [] p)"
  by (auto simp: path_tokens_def)

lemma features_free: "list_all (\<lambda>p. list_all (\<lambda>t. t \<notin> set BLOCKED_FIELD_TOKENS) (split_dots [] p)) DEFAULT_ALLOWED_FEATURE_PATHS"
  by (simp add: DEFAULT_ALLOWED_FEATURE_PATHS_def BLOCKED_FIELD_TOKENS_def)

lemma features_apart: "list_all (\<lambda>p. p \<notin> set BLOCKED_EXACT_FEATURE_PATHS \<and> \<not> matches_any SOURCE_METADATA_FEATURE_PATHS p) DEFAULT_ALLOWED_FEATURE_PATHS"
  by (simp add: DEFAULT_ALLOWED_FEATURE_PATHS_def BLOCKED_EXACT_FEATURE_PATHS_def SOURCE_METADATA_FEATURE_PATHS_def matches_any_def matches_pattern_def)

lemma inputs_free:
  "list_all (\<lambda>p. list_all (\<lambda>t. t \<notin> set DIALOGUE_BLOCKED_TOKENS \<and> t \<notin> set (task_tokens DIALOGUE_TASK_BLOCKS ''TASK_DIFFICULTY'')) (split_dots [] p))
     DIALOGUE_ALLOWED_INPUT_PATHS"
  unfolding task_tokens_table [OF task_tables(1)]
  by (simp add: DIALOGUE_ALLOWED_INPUT_PATHS_def DIALOGUE_BLOCKED_TOKENS_def DIALOGUE_TASK_BLOCKS_def)

lemma concat_map_Nil: "(\<And>x. x \<in> set xs \<Longrightarrow> f x = []) \<Longrightarrow> concat (map f xs) = []"
  by simp

lemma features_accepted: "check_feature_allowlist DEFAULT_ALLOWED_FEATURE_PATHS approve DEFAULT_ALLOWED_FEATURE_PATHS = []"
  unfolding check_feature_allowlist_def Let_def normal_tables
proof (rule concat_map_Nil)
  fix p assume p: "p \<in> set DEFAULT_ALLOWED_FEATURE_PATHS"
  have "normalize_feature_path p = p"
    using tidy_features p normal_tidy unfolding list_all_iff by blast
  moreover have "blocked_in BLOCKED_FIELD_TOKENS p = []"
    using features_free p token_dots unfolding list_all_iff by (fastforce simp: blocked_in_def filter_empty_conv)
  moreover have "p \<notin> set BLOCKED_EXACT_FEATURE_PATHS" "\<not> matches_any SOURCE_METADATA_FEATURE_PATHS p"
    using features_apart p unfolding list_all_iff by blast+
  ultimately show "check_feature_path DEFAULT_ALLOWED_FEATURE_PATHS SOURCE_METADATA_FEATURE_PATHS approve p = []"
    using matches_any_member [OF p] by (simp only: check_feature_path_def Let_def) simp
qed

lemma inputs_accepted: "check_dialogue_allowlist DIALOGUE_ALLOWED_INPUT_PATHS ''TASK_DIFFICULTY'' DIALOGUE_ALLOWED_INPUT_PATHS = []"
  unfolding check_dialogue_allowlist_def normal_tables
proof (rule concat_map_Nil)
  fix p assume p: "p \<in> set DIALOGUE_ALLOWED_INPUT_PATHS"
  have "dialogue_feature_path p = p"
    using tidy_inputs p lowered_tidy unfolding list_all_iff by blast
  moreover have "blocked_in DIALOGUE_BLOCKED_TOKENS p = []" "blocked_in (task_tokens DIALOGUE_TASK_BLOCKS ''TASK_DIFFICULTY'') p = []"
    using inputs_free p token_dots unfolding list_all_iff by (fastforce simp: blocked_in_def filter_empty_conv)+
  ultimately show "check_dialogue_path DIALOGUE_ALLOWED_INPUT_PATHS (task_tokens DIALOGUE_TASK_BLOCKS ''TASK_DIFFICULTY'') p = []"
    using matches_any_member [OF p] by (simp only: check_dialogue_path_def Let_def) simp
qed

end
