(* ===== verification/GuardManifests.thy ===== *)
theory GuardManifests
  imports GuardTables
begin

text \<open>
  Manifests and the registry: the templates pass their own checks, an accepted manifest authorises nothing and
  asks only for fields on the allowlist, the check of the artifact root can be walked around, and a repository
  that two datasets share is never called safe.
\<close>

section \<open>Templates\<close>

lemma template_metrics: "check_metrics build_pre_run_manifest_template = Ok []"
proof -
  have "filterR (\<lambda>metric. bindR (py_in (JStr metric) (strings REQUIRED_PLANNED_METRICS)) (\<lambda>b. Ok (\<not> b))) REQUIRED_PLANNED_METRICS =
      Ok (filter (\<lambda>_. False) REQUIRED_PLANNED_METRICS)"
    by (rule filterR_total) (auto simp: py_in_def strings_def list_ex_iff)
  then show ?thesis
    by (simp add: check_metrics_def build_pre_run_manifest_template_def py_or_def strings_def REQUIRED_PLANNED_METRICS_def)
qed

lemma py_str_texts: "map py_str (map JStr xs) = xs"
  by (simp add: comp_def py_str_def)

text \<open>The template, with another artifact root.\<close>

definition rooted_template :: "string \<Rightarrow> dict" where
  "rooted_template dir = dset build_pre_run_manifest_template ''artifact_root'' (JStr dir)"

lemma rooted_metrics: "check_metrics (rooted_template dir) = Ok []"
  using template_metrics by (simp add: check_metrics_def rooted_template_def)

lemma rooted_fields:
  "dget (rooted_template dir) ''approved_feature_paths'' = strings DEFAULT_ALLOWED_FEATURE_PATHS"
  "dget (rooted_template dir) ''artifact_root'' = JStr dir"
  "field \<noteq> ''artifact_root'' \<Longrightarrow> dget (rooted_template dir) field = dget build_pre_run_manifest_template field"
  "set (map fst (rooted_template dir)) = set (map fst build_pre_run_manifest_template)"
  by (simp_all add: rooted_template_def map_fst_dset) (auto simp: build_pre_run_manifest_template_def)

lemma rooted_present: "missing_fields REQUIRED_PRE_RUN_MANIFEST_FIELDS message (rooted_template dir) = []"
  unfolding missing_fields_def rooted_fields(4)
  by (simp add: filter_empty_conv REQUIRED_PRE_RUN_MANIFEST_FIELDS_def build_pre_run_manifest_template_def)

lemma template_fields:
  "dget build_pre_run_manifest_template ''run_manifest_schema_version'' = JStr RUN_MANIFEST_SCHEMA_VERSION"
  "dget build_pre_run_manifest_template ''dataset_id'' = JStr DATASET_1_ID"
  "dget build_pre_run_manifest_template ''task_type'' = JStr DATASET_1_TASK_TYPE"
  "dget build_pre_run_manifest_template ''runtime_integration'' = JStr ''none''"
  "dget build_pre_run_manifest_template ''training_authorization'' = JStr ''not_authorized''"
  "dget build_pre_run_manifest_template ''training_weight'' = JFloat (Num 0)"
  "dget build_pre_run_manifest_template ''input_examples_sha256'' = JNull"
  "dget build_pre_run_manifest_template ''split_manifest_sha256'' = JNull"
  by (simp_all add: build_pre_run_manifest_template_def)

lemma strings_truthy: "xs \<noteq> [] \<Longrightarrow> py_or (strings xs) (JList []) = strings xs"
  by (simp add: py_or_def strings_def)

text \<open>Whatever the root, its own check decides.\<close>

lemma rooted_validates:
  "validate_pre_run_manifest (rooted_template dir) False = Ok (check_artifact_root (rooted_template dir))"
proof -
  have "py_iter (py_or (dget (rooted_template dir) ''approved_feature_paths'') (JList [])) = Ok (map JStr DEFAULT_ALLOWED_FEATURE_PATHS)"
    unfolding rooted_fields(1) by (subst strings_truthy) (simp_all add: DEFAULT_ALLOWED_FEATURE_PATHS_def strings_def)
  then show ?thesis
    by (simp only: validate_pre_run_manifest_def rooted_metrics bindR_Inr rooted_present py_str_texts features_accepted)
      (simp add: expect_field_def rooted_fields(3) template_fields num_eq_refl)
qed

lemma replace_str_absent: "c \<notin> set s \<Longrightarrow> replace_str [c] new s = s"
proof (induction s)
  case Nil
  then show ?case by (simp add: replace_str.simps)
next
  case (Cons d s)
  then show ?case by (subst replace_str.simps) auto
qed

lemma substring_first: "substring (c # t) s \<Longrightarrow> c \<in> set s"
  unfolding substring_def list_ex_iff by (metis in_set_dropD in_set_takeD list.set_intros(1))

text \<open>A root below the approved prefix passes, whatever follows.\<close>

lemma root_passes:
  assumes "CHR 0x5C \<notin> set rest" and "CHR ''C'' \<notin> set rest"
  shows "check_artifact_root (rooted_template (APPROVED_ARTIFACT_ROOT_PREFIX @ rest)) = []"
proof -
  have "CHR 0x5C \<notin> set (APPROVED_ARTIFACT_ROOT_PREFIX @ rest)" "CHR ''C'' \<notin> set (APPROVED_ARTIFACT_ROOT_PREFIX @ rest)"
    using assms by (simp_all add: APPROVED_ARTIFACT_ROOT_PREFIX_def)
  moreover have "py_str (py_or (JStr (APPROVED_ARTIFACT_ROOT_PREFIX @ rest)) (JStr [])) = APPROVED_ARTIFACT_ROOT_PREFIX @ rest"
    by (simp add: py_or_def py_str_def)
  ultimately show ?thesis
    using substring_first [of "CHR ''C''" "'':/pneuma-data''" "APPROVED_ARTIFACT_ROOT_PREFIX @ rest"]
    by (auto simp: check_artifact_root_def rooted_fields(2) replace_str_absent)
qed

lemma template_rooted: "rooted_template (APPROVED_ARTIFACT_ROOT_PREFIX @ ''risk-baseline-v0/'') = build_pre_run_manifest_template"
  by (simp add: rooted_template_def build_pre_run_manifest_template_def APPROVED_ARTIFACT_ROOT_PREFIX_def)

lemma hashes_missing:
  assumes "validate_pre_run_manifest m False = Ok findings"
  shows "validate_pre_run_manifest m True = Ok (findings @
     map (\<lambda>field. note_finding field ''missing_materialized_hash'' ''fit-ready manifests must record a sha256 hash'')
       (filter (\<lambda>field. \<not> is_sha256 (dget m field)) REQUIRED_MATERIALIZED_HASH_FIELDS))"
  using assms by (auto simp: validate_pre_run_manifest_def result_simps)

lemma readiness_template_fields:
  "dget build_readiness_manifest_template ''manifest_schema_version'' = JStr READINESS_MANIFEST_SCHEMA_VERSION"
  "dget build_readiness_manifest_template ''dataset_id'' = JStr DATASET_2_ID"
  "dget build_readiness_manifest_template ''training_authorization'' = JStr ''not_authorized''"
  "dget build_readiness_manifest_template ''allowed_input_paths'' = strings DIALOGUE_ALLOWED_INPUT_PATHS"
  "jget (py_or (dget build_readiness_manifest_template ''license_gate'') (JObj [])) ''status'' = Ok (JStr LICENSE_STATUS_BLOCKED)"
  "missing_fields REQUIRED_READINESS_FIELDS message build_readiness_manifest_template = []"
  by (simp_all add: build_readiness_manifest_template_def Let_def license_gate_status_def py_or_def)
    (simp add: missing_fields_def REQUIRED_READINESS_FIELDS_def)

text \<open>The committed templates pass their own validation: the readiness manifest and the run manifest have no
  finding, and a fit-ready run lacks exactly the two hashes of its inputs.\<close>

theorem templates_validate:
  "validate_pre_run_manifest build_pre_run_manifest_template False = Ok [] \<and>
   (\<exists>findings. validate_pre_run_manifest build_pre_run_manifest_template True = Ok findings \<and>
      map gf_path findings = REQUIRED_MATERIALIZED_HASH_FIELDS) \<and>
   validate_readiness_manifest build_readiness_manifest_template = Ok []"
proof (intro conjI)
  have "check_artifact_root build_pre_run_manifest_template = []"
    using root_passes [of "''risk-baseline-v0/''"] by (simp add: template_rooted)
  then show valid: "validate_pre_run_manifest build_pre_run_manifest_template False = Ok []"
    using rooted_validates [of "APPROVED_ARTIFACT_ROOT_PREFIX @ ''risk-baseline-v0/''"] by (simp only: template_rooted)
  show "\<exists>findings. validate_pre_run_manifest build_pre_run_manifest_template True = Ok findings \<and>
      map gf_path findings = REQUIRED_MATERIALIZED_HASH_FIELDS"
    using hashes_missing [OF valid] by (simp add: REQUIRED_MATERIALIZED_HASH_FIELDS_def template_fields is_sha256_def)
  have "py_iter (py_or (strings DIALOGUE_ALLOWED_INPUT_PATHS) (JList [])) = Ok (map JStr DIALOGUE_ALLOWED_INPUT_PATHS)"
    by (subst strings_truthy) (simp_all add: DIALOGUE_ALLOWED_INPUT_PATHS_def strings_def)
  then show "validate_readiness_manifest build_readiness_manifest_template = Ok []"
    by (simp only: validate_readiness_manifest_def readiness_template_fields bindR_Inr py_str_texts inputs_accepted)
      (simp add: expect_field_def readiness_template_fields)
qed

text \<open>The check of the artifact root compares texts only: a manifest whose root climbs out of the build
  directory with \<open>..\<close> has no finding, although the directory it names is outside the repository.\<close>

theorem artifact_root_escapes:
  "validate_pre_run_manifest (rooted_template (APPROVED_ARTIFACT_ROOT_PREFIX @ ''../../../../outside/'')) False = Ok [] \<and>
   resolve_path (parent @ [repository]) (APPROVED_ARTIFACT_ROOT_PREFIX @ ''../../../../outside/'') = Ok (parent @ [''outside'']) \<and>
   relative_to (parent @ [repository, ''build'']) (parent @ [''outside'']) = None"
proof (intro conjI)
  show "validate_pre_run_manifest (rooted_template (APPROVED_ARTIFACT_ROOT_PREFIX @ ''../../../../outside/'')) False = Ok []"
    unfolding rooted_validates by (subst root_passes) simp_all
  show "resolve_path (parent @ [repository]) (APPROVED_ARTIFACT_ROOT_PREFIX @ ''../../../../outside/'') = Ok (parent @ [''outside''])"
    by (simp add: resolve_path_def APPROVED_ARTIFACT_ROOT_PREFIX_def path_parts_def walk_part_def butlast_append)
  show "relative_to (parent @ [repository, ''build'']) (parent @ [''outside'']) = None"
    by (simp add: relative_to_def)
qed

section \<open>Accepted manifests\<close>

text \<open>A field on the allowlist, or source metadata that the manifest approves.\<close>

definition feature_allowed :: "bool \<Rightarrow> string \<Rightarrow> bool" where
  "feature_allowed approved p \<longleftrightarrow>
     set (path_tokens p) \<inter> set BLOCKED_FIELD_TOKENS = {} \<and> p \<notin> set BLOCKED_EXACT_FEATURE_PATHS \<and>
     (if matches_any SOURCE_METADATA_FEATURE_PATHS p then approved else matches_any DEFAULT_ALLOWED_FEATURE_PATHS p)"

lemma feature_path_accepted:
  assumes "check_feature_path DEFAULT_ALLOWED_FEATURE_PATHS SOURCE_METADATA_FEATURE_PATHS approved raw = []"
  shows "feature_allowed approved (normalize_feature_path raw)"
  using assms blocked_in_iff [of BLOCKED_FIELD_TOKENS "normalize_feature_path raw"]
  by (simp add: check_feature_path_def Let_def feature_allowed_def split: if_splits)

lemma check_metrics_clean:
  assumes "check_metrics m = Ok []" and "metric \<in> set REQUIRED_PLANNED_METRICS"
  shows "py_in (JStr metric) (py_or (dget m ''planned_metrics'') (JList [])) = Ok True"
proof -
  have "py_in (JStr x) v = Ok True" if "filterR (\<lambda>metric. bindR (py_in (JStr metric) v) (\<lambda>b. Ok (\<not> b))) xs = Ok []" "x \<in> set xs" for v x xs
    using that by (induction xs) (auto simp: result_simps split: if_splits)
  then show ?thesis
    using assms by (auto simp: check_metrics_def result_simps)
qed

text \<open>C24. A run manifest without findings authorises nothing: training stays unauthorised, nothing is wired into
  the runtime, the examples have weight zero, artifacts are named under the approved root, the required metrics
  are planned, and every field it asks for is on the allowlist, or is source metadata it approves.\<close>

theorem accepted_manifest_authorises_nothing:
  assumes "validate_pre_run_manifest m require_hashes = Ok []"
  shows "dget m ''training_authorization'' = JStr ''not_authorized'' \<and> dget m ''runtime_integration'' = JStr ''none'' \<and>
    py_eq (dget m ''training_weight'') (JFloat (Num 0)) \<and> check_artifact_root m = [] \<and>
    (\<forall>metric \<in> set REQUIRED_PLANNED_METRICS. py_in (JStr metric) (py_or (dget m ''planned_metrics'') (JList [])) = Ok True) \<and>
    (\<exists>items. py_iter (py_or (dget m ''approved_feature_paths'') (JList [])) = Ok items \<and>
       (\<forall>item \<in> set items. feature_allowed (truthy (dget m ''source_metadata_approved'')) (normalize_feature_path (py_str item)))) \<and>
    (require_hashes \<longrightarrow> (\<forall>field \<in> set REQUIRED_MATERIALIZED_HASH_FIELDS. is_sha256 (dget m field)))"
proof -
  obtain items where items: "py_iter (py_or (dget m ''approved_feature_paths'') (JList [])) = Ok items"
      "check_feature_allowlist (map py_str items) (truthy (dget m ''source_metadata_approved'')) DEFAULT_ALLOWED_FEATURE_PATHS = []"
    and metrics: "check_metrics m = Ok []" and dir: "check_artifact_root m = []"
    and expected: "expect_field m ''runtime_integration'' (JStr ''none'') ''runtime_integration_not_allowed''
           ''Dataset #1 baseline manifests must not wire runtime behavior'' = []"
      "expect_field m ''training_authorization'' (JStr ''not_authorized'') ''training_authorization_not_allowed''
           ''this infrastructure convention does not authorize training'' = []"
      "expect_field m ''training_weight'' (JFloat (Num 0)) ''training_weight_must_remain_zero''
           ''Dataset #1 examples remain weight 0.0 in this pass'' = []"
    and hashes: "require_hashes \<longrightarrow> filter (\<lambda>field. \<not> is_sha256 (dget m field)) REQUIRED_MATERIALIZED_HASH_FIELDS = []"
    using assms by (cases require_hashes) (auto simp: validate_pre_run_manifest_def result_simps)
  have "feature_allowed (truthy (dget m ''source_metadata_approved'')) (normalize_feature_path (py_str item))" if "item \<in> set items" for item
    using items(2) that unfolding check_feature_allowlist_def Let_def normal_tables by (intro feature_path_accepted) simp
  moreover have "\<forall>metric \<in> set REQUIRED_PLANNED_METRICS. py_in (JStr metric) (py_or (dget m ''planned_metrics'') (JList [])) = Ok True"
    using check_metrics_clean [OF metrics] by blast
  moreover have "require_hashes \<longrightarrow> (\<forall>field \<in> set REQUIRED_MATERIALIZED_HASH_FIELDS. is_sha256 (dget m field))"
    using hashes by (auto simp: filter_empty_conv)
  moreover have "dget m ''training_authorization'' = JStr ''not_authorized''" "dget m ''runtime_integration'' = JStr ''none''"
      "py_eq (dget m ''training_weight'') (JFloat (Num 0))"
    using expected by (simp_all add: expect_field_def split: if_splits)
  ultimately show ?thesis
    using items(1) dir by blast
qed

text \<open>The witness is the committed template.\<close>

lemma template_valid: "validate_pre_run_manifest (rooted_template (APPROVED_ARTIFACT_ROOT_PREFIX @ ''risk-baseline-v0/'')) False = Ok []"
  unfolding rooted_validates by (subst root_passes) simp_all

theorem accepted_manifest_authorises_nothing_witness:
  "dget build_pre_run_manifest_template ''training_authorization'' = JStr ''not_authorized''"
  using accepted_manifest_authorises_nothing [OF template_valid] by (simp only: template_rooted)

section \<open>Conversion and labels\<close>

text \<open>The gate and the request together: rows are read only under a license declared everywhere.\<close>

theorem bounded_conversion_needs_license:
  "validate_bounded_conversion_request limit dir (license_gate_status local_license metadata hf github) = [] \<longleftrightarrow>
     truthy local_license \<and> hf \<and> github \<and> 1 \<le> limit \<and> limit \<le> MAX_BOUNDED_REAL_ROWS \<and>
     (let normalized = replace_str [CHR 0x5C] ''/'' dir in
      \<not> substring ''C:/pneuma-data'' normalized \<and>
      take (length APPROVED_BOUNDED_ARTIFACT_ROOT) normalized = APPROVED_BOUNDED_ARTIFACT_ROOT)"
  by (auto simp: validate_bounded_conversion_request_def license_gate_status_def Let_def)

theorem accepted_label_provenance:
  assumes "validate_label_provenance provenance = Ok []"
  shows "dget provenance ''kind'' \<in> {JStr ''constructed_label'', JStr ''simulated_label''} \<and>
    dget provenance ''confidence'' \<in> {JStr ''low'', JStr ''medium''}"
proof -
  have kind: "dget provenance ''kind'' \<in> {JStr ''constructed_label'', JStr ''simulated_label''}"
    using assms by (auto simp: validate_label_provenance_def LABEL_PROVENANCE_ALLOWED_KINDS_def in_strings_def result_simps Let_def
        split: if_splits json.splits)
  obtain rank most where "confidence_rank (dget provenance ''confidence'') = Ok rank"
      "confidence_rank (JStr LABEL_PROVENANCE_MAX_CONFIDENCE) = Ok most" "\<not> most < rank"
    using assms by (auto simp: validate_label_provenance_def result_simps split: if_splits)
  then have "dget provenance ''confidence'' \<in> {JStr ''low'', JStr ''medium''}"
    by (cases "dget provenance ''confidence''")
      (auto simp: confidence_rank_def CONFIDENCE_RANK_def LABEL_PROVENANCE_MAX_CONFIDENCE_def split: if_splits)
  with kind show ?thesis by blast
qed

section \<open>Shared repositories\<close>

lemma digest_set_members:
  "digest_set repos = Ok ds \<Longrightarrow> set ds = {d. \<exists>r \<in> set repos. canonicalize_repo r = Ok d}"
proof -
  have "mapR canonicalize_repo repos = Ok ds \<Longrightarrow> set ds = {d. \<exists>r \<in> set repos. canonicalize_repo r = Ok d}" for ds
    by (induction repos arbitrary: ds) (auto simp: result_simps)
  then show "digest_set repos = Ok ds \<Longrightarrow> set ds = {d. \<exists>r \<in> set repos. canonicalize_repo r = Ok d}"
    by (auto simp: digest_set_def result_simps)
qed

lemma digest_set_defined: "digest_set repos = Ok ds \<Longrightarrow> r \<in> set repos \<Longrightarrow> \<exists>d. canonicalize_repo r = Ok d"
proof -
  have "mapR canonicalize_repo repos = Ok ds \<Longrightarrow> r \<in> set repos \<Longrightarrow> \<exists>d. canonicalize_repo r = Ok d" for ds
    by (induction repos arbitrary: ds) (auto simp: result_simps)
  then show "digest_set repos = Ok ds \<Longrightarrow> r \<in> set repos \<Longrightarrow> \<exists>d. canonicalize_repo r = Ok d"
    by (auto simp: digest_set_def result_simps)
qed

lemma overlap_verdict:
  assumes "check_overlap as bs = Ok report"
  shows "dget report ''joint_training_safe'' = JBool (\<forall>a \<in> set as. \<forall>b \<in> set bs. canonicalize_repo a \<noteq> canonicalize_repo b)"
proof -
  obtain ds es where ds: "digest_set as = Ok ds" and es: "digest_set bs = Ok es"
    and report: "dget report ''joint_training_safe'' = JBool (filter (\<lambda>d. d \<in> set es) ds = [])"
    using assms by (auto simp: check_overlap_def result_simps Let_def)
  have "filter (\<lambda>d. d \<in> set es) ds = [] \<longleftrightarrow> set ds \<inter> set es = {}"
    by (auto simp: filter_empty_conv)
  also have "\<dots> \<longleftrightarrow> (\<forall>a \<in> set as. \<forall>b \<in> set bs. canonicalize_repo a \<noteq> canonicalize_repo b)"
    unfolding digest_set_members [OF ds] digest_set_members [OF es] using digest_set_defined [OF ds] by fastforce
  finally show ?thesis
    using report by simp
qed

lemma hex_char_range: "d < 16 \<Longrightarrow> 33 \<le> byte (hex_char d) \<and> byte (hex_char d) < 127"
  by (auto simp: hex_char_def of_char_of)

lemma hex2_range: "list_all (\<lambda>c. 33 \<le> byte c \<and> byte c < 127) (hex2 n)"
  by (simp add: hex2_def hex_char_range)

text \<open>A digest is canonical already.\<close>

lemma digest_canonical_repo:
  assumes "repo_digest repo = Ok d"
  shows "canonicalize_repo d = Ok d"
proof -
  have d: "d = DIGEST_PREFIX @ sha256_hex repo"
    using assms by (auto simp: repo_digest_def utf8_encode_def split: if_splits)
  have "list_all (\<lambda>c. 33 \<le> byte c \<and> byte c < 127) d"
    unfolding d list_all_append sha256_hex_def
    by (intro conjI list_all_concat_map hex2_range) (simp add: DIGEST_PREFIX_def)
  then have "\<forall>c \<in> set d. byte c < 127 \<and> \<not> space_point (byte c)"
    by (auto simp: list_all_iff not_space_point)
  moreover have "d \<noteq> []"
    by (simp add: d DIGEST_PREFIX_def)
  ultimately have "text_strip d = d"
    by (intro text_strip_ascii) (auto simp: list_all_iff)
  then show ?thesis
    by (simp add: canonicalize_repo_def Let_def d)
qed

text \<open>C25. The registry calls two datasets safe to train on jointly exactly when no repository of one has the
  canonical digest of a repository of the other; in particular a repository that one lane stores by name and
  the other by its digest is always caught.\<close>

theorem shared_repository_is_never_safe:
  assumes "check_overlap as bs = Ok report"
  shows "(dget report ''joint_training_safe'' = JBool True \<longleftrightarrow>
            (\<forall>a \<in> set as. \<forall>b \<in> set bs. canonicalize_repo a \<noteq> canonicalize_repo b)) \<and>
         (\<forall>a \<in> set as. \<forall>d \<in> set bs. take (length DIGEST_PREFIX) (text_strip a) \<noteq> DIGEST_PREFIX \<and> repo_digest (text_strip a) = Ok d \<longrightarrow>
            dget report ''joint_training_safe'' = JBool False)"
proof (intro conjI ballI impI)
  show "dget report ''joint_training_safe'' = JBool True \<longleftrightarrow> (\<forall>a \<in> set as. \<forall>b \<in> set bs. canonicalize_repo a \<noteq> canonicalize_repo b)"
    using overlap_verdict [OF assms] by simp
  fix a d
  assume a: "a \<in> set as" and d: "d \<in> set bs"
    and digest: "take (length DIGEST_PREFIX) (text_strip a) \<noteq> DIGEST_PREFIX \<and> repo_digest (text_strip a) = Ok d"
  have "canonicalize_repo a = Ok d"
    using digest by (simp add: canonicalize_repo_def Let_def)
  moreover have "canonicalize_repo d = Ok d"
    using digest digest_canonical_repo by blast
  ultimately have "\<not> (\<forall>a \<in> set as. \<forall>b \<in> set bs. canonicalize_repo a \<noteq> canonicalize_repo b)"
    using a d by force
  then show "dget report ''joint_training_safe'' = JBool False"
    using overlap_verdict [OF assms] by simp
qed

lemma sample_repository: "text_strip ''owner/repo'' = ''owner/repo''"
  by (rule text_strip_ascii) (simp_all add: space_point_def)

lemma sample_repo_digest: "repo_digest (text_strip ''owner/repo'') = Ok (DIGEST_PREFIX @ sha256_hex ''owner/repo'')"
  by (simp add: sample_repository repo_digest_def utf8_encode_def)

lemma sample_named: "take (length DIGEST_PREFIX) (text_strip ''owner/repo'') \<noteq> DIGEST_PREFIX"
  by (simp add: sample_repository DIGEST_PREFIX_def)

lemma sample_overlap: "\<exists>report. check_overlap [''owner/repo''] [DIGEST_PREFIX @ sha256_hex ''owner/repo''] = Ok report"
proof -
  have "canonicalize_repo ''owner/repo'' = Ok (DIGEST_PREFIX @ sha256_hex ''owner/repo'')"
    using sample_named sample_repo_digest by (simp add: canonicalize_repo_def Let_def)
  then show ?thesis
    using digest_canonical_repo [OF sample_repo_digest] by (simp add: check_overlap_def digest_set_def Let_def)
qed

theorem shared_repository_is_never_safe_witness:
  "\<exists>report. check_overlap [''owner/repo''] [DIGEST_PREFIX @ sha256_hex ''owner/repo''] = Ok report \<and>
     dget report ''joint_training_safe'' = JBool False"
proof -
  obtain report where report: "check_overlap [''owner/repo''] [DIGEST_PREFIX @ sha256_hex ''owner/repo''] = Ok report"
    using sample_overlap by blast
  show ?thesis
    using shared_repository_is_never_safe [OF report] report sample_named sample_repo_digest by simp
qed

end
