(* ===== verification/Spec2Isabelle.thy ===== *)
theory Spec2Isabelle
  imports RunnerProps OutputProps TimelineProps BridgeProps SampleExperiment BaselineProps ReviewProps PairProps SplitProps GuardManifests
begin

text \<open>
  \<^bold>\<open>pneuma-lab: the psyche, its interventions, the evidence scorer and the adversarial review.\<close>

  The program under \<open>src/src/pneuma_lab\<close> replays recorded agent timelines through a \<^emph>\<open>psyche under test\<close>,
  perturbs its interior by interventions, and grades how much evidence the outputs give on a ladder of
  levels 0 to 4. This development models that core as HOL functions over JSON values and binary64 floats
  and proves what makes the grades trustworthy: the interior stays in range, receipts bind to the tick they
  came from, the null arm equals the control arm, and Level 4 is reached only through a verified paired run.

  \<^bold>\<open>How the parts interact.\<close> A timeline is a list of frames (JSON objects). \<open>group_into_ticks\<close>
  (\<open>replay/frames.py\<close>) cuts it into ticks; \<open>InterventionSchedule\<close> says which interventions are active in each;
  \<open>ReplayHarness.run\<close> resets the psyche, feeds it the ticks, validates every frame and calls
  \<open>ConsciousnessEvidenceScorer.score\<close>. \<open>PairedReplayRunner.run\<close> replays control, treated and null arms in
  counterbalanced orders, issues a provenance over their digests and calls the paired scorer, which compares the
  arms (\<open>interventions/report.py\<close>, \<open>evals/grounding.py\<close>) and climbs the ladder. \<open>certify\<close> probes a factory with the
  same runner before it may earn Level 4. \<open>replay/bridge.py\<close> turns a recorded trajectory into such a timeline, and
  the baseline subject of \<open>nervous_system\<close> is a second psyche under the same runner.

  A separate program, \<open>adversarial_review\<close>, reviews a study: \<open>run_campaign\<close> checks digest-bound inputs, asks each of
  the reviewer roles for a proposal, grounds every finding against the inputs, and lets the editor, the
  falsification chair and the disposition decide over the sealed reports whether a launch is blocked.

  \<^bold>\<open>The theories, bottom up.\<close>
  \<^item> \<open>Prelude\<close>: errors as values (\<open>Ok\<close>, \<open>Raise\<close>, \<open>bindR\<close>), effectful list traversals, decimal text, the
    collection \<open>result_simps\<close>.
  \<^item> \<open>PyFloat\<close>: Python floats as binary64 over exact rationals: rounding, arithmetic, \<open>round\<close>, \<open>repr\<close>,
    fixed-point formatting, compensated \<open>sum\<close>. Interval lemmas (\<open>fbound\<close>) carry the range invariants.
  \<^item> \<open>PyJson\<close>: JSON values with Python's truth, equality, conversions and \<open>json.dumps\<close>; strings are UTF-8 byte
    strings.
  \<^item> \<open>Hashing\<close>: \<open>psyche/hashing.py\<close> with SHA-256 executed over 32-bit words.
  \<^item> \<open>Homeostats\<close>: \<open>manifold.py\<close>, \<open>mood.py\<close>, \<open>drives.py\<close>, \<open>prototypes.py\<close>. \<open>math.exp\<close> is the argument \<open>mexp\<close>.
  \<^item> \<open>Authority\<close>: \<open>psyche/authority.py\<close>, the earned authority tiers.
  \<^item> \<open>Perturbation\<close>: \<open>interventions/operations.py\<close> and \<open>perturbation.py\<close>.
  \<^item> \<open>Validation\<close>: \<open>schemas/validate.py\<close>; the JSON-Schema engine is the argument \<open>se\<close> (kind and frame to errors).
  \<^item> \<open>Frames\<close>: \<open>psyche/interface.py\<close>, \<open>replay/frames.py\<close>, \<open>interventions/schedule.py\<close>.
  \<^item> \<open>ReferencePsyche\<close>, \<open>ReferenceTick\<close>: \<open>psyche/reference.py\<close>; the record \<open>psyche\<close> holds the attributes of
    the class, \<open>stages\<close> the locals of \<open>tick\<close>, and \<open>tick\<close> composes \<open>tick_stages\<close> with \<open>emit\<close>.
    \<open>ReferenceProps\<close> relates ticks of equal interiors, \<open>ReferenceInvariant\<close> proves the range invariant.
  \<^item> \<open>HollowPsyche\<close>: \<open>psyche/hollow.py\<close>, the negative control.
  \<^item> \<open>Grounding\<close>, \<open>Report\<close>, \<open>Provenance\<close>, \<open>Evidence\<close>, \<open>Scorer\<close>: the evaluation side; \<open>Ladder\<close> holds the facts
    about the ladder.
  \<^item> \<open>Harness\<close>, \<open>Runner\<close>: the replay loop and the paired runner over an abstract subject. The locale
    \<open>resettable_subject\<close> is the contract "reset forgets the past", \<open>psyche_under_test\<close> adds a simulation under
    which neutral interventions are invisible; \<open>Subjects\<close> interprets both on the reference and the hollow psyche.
  \<^item> \<open>EvidenceProps\<close>, \<open>PsycheProps\<close>, \<open>RunProps\<close>, \<open>RunnerProps\<close>, \<open>ComponentProps\<close>, \<open>OutputProps\<close>, \<open>TimelineProps\<close>:
    the properties of scores, ticks, runs, paired runs, homeostats, emitted frames and timelines.
    \<open>SampleExperiment\<close> is a paired run that earns Level 4.
  \<^item> \<open>PyOrder\<close>, \<open>Bundles\<close>, \<open>Bridge\<close>, \<open>BridgeProps\<close>: sorting with Python's keys, bundle validation and
    \<open>replay/bridge.py\<close>.
  \<^item> \<open>Digests\<close>, \<open>BaselineSubject\<close>, \<open>ShadowFrames\<close>, \<open>SubjectRuntime\<close>, \<open>BaselineProps\<close>: the subject of
    \<open>nervous_system\<close>, its shadow frames, ablation and runs. The trained model is an argument.
  \<^item> \<open>PyText\<close>, \<open>PyLoads\<close>: Python's \<open>str\<close> over code points and \<open>json.loads\<close>. The decoder takes fuel; \<open>loads\<close>
    passes twice the length of the text and \<open>loads_fuel\<close> shows that no text needs more. \<open>PyRoundtrip\<close> shows that
    the decoder inverts both encoders, \<open>PyCanonical\<close> that their text is ASCII and decides the value up to key order.
  \<^item> \<open>ReviewRecords\<close>, \<open>ReviewRoles\<close>, \<open>ReviewInputs\<close>, \<open>ReviewGrounding\<close>, \<open>ReviewPanel\<close>, \<open>ReviewCampaign\<close>,
    \<open>ReviewReport\<close>: the files of \<open>adversarial_review\<close> in the order they call each other; the campaign root is a
    tree of files, a proposal source is a function. \<open>ReviewFacts\<close>, \<open>ReviewSample\<close> and \<open>ReviewProps\<close> hold the shared
    facts, a sample campaign and the properties: only grounded findings block, nothing is dropped, replay is
    lossless and seals are tamper evident.
  \<^item> \<open>CrashFiles\<close>: a file system of names, inodes and bytes, whose operations list every state they pass
    through, and HMAC. \<open>CrashTriples\<close> reasons about them: triples with a crash condition, \<open>reached\<close> for a run
    cut off and recoveries cut off, and the locale \<open>crash_protocol\<close>. \<open>PyTorn\<close> shows that a torn JSON object never
    decodes.
  \<^item> \<open>PairPublication\<close>: \<open>resampling_null/task6_state.py\<close> and its use in \<open>blinding.py\<close>. \<open>PairJournal\<close> shows that the
    journal reads back and that a torn one is refused, \<open>PairFacts\<close>, \<open>PairStages\<close> and \<open>PairSteps\<close> follow a
    publication call by call, \<open>PairRecovery\<close> interprets \<open>crash_protocol\<close>, \<open>PairProps\<close> holds the properties.
  \<^item> \<open>Splits\<close>: \<open>training/splits.py\<close>. \<open>SplitFacts\<close> gives the groups and the assignment in closed form and the balance of
    the greedy choice, \<open>SplitProps\<close> the properties.
  \<^item> \<open>PyCase\<close>: \<open>str.lower\<close> over all of Unicode. \<open>Guardrails\<close>, \<open>DialogueGuard\<close>, \<open>TracesGuard\<close>, \<open>LeakageRegistry\<close>:
    \<open>training/governance.py\<close>, \<open>training/dialogue_governance.py\<close>, \<open>governance/open_swe_traces.py\<close> and
    \<open>training/leakage_registry.py\<close>; the path functions the first three share verbatim are defined once.
    \<open>GuardFacts\<close> follows a path segment through normalisation, \<open>GuardScan\<close> states the contract of an input scan
    (the locales \<open>label_scan\<close> and \<open>plain_scan\<close>), which \<open>GuardProps\<close> interprets on the three scans; \<open>GuardTables\<close>
    and \<open>GuardManifests\<close> treat allowlists, manifests and the registry.

  A third program, the resampling study, publishes an unblinded receipt and its analysis as a pair:
  \<open>begin_paired_publication\<close> writes an authenticated journal, each entry is staged in a private file and linked to
  its target, and \<open>recover_paired_publication\<close> finishes or erases what a crash left.

  \<open>training/splits.py\<close> divides converted examples into train, validation and test sets by repository, before any
  training reads them. Before that, the guardrails scan the input of every example for fields that would give the
  label away, check the manifest of a run, and compare the repositories of two datasets by digest.

  \<^bold>\<open>Crashes.\<close> A crash stops the process between two system calls or inside a write, so a state of the file
  system is any prefix of the calls and, in a write, any prefix of the bytes; what was done survives. Files are
  regular, directories exist, one process runs at a time. The inode of a new file and the random tokens are
  arguments: the inode is not in use, and a plan's names are distinct and free at the start (\<open>plan_ok\<close>,
  \<open>clean_start\<close>).

  \<^bold>\<open>State and errors.\<close> Stateful methods are functions from the state to a result of output and new state. An
  exception is a \<open>Raise\<close> with its class; the state after a raise is not kept because no caller modelled here
  catches and continues. Python's unbounded integers are \<open>int\<close>, dictionaries are association lists in insertion
  order, sets that are only counted or compared are lists or HOL sets.

  \<^bold>\<open>Parameters.\<close> The JSON-Schema engine, \<open>math.exp\<close> and the subject factories are arguments; no theorem
  assumes more of them than its statement says. Apart from the JSON decoder there is no fuel: every
  loop of the modelled code is structural or has a measure.

  \<^bold>\<open>Not modelled.\<close> Reading and writing files (other than in the paired publication) and its lock, schema loading, command-line and campaign-spec parsing, and the
  other packages of the repository: model training, cloud, the rest of the resampling study, voice, gauge and dataset adapters. They are separate programs that share the
  package name, built on numerical libraries, cloud services, files or model providers.
\<close>

section \<open>Causality of interventions\<close>

text \<open>
  C1. The null condition of the paired design holds for the reference psyche by construction: a replay
  whose schedule is neutralized (every operation replaced by \<open>restore\<close>) emits, tick for tick, exactly
  the outputs of the control replay, and raises where the control replay raises. The schedule only
  has to name object targets and hashable ids.
\<close>

theorem null_replay_is_control:
  assumes "wf_schedule w"
  shows "outputs_of (run_ticks se (reference_subject mexp) v sm (Some (neutralized w)) ticks (sj_reset (reference_subject mexp) s))
       = outputs_of (run_ticks se (reference_subject mexp) v sm None ticks (sj_reset (reference_subject mexp) t))"
  by (rule ref.null_run) (rule assms)

theorem null_replay_is_control_witness:
  "wf_schedule [[sample_restore]] \<and>
   outputs_of (run_ticks accept_all (reference_subject (\<lambda>_. Num 1)) False False (Some (neutralized [[sample_restore]]))
     [sample_tick] (sj_reset (reference_subject (\<lambda>_. Num 1)) reset_psyche))
   = outputs_of (run_ticks accept_all (reference_subject (\<lambda>_. Num 1)) False False None
     [sample_tick] (sj_reset (reference_subject (\<lambda>_. Num 1)) reset_psyche))"
proof -
  have w: "wf_schedule [[sample_restore]]"
    by (simp add: wf_schedule_def wf_intervention_def target_ok_def hashable_ids_def sample_restore_def target_of_def
          py_or_def is_dict_def)
  show ?thesis
    by (rule conjI [OF w null_replay_is_control [OF w]])
qed

section \<open>The evidence ladder\<close>

text \<open>
  C2. Soundness of Level 4. When paired scoring issues a Level 4 frame, the scorer was given provenance
  whose integrity check reports nothing, exactly one named intervention is attached to the timeline,
  it is not the null operation, it was executed once, its test passed with an observed change above
  the threshold, the null arm's frames equal the control arm's, the treated trace is complete and no
  unperturbed trace claims an intervention.
\<close>

theorem level4_sound:
  assumes "score_paired_with se rq fs c t n ex m prov = Ok (ev, rep)" and "dget ev ''evidence_level'' = JInt 4"
  shows "\<exists>p iv eid r.
           prov = Some p \<and> integrity_errors p fs c t n = Ok [] \<and>
           fst (unique_intervention_frames fs) = [iv] \<and> dget iv ''experiment_id'' = JStr eid \<and> eid \<noteq> [] \<and>
           dget iv ''operation'' \<noteq> JStr ''restore'' \<and> ex = JInt 1 \<and>
           evaluate_intervention iv c t n = Ok r \<and> tr_passed r \<and>
           flt_less (lit (1 / 10 ^ 6)) (fabs (tr_observed_delta r)) \<and>
           null_output_equivalent c n \<and> unperturbed_traces_are_clean [c, n]"
  using assms(1)
proof (rule score_paired_withE)
  fix r tests whole changed prec perr
  assume cmp: "compare_arms fs c t n = Ok (tests, whole, changed)"
    and pv: "case prov of None \<Rightarrow> perr \<noteq> [] | Some p \<Rightarrow> integrity_errors p fs c t n = Ok perr \<and> prec = provenance_record p"
    and sc: "score_core se r c m (intervention_gate fs ex (report_summary tests) tests perr)
       \<lparr>pf_tests = report_summary tests, pf_null_passed = null_ok tests (null_output_equivalent c n),
        pf_trace_complete = whole, pf_report_changed = changed, pf_provenance = prec\<rparr> = Ok ev"
  from level4_requires [OF sc assms(2)]
  have ready: "promotion_ready (intervention_gate fs ex (report_summary tests) tests perr)"
    and nul: "null_output_equivalent c n" and whole
    by (simp_all add: null_ok_def)
  from cmp have run: "mapR (\<lambda>iv. evaluate_intervention iv c t n) (fst (unique_intervention_frames fs)) = Ok tests"
    by (rule compare_armsE)
  from cmp \<open>whole\<close> have "unperturbed_traces_are_clean [c, n]"
    by (auto elim: compare_armsE)
  with gate_ready [OF ready run] nul pv show ?thesis
    by (cases prov) auto
qed

theorem level4_sound_witness:
  "\<exists>p ev rep r.
     score_paired_with accept_all (JStr ''r'') experiment_timeline control_arm treated_arm control_arm (JInt 1) True (Some p) =
       Ok (ev, rep) \<and>
     dget ev ''evidence_level'' = JInt 4 \<and>
     integrity_errors p experiment_timeline control_arm treated_arm control_arm = Ok [] \<and>
     evaluate_intervention boost_frame control_arm treated_arm control_arm = Ok r \<and> tr_passed r"
proof -
  obtain p ev rep where
    scored: "score_paired_with accept_all (JStr ''r'') experiment_timeline control_arm treated_arm control_arm (JInt 1) True (Some p) = Ok (ev, rep)"
    and four: "dget ev ''evidence_level'' = JInt 4"
    using experiment_earns_level4 by blast
  from level4_sound [OF scored four] obtain r where
    "integrity_errors p experiment_timeline control_arm treated_arm control_arm = Ok []"
    "evaluate_intervention boost_frame control_arm treated_arm control_arm = Ok r" "tr_passed r"
    by (auto simp: experiment_frames)
  with scored four show ?thesis by blast
qed

text \<open>
  A single replay never certifies itself: \<open>score\<close> yields a level between 0 and 3, and its audit status
  is never \<open>internally_audited\<close>, whatever the frames and the executed count.
\<close>

theorem score_never_level4:
  assumes "score se rq fs outs ex m = Ok fr"
  shows "(\<exists>n. dget fr ''evidence_level'' = JInt n \<and> 0 \<le> n \<and> n \<le> 3) \<and>
         dget fr ''audit_status'' \<noteq> JStr ''internally_audited''"
  using assms by (rule scoreE) (auto dest: score_core_below_4 simp: gate_no_results)

theorem score_never_level4_witness:
  "\<exists>fr. score accept_all (JStr ''r'') [one_world] [] (JInt 0) False = Ok fr \<and>
     (\<exists>n. dget fr ''evidence_level'' = JInt n \<and> 0 \<le> n \<and> n \<le> 3)"
proof -
  have "case score accept_all (JStr ''r'') [one_world] [] (JInt 0) False of Inl _ \<Rightarrow> False | Inr _ \<Rightarrow> True"
    by code_simp
  then obtain fr where "score accept_all (JStr ''r'') [one_world] [] (JInt 0) False = Ok fr"
    by (auto split: sum.splits)
  with score_never_level4 [OF this] show ?thesis by blast
qed

text \<open>
  Raw paired outputs, which carry no runner-issued provenance, stay below Level 4 even when every
  other gate passes.
\<close>

theorem raw_paired_never_level4:
  assumes "score_paired se rq fs c t n ex m = Ok (ev, rep)"
  shows "\<exists>k. dget ev ''evidence_level'' = JInt k \<and> 0 \<le> k \<and> k \<le> 3"
  using assms unfolding score_paired_def
  by (rule score_paired_withE) (auto dest: gate_provenance score_core_below_4(1))

theorem raw_paired_never_level4_witness:
  "\<exists>ev rep k. score_paired accept_all (JStr ''r'') [one_world] [] [] [] (JInt 0) False = Ok (ev, rep) \<and>
     dget ev ''evidence_level'' = JInt k \<and> k \<le> 3"
proof -
  have "case score_paired accept_all (JStr ''r'') [one_world] [] [] [] (JInt 0) False of Inl _ \<Rightarrow> False | Inr _ \<Rightarrow> True"
    by code_simp
  then obtain ev rep where "score_paired accept_all (JStr ''r'') [one_world] [] [] [] (JInt 0) False = Ok (ev, rep)"
    by (auto split: sum.splits)
  with raw_paired_never_level4 [OF this] show ?thesis by blast
qed

end
